(* ===== verification/Prelude.thy ===== *)
theory Prelude
  imports Complex_Main "HOL-Library.List_Lexorder" "HOL-Library.Char_ord" "HOL-Library.Code_Target_Numeral"
begin

text \<open>
  Shared vocabulary of the GE360 Bridge development: Python exceptions as the left side of
  a sum type and the bind that propagates them, the string methods the program uses
  (characters are the code points 0 to 255), \<open>sorted(set(xs))\<close>, and the list lemmas the
  components share. The collections \<open>res_simps\<close> and \<open>str_simps\<close> carry the component proofs.
\<close>

named_theorems res_simps "inversion of the result combinators"
named_theorems str_simps "string method lemmas"

section \<open>Results and exceptions\<close>

datatype py_error =
    BridgeError string
  | ValueError string
  | TypeError
  | AttributeError
  | OverflowError
  | RuntimeError string
  | OSError string
  | DiagnosticError string
  | OtherError string  \<comment> \<open>another class of exception, by its name\<close>

type_synonym 'a res = "py_error + 'a"

definition rbind :: "'a res \<Rightarrow> ('a \<Rightarrow> 'b res) \<Rightarrow> 'b res" where
  "rbind m f = (case m of Inl e \<Rightarrow> Inl e | Inr x \<Rightarrow> f x)"

definition ensure :: "bool \<Rightarrow> py_error \<Rightarrow> unit res" where
  "ensure b e = (if b then Inr () else Inl e)"

fun rmap :: "('a \<Rightarrow> 'b res) \<Rightarrow> 'a list \<Rightarrow> 'b list res" where
  "rmap f [] = Inr []"
| "rmap f (x # xs) = rbind (f x) (\<lambda>y. rbind (rmap f xs) (\<lambda>ys. Inr (y # ys)))"

definition is_ok :: "'a res \<Rightarrow> bool" where
  "is_ok r = (case r of Inl _ \<Rightarrow> False | Inr _ \<Rightarrow> True)"

lemma rbind_Inr_iff [res_simps]: "rbind m f = Inr y \<longleftrightarrow> (\<exists>x. m = Inr x \<and> f x = Inr y)"
  by (cases m) (auto simp: rbind_def)

lemma rbind_simps [simp]: "rbind (Inl e) f = Inl e" "rbind (Inr x) f = f x"
  by (simp_all add: rbind_def)

lemma ensure_Inr_iff [res_simps]: "ensure b e = Inr u \<longleftrightarrow> b"
  by (simp add: ensure_def)

lemma ensure_simps [simp]: "ensure True e = Inr ()" "ensure False e = Inl e"
  by (simp_all add: ensure_def)

lemma is_ok_simps [simp]: "is_ok (Inl e) = False" "is_ok (Inr x) = True"
  by (simp_all add: is_ok_def)

lemma is_ok_iff: "is_ok r \<longleftrightarrow> (\<exists>x. r = Inr x)"
  by (cases r) simp_all

lemma rmap_Inr_length: "rmap f xs = Inr ys \<Longrightarrow> length ys = length xs"
  by (induction xs arbitrary: ys) (auto simp: res_simps)

lemma rmap_Inr_iff: "rmap f xs = Inr ys \<longleftrightarrow> list_all2 (\<lambda>x y. f x = Inr y) xs ys"
  by (induction xs arbitrary: ys) (auto simp: res_simps list_all2_Cons1)

lemma rmap_Inr_in_set:
  "rmap f xs = Inr ys \<Longrightarrow> y \<in> set ys \<Longrightarrow> \<exists>x\<in>set xs. f x = Inr y"
  by (induction xs arbitrary: ys) (auto simp: res_simps)

lemma rmap_fixpoint: "(\<And>x. x \<in> set xs \<Longrightarrow> f x = Inr x) \<Longrightarrow> rmap f xs = Inr xs"
  by (induction xs) auto

text \<open>
  A validator of the program returns the normalised value. The contract every validator
  offers its callers: validating twice is validating once, so a value read back from a
  registry that was validated when it was written is accepted unchanged.
\<close>

locale validator =
  fixes validate :: "'a \<Rightarrow> 'a res"
  assumes validate_idem: "validate x = Inr y \<Longrightarrow> validate y = Inr y"
begin

lemma rmap_idem: "rmap validate xs = Inr ys \<Longrightarrow> rmap validate ys = Inr ys"
  by (rule rmap_fixpoint) (auto dest: rmap_Inr_in_set intro: validate_idem)

lemma validate_stable: "rbind (validate x) validate = validate x"
  by (cases "validate x") (auto intro: validate_idem)

end

section \<open>Characters and string methods\<close>

definition ord_of :: "char \<Rightarrow> nat" where
  "ord_of c = of_char c"

definition py_isspace :: "char \<Rightarrow> bool" where
  "py_isspace c = (let n = ord_of c in
     9 \<le> n \<and> n \<le> 13 \<or> 28 \<le> n \<and> n \<le> 32 \<or> n = 133 \<or> n = 160)"

definition lower_char :: "char \<Rightarrow> char" where
  "lower_char c = (let n = ord_of c in
     if 65 \<le> n \<and> n \<le> 90 \<or> 192 \<le> n \<and> n \<le> 222 \<and> n \<noteq> 215 then char_of (n + 32) else c)"

definition upper_char :: "char \<Rightarrow> char" where
  \<comment> \<open>exact on ASCII; the Latin-1 letters are left alone\<close>
  "upper_char c = (let n = ord_of c in if 97 \<le> n \<and> n \<le> 122 then char_of (n - 32) else c)"

definition is_digit :: "char \<Rightarrow> bool" where
  "is_digit c = (let n = ord_of c in 48 \<le> n \<and> n \<le> 57)"

definition is_alpha :: "char \<Rightarrow> bool" where
  "is_alpha c = (let n = ord_of c in 65 \<le> n \<and> n \<le> 90 \<or> 97 \<le> n \<and> n \<le> 122)"

definition is_alnum :: "char \<Rightarrow> bool" where
  "is_alnum c = (is_alpha c \<or> is_digit c)"

definition is_hex_lower :: "char \<Rightarrow> bool" where
  "is_hex_lower c = (is_digit c \<or> (let n = ord_of c in 97 \<le> n \<and> n \<le> 102))"

definition is_ascii :: "string \<Rightarrow> bool" where
  "is_ascii s = list_all (\<lambda>c. ord_of c < 128) s"

definition py_lower :: "string \<Rightarrow> string" where
  "py_lower s = map lower_char s"

definition py_upper :: "string \<Rightarrow> string" where
  "py_upper s = map upper_char s"

definition strip_by :: "(char \<Rightarrow> bool) \<Rightarrow> string \<Rightarrow> string" where
  "strip_by p s = rev (dropWhile p (rev (dropWhile p s)))"

definition rstrip_by :: "(char \<Rightarrow> bool) \<Rightarrow> string \<Rightarrow> string" where
  "rstrip_by p s = rev (dropWhile p (rev s))"

definition py_strip :: "string \<Rightarrow> string" where
  "py_strip s = strip_by py_isspace s"

definition starts_with :: "string \<Rightarrow> string \<Rightarrow> bool" where
  "starts_with p s = (take (length p) s = p)"

definition ends_with :: "string \<Rightarrow> string \<Rightarrow> bool" where
  "ends_with p s = starts_with (rev p) (rev s)"

fun contains_str :: "string \<Rightarrow> string \<Rightarrow> bool" where
  "contains_str p [] = (p = [])"
| "contains_str p (c # cs) = (starts_with p (c # cs) \<or> contains_str p cs)"

fun split_on :: "char \<Rightarrow> string \<Rightarrow> string list" where
  "split_on d [] = [[]]"
| "split_on d (c # cs) =
     (if c = d then [] # split_on d cs
      else case split_on d cs of [] \<Rightarrow> [[c]] | w # ws \<Rightarrow> (c # w) # ws)"

definition partition_at :: "char \<Rightarrow> string \<Rightarrow> string \<times> bool \<times> string" where
  "partition_at d s = (let a = takeWhile (\<lambda>c. c \<noteq> d) s; r = drop (length a) s
     in case r of [] \<Rightarrow> (a, False, []) | _ # b \<Rightarrow> (a, True, b))"

definition rpartition_at :: "char \<Rightarrow> string \<Rightarrow> string \<times> bool \<times> string" where
  \<comment> \<open>Python's rpartition: without the separator everything is in the last part\<close>
  "rpartition_at d s = (case partition_at d (rev s) of
      (b, True, a) \<Rightarrow> (rev a, True, rev b)
    | (b, False, _) \<Rightarrow> ([], False, s))"

fun py_join :: "string \<Rightarrow> string list \<Rightarrow> string" where
  "py_join sep [] = []"
| "py_join sep [x] = x"
| "py_join sep (x # y # ys) = x @ sep @ py_join sep (y # ys)"

definition is_linebreak :: "char \<Rightarrow> bool" where
  "is_linebreak c = (let n = ord_of c in
     10 \<le> n \<and> n \<le> 13 \<or> 28 \<le> n \<and> n \<le> 30 \<or> n = 133)"

fun split_lines_aux :: "string \<Rightarrow> string \<Rightarrow> string list" where
  "split_lines_aux cur [] = (if cur = [] then [] else [rev cur])"
| "split_lines_aux cur (c # cs) =
     (if ord_of c = 13 then
        (case cs of
           d # ds \<Rightarrow> if ord_of d = 10 then rev cur # split_lines_aux [] ds
                     else rev cur # split_lines_aux [] (d # ds)
         | [] \<Rightarrow> [rev cur])
      else if is_linebreak c then rev cur # split_lines_aux [] cs
      else split_lines_aux (c # cur) cs)"

definition py_splitlines :: "string \<Rightarrow> string list" where
  "py_splitlines s = split_lines_aux [] s"

fun words_aux :: "string \<Rightarrow> string \<Rightarrow> string list" where
  "words_aux cur [] = (if cur = [] then [] else [rev cur])"
| "words_aux cur (c # cs) =
     (if py_isspace c then (if cur = [] then words_aux [] cs else rev cur # words_aux [] cs)
      else words_aux (c # cur) cs)"

definition py_split :: "string \<Rightarrow> string list" where
  "py_split s = words_aux [] s"

subsection \<open>Regular expressions of the form one class, then up to n of another\<close>

definition class_fullmatch :: "(char \<Rightarrow> bool) \<Rightarrow> (char \<Rightarrow> bool) \<Rightarrow> nat \<Rightarrow> string \<Rightarrow> bool" where
  "class_fullmatch p q n s = (case s of [] \<Rightarrow> False | c # cs \<Rightarrow> p c \<and> list_all q cs \<and> length cs \<le> n)"

definition class_match_dollar :: "(char \<Rightarrow> bool) \<Rightarrow> (char \<Rightarrow> bool) \<Rightarrow> nat \<Rightarrow> string \<Rightarrow> bool" where
  \<comment> \<open>\<open>re.match\<close> of a pattern that ends in \<open>$\<close>: \<open>$\<close> also matches before a final newline\<close>
  "class_match_dollar p q n s =
     (class_fullmatch p q n s \<or>
      s \<noteq> [] \<and> last s = CHR 0x0A \<and> class_fullmatch p q n (butlast s))"

subsection \<open>Integers in text\<close>

definition digit_val :: "char \<Rightarrow> nat" where
  "digit_val c = ord_of c - 48"

fun digits_val :: "nat \<Rightarrow> string \<Rightarrow> nat" where
  "digits_val acc [] = acc"
| "digits_val acc (c # cs) = digits_val (10 * acc + digit_val c) cs"

fun digit_groups_ok :: "bool \<Rightarrow> string \<Rightarrow> bool" where
  \<comment> \<open>decimal digits with single underscores between them; the flag is: a digit came just before\<close>
  "digit_groups_ok b [] = b"
| "digit_groups_ok b (c # cs) =
     (if is_digit c then digit_groups_ok True cs
      else c = CHR ''_'' \<and> b \<and> digit_groups_ok False cs)"

definition nat_of_digits :: "string \<Rightarrow> nat option" where
  "nat_of_digits s = (if digit_groups_ok False s
     then Some (digits_val 0 (filter is_digit s)) else None)"

definition py_int :: "string \<Rightarrow> int option" where
  "py_int s = (case py_strip s of
       [] \<Rightarrow> None
     | c # cs \<Rightarrow>
         if c = CHR ''-'' then map_option (\<lambda>n. - int n) (nat_of_digits cs)
         else if c = CHR ''+'' then map_option int (nat_of_digits cs)
         else map_option int (nat_of_digits (c # cs)))"

fun nat_str :: "nat \<Rightarrow> string" where
  "nat_str n = (if n < 10 then [char_of (48 + n)] else nat_str (n div 10) @ [char_of (48 + n mod 10)])"

declare nat_str.simps [simp del]

definition int_str :: "int \<Rightarrow> string" where
  "int_str i = (if i < 0 then ''-'' @ nat_str (nat (- i)) else nat_str (nat i))"

subsection \<open>\<open>hmac.compare_digest\<close> on two strings\<close>

definition compare_digest :: "string \<Rightarrow> string \<Rightarrow> bool res" where
  "compare_digest a b = (if is_ascii a \<and> is_ascii b then Inr (a = b) else Inl TypeError)"

section \<open>Lemmas on the string methods\<close>

lemma ord_of_inject [simp]: "ord_of a = ord_of b \<longleftrightarrow> a = b"
  by (simp add: ord_of_def)

lemma ord_of_char_of [simp]: "n < 256 \<Longrightarrow> ord_of (char_of n) = n"
  by (simp add: ord_of_def)

lemma lower_char_idem [simp]: "lower_char (lower_char c) = lower_char c"
  by (auto simp: lower_char_def Let_def)

lemma py_lower_idem [simp]: "py_lower (py_lower s) = py_lower s"
  by (simp add: py_lower_def)

lemma length_py_lower [simp]: "length (py_lower s) = length s"
  by (simp add: py_lower_def)

lemma lower_char_isspace [simp]: "py_isspace (lower_char c) = py_isspace c"
  by (auto simp: py_isspace_def lower_char_def Let_def)

lemma dropWhile_idem: "dropWhile p (dropWhile p s) = dropWhile p s"
  by (induction s) auto

lemma dropWhile_fix_iff: "dropWhile p s = s \<longleftrightarrow> s = [] \<or> \<not> p (hd s)"
  by (cases s) (auto, metis dropWhile.simps(2) hd_dropWhile list.discI list.sel(1))

lemma strip_by_fix_iff:
  "strip_by p s = s \<longleftrightarrow> s = [] \<or> \<not> p (hd s) \<and> \<not> p (last s)"
proof
  assume "strip_by p s = s"
  then have eq: "rev (dropWhile p (rev (dropWhile p s))) = s" by (simp add: strip_by_def)
  have "length (dropWhile p (rev (dropWhile p s))) \<le> length (dropWhile p s)"
    by (metis length_dropWhile_le length_rev)
  moreover have "length (dropWhile p (rev (dropWhile p s))) = length s"
    by (metis eq length_rev)
  ultimately have "length (dropWhile p s) = length s"
    using length_dropWhile_le [of p s] by linarith
  then have 1: "dropWhile p s = s"
    by (metis append_eq_conv_conj append_self_conv2 length_0_conv add_cancel_left_left
        length_append takeWhile_dropWhile_id)
  with eq have "dropWhile p (rev s) = rev s" by (metis rev_rev_ident)
  with 1 show "s = [] \<or> \<not> p (hd s) \<and> \<not> p (last s)"
    by (auto simp: dropWhile_fix_iff hd_rev)
next
  assume "s = [] \<or> \<not> p (hd s) \<and> \<not> p (last s)"
  then show "strip_by p s = s"
    by (metis dropWhile_fix_iff hd_rev rev.simps(1) rev_rev_ident strip_by_def)
qed

lemma last_dropWhile': "dropWhile p s \<noteq> [] \<Longrightarrow> last (dropWhile p s) = last s"
  by (induction s) auto

lemma strip_by_ends:
  assumes "strip_by p s \<noteq> []"
  shows "\<not> p (hd (strip_by p s))" "\<not> p (last (strip_by p s))"
proof -
  let ?a = "dropWhile p s" and ?b = "dropWhile p (rev (dropWhile p s))"
  from assms have b: "?b \<noteq> []" by (simp add: strip_by_def)
  then have a: "?a \<noteq> []" by (metis dropWhile.simps(1) rev.simps(1))
  show "\<not> p (last (strip_by p s))"
    using b hd_dropWhile [of p "rev ?a"] by (simp add: strip_by_def last_rev)
  have "last ?b = last (rev ?a)" using b by (rule last_dropWhile')
  then have "hd (strip_by p s) = hd ?a"
    using a b by (simp add: strip_by_def hd_rev last_rev)
  then show "\<not> p (hd (strip_by p s))" using a hd_dropWhile by metis
qed

lemma strip_by_idem [simp]: "strip_by p (strip_by p s) = strip_by p s"
  by (metis strip_by_ends strip_by_fix_iff)

lemma py_strip_idem [simp]: "py_strip (py_strip s) = py_strip s"
  by (simp add: py_strip_def)

lemma strip_map_commute: "(\<And>c. p (f c) = p c) \<Longrightarrow> strip_by p (map f s) = map f (strip_by p s)"
  by (simp add: strip_by_def dropWhile_map rev_map comp_def)

lemma py_strip_lower: "py_strip (py_lower s) = py_lower (py_strip s)"
  by (simp add: py_strip_def py_lower_def strip_map_commute)

lemma py_strip_Nil [simp]: "py_strip [] = []"
  by (simp add: py_strip_def strip_by_def)

lemma py_lower_Nil_iff [simp]: "py_lower s = [] \<longleftrightarrow> s = []"
  by (simp add: py_lower_def)

lemma length_strip_le: "length (strip_by p s) \<le> length s"
  by (metis length_dropWhile_le length_rev order_trans strip_by_def)

lemma length_py_strip_le: "length (py_strip s) \<le> length s"
  by (simp add: py_strip_def length_strip_le)

lemma set_strip_by: "set (strip_by p s) \<subseteq> set s"
  by (auto simp: strip_by_def dest!: set_dropWhileD)

lemma set_py_strip: "set (py_strip s) \<subseteq> set s"
  by (simp add: py_strip_def set_strip_by)

lemma ends_with_split: "ends_with p s \<Longrightarrow> s = take (length s - length p) s @ p"
proof -
  assume "ends_with p s"
  then have "rev (take (length p) (rev s)) = p" by (simp add: ends_with_def starts_with_def)
  then have "drop (length s - length p) s = p" by (simp add: rev_take)
  then show ?thesis by (metis append_take_drop_id)
qed

lemma split_on_not_Nil [simp]: "split_on d s \<noteq> []"
  by (induction s) (auto split: list.splits)

lemma py_join_split_on: "py_join [d] (split_on d s) = s"
proof (induction s)
  case (Cons c s)
  obtain w ws where w: "split_on d s = w # ws" by (cases "split_on d s") auto
  show ?case
    by (cases ws) (use Cons w in auto)
qed simp

lemma split_on_no_sep: "w \<in> set (split_on d s) \<Longrightarrow> d \<notin> set w"
  by (induction s arbitrary: w) (auto split: if_splits list.splits)

lemma class_fullmatch_not_Nil [simp]: "\<not> class_fullmatch p q n []"
  by (simp add: class_fullmatch_def)

lemma class_fullmatch_length: "class_fullmatch p q n s \<Longrightarrow> length s \<le> Suc n"
  by (cases s) (auto simp: class_fullmatch_def)

lemma class_fullmatch_chars:
  "class_fullmatch p q n s \<Longrightarrow> (\<And>c. p c \<Longrightarrow> q c) \<Longrightarrow> c \<in> set s \<Longrightarrow> q c"
  by (cases s) (auto simp: class_fullmatch_def list_all_iff)

section \<open>Sorted duplicate-free lists: \<open>sorted(set(xs))\<close>\<close>

definition sorted_set :: "'a::linorder list \<Rightarrow> 'a list" where
  "sorted_set xs = sort (remdups xs)"

lemma set_sorted_set [simp]: "set (sorted_set xs) = set xs"
  by (simp add: sorted_set_def)

lemma sorted_sorted_set [simp]: "sorted (sorted_set xs)"
  by (simp add: sorted_set_def)

lemma distinct_sorted_set [simp]: "distinct (sorted_set xs)"
  by (simp add: sorted_set_def)

lemma sorted_set_cong: "set xs = set ys \<Longrightarrow> sorted_set xs = sorted_set ys"
  by (rule sorted_distinct_set_unique) auto

lemma sorted_set_id: "sorted xs \<Longrightarrow> distinct xs \<Longrightarrow> sorted_set xs = xs"
  by (simp add: sorted_set_def distinct_remdups_id sort_key_id_if_sorted)

lemma sorted_set_idem [simp]: "sorted_set (sorted_set xs) = sorted_set xs"
  by (simp add: sorted_set_id)

lemma sorted_set_Nil [simp]: "sorted_set [] = []"
  by (simp add: sorted_set_def)

section \<open>Lists with keys\<close>

lemma distinct_map_filter': "distinct (map f xs) \<Longrightarrow> distinct (map f (filter p xs))"
  by (induction xs) auto

lemma find_map_key:
  "distinct (map f xs) \<Longrightarrow> x \<in> set xs \<Longrightarrow> find (\<lambda>y. f y = f x) xs = Some x"
  by (induction xs) (auto simp: image_iff)

lemma find_Some_iff': "find p xs = Some x \<Longrightarrow> x \<in> set xs \<and> p x"
  by (auto simp: find_Some_iff)

fun map_first :: "('a \<Rightarrow> bool) \<Rightarrow> ('a \<Rightarrow> 'a) \<Rightarrow> 'a list \<Rightarrow> 'a list" where
  \<comment> \<open>a loop that changes the first entry that matches and stops\<close>
  "map_first p f [] = []"
| "map_first p f (x # xs) = (if p x then f x # xs else x # map_first p f xs)"

lemma map_map_first: "(\<And>x. k (f x) = k x) \<Longrightarrow> map k (map_first p f xs) = map k xs"
  by (induction xs) auto

lemma set_map_first: "y \<in> set (map_first p f xs) \<Longrightarrow> y \<in> set xs \<or> (\<exists>x\<in>set xs. p x \<and> y = f x)"
  by (induction xs) (auto split: if_splits)

lemma map_first_none: "find p xs = None \<Longrightarrow> map_first p f xs = xs"
  by (induction xs) (auto split: if_splits)

lemma map_first_split:
  "find p xs = Some x \<Longrightarrow> \<exists>us vs. xs = us @ x # vs \<and> map_first p f xs = us @ f x # vs
     \<and> (\<forall>u\<in>set us. \<not> p u) \<and> p x"
proof (induction xs)
  case (Cons a xs)
  show ?case
  proof (cases "p a")
    case True
    with Cons.prems show ?thesis by (intro exI [of _ "[]"] exI [of _ xs]) auto
  next
    case False
    with Cons obtain us vs where "xs = us @ x # vs" "map_first p f xs = us @ f x # vs"
        "\<forall>u\<in>set us. \<not> p u" "p x" by auto
    with False show ?thesis by (intro exI [of _ "a # us"] exI [of _ vs]) auto
  qed
qed simp

lemma map_first_unique:
  assumes "distinct (map k xs)" and "\<And>x y. p x \<Longrightarrow> p y \<Longrightarrow> k x = k y"
  shows "map_first p f xs = map (\<lambda>x. if p x then f x else x) xs"
  using assms(1)
proof (induction xs)
  case (Cons a xs)
  have "map (\<lambda>x. if p x then f x else x) xs = xs" if "p a"
  proof (rule map_idI)
    fix x assume x: "x \<in> set xs"
    have "k a \<noteq> k x" using Cons.prems x by auto
    then have "\<not> p x" using assms(2) \<open>p a\<close> by blast
    then show "(if p x then f x else x) = x" by simp
  qed
  with Cons show ?case by simp
qed simp

lemma map_first_key:
  "distinct (map k xs) \<Longrightarrow> map_first (\<lambda>x. k x = a) f xs = map (\<lambda>x. if k x = a then f x else x) xs"
  by (rule map_first_unique [of k]) auto

definition guard_in :: "'s \<Rightarrow> 'a res \<Rightarrow> ('a \<Rightarrow> 'b res \<times> 's) \<Rightarrow> 'b res \<times> 's" where
  \<comment> \<open>a step that may raise: the exception leaves the state as it is at that point\<close>
  "guard_in s r k = (case r of Inl e \<Rightarrow> (Inl e, s) | Inr x \<Rightarrow> k x)"

lemma guard_in_simps [simp]:
  "guard_in s (Inl e) k = (Inl e, s)" "guard_in s (Inr x) k = k x"
  by (simp_all add: guard_in_def)

lemma guard_in_Inr [res_simps]:
  "guard_in s r k = (Inr y, s') \<longleftrightarrow> (\<exists>x. r = Inr x \<and> k x = (Inr y, s'))"
  by (cases r) auto

lemma guard_in_frame: "snd (guard_in s r k) = s \<or> (\<exists>x. r = Inr x \<and> guard_in s r k = k x)"
  by (cases r) auto

definition take_str :: "nat \<Rightarrow> string \<Rightarrow> string" where
  "take_str n s = take n s"

lemma length_take_str: "length (take_str n s) \<le> n"
  by (simp add: take_str_def)

lemma take_str_idem [simp]: "take_str n (take_str n s) = take_str n s"
  by (simp add: take_str_def)

end
