(* ===== verification/PyNet.thy ===== *)
theory PyNet
  imports Prelude
begin

text \<open>
  The part of Python's \<open>ipaddress\<close> and \<open>urllib.parse\<close> the program uses (Python 3.12, the
  version its CI runs): parsing and printing of addresses, the special-purpose address
  blocks behind \<open>is_global\<close> and its companions, and \<open>urlsplit\<close> with the derived
  \<open>hostname\<close>, \<open>port\<close>, \<open>username\<close> and \<open>password\<close>. An address is its integer value; an
  IPv6 address also carries its scope id (empty when there is none).
\<close>

section \<open>Addresses\<close>

datatype ip = V4 nat | V6 nat string

definition parse_octet :: "string \<Rightarrow> nat option" where
  "parse_octet s =
     (if s = [] \<or> \<not> list_all is_digit s \<or> 3 < length s then None
      else if s \<noteq> ''0'' \<and> hd s = CHR ''0'' then None
      else let n = digits_val 0 s in if 255 < n then None else Some n)"

definition parse_v4 :: "string \<Rightarrow> nat option" where
  "parse_v4 s = (case split_on (CHR ''.'') s of
       [a, b, c, d] \<Rightarrow> (case (parse_octet a, parse_octet b, parse_octet c, parse_octet d) of
           (Some w, Some x, Some y, Some z) \<Rightarrow> Some (((w * 256 + x) * 256 + y) * 256 + z)
         | _ \<Rightarrow> None)
     | _ \<Rightarrow> None)"

definition v4_str :: "nat \<Rightarrow> string" where
  "v4_str a = py_join ''.'' [nat_str (a div 16777216 mod 256), nat_str (a div 65536 mod 256),
                              nat_str (a div 256 mod 256), nat_str (a mod 256)]"

definition hex_val :: "char \<Rightarrow> nat option" where
  "hex_val c = (let n = ord_of c in
     if 48 \<le> n \<and> n \<le> 57 then Some (n - 48)
     else if 97 \<le> n \<and> n \<le> 102 then Some (n - 87)
     else if 65 \<le> n \<and> n \<le> 70 then Some (n - 55) else None)"

fun hex_digits :: "nat \<Rightarrow> string \<Rightarrow> nat option" where
  "hex_digits acc [] = Some acc"
| "hex_digits acc (c # cs) = (case hex_val c of None \<Rightarrow> None | Some v \<Rightarrow> hex_digits (16 * acc + v) cs)"

definition parse_hextet :: "string \<Rightarrow> nat option" where
  "parse_hextet s = (if 4 < length s then None else hex_digits 0 s)"

fun parse_hextets :: "nat \<Rightarrow> string list \<Rightarrow> nat option" where
  "parse_hextets acc [] = Some acc"
| "parse_hextets acc (p # ps) =
     (case parse_hextet p of None \<Rightarrow> None | Some v \<Rightarrow> parse_hextets (acc * 65536 + v) ps)"

fun index_of :: "('a \<Rightarrow> bool) \<Rightarrow> 'a list \<Rightarrow> nat option" where
  "index_of p [] = None"
| "index_of p (x # xs) = (if p x then Some 0 else map_option Suc (index_of p xs))"

definition hex_char :: "nat \<Rightarrow> char" where
  "hex_char n = (if n < 10 then char_of (48 + n) else char_of (87 + n))"

fun hex_str :: "nat \<Rightarrow> string" where
  "hex_str n = (if n < 16 then [hex_char n] else hex_str (n div 16) @ [hex_char (n mod 16)])"

declare hex_str.simps [simp del]

definition v6_parts :: "string \<Rightarrow> string list option" where
  \<comment> \<open>the colon-separated parts, a trailing dotted quad turned into two hextets\<close>
  "v6_parts s = (let parts = split_on (CHR '':'') s in
     if length parts < 3 then None
     else if CHR ''.'' \<in> set (last parts) then
       (case parse_v4 (last parts) of
          None \<Rightarrow> None
        | Some v \<Rightarrow> Some (butlast parts @ [hex_str (v div 65536), hex_str (v mod 65536)]))
     else Some parts)"

definition parse_v6_int :: "string \<Rightarrow> nat option" where
  "parse_v6_int s = (case v6_parts s of None \<Rightarrow> None | Some parts \<Rightarrow>
     if 9 < length parts then None
     else (let inner = butlast (tl parts) in
       if 1 < length (filter (\<lambda>p. p = []) inner) then None
       else case index_of (\<lambda>p. p = []) inner of
         Some k \<Rightarrow>
           (let hi = take (Suc k) parts; lo = drop (k + 2) parts in
            if hd hi = [] \<and> hi \<noteq> [[]] \<or> last lo = [] \<and> lo \<noteq> [[]] then None
            else let hi = (if hi = [[]] then [] else hi); lo = (if lo = [[]] then [] else lo) in
              if 8 \<le> length hi + length lo then None
              else (case parse_hextets 0 hi of None \<Rightarrow> None
                    | Some h \<Rightarrow> parse_hextets (h * 65536 ^ (8 - (length hi + length lo))) lo))
       | None \<Rightarrow>
           if length parts \<noteq> 8 \<or> hd parts = [] \<or> last parts = [] then None
           else parse_hextets 0 parts))"

definition ip_address :: "string \<Rightarrow> ip option" where
  "ip_address s =
     (if CHR ''/'' \<in> set s then None
      else case parse_v4 s of
        Some a \<Rightarrow> Some (V4 a)
      | None \<Rightarrow> (case partition_at (CHR ''%'') s of (addr, sep, scope) \<Rightarrow>
          if sep \<and> (scope = [] \<or> CHR ''%'' \<in> set scope) then None
          else map_option (\<lambda>n. V6 n (if sep then scope else [])) (parse_v6_int addr)))"

fun hextets_of :: "nat \<Rightarrow> nat \<Rightarrow> nat list" where
  "hextets_of 0 a = []"
| "hextets_of (Suc k) a = hextets_of k (a div 65536) @ [a mod 65536]"

fun zero_runs :: "nat \<Rightarrow> nat list \<Rightarrow> (nat \<times> nat) list" where
  \<comment> \<open>start and length of the maximal runs of zero hextets\<close>
  "zero_runs i [] = []"
| "zero_runs i (h # hs) = (if h = 0 then
       (case zero_runs (Suc i) hs of
          (s, n) # rs \<Rightarrow> if s = Suc i then (i, Suc n) # rs else (i, 1) # (s, n) # rs
        | [] \<Rightarrow> [(i, 1)])
     else zero_runs (Suc i) hs)"

fun best_run :: "(nat \<times> nat) \<Rightarrow> (nat \<times> nat) list \<Rightarrow> nat \<times> nat" where
  "best_run b [] = b"
| "best_run b (r # rs) = best_run (if snd b < snd r then r else b) rs"

definition v6_str :: "nat \<Rightarrow> string" where
  "v6_str a = (let hs = hextets_of 8 a; (s, n) = best_run (0, 0) (zero_runs 0 hs) in
     if 1 < n then py_join '':'' (map hex_str (take s hs)) @ ''::'' @
                   py_join '':'' (map hex_str (drop (s + n) hs))
     else py_join '':'' (map hex_str hs))"

fun ip_str :: "ip \<Rightarrow> string" where
  "ip_str (V4 a) = v4_str a"
| "ip_str (V6 a sc) = v6_str a @ (if sc = [] then [] else ''%'' @ sc)"

fun is_v4 :: "ip \<Rightarrow> bool" where
  "is_v4 (V4 _) = True"
| "is_v4 (V6 _ _) = False"

section \<open>Address blocks\<close>

definition in_net4 :: "nat \<Rightarrow> nat \<times> nat \<Rightarrow> bool" where
  "in_net4 a np = (a div 2 ^ (32 - snd np) = fst np div 2 ^ (32 - snd np))"

definition in_net6 :: "nat \<Rightarrow> nat \<times> nat \<Rightarrow> bool" where
  "in_net6 a np = (a div 2 ^ (128 - snd np) = fst np div 2 ^ (128 - snd np))"

definition quad :: "nat \<Rightarrow> nat \<Rightarrow> nat \<Rightarrow> nat \<Rightarrow> nat" where
  "quad w x y z = ((w * 256 + x) * 256 + y) * 256 + z"

definition private_nets4 :: "(nat \<times> nat) list" where
  "private_nets4 =
     [(quad 0 0 0 0, 8), (quad 10 0 0 0, 8), (quad 127 0 0 0, 8), (quad 169 254 0 0, 16),
      (quad 172 16 0 0, 12), (quad 192 0 0 0, 24), (quad 192 0 0 170, 31), (quad 192 0 2 0, 24),
      (quad 192 168 0 0, 16), (quad 198 18 0 0, 15), (quad 198 51 100 0, 24),
      (quad 203 0 113 0, 24), (quad 240 0 0 0, 4), (quad 255 255 255 255, 32)]"

definition private_exceptions4 :: "(nat \<times> nat) list" where
  "private_exceptions4 = [(quad 192 0 0 9, 32), (quad 192 0 0 10, 32)]"

definition shared_net4 :: "nat \<times> nat" where
  "shared_net4 = (quad 100 64 0 0, 10)"

definition is_private4 :: "nat \<Rightarrow> bool" where
  "is_private4 a = (list_ex (in_net4 a) private_nets4 \<and> \<not> list_ex (in_net4 a) private_exceptions4)"

definition is_global4 :: "nat \<Rightarrow> bool" where
  "is_global4 a = (\<not> in_net4 a shared_net4 \<and> \<not> is_private4 a)"

definition private_nets6 :: "(nat \<times> nat) list" where
  "private_nets6 =
     [(1, 128), (0, 128), (0xffff * 2 ^ 32, 96), (0x64ff9b0001 * 2 ^ 80, 48), (0x100 * 2 ^ 112, 64),
      (0x2001 * 2 ^ 112, 23), (0x20010db8 * 2 ^ 96, 32), (0x2002 * 2 ^ 112, 16),
      (0xfc00 * 2 ^ 112, 7), (0xfe80 * 2 ^ 112, 10)]"

definition private_exceptions6 :: "(nat \<times> nat) list" where
  "private_exceptions6 =
     [(0x20010001 * 2 ^ 96 + 1, 128), (0x20010001 * 2 ^ 96 + 2, 128), (0x20010003 * 2 ^ 96, 32),
      (0x200100040112 * 2 ^ 80, 48), (0x20010020 * 2 ^ 96, 28), (0x20010030 * 2 ^ 96, 28)]"

definition is_private6 :: "nat \<Rightarrow> bool" where
  "is_private6 a =
     (if a div 2 ^ 32 = 0xffff then is_private4 (a mod 2 ^ 32)
      else list_ex (in_net6 a) private_nets6 \<and> \<not> list_ex (in_net6 a) private_exceptions6)"

fun is_global :: "ip \<Rightarrow> bool" where
  "is_global (V4 a) = is_global4 a"
| "is_global (V6 a _) = (\<not> is_private6 a)"

fun is_loopback :: "ip \<Rightarrow> bool" where
  "is_loopback (V4 a) = in_net4 a (quad 127 0 0 0, 8)"
| "is_loopback (V6 a _) = (a = 1)"

fun is_unspecified :: "ip \<Rightarrow> bool" where
  "is_unspecified (V4 a) = (a = 0)"
| "is_unspecified (V6 a _) = (a = 0)"

fun is_multicast :: "ip \<Rightarrow> bool" where
  "is_multicast (V4 a) = in_net4 a (quad 224 0 0 0, 4)"
| "is_multicast (V6 a _) = in_net6 a (0xff00 * 2 ^ 112, 8)"

fun is_link_local :: "ip \<Rightarrow> bool" where
  "is_link_local (V4 a) = in_net4 a (quad 169 254 0 0, 16)"
| "is_link_local (V6 a _) = in_net6 a (0xfe80 * 2 ^ 112, 10)"

section \<open>URLs\<close>

record url =
  u_scheme :: string
  u_netloc :: string
  u_path :: string
  u_query :: string
  u_fragment :: string

definition scheme_char :: "char \<Rightarrow> bool" where
  "scheme_char c = (is_alnum c \<or> c \<in> set ''+-.'')"

definition bracketed_host_ok :: "string \<Rightarrow> bool" where
  "bracketed_host_ok h =
     (if starts_with ''v'' h then
        (case partition_at (CHR ''.'') (tl h) of
           (a, sep, b) \<Rightarrow> sep \<and> a \<noteq> [] \<and> list_all (\<lambda>c. hex_val c \<noteq> None) a \<and> b \<noteq> []
                          \<and> list_all (\<lambda>c. ord_of c \<noteq> 10) b)
      else (case ip_address h of Some (V6 _ _) \<Rightarrow> True | _ \<Rightarrow> False))"

definition urlsplit :: "string \<Rightarrow> url res" where
  "urlsplit raw = (let
      u0 = filter (\<lambda>c. ord_of c \<notin> {9, 10, 13}) (dropWhile (\<lambda>c. ord_of c \<le> 32) raw);
      (sch, u1) = (case partition_at (CHR '':'') u0 of (a, sep, b) \<Rightarrow>
         if sep \<and> a \<noteq> [] \<and> is_alpha (hd a) \<and> list_all scheme_char a then (py_lower a, b) else ([], u0));
      (net, u2) = (if starts_with ''//'' u1
         then (let r = drop 2 u1; n = takeWhile (\<lambda>c. c \<notin> set ''/?#'') r in (n, drop (length n) r))
         else ([], u1));
      op = CHR ''['' \<in> set net; cl = CHR '']'' \<in> set net
    in if op \<noteq> cl then Inl (ValueError ''Invalid IPv6 URL'')
       else if op \<and> \<not> bracketed_host_ok
              (fst (partition_at (CHR '']'') (snd (snd (partition_at (CHR ''['') net)))))
       then Inl (ValueError ''Invalid IPv6 URL'')
       else (case partition_at (CHR ''#'') u2 of (u3, _, frag) \<Rightarrow>
             case partition_at (CHR ''?'') u3 of (path, _, query) \<Rightarrow>
             Inr \<lparr>u_scheme = sch, u_netloc = net, u_path = path, u_query = query, u_fragment = frag\<rparr>))"

definition u_hostport :: "url \<Rightarrow> string \<times> string" where
  "u_hostport u = (let hi = snd (snd (rpartition_at (CHR ''@'') (u_netloc u))) in
     case partition_at (CHR ''['') hi of (_, br, bracketed) \<Rightarrow>
       if br then (case partition_at (CHR '']'') bracketed of (h, _, p) \<Rightarrow>
                     (h, snd (snd (partition_at (CHR '':'') p))))
       else (case partition_at (CHR '':'') hi of (h, _, p) \<Rightarrow> (h, p)))"

definition u_hostname :: "url \<Rightarrow> string" where
  \<comment> \<open>the empty string stands for None, which the program only tests for truth\<close>
  "u_hostname u = (case partition_at (CHR ''%'') (fst (u_hostport u)) of (h, sep, zone) \<Rightarrow>
     py_lower h @ (if sep then ''%'' @ zone else []))"

definition u_port :: "url \<Rightarrow> nat option res" where
  "u_port u = (let p = snd (u_hostport u) in
     if p = [] then Inr None
     else if \<not> list_all is_digit p then Inl (ValueError ''Port could not be cast to integer value'')
     else if 65535 < digits_val 0 p then Inl (ValueError ''Port out of range 0-65535'')
     else Inr (Some (digits_val 0 p)))"

definition u_userinfo :: "url \<Rightarrow> string" where
  "u_userinfo u = fst (rpartition_at (CHR ''@'') (u_netloc u))"

definition u_username :: "url \<Rightarrow> string" where
  "u_username u = fst (partition_at (CHR '':'') (u_userinfo u))"

definition u_password :: "url \<Rightarrow> string" where
  "u_password u = snd (snd (partition_at (CHR '':'') (u_userinfo u)))"

section \<open>Printing and parsing IPv4 addresses\<close>

lemma is_digit_char_of [simp]: "(n::nat) < 10 \<Longrightarrow> is_digit (char_of (48 + n))"
  by (simp add: is_digit_def Let_def)

lemma digit_val_char_of [simp]: "(n::nat) < 10 \<Longrightarrow> digit_val (char_of (48 + n)) = n"
  by (simp add: digit_val_def)

lemma nat_str_digits: "list_all is_digit (nat_str n)"
  by (induction n rule: nat_str.induct) (subst nat_str.simps, auto)

lemma nat_str_not_Nil [simp]: "nat_str n \<noteq> []"
  by (subst nat_str.simps) simp

lemma digits_val_append: "digits_val a (xs @ [c]) = 10 * digits_val a xs + digit_val c"
  by (induction xs arbitrary: a) auto

lemma digits_val_nat_str [simp]: "digits_val 0 (nat_str n) = n"
proof (induction n rule: nat_str.induct)
  case (1 n)
  then show ?case by (subst nat_str.simps) (auto simp: digits_val_append)
qed

lemma nat_str_octet_len: "n < 256 \<Longrightarrow> length (nat_str n) \<le> 3"
  by (subst nat_str.simps, subst nat_str.simps, subst nat_str.simps) auto

lemma hd_nat_str: "0 < n \<Longrightarrow> hd (nat_str n) \<noteq> CHR ''0''"
proof (induction n rule: nat_str.induct)
  case (1 n)
  show ?case
  proof (cases "n < 10")
    case True
    have "ord_of (char_of (48 + n)) = 48 + n" using True by simp
    moreover have "ord_of (CHR ''0'') = 48" by (simp add: ord_of_def)
    ultimately have "char_of (48 + n) \<noteq> CHR ''0''" using 1 by fastforce
    with True show ?thesis by (subst nat_str.simps) auto
  next
    case False
    with 1 show ?thesis by (subst nat_str.simps) auto
  qed
qed

lemma parse_octet_nat_str: "n < 256 \<Longrightarrow> parse_octet (nat_str n) = Some n"
  using nat_str_digits [of n] nat_str_octet_len [of n] hd_nat_str [of n]
  by (cases "n = 0") (auto simp: parse_octet_def nat_str.simps [of 0] digit_val_def ord_of_def)

lemma split_on_append:
  "d \<notin> set w \<Longrightarrow> split_on d (w @ d # rest) = w # split_on d rest"
  by (induction w) auto

lemma split_on_single: "d \<notin> set w \<Longrightarrow> split_on d w = [w]"
  by (induction w) auto

lemma dot_notin_nat_str: "CHR ''.'' \<notin> set (nat_str n)"
  using nat_str_digits [of n] by (auto simp: list_all_iff is_digit_def ord_of_def)

lemma slash_notin_nat_str: "CHR ''/'' \<notin> set (nat_str n)"
  using nat_str_digits [of n] by (auto simp: list_all_iff is_digit_def ord_of_def)

lemma quad_digits:
  fixes a :: nat
  assumes "a < 2 ^ 32"
  shows "((a div 16777216 mod 256 * 256 + a div 65536 mod 256) * 256 + a div 256 mod 256) * 256 + a mod 256 = a"
proof -
  define b c d where "b = a div 256" and "c = b div 256" and "d = c div 256"
  have d: "a div 16777216 = d" and c: "a div 65536 = c"
    by (simp_all add: b_def c_def d_def div_mult2_eq [symmetric])
  have "d < 256" using assms unfolding d [symmetric] by (simp add: div_less_iff_less_mult)
  moreover have "d * 256 + c mod 256 = c" and "c * 256 + b mod 256 = b" and "b * 256 + a mod 256 = a"
    by (simp_all add: b_def c_def d_def)
  ultimately show ?thesis unfolding d c b_def [symmetric] by simp
qed

lemma parse_v4_str: "a < 2 ^ 32 \<Longrightarrow> parse_v4 (v4_str a) = Some a"
  using quad_digits [of a]
  by (simp add: parse_v4_def v4_str_def split_on_append split_on_single dot_notin_nat_str
      parse_octet_nat_str)

lemma ip_address_v4_str: "a < 2 ^ 32 \<Longrightarrow> ip_address (v4_str a) = Some (V4 a)"
  by (simp add: ip_address_def parse_v4_str) (simp add: v4_str_def slash_notin_nat_str)

lemma parse_octet_bound: "parse_octet s = Some n \<Longrightarrow> n < 256"
  by (auto simp: parse_octet_def Let_def split: if_splits)

lemma parse_v4_bound:
  assumes "parse_v4 s = Some a" shows "a < 2 ^ 32"
proof -
  have "\<exists>w x y z. a = ((w * 256 + x) * 256 + y) * 256 + z \<and> w < 256 \<and> x < 256 \<and> y < 256 \<and> z < 256"
    using assms by (fastforce simp: parse_v4_def split: list.splits option.splits dest: parse_octet_bound)
  then obtain w x y z where "a = ((w * 256 + x) * 256 + y) * 256 + z"
    and "w < 256" "x < 256" "y < 256" "z < 256" by blast
  then show ?thesis by simp
qed

end
