(* ===== verification/PyNum.thy ===== *)
theory PyNum
  imports Prelude
begin

text \<open>
  Python's \<open>float\<close> and \<open>datetime.date\<close> as far as the program uses them. A float is a rational
  or one of the three special values; arithmetic on finite values is exact (binary rounding
  is not modelled), comparisons with NaN are false as in IEEE 754. A date is its proleptic
  Gregorian ordinal; \<open>date.fromisoformat\<close> follows CPython 3.11 and 3.12.
\<close>

section \<open>Floats\<close>

datatype pyfloat = Fin rat | PInf | NInf | NaN

datatype num_arg = NFloat pyfloat | NInt int | NStr string | NOther

fun fl_less :: "pyfloat \<Rightarrow> pyfloat \<Rightarrow> bool" where
  "fl_less (Fin a) (Fin b) = (a < b)"
| "fl_less NInf (Fin _) = True"
| "fl_less NInf PInf = True"
| "fl_less (Fin _) PInf = True"
| "fl_less _ _ = False"

definition digit_part :: "string \<Rightarrow> bool" where
  "digit_part s = (s = [] \<or> digit_groups_ok False s)"

definition pow10 :: "int \<Rightarrow> rat" where
  "pow10 e = (if 0 \<le> e then 10 ^ nat e else 1 / 10 ^ nat (- e))"

definition decimal_val :: "string \<Rightarrow> string \<Rightarrow> int \<Rightarrow> rat" where
  "decimal_val ip fp e = (let fd = filter is_digit fp in
     rat_of_nat (digits_val 0 (filter is_digit ip @ fd)) * pow10 (e - int (length fd)))"

definition parse_exponent :: "string \<Rightarrow> int option" where
  "parse_exponent s = (case s of [] \<Rightarrow> None | c # cs \<Rightarrow>
     if c = CHR ''-'' then map_option (\<lambda>n. - int n) (nat_of_digits cs)
     else if c = CHR ''+'' then map_option int (nat_of_digits cs)
     else map_option int (nat_of_digits s))"

definition parse_ufloat :: "string \<Rightarrow> pyfloat option" where
  \<comment> \<open>an unsigned literal, already in lower case\<close>
  "parse_ufloat s =
     (if s = ''inf'' \<or> s = ''infinity'' then Some PInf
      else if s = ''nan'' then Some NaN
      else case partition_at (CHR ''e'') s of (m, has_e, ex) \<Rightarrow>
           case partition_at (CHR ''.'') m of (ip, _, fp) \<Rightarrow>
             if \<not> digit_part ip \<or> \<not> digit_part fp \<or> ip = [] \<and> fp = [] then None
             else if has_e then map_option (\<lambda>e. Fin (decimal_val ip fp e)) (parse_exponent ex)
             else Some (Fin (decimal_val ip fp 0)))"

fun fl_neg :: "pyfloat \<Rightarrow> pyfloat" where
  "fl_neg (Fin a) = Fin (- a)"
| "fl_neg PInf = NInf"
| "fl_neg NInf = PInf"
| "fl_neg NaN = NaN"

definition parse_float :: "string \<Rightarrow> pyfloat option" where
  "parse_float s = (case py_lower (py_strip s) of
       [] \<Rightarrow> None
     | c # cs \<Rightarrow> if c = CHR ''-'' then map_option fl_neg (parse_ufloat cs)
                else if c = CHR ''+'' then parse_ufloat cs
                else parse_ufloat (c # cs))"

fun py_float :: "num_arg \<Rightarrow> pyfloat option" where
  \<comment> \<open>\<open>float(x)\<close>; None stands for the TypeError or ValueError it raises\<close>
  "py_float (NFloat f) = Some f"
| "py_float (NInt i) = Some (Fin (rat_of_int i))"
| "py_float (NStr s) = parse_float s"
| "py_float NOther = None"

definition round_half_even :: "rat \<Rightarrow> int" where
  "round_half_even x = (let f = \<lfloor>x\<rfloor>; d = x - of_int f in
     if d < 1 / 2 then f else if 1 / 2 < d then f + 1 else if even f then f else f + 1)"

definition py_round :: "nat \<Rightarrow> rat \<Rightarrow> rat" where
  "py_round k x = of_int (round_half_even (x * 10 ^ k)) / 10 ^ k"

fun fl_round :: "nat \<Rightarrow> pyfloat \<Rightarrow> pyfloat" where
  "fl_round k (Fin a) = Fin (py_round k a)"
| "fl_round k f = f"

definition trunc_rat :: "rat \<Rightarrow> int" where
  \<comment> \<open>\<open>int(x)\<close> of a finite float\<close>
  "trunc_rat x = (if 0 \<le> x then \<lfloor>x\<rfloor> else \<lceil>x\<rceil>)"

fun py_int_arg :: "num_arg \<Rightarrow> int res" where
  \<comment> \<open>\<open>int(x)\<close>\<close>
  "py_int_arg (NFloat (Fin x)) = Inr (trunc_rat x)"
| "py_int_arg (NFloat NaN) = Inl (ValueError ''cannot convert float NaN to integer'')"
| "py_int_arg (NFloat _) = Inl OverflowError"
| "py_int_arg (NInt i) = Inr i"
| "py_int_arg (NStr s) = (case py_int s of None \<Rightarrow> Inl (ValueError ''invalid literal for int()'') | Some i \<Rightarrow> Inr i)"
| "py_int_arg NOther = Inl TypeError"

lemma round_half_even_of_int [simp]: "round_half_even (of_int i) = i"
  by (simp add: round_half_even_def)

lemma py_round_idem [simp]: "py_round k (py_round k x) = py_round k x"
  by (simp add: py_round_def)

lemma fl_round_idem [simp]: "fl_round k (fl_round k f) = fl_round k f"
  by (cases f) simp_all

lemma round_half_even_mono_int:
  "of_int i \<le> x \<Longrightarrow> i \<le> round_half_even x" "x \<le> of_int j \<Longrightarrow> round_half_even x \<le> j"
proof -
  assume "of_int i \<le> x"
  then have "i \<le> \<lfloor>x\<rfloor>" by (simp add: le_floor_iff)
  then show "i \<le> round_half_even x" by (auto simp: round_half_even_def Let_def)
next
  assume "x \<le> of_int j"
  show "round_half_even x \<le> j"
  proof (cases "x = of_int j")
    case False
    with \<open>x \<le> of_int j\<close> have "x < of_int j" by simp
    then have "\<lfloor>x\<rfloor> < j" by (simp add: floor_less_iff)
    then show ?thesis by (auto simp: round_half_even_def Let_def)
  qed simp
qed

section \<open>Dates\<close>

definition is_leap :: "nat \<Rightarrow> bool" where
  "is_leap y = (y mod 4 = 0 \<and> (y mod 100 \<noteq> 0 \<or> y mod 400 = 0))"

definition days_in_month :: "nat \<Rightarrow> nat \<Rightarrow> nat" where
  "days_in_month y m = (if m = 2 then (if is_leap y then 29 else 28)
     else if m = 4 \<or> m = 6 \<or> m = 9 \<or> m = 11 then 30 else 31)"

definition days_before_year :: "nat \<Rightarrow> nat" where
  "days_before_year y = (let p = y - 1 in p * 365 + p div 4 - p div 100 + p div 400)"

definition days_before_month :: "nat \<Rightarrow> nat \<Rightarrow> nat" where
  "days_before_month y m = sum_list (map (days_in_month y) [1..<m])"

definition ymd_to_ord :: "nat \<Rightarrow> nat \<Rightarrow> nat \<Rightarrow> nat" where
  "ymd_to_ord y m d = days_before_year y + days_before_month y m + d"

definition max_ordinal :: nat where
  "max_ordinal = 3652059"

definition weekday_jan1 :: "nat \<Rightarrow> nat" where
  "weekday_jan1 y = (ymd_to_ord y 1 1 + 6) mod 7"

definition iso_week1_monday :: "nat \<Rightarrow> nat" where
  "iso_week1_monday y = (let first = ymd_to_ord y 1 1; wd = weekday_jan1 y; w1 = first - wd in
     if wd \<le> 3 then w1 else w1 + 7)"

definition utf8_len :: "string \<Rightarrow> nat" where
  "utf8_len s = sum_list (map (\<lambda>c. if ord_of c < 128 then 1 else 2) s)"

definition take_digits :: "nat \<Rightarrow> string \<Rightarrow> (nat \<times> string) option" where
  "take_digits n s = (if length (take n s) = n \<and> list_all is_digit (take n s)
     then Some (digits_val 0 (take n s), drop n s) else None)"

definition iso_week_date :: "nat \<Rightarrow> bool \<Rightarrow> string \<Rightarrow> nat option" where
  \<comment> \<open>the ISO calendar form, after the \<open>W\<close>\<close>
  "iso_week_date y sep s = (case take_digits 2 s of None \<Rightarrow> None | Some (w, r) \<Rightarrow>
     (case (if r = [] then Some 1
            else if sep then (if hd r = CHR ''-'' then map_option fst (take_digits 1 (tl r)) else None)
            else map_option fst (take_digits 1 r)) of
        None \<Rightarrow> None
      | Some d \<Rightarrow>
          if y = 0 \<or> w = 0 \<or> 53 < w \<or> d = 0 \<or> 7 < d then None
          else if w = 53 \<and> \<not> (weekday_jan1 y = 3 \<or> weekday_jan1 y = 2 \<and> is_leap y) then None
          else let ord = iso_week1_monday y + (w - 1) * 7 + d - 1 in
            if ord < 1 \<or> max_ordinal < ord then None else Some ord))"

definition fromisoformat :: "string \<Rightarrow> nat option" where
  "fromisoformat s =
     (if utf8_len s \<notin> {7, 8, 10} then None
      else case take_digits 4 s of None \<Rightarrow> None | Some (y, r) \<Rightarrow>
        (let sep = (r \<noteq> [] \<and> hd r = CHR ''-''); r = (if sep then tl r else r) in
         if r \<noteq> [] \<and> hd r = CHR ''W'' then iso_week_date y sep (tl r)
         else (case take_digits 2 r of None \<Rightarrow> None | Some (m, r) \<Rightarrow>
           if sep \<and> (r = [] \<or> hd r \<noteq> CHR ''-'') then None
           else (case take_digits 2 (if sep then tl r else r) of None \<Rightarrow> None | Some (d, _) \<Rightarrow>
             if y = 0 \<or> m = 0 \<or> 12 < m \<or> d = 0 \<or> days_in_month y m < d then None
             else Some (ymd_to_ord y m d)))))"

end
