(* ===== verification/Validate.thy ===== *)
theory Validate
  imports PyNet PyNum
begin

text \<open>
  The validators of \<open>ge360_bridge/core.py\<close>: names, ports, targets, expiry dates, timeouts,
  systemd units, health URLs and tags. Each returns the normalised value or the
  \<open>BridgeError\<close> it raises. The lemmas give what an accepted value satisfies, and interpret
  the \<open>validator\<close> contract (validating an accepted value changes nothing).
\<close>

section \<open>Constants\<close>

definition safe_name_tail :: "char \<Rightarrow> bool" where
  "safe_name_tail c = (is_alnum c \<or> c \<in> set ''_.-'')"

definition SAFE_NAME_match :: "string \<Rightarrow> bool" where
  "SAFE_NAME_match s = class_match_dollar is_alnum safe_name_tail 63 s"

definition SAFE_TAG_match :: "string \<Rightarrow> bool" where
  "SAFE_TAG_match s = class_match_dollar is_alnum safe_name_tail 31 s"

definition SAFE_SYSTEMD_UNIT_fullmatch :: "string \<Rightarrow> bool" where
  "SAFE_SYSTEMD_UNIT_fullmatch s =
     (ends_with ''.service'' s \<and>
      class_fullmatch is_alnum (\<lambda>c. is_alnum c \<or> c \<in> set ''_.@:-'') 126
        (take (length s - length ''.service'') s))"

definition RESERVED_BRIDGE_PORTS :: "int list" where
  "RESERVED_BRIDGE_PORTS = [8788, 8789, 8790]"

definition LOOPBACK_TARGETS :: "string list" where
  "LOOPBACK_TARGETS = [''127.0.0.1'', ''::1'', ''localhost'']"

definition DEVICE_TYPES :: "string list" where
  "DEVICE_TYPES = [''android'', ''linux'', ''windows'', ''server'', ''tablet'', ''unknown'']"

definition RESOURCE_PROTOCOLS :: "string list" where
  "RESOURCE_PROTOCOLS = [''tcp'', ''http'', ''https'']"

section \<open>Validators\<close>

definition str_or :: "string \<Rightarrow> string \<Rightarrow> string" where
  \<comment> \<open>Python's \<open>value or default\<close> on a string\<close>
  "str_or s d = (if s = [] then d else s)"

definition opt_str :: "string option \<Rightarrow> string" where
  \<comment> \<open>Python's \<open>value or ""\<close> on an optional string\<close>
  "opt_str v = (case v of None \<Rightarrow> [] | Some s \<Rightarrow> s)"

definition validate_name :: "string \<Rightarrow> string res" where
  "validate_name name =
     (if \<not> SAFE_NAME_match name
      then Inl (BridgeError ''Nome non valido: usa lettere, numeri, punto, trattino o underscore (max 64).'')
      else Inr name)"

definition validate_port :: "int \<Rightarrow> int res" where
  "validate_port port =
     (if \<not> (1 \<le> port \<and> port \<le> 65535) then Inl (BridgeError (''Porta non valida: '' @ int_str port))
      else Inr port)"

definition validate_target_host :: "string \<Rightarrow> string res" where
  "validate_target_host host = (let candidate = py_lower (py_strip host) in
     if candidate \<notin> set LOOPBACK_TARGETS
     then Inl (BridgeError ''Target non consentito: GE360 Bridge accetta solo backend locali su 127.0.0.1, ::1 o localhost.'')
     else Inr candidate)"

definition validate_device_type :: "string \<Rightarrow> string res" where
  "validate_device_type device_type = (let value = py_lower (py_strip (str_or device_type ''unknown'')) in
     if value \<notin> set DEVICE_TYPES
     then Inl (BridgeError ''Tipo dispositivo non valido: android, linux, windows, server, tablet o unknown.'')
     else Inr value)"

definition validate_expiry :: "string option \<Rightarrow> string option res" where
  "validate_expiry value =
     (if value = None \<or> value = Some [] then Inr None
      else (case fromisoformat (the value) of
          None \<Rightarrow> Inl (BridgeError ''Scadenza non valida: usa YYYY-MM-DD.'')
        | Some _ \<Rightarrow> Inr value))"

definition validate_resource_protocol :: "string \<Rightarrow> string res" where
  "validate_resource_protocol protocol = (let value = py_lower (py_strip (str_or protocol ''tcp'')) in
     if value \<notin> set RESOURCE_PROTOCOLS
     then Inl (BridgeError ''Protocollo Resource non valido: usa tcp, http o https.'')
     else Inr value)"

definition validate_resource_icon :: "string \<Rightarrow> string res" where
  "validate_resource_icon icon = (let value = py_strip (str_or icon ''server'') in
     if value = [] then Inr ''server''
     else if 64 < length value \<or> list_ex (\<lambda>ch. ord_of ch < 32) value
     then Inl (BridgeError ''Icona Resource non valida.'')
     else Inr value)"

definition validate_timeout_seconds :: "num_arg \<Rightarrow> pyfloat res" where
  "validate_timeout_seconds value = (case py_float value of
       None \<Rightarrow> Inl (BridgeError ''Timeout Resource non valido.'')
     | Some timeout \<Rightarrow>
         if fl_less timeout (Fin (1 / 10)) \<or> fl_less (Fin 30) timeout
         then Inl (BridgeError ''Timeout Resource non valido: usa un valore tra 0.1 e 30 secondi.'')
         else Inr (fl_round 3 timeout))"

definition validate_systemd_unit :: "string option \<Rightarrow> string res" where
  "validate_systemd_unit value = (let unit = py_strip (opt_str value) in
     if unit = [] then Inr []
     else if \<not> SAFE_SYSTEMD_UNIT_fullmatch unit
     then Inl (BridgeError ''Unit systemd non valida: usa un nome *.service semplice.'')
     else if starts_with ''ge360-bridge'' unit \<or> starts_with ''wg-quick@'' unit \<or> unit = ''ge360-agent.service''
     then Inl (BridgeError (''Unit systemd protetta: il self-healing pu'' @ [CHR 0xF2] @
                            '' gestire soltanto backend applicativi.''))
     else Inr unit)"

definition effective_port :: "url \<Rightarrow> nat option \<Rightarrow> nat" where
  \<comment> \<open>\<open>explicit_port or (443 if scheme == "https" else 80)\<close>: an explicit port 0 is falsy\<close>
  "effective_port u p = (case p of
       Some (Suc n) \<Rightarrow> Suc n
     | _ \<Rightarrow> if u_scheme u = ''https'' then 443 else 80)"

definition validate_health_url :: "string option \<Rightarrow> string \<Rightarrow> int \<Rightarrow> string res" where
  "validate_health_url value target_host target_port = (let health = py_strip (opt_str value) in
     if health = [] then Inr []
     else if 500 < length health then Inl (BridgeError ''Health URL troppo lunga.'')
     else if starts_with ''/'' health then Inr health
     else rbind (urlsplit health) (\<lambda>parsed.
       if u_scheme parsed \<notin> {''http'', ''https''} \<or> u_hostname parsed = []
       then Inl (BridgeError ''Health URL non valida: usa /percorso oppure http(s) su loopback.'')
       else if u_username parsed \<noteq> [] \<or> u_password parsed \<noteq> [] \<or> u_fragment parsed \<noteq> []
       then Inl (BridgeError ''Health URL non valida.'')
       else if py_lower (u_hostname parsed) \<notin> set LOOPBACK_TARGETS
       then Inl (BridgeError ''Health URL deve puntare a un backend locale loopback.'')
       else (case u_port parsed of
           Inl _ \<Rightarrow> Inl (BridgeError ''Porta Health URL non valida.'')
         | Inr explicit_port \<Rightarrow>
             if int (effective_port parsed explicit_port) \<noteq> target_port
             then Inl (BridgeError ''Health URL deve usare la stessa target port della Resource.'')
             else Inr health)))"

fun normalize_tags_loop :: "string list \<Rightarrow> string list \<Rightarrow> string list res" where
  "normalize_tags_loop out [] = Inr (sort out)"
| "normalize_tags_loop out (raw # tags) = (let tag = py_lower (py_strip raw) in
     if tag = [] then normalize_tags_loop out tags
     else if \<not> SAFE_TAG_match tag then Inl (BridgeError (''Tag non valido: '' @ tag))
     else if tag \<notin> set out then normalize_tags_loop (out @ [tag]) tags
     else normalize_tags_loop out tags)"

definition normalize_tags :: "string list \<Rightarrow> string list res" where
  "normalize_tags tags = normalize_tags_loop [] tags"

section \<open>What an accepted value satisfies\<close>

lemma validate_name_Inr: "validate_name s = Inr t \<longleftrightarrow> t = s \<and> SAFE_NAME_match s"
  by (auto simp: validate_name_def)

lemma validate_port_Inr: "validate_port p = Inr q \<longleftrightarrow> q = p \<and> 1 \<le> p \<and> p \<le> 65535"
  by (auto simp: validate_port_def)

lemma validate_target_host_Inr:
  "validate_target_host h = Inr t \<longleftrightarrow> t = py_lower (py_strip h) \<and> t \<in> set LOOPBACK_TARGETS"
  by (auto simp: validate_target_host_def Let_def)

lemma validate_systemd_unit_Inr:
  "validate_systemd_unit v = Inr u \<Longrightarrow> u \<noteq> [] \<Longrightarrow>
     SAFE_SYSTEMD_UNIT_fullmatch u \<and> \<not> starts_with ''ge360-bridge'' u
     \<and> \<not> starts_with ''wg-quick@'' u \<and> u \<noteq> ''ge360-agent.service''"
  by (auto simp: validate_systemd_unit_def Let_def split: if_splits)

lemma mem_fixpoint: "x \<in> set xs \<Longrightarrow> list_all (\<lambda>s. f s = s) xs \<Longrightarrow> f x = x"
  by (simp add: list_all_iff)

lemma loopback_fix: "x \<in> set LOOPBACK_TARGETS \<Longrightarrow> py_lower (py_strip x) = x"
  by (erule mem_fixpoint) code_simp

lemma device_type_fix: "x \<in> set DEVICE_TYPES \<Longrightarrow> py_lower (py_strip (str_or x d)) = x"
proof -
  assume x: "x \<in> set DEVICE_TYPES"
  then have "x \<noteq> []" by (auto simp: DEVICE_TYPES_def)
  moreover have "py_lower (py_strip x) = x"
    using x by (rule mem_fixpoint) code_simp
  ultimately show ?thesis by (simp add: str_or_def)
qed

lemma protocol_fix: "x \<in> set RESOURCE_PROTOCOLS \<Longrightarrow> py_lower (py_strip (str_or x d)) = x"
proof -
  assume x: "x \<in> set RESOURCE_PROTOCOLS"
  then have "x \<noteq> []" by (auto simp: RESOURCE_PROTOCOLS_def)
  moreover have "py_lower (py_strip x) = x"
    using x by (rule mem_fixpoint) code_simp
  ultimately show ?thesis by (simp add: str_or_def)
qed

section \<open>The validator contract\<close>

interpretation name: validator validate_name
  by unfold_locales (auto simp: validate_name_Inr)

interpretation port: validator validate_port
  by unfold_locales (auto simp: validate_port_Inr)

interpretation target: validator validate_target_host
  by unfold_locales (auto simp: validate_target_host_Inr loopback_fix)

interpretation devtype: validator validate_device_type
  by unfold_locales (auto simp: validate_device_type_def Let_def device_type_fix split: if_splits)

interpretation expiry: validator validate_expiry
  by unfold_locales (auto simp: validate_expiry_def split: if_splits option.splits)

interpretation protocol: validator validate_resource_protocol
  by unfold_locales (auto simp: validate_resource_protocol_def Let_def protocol_fix split: if_splits)

lemma server_icon: "validate_resource_icon ''server'' = Inr ''server''"
  by code_simp

interpretation icon: validator validate_resource_icon
proof
  fix x y assume xy: "validate_resource_icon x = Inr y"
  show "validate_resource_icon y = Inr y"
  proof (cases "py_strip (str_or x ''server'') = []")
    case True
    with xy have "y = ''server''" by (simp add: validate_resource_icon_def Let_def)
    then show ?thesis by (simp add: server_icon)
  next
    case False
    with xy show ?thesis
      by (auto simp: validate_resource_icon_def Let_def str_or_def split: if_splits)
  qed
qed

lemma timeout_range:
  assumes "1 / 10 \<le> t" and "t \<le> 30"
  shows "1 / 10 \<le> py_round 3 t" and "py_round 3 t \<le> 30"
proof -
  have "rat_of_int 100 \<le> t * 10 ^ 3" using assms by simp
  then have "100 \<le> round_half_even (t * 10 ^ 3)" by (rule round_half_even_mono_int)
  then show "1 / 10 \<le> py_round 3 t" by (simp add: py_round_def field_simps)
  have "t * 10 ^ 3 \<le> rat_of_int 30000" using assms by simp
  then have "round_half_even (t * 10 ^ 3) \<le> 30000" by (rule round_half_even_mono_int)
  then show "py_round 3 t \<le> 30" by (simp add: py_round_def field_simps)
qed

lemma validate_timeout_Inr:
  assumes "validate_timeout_seconds v = Inr f"
  shows "f = NaN \<or> (\<exists>t. f = Fin t \<and> 1 / 10 \<le> t \<and> t \<le> 30 \<and> py_round 3 t = t)"
proof -
  obtain g where g: "py_float v = Some g" "f = fl_round 3 g"
      "\<not> fl_less g (Fin (1 / 10))" "\<not> fl_less (Fin 30) g"
    using assms by (auto simp: validate_timeout_seconds_def split: option.splits if_splits)
  then show ?thesis using timeout_range by (cases g) (auto simp: not_less)
qed

lemma validate_timeout_again:
  assumes "validate_timeout_seconds v = Inr f"
  shows "validate_timeout_seconds (NFloat f) = Inr f"
  using validate_timeout_Inr [OF assms] by (auto simp: validate_timeout_seconds_def)

lemma validate_systemd_again: "validate_systemd_unit v = Inr u \<Longrightarrow> validate_systemd_unit (Some u) = Inr u"
  by (auto simp: validate_systemd_unit_def opt_str_def Let_def split: if_splits)

lemma validate_health_Inr: "validate_health_url v h p = Inr u \<Longrightarrow> u = py_strip (opt_str v)"
  by (auto simp: validate_health_url_def Let_def res_simps split: if_splits sum.splits)

lemma validate_health_strip:
  "py_strip (opt_str v) = py_strip (opt_str w) \<Longrightarrow> validate_health_url v h p = validate_health_url w h p"
  by (simp add: validate_health_url_def)

lemma validate_health_again:
  assumes "validate_health_url v h p = Inr u"
  shows "validate_health_url (Some u) h p = Inr u"
proof -
  have "py_strip (opt_str (Some u)) = py_strip (opt_str v)"
    using validate_health_Inr [OF assms] by (simp add: opt_str_def)
  then show ?thesis using assms validate_health_strip by metis
qed

text \<open>Where an accepted health URL can point: nowhere else than the Resource's own backend.\<close>

definition health_url_local :: "string \<Rightarrow> int \<Rightarrow> bool" where
  "health_url_local u p = (u = [] \<or> starts_with ''/'' u \<or>
     (case urlsplit u of Inl _ \<Rightarrow> False | Inr parsed \<Rightarrow>
        u_scheme parsed \<in> {''http'', ''https''} \<and> py_lower (u_hostname parsed) \<in> set LOOPBACK_TARGETS
        \<and> u_fragment parsed = []
        \<and> (case u_port parsed of Inl _ \<Rightarrow> False | Inr q \<Rightarrow> int (effective_port parsed q) = p)))"

lemma validate_health_local:
  assumes "validate_health_url v h p = Inr u"
  shows "health_url_local u p"
proof -
  have "validate_health_url (Some u) h p = Inr u" by (rule validate_health_again [OF assms])
  moreover have "py_strip u = u" using validate_health_Inr [OF assms] by simp
  ultimately show ?thesis
    by (simp add: validate_health_url_def health_url_local_def opt_str_def Let_def res_simps
        split: if_splits sum.splits) auto
qed

section \<open>Tags\<close>

definition tag_normal :: "string \<Rightarrow> bool" where
  "tag_normal t = (t \<noteq> [] \<and> SAFE_TAG_match t \<and> py_lower (py_strip t) = t)"

lemma normalize_tags_loop_Inr:
  "normalize_tags_loop out tags = Inr ts \<Longrightarrow> distinct out \<Longrightarrow> \<forall>t\<in>set out. tag_normal t \<Longrightarrow>
     sorted ts \<and> distinct ts \<and> (\<forall>t\<in>set ts. tag_normal t)"
proof (induction tags arbitrary: out)
  case (Cons raw tags)
  let ?t = "py_lower (py_strip raw)"
  have fix_t: "py_lower (py_strip ?t) = ?t" by (simp add: py_strip_lower)
  show ?case
  proof (cases "?t = [] \<or> ?t \<in> set out")
    case True
    with Cons show ?thesis by (auto simp: Let_def split: if_splits)
  next
    case False
    with Cons.prems have "SAFE_TAG_match ?t" "normalize_tags_loop (out @ [?t]) tags = Inr ts"
      by (auto simp: Let_def split: if_splits)
    moreover from this False fix_t Cons.prems
    have "distinct (out @ [?t])" "\<forall>t\<in>set (out @ [?t]). tag_normal t"
      by (auto simp: tag_normal_def)
    ultimately show ?thesis using Cons.IH by blast
  qed
qed auto

lemma normalize_tags_loop_fix:
  "\<forall>t\<in>set tags. tag_normal t \<Longrightarrow> distinct (out @ tags) \<Longrightarrow>
     normalize_tags_loop out tags = Inr (sort (out @ tags))"
  by (induction tags arbitrary: out) (auto simp: Let_def tag_normal_def)

lemma normalize_tags_Inr:
  "normalize_tags tags = Inr ts \<Longrightarrow> sorted ts \<and> distinct ts \<and> (\<forall>t\<in>set ts. tag_normal t)"
  using normalize_tags_loop_Inr [of "[]" tags ts] by (simp add: normalize_tags_def)

lemma normalize_tags_fix:
  "sorted ts \<Longrightarrow> distinct ts \<Longrightarrow> \<forall>t\<in>set ts. tag_normal t \<Longrightarrow> normalize_tags ts = Inr ts"
  by (simp add: normalize_tags_def normalize_tags_loop_fix sort_key_id_if_sorted)

interpretation tags: validator normalize_tags
  by unfold_locales (use normalize_tags_Inr normalize_tags_fix in blast)

section \<open>What the validators let through\<close>

text \<open>
  A health URL that is accepted is safe to request: it is empty, a path, or an http(s) URL
  without credentials or fragment whose host is a loopback name and whose port is the
  Resource's own target port; it is the argument without surrounding blanks.
\<close>

theorem health_url_stays_local:
  assumes "validate_health_url v host port = Inr u"
  shows "u = py_strip (opt_str v) \<and> length u \<le> 500 \<and> health_url_local u port"
proof -
  have "length u \<le> 500"
    using assms by (auto simp: validate_health_url_def Let_def res_simps not_less split: if_splits sum.splits)
  then show ?thesis using validate_health_Inr [OF assms] validate_health_local [OF assms] by simp
qed

theorem health_url_stays_local_witness:
  "validate_health_url (Some '' http://LOCALHOST:3000/h?x=1 '') ''127.0.0.1'' 3000 = Inr ''http://LOCALHOST:3000/h?x=1''
   \<and> health_url_local ''http://LOCALHOST:3000/h?x=1'' 3000"
proof -
  have 1: "validate_health_url (Some '' http://LOCALHOST:3000/h?x=1 '') ''127.0.0.1'' 3000 = Inr ''http://LOCALHOST:3000/h?x=1''"
    by code_simp
  with health_url_stays_local [OF this] show ?thesis by blast
qed

text \<open>
  A self-healing unit name that is accepted is a plain \<open>.service\<close> name and never one of the
  bridge's own units, the WireGuard unit or the agent.
\<close>

theorem systemd_unit_never_protected:
  assumes "validate_systemd_unit v = Inr u" and "u \<noteq> []"
  shows "SAFE_SYSTEMD_UNIT_fullmatch u \<and> \<not> starts_with ''ge360-bridge'' u
    \<and> \<not> starts_with ''wg-quick@'' u \<and> u \<noteq> ''ge360-agent.service'' \<and> CHR ''/'' \<notin> set u \<and> CHR '' '' \<notin> set u"
proof -
  note u = validate_systemd_unit_Inr [OF assms]
  obtain w where w: "u = w @ ''.service''" "class_fullmatch is_alnum
      (\<lambda>c. is_alnum c \<or> c \<in> {CHR ''_'', CHR ''.'', CHR ''@'', CHR '':'', CHR ''-''}) 126 w"
    using u ends_with_split [of "''.service''" u]
    by (intro that [of "take (length u - length ''.service'') u"]) (simp_all add: SAFE_SYSTEMD_UNIT_fullmatch_def)
  have "is_alnum c \<or> c \<in> {CHR ''_'', CHR ''.'', CHR ''@'', CHR '':'', CHR ''-''}" if "c \<in> set w" for c
    using class_fullmatch_chars [OF w(2) _ that] by blast
  moreover have "\<not> is_alnum (CHR ''/'')" "\<not> is_alnum (CHR '' '')" by code_simp+
  ultimately show ?thesis using u w(1) by auto
qed

theorem systemd_unit_never_protected_witness:
  "validate_systemd_unit (Some ''jellyfin.service'') = Inr ''jellyfin.service''
   \<and> \<not> starts_with ''ge360-bridge'' ''jellyfin.service''"
proof -
  have 1: "validate_systemd_unit (Some ''jellyfin.service'') = Inr ''jellyfin.service''" by code_simp
  from systemd_unit_never_protected [OF this] 1 show ?thesis by simp
qed

text \<open>
  Two values the validators mean to refuse get through: a name with a newline at its end,
  since the pattern ends in \<open>$\<close> and is used with \<open>match\<close>, and a timeout that is not a number,
  since both range comparisons are false for it.
\<close>

theorem validator_gaps:
  "validate_name (''phone'' @ [CHR 0x0A]) = Inr (''phone'' @ [CHR 0x0A])
   \<and> validate_timeout_seconds (NStr ''nan'') = Inr NaN"
  by code_simp

end
