(* ===== verification/Sha256.thy ===== *)
theory Sha256
  imports Prelude "HOL-Library.Word"
begin

unbundle bit_operations_syntax

text \<open>
  \<open>hashlib.sha256(text.encode("utf-8")).hexdigest()\<close> and \<open>hmac.new(key, msg, sha256).hexdigest()\<close>
  of Python's standard library, on byte lists (FIPS 180-4 and RFC 2104). The program compares
  and stores these digests; the only facts the development needs are that a digest is 64
  lower-case hexadecimal digits and that equal inputs have equal digests.
\<close>

type_synonym byte = "8 word"
type_synonym w32 = "32 word"

text \<open>
  The round constants and the initial state are the first 32 bits of the fractional parts of
  the cube roots of the first 64 primes and of the square roots of the first 8.
\<close>

definition int_root :: "nat \<Rightarrow> nat \<Rightarrow> nat" where
  \<comment> \<open>the integer part of the k-th root of a number below \<open>2 ^ (36 * k)\<close>, bit by bit\<close>
  "int_root k n = foldl (\<lambda>r i. if (r + 2 ^ i) ^ k \<le> n then r + 2 ^ i else r) 0 (rev [0..<36])"

definition primes_below :: "nat \<Rightarrow> nat list" where
  "primes_below n = filter (\<lambda>p. list_all (\<lambda>d. p mod d \<noteq> 0) [2..<p]) [2..<n]"

definition sha_k :: "w32 list" where
  "sha_k = map (\<lambda>p. of_nat (int_root 3 (p * 2 ^ 96))) (primes_below 312)"

definition sha_h0 :: "w32 list" where
  "sha_h0 = map (\<lambda>p. of_nat (int_root 2 (p * 2 ^ 64))) (primes_below 20)"

definition be32 :: "byte list \<Rightarrow> w32" where
  "be32 bs = foldl (\<lambda>a b. push_bit 8 a OR ucast b) 0 bs"

fun chunks :: "nat \<Rightarrow> nat \<Rightarrow> 'a list \<Rightarrow> 'a list list" where
  "chunks 0 k xs = []"
| "chunks (Suc n) k xs = take k xs # chunks n k (drop k xs)"

definition bytes_be :: "nat \<Rightarrow> nat \<Rightarrow> byte list" where
  "bytes_be k n = map (\<lambda>i. of_nat (n div 256 ^ i)) (rev [0..<k])"

definition sha_pad :: "byte list \<Rightarrow> byte list" where
  "sha_pad m = (let z = (119 - length m mod 64) mod 64 in
     m @ [0x80] @ replicate z 0 @ bytes_be 8 (8 * length m))"

definition ssig0 :: "w32 \<Rightarrow> w32" where
  "ssig0 x = word_rotr 7 x XOR word_rotr 18 x XOR drop_bit 3 x"

definition ssig1 :: "w32 \<Rightarrow> w32" where
  "ssig1 x = word_rotr 17 x XOR word_rotr 19 x XOR drop_bit 10 x"

definition bsig0 :: "w32 \<Rightarrow> w32" where
  "bsig0 x = word_rotr 2 x XOR word_rotr 13 x XOR word_rotr 22 x"

definition bsig1 :: "w32 \<Rightarrow> w32" where
  "bsig1 x = word_rotr 6 x XOR word_rotr 11 x XOR word_rotr 25 x"

fun schedule :: "nat \<Rightarrow> w32 list \<Rightarrow> w32 list" where
  \<comment> \<open>the last sixteen words are at the end of the list\<close>
  "schedule 0 ws = ws"
| "schedule (Suc n) ws = (let l = length ws in
     schedule n (ws @ [ssig1 (ws ! (l - 2)) + ws ! (l - 7) + ssig0 (ws ! (l - 15)) + ws ! (l - 16)]))"

fun sha_round :: "w32 list \<Rightarrow> w32 \<times> w32 \<Rightarrow> w32 list" where
  "sha_round [a, b, c, d, e, f, g, h] (k, w) =
     (let t1 = h + bsig1 e + ((e AND f) XOR (NOT e AND g)) + k + w;
          t2 = bsig0 a + ((a AND b) XOR (a AND c) XOR (b AND c))
      in [t1 + t2, a, b, c, d + t1, e, f, g])"
| "sha_round st _ = st"

definition sha_block :: "w32 list \<Rightarrow> byte list \<Rightarrow> w32 list" where
  "sha_block st blk = (let ws = schedule 48 (map be32 (chunks 16 4 blk)) in
     map2 (+) st (foldl sha_round st (zip sha_k ws)))"

definition sha256_words :: "byte list \<Rightarrow> w32 list" where
  "sha256_words m = (let p = sha_pad m in foldl sha_block sha_h0 (chunks (length p div 64) 64 p))"

definition sha256 :: "byte list \<Rightarrow> byte list" where
  "sha256 m = concat (map (\<lambda>w. bytes_be 4 (unat w)) (sha256_words m))"

definition hex_digit :: "nat \<Rightarrow> char" where
  "hex_digit n = (if n < 10 then char_of (48 + n) else char_of (87 + n))"

definition hex_byte :: "byte \<Rightarrow> string" where
  "hex_byte b = [hex_digit (unat b div 16), hex_digit (unat b mod 16)]"

definition hexdigest :: "byte list \<Rightarrow> string" where
  "hexdigest bs = concat (map hex_byte bs)"

definition utf8_char :: "char \<Rightarrow> byte list" where
  "utf8_char c = (let n = ord_of c in
     if n < 128 then [of_nat n] else [of_nat (192 + n div 64), of_nat (128 + n mod 64)])"

definition utf8 :: "string \<Rightarrow> byte list" where
  "utf8 s = concat (map utf8_char s)"

definition raw_bytes :: "string \<Rightarrow> byte list" where
  \<comment> \<open>a Python \<open>bytes\<close> value is a list of characters, one per byte\<close>
  "raw_bytes s = map (\<lambda>c. of_nat (ord_of c)) s"

definition sha256_text :: "string \<Rightarrow> string" where
  "sha256_text s = hexdigest (sha256 (utf8 s))"

definition sha256_bytes :: "string \<Rightarrow> string" where
  "sha256_bytes s = hexdigest (sha256 (raw_bytes s))"

definition hmac_sha256 :: "byte list \<Rightarrow> byte list \<Rightarrow> byte list" where
  "hmac_sha256 key msg = (let k0 = (if 64 < length key then sha256 key else key);
       k = k0 @ replicate (64 - length k0) 0
     in sha256 (map (\<lambda>b. b XOR 0x5c) k @ sha256 (map (\<lambda>b. b XOR 0x36) k @ msg)))"

section \<open>The form of a digest\<close>

definition is_digest :: "string \<Rightarrow> bool" where
  "is_digest s = (length s = 64 \<and> list_all is_hex_lower s)"

lemma is_hex_lower_hex_digit: "n < 16 \<Longrightarrow> is_hex_lower (hex_digit n)"
  by (auto simp: hex_digit_def is_hex_lower_def is_digit_def Let_def)

lemma hexdigest_chars: "list_all is_hex_lower (hexdigest bs)"
proof -
  have "unat b div 16 < 16" for b :: byte
    using unsigned_less [of b, where 'a = nat] by (simp add: div_less_iff_less_mult)
  then show ?thesis
    by (induction bs) (auto simp: hexdigest_def hex_byte_def intro: is_hex_lower_hex_digit)
qed

lemma length_hexdigest: "length (hexdigest bs) = 2 * length bs"
  by (induction bs) (auto simp: hexdigest_def hex_byte_def)

lemma length_sha_round [simp]: "length (sha_round st kw) = length st"
  by (cases "(st, kw)" rule: sha_round.cases) (auto simp: Let_def)

lemma length_sha_rounds: "length (foldl sha_round st kws) = length st"
  by (induction kws arbitrary: st) auto

lemma length_sha_block: "length (sha_block st blk) = length st"
  by (simp add: sha_block_def Let_def length_sha_rounds)

lemma length_sha_blocks: "length (foldl sha_block st blks) = length st"
  by (induction blks arbitrary: st) (auto simp: length_sha_block)

lemma length_bytes_be [simp]: "length (bytes_be k n) = k"
  by (simp add: bytes_be_def)

lemma length_sha_h0: "length sha_h0 = 8"
  unfolding sha_h0_def length_map by code_simp

lemma length_sha256 [simp]: "length (sha256 m) = 32"
proof -
  have "length (sha256_words m) = 8"
    by (simp add: sha256_words_def Let_def length_sha_blocks length_sha_h0)
  moreover have "length (concat (map (\<lambda>w. bytes_be 4 (unat w)) ws)) = 4 * length ws" for ws :: "w32 list"
    by (induction ws) auto
  ultimately show ?thesis by (simp add: sha256_def)
qed

lemma is_digest_hexdigest: "length bs = 32 \<Longrightarrow> is_digest (hexdigest bs)"
  by (simp add: is_digest_def hexdigest_chars length_hexdigest)

lemma is_digest_sha256_text [simp]: "is_digest (sha256_text s)"
  by (simp add: sha256_text_def is_digest_hexdigest)

lemma is_digest_sha256_bytes [simp]: "is_digest (sha256_bytes s)"
  by (simp add: sha256_bytes_def is_digest_hexdigest)

lemma is_digest_hmac [simp]: "is_digest (hexdigest (hmac_sha256 k m))"
  by (simp add: hmac_sha256_def Let_def is_digest_hexdigest)

lemma hex_lower_ascii: "is_hex_lower c \<Longrightarrow> ord_of c < 128"
  by (auto simp: is_hex_lower_def is_digit_def Let_def)

lemma digest_ascii: "is_digest s \<Longrightarrow> is_ascii s"
  by (auto simp: is_digest_def is_ascii_def list_all_iff dest: hex_lower_ascii)

lemma hex_lower_fix: "is_hex_lower c \<Longrightarrow> lower_char c = c \<and> \<not> py_isspace c"
  by (auto simp: is_hex_lower_def is_digit_def lower_char_def py_isspace_def Let_def)

lemma digest_normal: "is_digest s \<Longrightarrow> py_lower (py_strip s) = s"
proof -
  assume d: "is_digest s"
  then have ne: "s \<noteq> []" by (auto simp: is_digest_def)
  have c: "is_hex_lower c" if "c \<in> set s" for c using d that by (simp add: is_digest_def list_all_iff)
  then have "py_strip s = s" using ne hex_lower_fix by (simp add: py_strip_def strip_by_fix_iff)
  moreover have "py_lower s = s" using c hex_lower_fix by (simp add: py_lower_def map_idI)
  ultimately show ?thesis by simp
qed

end
