(* ===== verification/AuditLog.thy ===== *)
theory AuditLog
  imports PyNum
begin

text \<open>
  \<open>ge360_bridge/audit.py\<close>: the audit table as the list of its rows in insertion order, the
  cleaning of each text column, \<open>write_event\<close>, \<open>list_events\<close> and \<open>count_events\<close>, and the two
  counters \<open>metrics.py\<close> reads from the table. SQLite itself is not modelled: rows are never
  deleted, so the AUTOINCREMENT id of a row is its position.
\<close>

record audit_row =
  a_id :: nat
  a_timestamp :: string
  a_event :: string
  a_device_id :: "string option"
  a_device_name :: "string option"
  a_resource :: "string option"
  a_action :: "string option"
  a_result :: "string option"
  a_ip :: "string option"
  a_latency_ms :: "rat option"
  a_error :: "string option"

type_synonym audit_db = "audit_row list"

definition ALLOWED_EVENTS :: "string list" where
  "ALLOWED_EVENTS =
     [''DEVICE_CONNECTED'', ''DEVICE_DISCONNECTED'', ''RESOURCE_ACCESS'', ''RESOURCE_ONLINE'',
      ''RESOURCE_OFFLINE'', ''ACL_CHANGED'', ''SELF_HEAL_RESTART'', ''SELF_HEAL_BLOCKED'',
      ''SELF_HEAL_RECOVERED'', ''P2P_PREPARED'', ''P2P_SUCCEEDED'', ''P2P_FAILED'',
      ''RELAY_ACTIVE'', ''RELAY_FAILED'']"

definition clean :: "string option \<Rightarrow> nat \<Rightarrow> string option" where
  "clean value max_len = (case value of None \<Rightarrow> None
     | Some v \<Rightarrow> (let text = py_strip (filter (\<lambda>c. ord_of c \<noteq> 0) v) in
         if text = [] then None else Some (take max_len text)))"

record event_args =
  e_device_id :: "string option"
  e_device_name :: "string option"
  e_resource :: "string option"
  e_action :: "string option"
  e_result :: "string option"
  e_ip :: "string option"
  e_latency_ms :: "rat option"
  e_error :: "string option"

definition no_args :: event_args where
  "no_args = \<lparr>e_device_id = None, e_device_name = None, e_resource = None, e_action = None,
     e_result = None, e_ip = None, e_latency_ms = None, e_error = None\<rparr>"

definition write_event :: "string \<Rightarrow> string \<Rightarrow> event_args \<Rightarrow> audit_db \<Rightarrow> (nat \<times> audit_db) res" where
  "write_event now event a db =
     (if event \<notin> set ALLOWED_EVENTS then Inl (ValueError (''Evento audit non consentito: '' @ event))
      else (let i = Suc (length db) in
        Inr (i, db @ [\<lparr>a_id = i, a_timestamp = now, a_event = event,
          a_device_id = clean (e_device_id a) 128, a_device_name = clean (e_device_name a) 128,
          a_resource = clean (e_resource a) 128, a_action = clean (e_action a) 128,
          a_result = clean (e_result a) 128, a_ip = clean (e_ip a) 128,
          a_latency_ms = map_option (py_round 2) (e_latency_ms a),
          a_error = clean (e_error a) 512\<rparr>])))"

definition audit_quietly :: "string \<Rightarrow> string \<Rightarrow> event_args \<Rightarrow> audit_db \<Rightarrow> audit_db" where
  \<comment> \<open>the callers' \<open>try: write_event(...) except Exception: pass\<close>\<close>
  "audit_quietly now event a db = (case write_event now event a db of Inl _ \<Rightarrow> db | Inr (_, db') \<Rightarrow> db')"

definition opt_empty :: "string option \<Rightarrow> bool" where
  \<comment> \<open>a filter argument that is None or the empty string adds no condition\<close>
  "opt_empty v = (v = None \<or> v = Some [])"

definition filter_matches :: "string option \<Rightarrow> string option \<Rightarrow> string option \<Rightarrow> audit_row \<Rightarrow> bool" where
  "filter_matches event device resource r =
     ((opt_empty event \<or> a_event r = the event) \<and>
      (opt_empty device \<or> a_device_id r = device \<or> a_device_name r = device) \<and>
      (opt_empty resource \<or> a_resource r = resource))"

definition list_events :: "int \<Rightarrow> string option \<Rightarrow> string option \<Rightarrow> string option \<Rightarrow> audit_db \<Rightarrow> audit_db" where
  "list_events limit event device resource db =
     take (nat (max 1 (min limit 1000))) (filter (filter_matches event device resource) (rev db))"

definition count_events :: "audit_db \<Rightarrow> nat" where
  "count_events db = length db"

definition audit_totals :: "audit_db \<Rightarrow> nat \<times> nat" where
  "audit_totals db =
     (length (filter (\<lambda>r. a_event r = ''RESOURCE_ACCESS'') db),
      length (filter (\<lambda>r. a_event r = ''RESOURCE_ACCESS'' \<and> a_result r \<in> {Some ''ERROR'', Some ''DENY''}
                          \<or> a_event r = ''RESOURCE_OFFLINE'') db))"

section \<open>The table's invariant\<close>

definition col_ok :: "nat \<Rightarrow> string option \<Rightarrow> bool" where
  "col_ok n v = (case v of None \<Rightarrow> True | Some s \<Rightarrow> s \<noteq> [] \<and> length s \<le> n \<and> list_all (\<lambda>c. ord_of c \<noteq> 0) s)"

definition row_ok :: "audit_row \<Rightarrow> bool" where
  "row_ok r = (a_event r \<in> set ALLOWED_EVENTS \<and> col_ok 128 (a_device_id r) \<and> col_ok 128 (a_device_name r)
     \<and> col_ok 128 (a_resource r) \<and> col_ok 128 (a_action r) \<and> col_ok 128 (a_result r)
     \<and> col_ok 128 (a_ip r) \<and> col_ok 512 (a_error r))"

definition db_ok :: "audit_db \<Rightarrow> bool" where
  "db_ok db = (map a_id db = [1..<Suc (length db)] \<and> list_all row_ok db)"

lemma col_ok_clean: "0 < n \<Longrightarrow> col_ok n (clean v n)"
proof (cases v)
  case (Some s)
  let ?t = "py_strip (filter (\<lambda>c. ord_of c \<noteq> 0) s)"
  assume "0 < n"
  have "set (take n ?t) \<subseteq> set (filter (\<lambda>c. ord_of c \<noteq> 0) s)"
    using set_take_subset set_py_strip by (rule order_trans)
  with Some \<open>0 < n\<close> show ?thesis
    by (auto simp: col_ok_def clean_def Let_def list_all_iff split: option.splits)
qed (simp add: col_ok_def clean_def)

lemma write_event_db_ok: "db_ok db \<Longrightarrow> write_event now ev a db = Inr (i, db') \<Longrightarrow> db_ok db'"
  by (auto simp: db_ok_def write_event_def row_ok_def col_ok_clean Let_def split: if_splits)

lemma audit_quietly_db_ok: "db_ok db \<Longrightarrow> db_ok (audit_quietly now ev a db)"
  by (auto simp: audit_quietly_def split: sum.splits dest: write_event_db_ok)

lemma audit_quietly_prefix: "\<exists>rows. audit_quietly now ev a db = db @ rows \<and> length rows \<le> 1"
  by (auto simp: audit_quietly_def write_event_def Let_def split: sum.splits if_splits)

lemma sorted_wrt_rev_upt: "sorted_wrt (>) (rev [a..<b])"
  by (simp add: sorted_wrt_rev sorted_wrt_upt)

text \<open>
  \<open>list_events\<close> returns the newest matching rows first: on a table that satisfies the
  invariant the ids of the result decrease strictly, every row matches the filter, at most
  1000 rows are returned, and no matching row that is left out is newer than one returned.
\<close>

theorem list_events_newest_first:
  assumes "db_ok db"
  shows "sorted_wrt (>) (map a_id (list_events limit ev dev res db))
    \<and> length (list_events limit ev dev res db) \<le> 1000
    \<and> (\<forall>r\<in>set (list_events limit ev dev res db). r \<in> set db \<and> filter_matches ev dev res r)
    \<and> (\<forall>r\<in>set db. filter_matches ev dev res r \<longrightarrow> r \<notin> set (list_events limit ev dev res db) \<longrightarrow>
         (\<forall>s\<in>set (list_events limit ev dev res db). a_id r < a_id s))"
proof -
  let ?m = "filter (filter_matches ev dev res) (rev db)" and ?n = "nat (max 1 (min limit 1000))"
  have "sorted_wrt (>) (map a_id (rev db))"
    using assms sorted_wrt_rev_upt by (simp add: db_ok_def rev_map [symmetric])
  then have m: "sorted_wrt (\<lambda>x y. a_id x > a_id y) ?m"
    by (simp add: sorted_wrt_map sorted_wrt_filter)
  then have app: "sorted_wrt (\<lambda>x y. a_id x > a_id y) (take ?n ?m @ drop ?n ?m)" by simp
  have 1: "sorted_wrt (>) (map a_id (take ?n ?m))"
    using m by (simp add: sorted_wrt_map sorted_wrt_take)
  have 4: "a_id r < a_id s" if "r \<in> set ?m" "r \<notin> set (take ?n ?m)" "s \<in> set (take ?n ?m)" for r s
  proof -
    have "r \<in> set (drop ?n ?m)" using that(1,2) by (metis Un_iff append_take_drop_id set_append)
    with app that(3) show ?thesis unfolding sorted_wrt_append by blast
  qed
  have 3: "\<forall>r\<in>set (take ?n ?m). r \<in> set db \<and> filter_matches ev dev res r"
    by (auto dest: in_set_takeD)
  have 2: "length (take ?n ?m) \<le> 1000" by simp
  have 5: "\<forall>r\<in>set db. filter_matches ev dev res r \<longrightarrow> r \<notin> set (take ?n ?m) \<longrightarrow>
      (\<forall>s\<in>set (take ?n ?m). a_id r < a_id s)"
    using 4 by simp
  show ?thesis
    unfolding list_events_def by (intro conjI 1 2 3 5)
qed

definition audit_example :: audit_db where
  "audit_example = audit_quietly ''t2'' ''RELAY_ACTIVE'' (no_args\<lparr>e_device_id := Some ''dev_1''\<rparr>)
     (audit_quietly ''t1'' ''ACL_CHANGED'' (no_args\<lparr>e_action := Some '' group_enable ''\<rparr>) [])"

theorem list_events_newest_first_witness:
  "map a_id (list_events 10 None None None audit_example) = [2, 1]
   \<and> sorted_wrt (>) (map a_id (list_events 10 None None None audit_example))"
proof -
  have "db_ok audit_example" by code_simp
  from list_events_newest_first [OF this, of 10 None None None] show ?thesis
    by (simp add: audit_example_def audit_quietly_def write_event_def ALLOWED_EVENTS_def
        list_events_def filter_matches_def opt_empty_def)
qed

end
