(* ===== verification/Registry.thy ===== *)
theory Registry
  imports Validate Sha256 AuditLog
begin

text \<open>
  The data model and the files of \<open>ge360_bridge/core.py\<close>: \<open>Resource\<close>, \<open>Device\<close> and \<open>Group\<close>,
  the stored (possibly older or partial) form of each, the normalisation every read and every
  write applies, and the load and save operations over the four registry files. A stored
  field is \<open>None\<close> where the JSON object lacks it (for strings and lists a null reads the
  same); the four WireGuard fields of a device, which every version of the program wrote, are
  always present. Keys no version of the program reads are not kept.
\<close>

section \<open>Records\<close>

record device =
  device_id :: string
  d_name :: string
  device_type :: string
  owner :: string
  vpn_ip :: string
  public_key :: string
  preshared_key :: string
  token :: string
  created_at :: string
  expires_at :: "string option"
  d_notes :: string
  tags :: "string list"
  d_enabled :: bool

record resource =
  r_name :: string
  bridge_port :: int
  listen_port :: int
  target_host :: string
  target_port :: int
  allowed_devices :: "string list"
  icon :: string
  r_description :: string
  protocol :: string
  health_url :: string
  timeout_seconds :: pyfloat
  systemd_unit :: string
  self_heal_enabled :: bool
  denied_devices :: "string list"
  r_enabled :: bool

record group =
  g_name :: string
  g_description :: string
  device_ids :: "string list"
  allowed_services :: "string list"
  allowed_resources :: "string list"
  g_enabled :: bool

record raw_device =
  raw_device_id :: "string option"
  raw_d_name :: "string option"
  raw_device_type :: "string option"
  raw_owner :: "string option"
  raw_vpn_ip :: string
  raw_public_key :: string
  raw_preshared_key :: string
  raw_token :: string
  raw_created_at :: "string option"
  raw_expires_at :: "string option"
  raw_notes :: "string option"
  raw_tags :: "string list option"
  raw_d_enabled :: "bool option"

record raw_resource =
  raw_r_name :: "string option"
  raw_bridge_port :: "int option"
  raw_listen_port :: "int option"
  raw_target_host :: "string option"
  raw_target_port :: "int option"
  raw_allowed_devices :: "string list option"
  raw_icon :: "string option"
  raw_r_description :: "string option"
  raw_protocol :: "string option"
  raw_health_url :: "string option"
  raw_timeout_seconds :: "num_arg option"
  raw_systemd_unit :: "string option"
  raw_self_heal_enabled :: "bool option"
  raw_denied_devices :: "string list option"
  raw_r_enabled :: "bool option"

record raw_group =
  raw_g_name :: "string option"
  raw_g_description :: "string option"
  raw_device_ids :: "string list option"
  raw_allowed_services :: "string list option"
  raw_allowed_resources :: "string list option"
  raw_g_enabled :: "bool option"

text \<open>
  The registry files, \<open>None\<close> for a file that does not exist, and the audit table the access
  operations append to.
\<close>

record store =
  DEVICES_FILE :: "raw_device list option"
  RESOURCES_FILE :: "raw_resource list option"
  SERVICES_FILE :: "raw_resource list option"
  GROUPS_FILE :: "raw_group list option"
  AUDIT_DB :: audit_db

definition load_file :: "'a list option \<Rightarrow> 'a list" where
  \<comment> \<open>\<open>_load(path, [])\<close>\<close>
  "load_file f = (case f of None \<Rightarrow> [] | Some xs \<Rightarrow> xs)"

definition opt_list :: "'a list option \<Rightarrow> 'a list" where
  \<comment> \<open>\<open>value or []\<close>\<close>
  "opt_list v = (case v of None \<Rightarrow> [] | Some xs \<Rightarrow> xs)"

definition opt_bool :: "bool option \<Rightarrow> bool \<Rightarrow> bool" where
  "opt_bool v d = (case v of None \<Rightarrow> d | Some b \<Rightarrow> b)"

definition some_if :: "string option \<Rightarrow> string option" where
  \<comment> \<open>\<open>value or None\<close>\<close>
  "some_if v = (if v = Some [] then None else v)"

section \<open>Normalisation\<close>

definition legacy_device_id :: "raw_device \<Rightarrow> string" where
  "legacy_device_id d = ''dev_'' @ take 12 (sha256_text
     (py_join ''|'' [raw_public_key d, raw_vpn_ip d, opt_str (raw_d_name d)]))"

definition normalize_device :: "raw_device \<Rightarrow> string \<Rightarrow> device" where
  "normalize_device d created_at_default = (let
      did = opt_str (raw_device_id d);
      did = (if did = [] then legacy_device_id d else did);
      ty = py_lower (str_or (opt_str (raw_device_type d)) ''unknown'')
    in \<lparr>device_id = did,
        d_name = opt_str (raw_d_name d),
        device_type = (if ty \<in> set DEVICE_TYPES then ty else ''unknown''),
        owner = opt_str (raw_owner d),
        vpn_ip = raw_vpn_ip d,
        public_key = raw_public_key d,
        preshared_key = raw_preshared_key d,
        token = raw_token d,
        created_at = str_or (opt_str (raw_created_at d)) created_at_default,
        expires_at = some_if (raw_expires_at d),
        d_notes = opt_str (raw_notes d),
        tags = (case normalize_tags (opt_list (raw_tags d)) of Inl _ \<Rightarrow> [] | Inr ts \<Rightarrow> ts),
        d_enabled = opt_bool (raw_d_enabled d) True\<rparr>)"

definition normalize_resource :: "raw_resource \<Rightarrow> resource" where
  "normalize_resource r = (let
      bp = (case raw_bridge_port r of Some p \<Rightarrow> p
            | None \<Rightarrow> (case raw_listen_port r of Some p \<Rightarrow> p | None \<Rightarrow> 0));
      pr = py_lower (str_or (opt_str (raw_protocol r)) ''tcp'');
      unit = (case validate_systemd_unit (raw_systemd_unit r) of Inl _ \<Rightarrow> [] | Inr u \<Rightarrow> u)
    in \<lparr>r_name = opt_str (raw_r_name r),
        bridge_port = bp,
        listen_port = bp,
        target_host = py_lower (str_or (opt_str (raw_target_host r)) ''127.0.0.1''),
        target_port = (case raw_target_port r of None \<Rightarrow> 0 | Some p \<Rightarrow> p),
        allowed_devices = sorted_set (opt_list (raw_allowed_devices r)),
        icon = take 64 (str_or (opt_str (raw_icon r)) ''server''),
        r_description = take 500 (opt_str (raw_r_description r)),
        protocol = (if pr \<in> set RESOURCE_PROTOCOLS then pr else ''tcp''),
        health_url = take 500 (opt_str (raw_health_url r)),
        timeout_seconds = (case validate_timeout_seconds
             (case raw_timeout_seconds r of None \<Rightarrow> NFloat (Fin 2) | Some v \<Rightarrow> v) of
             Inl _ \<Rightarrow> Fin 2 | Inr t \<Rightarrow> t),
        systemd_unit = unit,
        self_heal_enabled = (opt_bool (raw_self_heal_enabled r) False \<and> unit \<noteq> []),
        denied_devices = sorted_set (opt_list (raw_denied_devices r)),
        r_enabled = opt_bool (raw_r_enabled r) True\<rparr>)"

definition nonempty :: "string list \<Rightarrow> string list" where
  "nonempty xs = filter (\<lambda>x. x \<noteq> []) xs"

definition normalize_group :: "raw_group \<Rightarrow> group" where
  "normalize_group g = (let
      legacy = (if opt_list (raw_allowed_services g) \<noteq> [] then opt_list (raw_allowed_services g)
                else opt_list (raw_allowed_resources g));
      services = sorted_set (nonempty legacy)
    in \<lparr>g_name = opt_str (raw_g_name g),
        g_description = take 500 (opt_str (raw_g_description g)),
        device_ids = sorted_set (nonempty (opt_list (raw_device_ids g))),
        allowed_services = services,
        allowed_resources = services,
        g_enabled = opt_bool (raw_g_enabled g) True\<rparr>)"

section \<open>A normalised value written to its file\<close>

definition raw_of_device :: "device \<Rightarrow> raw_device" where
  "raw_of_device d = \<lparr>raw_device_id = Some (device_id d), raw_d_name = Some (d_name d),
     raw_device_type = Some (device_type d), raw_owner = Some (owner d), raw_vpn_ip = vpn_ip d,
     raw_public_key = public_key d, raw_preshared_key = preshared_key d, raw_token = token d,
     raw_created_at = Some (created_at d), raw_expires_at = expires_at d, raw_notes = Some (d_notes d),
     raw_tags = Some (tags d), raw_d_enabled = Some (d_enabled d)\<rparr>"

definition raw_of_resource :: "resource \<Rightarrow> raw_resource" where
  "raw_of_resource r = \<lparr>raw_r_name = Some (r_name r), raw_bridge_port = Some (bridge_port r),
     raw_listen_port = Some (listen_port r), raw_target_host = Some (target_host r),
     raw_target_port = Some (target_port r), raw_allowed_devices = Some (allowed_devices r),
     raw_icon = Some (icon r), raw_r_description = Some (r_description r),
     raw_protocol = Some (protocol r), raw_health_url = Some (health_url r),
     raw_timeout_seconds = Some (NFloat (timeout_seconds r)), raw_systemd_unit = Some (systemd_unit r),
     raw_self_heal_enabled = Some (self_heal_enabled r),
     raw_denied_devices = Some (denied_devices r), raw_r_enabled = Some (r_enabled r)\<rparr>"

definition raw_of_group :: "group \<Rightarrow> raw_group" where
  "raw_of_group g = \<lparr>raw_g_name = Some (g_name g), raw_g_description = Some (g_description g),
     raw_device_ids = Some (device_ids g), raw_allowed_services = Some (allowed_services g),
     raw_allowed_resources = Some (allowed_resources g), raw_g_enabled = Some (g_enabled g)\<rparr>"

definition renorm_device :: "string \<Rightarrow> device \<Rightarrow> device" where
  "renorm_device now d = normalize_device (raw_of_device d) now"

definition renorm_resource :: "resource \<Rightarrow> resource" where
  "renorm_resource r = normalize_resource (raw_of_resource r)"

definition renorm_group :: "group \<Rightarrow> group" where
  "renorm_group g = normalize_group (raw_of_group g)"

section \<open>Load and save\<close>

definition list_devices :: "store \<Rightarrow> device list" where
  "list_devices st = map (\<lambda>d. normalize_device d []) (load_file (DEVICES_FILE st))"

definition list_resources :: "store \<Rightarrow> resource list" where
  "list_resources st = (let raw_resources = load_file (RESOURCES_FILE st);
      source = (if raw_resources \<noteq> [] then raw_resources else load_file (SERVICES_FILE st))
    in map normalize_resource source)"

definition list_groups :: "store \<Rightarrow> group list" where
  "list_groups st = map normalize_group (load_file (GROUPS_FILE st))"

definition save_devices :: "string \<Rightarrow> device list \<Rightarrow> store \<Rightarrow> store res" where
  "save_devices now items st = (let normalized = map (renorm_device now) items in
     if \<not> distinct (map device_id normalized)
     then Inl (BridgeError ''Device Registry non valido: device_id duplicato.'')
     else if \<not> distinct (map d_name normalized)
     then Inl (BridgeError ''Device Registry non valido: nome dispositivo duplicato.'')
     else Inr (st\<lparr>DEVICES_FILE := Some (map raw_of_device normalized)\<rparr>))"

definition save_resources :: "resource list \<Rightarrow> store \<Rightarrow> store res" where
  "save_resources items st = (let normalized = map renorm_resource items in
     if \<not> distinct (map r_name normalized)
     then Inl (BridgeError ''Resource Registry non valido: nome duplicato.'')
     else if \<not> distinct (map bridge_port normalized)
     then Inl (BridgeError ''Resource Registry non valido: bridge port duplicata.'')
     else Inr (st\<lparr>RESOURCES_FILE := Some (map raw_of_resource normalized),
                  SERVICES_FILE := Some (map raw_of_resource normalized)\<rparr>))"

definition without :: "string list \<Rightarrow> string list \<Rightarrow> string list" where
  \<comment> \<open>\<open>sorted(set(xs) - set(ys))\<close>\<close>
  "without xs ys = sorted_set (filter (\<lambda>x. x \<notin> set ys) xs)"

definition check_group :: "string list \<Rightarrow> string list \<Rightarrow> group \<Rightarrow> unit res" where
  "check_group known_devices known_resources g =
     rbind (validate_name (g_name g)) (\<lambda>_.
     rbind (ensure (without (device_ids g) known_devices = [])
       (BridgeError (''Device sconosciuti nel gruppo: '' @ py_join '', '' (without (device_ids g) known_devices)))) (\<lambda>_.
     ensure (without (allowed_services g) known_resources = [])
       (BridgeError (''Resource sconosciute nel gruppo: '' @ py_join '', '' (without (allowed_services g) known_resources)))))"

definition save_groups :: "group list \<Rightarrow> store \<Rightarrow> store res" where
  "save_groups items st = (let normalized = map renorm_group items in
     rbind (ensure (distinct (map g_name normalized))
       (BridgeError ''Group Registry non valido: nome gruppo duplicato.'')) (\<lambda>_.
     rbind (rmap (check_group (map device_id (list_devices st)) (map r_name (list_resources st))) normalized) (\<lambda>_.
     Inr (st\<lparr>GROUPS_FILE := Some (map raw_of_group normalized)\<rparr>))))"

section \<open>Look-up\<close>

definition device_matches :: "string \<Rightarrow> device \<Rightarrow> bool" where
  "device_matches identifier d = (device_id d = identifier \<or> d_name d = identifier)"

definition find_device :: "string \<Rightarrow> store \<Rightarrow> device option" where
  "find_device identifier st = find (device_matches identifier) (list_devices st)"

definition find_group :: "string \<Rightarrow> store \<Rightarrow> group option" where
  "find_group name st = find (\<lambda>g. g_name g = name) (list_groups st)"

definition find_resource :: "string \<Rightarrow> store \<Rightarrow> resource option" where
  "find_resource name st = find (\<lambda>r. r_name r = name) (list_resources st)"

section \<open>Registry upgrades\<close>

definition count_changed :: "'a list \<Rightarrow> 'a list \<Rightarrow> nat" where
  "count_changed before after = length (filter (\<lambda>(b, a). b \<noteq> a) (zip before after))"

definition upgrade_device_registry :: "string \<Rightarrow> store \<Rightarrow> (nat \<times> store) res" where
  "upgrade_device_registry now st = (let raw = load_file (DEVICES_FILE st);
      upgraded = map (\<lambda>d. normalize_device d now) raw;
      changed = count_changed raw (map raw_of_device upgraded)
    in if map raw_of_device upgraded \<noteq> raw
       then rbind (save_devices now upgraded st) (\<lambda>st'. Inr (changed, st'))
       else Inr (changed, st))"

definition upgrade_acl_registry :: "store \<Rightarrow> (nat \<times> store) res" where
  "upgrade_acl_registry st = (let raw_services = load_file (SERVICES_FILE st);
      upgraded = map normalize_resource raw_services;
      changed = count_changed raw_services (map raw_of_resource upgraded)
    in rbind (if upgraded \<noteq> [] then save_resources upgraded st else Inr st) (\<lambda>st'.
       Inr (changed, if GROUPS_FILE st' = None then st'\<lparr>GROUPS_FILE := Some []\<rparr> else st')))"

definition upgrade_resource_registry :: "store \<Rightarrow> (nat \<times> store) res" where
  "upgrade_resource_registry st = (let raw_resources = load_file (RESOURCES_FILE st);
      legacy_services = load_file (SERVICES_FILE st);
      source = (if raw_resources \<noteq> [] then raw_resources else legacy_services);
      upgraded = map normalize_resource source;
      changed = count_changed source (map raw_of_resource upgraded);
      result = changed + (if source \<noteq> [] \<and> raw_resources = [] then 1 else 0)
    in if source \<noteq> map raw_of_resource upgraded \<or> RESOURCES_FILE st = None
       then rbind (save_resources upgraded st) (\<lambda>st'. Inr (result, st'))
       else if upgraded \<noteq> [] then Inr (result, st\<lparr>SERVICES_FILE := Some (map raw_of_resource upgraded)\<rparr>)
       else Inr (result, st))"

section \<open>Normal forms\<close>

text \<open>What normalisation establishes, and what makes normalising again the identity.\<close>

definition wf_device :: "device \<Rightarrow> bool" where
  "wf_device d = (device_id d \<noteq> [] \<and> device_type d \<in> set DEVICE_TYPES \<and> expires_at d \<noteq> Some []
     \<and> sorted (tags d) \<and> distinct (tags d) \<and> (\<forall>t\<in>set (tags d). tag_normal t))"

definition wf_resource :: "resource \<Rightarrow> bool" where
  "wf_resource r = (listen_port r = bridge_port r \<and> target_host r \<noteq> [] \<and> py_lower (target_host r) = target_host r
     \<and> sorted (allowed_devices r) \<and> distinct (allowed_devices r)
     \<and> sorted (denied_devices r) \<and> distinct (denied_devices r)
     \<and> icon r \<noteq> [] \<and> length (icon r) \<le> 64 \<and> length (r_description r) \<le> 500
     \<and> protocol r \<in> set RESOURCE_PROTOCOLS \<and> length (health_url r) \<le> 500
     \<and> validate_timeout_seconds (NFloat (timeout_seconds r)) = Inr (timeout_seconds r)
     \<and> validate_systemd_unit (Some (systemd_unit r)) = Inr (systemd_unit r)
     \<and> (self_heal_enabled r \<longrightarrow> systemd_unit r \<noteq> []))"

definition wf_group :: "group \<Rightarrow> bool" where
  "wf_group g = (length (g_description g) \<le> 500 \<and> allowed_resources g = allowed_services g
     \<and> sorted (device_ids g) \<and> distinct (device_ids g) \<and> [] \<notin> set (device_ids g)
     \<and> sorted (allowed_services g) \<and> distinct (allowed_services g) \<and> [] \<notin> set (allowed_services g))"

lemma set_nonempty [simp]: "set (nonempty xs) = set xs - {[]}"
  by (auto simp: nonempty_def)

lemma nonempty_id: "[] \<notin> set xs \<Longrightarrow> nonempty xs = xs"
  by (simp add: nonempty_def filter_id_conv) metis

lemma normalize_device_wf [simp]: "wf_device (normalize_device d now)"
  by (auto simp: wf_device_def normalize_device_def Let_def legacy_device_id_def some_if_def DEVICE_TYPES_def
      dest: normalize_tags_Inr split: sum.splits)

lemma device_type_lower: "t \<in> set DEVICE_TYPES \<Longrightarrow> py_lower (str_or t d) = t"
proof -
  have "list_all (\<lambda>t. t \<noteq> [] \<and> py_lower t = t) DEVICE_TYPES" by code_simp
  then show "t \<in> set DEVICE_TYPES \<Longrightarrow> ?thesis" by (simp add: list_all_iff str_or_def)
qed

lemma protocol_lower: "t \<in> set RESOURCE_PROTOCOLS \<Longrightarrow> py_lower (str_or t d) = t"
proof -
  have "list_all (\<lambda>t. t \<noteq> [] \<and> py_lower t = t) RESOURCE_PROTOCOLS" by code_simp
  then show "t \<in> set RESOURCE_PROTOCOLS \<Longrightarrow> ?thesis" by (simp add: list_all_iff str_or_def)
qed

lemma renorm_device_wf:
  "wf_device d \<Longrightarrow> renorm_device now d = d\<lparr>created_at := str_or (created_at d) now\<rparr>"
  by (simp add: renorm_device_def normalize_device_def raw_of_device_def wf_device_def opt_str_def Let_def
      device_type_lower some_if_def opt_list_def opt_bool_def normalize_tags_fix)

lemma str_or_Nil [simp]: "str_or s [] = s"
  by (simp add: str_or_def)

lemma str_or_str_or [simp]: "str_or (str_or s d) d = str_or s d"
  by (simp add: str_or_def)

lemma renorm_device_Nil [simp]: "wf_device d \<Longrightarrow> renorm_device [] d = d"
  by (simp add: renorm_device_wf)

lemma renorm_device_keys [simp]:
  "wf_device d \<Longrightarrow> device_id (renorm_device now d) = device_id d"
  "d_name (renorm_device now d) = d_name d"
  "vpn_ip (renorm_device now d) = vpn_ip d"
  "d_enabled (renorm_device now d) = d_enabled d"
  by (simp_all add: renorm_device_wf)
     (simp_all add: renorm_device_def normalize_device_def raw_of_device_def Let_def opt_str_def opt_bool_def)

lemma renorm_device_is_wf [simp]: "wf_device (renorm_device now d)"
  by (simp add: renorm_device_def)

lemma normalize_resource_wf [simp]: "wf_resource (normalize_resource r)"
proof -
  have t: "validate_timeout_seconds (NFloat (case validate_timeout_seconds v of Inl _ \<Rightarrow> Fin 2 | Inr t \<Rightarrow> t))
      = Inr (case validate_timeout_seconds v of Inl _ \<Rightarrow> Fin 2 | Inr t \<Rightarrow> t)" for v
    by (cases "validate_timeout_seconds v") (auto dest: validate_timeout_again, code_simp)
  have u: "validate_systemd_unit (Some (case validate_systemd_unit v of Inl _ \<Rightarrow> [] | Inr u \<Rightarrow> u))
      = Inr (case validate_systemd_unit v of Inl _ \<Rightarrow> [] | Inr u \<Rightarrow> u)" for v
    by (cases "validate_systemd_unit v") (auto dest: validate_systemd_again, code_simp)
  show ?thesis
    by (simp add: wf_resource_def normalize_resource_def Let_def t u str_or_def RESOURCE_PROTOCOLS_def)
qed

lemma renorm_resource_wf [simp]: "wf_resource r \<Longrightarrow> renorm_resource r = r"
  by (simp add: renorm_resource_def normalize_resource_def raw_of_resource_def wf_resource_def Let_def opt_str_def
      opt_list_def opt_bool_def protocol_lower sorted_set_id) (cases r, auto simp: str_or_def)

lemma renorm_resource_is_wf [simp]: "wf_resource (renorm_resource r)"
  by (simp add: renorm_resource_def)

lemma renorm_resource_keys [simp]:
  "r_name (renorm_resource r) = r_name r" "bridge_port (renorm_resource r) = bridge_port r"
  by (simp_all add: renorm_resource_def normalize_resource_def raw_of_resource_def Let_def opt_str_def)

lemma normalize_group_wf [simp]: "wf_group (normalize_group g)"
  by (simp add: wf_group_def normalize_group_def Let_def)

lemma renorm_group_wf [simp]: "wf_group g \<Longrightarrow> renorm_group g = g"
  by (simp add: renorm_group_def normalize_group_def raw_of_group_def wf_group_def Let_def opt_str_def
      opt_list_def opt_bool_def nonempty_id sorted_set_id)

lemma renorm_group_is_wf [simp]: "wf_group (renorm_group g)"
  by (simp add: renorm_group_def)

lemma renorm_group_keys [simp]: "g_name (renorm_group g) = g_name g"
  by (simp add: renorm_group_def normalize_group_def raw_of_group_def Let_def opt_str_def)

lemma list_devices_wf: "d \<in> set (list_devices st) \<Longrightarrow> wf_device d"
  by (auto simp: list_devices_def)

lemma list_resources_wf: "r \<in> set (list_resources st) \<Longrightarrow> wf_resource r"
  by (auto simp: list_resources_def Let_def split: if_splits)

lemma list_groups_wf: "g \<in> set (list_groups st) \<Longrightarrow> wf_group g"
  by (auto simp: list_groups_def)

section \<open>Reading back what was saved\<close>

lemma norm_raw [simp]:
  "normalize_device (raw_of_device d) now = renorm_device now d"
  "normalize_resource (raw_of_resource r) = renorm_resource r"
  "normalize_group (raw_of_group g) = renorm_group g"
  by (simp_all add: renorm_device_def renorm_resource_def renorm_group_def)

lemma list_devices_upd [simp]:
  "list_devices (st\<lparr>DEVICES_FILE := Some ds\<rparr>) = map (\<lambda>d. normalize_device d []) ds"
  by (simp add: list_devices_def load_file_def)

lemma list_resources_upd [simp]:
  "list_resources (st\<lparr>RESOURCES_FILE := Some rs, SERVICES_FILE := Some rs\<rparr>) = map normalize_resource rs"
  by (simp add: list_resources_def load_file_def Let_def)

lemma list_groups_upd [simp]:
  "list_groups (st\<lparr>GROUPS_FILE := Some gs\<rparr>) = map normalize_group gs"
  by (simp add: list_groups_def load_file_def)

lemma save_devices_Inr:
  "save_devices now ds st = Inr st' \<longleftrightarrow>
     distinct (map device_id (map (renorm_device now) ds)) \<and> distinct (map d_name ds) \<and>
     st' = st\<lparr>DEVICES_FILE := Some (map raw_of_device (map (renorm_device now) ds))\<rparr>"
  by (auto simp: save_devices_def Let_def comp_def)

lemma save_resources_Inr:
  "save_resources rs st = Inr st' \<longleftrightarrow>
     distinct (map r_name rs) \<and> distinct (map bridge_port rs) \<and>
     st' = st\<lparr>RESOURCES_FILE := Some (map raw_of_resource (map renorm_resource rs)),
              SERVICES_FILE := Some (map raw_of_resource (map renorm_resource rs))\<rparr>"
  by (auto simp: save_resources_def Let_def comp_def)

lemma without_empty_iff: "without xs ys = [] \<longleftrightarrow> set xs \<subseteq> set ys"
proof -
  have "without xs ys = [] \<longleftrightarrow> set (without xs ys) = {}" by simp
  also have "\<dots> \<longleftrightarrow> set xs \<subseteq> set ys" unfolding without_def set_sorted_set by auto
  finally show ?thesis .
qed

lemma check_group_Inr:
  "check_group ds rs g = Inr u \<longleftrightarrow>
     SAFE_NAME_match (g_name g) \<and> set (device_ids g) \<subseteq> set ds \<and> set (allowed_services g) \<subseteq> set rs"
  by (auto simp: check_group_def res_simps validate_name_Inr without_empty_iff)

lemma rmap_unit_Inr: "(\<exists>us. rmap f xs = Inr us) \<longleftrightarrow> (\<forall>x\<in>set xs. \<exists>u. f x = Inr u)"
  by (induction xs) (auto simp: res_simps)

lemma save_groups_Inr:
  "save_groups gs st = Inr st' \<longleftrightarrow>
     distinct (map g_name gs) \<and>
     (\<forall>g\<in>set gs. SAFE_NAME_match (g_name g)
        \<and> set (device_ids (renorm_group g)) \<subseteq> device_id ` set (list_devices st)
        \<and> set (allowed_services (renorm_group g)) \<subseteq> r_name ` set (list_resources st)) \<and>
     st' = st\<lparr>GROUPS_FILE := Some (map raw_of_group (map renorm_group gs))\<rparr>"
  using rmap_unit_Inr [of "check_group (map device_id (list_devices st)) (map r_name (list_resources st))"
      "map renorm_group gs"]
  by (auto simp: save_groups_def Let_def res_simps comp_def check_group_Inr)

text \<open>Each file is independent of the others.\<close>

lemma list_frames [simp]:
  "list_devices (st\<lparr>RESOURCES_FILE := a\<rparr>) = list_devices st"
  "list_devices (st\<lparr>SERVICES_FILE := a\<rparr>) = list_devices st"
  "list_devices (st\<lparr>GROUPS_FILE := b\<rparr>) = list_devices st"
  "list_resources (st\<lparr>DEVICES_FILE := c\<rparr>) = list_resources st"
  "list_resources (st\<lparr>GROUPS_FILE := b\<rparr>) = list_resources st"
  "list_groups (st\<lparr>DEVICES_FILE := c\<rparr>) = list_groups st"
  "list_groups (st\<lparr>RESOURCES_FILE := a\<rparr>) = list_groups st"
  "list_groups (st\<lparr>SERVICES_FILE := a\<rparr>) = list_groups st"
  "list_devices (st\<lparr>AUDIT_DB := db\<rparr>) = list_devices st"
  "list_resources (st\<lparr>AUDIT_DB := db\<rparr>) = list_resources st"
  "list_groups (st\<lparr>AUDIT_DB := db\<rparr>) = list_groups st"
  by (simp_all add: list_devices_def list_resources_def list_groups_def Let_def)

section \<open>The registry contract\<close>

text \<open>
  What every registry of the program promises its clients: what was saved is read back,
  normalised and in order, and no two entries share a key. Devices keep two such contracts
  (by id and by name), Resources two (by name and by bridge port), groups one.
\<close>

locale registry =
  fixes save :: "'a list \<Rightarrow> 's \<Rightarrow> 's res"
    and entries :: "'s \<Rightarrow> 'a list"
    and norm :: "'a \<Rightarrow> 'a"
    and key :: "'a \<Rightarrow> 'k"
  assumes entries_save: "save xs s = Inr s' \<Longrightarrow> entries s' = map norm xs"
    and save_distinct: "save xs s = Inr s' \<Longrightarrow> distinct (map key (map norm xs))"
    and key_norm: "x \<in> set (entries s) \<Longrightarrow> key (norm x) = key x"
begin

lemma distinct_saved: "save xs s = Inr s' \<Longrightarrow> distinct (map key (entries s'))"
  using entries_save save_distinct by metis

lemma find_saved:
  assumes "save xs s = Inr s'" and "x \<in> set xs"
  shows "find (\<lambda>y. key y = key (norm x)) (entries s') = Some (norm x)"
  by (rule find_map_key [OF distinct_saved [OF assms(1)]]) (simp add: entries_save [OF assms(1)] assms(2))

lemma unique_saved:
  "save xs s = Inr s' \<Longrightarrow> x \<in> set (entries s') \<Longrightarrow> y \<in> set (entries s') \<Longrightarrow> key x = key y \<Longrightarrow> x = y"
  using distinct_saved by (metis distinct_map inj_on_def)

lemma keys_saved_subset:
  "save xs s = Inr s' \<Longrightarrow> set xs \<subseteq> set (entries s) \<Longrightarrow> key ` set (entries s') \<subseteq> key ` set (entries s)"
  by (auto simp: entries_save key_norm subset_iff)

end

interpretation dev_id: registry "save_devices now" list_devices "renorm_device now" device_id for now
  by unfold_locales (auto simp: save_devices_Inr comp_def renorm_device_wf list_devices_wf)

interpretation dev_name: registry "save_devices now" list_devices "renorm_device now" d_name for now
  by unfold_locales (auto simp: save_devices_Inr comp_def renorm_device_wf)

interpretation res_name: registry save_resources list_resources renorm_resource r_name
  by unfold_locales (auto simp: save_resources_Inr comp_def)

interpretation res_port: registry save_resources list_resources renorm_resource bridge_port
  by unfold_locales (auto simp: save_resources_Inr comp_def)

interpretation grp_name: registry save_groups list_groups renorm_group g_name
  by unfold_locales (auto simp: save_groups_Inr comp_def)

end
