(* ===== verification/Health.thy ===== *)
theory Health
  imports Registry "HOL-Library.Multiset"
begin

text \<open>
  \<open>ge360_bridge/health.py\<close>: the health check of a Resource. What the network does is an
  argument, the \<open>probe\<close>: how the TCP connection ended, how the HTTP exchange ended, the
  latencies, and what \<open>json.loads\<close> makes of the body. The result cache is a map from
  Resource names to the signature, time and result of the last check.
\<close>

definition HEALTH_STATES :: "string list" where
  "HEALTH_STATES = [''ONLINE'', ''DEGRADED'', ''OFFLINE'', ''TIMEOUT'', ''UNAUTHORIZED'', ''BAD_RESPONSE'']"

definition MAX_BODY_BYTES :: nat where "MAX_BODY_BYTES = 65536"
definition CACHE_TTL_SECONDS :: rat where "CACHE_TTL_SECONDS = 5"

section \<open>Results\<close>

record tcp_check = t_ok :: bool  t_latency :: "rat option"  t_error :: "string option"

record http_check =
  ht_performed :: bool
  ht_ok :: "bool option"
  ht_status :: "int option"
  ht_latency :: "rat option"
  ht_ctype :: "string option"
  ht_error :: "string option"

record json_check =
  j_performed :: bool
  j_ok :: "bool option"
  j_type :: "string option"
  j_error :: "string option"

record tls_check =
  tl_performed :: bool
  tl_ok :: "bool option"
  tl_version :: "string option"
  tl_cipher :: "string option"
  tl_error :: "string option"

record health =
  h_name :: string
  h_state :: string
  h_checked_at :: string
  h_latency :: "rat option"
  h_protocol :: string
  h_target :: string
  h_health_url :: string
  h_error :: "string option"
  h_tcp :: tcp_check
  h_http :: http_check
  h_json :: json_check
  h_tls :: tls_check

section \<open>What the network does\<close>

datatype tcp_outcome = TcpUp rat | TcpTimedOut | TcpFailed string

text \<open>
  A reply has at most one byte more than the limit of its body; \<open>hr_json\<close> is the type name of
  what \<open>json.loads\<close> returns for the stripped body, \<open>None\<close> when it raises. A failed exchange
  says whether the response head had already arrived over TLS (its version and cipher).
\<close>

record http_reply =
  hr_status :: int
  hr_ctype :: string
  hr_body :: string
  hr_json :: "string option"
  hr_tls :: "string option \<times> string option"

datatype http_outcome =
    Reply http_reply
  | CertInvalid
  | TlsFailed string
  | HttpTimedOut "(string option \<times> string option) option"
  | HttpFailed string "(string option \<times> string option) option"

record probe =
  pr_now :: string
  pr_elapsed :: rat
  pr_http_elapsed :: rat
  pr_tcp :: tcp_outcome
  pr_http :: http_outcome

section \<open>The check\<close>

definition round_ms :: "rat \<Rightarrow> rat" where
  "round_ms seconds = py_round 2 (max 0 seconds * 1000)"

definition base_result :: "string \<Rightarrow> resource \<Rightarrow> health" where
  "base_result now r = \<lparr>h_name = r_name r, h_state = ''OFFLINE'', h_checked_at = now, h_latency = None,
     h_protocol = py_lower (protocol r), h_target = target_host r @ '':'' @ int_str (target_port r),
     h_health_url = health_url r, h_error = None,
     h_tcp = \<lparr>t_ok = False, t_latency = None, t_error = None\<rparr>,
     h_http = \<lparr>ht_performed = False, ht_ok = None, ht_status = None, ht_latency = None, ht_ctype = None, ht_error = None\<rparr>,
     h_json = \<lparr>j_performed = False, j_ok = None, j_type = None, j_error = None\<rparr>,
     h_tls = \<lparr>tl_performed = False, tl_ok = None, tl_version = None, tl_cipher = None, tl_error = None\<rparr>\<rparr>"

definition health_request :: "resource \<Rightarrow> (string \<times> string \<times> int \<times> string) res" where
  "health_request r =
     (if starts_with ''/'' (health_url r)
      then Inr (py_lower (protocol r), target_host r, target_port r, health_url r)
      else rbind (urlsplit (health_url r)) (\<lambda>parsed. rbind (u_port parsed) (\<lambda>port.
        let path = str_or (u_path parsed) ''/'';
            path = (if u_query parsed = [] then path else path @ ''?'' @ u_query parsed) in
        Inr (py_lower (u_scheme parsed), u_hostname parsed, int (effective_port parsed port), path))))"

definition finish :: "probe \<Rightarrow> string \<Rightarrow> string option \<Rightarrow> health \<Rightarrow> health" where
  "finish pr state err h = h\<lparr>h_state := (if state \<in> set HEALTH_STATES then state else ''BAD_RESPONSE''),
     h_error := err, h_latency := Some (round_ms (pr_elapsed pr))\<rparr>"

definition bytes_strip :: "string \<Rightarrow> string" where
  "bytes_strip s = strip_by (\<lambda>c. let n = ord_of c in 9 \<le> n \<and> n \<le> 13 \<or> n = 32) s"

definition json_result :: "bool option \<Rightarrow> string option \<Rightarrow> string option \<Rightarrow> json_check" where
  "json_result ok ty err = \<lparr>j_performed = True, j_ok = ok, j_type = ty, j_error = err\<rparr>"

definition tls_seen :: "bool \<Rightarrow> (string option \<times> string option) option \<Rightarrow> health \<Rightarrow> health" where
  \<comment> \<open>the TLS part of the result once the connection is made, and once the response head is there\<close>
  "tls_seen https head h = (if \<not> https then h
     else case head of
       None \<Rightarrow> h\<lparr>h_tls := (h_tls h)\<lparr>tl_performed := True\<rparr>\<rparr>
     | Some (v, c) \<Rightarrow> h\<lparr>h_tls := (h_tls h)\<lparr>tl_performed := True, tl_ok := Some True, tl_version := v, tl_cipher := c\<rparr>\<rparr>)"

definition reply_result :: "probe \<Rightarrow> http_reply \<Rightarrow> health \<Rightarrow> health" where
  "reply_result pr p h = (let st = hr_status p; ok = (200 \<le> st \<and> st < 300);
      http = \<lparr>ht_performed = True, ht_ok = Some ok, ht_status = Some st,
        ht_latency = Some (round_ms (pr_http_elapsed pr)), ht_ctype = Some (hr_ctype p), ht_error = None\<rparr>;
      h = h\<lparr>h_http := http\<rparr>; stripped = bytes_strip (hr_body p);
      claims_json = contains_str ''json'' (py_lower (hr_ctype p));
      looks_json = (take 1 stripped \<in> {''{'', ''[''})
    in if MAX_BODY_BYTES < length (hr_body p)
       then finish pr ''BAD_RESPONSE'' (Some ''body_too_large'')
              (h\<lparr>h_http := http\<lparr>ht_ok := Some False, ht_error := Some ''body_too_large''\<rparr>\<rparr>)
       else if st = 401 \<or> st = 403 then finish pr ''UNAUTHORIZED'' (Some (''http_'' @ int_str st)) h
       else if \<not> ok then finish pr ''BAD_RESPONSE'' (Some (''http_'' @ int_str st)) h
       else if stripped = [] then finish pr ''DEGRADED'' (Some ''empty_health_body'')
              (h\<lparr>h_json := json_result (Some False) None (Some ''empty_body'')\<rparr>)
       else if claims_json \<or> looks_json then
         (case hr_json p of
            Some ty \<Rightarrow> finish pr ''ONLINE'' None (h\<lparr>h_json := json_result (Some True) (Some ty) None\<rparr>)
          | None \<Rightarrow> finish pr ''BAD_RESPONSE'' (Some ''invalid_json'')
              (h\<lparr>h_json := json_result (Some False) None (Some ''invalid_json'')\<rparr>))
       else finish pr ''DEGRADED'' (Some ''non_json_health_response'')
              (h\<lparr>h_json := json_result (Some False) None (Some ''non_json_response'')\<rparr>))"

definition http_result :: "probe \<Rightarrow> bool \<Rightarrow> health \<Rightarrow> health" where
  "http_result pr https h = (case pr_http pr of
       Reply p \<Rightarrow> reply_result pr p (tls_seen https (Some (hr_tls p)) h)
     | CertInvalid \<Rightarrow> finish pr ''BAD_RESPONSE'' (Some ''tls_certificate_invalid'')
         (h\<lparr>h_tls := \<lparr>tl_performed = True, tl_ok = Some False, tl_version = None, tl_cipher = None,
              tl_error = Some ''certificate_verification_failed''\<rparr>\<rparr>)
     | TlsFailed e \<Rightarrow> finish pr ''BAD_RESPONSE'' (Some ''tls_error'')
         (h\<lparr>h_tls := \<lparr>tl_performed = True, tl_ok = Some False, tl_version = None, tl_cipher = None, tl_error = Some e\<rparr>\<rparr>)
     | HttpTimedOut head \<Rightarrow> finish pr ''TIMEOUT'' (Some ''http_timeout'')
         ((tls_seen https head h)\<lparr>h_http := (h_http h)\<lparr>ht_performed := True, ht_error := Some ''timeout''\<rparr>\<rparr>)
     | HttpFailed e head \<Rightarrow> finish pr ''OFFLINE'' (Some ''http_unreachable'')
         ((tls_seen https head h)\<lparr>h_http := (h_http h)\<lparr>ht_performed := True, ht_error := Some e\<rparr>\<rparr>))"

definition check_now :: "resource \<Rightarrow> probe \<Rightarrow> health res" where
  \<comment> \<open>\<open>check_resource\<close> past the cache\<close>
  "check_now r pr = (let h = base_result (pr_now pr) r in
     if \<not> r_enabled r then Inr (finish pr ''OFFLINE'' (Some ''resource_disabled'') h)
     else if timeout_seconds r = NaN then Inl (ValueError ''Invalid value NaN'')
     else (case pr_tcp pr of
         TcpTimedOut \<Rightarrow> Inr (finish pr ''TIMEOUT'' (Some ''tcp_timeout'') (h\<lparr>h_tcp := (h_tcp h)\<lparr>t_error := Some ''timeout''\<rparr>\<rparr>))
       | TcpFailed e \<Rightarrow> Inr (finish pr ''OFFLINE'' (Some ''tcp_unreachable'') (h\<lparr>h_tcp := (h_tcp h)\<lparr>t_error := Some e\<rparr>\<rparr>))
       | TcpUp lat \<Rightarrow> (let h = h\<lparr>h_tcp := \<lparr>t_ok = True, t_latency = Some (round_ms lat), t_error = None\<rparr>\<rparr>;
             protocol = py_lower (protocol r) in
           if protocol = ''tcp'' then Inr (finish pr ''ONLINE'' None h)
           else if protocol \<notin> {''http'', ''https''} then Inr (finish pr ''BAD_RESPONSE'' (Some ''unsupported_protocol'') h)
           else if health_url r = [] then Inr (finish pr ''DEGRADED'' (Some ''health_url_not_configured'') h)
           else rbind (health_request r) (\<lambda>(scheme, req_host, req_port, path).
             if scheme \<notin> {''http'', ''https''} then Inr (finish pr ''BAD_RESPONSE'' (Some ''health_scheme_invalid'') h)
             else Inr (http_result pr (scheme = ''https'') h)))))"

section \<open>The cache\<close>

type_synonym resource_signature = "string \<times> string \<times> string \<times> int \<times> string \<times> pyfloat \<times> bool"

definition signature :: "resource \<Rightarrow> resource_signature" where
  "signature r = (r_name r, protocol r, target_host r, target_port r, health_url r, timeout_seconds r, r_enabled r)"

type_synonym health_cache = "string \<rightharpoonup> resource_signature \<times> rat \<times> health"

definition cached :: "rat \<Rightarrow> resource \<Rightarrow> health_cache \<Rightarrow> health option \<times> health_cache" where
  "cached now r cache = (case cache (r_name r) of
       None \<Rightarrow> (None, cache)
     | Some (old_sig, ts, result) \<Rightarrow>
         if old_sig \<noteq> signature r \<or> CACHE_TTL_SECONDS < now - ts then (None, cache(r_name r := None))
         else (Some result, cache))"

definition store_cache :: "rat \<Rightarrow> resource \<Rightarrow> health \<Rightarrow> health_cache \<Rightarrow> health_cache" where
  "store_cache now r result cache = cache(r_name r \<mapsto> (signature r, now, result))"

definition check_resource :: "bool \<Rightarrow> rat \<Rightarrow> rat \<Rightarrow> resource \<Rightarrow> probe \<Rightarrow> health_cache \<Rightarrow> health res \<times> health_cache" where
  \<comment> \<open>asked at one time, stored at a later one\<close>
  "check_resource use_cache now stored r pr cache = (
     case (if use_cache then cached now r cache else (None, cache)) of
       (Some h, cache) \<Rightarrow> (Inr h, cache)
     | (None, cache) \<Rightarrow> guard_in cache (check_now r pr) (\<lambda>h. (Inr h, store_cache stored r h cache)))"

section \<open>Many Resources\<close>

definition result_of :: "resource \<Rightarrow> probe \<Rightarrow> string \<Rightarrow> health" where
  \<comment> \<open>the result of a finished future; a check that raised counts as a bad response\<close>
  "result_of r pr err = (case check_now r pr of
       Inr h \<Rightarrow> h
     | Inl _ \<Rightarrow> (base_result (pr_now pr) r)\<lparr>h_state := ''BAD_RESPONSE'', h_error := Some (''health_engine_error:'' @ err)\<rparr>)"

definition name_index :: "resource list \<Rightarrow> string \<Rightarrow> nat" where
  \<comment> \<open>the dict comprehension keeps the last index of a name\<close>
  "name_index rs n = foldl (\<lambda>acc (i, r). if r_name r = n then i else acc) 0 (enumerate 0 rs)"

definition check_resources :: "resource list \<Rightarrow> (resource \<times> health) list \<Rightarrow> health list" where
  \<comment> \<open>the second argument is the futures in the order in which they complete\<close>
  "check_resources rs completed =
     (let out = foldl (\<lambda>out p. out[name_index rs (r_name (fst p)) := Some (snd p)]) (replicate (length rs) None) completed
      in map the (filter (\<lambda>x. x \<noteq> None) out))"

definition health_summary :: "health list \<Rightarrow> string \<Rightarrow> nat" where
  \<comment> \<open>the count of each state, and of all results under TOTAL\<close>
  "health_summary results key =
     (if key = ''TOTAL'' then length results
      else length (filter (\<lambda>h. (if h_state h \<in> set HEALTH_STATES then h_state h else ''BAD_RESPONSE'') = key) results))"

section \<open>What a state means\<close>

lemma finish_state [simp]: "state \<in> set HEALTH_STATES \<Longrightarrow> h_state (finish pr state e h) = state"
  by (simp add: finish_def)

lemma states [simp]:
  "''ONLINE'' \<in> set HEALTH_STATES" "''DEGRADED'' \<in> set HEALTH_STATES" "''OFFLINE'' \<in> set HEALTH_STATES"
  "''TIMEOUT'' \<in> set HEALTH_STATES" "''UNAUTHORIZED'' \<in> set HEALTH_STATES" "''BAD_RESPONSE'' \<in> set HEALTH_STATES"
  by (simp_all add: HEALTH_STATES_def)

definition good_reply :: "http_reply \<Rightarrow> bool" where
  "good_reply p = (200 \<le> hr_status p \<and> hr_status p < 300 \<and> length (hr_body p) \<le> MAX_BODY_BYTES
     \<and> bytes_strip (hr_body p) \<noteq> [] \<and> hr_json p \<noteq> None
     \<and> (contains_str ''json'' (py_lower (hr_ctype p)) \<or> take 1 (bytes_strip (hr_body p)) \<in> {''{'', ''[''}))"

lemma reply_result_online: "h_state (reply_result pr p h) = ''ONLINE'' \<longleftrightarrow> good_reply p"
  by (auto simp: reply_result_def good_reply_def Let_def not_less split: option.splits)

lemma reply_result_states: "h_state (reply_result pr p h) \<in> set HEALTH_STATES"
  by (auto simp: reply_result_def Let_def split: option.splits)

lemma http_result_states: "h_state (http_result pr https h) \<in> set HEALTH_STATES"
  by (auto simp: http_result_def reply_result_states split: http_outcome.splits)

lemma http_result_online:
  "h_state (http_result pr https h) = ''ONLINE'' \<longleftrightarrow> (\<exists>p. pr_http pr = Reply p \<and> good_reply p)"
  by (auto simp: http_result_def reply_result_online split: http_outcome.splits)

text \<open>
  What ONLINE means: the state is always one of the six, and it is ONLINE exactly when the
  Resource is enabled, its port accepts a connection, and it is a plain TCP Resource or its
  health URL answers with a 2xx status and a body of at most 64 KiB that parses as JSON.
\<close>

theorem online_means_healthy:
  assumes "check_now r pr = Inr h"
  shows "h_state h \<in> set HEALTH_STATES \<and>
    (h_state h = ''ONLINE'' \<longleftrightarrow> r_enabled r \<and> (\<exists>lat. pr_tcp pr = TcpUp lat) \<and>
      (py_lower (protocol r) = ''tcp'' \<or>
       py_lower (protocol r) \<in> {''http'', ''https''} \<and> health_url r \<noteq> [] \<and>
       (\<exists>s rest. health_request r = Inr (s, rest) \<and> s \<in> {''http'', ''https''}) \<and>
       (\<exists>p. pr_http pr = Reply p \<and> good_reply p)))"
proof (cases "r_enabled r \<and> timeout_seconds r \<noteq> NaN \<and> (\<exists>lat. pr_tcp pr = TcpUp lat)")
  case False
  with assms show ?thesis
    by (auto simp: check_now_def Let_def split: if_splits tcp_outcome.splits)
next
  case True
  then obtain lat where t: "r_enabled r" "timeout_seconds r \<noteq> NaN" "pr_tcp pr = TcpUp lat" by blast
  show ?thesis
  proof (cases "health_request r")
    case (Inl e)
    with assms t show ?thesis by (auto simp: check_now_def Let_def split: if_splits)
  next
    case (Inr q)
    obtain s a b c where q: "q = (s, a, b, c)" by (cases q) auto
    with assms t Inr show ?thesis
      by (auto simp: check_now_def Let_def http_result_states http_result_online split: if_splits)
  qed
qed

definition demo_probe :: probe where
  "demo_probe = \<lparr>pr_now = ''t'', pr_elapsed = 1 / 100, pr_http_elapsed = 1 / 100, pr_tcp = TcpUp (1 / 1000),
     pr_http = Reply \<lparr>hr_status = 200, hr_ctype = ''application/json'', hr_body = ''{}'', hr_json = Some ''dict'',
       hr_tls = (None, None)\<rparr>\<rparr>"

definition sample_resource :: resource where
  "sample_resource = \<lparr>r_name = ''web'', bridge_port = 9001, listen_port = 9001, target_host = ''127.0.0.1'',
     target_port = 3000, allowed_devices = [], icon = ''server'', r_description = [], protocol = ''http'',
     health_url = ''/h'', timeout_seconds = Fin 2, systemd_unit = ''app.service'', self_heal_enabled = True,
     denied_devices = [], r_enabled = True\<rparr>"

theorem online_means_healthy_witness:
  "\<exists>h. check_now sample_resource demo_probe = Inr h \<and> h_state h = ''ONLINE''"
proof -
  have "is_ok (check_now sample_resource demo_probe)" by code_simp
  then obtain h where h: "check_now sample_resource demo_probe = Inr h" by (auto simp: is_ok_iff)
  have "r_enabled sample_resource" "py_lower (protocol sample_resource) = ''http''"
    "health_url sample_resource \<noteq> []" "health_request sample_resource = Inr (''http'', ''127.0.0.1'', 3000, ''/h'')"
    by code_simp+
  moreover have "\<exists>lat. pr_tcp demo_probe = TcpUp lat"
    by (rule exI [of _ "1 / 1000"]) (simp add: demo_probe_def)
  moreover have "\<exists>p. pr_http demo_probe = Reply p \<and> good_reply p"
  proof -
    have "(case pr_http demo_probe of Reply p \<Rightarrow> good_reply p | _ \<Rightarrow> False)" by code_simp
    then show ?thesis by (auto split: http_outcome.splits)
  qed
  ultimately show ?thesis using h online_means_healthy [OF h] by (intro exI [of _ h]) (simp, blast?)
qed

text \<open>
  The cache never lies about what it answers for: an answer comes from a check made now and
  is then stored, or it is the stored answer of the same configuration of the Resource, at
  most five seconds old. Other Resources' entries are untouched.
\<close>

theorem cached_answer_fresh:
  assumes "check_resource use_cache now stored r pr cache = (Inr h, cache')"
  shows "(check_now r pr = Inr h \<and> cache' (r_name r) = Some (signature r, stored, h)
      \<or> use_cache \<and> cache' = cache \<and> (\<exists>ts. cache (r_name r) = Some (signature r, ts, h) \<and> now - ts \<le> 5))
    \<and> (\<forall>n. n \<noteq> r_name r \<longrightarrow> cache' n = cache n)"
  using assms
  by (auto simp: check_resource_def cached_def store_cache_def res_simps CACHE_TTL_SECONDS_def not_less
      split: if_splits option.splits prod.splits)

theorem cached_answer_fresh_witness:
  "\<exists>h c. check_resource True 10 10 sample_resource demo_probe Map.empty = (Inr h, c)
     \<and> c ''web'' = Some (signature sample_resource, 10, h)"
proof -
  have n: "r_name sample_resource = ''web''" by (simp add: sample_resource_def)
  have "is_ok (check_now sample_resource demo_probe)" by code_simp
  then obtain h where h: "check_now sample_resource demo_probe = Inr h" by (auto simp: is_ok_iff)
  then obtain c where c: "check_resource True 10 10 sample_resource demo_probe Map.empty = (Inr h, c)"
    by (simp add: check_resource_def cached_def)
  from cached_answer_fresh [OF this] c n show ?thesis by auto
qed

section \<open>Many Resources\<close>

lemma name_index_fold:
  assumes "distinct (map r_name rs)" and "k < length rs"
  shows "foldl (\<lambda>acc (i, r). if r_name r = r_name (rs ! k) then i else acc) a (enumerate m rs) = m + k"
  using assms
proof (induction rs arbitrary: m k a)
  case (Cons x rs)
  have none: "foldl (\<lambda>acc (i, r). if r_name r = n then i else acc) b (enumerate m' ys) = b"
    if "n \<notin> r_name ` set ys" for n b m' ys
    using that by (induction ys arbitrary: b m') auto
  show ?case
  proof (cases k)
    case 0
    with Cons.prems show ?thesis by (simp add: none)
  next
    case (Suc j)
    then have "j < length rs" using Cons.prems by simp
    then have "rs ! j \<in> set rs" by simp
    then have "r_name x \<noteq> r_name (rs ! j)" using Cons.prems(1) by auto
    with Suc Cons.IH [of j a "Suc m"] Cons.prems \<open>j < length rs\<close> show ?thesis by simp
  qed
qed simp

lemma name_index_nth: "distinct (map r_name rs) \<Longrightarrow> k < length rs \<Longrightarrow> name_index rs (r_name (rs ! k)) = k"
  using name_index_fold [of rs k 0 0] by (simp add: name_index_def)

lemma foldl_updates:
  fixes idx :: "'b \<Rightarrow> nat"
  shows "distinct (map idx ps) \<Longrightarrow> \<forall>p\<in>set ps. idx p < length out \<Longrightarrow> k < length out \<Longrightarrow>
    foldl (\<lambda>out p. out[idx p := Some (val p)]) out ps ! k
      = (case find (\<lambda>p. idx p = k) ps of Some p \<Rightarrow> Some (val p) | None \<Rightarrow> out ! k)"
proof (induction ps arbitrary: out)
  case (Cons p ps)
  have "find (\<lambda>q. idx q = k) ps = None" if "idx p = k"
    unfolding find_None_iff using Cons.prems(1) that by (metis distinct.simps(2) imageI list.set_map list.simps(9))
  with Cons show ?case by (auto simp: nth_list_update split: option.splits)
qed simp

lemma length_foldl_updates: "length (foldl (\<lambda>out p. out[idx p := Some (val p)]) out ps) = length out"
  by (induction ps arbitrary: out) auto

text \<open>
  The order in which the concurrent checks finish does not matter: with distinct names
  \<open>check_resources\<close> returns one result per Resource, in the order of the Resources.
\<close>

theorem check_resources_in_order:
  assumes d: "distinct (map r_name rs)" and m: "mset completed = mset (map (\<lambda>r. (r, f r)) rs)"
  shows "check_resources rs completed = map f rs"
proof -
  let ?idx = "\<lambda>p. name_index rs (r_name (fst p))"
  let ?out = "foldl (\<lambda>out p. out[?idx p := Some (snd p)]) (replicate (length rs) None) completed"
  have set_c: "set completed = (\<lambda>r. (r, f r)) ` set rs" using mset_eq_setD [OF m] by simp
  have idx: "map (\<lambda>r. name_index rs (r_name r)) rs = [0..<length rs]"
    by (rule nth_equalityI) (simp_all add: name_index_nth d)
  have "mset (map ?idx completed) = mset [0..<length rs]"
  proof -
    have "mset (map ?idx completed) = image_mset ?idx (mset completed)" by simp
    also have "\<dots> = mset (map (\<lambda>r. name_index rs (r_name r)) rs)" by (simp add: m multiset.map_comp comp_def)
    finally show ?thesis by (simp add: idx)
  qed
  then have di: "distinct (map ?idx completed)" and si: "?idx ` set completed = {0..<length rs}"
    by (metis distinct_upt mset_eq_imp_distinct_iff) (metis \<open>mset (map ?idx completed) = _\<close> list.set_map mset_eq_setD set_upt)
  have "?out ! k = Some (f (rs ! k))" if k: "k < length rs" for k
  proof -
    have "(rs ! k, f (rs ! k)) \<in> set completed" using k set_c by auto
    moreover have "?idx (rs ! k, f (rs ! k)) = k" using name_index_nth [OF d k] by simp
    ultimately have "find (\<lambda>p. ?idx p = k) completed = Some (rs ! k, f (rs ! k))"
      using find_map_key [OF di] by metis
    moreover have "\<forall>p\<in>set completed. ?idx p < length (replicate (length rs) (None::health option))"
      using si by (metis atLeastLessThan_iff imageI length_replicate)
    ultimately show ?thesis using foldl_updates [OF di, of "replicate (length rs) None" k snd] k by simp
  qed
  then have "?out = map (\<lambda>r. Some (f r)) rs"
    by (intro nth_equalityI) (simp_all add: length_foldl_updates)
  then show ?thesis by (simp add: check_resources_def comp_def)
qed

theorem check_resources_in_order_witness:
  "check_resources [sample_resource, sample_resource\<lparr>r_name := ''db''\<rparr>]
     [(sample_resource\<lparr>r_name := ''db''\<rparr>, base_result ''t'' (sample_resource\<lparr>r_name := ''db''\<rparr>)),
      (sample_resource, base_result ''t'' sample_resource)]
   = map (base_result ''t'') [sample_resource, sample_resource\<lparr>r_name := ''db''\<rparr>]"
proof -
  have "distinct (map r_name [sample_resource, sample_resource\<lparr>r_name := ''db''\<rparr>])"
    by (simp add: sample_resource_def)
  moreover have "mset [(sample_resource\<lparr>r_name := ''db''\<rparr>, base_result ''t'' (sample_resource\<lparr>r_name := ''db''\<rparr>)),
      (sample_resource, base_result ''t'' sample_resource)]
    = mset (map (\<lambda>r. (r, base_result ''t'' r)) [sample_resource, sample_resource\<lparr>r_name := ''db''\<rparr>])"
    by (simp add: add_mset_commute)
  ultimately show ?thesis by (rule check_resources_in_order)
qed

text \<open>
  The summary partitions the results: the six state counts add up to TOTAL.
\<close>

theorem health_summary_total:
  "(\<Sum>s\<leftarrow>HEALTH_STATES. health_summary results s) = health_summary results ''TOTAL''"
proof (induction results)
  case (Cons h results)
  define s where "s = (if h_state h \<in> set HEALTH_STATES then h_state h else ''BAD_RESPONSE'')"
  have "s \<in> set HEALTH_STATES" by (simp add: s_def)
  then have one: "(\<Sum>k\<leftarrow>HEALTH_STATES. if s = k then 1 else 0) = (1::nat)"
    by (auto simp: HEALTH_STATES_def)
  have step: "health_summary (h # results) k = (if s = k then 1 else 0) + health_summary results k"
    if k: "k \<in> set HEALTH_STATES" for k
  proof -
    have "k \<noteq> ''TOTAL''" using k by (auto simp: HEALTH_STATES_def)
    then show ?thesis unfolding health_summary_def by (simp add: s_def [symmetric])
  qed
  have "(\<Sum>k\<leftarrow>HEALTH_STATES. health_summary (h # results) k)
      = (\<Sum>k\<leftarrow>HEALTH_STATES. (if s = k then 1 else 0) + health_summary results k)"
    by (intro arg_cong [where f = sum_list] map_cong refl) (rule step)
  also have "\<dots> = 1 + (\<Sum>k\<leftarrow>HEALTH_STATES. health_summary results k)"
    by (simp only: sum_list_addf one)
  finally show ?case unfolding Cons.IH by (simp add: health_summary_def)
qed (simp add: health_summary_def HEALTH_STATES_def)

end
