(* ===== verification/Window.thy ===== *)
theory Window
  imports Prelude
begin

text \<open>
  The rate limit three components share (\<open>pairing_server.allowed_request\<close>, \<open>p2p._rate_limit\<close>
  and the restart limit of \<open>self_healing.heal_resource\<close>): the times of the admitted requests
  are kept in a list, entries that left the window are pruned, and a request is admitted
  while fewer than the limit are left. The locale states what each component's pruning owes
  the limit; its theorem says what the limit then guarantees over any run of requests.
\<close>

definition window_admit :: "(rat \<Rightarrow> rat list \<Rightarrow> rat list) \<Rightarrow> nat \<Rightarrow> rat \<Rightarrow> rat list \<Rightarrow> bool \<times> rat list" where
  "window_admit prune limit now q = (let q' = prune now q in
     if limit \<le> length q' then (False, q') else (True, q' @ [now]))"

fun window_served :: "(rat \<Rightarrow> rat list \<Rightarrow> rat list) \<Rightarrow> nat \<Rightarrow> rat list \<Rightarrow> rat list \<Rightarrow> rat list" where
  \<comment> \<open>the times admitted out of a run of requests\<close>
  "window_served prune limit q [] = []"
| "window_served prune limit q (t # ts) =
     (let (ok, q') = window_admit prune limit t q in
      if ok then t # window_served prune limit q' ts else window_served prune limit q' ts)"

definition spaced :: "nat \<Rightarrow> rat \<Rightarrow> rat list \<Rightarrow> bool" where
  \<comment> \<open>any \<open>limit + 1\<close> entries in a row span at least \<open>width\<close>\<close>
  "spaced limit width h = (\<forall>i. i + limit < length h \<longrightarrow> width \<le> h ! (i + limit) - h ! i)"

locale sliding_window =
  fixes prune :: "rat \<Rightarrow> rat list \<Rightarrow> rat list" and limit :: nat and width :: rat
  assumes prune_suffix: "sorted q \<Longrightarrow> \<forall>t\<in>set q. t \<le> now \<Longrightarrow>
    \<exists>old. q = old @ prune now q \<and> (\<forall>t\<in>set old. width \<le> now - t)"
begin

definition tracks :: "rat \<Rightarrow> rat list \<Rightarrow> rat list \<Rightarrow> bool" where
  "tracks now h q = (\<exists>old. h = old @ q \<and> (\<forall>t\<in>set old. width \<le> now - t)
     \<and> sorted h \<and> (\<forall>t\<in>set h. t \<le> now) \<and> spaced limit width h)"

lemma tracks_prune:
  assumes "tracks now h q" and "now \<le> t"
  shows "tracks t h (prune t q)"
proof -
  obtain old where o: "h = old @ q" "\<forall>x\<in>set old. width \<le> now - x" "sorted h" "\<forall>x\<in>set h. x \<le> now" "spaced limit width h"
    using assms(1) by (auto simp: tracks_def)
  then have "sorted q" "\<forall>x\<in>set q. x \<le> t" using assms(2) by (auto simp: sorted_append intro: order_trans)
  then obtain old' where o': "q = old' @ prune t q" "\<forall>x\<in>set old'. width \<le> t - x" using prune_suffix by blast
  have "\<forall>x\<in>set old. width \<le> t - x" using o(2) assms(2) by (meson diff_right_mono order_trans)
  then have "h = (old @ old') @ prune t q \<and> (\<forall>x\<in>set (old @ old'). width \<le> t - x)"
    using o(1) o' by auto
  moreover have "\<forall>x\<in>set h. x \<le> t" using o(4) assms(2) by (meson order_trans)
  ultimately show ?thesis using o(3,5) unfolding tracks_def by blast
qed

lemma tracks_later: "tracks now h q \<Longrightarrow> now \<le> t \<Longrightarrow> tracks t h q"
proof -
  assume "tracks now h q" and le: "now \<le> t"
  then obtain old where o: "h = old @ q" "\<forall>x\<in>set old. width \<le> now - x" "sorted h" "\<forall>x\<in>set h. x \<le> now"
      "spaced limit width h" by (auto simp: tracks_def)
  have "\<forall>x\<in>set old. width \<le> t - x" using o(2) le by (meson diff_right_mono order_trans)
  moreover have "\<forall>x\<in>set h. x \<le> t" using o(4) le by (meson order_trans)
  ultimately show ?thesis using o unfolding tracks_def by blast
qed

lemma tracks_start: "tracks now [] []"
  by (simp add: tracks_def spaced_def)

lemma tracks_spaced: "tracks now h q \<Longrightarrow> spaced limit width h"
  by (auto simp: tracks_def)

lemma tracks_admit:
  assumes "tracks t h q" and "length q < limit"
  shows "tracks t (h @ [t]) (q @ [t])"
proof -
  obtain old where o: "h = old @ q" "\<forall>x\<in>set old. width \<le> t - x" "sorted h" "\<forall>x\<in>set h. x \<le> t" "spaced limit width h"
    using assms(1) by (auto simp: tracks_def)
  have "width \<le> (h @ [t]) ! (i + limit) - (h @ [t]) ! i" if i: "i + limit < length (h @ [t])" for i
  proof (cases "i + limit < length h")
    case True
    then show ?thesis using o(5) by (simp add: spaced_def nth_append)
  next
    case False
    with i have e: "i + limit = length h" by simp
    then have "i < length old" using o(1) assms(2) by simp
    then have "(h @ [t]) ! i \<in> set old" using o(1) by (simp add: nth_append)
    then show ?thesis using o(2) e by simp
  qed
  then have "spaced limit width (h @ [t])" by (simp add: spaced_def)
  moreover have "h @ [t] = old @ (q @ [t])" "sorted (h @ [t])" "\<forall>x\<in>set (h @ [t]). x \<le> t"
    using o by (auto simp: sorted_append)
  ultimately show ?thesis unfolding tracks_def using o(2) by blast
qed

lemma tracks_run:
  "tracks now h q \<Longrightarrow> sorted (now # ts) \<Longrightarrow> spaced limit width (h @ window_served prune limit q ts)"
proof (induction ts arbitrary: now h q)
  case Nil
  then show ?case by (auto simp: tracks_def)
next
  case (Cons t ts)
  then have st: "now \<le> t" "sorted (t # ts)" by auto
  have p: "tracks t h (prune t q)" using tracks_prune [OF Cons.prems(1) st(1)] .
  show ?case
  proof (cases "limit \<le> length (prune t q)")
    case True
    then show ?thesis using Cons.IH [OF p st(2)] by (simp add: window_admit_def)
  next
    case False
    then show ?thesis using Cons.IH [OF tracks_admit [OF p] st(2)] by (simp add: window_admit_def Let_def)
  qed
qed

lemma served_spaced:
  assumes "sorted ts"
  shows "spaced limit width (window_served prune limit [] ts)"
proof (cases ts)
  case (Cons t us)
  have "tracks t [] []" by (simp add: tracks_def spaced_def)
  moreover have "sorted (t # ts)" using assms Cons by auto
  ultimately show ?thesis using tracks_run [of t "[]" "[]" ts] by simp
qed (simp add: spaced_def)

end

lemma dropWhile_prune:
  assumes "\<And>t. p t \<Longrightarrow> width \<le> now - t"
  shows "\<exists>old. q = old @ dropWhile p q \<and> (\<forall>t\<in>set old. width \<le> now - t)"
  by (rule exI [of _ "takeWhile p q"]) (auto dest: set_takeWhileD assms)

lemma filter_suffix:
  fixes q :: "rat list"
  assumes "sorted q" and "\<And>s t. p s \<Longrightarrow> s \<le> t \<Longrightarrow> t \<in> set q \<Longrightarrow> p t"
  shows "q = takeWhile (\<lambda>t. \<not> p t) q @ filter p q"
  using assms
proof (induction q)
  case (Cons x q)
  show ?case
  proof (cases "p x")
    case True
    then have "\<forall>t\<in>set q. p t" using Cons.prems by (auto intro: Cons.prems(2) [of x])
    with True show ?thesis by (simp add: filter_id_conv)
  next
    case False
    with Cons show ?thesis by simp
  qed
qed simp

end
