(* ===== verification/SelfHeal.thy ===== *)
theory SelfHeal
  imports Health Window
begin

text \<open>
  \<open>ge360_bridge/self_healing.py\<close>: restarting the systemd unit of an unhealthy Resource. The
  health checks and the outcome of the two systemctl calls are arguments; the state is the
  attempt table in memory and on disk, the audit table, and the systemctl commands issued so
  far with the time and the Resource they were issued for.
\<close>

definition RESTART_LIMIT :: nat where "RESTART_LIMIT = 3"
definition RESTART_WINDOW_SECONDS :: rat where "RESTART_WINDOW_SECONDS = 600"
definition RECOVERY_CHECK_ATTEMPTS :: nat where "RECOVERY_CHECK_ATTEMPTS = 10"
definition TRIGGER_STATES :: "string list" where "TRIGGER_STATES = [''OFFLINE'', ''TIMEOUT'']"

type_synonym attempts = "string \<rightharpoonup> rat list"

record heal_state =
  mem :: attempts
  disk :: attempts
  heal_audit :: audit_db
  commands :: "(rat \<times> string \<times> string list) list"

text \<open>A health check returns a result or raises; checks are numbered in the order they are made.\<close>

datatype observation = Seen string "rat option" "string option" | Raised string

record heal_env =
  e_health :: "nat \<Rightarrow> observation"
  e_iso :: string
  show_rc :: int
  show_out :: string
  show_err :: string
  restart_rc :: int
  restart_out :: string
  restart_err :: string

record heal_outcome =
  ho_resource :: string
  ho_result :: string
  ho_reason :: "string option"
  ho_before :: "string option"
  ho_after :: "string option"
  ho_unit :: "string option"
  ho_attempts :: "nat option"
  ho_retry :: "int option"
  ho_latency :: "rat option"
  ho_error :: "string option"

definition outcome :: "string \<Rightarrow> string \<Rightarrow> heal_outcome" where
  "outcome n res = \<lparr>ho_resource = n, ho_result = res, ho_reason = None, ho_before = None, ho_after = None,
     ho_unit = None, ho_attempts = None, ho_retry = None, ho_latency = None, ho_error = None\<rparr>"

section \<open>The attempt table\<close>

definition prune_attempts :: "rat \<Rightarrow> rat list \<Rightarrow> rat list" where
  "prune_attempts now values = sort (filter (\<lambda>ts. now - RESTART_WINDOW_SECONDS < ts \<and> ts \<le> now + 60) values)"

definition prune_state :: "rat \<Rightarrow> attempts \<Rightarrow> attempts" where
  "prune_state now state = (\<lambda>n. case state n of None \<Rightarrow> None
     | Some values \<Rightarrow> if prune_attempts now values = [] then None else Some (prune_attempts now values))"

definition attempts_of :: "attempts \<Rightarrow> string \<Rightarrow> rat list" where
  "attempts_of state n = (case state n of None \<Rightarrow> [] | Some v \<Rightarrow> v)"

section \<open>systemctl and health\<close>

definition obs_state :: "observation \<Rightarrow> string" where
  "obs_state ob = (case ob of Seen s _ _ \<Rightarrow> s | Raised _ \<Rightarrow> ''OFFLINE'')"

definition obs_latency :: "observation \<Rightarrow> rat option" where
  "obs_latency ob = (case ob of Seen _ l _ \<Rightarrow> l | Raised _ \<Rightarrow> None)"

definition obs_error :: "observation \<Rightarrow> string option" where
  "obs_error ob = (case ob of Seen _ _ e \<Rightarrow> e | Raised n \<Rightarrow> Some (''health_exception:'' @ n))"

definition state_upper :: "observation \<Rightarrow> string" where
  "state_upper ob = py_upper (str_or (obs_state ob) ''OFFLINE'')"

definition unit_is_loaded :: "heal_env \<Rightarrow> bool \<times> string" where
  "unit_is_loaded env = (let value = py_lower (py_strip (show_out env)) in
     if show_rc env \<noteq> 0 then (False, take 300 (py_strip (str_or (show_err env) ''systemctl_show_failed'')))
     else if value \<noteq> ''loaded'' then (False, str_or value ''not_loaded'')
     else (True, []))"

definition restart_unit :: "heal_env \<Rightarrow> bool \<times> string" where
  "restart_unit env = (if restart_rc env = 0 then (True, [])
     else (False, take 300 (py_strip (str_or (restart_err env) (str_or (restart_out env) ''systemctl_restart_failed'')))))"

fun recovery :: "nat \<Rightarrow> nat \<Rightarrow> (nat \<Rightarrow> observation) \<Rightarrow> observation \<Rightarrow> bool \<times> observation" where
  \<comment> \<open>the polling loop after a restart: rounds left, number of the next check, checks, last result\<close>
  "recovery 0 i checks last_ob = (False, last_ob)"
| "recovery (Suc n) i checks last_ob = (let ob = checks i in
     if py_upper (obs_state ob) = ''ONLINE'' then (True, ob) else recovery n (Suc i) checks ob)"

definition heal_log :: "heal_env \<Rightarrow> string \<Rightarrow> string \<Rightarrow> string \<Rightarrow> string \<Rightarrow> string option \<Rightarrow> heal_state \<Rightarrow> heal_state" where
  "heal_log env event n action res err s = s\<lparr>heal_audit := audit_quietly (e_iso env) event
     (no_args\<lparr>e_resource := Some n, e_action := Some action, e_result := Some res, e_error := err\<rparr>) (heal_audit s)\<rparr>"

definition issue :: "rat \<Rightarrow> string \<Rightarrow> string list \<Rightarrow> heal_state \<Rightarrow> heal_state" where
  "issue now n args s = s\<lparr>commands := commands s @ [(now, n, args)]\<rparr>"

section \<open>Healing one Resource\<close>

definition after_restart :: "string \<Rightarrow> string \<Rightarrow> string \<Rightarrow> nat \<Rightarrow> heal_env \<Rightarrow> heal_state \<Rightarrow> heal_outcome \<times> heal_state" where
  "after_restart name unit before k env s =
     (let oc = (outcome name ''RESTART_FAILED'')\<lparr>ho_before := Some before, ho_unit := Some unit, ho_attempts := Some k\<rparr> in
     case restart_unit env of
       (False, e) \<Rightarrow> (oc\<lparr>ho_error := Some e\<rparr>,
          heal_log env ''SELF_HEAL_RESTART'' name ''restart'' ''FAILED'' (Some e) s)
     | (True, _) \<Rightarrow> (case recovery RECOVERY_CHECK_ATTEMPTS 1 (e_health env) (e_health env 0) of
         (True, ob) \<Rightarrow> (oc\<lparr>ho_result := ''RECOVERED'', ho_after := Some ''ONLINE'', ho_latency := obs_latency ob\<rparr>,
            heal_log env ''SELF_HEAL_RECOVERED'' name ''restart'' ''ONLINE'' None s)
       | (False, ob) \<Rightarrow> (oc\<lparr>ho_result := ''STILL_UNHEALTHY'', ho_after := Some (state_upper ob), ho_error := obs_error ob\<rparr>,
            heal_log env ''SELF_HEAL_RESTART'' name ''post_restart_health'' ''STILL_UNHEALTHY'' (Some (state_upper ob)) s)))"

definition heal_resource ::
  "resource \<Rightarrow> heal_env \<Rightarrow> rat \<Rightarrow> bool \<Rightarrow> heal_state \<Rightarrow> heal_outcome res \<times> heal_state" where
  "heal_resource r env now dry_run s = (let name = r_name r; ok = (\<lambda>oc s. (Inr oc, s)) in
     if \<not> r_enabled r then ok ((outcome name ''SKIPPED'')\<lparr>ho_reason := Some ''resource_disabled''\<rparr>) s
     else if \<not> self_heal_enabled r then ok ((outcome name ''SKIPPED'')\<lparr>ho_reason := Some ''self_heal_disabled''\<rparr>) s
     else guard_in s (validate_systemd_unit (Some (systemd_unit r))) (\<lambda>unit.
     if unit = [] then ok ((outcome name ''CONFIG_ERROR'')\<lparr>ho_reason := Some ''systemd_unit_missing''\<rparr>) s
     else (let before = state_upper (e_health env 0) in
     if before \<notin> set TRIGGER_STATES
     then ok ((outcome name ''NO_ACTION'')\<lparr>ho_reason := Some ''health_state_not_restartable'', ho_before := Some before\<rparr>) s
     else (let attempts = prune_attempts now (attempts_of (mem s) name); s = s\<lparr>mem := (mem s)(name \<mapsto> attempts)\<rparr> in
     if RESTART_LIMIT \<le> length attempts
     then (let retry = max 0 (trunc_rat (hd attempts + RESTART_WINDOW_SECONDS - now)) in
       ok ((outcome name ''RATE_LIMITED'')\<lparr>ho_before := Some before, ho_attempts := Some (length attempts), ho_retry := Some retry\<rparr>)
          (heal_log env ''SELF_HEAL_BLOCKED'' name ''restart'' ''RATE_LIMITED'' (Some (''retry_after_seconds='' @ int_str retry)) s))
     else (let s = issue now name [''show'', unit, ''--property=LoadState'', ''--value''] s in
     case unit_is_loaded env of
       (False, e) \<Rightarrow> ok ((outcome name ''UNIT_NOT_LOADED'')\<lparr>ho_before := Some before, ho_unit := Some unit, ho_error := Some e\<rparr>)
          (heal_log env ''SELF_HEAL_BLOCKED'' name ''unit_validation'' ''UNIT_NOT_LOADED'' (Some e) s)
     | (True, _) \<Rightarrow>
       if dry_run
       then ok ((outcome name ''WOULD_RESTART'')\<lparr>ho_before := Some before, ho_unit := Some unit, ho_attempts := Some (length attempts)\<rparr>) s
       else (let m = (mem s)(name \<mapsto> attempts @ [now]); s = s\<lparr>mem := m, disk := prune_state now m\<rparr>;
           s = heal_log env ''SELF_HEAL_RESTART'' name ''restart'' ''ATTEMPT'' (Some (''unit='' @ unit)) s;
           s = issue now name [''restart'', unit] s;
           (oc, s) = after_restart name unit before (Suc (length attempts)) env s
         in ok oc s))))))"

fun heal_all :: "(resource \<times> heal_env) list \<Rightarrow> rat \<Rightarrow> bool \<Rightarrow> heal_state \<Rightarrow> heal_outcome list res \<times> heal_state" where
  "heal_all [] now dry s = (Inr [], s)"
| "heal_all ((r, env) # rs) now dry s = (case heal_resource r env now dry s of
      (Inl e, s) \<Rightarrow> (Inl e, s)
    | (Inr oc, s) \<Rightarrow> (case heal_all rs now dry s of (Inl e, s) \<Rightarrow> (Inl e, s) | (Inr ocs, s) \<Rightarrow> (Inr (oc # ocs), s)))"

definition run_self_heal ::
  "string option \<Rightarrow> (string \<Rightarrow> heal_env) \<Rightarrow> rat \<Rightarrow> bool \<Rightarrow> resource list \<Rightarrow> heal_state \<Rightarrow> heal_outcome list res \<times> heal_state" where
  "run_self_heal name envs now dry resources s =
     (let chosen = (case name of None \<Rightarrow> resources | Some n \<Rightarrow> filter (\<lambda>r. r_name r = n) resources) in
     if name \<noteq> None \<and> chosen = [] then (Inl (BridgeError (''Resource non trovata: '' @ the name)), s)
     else (let s = s\<lparr>mem := prune_state now (disk s)\<rparr> in
       case heal_all (map (\<lambda>r. (r, envs (r_name r))) chosen) now dry s of
         (Inl e, s) \<Rightarrow> (Inl e, s)
       | (Inr ocs, s) \<Rightarrow> (Inr ocs, s\<lparr>disk := prune_state now (mem s)\<rparr>)))"

definition heal_summary :: "heal_outcome list \<Rightarrow> string \<Rightarrow> nat" where
  "heal_summary ocs key = length (filter (\<lambda>oc. str_or (ho_result oc) ''UNKNOWN'' = key) ocs)"

record heal_row =
  hs_resource :: string
  hs_enabled :: bool
  hs_unit :: string
  hs_attempts :: nat
  hs_limited :: bool
  hs_retry_after :: int

definition self_heal_status :: "rat \<Rightarrow> attempts \<Rightarrow> resource list \<Rightarrow> heal_row list" where
  "self_heal_status now stored resources = map (\<lambda>r.
     let attempts = attempts_of (prune_state now stored) (r_name r) in
     \<lparr>hs_resource = r_name r, hs_enabled = self_heal_enabled r, hs_unit = systemd_unit r,
      hs_attempts = length attempts, hs_limited = (RESTART_LIMIT \<le> length attempts),
      hs_retry_after = (if RESTART_LIMIT \<le> length attempts \<and> attempts \<noteq> []
        then max 0 (trunc_rat (Min (set attempts) + RESTART_WINDOW_SECONDS - now)) else 0)\<rparr>) resources"

section \<open>When a restart is issued\<close>

definition restarts :: "string \<Rightarrow> heal_state \<Rightarrow> rat list" where
  "restarts n s = map fst (filter (\<lambda>(t, m, args). m = n \<and> hd args = ''restart'') (commands s))"

lemma heal_log_frame [simp]:
  "mem (heal_log env ev n a r e s) = mem s" "disk (heal_log env ev n a r e s) = disk s"
  "commands (heal_log env ev n a r e s) = commands s"
  by (simp_all add: heal_log_def)

lemma after_restart_frame:
  "after_restart name unit before c env s = (oc, s') \<Longrightarrow> mem s' = mem s \<and> disk s' = disk s \<and> commands s' = commands s"
  by (auto simp: after_restart_def Let_def split: prod.splits bool.splits)

definition should_restart :: "resource \<Rightarrow> heal_env \<Rightarrow> rat \<Rightarrow> bool \<Rightarrow> heal_state \<Rightarrow> bool" where
  "should_restart r env now dry s = (r_enabled r \<and> self_heal_enabled r \<and> \<not> dry
     \<and> (\<exists>u. validate_systemd_unit (Some (systemd_unit r)) = Inr u \<and> u \<noteq> [])
     \<and> state_upper (e_health env 0) \<in> set TRIGGER_STATES
     \<and> length (prune_attempts now (attempts_of (mem s) (r_name r))) < RESTART_LIMIT
     \<and> fst (unit_is_loaded env))"

lemma heal_resource_effect:
  assumes "heal_resource r env now dry s = (res, s')"
  obtains (restart) u where "should_restart r env now dry s" "validate_systemd_unit (Some (systemd_unit r)) = Inr u"
      "mem s' = (mem s)(r_name r \<mapsto> prune_attempts now (attempts_of (mem s) (r_name r)) @ [now])"
      "disk s' = prune_state now (mem s')"
      "commands s' = commands s @ [(now, r_name r, [''show'', u, ''--property=LoadState'', ''--value'']),
         (now, r_name r, [''restart'', u])]"
    | (quiet) "\<not> should_restart r env now dry s" "disk s' = disk s"
      "mem s' = mem s \<or> mem s' = (mem s)(r_name r \<mapsto> prune_attempts now (attempts_of (mem s) (r_name r)))"
      "commands s' = commands s \<or> (\<exists>u. commands s' = commands s @ [(now, r_name r, [''show'', u, ''--property=LoadState'', ''--value''])])"
proof (cases "should_restart r env now dry s")
  case True
  note t = True [unfolded should_restart_def]
  then obtain u where u: "validate_systemd_unit (Some (systemd_unit r)) = Inr u" "u \<noteq> []" by blast
  obtain b where "unit_is_loaded env = (True, b)" using t by (cases "unit_is_loaded env") auto
  then show ?thesis
    using assms t u by (intro restart [OF True u(1)])
      (auto simp: heal_resource_def Let_def issue_def split: prod.splits dest!: after_restart_frame)
next
  case False
  show ?thesis
  proof (cases "\<exists>u. validate_systemd_unit (Some (systemd_unit r)) = Inr u \<and> u \<noteq> []")
    case no: False
    with assms have "s' = s"
      by (cases "validate_systemd_unit (Some (systemd_unit r))") (auto simp: heal_resource_def Let_def split: if_splits)
    then show ?thesis using quiet [OF False] by simp
  next
    case True
    then obtain u where "validate_systemd_unit (Some (systemd_unit r)) = Inr u" "u \<noteq> []" by blast
    with assms False show ?thesis
      by (intro quiet [OF False])
         (auto simp: heal_resource_def Let_def issue_def should_restart_def split: if_splits prod.splits bool.splits)
  qed
qed

section \<open>The restart limit\<close>

interpretation heal: sliding_window prune_attempts RESTART_LIMIT RESTART_WINDOW_SECONDS
proof
  fix q :: "rat list" and now
  assume s: "sorted q" and le: "\<forall>t\<in>set q. t \<le> now"
  let ?p = "\<lambda>ts. now - RESTART_WINDOW_SECONDS < ts \<and> ts \<le> now + 60"
  have "now \<le> now + 60" by simp
  then have up: "t \<le> now + 60" if "t \<in> set q" for t
    using le that by (meson order_trans)
  have f: "q = takeWhile (\<lambda>t. \<not> ?p t) q @ filter ?p q"
    by (rule filter_suffix [OF s]) (use up in \<open>auto intro: less_le_trans\<close>)
  have pr: "prune_attempts now q = filter ?p q"
    using s by (simp add: prune_attempts_def sort_key_id_if_sorted sorted_filter [where f = id, simplified])
  show "\<exists>old. q = old @ prune_attempts now q \<and> (\<forall>t\<in>set old. RESTART_WINDOW_SECONDS \<le> now - t)"
    unfolding pr
  proof (intro exI conjI ballI)
    show "q = takeWhile (\<lambda>t. \<not> ?p t) q @ filter ?p q" by (rule f)
  next
    fix t assume "t \<in> set (takeWhile (\<lambda>t. \<not> ?p t) q)"
    then have "\<not> ?p t" "t \<in> set q" by (auto dest: set_takeWhileD)
    then have "t \<le> now - RESTART_WINDOW_SECONDS" using up by (auto simp: not_less)
    then show "RESTART_WINDOW_SECONDS \<le> now - t" by (simp add: algebra_simps)
  qed
qed

lemma attempts_of_prune: "attempts_of (prune_state now st) n = prune_attempts now (attempts_of st n)"
  by (auto simp: attempts_of_def prune_state_def prune_attempts_def split: option.splits)

lemma attempts_of_upd: "attempts_of (st(m \<mapsto> v)) n = (if n = m then v else attempts_of st n)"
  by (simp add: attempts_of_def)

definition limited :: "rat \<Rightarrow> string \<Rightarrow> heal_state \<Rightarrow> bool" where
  \<comment> \<open>both copies of the attempt table know the restarts the window still holds\<close>
  "limited now n s = (heal.tracks now (restarts n s) (attempts_of (mem s) n)
     \<and> heal.tracks now (restarts n s) (attempts_of (disk s) n))"

lemma limited_later: "limited now n s \<Longrightarrow> now \<le> t \<Longrightarrow> limited t n s"
  unfolding limited_def using heal.tracks_later by blast

lemma limited_heal:
  assumes "limited now n s" and "heal_resource r env now dry s = (res, s')"
  shows "limited now n s'"
  using assms(2)
proof (cases rule: heal_resource_effect)
  case (restart u)
  let ?q = "prune_attempts now (attempts_of (mem s) (r_name r))"
  show ?thesis
  proof (cases "n = r_name r")
    case True
    have "heal.tracks now (restarts n s) ?q"
      using assms(1) heal.tracks_prune unfolding limited_def True by blast
    then have t: "heal.tracks now (restarts n s @ [now]) (?q @ [now])"
      using restart(1) by (intro heal.tracks_admit) (auto simp: should_restart_def)
    have "restarts n s' = restarts n s @ [now]" using restart(5) True by (simp add: restarts_def)
    then show ?thesis
      using t heal.tracks_prune [OF t order_refl] restart(3,4) True
      by (simp add: limited_def attempts_of_prune attempts_of_upd)
  next
    case False
    have "restarts n s' = restarts n s" using restart(5) False by (simp add: restarts_def)
    then show ?thesis
      using assms(1) heal.tracks_prune [OF _ order_refl] restart(3,4) False
      by (simp add: limited_def attempts_of_prune attempts_of_upd)
  qed
next
  case quiet
  have "restarts n s' = restarts n s" using quiet(4) by (auto simp: restarts_def)
  then show ?thesis
    using assms(1) quiet(2,3) heal.tracks_prune [OF _ order_refl]
    by (auto simp: limited_def attempts_of_upd)
qed

lemma limited_heal_all: "limited now n s \<Longrightarrow> heal_all rs now dry s = (res, s') \<Longrightarrow> limited now n s'"
proof (induction rs now dry s arbitrary: res s' rule: heal_all.induct)
  case (2 r env rs now dry s)
  obtain oc s1 where h: "heal_resource r env now dry s = (oc, s1)" by fastforce
  have l: "limited now n s1" by (rule limited_heal [OF "2.prems"(1) h])
  show ?case
  proof (cases oc)
    case (Inl e)
    with "2.prems"(2) h l show ?thesis by simp
  next
    case (Inr o1)
    obtain ocs s2 where a: "heal_all rs now dry s1 = (ocs, s2)" by fastforce
    have "limited now n s2" by (rule "2.IH" [OF h [symmetric] Inr l a])
    then show ?thesis using "2.prems"(2) h Inr a by (auto split: sum.splits)
  qed
qed simp

lemma limited_run:
  assumes "limited now n s" and "run_self_heal name envs now dry rs s = (res, s')"
  shows "limited now n s'"
proof (cases "name \<noteq> None \<and> (case name of None \<Rightarrow> rs | Some n \<Rightarrow> filter (\<lambda>r. r_name r = n) rs) = []")
  case True
  with assms show ?thesis by (auto simp: run_self_heal_def Let_def)
next
  case False
  let ?s = "s\<lparr>mem := prune_state now (disk s)\<rparr>"
  let ?rs = "map (\<lambda>r. (r, envs (r_name r))) (case name of None \<Rightarrow> rs | Some n \<Rightarrow> filter (\<lambda>r. r_name r = n) rs)"
  have "limited now n ?s"
    using assms(1) heal.tracks_prune [OF _ order_refl] by (simp add: limited_def attempts_of_prune restarts_def)
  moreover obtain ocs s1 where a: "heal_all ?rs now dry ?s = (ocs, s1)" by fastforce
  ultimately have l: "limited now n s1" by (rule limited_heal_all)
  have "run_self_heal name envs now dry rs s = (case (ocs, s1) of (Inl e, s) \<Rightarrow> (Inl e, s)
      | (Inr ocs, s) \<Rightarrow> (Inr ocs, s\<lparr>disk := prune_state now (mem s)\<rparr>))"
    unfolding run_self_heal_def Let_def if_not_P [OF False] a ..
  then show ?thesis
    using assms(2) l heal.tracks_prune [OF _ order_refl]
    by (cases ocs) (auto simp: limited_def attempts_of_prune restarts_def)
qed

text \<open>A history of self-heal runs: the time, the Resource asked for, the surroundings, dry run or not, the registry.\<close>

type_synonym heal_run = "rat \<times> string option \<times> (string \<Rightarrow> heal_env) \<times> bool \<times> resource list"

fun heal_runs :: "heal_run list \<Rightarrow> heal_state \<Rightarrow> heal_state" where
  "heal_runs [] s = s"
| "heal_runs ((now, name, envs, dry, rs) # runs) s = heal_runs runs (snd (run_self_heal name envs now dry rs s))"

definition heal_start :: heal_state where
  "heal_start = \<lparr>mem = Map.empty, disk = Map.empty, heal_audit = [], commands = []\<rparr>"

lemma limited_runs:
  "limited now n s \<Longrightarrow> sorted (now # map fst runs) \<Longrightarrow> \<exists>t. limited t n (heal_runs runs s)"
proof (induction runs s arbitrary: now rule: heal_runs.induct)
  case (2 t name envs dry rs runs s)
  have "now \<le> t" "sorted (t # map fst runs)" using "2.prems"(2) by auto
  then have "limited t n s" using limited_later "2.prems"(1) by blast
  then have "limited t n (snd (run_self_heal name envs t dry rs s))"
    using limited_run [OF _ surjective_pairing] by blast
  then show ?case using "2.IH" \<open>sorted (t # map fst runs)\<close> by simp
qed auto

text \<open>
  C27. A Resource is restarted at most three times in ten minutes: over any history of runs with
  a clock that does not go back, whatever the health checks and systemctl answer, which
  Resources are asked for and how the registry changes, the fourth of any four restarts of a
  Resource comes at least 600 seconds after the first.
\<close>

theorem restarts_rate_limited:
  assumes "sorted (map fst runs)"
  shows "spaced 3 600 (restarts n (heal_runs runs heal_start))"
proof (cases runs)
  case Nil
  then show ?thesis by (simp add: heal_start_def restarts_def spaced_def)
next
  case (Cons r rs)
  have "limited (fst r) n heal_start"
    by (simp add: limited_def heal_start_def restarts_def attempts_of_def heal.tracks_start)
  then obtain t where "limited t n (heal_runs runs heal_start)"
    using limited_runs [of "fst r" n heal_start runs] assms Cons by auto
  then have "spaced RESTART_LIMIT RESTART_WINDOW_SECONDS (restarts n (heal_runs runs heal_start))"
    unfolding limited_def using heal.tracks_spaced by blast
  then show ?thesis by (simp add: RESTART_LIMIT_def RESTART_WINDOW_SECONDS_def)
qed

definition down_env :: heal_env where
  "down_env = \<lparr>e_health = (\<lambda>_. Seen ''OFFLINE'' None None), e_iso = ''t'', show_rc = 0, show_out = ''loaded'',
     show_err = [], restart_rc = 0, restart_out = [], restart_err = []\<rparr>"

theorem restarts_rate_limited_witness:
  "let runs = map (\<lambda>t. (t, None, \<lambda>_. down_env, False, [sample_resource])) [0, 60, 120, 180, 700] in
   restarts ''web'' (heal_runs runs heal_start) = [0, 60, 120, 700]
   \<and> spaced 3 600 (restarts ''web'' (heal_runs runs heal_start))"
proof -
  let ?runs = "map (\<lambda>t. (t, None, \<lambda>_. down_env, False, [sample_resource])) [0, 60, 120, 180, 700] :: heal_run list"
  have "sorted (map fst ?runs)" by simp
  then have "spaced 3 600 (restarts ''web'' (heal_runs ?runs heal_start))" by (rule restarts_rate_limited)
  moreover have "restarts ''web'' (heal_runs ?runs heal_start) = [0, 60, 120, 700]" by code_simp
  ultimately show ?thesis unfolding Let_def by blast
qed

text \<open>
  A restart is issued exactly when it should be: the Resource and its self-healing are
  enabled, this is no dry run, the unit name passes validation, the Resource is OFFLINE or
  timed out, fewer than three restarts are in the window and systemd has the unit loaded; the
  attempt is on disk before the restart is issued, so a crash cannot lose it.
\<close>

theorem restart_exactly_when_due:
  assumes "heal_resource r env now dry s = (res, s')"
  shows "(restarts (r_name r) s' = restarts (r_name r) s @ [now] \<longleftrightarrow> should_restart r env now dry s)
    \<and> (should_restart r env now dry s \<longrightarrow> now \<in> set (attempts_of (disk s') (r_name r)))
    \<and> (\<not> should_restart r env now dry s \<longrightarrow> restarts (r_name r) s' = restarts (r_name r) s)"
  using assms
proof (cases rule: heal_resource_effect)
  case (restart u)
  have "restarts (r_name r) s' = restarts (r_name r) s @ [now]" using restart(5) by (simp add: restarts_def)
  moreover have "now \<in> set (attempts_of (disk s') (r_name r))"
    using restart(3,4) by (simp add: attempts_of_prune attempts_of_upd) (simp add: prune_attempts_def RESTART_WINDOW_SECONDS_def)
  ultimately show ?thesis using restart(1) by simp
next
  case quiet
  have "restarts (r_name r) s' = restarts (r_name r) s" using quiet(4) by (auto simp: restarts_def)
  then show ?thesis using quiet(1) by simp
qed

theorem restart_exactly_when_due_witness:
  "should_restart sample_resource down_env 10 False heal_start
   \<and> restarts ''web'' (snd (heal_resource sample_resource down_env 10 False heal_start)) = [10]"
proof -
  have n: "r_name sample_resource = ''web''" by (simp add: sample_resource_def)
  have u: "validate_systemd_unit (Some ''app.service'') = Inr ''app.service''" by code_simp
  have "fst (unit_is_loaded down_env)" "state_upper (e_health down_env 0) \<in> set TRIGGER_STATES" by code_simp+
  then have d: "should_restart sample_resource down_env 10 False heal_start"
    using u by (simp add: should_restart_def sample_resource_def heal_start_def prune_attempts_def
        attempts_of_def RESTART_LIMIT_def)
  have "restarts ''web'' heal_start = []" by (simp add: restarts_def heal_start_def)
  then show ?thesis
    using d restart_exactly_when_due [OF surjective_pairing, of sample_resource down_env 10 False heal_start] n by simp
qed

end
