(* ===== verification/RegistryOps.thy ===== *)
theory RegistryOps
  imports Registry
begin

text \<open>
  The operations of \<open>ge360_bridge/core.py\<close> that change the registries: Resources are
  registered, updated and removed, devices enabled, revoked, renamed and edited, groups
  created, removed and filled, access overrides set. An operation returns its value or the
  exception it raises, and the store as it then is; the time of the call is an argument.
  The registry invariant \<open>registry_ok\<close> and the lemma that each operation keeps it are here.
\<close>

section \<open>Audit of an access change\<close>

definition audit_acl :: "string \<Rightarrow> string \<Rightarrow> device option \<Rightarrow> string option \<Rightarrow> string option \<Rightarrow> store \<Rightarrow> store" where
  "audit_acl now action device resource result st = st\<lparr>AUDIT_DB := audit_quietly now ''ACL_CHANGED''
     (no_args\<lparr>e_device_id := map_option device_id device, e_device_name := map_option d_name device,
       e_resource := resource, e_action := Some action, e_result := result,
       e_ip := map_option vpn_ip device\<rparr>) (AUDIT_DB st)\<rparr>"

section \<open>Resources\<close>

record resource_args =
  a_target_host :: string
  a_target_port :: int
  a_allowed :: "string list"
  a_icon :: string
  a_description :: string
  a_protocol :: string
  a_health_url :: string
  a_timeout :: num_arg
  a_unit :: string
  a_self_heal :: bool

definition register_resource ::
  "string \<Rightarrow> int \<Rightarrow> resource_args \<Rightarrow> store \<Rightarrow> resource res \<times> store" where
  "register_resource name port a st =
     guard_in st (validate_name name) (\<lambda>_.
     guard_in st (validate_port port) (\<lambda>bp.
     guard_in st (validate_port (a_target_port a)) (\<lambda>tp.
     guard_in st (validate_target_host (a_target_host a)) (\<lambda>host.
     guard_in st (validate_resource_protocol (a_protocol a)) (\<lambda>proto.
     guard_in st (validate_resource_icon (a_icon a)) (\<lambda>ic.
     guard_in st (validate_timeout_seconds (a_timeout a)) (\<lambda>timeout.
     guard_in st (validate_health_url (Some (a_health_url a)) host tp) (\<lambda>health.
     guard_in st (validate_systemd_unit (Some (a_unit a))) (\<lambda>unit.
     guard_in st (ensure (\<not> (a_self_heal a \<and> unit = []))
       (BridgeError ''Self-healing richiede una systemd_unit valida.'')) (\<lambda>_.
     guard_in st (ensure (bp \<notin> set RESERVED_BRIDGE_PORTS)
       (BridgeError (''Porta Bridge riservata al sistema: '' @ int_str bp))) (\<lambda>_.
     let items = list_resources st in
     guard_in st (ensure (\<not> list_ex (\<lambda>r. r_name r = name) items)
       (BridgeError (''Resource gi'' @ [CHR 0xE0] @ '' presente: '' @ name))) (\<lambda>_.
     guard_in st (ensure (\<not> list_ex (\<lambda>r. bridge_port r = bp) items)
       (BridgeError (''Porta Bridge gi'' @ [CHR 0xE0] @ '' usata: '' @ int_str bp))) (\<lambda>_.
     let known = map d_name (filter d_enabled (list_devices st));
         requested = sorted_set (a_allowed a);
         unknown = without requested known in
     guard_in st (ensure (unknown = [])
       (BridgeError (''Dispositivi sconosciuti: '' @ py_join '', '' unknown))) (\<lambda>_.
     let resource = \<lparr>r_name = name, bridge_port = bp, listen_port = bp, target_host = host, target_port = tp,
           allowed_devices = requested, icon = ic, r_description = take 500 (py_strip (a_description a)),
           protocol = proto, health_url = health, timeout_seconds = timeout, systemd_unit = unit,
           self_heal_enabled = a_self_heal a, denied_devices = [], r_enabled = True\<rparr> in
     guard_in st (save_resources (items @ [resource]) st) (\<lambda>st'. (Inr resource, st'))))))))))))))))"

text \<open>The optional arguments of \<open>update_resource\<close>; \<open>None\<close> keeps the current value.\<close>

record resource_patch =
  p_icon :: "string option"
  p_description :: "string option"
  p_protocol :: "string option"
  p_bridge_port :: "int option"
  p_target_host :: "string option"
  p_target_port :: "int option"
  p_health_url :: "string option"
  p_timeout :: "num_arg option"
  p_enabled :: "bool option"
  p_unit :: "string option"
  p_self_heal :: "bool option"

definition or_current :: "'a option \<Rightarrow> 'a \<Rightarrow> 'a" where
  "or_current v cur = (case v of None \<Rightarrow> cur | Some x \<Rightarrow> x)"

definition update_resource ::
  "string \<Rightarrow> resource_patch \<Rightarrow> store \<Rightarrow> resource res \<times> store" where
  "update_resource name p st = (let items = list_resources st in
     case find (\<lambda>r. r_name r = name) items of
       None \<Rightarrow> (Inl (BridgeError (''Resource non trovata: '' @ name)), st)
     | Some t \<Rightarrow>
     guard_in st (validate_port (or_current (p_bridge_port p) (bridge_port t))) (\<lambda>bp.
     guard_in st (ensure (bp \<notin> set RESERVED_BRIDGE_PORTS)
       (BridgeError (''Porta Bridge riservata al sistema: '' @ int_str bp))) (\<lambda>_.
     guard_in st (ensure (\<not> list_ex (\<lambda>r. r_name r \<noteq> name \<and> bridge_port r = bp) items)
       (BridgeError (''Porta Bridge gi'' @ [CHR 0xE0] @ '' usata: '' @ int_str bp))) (\<lambda>_.
     guard_in st (validate_target_host (or_current (p_target_host p) (target_host t))) (\<lambda>host.
     guard_in st (validate_port (or_current (p_target_port p) (target_port t))) (\<lambda>tp.
     guard_in st (validate_resource_protocol (or_current (p_protocol p) (protocol t))) (\<lambda>proto.
     guard_in st (validate_health_url (Some (or_current (p_health_url p) (health_url t))) host tp) (\<lambda>health.
     guard_in st (validate_systemd_unit (Some (or_current (p_unit p) (systemd_unit t)))) (\<lambda>unit.
     let heal = or_current (p_self_heal p) (self_heal_enabled t) in
     guard_in st (ensure (\<not> (heal \<and> unit = []))
       (BridgeError ''Self-healing richiede una systemd_unit valida.'')) (\<lambda>_.
     guard_in st (validate_resource_icon (or_current (p_icon p) (icon t))) (\<lambda>ic.
     guard_in st (validate_timeout_seconds (or_current (p_timeout p) (NFloat (timeout_seconds t)))) (\<lambda>timeout.
     let target = t\<lparr>bridge_port := bp, listen_port := bp, target_host := host, target_port := tp,
           protocol := proto, icon := ic,
           r_description := take 500 (py_strip (or_current (p_description p) (r_description t))),
           health_url := health, timeout_seconds := timeout, systemd_unit := unit,
           self_heal_enabled := heal, r_enabled := or_current (p_enabled p) (r_enabled t)\<rparr> in
     guard_in st (save_resources (map_first (\<lambda>r. r_name r = name) (\<lambda>_. target) items) st) (\<lambda>st'.
       (Inr (case find_resource name st' of None \<Rightarrow> target | Some r \<Rightarrow> r), st'))))))))))))))"

definition remove_resource :: "string \<Rightarrow> store \<Rightarrow> bool res \<times> store" where
  "remove_resource name st = (let items = list_resources st; new = filter (\<lambda>r. r_name r \<noteq> name) items in
     if length new = length items then (Inr False, st)
     else guard_in st (save_resources new st) (\<lambda>st1.
       let groups = list_groups st1;
           groups' = map (\<lambda>g. if name \<in> set (allowed_services g)
             then g\<lparr>allowed_services := filter (\<lambda>x. x \<noteq> name) (allowed_services g),
                    allowed_resources := filter (\<lambda>x. x \<noteq> name) (allowed_services g)\<rparr> else g) groups;
           changed = list_ex (\<lambda>g. name \<in> set (allowed_services g)) groups
       in if changed then guard_in st1 (save_groups groups' st1) (\<lambda>st2. (Inr True, st2))
          else (Inr True, st1)))"

section \<open>Devices\<close>

definition set_device_enabled ::
  "string \<Rightarrow> string \<Rightarrow> bool \<Rightarrow> store \<Rightarrow> device option res \<times> store" where
  "set_device_enabled now identifier enabled st = (let items = list_devices st in
     case find (device_matches identifier) items of
       None \<Rightarrow> (Inr None, st)
     | Some d \<Rightarrow> (let found = d\<lparr>d_enabled := enabled\<rparr> in
         guard_in st (save_devices now (map_first (device_matches identifier) (\<lambda>_. found) items) st) (\<lambda>st'.
           (Inr (Some found),
            audit_acl now (if enabled then ''device_enable'' else ''device_disable'') (Some found) None
              (Some (if enabled then ''enabled'' else ''disabled'')) st'))))"

definition revoke_device :: "string \<Rightarrow> string \<Rightarrow> store \<Rightarrow> device option res \<times> store" where
  "revoke_device now identifier st = set_device_enabled now identifier False st"

definition rename_in :: "string \<Rightarrow> string \<Rightarrow> string list \<Rightarrow> string list" where
  "rename_in old new values =
     (if old \<in> set values then sorted_set (map (\<lambda>x. if x = old then new else x) values) else values)"

definition rename_in_resource :: "string \<Rightarrow> string \<Rightarrow> resource \<Rightarrow> resource" where
  "rename_in_resource old new r = r\<lparr>allowed_devices := rename_in old new (allowed_devices r),
     denied_devices := rename_in old new (denied_devices r)\<rparr>"

definition mentions :: "string \<Rightarrow> resource \<Rightarrow> bool" where
  "mentions n r = (n \<in> set (allowed_devices r) \<or> n \<in> set (denied_devices r))"

definition rename_device :: "string \<Rightarrow> string \<Rightarrow> string \<Rightarrow> store \<Rightarrow> device res \<times> store" where
  "rename_device now identifier new_name st = guard_in st (validate_name new_name) (\<lambda>_.
     let items = list_devices st in
     case find (device_matches identifier) items of
       None \<Rightarrow> (Inl (BridgeError ''Dispositivo non trovato.''), st)
     | Some d \<Rightarrow> (let old_name = d_name d; target = d\<lparr>d_name := new_name\<rparr> in
         if new_name = old_name then (Inr d, st)
         else guard_in st (ensure (\<not> list_ex (\<lambda>x. d_name x = new_name) items)
           (BridgeError (''Nome dispositivo gi'' @ [CHR 0xE0] @ '' usato: '' @ new_name))) (\<lambda>_.
         guard_in st (save_devices now (map_first (device_matches identifier) (\<lambda>_. target) items) st) (\<lambda>st1.
         let resources = list_resources st1 in
         if list_ex (mentions old_name) resources
         then guard_in st1 (save_resources (map (rename_in_resource old_name new_name) resources) st1)
                (\<lambda>st2. (Inr target, st2))
         else (Inr target, st1)))))"

text \<open>\<open>expires_at\<close> is \<open>None\<close> when the call leaves the expiry alone, \<open>Some v\<close> when it sets it to \<open>v\<close>.\<close>

record device_patch =
  p_device_type :: "string option"
  p_owner :: "string option"
  p_expires_at :: "string option option"
  p_notes :: "string option"
  p_tags :: "string list option"

definition maybe :: "'a option \<Rightarrow> ('a \<Rightarrow> 'b res) \<Rightarrow> 'b \<Rightarrow> 'b res" where
  "maybe v f cur = (case v of None \<Rightarrow> Inr cur | Some x \<Rightarrow> f x)"

definition update_device_metadata ::
  "string \<Rightarrow> string \<Rightarrow> device_patch \<Rightarrow> store \<Rightarrow> device res \<times> store" where
  "update_device_metadata now identifier p st = (let items = list_devices st in
     case find (device_matches identifier) items of
       None \<Rightarrow> (Inl (BridgeError ''Dispositivo non trovato.''), st)
     | Some d \<Rightarrow>
     guard_in st (maybe (p_device_type p) validate_device_type (device_type d)) (\<lambda>ty.
     guard_in st (maybe (p_expires_at p) validate_expiry (expires_at d)) (\<lambda>ex.
     guard_in st (maybe (p_tags p) normalize_tags (tags d)) (\<lambda>tg.
     let target = d\<lparr>device_type := ty,
           owner := (case p_owner p of None \<Rightarrow> owner d | Some s \<Rightarrow> take 120 (py_strip s)),
           expires_at := ex,
           d_notes := (case p_notes p of None \<Rightarrow> d_notes d | Some s \<Rightarrow> take 1000 (py_strip s)),
           tags := tg\<rparr> in
     guard_in st (save_devices now (map_first (device_matches identifier) (\<lambda>_. target) items) st) (\<lambda>st'.
       (Inr target, st'))))))"

section \<open>Groups and overrides\<close>

definition create_group :: "string \<Rightarrow> string \<Rightarrow> store \<Rightarrow> group res \<times> store" where
  "create_group name description st = guard_in st (validate_name name) (\<lambda>_.
     let groups = list_groups st in
     guard_in st (ensure (\<not> list_ex (\<lambda>g. g_name g = name) groups)
       (BridgeError (''Gruppo gi'' @ [CHR 0xE0] @ '' presente: '' @ name))) (\<lambda>_.
     let group = \<lparr>g_name = name, g_description = take 500 (py_strip description), device_ids = [],
                  allowed_services = [], allowed_resources = [], g_enabled = True\<rparr> in
     guard_in st (save_groups (groups @ [group]) st) (\<lambda>st'. (Inr group, st'))))"

definition remove_group :: "string \<Rightarrow> string \<Rightarrow> store \<Rightarrow> bool res \<times> store" where
  "remove_group now name st = (let groups = list_groups st; new = filter (\<lambda>g. g_name g \<noteq> name) groups in
     if length new = length groups then (Inr False, st)
     else guard_in st (save_groups new st) (\<lambda>st'.
       (Inr True, audit_acl now ''group_remove'' None None (Some name) st')))"

definition edit_group ::
  "string \<Rightarrow> (group \<Rightarrow> group) \<Rightarrow> (store \<Rightarrow> store) \<Rightarrow> store \<Rightarrow> group res \<times> store" where
  \<comment> \<open>the loop \<open>set_group_enabled\<close>, \<open>set_group_device\<close> and \<open>set_group_resource\<close> share\<close>
  "edit_group name f audit st = (let groups = list_groups st in
     case find (\<lambda>g. g_name g = name) groups of
       None \<Rightarrow> (Inl (BridgeError (''Gruppo non trovato: '' @ name)), st)
     | Some g \<Rightarrow> guard_in st (save_groups (map_first (\<lambda>g. g_name g = name) f groups) st) (\<lambda>st'.
         (Inr (f g), audit st')))"

definition set_group_enabled :: "string \<Rightarrow> string \<Rightarrow> bool \<Rightarrow> store \<Rightarrow> group res \<times> store" where
  "set_group_enabled now name enabled st = edit_group name (\<lambda>g. g\<lparr>g_enabled := enabled\<rparr>)
     (audit_acl now (if enabled then ''group_enable'' else ''group_disable'') None None (Some name)) st"

definition toggle :: "bool \<Rightarrow> string \<Rightarrow> string list \<Rightarrow> string list" where
  \<comment> \<open>\<open>sorted\<close> of the set after \<open>add\<close> or \<open>discard\<close>\<close>
  "toggle on x xs = (if on then sorted_set (x # xs) else sorted_set (filter (\<lambda>y. y \<noteq> x) xs))"

definition set_group_device ::
  "string \<Rightarrow> string \<Rightarrow> string \<Rightarrow> bool \<Rightarrow> store \<Rightarrow> group res \<times> store" where
  "set_group_device now group_name device_identifier assigned st =
     (case find_device device_identifier st of
        None \<Rightarrow> (Inl (BridgeError ''Dispositivo non trovato.''), st)
      | Some d \<Rightarrow> edit_group group_name
          (\<lambda>g. g\<lparr>device_ids := toggle assigned (device_id d) (device_ids g)\<rparr>)
          (audit_acl now (if assigned then ''group_device_add'' else ''group_device_remove'')
             (Some d) None (Some group_name)) st)"

definition set_group_resource ::
  "string \<Rightarrow> string \<Rightarrow> string \<Rightarrow> bool \<Rightarrow> store \<Rightarrow> group res \<times> store" where
  "set_group_resource now group_name resource_name allowed st =
     (if \<not> list_ex (\<lambda>r. r_name r = resource_name) (list_resources st)
      then (Inl (BridgeError (''Resource non trovata: '' @ resource_name)), st)
      else edit_group group_name
          (\<lambda>g. g\<lparr>allowed_services := toggle allowed resource_name (allowed_services g),
                 allowed_resources := toggle allowed resource_name (allowed_services g)\<rparr>)
          (audit_acl now (if allowed then ''group_resource_grant'' else ''group_resource_revoke'')
             None (Some resource_name) (Some group_name)) st)"

definition override_resource :: "string \<Rightarrow> string \<Rightarrow> resource \<Rightarrow> resource" where
  "override_resource decision dname r =
     r\<lparr>allowed_devices := toggle (decision = ''allow'') dname (allowed_devices r),
       denied_devices := toggle (decision = ''deny'') dname (denied_devices r)\<rparr>"

definition set_device_access_override ::
  "string \<Rightarrow> string \<Rightarrow> string \<Rightarrow> string \<Rightarrow> store \<Rightarrow> resource res \<times> store" where
  "set_device_access_override now resource_name device_identifier decision st =
     (case find_device device_identifier st of
        None \<Rightarrow> (Inl (BridgeError ''Dispositivo non trovato.''), st)
      | Some d \<Rightarrow>
     guard_in st (ensure (decision \<in> {''allow'', ''deny'', ''inherit''})
       (BridgeError ''Override non valido: usa allow, deny o inherit.'')) (\<lambda>_.
     let resources = list_resources st in
     case find (\<lambda>r. r_name r = resource_name) resources of
       None \<Rightarrow> (Inl (BridgeError (''Resource non trovata: '' @ resource_name)), st)
     | Some r \<Rightarrow> guard_in st (save_resources (map_first (\<lambda>r. r_name r = resource_name)
           (override_resource decision (d_name d)) resources) st) (\<lambda>st'.
         (Inr (override_resource decision (d_name d) r),
          audit_acl now (''device_override_'' @ decision) (Some d) (Some resource_name) (Some decision) st'))))"

definition grant_device :: "string \<Rightarrow> string \<Rightarrow> string \<Rightarrow> bool \<Rightarrow> store \<Rightarrow> resource res \<times> store" where
  "grant_device now service_name device_name grant st =
     set_device_access_override now service_name device_name (if grant then ''allow'' else ''deny'') st"

section \<open>The registry invariant\<close>

text \<open>
  The three registries agree with each other: keys and VPN addresses are unique, a group only lists devices
  and Resources that exist, a Resource's overrides only name devices that exist, and the
  compatibility mirror of the Resources reads the same as the registry.
\<close>

definition consistent :: "device list \<Rightarrow> resource list \<Rightarrow> group list \<Rightarrow> bool" where
  "consistent ds rs gs = (distinct (map device_id ds) \<and> distinct (map d_name ds) \<and> distinct (map vpn_ip ds)
     \<and> distinct (map r_name rs) \<and> distinct (map bridge_port rs) \<and> distinct (map g_name gs)
     \<and> (\<forall>g\<in>set gs. SAFE_NAME_match (g_name g) \<and> set (device_ids g) \<subseteq> device_id ` set ds
          \<and> set (allowed_services g) \<subseteq> r_name ` set rs)
     \<and> (\<forall>r\<in>set rs. set (allowed_devices r) \<union> set (denied_devices r) \<subseteq> d_name ` set ds))"

definition mirror_ok :: "store \<Rightarrow> bool" where
  "mirror_ok st = (map normalize_resource (load_file (SERVICES_FILE st)) = list_resources st)"

definition registry_ok :: "store \<Rightarrow> bool" where
  "registry_ok st = (consistent (list_devices st) (list_resources st) (list_groups st) \<and> mirror_ok st)"

lemma mirror_frames [simp]:
  "mirror_ok (st\<lparr>DEVICES_FILE := d\<rparr>) = mirror_ok st"
  "mirror_ok (st\<lparr>GROUPS_FILE := g\<rparr>) = mirror_ok st"
  "mirror_ok (st\<lparr>AUDIT_DB := a\<rparr>) = mirror_ok st"
  by (simp_all add: mirror_ok_def)

lemma audit_acl_frame [simp]:
  "list_devices (audit_acl now a d r x st) = list_devices st"
  "list_resources (audit_acl now a d r x st) = list_resources st"
  "list_groups (audit_acl now a d r x st) = list_groups st"
  "mirror_ok (audit_acl now a d r x st) = mirror_ok st"
  "registry_ok (audit_acl now a d r x st) = registry_ok st"
  "find_device i (audit_acl now a d r x st) = find_device i st"
  "find_resource i (audit_acl now a d r x st) = find_resource i st"
  by (simp_all add: audit_acl_def mirror_ok_def registry_ok_def find_device_def find_resource_def)

lemma consistent_devices_cong:
  assumes "map device_id ds = map device_id ds'" "map d_name ds = map d_name ds'" "map vpn_ip ds = map vpn_ip ds'"
  shows "consistent ds rs gs = consistent ds' rs gs"
proof -
  have "device_id ` set ds = device_id ` set ds'" "d_name ` set ds = d_name ` set ds'"
    by (metis assms(1) list.set_map) (metis assms(2) list.set_map)
  then show ?thesis by (simp add: consistent_def assms)
qed

text \<open>What the three saves do to the other lists.\<close>

lemma save_devices_lists:
  assumes "save_devices now ds st = Inr st'"
  shows "list_devices st' = map (renorm_device now) ds" "list_resources st' = list_resources st"
    "list_groups st' = list_groups st" "mirror_ok st' = mirror_ok st"
  using dev_id.entries_save [OF assms] assms by (auto simp: save_devices_Inr mirror_ok_def)

lemma save_resources_lists:
  assumes "save_resources rs st = Inr st'" and "\<forall>r\<in>set rs. wf_resource r"
  shows "list_resources st' = rs" "list_devices st' = list_devices st"
    "list_groups st' = list_groups st" "mirror_ok st'"
proof -
  show r: "list_resources st' = rs"
    using res_name.entries_save [OF assms(1)] assms(2) by (simp add: map_idI)
  show "list_devices st' = list_devices st" "list_groups st' = list_groups st"
    using assms(1) by (auto simp: save_resources_Inr)
  show "mirror_ok st'"
    using assms(1) by (auto simp: save_resources_Inr mirror_ok_def load_file_def)
qed

lemma save_groups_lists:
  assumes "save_groups gs st = Inr st'"
  shows "list_groups st' = map renorm_group gs" "list_devices st' = list_devices st"
    "list_resources st' = list_resources st" "mirror_ok st' = mirror_ok st"
  using grp_name.entries_save [OF assms] assms by (auto simp: save_groups_Inr mirror_ok_def)

lemma save_devices_ok:
  assumes "save_devices now ds st = Inr st'" and "\<forall>d\<in>set ds. wf_device d"
    and "consistent ds (list_resources st) (list_groups st)" and "mirror_ok st"
  shows "registry_ok st'"
proof -
  have "map device_id (map (renorm_device now) ds) = map device_id ds"
    "map d_name (map (renorm_device now) ds) = map d_name ds"
    "map vpn_ip (map (renorm_device now) ds) = map vpn_ip ds"
    using assms(2) by simp_all
  from consistent_devices_cong [OF this] assms(3,4) show ?thesis
    by (simp add: registry_ok_def save_devices_lists [OF assms(1)])
qed

lemma save_resources_ok:
  assumes "save_resources rs st = Inr st'" and "\<forall>r\<in>set rs. wf_resource r"
    and "consistent (list_devices st) rs (list_groups st)"
  shows "registry_ok st'"
  using assms(3) by (simp add: registry_ok_def save_resources_lists [OF assms(1,2)])

lemma save_groups_ok:
  assumes "save_groups gs st = Inr st'" and "registry_ok st"
  shows "registry_ok st'"
  using assms by (auto simp: registry_ok_def consistent_def save_groups_lists [OF assms(1)] save_groups_Inr comp_def)

lemma list_all_wf:
  "\<forall>d\<in>set (list_devices st). wf_device d" "\<forall>r\<in>set (list_resources st). wf_resource r"
  "\<forall>g\<in>set (list_groups st). wf_group g"
  using list_devices_wf list_resources_wf list_groups_wf by auto

lemma map_first_wf:
  "\<forall>x\<in>set xs. P x \<Longrightarrow> (\<And>x. x \<in> set xs \<Longrightarrow> P (f x)) \<Longrightarrow> \<forall>x\<in>set (map_first p f xs). P x"
  by (auto dest!: set_map_first)

text \<open>An edit of the one device an identifier finds, with its id and name kept.\<close>

lemma edit_device_ok:
  assumes ok: "registry_ok st" and f: "find p (list_devices st) = Some d"
    and s: "save_devices now (map_first p (\<lambda>_. d') (list_devices st)) st = Inr st'"
    and k: "device_id d' = device_id d" "d_name d' = d_name d" "vpn_ip d' = vpn_ip d"
    and w: "wf_device d'"
  shows "registry_ok st'"
proof -
  obtain us vs where sp: "list_devices st = us @ d # vs" "map_first p (\<lambda>_. d') (list_devices st) = us @ d' # vs"
    using map_first_split [OF f, of "\<lambda>_. d'"] by auto
  have wf: "\<forall>x\<in>set (map_first p (\<lambda>_. d') (list_devices st)). wf_device x"
    by (rule map_first_wf) (auto simp: list_all_wf w)
  have "consistent (us @ d' # vs) (list_resources st) (list_groups st)"
    using ok consistent_devices_cong [of "us @ d' # vs" "us @ d # vs"] k sp(1)
    by (simp add: registry_ok_def)
  then show ?thesis
    using save_devices_ok [OF s wf] ok sp(2) by (simp add: registry_ok_def)
qed

lemma find_wf_device: "find p (list_devices st) = Some d \<Longrightarrow> wf_device d"
  by (auto dest: find_Some_iff' list_devices_wf)

lemma find_wf_resource: "find p (list_resources st) = Some r \<Longrightarrow> wf_resource r"
  by (auto dest: find_Some_iff' list_resources_wf)

text \<open>Inversion of each operation: what it wrote when it succeeded.\<close>

lemma set_device_enabled_inv:
  assumes "set_device_enabled now i b st = (res, st')"
  obtains (missing) "find (device_matches i) (list_devices st) = None" "res = Inr None" "st' = st"
    | (raised) e where "res = Inl e" "st' = st"
    | (written) d st1 where "find (device_matches i) (list_devices st) = Some d"
        "save_devices now (map_first (device_matches i) (\<lambda>_. d\<lparr>d_enabled := b\<rparr>) (list_devices st)) st = Inr st1"
        "res = Inr (Some (d\<lparr>d_enabled := b\<rparr>))"
        "st' = audit_acl now (if b then ''device_enable'' else ''device_disable'')
           (Some (d\<lparr>d_enabled := b\<rparr>)) None (Some (if b then ''enabled'' else ''disabled'')) st1"
  using assms unfolding set_device_enabled_def Let_def guard_in_def
  by (auto split: option.splits sum.splits)

lemma set_device_enabled_ok:
  assumes "registry_ok st" and "set_device_enabled now i b st = (res, st')"
  shows "registry_ok st'"
  using assms(2)
proof (cases rule: set_device_enabled_inv)
  case (written d st1)
  have "wf_device (d\<lparr>d_enabled := b\<rparr>)"
    using find_wf_device [OF written(1)] by (simp add: wf_device_def)
  then show ?thesis
    using edit_device_ok [OF assms(1) written(1,2)] written(4) by simp
qed (use assms(1) in simp_all)

lemma update_device_metadata_inv:
  assumes "update_device_metadata now i p st = (res, st')"
  obtains (raised) e where "res = Inl e" "st' = st"
    | (written) d d' where "find (device_matches i) (list_devices st) = Some d" "wf_device d'"
        "d' = d\<lparr>device_type := device_type d', owner := owner d', expires_at := expires_at d',
           d_notes := d_notes d', tags := tags d'\<rparr>"
        "save_devices now (map_first (device_matches i) (\<lambda>_. d') (list_devices st)) st = Inr st'"
        "res = Inr d'"
proof (cases "find (device_matches i) (list_devices st)")
  case None
  with assms raised show ?thesis by (auto simp: update_device_metadata_def)
next
  case (Some d)
  have w: "wf_device d" by (rule find_wf_device [OF Some])
  show ?thesis
  proof (cases res)
    case (Inl e)
    with assms Some have "st' = st"
      by (auto simp: update_device_metadata_def Let_def guard_in_def split: sum.splits)
    with Inl raised show ?thesis by blast
  next
    case (Inr d')
    with assms Some obtain ty ex tg where
      ty: "maybe (p_device_type p) validate_device_type (device_type d) = Inr ty" and
      ex: "maybe (p_expires_at p) validate_expiry (expires_at d) = Inr ex" and
      tg: "maybe (p_tags p) normalize_tags (tags d) = Inr tg" and
      d': "d' = d\<lparr>device_type := ty,
           owner := (case p_owner p of None \<Rightarrow> owner d | Some s \<Rightarrow> take 120 (py_strip s)),
           expires_at := ex,
           d_notes := (case p_notes p of None \<Rightarrow> d_notes d | Some s \<Rightarrow> take 1000 (py_strip s)),
           tags := tg\<rparr>" and
      s: "save_devices now (map_first (device_matches i) (\<lambda>_. d') (list_devices st)) st = Inr st'"
      by (auto simp: update_device_metadata_def Let_def res_simps)
    have 1: "ty \<in> set DEVICE_TYPES"
      using ty w by (auto simp: maybe_def wf_device_def validate_device_type_def Let_def split: option.splits if_splits)
    have 2: "ex \<noteq> Some []"
      using ex w by (auto simp: maybe_def wf_device_def validate_expiry_def split: option.splits if_splits)
    have 3: "sorted tg \<and> distinct tg \<and> (\<forall>t\<in>set tg. tag_normal t)"
      using tg w by (auto simp: maybe_def wf_device_def dest: normalize_tags_Inr split: option.splits)
    have "wf_device d'" using w 1 2 3 by (simp add: wf_device_def d')
    then show ?thesis using written [OF Some _ _ s Inr] d' by simp
  qed
qed

lemma update_device_metadata_ok:
  assumes "registry_ok st" and "update_device_metadata now i p st = (res, st')"
  shows "registry_ok st'"
  using assms(2)
proof (cases rule: update_device_metadata_inv)
  case (written d d')
  have "device_id d' = device_id d" "d_name d' = d_name d" "vpn_ip d' = vpn_ip d"
    by (subst written(3), simp)+
  then show ?thesis using edit_device_ok [OF assms(1) written(1,4)] written(2) by simp
qed (use assms(1) in simp)

lemma sorted_rename_in: "sorted xs \<Longrightarrow> sorted (rename_in o' n xs)"
  by (simp add: rename_in_def)

lemma distinct_rename_in: "distinct xs \<Longrightarrow> distinct (rename_in o' n xs)"
  by (simp add: rename_in_def)

lemma set_rename_in: "set (rename_in o' n xs) = (\<lambda>x. if x = o' then n else x) ` set xs"
  by (auto simp: rename_in_def image_iff)

lemma rename_in_resource_wf: "wf_resource r \<Longrightarrow> wf_resource (rename_in_resource o' n r)"
  by (simp add: wf_resource_def rename_in_resource_def sorted_rename_in distinct_rename_in)

lemma toggle_props [simp]:
  "sorted (toggle b x xs)" "distinct (toggle b x xs)"
  "set (toggle b x xs) = (if b then insert x (set xs) else set xs - {x})"
  by (auto simp: toggle_def)

lemma override_resource_wf: "wf_resource r \<Longrightarrow> wf_resource (override_resource dec n r)"
  by (simp add: wf_resource_def override_resource_def)

lemma rename_in_resource_id: "\<not> mentions n r \<Longrightarrow> rename_in_resource n n' r = r"
  by (simp add: mentions_def rename_in_resource_def rename_in_def)

lemma rename_in_resource_keys [simp]:
  "r_name (rename_in_resource a b r) = r_name r" "bridge_port (rename_in_resource a b r) = bridge_port r"
  by (simp_all add: rename_in_resource_def)

lemma rename_device_inv:
  assumes ok: "registry_ok st" and op: "rename_device now i new st = (res, st')"
  obtains (raised) e where "res = Inl e" "st' = st"
    | (same) d where "find (device_matches i) (list_devices st) = Some d" "d_name d = new"
        "res = Inr d" "st' = st"
    | (renamed) d us vs where "find (device_matches i) (list_devices st) = Some d"
        "list_devices st = us @ d # vs" "new \<notin> d_name ` set (list_devices st)" "SAFE_NAME_match new"
        "res = Inr (d\<lparr>d_name := new\<rparr>)"
        "list_devices st' = map (renorm_device now) (us @ d\<lparr>d_name := new\<rparr> # vs)"
        "list_resources st' = map (rename_in_resource (d_name d) new) (list_resources st)"
        "list_groups st' = list_groups st" "mirror_ok st'"
proof (cases "is_ok (validate_name new) \<and> find (device_matches i) (list_devices st) \<noteq> None")
  case False
  with op raised show ?thesis
    by (auto simp: rename_device_def Let_def guard_in_def is_ok_def split: sum.splits)
next
  case True
  then obtain d where v: "validate_name new = Inr new" and f: "find (device_matches i) (list_devices st) = Some d"
    by (auto simp: is_ok_def validate_name_def split: if_splits)
  define d' where "d' = d\<lparr>d_name := new\<rparr>"
  let ?ds = "map_first (device_matches i) (\<lambda>_. d') (list_devices st)"
  obtain us vs where sp: "list_devices st = us @ d # vs" "?ds = us @ d' # vs"
    using map_first_split [OF f, of "\<lambda>_. d'"] by auto
  consider "d_name d = new" | "d_name d \<noteq> new" "new \<in> d_name ` set (list_devices st)"
    | "d_name d \<noteq> new" "new \<notin> d_name ` set (list_devices st)" by blast
  then show ?thesis
  proof cases
    case 1
    have "res = Inr d" "st' = st" using 1 op v f by (simp_all add: rename_device_def)
    then show ?thesis by (rule same [OF f 1])
  next
    case 2
    then have "list_ex (\<lambda>x. d_name x = new) (list_devices st)" by (auto simp: list_ex_iff)
    then have "st' = st \<and> (\<exists>e. res = Inl e)"
      using 2(1) op v f by (auto simp: rename_device_def Let_def)
    then show ?thesis using raised by blast
  next
    case 3
    then have ne: "\<not> list_ex (\<lambda>x. d_name x = new) (list_devices st)" by (auto simp: list_ex_iff)
    show ?thesis
    proof (cases "save_devices now ?ds st")
      case (Inl e)
      then have "res = Inl e" "st' = st"
        using op v f ne 3(1) by (simp_all add: rename_device_def Let_def d'_def)
      then show ?thesis by (rule raised)
    next
      case (Inr st1)
      note l = save_devices_lists [OF Inr]
      have dev: "list_devices st1 = map (renorm_device now) (us @ d' # vs)" using l(1) sp(2) by simp
      let ?rs = "map (rename_in_resource (d_name d) new) (list_resources st)"
      have rw: "\<forall>r\<in>set ?rs. wf_resource r"
        using list_all_wf(2) rename_in_resource_wf by auto
      have fin: ?thesis if "list_devices st' = list_devices st1" "list_resources st' = ?rs"
          "list_groups st' = list_groups st1" "mirror_ok st'" "res = Inr d'"
        by (rule renamed [OF f sp(1) 3(2)])
           (use that v dev l in \<open>simp_all add: validate_name_Inr d'_def\<close>)
      show ?thesis
      proof (cases "list_ex (mentions (d_name d)) (list_resources st)")
        case False
        then have "?rs = list_resources st"
          by (intro map_idI) (auto simp: list_ex_iff rename_in_resource_id)
        then show ?thesis
          using False op v f ne 3(1) Inr l ok
          by (intro fin) (auto simp: rename_device_def Let_def d'_def registry_ok_def)
      next
        case True
        have "distinct (map r_name ?rs)" "distinct (map bridge_port ?rs)"
          using ok by (simp_all add: registry_ok_def consistent_def comp_def)
        then obtain st2 where s2: "save_resources ?rs st1 = Inr st2"
          using save_resources_Inr by blast
        have "res = Inr d'" "st' = st2"
          using True op v f ne 3(1) Inr l(2) s2 by (auto simp: rename_device_def Let_def d'_def)
        then show ?thesis
          using save_resources_lists [OF s2 rw] by (intro fin) simp_all
      qed
    qed
  qed
qed

lemma rename_device_ok:
  assumes ok: "registry_ok st" and op: "rename_device now i new st = (res, st')"
  shows "registry_ok st'"
  using assms
proof (cases rule: rename_device_inv)
  case (renamed d us vs)
  let ?ren = "\<lambda>x. if x = d_name d then new else x"
  let ?ds = "us @ d\<lparr>d_name := new\<rparr> # vs"
  have wf: "\<forall>x\<in>set ?ds. wf_device x"
    using list_all_wf(1) [of st] renamed(2) by (auto simp: wf_device_def)
  have keys: "map device_id (list_devices st') = map device_id (list_devices st)"
      "map d_name (list_devices st') = map d_name ?ds"
      "map vpn_ip (list_devices st') = map vpn_ip (list_devices st)"
    using wf renamed(2,6) by simp_all
  have dn: "distinct (map d_name (list_devices st))" and
    refs: "\<forall>r\<in>set (list_resources st). set (allowed_devices r) \<union> set (denied_devices r) \<subseteq> d_name ` set (list_devices st)"
    using ok by (simp_all add: registry_ok_def consistent_def)
  have ren: "map d_name ?ds = map ?ren (map d_name (list_devices st))"
    using dn renamed(2,3) by (auto simp: image_iff)
  have names: "d_name ` set (list_devices st') = ?ren ` d_name ` set (list_devices st)"
    using keys(2) ren by (metis list.set_map)
  have "inj_on ?ren (set (map d_name (list_devices st)))"
    using renamed(3) by (auto simp: inj_on_def)
  then have "distinct (map d_name (list_devices st'))"
    unfolding keys(2) ren distinct_map [of _ "map d_name (list_devices st)"] using dn by simp
  moreover have "device_id ` set (list_devices st') = device_id ` set (list_devices st)"
    using keys(1) by (metis list.set_map)
  moreover have "distinct (map r_name (list_resources st'))" "distinct (map bridge_port (list_resources st'))"
    using ok renamed(7) by (simp_all add: registry_ok_def consistent_def comp_def)
  moreover have "set (allowed_devices r) \<union> set (denied_devices r) \<subseteq> d_name ` set (list_devices st')"
    if r: "r \<in> set (list_resources st')" for r
  proof -
    obtain x where x: "x \<in> set (list_resources st)" "r = rename_in_resource (d_name d) new x"
      using r renamed(7) by auto
    have "set (allowed_devices r) \<union> set (denied_devices r)
        = ?ren ` (set (allowed_devices x) \<union> set (denied_devices x))"
      by (auto simp: x(2) rename_in_resource_def set_rename_in)
    also have "\<dots> \<subseteq> ?ren ` d_name ` set (list_devices st)" using refs x(1) by (intro image_mono) blast
    finally show ?thesis unfolding names .
  qed
  moreover have "r_name ` set (list_resources st') = r_name ` set (list_resources st)"
    unfolding renamed(7) by (auto simp: image_image)
  ultimately show ?thesis
    using ok renamed(8,9) keys(1,3) by (simp add: registry_ok_def consistent_def)
qed (use ok in simp_all)

text \<open>Resources.\<close>

definition registered :: "string \<Rightarrow> int \<Rightarrow> resource_args \<Rightarrow> resource \<Rightarrow> bool" where
  \<comment> \<open>the entry \<open>register_resource\<close> makes of its arguments\<close>
  "registered name port a r = (SAFE_NAME_match name \<and> 1 \<le> port \<and> port \<le> 65535
     \<and> port \<notin> set RESERVED_BRIDGE_PORTS \<and> 1 \<le> a_target_port a \<and> a_target_port a \<le> 65535
     \<and> target_host r \<in> set LOOPBACK_TARGETS \<and> health_url_local (health_url r) (target_port r)
     \<and> validate_systemd_unit (Some (a_unit a)) = Inr (systemd_unit r)
     \<and> validate_timeout_seconds (a_timeout a) = Inr (timeout_seconds r)
     \<and> (a_self_heal a \<longrightarrow> systemd_unit r \<noteq> [])
     \<and> r = \<lparr>r_name = name, bridge_port = port, listen_port = port,
         target_host = py_lower (py_strip (a_target_host a)), target_port = a_target_port a,
         allowed_devices = sorted_set (a_allowed a), icon = icon r,
         r_description = take 500 (py_strip (a_description a)), protocol = protocol r,
         health_url = py_strip (a_health_url a), timeout_seconds = timeout_seconds r,
         systemd_unit = systemd_unit r, self_heal_enabled = a_self_heal a, denied_devices = [], r_enabled = True\<rparr>)"

lemma validate_icon_Inr: "validate_resource_icon v = Inr i \<Longrightarrow> i \<noteq> [] \<and> length i \<le> 64"
  by (auto simp: validate_resource_icon_def Let_def split: if_splits)

lemma validate_protocol_Inr: "validate_resource_protocol v = Inr p \<Longrightarrow> p \<in> set RESOURCE_PROTOCOLS"
  by (auto simp: validate_resource_protocol_def Let_def split: if_splits)

lemma loopback_wf: "h \<in> set LOOPBACK_TARGETS \<Longrightarrow> h \<noteq> [] \<and> py_lower h = h"
proof -
  have "list_all (\<lambda>h. h \<noteq> [] \<and> py_lower h = h) LOOPBACK_TARGETS" by code_simp
  then show "h \<in> set LOOPBACK_TARGETS \<Longrightarrow> ?thesis" by (simp add: list_all_iff)
qed

lemma validate_health_length: "validate_health_url v h p = Inr u \<Longrightarrow> length u \<le> 500"
  by (auto simp: validate_health_url_def Let_def res_simps not_less split: if_splits sum.splits)

lemma register_resource_inv:
  assumes "register_resource name port a st = (res, st')"
  obtains (raised) e where "res = Inl e" "st' = st"
    | (registered) r where "registered name port a r" "wf_resource r" "res = Inr r"
        "name \<notin> r_name ` set (list_resources st)" "port \<notin> bridge_port ` set (list_resources st)"
        "set (a_allowed a) \<subseteq> d_name ` set (filter d_enabled (list_devices st))"
        "save_resources (list_resources st @ [r]) st = Inr st'"
proof (cases res)
  case (Inl e)
  with assms have "st' = st"
    by (auto simp: register_resource_def Let_def guard_in_def split: sum.splits)
  with Inl raised show ?thesis by blast
next
  case (Inr r)
  with assms obtain host proto ic timeout health unit where
    v: "validate_target_host (a_target_host a) = Inr host" "validate_resource_protocol (a_protocol a) = Inr proto"
      "validate_resource_icon (a_icon a) = Inr ic" "validate_timeout_seconds (a_timeout a) = Inr timeout"
      "validate_health_url (Some (a_health_url a)) host (a_target_port a) = Inr health"
      "validate_systemd_unit (Some (a_unit a)) = Inr unit" and
    g: "SAFE_NAME_match name" "1 \<le> port" "port \<le> 65535" "1 \<le> a_target_port a" "a_target_port a \<le> 65535"
      "port \<notin> set RESERVED_BRIDGE_PORTS" "a_self_heal a \<longrightarrow> unit \<noteq> []"
      "\<not> list_ex (\<lambda>r. r_name r = name) (list_resources st)"
      "\<not> list_ex (\<lambda>r. bridge_port r = port) (list_resources st)"
      "set (sorted_set (a_allowed a)) \<subseteq> set (map d_name (filter d_enabled (list_devices st)))" and
    s: "save_resources (list_resources st @ [r]) st = Inr st'" and
    r: "r = \<lparr>r_name = name, bridge_port = port, listen_port = port, target_host = host,
         target_port = a_target_port a, allowed_devices = sorted_set (a_allowed a), icon = ic,
         r_description = take 500 (py_strip (a_description a)), protocol = proto, health_url = health,
         timeout_seconds = timeout, systemd_unit = unit, self_heal_enabled = a_self_heal a,
         denied_devices = [], r_enabled = True\<rparr>"
    unfolding register_resource_def Let_def
    by (simp only: res_simps validate_name_Inr validate_port_Inr without_empty_iff Inr_inject prod.inject) blast
  have h: "host = py_lower (py_strip (a_target_host a))" "host \<in> set LOOPBACK_TARGETS"
    using v(1) by (metis validate_target_host_Inr)+
  have "health = py_strip (a_health_url a)"
    using validate_health_Inr [OF v(5)] by (simp add: opt_str_def)
  then have 1: "registered name port a r"
    unfolding registered_def using h v g(1-7) validate_health_local [OF v(5)] by (simp add: r)
  have 2: "wf_resource r"
    using h(2) v g(7) validate_icon_Inr [OF v(3)] validate_protocol_Inr [OF v(2)] loopback_wf [OF h(2)]
      validate_timeout_again [OF v(4)] validate_systemd_again [OF v(6)] validate_health_length [OF v(5)]
    by (simp add: wf_resource_def r)
  from g(8-10) show ?thesis
    by (intro registered [OF 1 2 Inr _ _ _ s]) (auto simp: list_ex_iff)
qed

lemma register_resource_ok:
  assumes ok: "registry_ok st" and op: "register_resource name port a st = (res, st')"
  shows "registry_ok st'"
  using op
proof (cases rule: register_resource_inv)
  case (registered r)
  have k: "r_name r = name" "bridge_port r = port" "denied_devices r = []" "set (allowed_devices r) = set (a_allowed a)"
    using registered(1) unfolding registered_def by (metis resource.select_convs set_sorted_set)+
  have "\<forall>r\<in>set (list_resources st @ [r]). wf_resource r" using list_all_wf(2) registered(2) by auto
  then show ?thesis
    using ok k registered(4-7) by (intro save_resources_ok [OF registered(7)]) (auto simp: registry_ok_def consistent_def)
qed (use ok in simp)

lemma update_resource_inv:
  assumes "update_resource name p st = (res, st')"
  obtains (raised) e where "res = Inl e" "st' = st"
    | (updated) t r where "find (\<lambda>r. r_name r = name) (list_resources st) = Some t" "wf_resource r"
        "r_name r = name" "1 \<le> bridge_port r" "bridge_port r \<le> 65535" "bridge_port r \<notin> set RESERVED_BRIDGE_PORTS"
        "\<forall>x\<in>set (list_resources st). r_name x \<noteq> name \<longrightarrow> bridge_port x \<noteq> bridge_port r"
        "target_host r \<in> set LOOPBACK_TARGETS" "health_url_local (health_url r) (target_port r)"
        "allowed_devices r = allowed_devices t" "denied_devices r = denied_devices t"
        "save_resources (map_first (\<lambda>r. r_name r = name) (\<lambda>_. r) (list_resources st)) st = Inr st'"
        "res = Inr (case find_resource name st' of None \<Rightarrow> r | Some x \<Rightarrow> x)"
proof (cases "find (\<lambda>r. r_name r = name) (list_resources st)")
  case None
  with assms raised show ?thesis by (auto simp: update_resource_def)
next
  case (Some t)
  have t: "r_name t = name" "wf_resource t"
    using find_Some_iff' [OF Some] by (auto intro: list_resources_wf)
  show ?thesis
  proof (cases res)
    case (Inl e)
    with assms Some have "st' = st"
      by (auto simp: update_resource_def Let_def guard_in_def split: sum.splits)
    with Inl raised show ?thesis by blast
  next
    case (Inr x)
    define heal where "heal = or_current (p_self_heal p) (self_heal_enabled t)"
    from assms Some Inr obtain bp host tp proto health unit ic timeout where
      v: "validate_target_host (or_current (p_target_host p) (target_host t)) = Inr host"
        "validate_resource_protocol (or_current (p_protocol p) (protocol t)) = Inr proto"
        "validate_health_url (Some (or_current (p_health_url p) (health_url t))) host tp = Inr health"
        "validate_systemd_unit (Some (or_current (p_unit p) (systemd_unit t))) = Inr unit"
        "validate_resource_icon (or_current (p_icon p) (icon t)) = Inr ic"
        "validate_timeout_seconds (or_current (p_timeout p) (NFloat (timeout_seconds t))) = Inr timeout" and
      g: "1 \<le> bp" "bp \<le> 65535" "bp \<notin> set RESERVED_BRIDGE_PORTS"
        "\<not> list_ex (\<lambda>r. r_name r \<noteq> name \<and> bridge_port r = bp) (list_resources st)"
        "\<not> (heal \<and> unit = [])" and
      s: "save_resources (map_first (\<lambda>r. r_name r = name) (\<lambda>_. t\<lparr>bridge_port := bp, listen_port := bp,
           target_host := host, target_port := tp, protocol := proto, icon := ic,
           r_description := take 500 (py_strip (or_current (p_description p) (r_description t))),
           health_url := health, timeout_seconds := timeout, systemd_unit := unit,
           self_heal_enabled := heal, r_enabled := or_current (p_enabled p) (r_enabled t)\<rparr>) (list_resources st)) st = Inr st'" and
      x: "x = (case find_resource name st' of None \<Rightarrow> t\<lparr>bridge_port := bp, listen_port := bp,
           target_host := host, target_port := tp, protocol := proto, icon := ic,
           r_description := take 500 (py_strip (or_current (p_description p) (r_description t))),
           health_url := health, timeout_seconds := timeout, systemd_unit := unit,
           self_heal_enabled := heal, r_enabled := or_current (p_enabled p) (r_enabled t)\<rparr> | Some x \<Rightarrow> x)"
      unfolding update_resource_def Let_def heal_def
      by (simp only: res_simps validate_port_Inr option.case Inr_inject prod.inject) blast
    let ?r = "t\<lparr>bridge_port := bp, listen_port := bp,
           target_host := host, target_port := tp, protocol := proto, icon := ic,
           r_description := take 500 (py_strip (or_current (p_description p) (r_description t))),
           health_url := health, timeout_seconds := timeout, systemd_unit := unit,
           self_heal_enabled := heal, r_enabled := or_current (p_enabled p) (r_enabled t)\<rparr>"
    have h: "host \<in> set LOOPBACK_TARGETS" using v(1) by (metis validate_target_host_Inr)
    have 2: "wf_resource ?r"
      using t(2) h v g(5) validate_icon_Inr [OF v(5)] validate_protocol_Inr [OF v(2)] loopback_wf [OF h]
        validate_timeout_again [OF v(6)] validate_systemd_again [OF v(4)] validate_health_length [OF v(3)]
      by (simp add: wf_resource_def)
    show ?thesis
      by (rule updated [OF Some 2 _ _ _ _ _ _ _ _ _ s])
         (use t g h Inr x validate_health_local [OF v(3)] in \<open>auto simp: list_ex_iff\<close>)
  qed
qed

lemma map_first_key_split:
  assumes "distinct (map k xs)" and "find (\<lambda>x. k x = a) xs = Some x"
  obtains us vs where "xs = us @ x # vs" "map_first (\<lambda>x. k x = a) (\<lambda>_. y) xs = us @ y # vs" "k x = a"
    "a \<notin> k ` set us" "a \<notin> k ` set vs"
proof -
  obtain us vs where *: "xs = us @ x # vs" "map_first (\<lambda>x. k x = a) (\<lambda>_. y) xs = us @ y # vs" "k x = a"
    using map_first_split [OF assms(2), of "\<lambda>_. y"] by auto
  then show ?thesis using assms(1) that [OF *] by auto
qed

lemma update_resource_ok:
  assumes ok: "registry_ok st" and op: "update_resource name p st = (res, st')"
  shows "registry_ok st'"
  using op
proof (cases rule: update_resource_inv)
  case (updated t r)
  have d: "distinct (map r_name (list_resources st))" using ok by (simp add: registry_ok_def consistent_def)
  obtain us vs where sp: "list_resources st = us @ t # vs"
      "map_first (\<lambda>r. r_name r = name) (\<lambda>_. r) (list_resources st) = us @ r # vs" "r_name t = name"
      "name \<notin> r_name ` set us" "name \<notin> r_name ` set vs"
    by (rule map_first_key_split [OF d updated(1)])
  have p: "bridge_port x \<noteq> bridge_port r" if x: "x \<in> set us \<union> set vs" for x
  proof -
    have "r_name x \<noteq> name" using x sp(4,5) by blast
    moreover have "x \<in> set (list_resources st)" using x unfolding sp(1) by auto
    ultimately show ?thesis using updated(7) by blast
  qed
  have w: "\<forall>x\<in>set (us @ r # vs). wf_resource x"
    using list_all_wf(2) [of st] updated(2) sp(1) by auto
  show ?thesis
  proof (rule save_resources_ok [OF updated(12) [unfolded sp(2)] w])
    have "bridge_port r \<notin> bridge_port ` set us" "bridge_port r \<notin> bridge_port ` set vs"
      using p by (metis Un_iff imageE)+
    moreover have "set (map r_name (us @ r # vs)) = set (map r_name (us @ t # vs))"
      using updated(3) sp(3) by simp
    ultimately show "consistent (list_devices st) (us @ r # vs) (list_groups st)"
      using ok updated(3,10,11) sp(3) unfolding registry_ok_def sp(1) consistent_def by simp
  qed
qed (use ok in simp)

definition drop_service :: "string \<Rightarrow> group \<Rightarrow> group" where
  \<comment> \<open>the edit \<open>remove_resource\<close> makes to a group that lists the Resource\<close>
  "drop_service name g = (if name \<in> set (allowed_services g)
     then g\<lparr>allowed_services := filter (\<lambda>x. x \<noteq> name) (allowed_services g),
            allowed_resources := filter (\<lambda>x. x \<noteq> name) (allowed_services g)\<rparr> else g)"

lemma drop_service_props [simp]:
  "g_name (drop_service n g) = g_name g" "device_ids (drop_service n g) = device_ids g"
  "set (allowed_services (drop_service n g)) = set (allowed_services g) - {n}"
  by (auto simp: drop_service_def)

lemma drop_service_id: "n \<notin> set (allowed_services g) \<Longrightarrow> drop_service n g = g"
  by (simp add: drop_service_def)

lemma drop_service_wf: "wf_group g \<Longrightarrow> wf_group (drop_service n g)"
  by (auto simp: wf_group_def drop_service_def sorted_wrt_filter)

lemma remove_resource_lists:
  assumes ok: "registry_ok st" and op: "remove_resource name st = (res, st')"
  shows "(name \<notin> r_name ` set (list_resources st) \<and> res = Inr False \<and> st' = st) \<or>
    (name \<in> r_name ` set (list_resources st) \<and> res = Inr True
      \<and> list_resources st' = filter (\<lambda>r. r_name r \<noteq> name) (list_resources st)
      \<and> list_devices st' = list_devices st
      \<and> list_groups st' = map (drop_service name) (list_groups st) \<and> mirror_ok st')"
proof (cases "name \<in> r_name ` set (list_resources st)")
  case False
  then have "filter (\<lambda>r. r_name r \<noteq> name) (list_resources st) = list_resources st"
    by (auto simp: filter_id_conv)
  with False op show ?thesis by (auto simp: remove_resource_def)
next
  case True
  let ?new = "filter (\<lambda>r. r_name r \<noteq> name) (list_resources st)"
  have len: "length ?new \<noteq> length (list_resources st)"
    using True length_filter_less [of _ "list_resources st" "\<lambda>r. r_name r \<noteq> name"] by fastforce
  have "distinct (map r_name ?new)" "distinct (map bridge_port ?new)"
    using ok by (simp_all add: registry_ok_def consistent_def distinct_map_filter')
  then obtain st1 where s1: "save_resources ?new st = Inr st1" using save_resources_Inr by blast
  have "\<forall>r\<in>set ?new. wf_resource r" using list_all_wf(2) [of st] by simp
  note l1 = save_resources_lists [OF s1 this]
  let ?gs = "map (drop_service name) (list_groups st)"
  show ?thesis
  proof (cases "list_ex (\<lambda>g. name \<in> set (allowed_services g)) (list_groups st)")
    case False
    then have "?gs = list_groups st" by (intro map_idI drop_service_id) (auto simp: list_ex_iff)
    with False True op len s1 l1 show ?thesis by (auto simp: remove_resource_def Let_def)
  next
    case t2: True
    have wf: "\<forall>g\<in>set ?gs. wf_group g" using list_all_wf(3) drop_service_wf by auto
    have "r_name ` set ?new = r_name ` set (list_resources st) - {name}" by auto
    then obtain st2 where s2: "save_groups ?gs st1 = Inr st2"
      using ok wf l1(1,2) unfolding save_groups_Inr by (fastforce simp: registry_ok_def consistent_def comp_def)
    have "list_groups st2 = ?gs" using save_groups_lists(1) [OF s2] wf by (simp add: map_idI)
    moreover have "remove_resource name st = (Inr True, st2)"
      using t2 len s1 s2 l1(3)
      by (simp add: remove_resource_def Let_def drop_service_def [symmetric])
    ultimately show ?thesis
      using True op l1 save_groups_lists [OF s2] by simp
  qed
qed

lemma remove_resource_ok:
  assumes ok: "registry_ok st" and op: "remove_resource name st = (res, st')"
  shows "registry_ok st'"
  using remove_resource_lists [OF assms]
proof (elim disjE conjE)
  assume l: "list_resources st' = filter (\<lambda>r. r_name r \<noteq> name) (list_resources st)"
    "list_devices st' = list_devices st" "list_groups st' = map (drop_service name) (list_groups st)" "mirror_ok st'"
  have "r_name ` set (list_resources st') = r_name ` set (list_resources st) - {name}" unfolding l by auto
  moreover have "map g_name (list_groups st') = map g_name (list_groups st)" unfolding l by simp
  ultimately show ?thesis
    using ok l unfolding registry_ok_def consistent_def by (auto simp: distinct_map_filter' comp_def)
qed (use ok in simp)

text \<open>Groups.\<close>

lemma create_group_inv:
  assumes "create_group name desc st = (res, st')"
  obtains (raised) e where "res = Inl e" "st' = st"
    | (written) g where "save_groups (list_groups st @ [g]) st = Inr st'" "res = Inr g" "g_name g = name"
        "device_ids g = []" "allowed_services g = []"
  using assms by (auto simp: create_group_def Let_def guard_in_def split: sum.splits)

lemma create_group_ok:
  assumes "registry_ok st" and "create_group name desc st = (res, st')"
  shows "registry_ok st'"
  using assms(2)
proof (cases rule: create_group_inv)
  case (written g)
  show ?thesis by (rule save_groups_ok [OF written(1) assms(1)])
qed (use assms(1) in simp)

lemma remove_group_inv:
  assumes "remove_group now name st = (res, st')"
  obtains (unchanged) "st' = st"
    | (written) st1 where "save_groups (filter (\<lambda>g. g_name g \<noteq> name) (list_groups st)) st = Inr st1"
        "res = Inr True" "st' = audit_acl now ''group_remove'' None None (Some name) st1"
  using assms by (auto simp: remove_group_def Let_def guard_in_def split: sum.splits if_splits)

lemma remove_group_ok:
  assumes "registry_ok st" and "remove_group now name st = (res, st')"
  shows "registry_ok st'"
  using assms(2)
proof (cases rule: remove_group_inv)
  case (written st1)
  show ?thesis using save_groups_ok [OF written(1) assms(1)] written(3) by simp
qed (use assms(1) in simp)

lemma edit_group_inv:
  assumes "edit_group name f audit st = (res, st')"
  obtains (raised) e where "res = Inl e" "st' = st"
    | (written) g st1 where "find (\<lambda>g. g_name g = name) (list_groups st) = Some g"
        "save_groups (map_first (\<lambda>g. g_name g = name) f (list_groups st)) st = Inr st1"
        "res = Inr (f g)" "st' = audit st1"
  using assms by (auto simp: edit_group_def Let_def guard_in_def split: sum.splits option.splits)

lemma edit_group_ok:
  assumes "edit_group name f (audit_acl now a d r x) st = (res, st')" and "registry_ok st"
  shows "registry_ok st'"
  using assms(1)
proof (cases rule: edit_group_inv)
  case (written g st1)
  show ?thesis using save_groups_ok [OF written(2) assms(2)] written(4) by simp
qed (use assms(2) in simp)

lemma set_group_enabled_ok:
  "registry_ok st \<Longrightarrow> set_group_enabled now name b st = (res, st') \<Longrightarrow> registry_ok st'"
  unfolding set_group_enabled_def by (rule edit_group_ok)

lemma set_group_device_ok:
  assumes "registry_ok st" and "set_group_device now name i b st = (res, st')"
  shows "registry_ok st'"
proof (cases "find_device i st")
  case None
  with assms show ?thesis by (simp add: set_group_device_def)
next
  case (Some d)
  with assms(2) show ?thesis using edit_group_ok [OF _ assms(1)] by (simp add: set_group_device_def)
qed

lemma set_group_resource_ok:
  assumes "registry_ok st" and "set_group_resource now name i b st = (res, st')"
  shows "registry_ok st'"
proof (cases "list_ex (\<lambda>r. r_name r = i) (list_resources st)")
  case False
  with assms show ?thesis by (simp add: set_group_resource_def)
next
  case True
  with assms(2) show ?thesis using edit_group_ok [OF _ assms(1)] by (simp add: set_group_resource_def)
qed

lemma override_inv:
  assumes "set_device_access_override now rn i dec st = (res, st')"
  obtains (raised) e where "res = Inl e" "st' = st"
    | (written) d r st1 where "find_device i st = Some d" "dec \<in> {''allow'', ''deny'', ''inherit''}"
        "find (\<lambda>r. r_name r = rn) (list_resources st) = Some r"
        "save_resources (map_first (\<lambda>r. r_name r = rn) (override_resource dec (d_name d)) (list_resources st)) st = Inr st1"
        "res = Inr (override_resource dec (d_name d) r)"
        "st' = audit_acl now (''device_override_'' @ dec) (Some d) (Some rn) (Some dec) st1"
  using assms by (auto simp: set_device_access_override_def Let_def guard_in_def ensure_def
      split: option.splits sum.splits if_splits)

lemma set_override_ok:
  assumes ok: "registry_ok st" and op: "set_device_access_override now rn i dec st = (res, st')"
  shows "registry_ok st'"
  using op
proof (cases rule: override_inv)
  case (written d r st1)
  let ?rs = "map_first (\<lambda>r. r_name r = rn) (override_resource dec (d_name d)) (list_resources st)"
  have w: "\<forall>x\<in>set ?rs. wf_resource x"
    by (rule map_first_wf) (use list_all_wf(2) override_resource_wf in auto)
  have k: "map r_name ?rs = map r_name (list_resources st)" "map bridge_port ?rs = map bridge_port (list_resources st)"
    by (intro map_map_first; simp add: override_resource_def)+
  have kset: "r_name ` set ?rs = r_name ` set (list_resources st)"
    using k(1) by (metis list.set_map)
  have d: "d_name d \<in> d_name ` set (list_devices st)"
    using written(1) by (auto simp: find_device_def dest: find_Some_iff')
  have refs: "set (allowed_devices x) \<union> set (denied_devices x) \<subseteq> d_name ` set (list_devices st)" if "x \<in> set ?rs" for x
  proof -
    have *: "set (allowed_devices y) \<union> set (denied_devices y) \<subseteq> d_name ` set (list_devices st)"
      if "y \<in> set (list_resources st)" for y
      using that ok by (simp add: registry_ok_def consistent_def)
    from set_map_first [OF that] show ?thesis
      using * d by (elim disjE bexE) (auto simp: override_resource_def)
  qed
  have "consistent (list_devices st) ?rs (list_groups st)"
    using ok refs kset unfolding registry_ok_def consistent_def k by simp
  from save_resources_ok [OF written(4) w this] show ?thesis using written(6) by simp
qed (use ok in simp)

end
