(* ===== verification/Acl.thy ===== *)
theory Acl
  imports RegistryOps
begin

text \<open>
  Who may reach what: the access decision of \<open>ge360_bridge/core.py\<close> (\<open>groups_for_device\<close> to
  \<open>effective_services_for_device\<close>), device expiry, and the choice of a free VPN address.
  The current date is an argument, as a day number.
\<close>

definition device_is_expired :: "nat \<Rightarrow> device \<Rightarrow> bool" where
  "device_is_expired today d = (case expires_at d of
       None \<Rightarrow> False
     | Some expiry \<Rightarrow> if expiry = [] then False
         else (case fromisoformat expiry of None \<Rightarrow> False | Some expiry_date \<Rightarrow> expiry_date < today))"

definition device_is_active :: "nat \<Rightarrow> device \<Rightarrow> bool" where
  "device_is_active today d = (d_enabled d \<and> \<not> device_is_expired today d)"

definition groups_for_device :: "device \<Rightarrow> group list \<Rightarrow> group list" where
  "groups_for_device d groups = filter (\<lambda>g. g_enabled g \<and> device_id d \<in> set (device_ids g)) groups"

fun first_group_source :: "string \<Rightarrow> group list \<Rightarrow> string" where
  "first_group_source name [] = ''none''"
| "first_group_source name (g # gs) =
     (if name \<in> set (allowed_services g) then ''group:'' @ g_name g else first_group_source name gs)"

definition resource_access_source :: "nat \<Rightarrow> resource \<Rightarrow> device \<Rightarrow> group list \<Rightarrow> string" where
  "resource_access_source today r d groups =
     (if \<not> device_is_active today d then ''inactive''
      else if d_name d \<in> set (denied_devices r) then ''deny_override''
      else if d_name d \<in> set (allowed_devices r) then ''allow_override''
      else first_group_source (r_name r) (groups_for_device d groups))"

definition resource_allows_device :: "nat \<Rightarrow> resource \<Rightarrow> device \<Rightarrow> group list \<Rightarrow> bool" where
  "resource_allows_device today r d groups = (let source = resource_access_source today r d groups in
     source = ''allow_override'' \<or> starts_with ''group:'' source)"

definition allowed_ips_for_resource :: "nat \<Rightarrow> resource \<Rightarrow> device list \<Rightarrow> group list \<Rightarrow> string set" where
  "allowed_ips_for_resource today r devices groups =
     set (map vpn_ip (filter (\<lambda>d. resource_allows_device today r d groups) devices))"

definition effective_resources_for_device ::
  "nat \<Rightarrow> device \<Rightarrow> resource list \<Rightarrow> group list \<Rightarrow> resource list" where
  "effective_resources_for_device today d resources groups =
     filter (\<lambda>r. r_enabled r \<and> resource_allows_device today r d groups) resources"

section \<open>A free VPN address\<close>

definition ip_network_v4 :: "string \<Rightarrow> (nat \<times> nat) option" where
  \<comment> \<open>\<open>ip_network(cidr, strict=False)\<close> on \<open>a.b.c.d/n\<close>: first address and prefix length\<close>
  "ip_network_v4 cidr = (case partition_at (CHR ''/'') cidr of (addr, sep, len) \<Rightarrow>
     (case parse_v4 addr of None \<Rightarrow> None
      | Some a \<Rightarrow>
          if \<not> sep then Some (a, 32)
          else if len = [] \<or> \<not> list_all is_digit len \<or> 32 < digits_val 0 len then None
          else let n = digits_val 0 len in Some (a - a mod 2 ^ (32 - n), n)))"

definition v4_hosts :: "nat \<Rightarrow> nat \<Rightarrow> nat list" where
  "v4_hosts base n = (if n = 32 then [base] else if n = 31 then [base, Suc base]
     else [Suc base..<base + 2 ^ (32 - n) - 1])"

definition next_device_ip :: "string \<Rightarrow> string \<Rightarrow> store \<Rightarrow> string res" where
  "next_device_ip cidr server_ip st = (case ip_network_v4 cidr of
       None \<Rightarrow> Inl (ValueError cidr)
     | Some (base, n) \<Rightarrow> (let used = map vpn_ip (list_devices st) in
         case find (\<lambda>ip. \<not> (v4_str ip = server_ip \<or> v4_str ip \<in> set used)) (v4_hosts base n) of
           None \<Rightarrow> Inl (BridgeError ''Nessun IP VPN libero.'')
         | Some ip \<Rightarrow> Inr (v4_str ip)))"

section \<open>The access decision\<close>

definition group_grants :: "resource \<Rightarrow> device \<Rightarrow> group list \<Rightarrow> bool" where
  "group_grants r d groups = (\<exists>g\<in>set groups. g_enabled g \<and> device_id d \<in> set (device_ids g)
     \<and> r_name r \<in> set (allowed_services g))"

definition access_spec :: "nat \<Rightarrow> resource \<Rightarrow> device \<Rightarrow> group list \<Rightarrow> bool" where
  "access_spec today r d groups = (device_is_active today d \<and> d_name d \<notin> set (denied_devices r)
     \<and> (d_name d \<in> set (allowed_devices r) \<or> group_grants r d groups))"

lemma starts_with_append [simp]: "starts_with p (p @ s)"
  by (simp add: starts_with_def)

lemma first_group_source_group:
  "starts_with ''group:'' (first_group_source n gs) \<longleftrightarrow> (\<exists>g\<in>set gs. n \<in> set (allowed_services g))"
  by (induction gs) (simp_all add: starts_with_def)

lemma first_group_source_not_allow: "first_group_source n gs \<noteq> ''allow_override''"
  by (induction gs) auto

lemma allows_iff_spec: "resource_allows_device today r d groups = access_spec today r d groups"
proof -
  have "starts_with ''group:'' s = False" if "s \<in> {''inactive'', ''deny_override'', ''allow_override''}" for s
    using that by (auto simp: starts_with_def)
  then show ?thesis
    by (auto simp: resource_allows_device_def resource_access_source_def access_spec_def group_grants_def
        first_group_source_group first_group_source_not_allow groups_for_device_def Let_def)
qed

lemma allowed_ips_iff:
  "ip \<in> allowed_ips_for_resource today r ds gs \<longleftrightarrow> (\<exists>d\<in>set ds. vpn_ip d = ip \<and> access_spec today r d gs)"
  by (auto simp: allowed_ips_for_resource_def allows_iff_spec)

lemma access_spec_cong:
  assumes "device_id d = device_id d'" "d_enabled d = d_enabled d'" "expires_at d = expires_at d'"
    and "d_name d \<in> set (denied_devices r) \<longleftrightarrow> d_name d' \<in> set (denied_devices r')"
    and "d_name d \<in> set (allowed_devices r) \<longleftrightarrow> d_name d' \<in> set (allowed_devices r')"
    and "r_name r = r_name r'"
  shows "access_spec today r d gs = access_spec today r' d' gs"
  using assms by (simp add: access_spec_def device_is_active_def device_is_expired_def group_grants_def)

lemma renorm_device_access [simp]:
  "wf_device d \<Longrightarrow> access_spec today r (renorm_device now d) gs = access_spec today r d gs"
  by (rule access_spec_cong) (simp_all add: renorm_device_wf)

lemma unique_ip:
  assumes "registry_ok st" "d \<in> set (list_devices st)" "d' \<in> set (list_devices st)" "vpn_ip d = vpn_ip d'"
  shows "d = d'"
  using assms by (metis registry_ok_def consistent_def distinct_map inj_on_def)

text \<open>
  C1. A device reaches a Resource exactly when it is enabled and not expired, is not on the
  Resource's deny list, and is on its allow list or in an enabled group that lists the
  Resource: the deny override wins over every grant, whatever else is configured.
\<close>

theorem access_decision:
  "resource_allows_device today r d groups \<longleftrightarrow>
     d_enabled d \<and> \<not> device_is_expired today d \<and> d_name d \<notin> set (denied_devices r) \<and>
     (d_name d \<in> set (allowed_devices r) \<or>
      (\<exists>g\<in>set groups. g_enabled g \<and> device_id d \<in> set (device_ids g) \<and> r_name r \<in> set (allowed_services g)))"
  by (auto simp: allows_iff_spec access_spec_def device_is_active_def group_grants_def)

section \<open>A store with two devices, two Resources and a group\<close>

definition demo_device :: "string \<Rightarrow> string \<Rightarrow> string \<Rightarrow> device" where
  "demo_device i n ip = \<lparr>device_id = i, d_name = n, device_type = ''linux'', owner = [], vpn_ip = ip,
     public_key = ''k'' @ i, preshared_key = ''p'', token = ''tok'' @ i, created_at = ''t0'',
     expires_at = None, d_notes = [], tags = [''lab''], d_enabled = True\<rparr>"

definition demo_resource :: "string \<Rightarrow> int \<Rightarrow> string list \<Rightarrow> resource" where
  "demo_resource n port allowed = \<lparr>r_name = n, bridge_port = port, listen_port = port,
     target_host = ''127.0.0.1'', target_port = 3000, allowed_devices = allowed, icon = ''server'',
     r_description = [], protocol = ''http'', health_url = ''/'', timeout_seconds = Fin 2,
     systemd_unit = ''app.service'', self_heal_enabled = True, denied_devices = [], r_enabled = True\<rparr>"

definition demo_store :: store where
  "demo_store = \<lparr>DEVICES_FILE = Some [raw_of_device (demo_device ''dev_1'' ''phone'' ''10.88.0.2''),
       raw_of_device (demo_device ''dev_2'' ''laptop'' ''10.88.0.3'')],
     RESOURCES_FILE = Some [raw_of_resource (demo_resource ''web'' 9001 [''phone'']),
       raw_of_resource (demo_resource ''db'' 9002 [])],
     SERVICES_FILE = Some [raw_of_resource (demo_resource ''web'' 9001 [''phone'']),
       raw_of_resource (demo_resource ''db'' 9002 [])],
     GROUPS_FILE = Some [\<lparr>raw_g_name = Some ''ops'', raw_g_description = None,
       raw_device_ids = Some [''dev_2''], raw_allowed_services = Some [''db''],
       raw_allowed_resources = None, raw_g_enabled = None\<rparr>],
     AUDIT_DB = []\<rparr>"

lemma demo_store_ok: "registry_ok demo_store"
  by code_simp

section \<open>What the operations do to access\<close>

text \<open>A disabled device is the only one at its address, and is inactive on any day.\<close>

lemma disabled_device_split:
  assumes ok: "registry_ok st" and op: "set_device_enabled now i False st = (Inr (Some d), st')"
  obtains x us vs where "list_devices st = us @ x # vs" "d = x\<lparr>d_enabled := False\<rparr>" "device_matches i x"
    "list_devices st' = map (renorm_device now) (us @ d # vs)" "wf_device d"
    "list_resources st' = list_resources st" "list_groups st' = list_groups st"
proof -
  from op obtain x st1 where x: "find (device_matches i) (list_devices st) = Some x" and
    s: "save_devices now (map_first (device_matches i) (\<lambda>_. x\<lparr>d_enabled := False\<rparr>) (list_devices st)) st = Inr st1" and
    d: "d = x\<lparr>d_enabled := False\<rparr>" and st': "list_devices st' = list_devices st1"
      "list_resources st' = list_resources st1" "list_groups st' = list_groups st1"
    by (cases rule: set_device_enabled_inv) auto
  note l = save_devices_lists [OF s]
  obtain us vs where sp: "list_devices st = us @ x # vs"
      "map_first (device_matches i) (\<lambda>_. x\<lparr>d_enabled := False\<rparr>) (list_devices st) = us @ d # vs"
    using map_first_split [OF x] d by blast
  have "wf_device d" using find_wf_device [OF x] by (simp add: d wf_device_def)
  moreover have "device_matches i x" using x by (auto simp: find_Some_iff)
  ultimately show thesis using sp l st' d that by simp
qed

lemma disabled_device_inactive:
  assumes ok: "registry_ok st" and op: "set_device_enabled now i False st = (Inr (Some d), st')"
    and y: "y \<in> set (list_devices st')" "vpn_ip y = vpn_ip d"
  shows "\<not> device_is_active today y"
proof (rule disabled_device_split [OF ok op])
  fix x us vs
  assume l: "list_devices st' = map (renorm_device now) (us @ d # vs)" and w: "wf_device d" and d: "d = x\<lparr>d_enabled := False\<rparr>"
  have "y = renorm_device now d"
    by (rule unique_ip [OF set_device_enabled_ok [OF ok op] y(1)]) (use y(2) l in simp_all)
  then show ?thesis using w by (simp add: renorm_device_wf device_is_active_def d)
qed

text \<open>
  Revoking a device takes effect for every Resource: once \<open>revoke_device\<close> has returned
  the device it found, the device it names is disabled in the registry, its address is
  allowed on no Resource whatever the groups say, on any day, and no other device changed.
\<close>

theorem revoke_device_denies:
  assumes "registry_ok st" and "revoke_device now i st = (Inr (Some d), st')"
  shows "vpn_ip d \<notin> allowed_ips_for_resource today r (list_devices st') groups
    \<and> effective_resources_for_device today d resources groups = []
    \<and> list_resources st' = list_resources st \<and> list_groups st' = list_groups st
    \<and> (\<forall>x\<in>set (list_devices st). device_id x \<noteq> device_id d \<longrightarrow>
         (\<exists>y\<in>set (list_devices st'). y = x\<lparr>created_at := created_at y\<rparr>))"
proof -
  from assms(2) have op: "set_device_enabled now i False st = (Inr (Some d), st')"
    by (simp add: revoke_device_def)
  obtain x us vs where sp: "list_devices st = us @ x # vs" and d: "d = x\<lparr>d_enabled := False\<rparr>"
    and ls: "list_devices st' = map (renorm_device now) (us @ d # vs)"
    and fr: "list_resources st' = list_resources st" "list_groups st' = list_groups st"
    by (rule disabled_device_split [OF assms(1) op])
  have 1: "vpn_ip d \<notin> allowed_ips_for_resource today r (list_devices st') groups"
    using disabled_device_inactive [OF assms(1) op] by (auto simp: allowed_ips_iff access_spec_def)
  have 2: "effective_resources_for_device today d resources groups = []"
    by (simp add: effective_resources_for_device_def allows_iff_spec access_spec_def device_is_active_def d)
  have "renorm_device now y = y\<lparr>created_at := created_at (renorm_device now y)\<rparr>" if "y \<in> set (list_devices st)" for y
    using that by (simp add: renorm_device_wf list_devices_wf)
  moreover have "renorm_device now y \<in> set (list_devices st')"
    if "y \<in> set (list_devices st)" "device_id y \<noteq> device_id d" for y
    using that unfolding ls sp by (auto simp: d)
  ultimately have 3: "\<forall>y\<in>set (list_devices st). device_id y \<noteq> device_id d \<longrightarrow>
      (\<exists>z\<in>set (list_devices st'). z = y\<lparr>created_at := created_at z\<rparr>)"
    by blast
  show ?thesis using 1 2 3 fr by simp
qed

theorem revoke_device_denies_witness:
  "fst (revoke_device ''t1'' ''phone'' demo_store) = Inr (Some ((demo_device ''dev_1'' ''phone'' ''10.88.0.2'')\<lparr>d_enabled := False\<rparr>))
   \<and> ''10.88.0.2'' \<notin> allowed_ips_for_resource 739000 (demo_resource ''web'' 9001 [''phone''])
        (list_devices (snd (revoke_device ''t1'' ''phone'' demo_store))) []
   \<and> ''10.88.0.2'' \<in> allowed_ips_for_resource 739000 (demo_resource ''web'' 9001 [''phone'']) (list_devices demo_store) []"
proof -
  let ?d = "(demo_device ''dev_1'' ''phone'' ''10.88.0.2'')\<lparr>d_enabled := False\<rparr>"
  have 1: "fst (revoke_device ''t1'' ''phone'' demo_store) = Inr (Some ?d)" by code_simp
  then have "revoke_device ''t1'' ''phone'' demo_store = (Inr (Some ?d), snd (revoke_device ''t1'' ''phone'' demo_store))"
    by (metis prod.collapse)
  moreover have "vpn_ip ?d = ''10.88.0.2''" by (simp add: demo_device_def)
  ultimately have "''10.88.0.2'' \<notin> allowed_ips_for_resource 739000 (demo_resource ''web'' 9001 [''phone''])
        (list_devices (snd (revoke_device ''t1'' ''phone'' demo_store))) []"
    using revoke_device_denies [OF demo_store_ok, of "''t1''" "''phone''" ?d] by metis
  moreover have "''10.88.0.2'' \<in> allowed_ips_for_resource 739000 (demo_resource ''web'' 9001 [''phone'']) (list_devices demo_store) []"
    by code_simp
  ultimately show ?thesis using 1 by blast
qed

lemma mem_rename_in:
  "x \<noteq> o' \<Longrightarrow> x \<noteq> n \<Longrightarrow> x \<in> set (rename_in o' n xs) \<longleftrightarrow> x \<in> set xs"
  "n \<notin> set xs \<Longrightarrow> n \<in> set (rename_in o' n xs) \<longleftrightarrow> o' \<in> set xs"
  by (auto simp: set_rename_in)

text \<open>
  Renaming a device changes nobody's access: after a successful \<open>rename_device\<close> the
  registry holds the same Resources in the same order, and each admits exactly the VPN
  addresses it admitted before.
\<close>

theorem rename_keeps_access:
  assumes ok: "registry_ok st" and op: "rename_device now i new st = (Inr d', st')"
  shows "map r_name (list_resources st') = map r_name (list_resources st)
    \<and> map (\<lambda>r. allowed_ips_for_resource today r (list_devices st') (list_groups st')) (list_resources st')
      = map (\<lambda>r. allowed_ips_for_resource today r (list_devices st) (list_groups st)) (list_resources st)"
  using assms
proof (cases rule: rename_device_inv)
  case (renamed d us vs)
  let ?d = "d\<lparr>d_name := new\<rparr>" and ?ren = "rename_in_resource (d_name d) new"
  have wf: "\<forall>y\<in>set (us @ d # vs). wf_device y" using list_all_wf(1) [of st] renamed(2) by simp
  then have wd: "wf_device ?d" by (simp add: wf_device_def)
  have dn: "d_name d \<notin> d_name ` (set us \<union> set vs)" and nn: "new \<notin> d_name ` (set us \<union> set vs)"
    using ok renamed(2,3) by (auto simp: registry_ok_def consistent_def)
  have "allowed_ips_for_resource today (?ren r) (list_devices st') gs = allowed_ips_for_resource today r (list_devices st) gs"
    if r: "r \<in> set (list_resources st)" for r gs
  proof -
    have ref: "new \<notin> set (denied_devices r)" "new \<notin> set (allowed_devices r)"
      using ok renamed(3) r by (auto simp: registry_ok_def consistent_def)
    have d: "access_spec today (?ren r) ?d gs = access_spec today r d gs"
      by (rule access_spec_cong) (simp_all add: rename_in_resource_def mem_rename_in ref)
    have o: "access_spec today (?ren r) y gs = access_spec today r y gs" if "y \<in> set us \<union> set vs" for y
    proof -
      have "d_name y \<noteq> d_name d" "d_name y \<noteq> new" using that dn nn by (metis imageI)+
      then show ?thesis by (intro access_spec_cong) (simp_all add: rename_in_resource_def mem_rename_in)
    qed
    have "(\<exists>y\<in>set (list_devices st'). vpn_ip y = ip \<and> access_spec today (?ren r) y gs)
        = (\<exists>y\<in>set (list_devices st). vpn_ip y = ip \<and> access_spec today r y gs)" for ip
    proof -
      have "(\<exists>y\<in>set (list_devices st'). vpn_ip y = ip \<and> access_spec today (?ren r) y gs)
          = (\<exists>y\<in>set (us @ ?d # vs). vpn_ip y = ip \<and> access_spec today (?ren r) y gs)"
        using wf wd by (simp add: renamed(6) bex_Un)
      also have "\<dots> = (\<exists>y\<in>set (us @ d # vs). vpn_ip y = ip \<and> access_spec today r y gs)"
        using d o by (simp add: bex_Un)
      finally show ?thesis using renamed(2) by simp
    qed
    then show ?thesis by (auto simp: set_eq_iff allowed_ips_iff)
  qed
  then show ?thesis using renamed(7,8) by simp
qed simp_all

theorem rename_keeps_access_witness:
  "is_ok (fst (rename_device ''t1'' ''dev_1'' ''tablet'' demo_store))
   \<and> map r_name (list_resources (snd (rename_device ''t1'' ''dev_1'' ''tablet'' demo_store))) = [''web'', ''db'']"
proof -
  have 1: "is_ok (fst (rename_device ''t1'' ''dev_1'' ''tablet'' demo_store))" by code_simp
  then obtain d where d: "rename_device ''t1'' ''dev_1'' ''tablet'' demo_store
      = (Inr d, snd (rename_device ''t1'' ''dev_1'' ''tablet'' demo_store))"
    by (metis is_ok_iff prod.collapse)
  have "map r_name (list_resources demo_store) = [''web'', ''db'']" by code_simp
  with rename_keeps_access [OF demo_store_ok d] 1 show ?thesis by simp
qed

text \<open>
  An access override decides: after \<open>deny\<close> the device is refused, after \<open>allow\<close> it is
  admitted exactly while active, after \<open>inherit\<close> the groups decide alone. The access of every
  other device, and every other Resource, is as before.
\<close>

theorem override_decides:
  assumes ok: "registry_ok st" and d: "find_device i st = Some d" and r0: "find_resource rn st = Some r0"
    and op: "set_device_access_override now rn i dec st = (Inr r, st')"
  shows "r \<in> set (list_resources st')
    \<and> (dec = ''deny'' \<longrightarrow> \<not> resource_allows_device today r d gs)
    \<and> (dec = ''allow'' \<longrightarrow> resource_allows_device today r d gs = device_is_active today d)
    \<and> (dec = ''inherit'' \<longrightarrow> resource_allows_device today r d gs = (device_is_active today d \<and> group_grants r0 d gs))
    \<and> (\<forall>x. d_name x \<noteq> d_name d \<longrightarrow> resource_allows_device today r x gs = resource_allows_device today r0 x gs)
    \<and> (\<forall>x\<in>set (list_resources st'). r_name x \<noteq> rn \<longrightarrow> x \<in> set (list_resources st))
    \<and> list_devices st' = list_devices st \<and> list_groups st' = list_groups st"
  using op
proof (cases rule: override_inv)
  case (written d1 r1 st1)
  have e: "d1 = d" "r1 = r0" "r = override_resource dec (d_name d) r0"
    using written d r0 by (simp_all add: find_resource_def)
  let ?rs = "map_first (\<lambda>r. r_name r = rn) (override_resource dec (d_name d)) (list_resources st)"
  have w: "\<forall>x\<in>set ?rs. wf_resource x"
    by (rule map_first_wf) (use list_all_wf(2) override_resource_wf in auto)
  note l = save_resources_lists [OF written(4) [unfolded e] w]
  obtain us vs where sp: "list_resources st = us @ r0 # vs" "?rs = us @ r # vs" "r_name r0 = rn"
    using map_first_split [OF written(3), of "override_resource dec (d_name d)"] e by auto
  have 1: "r \<in> set (list_resources st')" using l(1) sp(2) written(6) by simp
  have 2: "\<forall>x\<in>set (list_resources st'). r_name x \<noteq> rn \<longrightarrow> x \<in> set (list_resources st)"
    using l(1) sp written(6) e(3) by (auto simp: override_resource_def)
  have 3: "access_spec today r x gs = access_spec today r0 x gs" if "d_name x \<noteq> d_name d" for x
    by (rule access_spec_cong) (use that in \<open>simp_all add: e(3) override_resource_def\<close>)
  have g: "group_grants r d gs = group_grants r0 d gs" by (simp add: e(3) group_grants_def override_resource_def)
  show ?thesis
    using 1 2 3 g l(2,3) written(6)
    by (simp add: allows_iff_spec access_spec_def, simp add: e(3) override_resource_def)
qed simp

theorem override_decides_witness:
  "is_ok (fst (set_device_access_override ''t1'' ''db'' ''laptop'' ''deny'' demo_store))
   \<and> \<not> resource_allows_device 739000 (override_resource ''deny'' ''laptop'' (demo_resource ''db'' 9002 []))
        (demo_device ''dev_2'' ''laptop'' ''10.88.0.3'') (list_groups demo_store)
   \<and> resource_allows_device 739000 (demo_resource ''db'' 9002 [])
        (demo_device ''dev_2'' ''laptop'' ''10.88.0.3'') (list_groups demo_store)"
proof -
  let ?op = "set_device_access_override ''t1'' ''db'' ''laptop'' ''deny'' demo_store"
  let ?r = "override_resource ''deny'' ''laptop'' (demo_resource ''db'' 9002 [])"
  have 1: "fst ?op = Inr ?r" by code_simp
  then have op: "?op = (Inr ?r, snd ?op)" by (metis prod.collapse)
  have 2: "find_device ''laptop'' demo_store = Some (demo_device ''dev_2'' ''laptop'' ''10.88.0.3'')" by code_simp
  have 3: "find_resource ''db'' demo_store = Some (demo_resource ''db'' 9002 [])" by code_simp
  have 4: "resource_allows_device 739000 (demo_resource ''db'' 9002 [])
        (demo_device ''dev_2'' ''laptop'' ''10.88.0.3'') (list_groups demo_store)" by code_simp
  show ?thesis using override_decides [OF demo_store_ok 2 3 op] 1 4 by simp
qed

text \<open>
  A Resource name can be reused safely: a Resource registered under the name of one that
  was removed, with an empty allow list, admits no device at all. No group keeps a grant of
  the removed Resource that the new one would inherit.
\<close>

theorem reregistered_resource_admits_nobody:
  assumes ok: "registry_ok st" and rm: "remove_resource name st = (Inr True, st1)"
    and reg: "register_resource name port a st1 = (Inr r, st2)" and none: "a_allowed a = []"
  shows "allowed_ips_for_resource today r (list_devices st2) (list_groups st2) = {}"
  using reg
proof (cases rule: register_resource_inv)
  case (registered r')
  have r: "r' = r" using registered(3) by simp
  have k: "r_name r = name" "set (allowed_devices r) = {}"
    using registered(1) none unfolding registered_def r by (metis resource.select_convs set_sorted_set list.set(1))+
  have g: "list_groups st2 = list_groups st1"
    using registered(7) by (auto simp: save_resources_Inr)
  have "list_groups st1 = map (drop_service name) (list_groups st)"
    using remove_resource_lists [OF ok rm] by simp
  then have "\<not> group_grants r d (list_groups st2)" for d
    by (auto simp: group_grants_def g k)
  then show ?thesis by (auto simp: allowed_ips_iff access_spec_def k)
qed simp

definition demo_args :: resource_args where
  "demo_args = \<lparr>a_target_host = ''localhost'', a_target_port = 3000, a_allowed = [], a_icon = ''server'',
     a_description = [], a_protocol = ''http'', a_health_url = ''/health'', a_timeout = NFloat (Fin 2),
     a_unit = [], a_self_heal = False\<rparr>"

theorem reregistered_resource_admits_nobody_witness:
  "let st1 = snd (remove_resource ''db'' demo_store); op = register_resource ''db'' 9100 demo_args st1 in
   is_ok (fst op) \<and> (\<exists>r. fst op = Inr r \<and>
     allowed_ips_for_resource 739000 r (list_devices (snd op)) (list_groups (snd op)) = {})"
proof -
  let ?rm = "remove_resource ''db'' demo_store"
  let ?op = "register_resource ''db'' 9100 demo_args (snd ?rm)"
  have "fst ?rm = Inr True" by code_simp
  then have rm: "?rm = (Inr True, snd ?rm)" by (metis prod.collapse)
  have 1: "is_ok (fst ?op)" by code_simp
  then obtain r where r: "?op = (Inr r, snd ?op)" by (metis is_ok_iff prod.collapse)
  have "allowed_ips_for_resource 739000 r (list_devices (snd ?op)) (list_groups (snd ?op)) = {}"
    by (rule reregistered_resource_admits_nobody [OF demo_store_ok rm r]) (simp add: demo_args_def)
  then show ?thesis using 1 r by (metis fst_conv)
qed

section \<open>VPN addresses\<close>

lemma find_None_all: "find p xs = None \<longleftrightarrow> (\<forall>x\<in>set xs. \<not> p x)"
  by (induction xs) auto

lemma find_upt_Some:
  "find p [a..<b] = Some k \<longleftrightarrow> a \<le> k \<and> k < b \<and> p k \<and> (\<forall>j. a \<le> j \<longrightarrow> j < k \<longrightarrow> \<not> p j)"
proof (induction "b - a" arbitrary: a)
  case (Suc n)
  then have ab: "[a..<b] = a # [Suc a..<b]" "a < b" by (simp_all add: upt_conv_Cons)
  have IH: "find p [Suc a..<b] = Some k \<longleftrightarrow> Suc a \<le> k \<and> k < b \<and> p k \<and> (\<forall>j. Suc a \<le> j \<longrightarrow> j < k \<longrightarrow> \<not> p j)"
    using Suc by simp
  show ?case
  proof (cases "p a")
    case True
    then have "find p [a..<b] = Some k \<longleftrightarrow> a = k" by (simp add: ab)
    also have "\<dots> \<longleftrightarrow> a \<le> k \<and> k < b \<and> p k \<and> (\<forall>j. a \<le> j \<longrightarrow> j < k \<longrightarrow> \<not> p j)"
      using True ab(2) by (metis le_neq_implies_less le_refl not_le)
    finally show ?thesis .
  next
    case False
    have "(\<forall>j. a \<le> j \<longrightarrow> j < k \<longrightarrow> \<not> p j) \<longleftrightarrow> (\<forall>j. Suc a \<le> j \<longrightarrow> j < k \<longrightarrow> \<not> p j)"
      using False by (metis Suc_le_eq le_neq_implies_less Suc_leD)
    moreover have "p k \<Longrightarrow> a \<le> k \<longleftrightarrow> Suc a \<le> k" using False by (metis Suc_leD Suc_le_eq le_neq_implies_less)
    ultimately show ?thesis using False IH ab(1) by auto
  qed
qed simp

definition vpn_base :: nat where
  "vpn_base = 173539328"

lemma default_vpn_network: "ip_network_v4 ''10.88.0.0/24'' = Some (vpn_base, 24)"
  by code_simp

lemma default_vpn_server: "v4_str (vpn_base + 1) = ''10.88.0.1''"
  by code_simp

lemma v4_hosts_default: "v4_hosts vpn_base 24 = [vpn_base + 1..<vpn_base + 255]"
  by (simp add: v4_hosts_def add.commute)

lemma vpn_str_inject:
  assumes "a < 4294967296" "b < 4294967296" shows "v4_str a = v4_str b \<longleftrightarrow> a = b"
proof -
  have "parse_v4 (v4_str a) = Some a" "parse_v4 (v4_str b) = Some b"
    using parse_v4_str [of a] parse_v4_str [of b] assms by simp_all
  then show ?thesis by (metis option.inject)
qed

text \<open>
  Address allocation on the default network: the address returned is the lowest of
  10.88.0.2 to 10.88.0.254 no device holds, and allocation fails only when all 253 are held.
\<close>

theorem next_device_ip_lowest_free:
  "(next_device_ip ''10.88.0.0/24'' ''10.88.0.1'' st = Inr ip \<longleftrightarrow>
     (\<exists>k. 2 \<le> k \<and> k \<le> 254 \<and> ip = v4_str (vpn_base + k) \<and> ip \<notin> vpn_ip ` set (list_devices st)
        \<and> (\<forall>j. 2 \<le> j \<longrightarrow> j < k \<longrightarrow> v4_str (vpn_base + j) \<in> vpn_ip ` set (list_devices st))))
   \<and> (next_device_ip ''10.88.0.0/24'' ''10.88.0.1'' st = Inl e \<longleftrightarrow>
     e = BridgeError ''Nessun IP VPN libero.'' \<and>
     (\<forall>k. 2 \<le> k \<longrightarrow> k \<le> 254 \<longrightarrow> v4_str (vpn_base + k) \<in> vpn_ip ` set (list_devices st)))"
proof -
  let ?used = "vpn_ip ` set (list_devices st)"
  define free where "free ip = (\<not> (v4_str ip = ''10.88.0.1'' \<or> v4_str ip \<in> ?used))" for ip
  have nx: "next_device_ip ''10.88.0.0/24'' ''10.88.0.1'' st = (case find free [vpn_base + 1..<vpn_base + 255] of
      None \<Rightarrow> Inl (BridgeError ''Nessun IP VPN libero.'') | Some ip \<Rightarrow> Inr (v4_str ip))"
    unfolding next_device_ip_def default_vpn_network free_def by (simp add: v4_hosts_default)
  have srv: "\<not> free (vpn_base + 1)" unfolding free_def default_vpn_server by simp
  have fr: "free (vpn_base + k) \<longleftrightarrow> v4_str (vpn_base + k) \<notin> ?used" if "2 \<le> k" "k \<le> 254" for k
    using that vpn_str_inject [of "vpn_base + k" "vpn_base + 1"]
    unfolding free_def default_vpn_server by (simp add: vpn_base_def)
  have some: "find free [vpn_base + 1..<vpn_base + 255] = Some n \<longleftrightarrow>
      (\<exists>k. 2 \<le> k \<and> k \<le> 254 \<and> n = vpn_base + k \<and> v4_str n \<notin> ?used
         \<and> (\<forall>j. 2 \<le> j \<longrightarrow> j < k \<longrightarrow> v4_str (vpn_base + j) \<in> ?used))" (is "?l \<longleftrightarrow> ?r") for n
  proof
    assume ?l
    then have n: "vpn_base + 1 \<le> n" "n < vpn_base + 255" "free n"
        "\<And>j. vpn_base + 1 \<le> j \<Longrightarrow> j < n \<Longrightarrow> \<not> free j"
      by (auto simp: find_upt_Some)
    define k where "k = n - vpn_base"
    have k: "n = vpn_base + k" "1 \<le> k" "k \<le> 254" using n(1,2) by (auto simp: k_def)
    have k2: "2 \<le> k" using srv n(3) k(1,2) by (cases "k = 1") auto
    have "v4_str n \<notin> ?used" using fr [OF k2 k(3)] n(3) k(1) by simp
    moreover have "v4_str (vpn_base + j) \<in> ?used" if "2 \<le> j" "j < k" for j
      using fr [of j] n(4) [of "vpn_base + j"] that k by simp
    ultimately show ?r using k k2 by blast
  next
    assume ?r
    then obtain k where k: "2 \<le> k" "k \<le> 254" "n = vpn_base + k" "v4_str n \<notin> ?used"
        "\<And>j. 2 \<le> j \<Longrightarrow> j < k \<Longrightarrow> v4_str (vpn_base + j) \<in> ?used" by blast
    have "\<not> free j" if "vpn_base + 1 \<le> j" "j < n" for j
    proof -
      obtain i where i: "j = vpn_base + i" "1 \<le> i" "i < k" using \<open>vpn_base + 1 \<le> j\<close> \<open>j < n\<close> k(3)
        by (metis add_less_cancel_left le_add_diff_inverse le_add_same_cancel1 add_le_cancel_left add_leD1)
      show ?thesis
      proof (cases "i = 1")
        case False
        then have "2 \<le> i" using i(2) by simp
        then show ?thesis using fr [of i] k(2,5) i by simp
      qed (use srv i in simp)
    qed
    then show ?l using fr [OF k(1,2)] k by (simp add: find_upt_Some)
  qed
  have "next_device_ip ''10.88.0.0/24'' ''10.88.0.1'' st = Inr ip \<longleftrightarrow>
     (\<exists>k. 2 \<le> k \<and> k \<le> 254 \<and> ip = v4_str (vpn_base + k) \<and> ip \<notin> ?used
        \<and> (\<forall>j. 2 \<le> j \<longrightarrow> j < k \<longrightarrow> v4_str (vpn_base + j) \<in> ?used))"
  proof -
    have "next_device_ip ''10.88.0.0/24'' ''10.88.0.1'' st = Inr ip \<longleftrightarrow>
        (\<exists>n. find free [vpn_base + 1..<vpn_base + 255] = Some n \<and> ip = v4_str n)"
      unfolding nx by (auto split: option.splits)
    then show ?thesis unfolding some by blast
  qed
  moreover have none: "find free [vpn_base + 1..<vpn_base + 255] = None \<longleftrightarrow>
      (\<forall>k. 2 \<le> k \<longrightarrow> k \<le> 254 \<longrightarrow> v4_str (vpn_base + k) \<in> ?used)"
  proof
    assume n: "find free [vpn_base + 1..<vpn_base + 255] = None"
    show "\<forall>k. 2 \<le> k \<longrightarrow> k \<le> 254 \<longrightarrow> v4_str (vpn_base + k) \<in> ?used"
    proof (intro allI impI)
      fix k :: nat assume k: "2 \<le> k" "k \<le> 254"
      then have "\<not> free (vpn_base + k)" using n by (simp add: find_None_all)
      then show "v4_str (vpn_base + k) \<in> ?used" using fr [OF k] by simp
    qed
  next
    assume all: "\<forall>k. 2 \<le> k \<longrightarrow> k \<le> 254 \<longrightarrow> v4_str (vpn_base + k) \<in> ?used"
    have "find free [vpn_base + 1..<vpn_base + 255] \<noteq> Some n" for n
      unfolding some using all by blast
    then show "find free [vpn_base + 1..<vpn_base + 255] = None" by (metis not_Some_eq)
  qed
  moreover have "next_device_ip ''10.88.0.0/24'' ''10.88.0.1'' st = Inl e \<longleftrightarrow>
     e = BridgeError ''Nessun IP VPN libero.'' \<and>
     (\<forall>k. 2 \<le> k \<longrightarrow> k \<le> 254 \<longrightarrow> v4_str (vpn_base + k) \<in> ?used)"
    unfolding nx using none by (auto split: option.splits)
  ultimately show ?thesis by blast
qed

theorem next_device_ip_lowest_free_witness:
  "next_device_ip ''10.88.0.0/24'' ''10.88.0.1'' demo_store = Inr ''10.88.0.4''
   \<and> ''10.88.0.4'' \<notin> vpn_ip ` set (list_devices demo_store)"
proof -
  have 1: "next_device_ip ''10.88.0.0/24'' ''10.88.0.1'' demo_store = Inr ''10.88.0.4''" by code_simp
  with next_device_ip_lowest_free [of demo_store "''10.88.0.4''"] show ?thesis by blast
qed

end
