(* ===== verification/Pairing.thy ===== *)
theory Pairing
  imports Acl
begin

text \<open>
  \<open>ge360_bridge/pairing.py\<close>: one-time enrollments. An enrollment is created for a device name
  with a lifetime, stored with the HMAC of its token only, and consumed once by the device
  that presents the token; consuming it registers the device, puts it into its groups and
  marks the enrollment used. The clock, the secrets the code draws and the output of
  \<open>wg genpsk\<close> are arguments; the file lock makes each operation one step.
\<close>

definition USED_RETENTION_SECONDS :: int where "USED_RETENTION_SECONDS = 7 * 24 * 3600"
definition MIN_TTL_SECONDS :: int where "MIN_TTL_SECONDS = 60"
definition MAX_TTL_SECONDS :: int where "MAX_TTL_SECONDS = 24 * 3600"

record enrollment =
  enrollment_id :: string
  n_device_name :: string
  n_device_type :: string
  n_owner :: string
  device_expires_at :: "string option"
  n_notes :: string
  n_tags :: "string list"
  n_groups :: "string list"
  token_hash :: string
  n_created_at :: int
  n_expires_at :: int
  status :: string
  used_at :: "int option"
  expired_at :: "int option"
  n_device_id :: "string option"

record pairing_state =
  registry_of :: store
  ENROLLMENTS_FILE :: "enrollment list option"

definition token_digest :: "byte list \<Rightarrow> string \<Rightarrow> string" where
  "token_digest key tok = hexdigest (hmac_sha256 key (utf8 tok))"

section \<open>Clean-up and checks\<close>

definition or_zero :: "int option \<Rightarrow> int" where
  "or_zero v = (case v of None \<Rightarrow> 0 | Some i \<Rightarrow> i)"

definition expire_one :: "int \<Rightarrow> enrollment \<Rightarrow> enrollment" where
  "expire_one now r = (if status r = ''pending'' \<and> n_expires_at r \<le> now
     then r\<lparr>status := ''expired'', expired_at := Some now\<rparr> else r)"

definition terminal_at :: "enrollment \<Rightarrow> int" where
  \<comment> \<open>\<open>used_at or expired_at or 0\<close>\<close>
  "terminal_at r = (if or_zero (used_at r) \<noteq> 0 then or_zero (used_at r) else or_zero (expired_at r))"

definition stale :: "int \<Rightarrow> enrollment \<Rightarrow> bool" where
  "stale now r = (status r \<in> {''used'', ''expired''} \<and> terminal_at r \<noteq> 0
     \<and> USED_RETENTION_SECONDS < now - terminal_at r)"

definition cleanup_enrollments :: "enrollment list \<Rightarrow> int \<Rightarrow> enrollment list" where
  "cleanup_enrollments items now = filter (\<lambda>r. \<not> stale now r) (map (expire_one now) items)"

definition validate_ttl :: "int \<Rightarrow> int res" where
  "validate_ttl ttl = (if ttl < MIN_TTL_SECONDS \<or> MAX_TTL_SECONDS < ttl
     then Inl (BridgeError ''TTL pairing non valido: minimo 60 secondi, massimo 86400.'') else Inr ttl)"

definition is_base64_char :: "char \<Rightarrow> bool" where
  "is_base64_char c = (is_alnum c \<or> c = CHR ''+'' \<or> c = CHR ''/'')"

definition b64decode_length :: "string \<Rightarrow> nat option" where
  \<comment> \<open>the number of bytes \<open>base64.b64decode(s, validate=True)\<close> returns; \<open>None\<close> when it raises\<close>
  "b64decode_length s = (let data = takeWhile (\<lambda>c. c \<noteq> CHR ''='') s; pad = drop (length data) s;
      n = length data; q = n mod 4 in
     if \<not> list_all is_base64_char data \<or> \<not> list_all (\<lambda>c. c = CHR ''='') pad \<or> data = [] \<and> pad \<noteq> [] then None
     else if q = 0 then Some (n div 4 * 3)
     else if q = 2 \<and> length pad = 2 then Some (n div 4 * 3 + 1)
     else if q = 3 \<and> length pad = 1 then Some (n div 4 * 3 + 2)
     else None)"

definition validate_wireguard_public_key :: "string \<Rightarrow> string res" where
  "validate_wireguard_public_key value = (let key = py_strip value in
     if b64decode_length key = Some 32 then Inr key
     else Inl (BridgeError ''Public key WireGuard non valida.''))"

section \<open>The bridge environment file\<close>

definition load_bridge_env :: "string option \<Rightarrow> (string \<times> string) list" where
  \<comment> \<open>\<open>key=value\<close> lines; the newest binding of a key comes first\<close>
  "load_bridge_env file = (case file of None \<Rightarrow> []
     | Some text \<Rightarrow> foldl (\<lambda>out raw. let line = py_strip raw in
         if line = [] \<or> starts_with ''#'' line \<or> CHR ''='' \<notin> set line then out
         else (case partition_at (CHR ''='') line of (k, _, v) \<Rightarrow>
           (py_strip k, strip_by (\<lambda>c. ord_of c = 39) (strip_by (\<lambda>c. ord_of c = 34) (py_strip v))) # out))
       [] (py_splitlines text))"

definition env_get :: "(string \<times> string) list \<Rightarrow> string \<Rightarrow> string \<Rightarrow> string" where
  "env_get env k d = (case map_of env k of None \<Rightarrow> d | Some v \<Rightarrow> v)"

definition public_enrollment_url :: "(string \<times> string) list \<Rightarrow> string res" where
  "public_enrollment_url env = (let ep = env_get env ''PUBLIC_ENDPOINT'' ''CHANGE_ME:51820'' in
     case py_int (env_get env ''PAIRING_PORT'' ''8790'') of
       None \<Rightarrow> Inl (ValueError ''PAIRING_PORT'')
     | Some port \<Rightarrow>
         if starts_with ''['' ep \<and> CHR '']'' \<in> set ep
         then Inr (''https://['' @ takeWhile (\<lambda>c. c \<noteq> CHR '']'') (tl ep) @ '']:'' @ int_str port @ ''/v2/enroll'')
         else (let host = (if CHR '':'' \<in> set ep then fst (rpartition_at (CHR '':'') ep) else ep) in
           Inr (''https://'' @ host @ '':'' @ int_str port @ ''/v2/enroll'')))"

section \<open>Creating an enrollment\<close>

record enroll_args =
  q_name :: string
  q_device_type :: string
  q_owner :: string
  q_expires_at :: "string option"
  q_notes :: string
  q_tags :: "string list"
  q_groups :: "string list"
  q_ttl :: int

definition load_enrollments :: "pairing_state \<Rightarrow> enrollment list" where
  "load_enrollments ps = load_file (ENROLLMENTS_FILE ps)"

definition create_enrollment ::
  "byte list \<Rightarrow> int \<Rightarrow> string \<Rightarrow> string \<Rightarrow> enroll_args \<Rightarrow> pairing_state
     \<Rightarrow> (enrollment \<times> string) res \<times> pairing_state" where
  "create_enrollment key now tok fresh a ps =
     guard_in ps (validate_name (q_name a)) (\<lambda>name.
     guard_in ps (validate_device_type (q_device_type a)) (\<lambda>ty.
     guard_in ps (validate_expiry (q_expires_at a)) (\<lambda>ex.
     guard_in ps (normalize_tags (q_tags a)) (\<lambda>tg.
     guard_in ps (validate_ttl (q_ttl a)) (\<lambda>ttl.
     let groups = sorted_set (q_groups a);
         unknown = without groups (map g_name (list_groups (registry_of ps))) in
     guard_in ps (ensure (unknown = [])
       (BridgeError (''Gruppi sconosciuti: '' @ py_join '', '' unknown))) (\<lambda>_.
     guard_in ps (ensure (find_device name (registry_of ps) = None)
       (BridgeError (''Dispositivo gi'' @ [CHR 0xE0] @ '' presente: '' @ name))) (\<lambda>_.
     let items = cleanup_enrollments (load_enrollments ps) now in
     guard_in ps (ensure (\<not> list_ex (\<lambda>x. status x = ''pending'' \<and> n_device_name x = name) items)
       (BridgeError (''Esiste gi'' @ [CHR 0xE0] @ '' un pairing v2 attivo per: '' @ name))) (\<lambda>_.
     let record = \<lparr>enrollment_id = ''enr_'' @ fresh, n_device_name = name, n_device_type = ty,
           n_owner = take 120 (py_strip (q_owner a)), device_expires_at = ex,
           n_notes = take 1000 (py_strip (q_notes a)), n_tags = tg, n_groups = groups,
           token_hash = token_digest key tok, n_created_at = now, n_expires_at = now + ttl,
           status = ''pending'', used_at = None, expired_at = None, n_device_id = None\<rparr> in
     (Inr (record, tok), ps\<lparr>ENROLLMENTS_FILE := Some (items @ [record])\<rparr>)))))))))"

definition list_enrollments :: "int \<Rightarrow> pairing_state \<Rightarrow> enrollment list \<times> pairing_state" where
  \<comment> \<open>the listing blanks the token hash\<close>
  "list_enrollments now ps = (let items = cleanup_enrollments (load_enrollments ps) now in
     (map (\<lambda>x. x\<lparr>token_hash := []\<rparr>) items, ps\<lparr>ENROLLMENTS_FILE := Some items\<rparr>))"

section \<open>Consuming an enrollment\<close>

record consume_env =
  c_now :: int
  c_iso :: string
  c_today :: nat
  c_psk :: "string option"
  c_token :: string
  c_device_id :: string
  c_server_pub :: "string option"
  c_endpoint :: string

record enroll_response =
  o_device_id :: string
  o_device :: string
  o_vpn_ip :: string
  o_preshared_key :: string
  o_device_token :: string
  o_server_public_key :: string
  o_endpoint :: string
  o_groups :: "string list"
  o_resources :: "(string \<times> string \<times> string \<times> string \<times> int \<times> string) list"

definition resource_url :: "resource \<Rightarrow> string" where
  "resource_url r = ''http://10.88.0.1:'' @ int_str (bridge_port r)"

definition new_device :: "consume_env \<Rightarrow> enrollment \<Rightarrow> string \<Rightarrow> string \<Rightarrow> string \<Rightarrow> device" where
  "new_device env r ip key psk = \<lparr>device_id = c_device_id env, d_name = n_device_name r,
     device_type = n_device_type r, owner = n_owner r, vpn_ip = ip, public_key = key,
     preshared_key = psk, token = c_token env, created_at = c_iso env,
     expires_at = device_expires_at r, d_notes = n_notes r, tags = n_tags r, d_enabled = True\<rparr>"

definition join_groups :: "string list \<Rightarrow> string \<Rightarrow> group list \<Rightarrow> group list" where
  "join_groups names did groups = map (\<lambda>g. if g_name g \<in> set names
     then g\<lparr>device_ids := toggle True did (device_ids g)\<rparr> else g) groups"

definition enroll_device :: "consume_env \<Rightarrow> enrollment \<Rightarrow> device \<Rightarrow> store \<Rightarrow> unit res \<times> store" where
  \<comment> \<open>the device is saved, then its groups; when the groups cannot be saved the devices are put back\<close>
  "enroll_device env r d st = (let before = list_devices st; groups = list_groups st in
     guard_in st (save_devices (c_iso env) (before @ [d]) st) (\<lambda>st1.
       if n_groups r = [] then (Inr (), st1)
       else (case save_groups (join_groups (n_groups r) (device_id d) groups) st1 of
           Inr st2 \<Rightarrow> (Inr (), st2)
         | Inl e \<Rightarrow> guard_in st1 (save_devices (c_iso env) before st1) (\<lambda>st2. (Inl e, st2)))))"

definition set_record :: "string \<Rightarrow> (enrollment \<Rightarrow> enrollment) \<Rightarrow> enrollment list \<Rightarrow> enrollment list" where
  "set_record eid f items = map_first (\<lambda>x. enrollment_id x = eid) f items"

definition enroll_response_of :: "consume_env \<Rightarrow> enrollment \<Rightarrow> device \<Rightarrow> store \<Rightarrow> enroll_response res" where
  "enroll_response_of env r d st = (case c_server_pub env of
       None \<Rightarrow> Inl (BridgeError ''Chiave pubblica server mancante.'')
     | Some spk \<Rightarrow> Inr \<lparr>o_device_id = device_id d, o_device = d_name d, o_vpn_ip = vpn_ip d,
         o_preshared_key = preshared_key d, o_device_token = token d, o_server_public_key = spk,
         o_endpoint = c_endpoint env, o_groups = n_groups r,
         o_resources = map (\<lambda>x. (r_name x, icon x, r_description x, protocol x, bridge_port x, resource_url x))
           (effective_resources_for_device (c_today env) d (list_resources st) (list_groups st))\<rparr>)"

definition consume_enrollment ::
  "byte list \<Rightarrow> consume_env \<Rightarrow> string \<Rightarrow> string \<Rightarrow> string \<Rightarrow> pairing_state
     \<Rightarrow> enroll_response res \<times> pairing_state" where
  "consume_enrollment key env eid token_arg public_key_arg ps =
     guard_in ps (validate_wireguard_public_key public_key_arg) (\<lambda>pk.
     let now = c_now env;
         items = cleanup_enrollments (load_enrollments ps) now;
         saved = (\<lambda>xs. ps\<lparr>ENROLLMENTS_FILE := Some xs\<rparr>);
         st = registry_of ps in
     case find (\<lambda>x. enrollment_id x = eid) items of
       None \<Rightarrow> (Inl (BridgeError ''Pairing non valido.''), saved items)
     | Some r \<Rightarrow>
       if status r \<noteq> ''pending''
       then (Inl (BridgeError (''Pairing gi'' @ [CHR 0xE0] @ '' utilizzato, scaduto o non valido.'')), saved items)
       else guard_in ps (compare_digest (token_hash r) (token_digest key token_arg)) (\<lambda>same.
       if \<not> same then (Inl (BridgeError ''Pairing non valido.''), saved items)
       else if n_expires_at r \<le> now
       then (Inl (BridgeError ''Pairing scaduto.''),
             saved (set_record eid (\<lambda>x. x\<lparr>status := ''expired'', expired_at := Some now\<rparr>) items))
       else if find_device (n_device_name r) st \<noteq> None
       then (Inl (BridgeError (''Pairing gi'' @ [CHR 0xE0] @ '' utilizzato.'')),
             saved (set_record eid (\<lambda>x. x\<lparr>status := ''used'', used_at := Some now\<rparr>) items))
       else
       let missing = filter (\<lambda>n. n \<notin> g_name ` set (list_groups st)) (n_groups r) in
       guard_in ps (ensure (missing = [])
         (BridgeError (''Gruppo pairing non pi'' @ [CHR 0xF9] @ '' disponibile: '' @ py_join '', '' missing))) (\<lambda>_.
       guard_in ps (case c_psk env of None \<Rightarrow> Inl (BridgeError ''Impossibile generare la PSK WireGuard.'') | Some p \<Rightarrow> Inr p) (\<lambda>psk.
       guard_in ps (next_device_ip ''10.88.0.0/24'' ''10.88.0.1'' st) (\<lambda>ip.
       let d = new_device env r ip pk psk in
       case enroll_device env r d st of
         (Inl e, st') \<Rightarrow> (Inl e, ps\<lparr>registry_of := st'\<rparr>)
       | (Inr _, st') \<Rightarrow>
         (enroll_response_of env r d st',
          ps\<lparr>registry_of := st', ENROLLMENTS_FILE := Some (set_record eid
             (\<lambda>x. x\<lparr>status := ''used'', used_at := Some now, n_device_id := Some (device_id d)\<rparr>) items)\<rparr>))))))"

section \<open>Invariant of the enrollment file\<close>

definition enrollment_wf :: "enrollment \<Rightarrow> bool" where
  "enrollment_wf r = (SAFE_NAME_match (n_device_name r) \<and> n_device_type r \<in> set DEVICE_TYPES
     \<and> device_expires_at r \<noteq> Some [] \<and> sorted (n_tags r) \<and> distinct (n_tags r)
     \<and> (\<forall>t\<in>set (n_tags r). tag_normal t) \<and> is_digest (token_hash r)
     \<and> status r \<in> {''pending'', ''used'', ''expired''})"

definition pending_names :: "enrollment list \<Rightarrow> string list" where
  "pending_names items = map n_device_name (filter (\<lambda>x. status x = ''pending'') items)"

definition enrollments_ok :: "pairing_state \<Rightarrow> bool" where
  "enrollments_ok ps = (distinct (map enrollment_id (load_enrollments ps))
     \<and> (\<forall>r\<in>set (load_enrollments ps). enrollment_wf r) \<and> distinct (pending_names (load_enrollments ps)))"

lemma expire_one_keys [simp]:
  "enrollment_id (expire_one now r) = enrollment_id r" "n_device_name (expire_one now r) = n_device_name r"
  "n_groups (expire_one now r) = n_groups r" "token_hash (expire_one now r) = token_hash r"
  by (simp_all add: expire_one_def)

lemma expire_one_wf [simp]: "enrollment_wf r \<Longrightarrow> enrollment_wf (expire_one now r)"
  by (simp add: expire_one_def enrollment_wf_def)

lemma expire_one_pending: "status (expire_one now r) = ''pending'' \<longleftrightarrow> status r = ''pending'' \<and> now < n_expires_at r"
  by (auto simp: expire_one_def not_le)

lemma expire_one_pending_id: "status (expire_one now r) = ''pending'' \<Longrightarrow> expire_one now r = r"
  by (auto simp: expire_one_def)

lemma load_upd [simp]: "load_enrollments (ps\<lparr>ENROLLMENTS_FILE := Some xs\<rparr>) = xs"
  by (simp add: load_enrollments_def load_file_def)

lemma load_registry_upd [simp]: "load_enrollments (ps\<lparr>registry_of := st\<rparr>) = load_enrollments ps"
  by (simp add: load_enrollments_def)

lemma cleanup_distinct_ids:
  "distinct (map enrollment_id items) \<Longrightarrow> distinct (map enrollment_id (cleanup_enrollments items now))"
  unfolding cleanup_enrollments_def by (rule distinct_map_filter') (simp add: comp_def)

lemma cleanup_wf: "\<forall>r\<in>set items. enrollment_wf r \<Longrightarrow> r \<in> set (cleanup_enrollments items now) \<Longrightarrow> enrollment_wf r"
  by (auto simp: cleanup_enrollments_def)

lemma cleanup_pending:
  "r \<in> set (cleanup_enrollments items now) \<Longrightarrow> status r = ''pending'' \<Longrightarrow> r \<in> set items \<and> now < n_expires_at r"
proof -
  assume "r \<in> set (cleanup_enrollments items now)" and p: "status r = ''pending''"
  then obtain x where x: "x \<in> set items" "r = expire_one now x" by (auto simp: cleanup_enrollments_def)
  with p have "r = x" "now < n_expires_at x" using expire_one_pending_id expire_one_pending by auto
  then show ?thesis using x by simp
qed

lemma pending_names_cleanup: "distinct (pending_names items) \<Longrightarrow> distinct (pending_names (cleanup_enrollments items now))"
proof -
  have "set (pending_names (cleanup_enrollments items now)) \<subseteq> set (pending_names items)" for items
    by (auto simp: pending_names_def cleanup_enrollments_def expire_one_pending)
  then show "distinct (pending_names items) \<Longrightarrow> ?thesis"
  proof (induction items)
    case (Cons r items)
    from Cons.prems have "status r = ''pending'' \<longrightarrow> n_device_name r \<notin> set (pending_names items)"
      by (auto simp: pending_names_def)
    then have "status (expire_one now r) = ''pending'' \<longrightarrow>
        n_device_name r \<notin> set (pending_names (cleanup_enrollments items now))"
      using Cons.prems(2) [of items] by (auto simp: expire_one_pending)
    moreover have "distinct (pending_names (cleanup_enrollments items now))"
      using Cons by (auto simp: pending_names_def split: if_splits)
    ultimately show ?case by (auto simp: pending_names_def cleanup_enrollments_def)
  qed (simp add: pending_names_def cleanup_enrollments_def)
qed

lemma cleanup_ok:
  "enrollments_ok ps \<Longrightarrow> enrollments_ok (ps\<lparr>ENROLLMENTS_FILE := Some (cleanup_enrollments (load_enrollments ps) now)\<rparr>)"
  by (simp add: enrollments_ok_def cleanup_distinct_ids pending_names_cleanup) (meson cleanup_wf)

lemma set_record_split:
  assumes "find (\<lambda>x. enrollment_id x = eid) items = Some r"
  obtains us vs where "items = us @ r # vs" "set_record eid f items = us @ f r # vs" "enrollment_id r = eid"
  using map_first_split [OF assms, of f] by (auto simp: set_record_def)

text \<open>Closing the pending enrollment an id finds keeps the invariant.\<close>

lemma close_record_ok:
  assumes "enrollments_ok ps" and "find (\<lambda>x. enrollment_id x = eid) (load_enrollments ps) = Some r"
    and "enrollment_id (f r) = enrollment_id r" "enrollment_wf (f r)" "status (f r) \<noteq> ''pending''"
  shows "enrollments_ok (ps\<lparr>ENROLLMENTS_FILE := Some (set_record eid f (load_enrollments ps))\<rparr>)"
proof -
  obtain us vs where sp: "load_enrollments ps = us @ r # vs"
      "set_record eid f (load_enrollments ps) = us @ f r # vs"
    using set_record_split [OF assms(2)] by metis
  show ?thesis
    using assms(1,3-5) unfolding enrollments_ok_def load_upd sp(2) unfolding sp(1)
    by (auto simp: pending_names_def split: if_splits)
qed

lemma create_enrollment_inv:
  assumes "create_enrollment key now tok fresh a ps = (Inr x, ps')"
  obtains r where "x = (r, tok)" "enrollment_wf r" "enrollment_id r = ''enr_'' @ fresh"
    "n_device_name r = q_name a" "status r = ''pending''" "token_hash r = token_digest key tok"
    "n_expires_at r = now + q_ttl a" "60 \<le> q_ttl a" "q_ttl a \<le> 86400" "n_groups r = sorted_set (q_groups a)"
    "set (q_groups a) \<subseteq> g_name ` set (list_groups (registry_of ps))"
    "find_device (q_name a) (registry_of ps) = None"
    "q_name a \<notin> set (pending_names (cleanup_enrollments (load_enrollments ps) now))"
    "ps' = ps\<lparr>ENROLLMENTS_FILE := Some (cleanup_enrollments (load_enrollments ps) now @ [r])\<rparr>"
proof -
  let ?items = "cleanup_enrollments (load_enrollments ps) now"
  from assms obtain ty ex tg where
    v: "validate_device_type (q_device_type a) = Inr ty" "validate_expiry (q_expires_at a) = Inr ex"
      "normalize_tags (q_tags a) = Inr tg" and
    g: "SAFE_NAME_match (q_name a)" "validate_ttl (q_ttl a) = Inr (q_ttl a)"
      "set (sorted_set (q_groups a)) \<subseteq> set (map g_name (list_groups (registry_of ps)))"
      "find_device (q_name a) (registry_of ps) = None"
      "\<not> list_ex (\<lambda>x. status x = ''pending'' \<and> n_device_name x = q_name a) ?items" and
    x: "x = (\<lparr>enrollment_id = ''enr_'' @ fresh, n_device_name = q_name a, n_device_type = ty,
           n_owner = take 120 (py_strip (q_owner a)), device_expires_at = ex,
           n_notes = take 1000 (py_strip (q_notes a)), n_tags = tg, n_groups = sorted_set (q_groups a),
           token_hash = token_digest key tok, n_created_at = now, n_expires_at = now + q_ttl a,
           status = ''pending'', used_at = None, expired_at = None, n_device_id = None\<rparr>, tok)" and
    ps': "ps' = ps\<lparr>ENROLLMENTS_FILE := Some (?items @ [fst x])\<rparr>"
    unfolding create_enrollment_def Let_def
    by (auto simp: res_simps validate_name_Inr without_empty_iff validate_ttl_def split: if_splits)
  have 1: "ty \<in> set DEVICE_TYPES" using v(1) by (auto simp: validate_device_type_def Let_def split: if_splits)
  have 2: "ex \<noteq> Some []" using v(2) by (auto simp: validate_expiry_def split: if_splits option.splits)
  have 3: "sorted tg \<and> distinct tg \<and> (\<forall>t\<in>set tg. tag_normal t)" by (rule normalize_tags_Inr [OF v(3)])
  have "enrollment_wf (fst x)" using 1 2 3 g(1) by (simp add: enrollment_wf_def x token_digest_def)
  moreover have "q_name a \<notin> set (pending_names ?items)" using g(5) by (auto simp: pending_names_def list_ex_iff)
  ultimately show ?thesis
    using g x ps' by (intro that [of "fst x"])
      (auto simp: validate_ttl_def MIN_TTL_SECONDS_def MAX_TTL_SECONDS_def split: if_splits)
qed

lemma create_enrollment_raises: "create_enrollment key now tok fresh a ps = (Inl e, ps') \<Longrightarrow> ps' = ps"
  by (auto simp: create_enrollment_def Let_def guard_in_def split: sum.splits)

lemma create_enrollment_ok:
  assumes "enrollments_ok ps" and "create_enrollment key now tok fresh a ps = (res, ps')"
    and "''enr_'' @ fresh \<notin> enrollment_id ` set (load_enrollments ps)"
  shows "enrollments_ok ps' \<and> registry_of ps' = registry_of ps"
proof (cases res)
  case (Inl e)
  then have "ps' = ps" using assms(2) create_enrollment_raises by simp
  then show ?thesis using assms(1) by simp
next
  case (Inr x)
  let ?items = "cleanup_enrollments (load_enrollments ps) now"
  obtain r where r: "enrollment_wf r" "enrollment_id r = ''enr_'' @ fresh" "n_device_name r = q_name a"
    "q_name a \<notin> set (pending_names ?items)" "ps' = ps\<lparr>ENROLLMENTS_FILE := Some (?items @ [r])\<rparr>"
    using create_enrollment_inv [OF assms(2) [unfolded Inr]] by metis
  have "enrollment_id ` set ?items \<subseteq> enrollment_id ` set (load_enrollments ps)"
    by (force simp: cleanup_enrollments_def)
  then have "enrollment_id r \<notin> enrollment_id ` set ?items" using assms(3) r(2) by auto
  then show ?thesis
    using cleanup_ok [OF assms(1), of now] r by (auto simp: enrollments_ok_def pending_names_def)
qed

text \<open>
  The enrollment file keeps its invariant: ids stay unique, every record stays well formed
  and holds a digest, never a token, and a device name has at most one pending enrollment,
  whatever \<open>create_enrollment\<close> does with an id not yet in the file.
\<close>

theorem create_enrollment_keeps_invariant:
  assumes "enrollments_ok ps" and "create_enrollment key now tok fresh a ps = (res, ps')"
    and "''enr_'' @ fresh \<notin> enrollment_id ` set (load_enrollments ps)"
  shows "enrollments_ok ps' \<and> registry_of ps' = registry_of ps"
  by (rule create_enrollment_ok [OF assms])

section \<open>Registering the device\<close>

lemma join_groups_wf: "\<forall>g\<in>set gs. wf_group g \<Longrightarrow> did \<noteq> [] \<Longrightarrow> \<forall>g\<in>set (join_groups names did gs). wf_group g"
  by (auto simp: join_groups_def wf_group_def)

lemma join_groups_keys [simp]: "map g_name (join_groups names did gs) = map g_name gs"
  by (auto simp: join_groups_def)

lemma join_groups_mem:
  "g \<in> set (join_groups names did gs) \<Longrightarrow> \<exists>g0\<in>set gs. g_name g = g_name g0
     \<and> allowed_services g = allowed_services g0 \<and> set (device_ids g) \<subseteq> insert did (set (device_ids g0))"
proof -
  assume "g \<in> set (join_groups names did gs)"
  then obtain x where "x \<in> set gs"
      "g = (if g_name x \<in> set names then x\<lparr>device_ids := toggle True did (device_ids x)\<rparr> else x)"
    by (auto simp: join_groups_def)
  then show ?thesis by (intro bexI [of _ x]) auto
qed

lemma enroll_device_ok:
  assumes ok: "registry_ok st" and w: "wf_device d"
    and new: "device_id d \<notin> device_id ` set (list_devices st)" "d_name d \<notin> d_name ` set (list_devices st)"
      "vpn_ip d \<notin> vpn_ip ` set (list_devices st)"
  obtains st' where "enroll_device env r d st = (Inr (), st')" "registry_ok st'"
    "list_devices st' = map (renorm_device (c_iso env)) (list_devices st @ [d])"
    "list_resources st' = list_resources st"
    "list_groups st' = (if n_groups r = [] then list_groups st
       else join_groups (n_groups r) (device_id d) (list_groups st))"
proof -
  let ?ds = "list_devices st @ [d]"
  have wf: "\<forall>x\<in>set ?ds. wf_device x" using list_all_wf(1) [of st] w by simp
  have cons: "consistent ?ds (list_resources st) (list_groups st)"
    using ok new by (auto simp: registry_ok_def consistent_def)
  have "map device_id (map (renorm_device (c_iso env)) ?ds) = map device_id ?ds" using wf by simp
  then have "distinct (map device_id (map (renorm_device (c_iso env)) ?ds))"
    using cons unfolding consistent_def by presburger
  then obtain st1 where s1: "save_devices (c_iso env) ?ds st = Inr st1"
    using cons by (simp add: save_devices_Inr consistent_def)
  note l1 = save_devices_lists [OF s1]
  have ok1: "registry_ok st1"
    using save_devices_ok [OF s1 wf cons] ok by (simp add: registry_ok_def)
  show ?thesis
  proof (cases "n_groups r = []")
    case True
    then have "enroll_device env r d st = (Inr (), st1)" by (simp add: enroll_device_def s1)
    then show ?thesis using that ok1 l1 True by simp
  next
    case False
    let ?gs = "join_groups (n_groups r) (device_id d) (list_groups st)"
    have gw: "\<forall>g\<in>set ?gs. wf_group g"
      by (rule join_groups_wf [OF list_all_wf(3)]) (use w in \<open>simp add: wf_device_def\<close>)
    have ids: "device_id ` set (list_devices st1) = insert (device_id d) (device_id ` set (list_devices st))"
      using wf l1(1) by (auto simp: image_iff)
    have "SAFE_NAME_match (g_name g) \<and> set (device_ids g) \<subseteq> device_id ` set (list_devices st1)
        \<and> set (allowed_services g) \<subseteq> r_name ` set (list_resources st1)" if gin: "g \<in> set ?gs" for g
    proof -
      obtain g0 where g0: "g0 \<in> set (list_groups st)" "g_name g = g_name g0"
          "allowed_services g = allowed_services g0" "set (device_ids g) \<subseteq> insert (device_id d) (set (device_ids g0))"
        using join_groups_mem [OF gin] by blast
      then show ?thesis using ok l1(2) unfolding ids by (auto simp: registry_ok_def consistent_def)
    qed
    then obtain st2 where s2: "save_groups ?gs st1 = Inr st2"
      using ok gw by (simp add: save_groups_Inr registry_ok_def consistent_def)
    have "list_groups st2 = ?gs" using save_groups_lists(1) [OF s2] gw by (simp add: map_idI)
    moreover have "enroll_device env r d st = (Inr (), st2)"
      using False s1 s2 by (simp add: enroll_device_def Let_def)
    ultimately show ?thesis
      using that save_groups_ok [OF s2 ok1] save_groups_lists(2,3) [OF s2] l1 False by simp
  qed
qed

lemma find_device_None:
  "find_device i st = None \<longleftrightarrow> (\<forall>d\<in>set (list_devices st). device_id d \<noteq> i \<and> d_name d \<noteq> i)"
  by (auto simp: find_device_def find_None_all device_matches_def)

lemma next_device_ip_fresh:
  "next_device_ip c s st = Inr ip \<Longrightarrow> ip \<notin> vpn_ip ` set (list_devices st) \<and> ip \<noteq> s"
  by (auto simp: next_device_ip_def Let_def dest!: find_Some_iff' split: option.splits prod.splits)

lemma new_device_wf: "enrollment_wf r \<Longrightarrow> c_device_id env \<noteq> [] \<Longrightarrow> wf_device (new_device env r ip pk psk)"
  by (simp add: new_device_def wf_device_def enrollment_wf_def)

text \<open>What a consumed enrollment did, and that a refused one did nothing to the registry.\<close>

definition consumed ::
  "byte list \<Rightarrow> consume_env \<Rightarrow> string \<Rightarrow> string \<Rightarrow> string \<Rightarrow> pairing_state \<Rightarrow> pairing_state \<Rightarrow> enrollment \<Rightarrow> device \<Rightarrow> bool" where
  "consumed key env eid tok pk ps ps' r d = (r \<in> set (load_enrollments ps) \<and> enrollment_id r = eid
     \<and> status r = ''pending'' \<and> c_now env < n_expires_at r \<and> token_hash r = token_digest key tok
     \<and> d = new_device env r (vpn_ip d) (py_strip pk) (preshared_key d)
     \<and> next_device_ip ''10.88.0.0/24'' ''10.88.0.1'' (registry_of ps) = Inr (vpn_ip d)
     \<and> c_psk env = Some (preshared_key d)
     \<and> list_devices (registry_of ps') = map (renorm_device (c_iso env)) (list_devices (registry_of ps) @ [d])
     \<and> list_resources (registry_of ps') = list_resources (registry_of ps)
     \<and> list_groups (registry_of ps') = (if n_groups r = [] then list_groups (registry_of ps)
          else join_groups (n_groups r) (device_id d) (list_groups (registry_of ps)))
     \<and> registry_ok (registry_of ps')
     \<and> load_enrollments ps' = set_record eid (\<lambda>x. x\<lparr>status := ''used'', used_at := Some (c_now env),
          n_device_id := Some (device_id d)\<rparr>) (cleanup_enrollments (load_enrollments ps) (c_now env)))"

text \<open>When every check passes, the device is registered; only a missing server key can still raise.\<close>

definition grantable :: "byte list \<Rightarrow> consume_env \<Rightarrow> string \<Rightarrow> string \<Rightarrow> string \<Rightarrow> pairing_state \<Rightarrow> enrollment \<Rightarrow> bool" where
  "grantable key env eid tok pk ps r = (is_ok (validate_wireguard_public_key pk)
     \<and> find (\<lambda>x. enrollment_id x = eid) (cleanup_enrollments (load_enrollments ps) (c_now env)) = Some r
     \<and> status r = ''pending'' \<and> token_hash r = token_digest key tok
     \<and> find_device (n_device_name r) (registry_of ps) = None
     \<and> set (n_groups r) \<subseteq> g_name ` set (list_groups (registry_of ps))
     \<and> c_psk env \<noteq> None \<and> is_ok (next_device_ip ''10.88.0.0/24'' ''10.88.0.1'' (registry_of ps)))"

lemma validate_pub_Inr: "validate_wireguard_public_key pk = Inr k \<Longrightarrow> k = py_strip pk"
  by (auto simp: validate_wireguard_public_key_def Let_def split: if_splits)

lemma found_enrollment:
  assumes "enrollments_ok ps"
    and "find (\<lambda>x. enrollment_id x = eid) (cleanup_enrollments (load_enrollments ps) now) = Some r"
  shows "enrollment_wf r" "enrollment_id r = eid"
    "compare_digest (token_hash r) (token_digest key tok) = Inr (token_hash r = token_digest key tok)"
    "status r = ''pending'' \<Longrightarrow> r \<in> set (load_enrollments ps) \<and> now < n_expires_at r"
proof -
  have rin: "r \<in> set (cleanup_enrollments (load_enrollments ps) now)" "enrollment_id r = eid"
    using find_Some_iff' [OF assms(2)] by auto
  show "enrollment_wf r" using rin(1) assms(1) cleanup_wf by (auto simp: enrollments_ok_def)
  then show "compare_digest (token_hash r) (token_digest key tok) = Inr (token_hash r = token_digest key tok)"
    using digest_ascii by (simp add: compare_digest_def enrollment_wf_def token_digest_def)
  show "status r = ''pending'' \<Longrightarrow> r \<in> set (load_enrollments ps) \<and> now < n_expires_at r"
    by (rule cleanup_pending [OF rin(1)])
qed (use find_Some_iff' [OF assms(2)] in blast)

lemma consume_granted:
  assumes ok: "registry_ok (registry_of ps)" and eok: "enrollments_ok ps"
    and fresh: "c_device_id env \<noteq> []" "c_device_id env \<notin> device_id ` set (list_devices (registry_of ps))"
    and gr: "grantable key env eid tok pk ps r"
  obtains d ps' where "consumed key env eid tok pk ps ps' r d"
    "consume_enrollment key env eid tok pk ps = (enroll_response_of env r d (registry_of ps'), ps')"
proof -
  let ?st = "registry_of ps" and ?items = "cleanup_enrollments (load_enrollments ps) (c_now env)"
  note g = gr [unfolded grantable_def]
  obtain psk ip k where p: "c_psk env = Some psk" "validate_wireguard_public_key pk = Inr k"
      "next_device_ip ''10.88.0.0/24'' ''10.88.0.1'' ?st = Inr ip"
    using g by (auto simp: is_ok_iff)
  have find: "find (\<lambda>x. enrollment_id x = eid) ?items = Some r" using g by blast
  note r = found_enrollment [OF eok find]
  have live: "r \<in> set (load_enrollments ps)" "c_now env < n_expires_at r" using r(4) g by auto
  have dig: "compare_digest (token_digest key tok) (token_digest key tok) = Inr True"
    using r(3) [of key tok] g by simp
  let ?d = "new_device env r ip (py_strip pk) psk"
  have d: "device_id ?d = c_device_id env" "d_name ?d = n_device_name r" "vpn_ip ?d = ip" "preshared_key ?d = psk"
    by (simp_all add: new_device_def)
  have none: "device_id x \<noteq> n_device_name r \<and> d_name x \<noteq> n_device_name r" if "x \<in> set (list_devices ?st)" for x
    using g that by (simp add: find_device_None)
  obtain st' where st': "enroll_device env r ?d ?st = (Inr (), st')" "registry_ok st'"
      "list_devices st' = map (renorm_device (c_iso env)) (list_devices ?st @ [?d])"
      "list_resources st' = list_resources ?st"
      "list_groups st' = (if n_groups r = [] then list_groups ?st
         else join_groups (n_groups r) (device_id ?d) (list_groups ?st))"
  proof (rule enroll_device_ok [OF ok new_device_wf [OF r(1) fresh(1)], of ip "py_strip pk" psk env r])
    show "device_id ?d \<notin> device_id ` set (list_devices ?st)" using fresh(2) by (simp add: d)
    show "d_name ?d \<notin> d_name ` set (list_devices ?st)" using none unfolding d by (metis imageE)
    show "vpn_ip ?d \<notin> vpn_ip ` set (list_devices ?st)" using next_device_ip_fresh [OF p(3)] by (simp add: d)
  qed
  define ps' where "ps' = ps\<lparr>registry_of := st', ENROLLMENTS_FILE := Some (set_record eid
      (\<lambda>x. x\<lparr>status := ''used'', used_at := Some (c_now env), n_device_id := Some (device_id ?d)\<rparr>) ?items)\<rparr>"
  have miss: "filter (\<lambda>n. n \<notin> g_name ` set (list_groups ?st)) (n_groups r) = []"
    using g by (auto simp: filter_empty_conv)
  have "consume_enrollment key env eid tok pk ps = (enroll_response_of env r ?d (registry_of ps'), ps')"
    using g miss find dig live(2) p st'(1) validate_pub_Inr [OF p(2)]
    by (simp add: consume_enrollment_def Let_def ps'_def)
  moreover have "consumed key env eid tok pk ps ps' r ?d"
    using g r(2) live p st' by (auto simp: consumed_def d ps'_def)
  ultimately show ?thesis using that by blast
qed

lemma consume_cases:
  assumes ok: "registry_ok (registry_of ps)" and eok: "enrollments_ok ps"
    and fresh: "c_device_id env \<noteq> []" "c_device_id env \<notin> device_id ` set (list_devices (registry_of ps))"
    and op: "consume_enrollment key env eid tok pk ps = (res, ps')"
  obtains (refused) e where "res = Inl e" "registry_of ps' = registry_of ps" "enrollments_ok ps'"
    | (accepted) r d where "consumed key env eid tok pk ps ps' r d" "grantable key env eid tok pk ps r"
        "res = enroll_response_of env r d (registry_of ps')"
proof (cases "\<exists>r. grantable key env eid tok pk ps r")
  case True
  then obtain r where r: "grantable key env eid tok pk ps r" by blast
  from consume_granted [OF ok eok fresh r] op accepted r show ?thesis by (metis prod.inject)
next
  case no: False
  let ?st = "registry_of ps" and ?items = "cleanup_enrollments (load_enrollments ps) (c_now env)"
  have clean: "enrollments_ok (ps\<lparr>ENROLLMENTS_FILE := Some ?items\<rparr>)" by (rule cleanup_ok [OF eok])
  show ?thesis
  proof (cases "validate_wireguard_public_key pk")
    case (Inl e)
    then show ?thesis using op eok by (intro refused) (auto simp: consume_enrollment_def)
  next
    case (Inr k)
    show ?thesis
    proof (cases "find (\<lambda>x. enrollment_id x = eid) ?items")
      case None
      then show ?thesis using op Inr clean by (intro refused) (auto simp: consume_enrollment_def)
    next
      case (Some r)
      note rr = found_enrollment [OF eok Some]
      have dig: "compare_digest (token_hash r) (token_digest key tok) = Inr (token_hash r = token_digest key tok)"
        by (rule rr(3))
      show ?thesis
      proof (cases "status r = ''pending'' \<and> token_hash r = token_digest key tok")
        case False
        then show ?thesis using op Inr Some clean dig
          by (cases "status r = ''pending''"; intro refused) (auto simp: consume_enrollment_def Let_def)
      next
        case True
        have dig': "compare_digest (token_digest key tok) (token_digest key tok) = Inr True"
          and live: "\<not> n_expires_at r \<le> c_now env" using dig True rr(4) by auto
        note go = Inr Some dig' live True
        show ?thesis
        proof (cases "find_device (n_device_name r) ?st")
          case (Some x)
          let ?f = "\<lambda>x. x\<lparr>status := ''used'', used_at := Some (c_now env)\<rparr>"
          have "enrollments_ok (ps\<lparr>ENROLLMENTS_FILE := Some (set_record eid ?f ?items)\<rparr>)"
            using close_record_ok [OF clean, of eid r ?f] go(2) rr(1) by (simp add: enrollment_wf_def)
          moreover have "consume_enrollment key env eid tok pk ps =
              (Inl (BridgeError (''Pairing gi'' @ [CHR 0xE0] @ '' utilizzato.'')), ps\<lparr>ENROLLMENTS_FILE := Some (set_record eid ?f ?items)\<rparr>)"
            by (simp add: consume_enrollment_def Let_def go Some)
          ultimately show ?thesis using op by (intro refused) auto
        next
          case None
          then consider "filter (\<lambda>n. n \<notin> g_name ` set (list_groups ?st)) (n_groups r) \<noteq> []"
            | "filter (\<lambda>n. n \<notin> g_name ` set (list_groups ?st)) (n_groups r) = []" "c_psk env = None"
            | psk e where "filter (\<lambda>n. n \<notin> g_name ` set (list_groups ?st)) (n_groups r) = []" "c_psk env = Some psk"
                "next_device_ip ''10.88.0.0/24'' ''10.88.0.1'' ?st = Inl e"
            using no go
            by (cases "c_psk env"; cases "next_device_ip ''10.88.0.0/24'' ''10.88.0.1'' ?st")
               (simp_all add: grantable_def filter_empty_conv subset_iff, blast+)
          then have "\<exists>e. consume_enrollment key env eid tok pk ps = (Inl e, ps)"
            by cases (simp_all add: consume_enrollment_def Let_def go None)
          then show ?thesis using op eok refused by auto
        qed
      qed
    qed
  qed
qed

section \<open>What pairing promises\<close>

lemma enroll_response_Inr:
  "enroll_response_of env r d st = Inr o' \<Longrightarrow> o_device_id o' = device_id d \<and> o_device o' = d_name d
     \<and> o_vpn_ip o' = vpn_ip d \<and> o_preshared_key o' = preshared_key d \<and> o_device_token o' = token d
     \<and> o_groups o' = n_groups r"
  by (auto simp: enroll_response_of_def split: option.splits)

text \<open>
  C6. A successful pairing is authorised and does exactly its job: a pending, unexpired
  enrollment with that id and the digest of that token existed; afterwards the registry is
  consistent, holds one more device with the enrollment's name and the public key presented,
  on an address nobody had, enabled, a member of exactly the enrollment's groups beyond the
  memberships there were; the Resources are unchanged and the response carries the new
  device's credentials.
\<close>

theorem consume_enrollment_success:
  assumes ok: "registry_ok (registry_of ps)" and eok: "enrollments_ok ps"
    and fresh: "c_device_id env \<noteq> []" "c_device_id env \<notin> device_id ` set (list_devices (registry_of ps))"
    and op: "consume_enrollment key env eid tok pk ps = (Inr resp, ps')"
  shows "\<exists>r\<in>set (load_enrollments ps). \<exists>d.
      enrollment_id r = eid \<and> status r = ''pending'' \<and> c_now env < n_expires_at r
    \<and> token_hash r = token_digest key tok
    \<and> d_name d = n_device_name r \<and> public_key d = py_strip pk \<and> d_enabled d
    \<and> vpn_ip d \<notin> vpn_ip ` set (list_devices (registry_of ps))
    \<and> list_devices (registry_of ps') = map (renorm_device (c_iso env)) (list_devices (registry_of ps) @ [d])
    \<and> list_resources (registry_of ps') = list_resources (registry_of ps)
    \<and> (\<forall>g\<in>set (list_groups (registry_of ps')). device_id d \<in> set (device_ids g) \<longleftrightarrow> g_name g \<in> set (n_groups r))
    \<and> registry_ok (registry_of ps')
    \<and> o_device_id resp = device_id d \<and> o_vpn_ip resp = vpn_ip d \<and> o_preshared_key resp = preshared_key d
    \<and> o_device_token resp = c_token env"
  using ok eok fresh op
proof (cases rule: consume_cases)
  case (accepted r d)
  note c = accepted(1) [unfolded consumed_def]
  have d: "d = new_device env r (vpn_ip d) (py_strip pk) (preshared_key d)" using c by blast
  then have f: "device_id d = c_device_id env" "d_name d = n_device_name r" "public_key d = py_strip pk"
      "d_enabled d" "token d = c_token env"
    unfolding new_device_def by (metis device.select_convs)+
  have ip: "vpn_ip d \<notin> vpn_ip ` set (list_devices (registry_of ps))" using c next_device_ip_fresh by blast
  have old: "device_id d \<notin> set (device_ids g)" if "g \<in> set (list_groups (registry_of ps))" for g
    using that ok fresh(2) f(1) by (auto simp: registry_ok_def consistent_def)
  have "\<forall>g\<in>set (list_groups (registry_of ps')). device_id d \<in> set (device_ids g) \<longleftrightarrow> g_name g \<in> set (n_groups r)"
  proof (cases "n_groups r = []")
    case True
    then show ?thesis using c old by simp
  next
    case False
    then have "list_groups (registry_of ps') = join_groups (n_groups r) (device_id d) (list_groups (registry_of ps))"
      using c by simp
    then show ?thesis using old by (auto simp: join_groups_def)
  qed
  moreover have "o_device_id resp = device_id d \<and> o_vpn_ip resp = vpn_ip d \<and> o_preshared_key resp = preshared_key d
      \<and> o_device_token resp = token d"
    using accepted(3) enroll_response_Inr [of env r d "registry_of ps'" resp] by simp
  ultimately show ?thesis using c f ip by (intro bexI [of _ r] exI [of _ d]) simp_all
qed simp

definition demo_key :: "byte list" where "demo_key = [1, 2, 3]"

definition demo_enrollment :: enrollment where
  "demo_enrollment = \<lparr>enrollment_id = ''enr_1'', n_device_name = ''cam'', n_device_type = ''android'',
     n_owner = [], device_expires_at = None, n_notes = [], n_tags = [], n_groups = [''ops''],
     token_hash = token_digest demo_key ''secret'', n_created_at = 100, n_expires_at = 700,
     status = ''pending'', used_at = None, expired_at = None, n_device_id = None\<rparr>"

definition demo_pairing :: pairing_state where
  "demo_pairing = \<lparr>registry_of = demo_store, ENROLLMENTS_FILE = Some [demo_enrollment]\<rparr>"

definition demo_env :: consume_env where
  "demo_env = \<lparr>c_now = 200, c_iso = ''t9'', c_today = 739000, c_psk = Some ''psk'', c_token = ''app'',
     c_device_id = ''dev_9'', c_server_pub = Some ''srv'', c_endpoint = ''vpn.example:51820''\<rparr>"

definition demo_pub :: string where
  "demo_pub = replicate 43 (CHR ''A'') @ ''=''"

lemma demo_pairing_ok: "enrollments_ok demo_pairing"
proof -
  have "SAFE_NAME_match ''cam''" by code_simp
  then show ?thesis
    by (simp add: enrollments_ok_def load_enrollments_def load_file_def demo_pairing_def demo_enrollment_def
        enrollment_wf_def DEVICE_TYPES_def pending_names_def token_digest_def)
qed

lemma demo_pairing_registry: "registry_of demo_pairing = demo_store"
  by (simp add: demo_pairing_def)

lemma demo_fresh: "c_device_id demo_env \<noteq> []" "c_device_id demo_env \<notin> device_id ` set (list_devices (registry_of demo_pairing))"
  unfolding demo_pairing_registry by code_simp+

lemma demo_grantable: "grantable demo_key demo_env ''enr_1'' ''secret'' demo_pub demo_pairing demo_enrollment"
proof -
  have c: "cleanup_enrollments (load_enrollments demo_pairing) (c_now demo_env) = [demo_enrollment]"
    by (simp add: cleanup_enrollments_def load_enrollments_def load_file_def demo_pairing_def demo_enrollment_def
        demo_env_def expire_one_def stale_def)
  have 1: "is_ok (validate_wireguard_public_key demo_pub)" by code_simp
  have 2: "find_device ''cam'' demo_store = None" by code_simp
  have 3: "g_name ` set (list_groups demo_store) = {''ops''}" by code_simp
  have 4: "is_ok (next_device_ip ''10.88.0.0/24'' ''10.88.0.1'' demo_store)" by code_simp
  show ?thesis
    unfolding grantable_def c demo_pairing_registry using 1 2 3 4
    by (simp add: demo_enrollment_def demo_env_def)
qed

lemma demo_consume: "is_ok (fst (consume_enrollment demo_key demo_env ''enr_1'' ''secret'' demo_pub demo_pairing))"
proof -
  have ok: "registry_ok (registry_of demo_pairing)" using demo_store_ok by (simp add: demo_pairing_registry)
  obtain d ps' where "consume_enrollment demo_key demo_env ''enr_1'' ''secret'' demo_pub demo_pairing =
      (enroll_response_of demo_env demo_enrollment d (registry_of ps'), ps')"
    using consume_granted [OF ok demo_pairing_ok demo_fresh demo_grantable] by metis
  then show ?thesis by (simp add: enroll_response_of_def demo_env_def)
qed

theorem consume_enrollment_success_witness:
  "\<exists>resp ps'. consume_enrollment demo_key demo_env ''enr_1'' ''secret'' demo_pub demo_pairing = (Inr resp, ps')
     \<and> registry_ok (registry_of ps') \<and> length (list_devices (registry_of ps')) = 3"
proof -
  obtain resp ps' where r: "consume_enrollment demo_key demo_env ''enr_1'' ''secret'' demo_pub demo_pairing = (Inr resp, ps')"
    using demo_consume by (metis is_ok_iff prod.collapse)
  obtain d where "list_devices (registry_of ps') = map (renorm_device (c_iso demo_env)) (list_devices demo_store @ [d])"
      "registry_ok (registry_of ps')"
    using consume_enrollment_success [OF _ demo_pairing_ok demo_fresh r] demo_store_ok
    unfolding demo_pairing_registry by blast
  moreover have "length (list_devices demo_store) = 2" by code_simp
  ultimately show ?thesis using r by simp
qed

lemma find_after_close:
  assumes d: "distinct (map enrollment_id items)" and f: "find (\<lambda>x. enrollment_id x = eid) items = Some r"
    and nf: "\<And>x. enrollment_id (f x) = enrollment_id x" "status (f r) = ''used''"
    and g: "find (\<lambda>x. enrollment_id x = eid) (cleanup_enrollments (set_record eid f items) now) = Some y"
  shows "status y \<noteq> ''pending''"
proof -
  obtain us vs where sp: "items = us @ r # vs" "set_record eid f items = us @ f r # vs" "enrollment_id r = eid"
    using set_record_split [OF f] by metis
  have y: "y \<in> set (cleanup_enrollments (us @ f r # vs) now)" "enrollment_id y = eid"
    using find_Some_iff' [OF g] sp(2) by auto
  then obtain x where x: "x \<in> set (us @ f r # vs)" "y = expire_one now x"
    by (auto simp: cleanup_enrollments_def simp del: map_append list.map filter.simps filter_append)
  have "x = f r" using x y(2) d nf(1) sp(1,3) by (auto simp: image_iff)
  then show ?thesis using x(2) nf(2) by (simp add: expire_one_def)
qed





lemma cleanup_append: "cleanup_enrollments (xs @ ys) now = cleanup_enrollments xs now @ cleanup_enrollments ys now"
  by (simp add: cleanup_enrollments_def)

lemma cleanup_ids: "enrollment_id ` set (cleanup_enrollments xs now) \<subseteq> enrollment_id ` set xs"
  by (force simp: cleanup_enrollments_def)

lemma find_append_fresh: "a \<notin> k ` set xs \<Longrightarrow> find (\<lambda>x. k x = a) (xs @ ys) = find (\<lambda>x. k x = a) ys"
  by (induction xs) auto

text \<open>
  C9. An invitation can be redeemed: the id and token \<open>create_enrollment\<close> returned are
  accepted by \<open>consume_enrollment\<close> at any time before the lifetime ends, with a well-formed
  WireGuard key and while an address is free, and the device gets the name invited.
\<close>

theorem invitation_redeemable:
  assumes ok: "registry_ok (registry_of ps)" and eok: "enrollments_ok ps"
    and new: "''enr_'' @ nonce \<notin> enrollment_id ` set (load_enrollments ps)"
    and created: "create_enrollment key now tok nonce a ps = (Inr (r, tok), ps1)"
    and intime: "c_now env < now + q_ttl a"
    and fresh: "c_device_id env \<noteq> []" "c_device_id env \<notin> device_id ` set (list_devices (registry_of ps))"
    and pk: "is_ok (validate_wireguard_public_key pk)"
    and ip: "is_ok (next_device_ip ''10.88.0.0/24'' ''10.88.0.1'' (registry_of ps))"
    and host: "c_psk env \<noteq> None" "c_server_pub env \<noteq> None"
  shows "\<exists>resp ps2. consume_enrollment key env (enrollment_id r) tok pk ps1 = (Inr resp, ps2)
    \<and> o_device resp = q_name a \<and> o_groups resp = sorted_set (q_groups a)"
proof -
  let ?items = "cleanup_enrollments (load_enrollments ps) now"
  from created obtain r' where r': "(r, tok) = (r', tok)" "enrollment_wf r'" "enrollment_id r' = ''enr_'' @ nonce"
    "n_device_name r' = q_name a" "status r' = ''pending''" "token_hash r' = token_digest key tok"
    "n_expires_at r' = now + q_ttl a" "60 \<le> q_ttl a" "q_ttl a \<le> 86400" "n_groups r' = sorted_set (q_groups a)"
    "set (q_groups a) \<subseteq> g_name ` set (list_groups (registry_of ps))"
    "find_device (q_name a) (registry_of ps) = None"
    "q_name a \<notin> set (pending_names ?items)"
    "ps1 = ps\<lparr>ENROLLMENTS_FILE := Some (?items @ [r'])\<rparr>"
    by (rule create_enrollment_inv)
  then have r: "r' = r" by simp
  note r1 = r'(2-) [unfolded r]
  have ok1: "registry_ok (registry_of ps1)" using ok r1 by simp
  have eok1: "enrollments_ok ps1"
    using eok created new
  proof -
    have "enrollment_id r \<notin> enrollment_id ` set ?items" using new r1(2) cleanup_ids by (metis subsetD)
    moreover have "q_name a \<notin> set (pending_names ?items)" by (rule r1(12))
    ultimately show ?thesis
      using cleanup_ok [OF eok, of now] r1 by (auto simp: enrollments_ok_def pending_names_def)
  qed
  have "expire_one (c_now env) r = r" "\<not> stale (c_now env) r"
    using r1(4,6) intime by (auto simp: expire_one_def stale_def)
  then have "cleanup_enrollments (load_enrollments ps1) (c_now env) = cleanup_enrollments ?items (c_now env) @ [r]"
    using r1(13) by (simp add: cleanup_append) (simp add: cleanup_enrollments_def)
  moreover have "enrollment_id r \<notin> enrollment_id ` set (cleanup_enrollments ?items (c_now env))"
    using new r1(2) cleanup_ids by (metis subsetD)
  ultimately have find: "find (\<lambda>x. enrollment_id x = enrollment_id r)
      (cleanup_enrollments (load_enrollments ps1) (c_now env)) = Some r"
    by (simp add: find_append_fresh)
  have gr: "grantable key env (enrollment_id r) tok pk ps1 r"
    using find pk ip host r1 by (simp add: grantable_def)
  have fresh1: "c_device_id env \<notin> device_id ` set (list_devices (registry_of ps1))"
    using fresh(2) r1(13) by simp
  obtain d ps2 where c: "consumed key env (enrollment_id r) tok pk ps1 ps2 r d"
      "consume_enrollment key env (enrollment_id r) tok pk ps1 = (enroll_response_of env r d (registry_of ps2), ps2)"
    using consume_granted [OF ok1 eok1 fresh(1) fresh1 gr] by metis
  obtain resp where resp: "enroll_response_of env r d (registry_of ps2) = Inr resp"
    using host(2) by (auto simp: enroll_response_of_def)
  have "d_name d = n_device_name r" using c(1) unfolding consumed_def new_device_def by (metis device.select_convs(2))
  then show ?thesis using c(2) resp enroll_response_Inr [OF resp] r1(3,9) by auto
qed

definition demo_request :: enroll_args where
  "demo_request = \<lparr>q_name = ''cam'', q_device_type = ''android'', q_owner = [], q_expires_at = None,
     q_notes = [], q_tags = [''Lab''], q_groups = [''ops''], q_ttl = 600\<rparr>"

definition empty_pairing :: pairing_state where
  "empty_pairing = \<lparr>registry_of = demo_store, ENROLLMENTS_FILE = None\<rparr>"

theorem invitation_redeemable_witness:
  "\<exists>r ps1 resp ps2. create_enrollment demo_key 100 ''secret'' ''1'' demo_request empty_pairing = (Inr (r, ''secret''), ps1)
     \<and> consume_enrollment demo_key demo_env (enrollment_id r) ''secret'' demo_pub ps1 = (Inr resp, ps2)
     \<and> o_device resp = ''cam''"
proof -
  have reg: "registry_of empty_pairing = demo_store" by (simp add: empty_pairing_def)
  have v: "validate_name ''cam'' = Inr ''cam''" "validate_device_type ''android'' = Inr ''android''"
      "normalize_tags [''Lab''] = Inr [''lab'']" "without (sorted_set [''ops'']) (map g_name (list_groups demo_store)) = []"
      "find_device ''cam'' demo_store = None"
    by code_simp+
  have l: "load_enrollments empty_pairing = []" by (simp add: empty_pairing_def load_enrollments_def load_file_def)
  have "\<exists>r ps1. create_enrollment demo_key 100 ''secret'' ''1'' demo_request empty_pairing = (Inr (r, ''secret''), ps1)"
    by (simp add: create_enrollment_def demo_request_def v l reg validate_expiry_def validate_ttl_def
        MIN_TTL_SECONDS_def MAX_TTL_SECONDS_def cleanup_enrollments_def Let_def)
  then obtain r ps1 where c: "create_enrollment demo_key 100 ''secret'' ''1'' demo_request empty_pairing = (Inr (r, ''secret''), ps1)"
    by blast
  have ok: "registry_ok (registry_of empty_pairing)" using demo_store_ok by (simp add: reg)
  have eok: "enrollments_ok empty_pairing" by (simp add: enrollments_ok_def l pending_names_def)
  have n: "''enr_'' @ ''1'' \<notin> enrollment_id ` set (load_enrollments empty_pairing)" by (simp add: l)
  have t: "c_now demo_env < 100 + q_ttl demo_request" by (simp add: demo_env_def demo_request_def)
  have f: "c_device_id demo_env \<noteq> []" "c_device_id demo_env \<notin> device_id ` set (list_devices (registry_of empty_pairing))"
    unfolding reg by code_simp+
  have pk: "is_ok (validate_wireguard_public_key demo_pub)" by code_simp
  have ip: "is_ok (next_device_ip ''10.88.0.0/24'' ''10.88.0.1'' (registry_of empty_pairing))" unfolding reg by code_simp
  have h: "c_psk demo_env \<noteq> None" "c_server_pub demo_env \<noteq> None" by (simp_all add: demo_env_def)
  have q: "q_name demo_request = ''cam''" by (simp add: demo_request_def)
  obtain resp ps2 where "consume_enrollment demo_key demo_env (enrollment_id r) ''secret'' demo_pub ps1 = (Inr resp, ps2)"
      "o_device resp = q_name demo_request"
    using invitation_redeemable [OF ok eok n c t f pk ip h] by (elim exE conjE)
  then show ?thesis unfolding q using c by (intro exI conjI)
qed

text \<open>
  The response is built after the enrollment is spent: when \<open>server.pub\<close> is missing, a pairing
  that passes every check raises although the device is registered, so the device never
  receives the preshared key and the invitation cannot be used again.
\<close>

theorem missing_server_key_spends_enrollment:
  assumes "registry_ok (registry_of ps)" and "enrollments_ok ps"
    and "c_device_id env \<noteq> []" "c_device_id env \<notin> device_id ` set (list_devices (registry_of ps))"
    and "grantable key env eid tok pk ps r" and "c_server_pub env = None"
  shows "fst (consume_enrollment key env eid tok pk ps) = Inl (BridgeError ''Chiave pubblica server mancante.'')
    \<and> length (list_devices (registry_of (snd (consume_enrollment key env eid tok pk ps))))
        = Suc (length (list_devices (registry_of ps)))"
proof -
  obtain d ps' where "consumed key env eid tok pk ps ps' r d"
    "consume_enrollment key env eid tok pk ps = (enroll_response_of env r d (registry_of ps'), ps')"
    using consume_granted [OF assms(1-5)] by metis
  then show ?thesis using assms(6) by (simp add: consumed_def enroll_response_of_def)
qed

theorem missing_server_key_spends_enrollment_witness:
  "fst (consume_enrollment demo_key (demo_env\<lparr>c_server_pub := None\<rparr>) ''enr_1'' ''secret'' demo_pub demo_pairing)
     = Inl (BridgeError ''Chiave pubblica server mancante.'')"
proof -
  let ?env = "demo_env\<lparr>c_server_pub := None\<rparr>"
  have g: "grantable demo_key ?env ''enr_1'' ''secret'' demo_pub demo_pairing demo_enrollment"
    using demo_grantable by (simp add: grantable_def)
  have f: "c_device_id ?env \<noteq> []" "c_device_id ?env \<notin> device_id ` set (list_devices (registry_of demo_pairing))"
    using demo_fresh by simp_all
  have ok: "registry_ok (registry_of demo_pairing)" using demo_store_ok by (simp add: demo_pairing_registry)
  show ?thesis using missing_server_key_spends_enrollment [OF ok demo_pairing_ok f g] by simp
qed

theorem create_enrollment_keeps_invariant_witness:
  "enrollments_ok (snd (create_enrollment demo_key 100 ''secret'' ''1'' demo_request empty_pairing))"
proof -
  let ?op = "create_enrollment demo_key 100 ''secret'' ''1'' demo_request empty_pairing"
  have l: "load_enrollments empty_pairing = []" by (simp add: empty_pairing_def load_enrollments_def load_file_def)
  have e: "enrollments_ok empty_pairing" by (simp add: enrollments_ok_def l pending_names_def)
  have op: "?op = (fst ?op, snd ?op)" by simp
  have n: "''enr_'' @ ''1'' \<notin> enrollment_id ` set (load_enrollments empty_pairing)" by (simp add: l)
  from create_enrollment_keeps_invariant [OF e op n] show ?thesis by blast
qed

end
