(* ===== verification/Relay.thy ===== *)
theory Relay
  imports Registry
begin

text \<open>
  \<open>ge360_bridge/relay_server.py\<close>: the blind UDP relay. Its device registry (digests of device
  tokens), its sessions (a pair of UDP ports with the peers learned on each), the pump that
  forwards datagrams between the two ports, expiry, and the control handler. The clock, the
  random draws, which ports the system can bind and the parsed request are arguments; one
  locked operation happens at one instant. Sessions are kept in the order they were created.
\<close>

record relay_cfg =
  PUBLIC_HOST :: string
  UDP_START :: int
  UDP_END :: int
  MAX_SESSIONS :: nat
  SESSION_IDLE_SECONDS :: rat
  SESSION_MAX_SECONDS :: rat

record registry_entry =
  token_sha256 :: string
  x_enabled :: bool
  x_updated_at :: rat

type_synonym peer = "string \<times> int"

record session =
  s_id :: string
  s_device :: string
  bridge_udp :: int
  client_udp :: int
  expected_client_ip :: "string option"
  expected_bridge_ip :: "string option"
  bridge_peer :: "peer option"
  client_peer :: "peer option"
  s_created :: rat
  last_activity :: rat
  s_status :: string
  bytes_b2c :: nat
  bytes_c2b :: nat
  packets_b2c :: nat
  packets_c2b :: nat

record relay =
  relay_registry :: "(string \<times> registry_entry) list"
  sessions :: "session list"

section \<open>Device registry\<close>

definition safe_device_char :: "char \<Rightarrow> bool" where
  "safe_device_char c = (is_alnum c \<or> c \<in> {CHR ''_'', CHR ''-'', CHR ''.''})"

definition safe_device_id :: "string \<Rightarrow> string res" where
  "safe_device_id value = (let text = py_strip value in
     if text = [] \<or> 128 < length text then Inl (ValueError ''device_id non valido'')
     else if \<not> list_all safe_device_char text then Inl (ValueError ''device_id non valido'')
     else Inr text)"

definition global_or_none :: "string \<Rightarrow> string option" where
  "global_or_none value = (if value = [] then None
     else case ip_address value of
       Some (V4 a) \<Rightarrow> if is_global (V4 a) then Some (v4_str a) else None
     | _ \<Rightarrow> None)"

text \<open>An item of a sync request; \<open>None\<close> is an item that is not an object.\<close>

type_synonym sync_item = "(string \<times> string \<times> bool) option"

fun sync_loop :: "rat \<Rightarrow> sync_item list \<Rightarrow> (string \<times> registry_entry) list \<Rightarrow> (string \<times> registry_entry) list res" where
  "sync_loop now [] out = Inr out"
| "sync_loop now (item # items) out = (case item of
       None \<Rightarrow> Inl (ValueError ''registry relay non valido'')
     | Some (did, dig, en) \<Rightarrow> rbind (safe_device_id did) (\<lambda>key.
         let digest = py_lower (py_strip dig) in
         if \<not> is_digest digest then Inl (ValueError ''token_sha256 relay non valido'')
         else sync_loop now items ((key, \<lparr>token_sha256 = digest, x_enabled = en, x_updated_at = now\<rparr>)
                # filter (\<lambda>(k, _). k \<noteq> key) out)))"

definition sync_devices :: "rat \<Rightarrow> sync_item list \<Rightarrow> relay \<Rightarrow> nat res \<times> relay" where
  "sync_devices now items s = guard_in s (sync_loop now items []) (\<lambda>clean.
     (Inr (length clean), s\<lparr>relay_registry := clean\<rparr>))"

definition authenticate_device :: "string \<Rightarrow> string \<Rightarrow> relay \<Rightarrow> bool" where
  "authenticate_device did tok s = (case safe_device_id did of
       Inl _ \<Rightarrow> False
     | Inr key \<Rightarrow> (case map_of (relay_registry s) key of
         None \<Rightarrow> False
       | Some e \<Rightarrow> x_enabled e \<and> token_sha256 e = sha256_text tok))"

section \<open>Sessions\<close>

definition expired :: "relay_cfg \<Rightarrow> rat \<Rightarrow> session \<Rightarrow> bool" where
  "expired cfg now x = (SESSION_MAX_SECONDS cfg < now - s_created x
     \<or> SESSION_IDLE_SECONDS cfg < now - last_activity x \<and> s_status x = ''ACTIVE''
     \<or> 120 < now - s_created x \<and> s_status x = ''WAITING_BRIDGE'')"

definition cleanup_sessions :: "relay_cfg \<Rightarrow> rat \<Rightarrow> relay \<Rightarrow> relay" where
  "cleanup_sessions cfg now s = s\<lparr>sessions := filter (\<lambda>x. \<not> expired cfg now x) (sessions s)\<rparr>"

definition used_ports :: "relay \<Rightarrow> int list" where
  "used_ports s = concat (map (\<lambda>x. [bridge_udp x, client_udp x]) (sessions s))"

fun try_pairs :: "(int \<Rightarrow> bool) \<Rightarrow> (int \<times> int) list \<Rightarrow> (int \<times> int) option" where
  \<comment> \<open>the attempts of \<open>_bind_udp_pair\<close> in order; the predicate says which ports can be bound\<close>
  "try_pairs bindable [] = None"
| "try_pairs bindable ((a, b) # draws) =
     (if a \<noteq> b \<and> bindable a \<and> bindable b then Some (a, b) else try_pairs bindable draws)"

definition bind_udp_pair :: "relay_cfg \<Rightarrow> (int \<Rightarrow> bool) \<Rightarrow> (int \<times> int) list \<Rightarrow> (int \<times> int) res" where
  \<comment> \<open>the draws are the values of \<open>secrets.randbelow\<close>, offset by the first port of the range\<close>
  "bind_udp_pair cfg bindable draws =
     (let width = UDP_END cfg - UDP_START cfg + 1;
          attempts = nat (min 200 (max 20 width)) in
     if UDP_START cfg < 1024 \<or> 65535 < UDP_END cfg \<or> UDP_END cfg - UDP_START cfg < 3
     then Inl (RuntimeError ''Range UDP relay non valido'')
     else (case try_pairs bindable (map (\<lambda>(a, b). (UDP_START cfg + a mod width, UDP_START cfg + b mod width))
               (take attempts draws)) of
         None \<Rightarrow> Inl (RuntimeError ''Nessuna coppia di porte UDP relay disponibile'')
       | Some p \<Rightarrow> Inr p))"

definition new_session :: "string \<Rightarrow> string \<Rightarrow> int \<times> int \<Rightarrow> string option \<Rightarrow> rat \<Rightarrow> session" where
  "new_session sid did ports client now = \<lparr>s_id = sid, s_device = did, bridge_udp = fst ports,
     client_udp = snd ports, expected_client_ip = client, expected_bridge_ip = None, bridge_peer = None,
     client_peer = None, s_created = now, last_activity = now, s_status = ''WAITING_BRIDGE'',
     bytes_b2c = 0, bytes_c2b = 0, packets_b2c = 0, packets_c2b = 0\<rparr>"

record relay_env =
  v_now :: rat
  v_fresh :: string
  v_draws :: "(int \<times> int) list"
  v_bindable :: "int \<Rightarrow> bool"
  v_client_ip :: string
  v_admin_token :: string

definition create_session :: "relay_cfg \<Rightarrow> relay_env \<Rightarrow> string \<Rightarrow> relay \<Rightarrow> session res \<times> relay" where
  "create_session cfg env did s =
     (if PUBLIC_HOST cfg = [] then (Inl (RuntimeError ''GE360_RELAY_PUBLIC_HOST non configurato''), s)
      else let ip = v_client_ip env; now = v_now env;
        client = (case global_or_none ip of Some a \<Rightarrow> Some a | None \<Rightarrow> if ip = [] then None else Some ip);
        s = cleanup_sessions cfg now s in
      if MAX_SESSIONS cfg \<le> length (sessions s) then (Inl (RuntimeError (''Capacit'' @ [CHR 0xE0] @ '' relay esaurita'')), s)
      else case find (\<lambda>x. s_device x = did \<and> \<not> expired cfg now x) (sessions s) of
        Some x \<Rightarrow> (Inr x, s)
      | None \<Rightarrow> guard_in s (bind_udp_pair cfg (\<lambda>p. v_bindable env p \<and> p \<notin> set (used_ports s)) (v_draws env)) (\<lambda>ports.
          let x = new_session (''relay_'' @ v_fresh env) did ports client now in
          (Inr x, s\<lparr>sessions := sessions s @ [x]\<rparr>)))"

definition activate_bridge :: "string option \<Rightarrow> session \<Rightarrow> session" where
  "activate_bridge ip x = x\<lparr>expected_bridge_ip := ip, s_status := ''ACTIVE''\<rparr>"

section \<open>The pump\<close>

definition source_allowed :: "bool \<Rightarrow> string \<Rightarrow> session \<Rightarrow> bool" where
  \<comment> \<open>the flag is the role: true for the bridge port\<close>
  "source_allowed from_bridge ip x = (case (if from_bridge then expected_bridge_ip x else expected_client_ip x) of
       None \<Rightarrow> True | Some e \<Rightarrow> ip = e)"

definition pump :: "bool \<Rightarrow> rat \<Rightarrow> peer \<Rightarrow> string \<Rightarrow> bool \<Rightarrow> session \<Rightarrow> session \<times> (peer \<times> string) option" where
  \<comment> \<open>one datagram received on a port: the session afterwards and what was sent on the other
      port; the last flag says whether \<open>sendto\<close> works\<close>
  "pump from_bridge now src data send_ok x =
     (if \<not> source_allowed from_bridge (fst src) x then (x, None)
      else let x = x\<lparr>last_activity := now\<rparr> in
      if from_bridge
      then (let x = x\<lparr>bridge_peer := Some src\<rparr> in
        case client_peer x of
          None \<Rightarrow> (x, None)
        | Some target \<Rightarrow> if send_ok
            then (x\<lparr>bytes_b2c := bytes_b2c x + length data, packets_b2c := Suc (packets_b2c x)\<rparr>, Some (target, data))
            else (x, None))
      else (let x = x\<lparr>client_peer := Some src\<rparr> in
        case bridge_peer x of
          None \<Rightarrow> (x, None)
        | Some target \<Rightarrow> if send_ok
            then (x\<lparr>bytes_c2b := bytes_c2b x + length data, packets_c2b := Suc (packets_c2b x)\<rparr>, Some (target, data))
            else (x, None)))"

definition on_session :: "string \<Rightarrow> (session \<Rightarrow> session) \<Rightarrow> relay \<Rightarrow> relay" where
  "on_session sid f s = s\<lparr>sessions := map_first (\<lambda>x. s_id x = sid) f (sessions s)\<rparr>"

section \<open>The control handler\<close>

definition admin_authorized :: "string \<Rightarrow> string option \<Rightarrow> bool res" where
  \<comment> \<open>the stored token is stripped when it is read\<close>
  "admin_authorized stored header = (let tok = py_strip stored; value = opt_str header in
     if tok = [] then Inr False
     else if \<not> starts_with ''Bearer '' value then Inr False
     else compare_digest tok (py_strip (drop 7 value)))"

record relay_body =
  y_device_id :: string
  y_token :: string
  y_reason :: string
  y_session_id :: string
  y_devices :: "sync_item list"

datatype relay_result =
    Synced nat
  | Requests "session list"
  | SessionView session
  | StatusView "session list"

datatype response = Ok_json relay_result | Err int string | Crash py_error

definition reply :: "(relay_result res \<times> relay) \<Rightarrow> response \<times> relay" where
  \<comment> \<open>\<open>except (ValueError, RuntimeError)\<close> around the operations\<close>
  "reply p = (case p of
       (Inr r, s) \<Rightarrow> (Ok_json r, s)
     | (Inl (ValueError m), s) \<Rightarrow> (Err 400 m, s)
     | (Inl (RuntimeError m), s) \<Rightarrow> (Err 400 m, s)
     | (Inl (BridgeError m), s) \<Rightarrow> (Err 400 m, s)
     | (Inl e, s) \<Rightarrow> (Crash e, s))"

definition admin_post :: "relay_cfg \<Rightarrow> relay_env \<Rightarrow> string \<Rightarrow> relay_body \<Rightarrow> relay \<Rightarrow> response \<times> relay" where
  "admin_post cfg env path b s =
     (if path = ''/v1/admin/sync''
      then reply (case sync_devices (v_now env) (y_devices b) s of
          (Inl e, s) \<Rightarrow> (Inl e, s) | (Inr n, s) \<Rightarrow> (Inr (Synced n), s))
      else if path = ''/v1/admin/requests''
      then (let s = cleanup_sessions cfg (v_now env) s in
        (Ok_json (Requests (filter (\<lambda>x. s_status x = ''WAITING_BRIDGE'') (sessions s))), s))
      else if path = ''/v1/admin/activate''
      then (case find (\<lambda>x. s_id x = y_session_id b) (sessions s) of
          None \<Rightarrow> (Err 400 ''session_not_found'', s)
        | Some x \<Rightarrow> (let ip = (case global_or_none (v_client_ip env) of Some a \<Rightarrow> Some a | None \<Rightarrow> Some (v_client_ip env)) in
            (Ok_json (SessionView (activate_bridge ip x)), on_session (y_session_id b) (activate_bridge ip) s)))
      else (Err 404 ''not_found'', s))"

definition device_post :: "relay_cfg \<Rightarrow> relay_env \<Rightarrow> string \<Rightarrow> relay_body \<Rightarrow> relay \<Rightarrow> response \<times> relay" where
  "device_post cfg env path b s =
     (if \<not> authenticate_device (y_device_id b) (y_token b) s then (Err 401 ''unauthorized'', s)
      else if path = ''/v1/device/request''
      then (if y_reason b \<notin> {''direct_failed'', ''p2p_failed'', ''control_unreachable''}
        then (Err 400 ''fallback_reason_invalid'', s)
        else reply (case create_session cfg env (y_device_id b) s of
            (Inl e, s) \<Rightarrow> (Inl e, s) | (Inr x, s) \<Rightarrow> (Inr (SessionView x), s)))
      else (let s = cleanup_sessions cfg (v_now env) s in
        case find (\<lambda>x. s_id x = y_session_id b) (sessions s) of
          None \<Rightarrow> (Err 400 ''session_not_found'', s)
        | Some x \<Rightarrow> if s_device x \<noteq> y_device_id b then (Err 400 ''session_not_found'', s)
                    else (Ok_json (SessionView x), s)))"

definition do_POST :: "relay_cfg \<Rightarrow> relay_env \<Rightarrow> string \<Rightarrow> string option \<Rightarrow> relay_body option \<Rightarrow> relay \<Rightarrow> response \<times> relay" where
  \<comment> \<open>the body is \<open>None\<close> when its size or its JSON is refused\<close>
  "do_POST cfg env path header body s = (case body of
       None \<Rightarrow> (Err 400 ''invalid_request'', s)
     | Some b \<Rightarrow>
         if starts_with ''/v1/admin/'' path
         then (case admin_authorized (v_admin_token env) header of
             Inl e \<Rightarrow> (Crash e, s)
           | Inr False \<Rightarrow> (Err 401 ''unauthorized'', s)
           | Inr True \<Rightarrow> admin_post cfg env path b s)
         else if path \<in> {''/v1/device/request'', ''/v1/device/status''} then device_post cfg env path b s
         else (Err 404 ''not_found'', s))"

definition do_GET :: "relay_cfg \<Rightarrow> relay_env \<Rightarrow> string \<Rightarrow> string option \<Rightarrow> relay \<Rightarrow> response \<times> relay" where
  "do_GET cfg env path header s =
     (if path = ''/healthz'' then (Ok_json (Synced 0), s)
      else if path = ''/v1/admin/status''
      then (case admin_authorized (v_admin_token env) header of
          Inl e \<Rightarrow> (Crash e, s)
        | Inr False \<Rightarrow> (Err 401 ''unauthorized'', s)
        | Inr True \<Rightarrow> (let s = cleanup_sessions cfg (v_now env) s in (Ok_json (StatusView (sessions s)), s)))
      else (Err 404 ''not_found'', s))"

section \<open>The relay as a state machine\<close>

text \<open>
  One step is a control request, a datagram on a port of a live session, or the periodic
  clean-up of \<open>serve\<close>. A request that would draw a session id already in use is excluded
  (the id is 12 random bytes).
\<close>

definition on_datagram :: "string \<Rightarrow> bool \<Rightarrow> rat \<Rightarrow> peer \<Rightarrow> string \<Rightarrow> bool \<Rightarrow> relay \<Rightarrow> relay" where
  "on_datagram sid from_bridge now src data send_ok s =
     on_session sid (\<lambda>x. fst (pump from_bridge now src data send_ok x)) s"

inductive relay_step :: "relay_cfg \<Rightarrow> relay \<Rightarrow> relay \<Rightarrow> bool" for cfg where
  post: "''relay_'' @ v_fresh env \<notin> s_id ` set (sessions s) \<Longrightarrow>
     relay_step cfg s (snd (do_POST cfg env path header body s))"
| get: "relay_step cfg s (snd (do_GET cfg env path header s))"
| datagram: "relay_step cfg s (on_datagram sid from_bridge now src data send_ok s)"
| tick: "relay_step cfg s (cleanup_sessions cfg now s)"

definition relay_init :: "(string \<times> registry_entry) list \<Rightarrow> relay" where
  "relay_init reg = \<lparr>relay_registry = reg, sessions = []\<rparr>"

definition session_ok :: "relay_cfg \<Rightarrow> session \<Rightarrow> bool" where
  "session_ok cfg x = (UDP_START cfg \<le> bridge_udp x \<and> bridge_udp x \<le> UDP_END cfg
     \<and> UDP_START cfg \<le> client_udp x \<and> client_udp x \<le> UDP_END cfg
     \<and> (s_status x = ''WAITING_BRIDGE'' \<or> s_status x = ''ACTIVE'')
     \<and> (\<forall>p. client_peer x = Some p \<longrightarrow> source_allowed False (fst p) x))"

definition relay_ok :: "relay_cfg \<Rightarrow> relay \<Rightarrow> bool" where
  "relay_ok cfg s = (length (sessions s) \<le> MAX_SESSIONS cfg \<and> distinct (map s_id (sessions s))
     \<and> distinct (map s_device (sessions s)) \<and> distinct (used_ports s) \<and> (\<forall>x\<in>set (sessions s). session_ok cfg x))"

lemma pump_frame [simp]:
  "s_id (fst (pump b now src d ok x)) = s_id x" "s_device (fst (pump b now src d ok x)) = s_device x"
  "bridge_udp (fst (pump b now src d ok x)) = bridge_udp x" "client_udp (fst (pump b now src d ok x)) = client_udp x"
  "s_status (fst (pump b now src d ok x)) = s_status x"
  "expected_client_ip (fst (pump b now src d ok x)) = expected_client_ip x"
  "expected_bridge_ip (fst (pump b now src d ok x)) = expected_bridge_ip x"
  by (simp_all add: pump_def Let_def split: option.split)

lemma pump_client_peer:
  "client_peer (fst (pump b now src d ok x)) =
     (if \<not> b \<and> source_allowed False (fst src) x then Some src else client_peer x)"
  by (simp add: pump_def Let_def split: option.split)

lemma session_ok_pump: "session_ok cfg x \<Longrightarrow> session_ok cfg (fst (pump b now src d ok x))"
  by (auto simp: session_ok_def pump_client_peer source_allowed_def split: if_splits)

lemma session_ok_activate: "session_ok cfg x \<Longrightarrow> session_ok cfg (activate_bridge ip x)"
  by (auto simp: session_ok_def activate_bridge_def source_allowed_def)

lemma on_session_ok:
  assumes "relay_ok cfg s" and "\<And>x. session_ok cfg x \<Longrightarrow> session_ok cfg (f x)"
    and "\<And>x. s_id (f x) = s_id x" "\<And>x. s_device (f x) = s_device x"
      "\<And>x. bridge_udp (f x) = bridge_udp x" "\<And>x. client_udp (f x) = client_udp x"
  shows "relay_ok cfg (on_session sid f s)"
proof -
  let ?xs = "map_first (\<lambda>x. s_id x = sid) f (sessions s)"
  have "map (\<lambda>x. [bridge_udp x, client_udp x]) ?xs = map (\<lambda>x. [bridge_udp x, client_udp x]) (sessions s)"
    by (rule map_map_first) (simp add: assms)
  moreover have "map s_id ?xs = map s_id (sessions s)" "map s_device ?xs = map s_device (sessions s)"
    by (rule map_map_first; simp add: assms)+
  moreover have "length ?xs = length (sessions s)" using calculation(2) by (metis length_map)
  moreover have "\<forall>x\<in>set ?xs. session_ok cfg x"
    using assms(1,2) by (auto simp: relay_ok_def dest!: set_map_first)
  ultimately show ?thesis using assms(1) by (simp add: relay_ok_def on_session_def used_ports_def)
qed

lemma distinct_concat_filter: "distinct (concat (map f xs)) \<Longrightarrow> distinct (concat (map f (filter p xs)))"
  by (induction xs) auto

lemma cleanup_sessions_ok: "relay_ok cfg s \<Longrightarrow> relay_ok cfg (cleanup_sessions cfg now s)"
  by (auto simp: relay_ok_def cleanup_sessions_def used_ports_def distinct_map_filter' distinct_concat_filter
      intro: le_trans [OF length_filter_le])

lemma try_pairs_Some: "try_pairs q ds = Some (a, b) \<Longrightarrow> (a, b) \<in> set ds \<and> a \<noteq> b \<and> q a \<and> q b"
  by (induction q ds rule: try_pairs.induct) (auto split: if_splits)

lemma bind_udp_pair_Inr:
  assumes "bind_udp_pair cfg q ds = Inr (a, b)"
  shows "a \<noteq> b \<and> q a \<and> q b \<and> UDP_START cfg \<le> a \<and> a \<le> UDP_END cfg \<and> UDP_START cfg \<le> b \<and> b \<le> UDP_END cfg
    \<and> 1024 \<le> a \<and> a \<le> 65535"
proof -
  let ?w = "UDP_END cfg - UDP_START cfg + 1"
  have r: "1024 \<le> UDP_START cfg" "UDP_END cfg \<le> 65535" "0 < ?w"
    and p: "\<exists>ds'. try_pairs q (map (\<lambda>(a, b). (UDP_START cfg + a mod ?w, UDP_START cfg + b mod ?w)) ds') = Some (a, b)"
    using assms by (auto simp: bind_udp_pair_def Let_def split: if_splits option.splits)
  from p obtain x y where xy: "a = UDP_START cfg + x mod ?w" "b = UDP_START cfg + y mod ?w" "a \<noteq> b" "q a" "q b"
    by (auto dest!: try_pairs_Some)
  have b: "0 \<le> z mod ?w" "z mod ?w \<le> UDP_END cfg - UDP_START cfg" for z
    using pos_mod_bound [OF r(3), of z] pos_mod_sign [OF r(3), of z] by auto
  have "UDP_START cfg \<le> a" "a \<le> UDP_END cfg" "UDP_START cfg \<le> b" "b \<le> UDP_END cfg"
    using b [of x] b [of y] unfolding xy by linarith+
  then show ?thesis using r xy(3-5) by auto
qed

lemma create_session_cases:
  assumes "create_session cfg env did s = (res, s')"
  obtains (unchanged) "s' = s" "\<not> is_ok res"
    | (kept) "s' = cleanup_sessions cfg (v_now env) s"
        "\<And>x. res = Inr x \<Longrightarrow> x \<in> set (sessions s') \<and> s_device x = did \<and> \<not> expired cfg (v_now env) x"
    | (added) x s0 where "s0 = cleanup_sessions cfg (v_now env) s" "s' = s0\<lparr>sessions := sessions s0 @ [x]\<rparr>" "res = Inr x"
        "length (sessions s0) < MAX_SESSIONS cfg" "did \<notin> s_device ` set (sessions s0)"
        "s_device x = did" "s_id x = ''relay_'' @ v_fresh env" "session_ok cfg x"
        "bridge_udp x \<noteq> client_udp x" "bridge_udp x \<notin> set (used_ports s0)" "client_udp x \<notin> set (used_ports s0)"
        "s_status x = ''WAITING_BRIDGE''"
proof -
  let ?s = "cleanup_sessions cfg (v_now env) s"
  have live: "\<not> expired cfg (v_now env) x" if "x \<in> set (sessions ?s)" for x
    using that by (simp add: cleanup_sessions_def)
  show ?thesis
  proof (cases "PUBLIC_HOST cfg = []")
    case True
    with assms unchanged show ?thesis by (auto simp: create_session_def)
  next
    case host: False
    show ?thesis
    proof (cases "MAX_SESSIONS cfg \<le> length (sessions ?s)")
      case True
      with assms host have "s' = ?s" "\<not> is_ok res" by (auto simp: create_session_def Let_def)
      then show ?thesis by (intro kept) auto
    next
      case False
      show ?thesis
      proof (cases "find (\<lambda>x. s_device x = did \<and> \<not> expired cfg (v_now env) x) (sessions ?s)")
        case (Some x)
        with assms host False have "s' = ?s" "res = Inr x" by (auto simp: create_session_def Let_def)
        then show ?thesis using find_Some_iff' [OF Some] by (intro kept) auto
      next
        case None
        then have none: "did \<notin> s_device ` set (sessions ?s)" using live by (auto simp: find_None_iff)
        let ?q = "\<lambda>p. v_bindable env p \<and> p \<notin> set (used_ports ?s)"
        show ?thesis
        proof (cases "bind_udp_pair cfg ?q (v_draws env)")
          case (Inl e)
          with assms host False None have "s' = ?s" "\<not> is_ok res" by (auto simp: create_session_def Let_def)
          then show ?thesis by (intro kept) auto
        next
          case (Inr ports)
          let ?client = "case global_or_none (v_client_ip env) of Some a \<Rightarrow> Some a
            | None \<Rightarrow> if v_client_ip env = [] then None else Some (v_client_ip env)"
          define x where "x = new_session (''relay_'' @ v_fresh env) did ports ?client (v_now env)"
          have p: "fst ports \<noteq> snd ports" "?q (fst ports)" "?q (snd ports)"
              "UDP_START cfg \<le> fst ports" "fst ports \<le> UDP_END cfg" "UDP_START cfg \<le> snd ports" "snd ports \<le> UDP_END cfg"
            using bind_udp_pair_Inr [of cfg ?q "v_draws env" "fst ports" "snd ports"] Inr by simp_all
          have "s' = ?s\<lparr>sessions := sessions ?s @ [x]\<rparr>" "res = Inr x"
            using assms host False None Inr by (auto simp: create_session_def Let_def x_def)
          then show ?thesis
            using False none p by (intro added [OF refl]) (auto simp: x_def new_session_def session_ok_def)
        qed
      qed
    qed
  qed
qed

lemma create_session_ok:
  assumes "relay_ok cfg s" and "''relay_'' @ v_fresh env \<notin> s_id ` set (sessions s)"
    and "create_session cfg env did s = (res, s')"
  shows "relay_ok cfg s'"
  using assms(3)
proof (cases rule: create_session_cases)
  case (added x s0)
  have ok: "relay_ok cfg s0" using cleanup_sessions_ok [OF assms(1)] added(1) by simp
  have "set (sessions s0) \<subseteq> set (sessions s)" using added(1) by (auto simp: cleanup_sessions_def)
  then have "s_id x \<notin> s_id ` set (sessions s0)" using assms(2) added(7) by auto
  then show ?thesis using ok added by (auto simp: relay_ok_def used_ports_def)
qed (use assms(1) cleanup_sessions_ok in auto)

lemma reply_state [simp]: "snd (reply p) = snd p"
  by (auto simp: reply_def split: prod.splits sum.splits py_error.splits)

lemma relay_ok_registry [simp]: "relay_ok cfg (s\<lparr>relay_registry := r\<rparr>) = relay_ok cfg s"
  by (simp add: relay_ok_def used_ports_def)

lemma sync_devices_ok: "relay_ok cfg s \<Longrightarrow> relay_ok cfg (snd (sync_devices now items s))"
  by (auto simp: sync_devices_def guard_in_def split: sum.splits)

lemma admin_post_ok: "relay_ok cfg s \<Longrightarrow> relay_ok cfg (snd (admin_post cfg env path b s))"
proof -
  assume ok: "relay_ok cfg s"
  have act: "relay_ok cfg (on_session sid (activate_bridge ip) s)" for sid ip
    by (rule on_session_ok [OF ok session_ok_activate]) (simp_all add: activate_bridge_def)
  obtain r s1 where sy: "sync_devices (v_now env) (y_devices b) s = (r, s1)" by fastforce
  have "relay_ok cfg s1" using sync_devices_ok [OF ok, of "v_now env" "y_devices b"] sy by simp
  then show ?thesis
    using ok act cleanup_sessions_ok [OF ok] sy
    by (auto simp: admin_post_def Let_def split: option.split sum.split)
qed

lemma device_post_ok:
  assumes "relay_ok cfg s" and "''relay_'' @ v_fresh env \<notin> s_id ` set (sessions s)"
  shows "relay_ok cfg (snd (device_post cfg env path b s))"
proof -
  obtain r s1 where c: "create_session cfg env (y_device_id b) s = (r, s1)" by fastforce
  have "relay_ok cfg s1" by (rule create_session_ok [OF assms c])
  then show ?thesis
    using assms(1) cleanup_sessions_ok [OF assms(1)] c
    by (auto simp: device_post_def Let_def split: option.split sum.split)
qed

lemma relay_step_ok: "relay_step cfg s s' \<Longrightarrow> relay_ok cfg s \<Longrightarrow> relay_ok cfg s'"
proof (induction rule: relay_step.induct)
  case (post env s path header body)
  then show ?case
    using admin_post_ok [OF post.prems] device_post_ok [OF post.prems post.hyps]
    by (auto simp: do_POST_def split: option.splits sum.splits bool.splits)
next
  case (get s env path header)
  then show ?case using cleanup_sessions_ok [OF get] by (auto simp: do_GET_def Let_def split: sum.splits bool.splits)
next
  case (datagram s sid b now src d ok)
  then show ?case unfolding on_datagram_def by (rule on_session_ok) (simp_all add: session_ok_pump)
next
  case (tick s now)
  then show ?case by (rule cleanup_sessions_ok)
qed

inductive_cases relay_stepE: "relay_step cfg s s'"

text \<open>
  C22. In every state the relay can reach from an empty one, whatever requests, datagrams and
  clean-ups come in whatever order: there are at most \<open>MAX_SESSIONS\<close> sessions, their ids
  and devices are distinct, no UDP port is used twice and every port is in the configured
  range, and a session's client peer has the address the session was opened for.
\<close>

theorem relay_reachable_ok:
  assumes "(relay_step cfg)\<^sup>*\<^sup>* (relay_init reg) s"
  shows "relay_ok cfg s"
  using assms
proof (induction rule: rtranclp_induct)
  case base
  show ?case by (simp add: relay_ok_def relay_init_def used_ports_def)
next
  case (step s s')
  then show ?case using relay_step_ok by blast
qed

definition demo_cfg :: relay_cfg where
  "demo_cfg = \<lparr>PUBLIC_HOST = ''relay.example'', UDP_START = 40000, UDP_END = 40009, MAX_SESSIONS = 2,
     SESSION_IDLE_SECONDS = 90, SESSION_MAX_SECONDS = 86400\<rparr>"

definition demo_relay_env :: "rat \<Rightarrow> string \<Rightarrow> int \<Rightarrow> relay_env" where
  "demo_relay_env now fresh k = \<lparr>v_now = now, v_fresh = fresh, v_draws = [(k, k), (k, k + 1)],
     v_bindable = (\<lambda>_. True), v_client_ip = ''203.0.113.9'', v_admin_token = ''admin-token''\<rparr>"

definition demo_session :: "string \<Rightarrow> string \<Rightarrow> int \<Rightarrow> session" where
  "demo_session sid did k = new_session (''relay_'' @ sid) did (40000 + k, 40001 + k) (Some ''203.0.113.9'') 0"

definition demo_one :: relay where
  "demo_one = snd (create_session demo_cfg (demo_relay_env 0 ''a'' 0) ''dev_1'' (relay_init []))"

lemma demo_one_sessions: "sessions demo_one = [demo_session ''a'' ''dev_1'' 0]"
  by code_simp

definition known_entry :: registry_entry where
  "known_entry = \<lparr>token_sha256 = sha256_text ''t'', x_enabled = True, x_updated_at = 0\<rparr>"

definition ask_body :: relay_body where
  "ask_body = \<lparr>y_device_id = ''dev_1'', y_token = ''t'', y_reason = ''p2p_failed'', y_session_id = [], y_devices = []\<rparr>"

theorem relay_reachable_ok_witness:
  "\<exists>s. (relay_step demo_cfg)\<^sup>*\<^sup>* (relay_init [(''dev_1'', known_entry)]) s \<and> relay_ok demo_cfg s \<and> length (sessions s) = 1"
proof -
  let ?i = "relay_init [(''dev_1'', known_entry)]"
  let ?env = "demo_relay_env 0 ''a'' 0"
  let ?s = "snd (do_POST demo_cfg ?env ''/v1/device/request'' None (Some ask_body) ?i)"
  have step: "relay_step demo_cfg ?i ?s"
    by (rule relay_step.post) (simp add: relay_init_def)
  have "safe_device_id ''dev_1'' = Inr ''dev_1''" by code_simp
  then have a: "authenticate_device ''dev_1'' ''t'' ?i"
    by (simp add: authenticate_device_def relay_init_def known_entry_def)
  have "\<not> starts_with ''/v1/admin/'' ''/v1/device/request''" by code_simp
  then have "?s = snd (create_session demo_cfg ?env ''dev_1'' ?i)"
    using a by (cases "create_session demo_cfg ?env ''dev_1'' ?i")
      (auto simp: do_POST_def device_post_def ask_body_def split: sum.split)
  moreover have "length (sessions (snd (create_session demo_cfg ?env ''dev_1''
      \<lparr>relay_registry = r, sessions = []\<rparr>))) = 1" for r
    by (simp add: create_session_def cleanup_sessions_def demo_cfg_def demo_relay_env_def bind_udp_pair_def
        used_ports_def Let_def)
  ultimately have "length (sessions ?s) = 1" by (simp add: relay_init_def)
  moreover have "(relay_step demo_cfg)\<^sup>*\<^sup>* ?i ?s" using step by blast
  ultimately show ?thesis using relay_reachable_ok by blast
qed

text \<open>
  C23. What the pump sends: a datagram is forwarded unchanged, only when its source is allowed
  on the port it came in on, and only to the peer last learned on the other port; what goes
  out on the client side goes to the address the session was opened for. A refused datagram
  changes nothing, not even the idle timer.
\<close>

theorem pump_forwards_between_peers:
  assumes "session_ok cfg x" and "pump from_bridge now src data send_ok x = (x', sent)"
  shows "(\<not> source_allowed from_bridge (fst src) x \<longrightarrow> x' = x \<and> sent = None)
    \<and> (\<forall>target d. sent = Some (target, d) \<longrightarrow> d = data \<and> source_allowed from_bridge (fst src) x \<and>
         (if from_bridge then client_peer x = Some target \<and> (expected_client_ip x = None \<or> expected_client_ip x = Some (fst target))
          else bridge_peer x = Some target))"
  using assms
  by (cases "expected_client_ip x")
     (auto simp: pump_def Let_def session_ok_def source_allowed_def split: if_splits option.splits)

theorem pump_forwards_between_peers_witness:
  "snd (pump True 5 (''192.0.2.1'', 51820) ''data'' True ((demo_session ''a'' ''dev_1'' 0)\<lparr>client_peer := Some (''203.0.113.9'', 4000)\<rparr>))
     = Some ((''203.0.113.9'', 4000), ''data'')"
proof -
  let ?x = "(demo_session ''a'' ''dev_1'' 0)\<lparr>client_peer := Some (''203.0.113.9'', 4000)\<rparr>"
  have ok: "session_ok demo_cfg ?x"
    by (simp add: session_ok_def demo_session_def new_session_def demo_cfg_def source_allowed_def)
  obtain x' sent where p: "pump True 5 (''192.0.2.1'', 51820) ''data'' True ?x = (x', sent)" by fastforce
  then have "sent \<noteq> None"
    by (auto simp: pump_def source_allowed_def demo_session_def new_session_def)
  then obtain t d where s: "sent = Some (t, d)" by auto
  with pump_forwards_between_peers [OF ok p] have "d = ''data''" "client_peer ?x = Some t" by auto
  then show ?thesis using p s by simp
qed

text \<open>
  Before the bridge activates a session its bridge port accepts any source, and activation
  does not forget the peer learned before: an outsider who sends one datagram to the bridge
  port first receives the client's datagrams also after the session is activated for another
  address, until the real bridge sends.
\<close>

theorem early_bridge_peer_survives_activation:
  assumes "s_status x = ''WAITING_BRIDGE''" "expected_bridge_ip x = None"
    and "source_allowed False (fst client) x"
  shows "snd (pump False t2 client d2 True (activate_bridge (Some ip) (fst (pump True t1 outsider d1 True x))))
     = Some (outsider, d2)"
  using assms
  by (auto simp: pump_def Let_def activate_bridge_def source_allowed_def split: option.splits)

theorem early_bridge_peer_survives_activation_witness:
  "snd (pump False 2 (''203.0.113.9'', 4000) ''hi'' True (activate_bridge (Some ''192.0.2.1'')
      (fst (pump True 1 (''198.51.100.66'', 9) ''x'' True (demo_session ''a'' ''dev_1'' 0)))))
   = Some ((''198.51.100.66'', 9), ''hi'')"
  by (rule early_bridge_peer_survives_activation)
     (simp_all add: demo_session_def new_session_def source_allowed_def)

text \<open>
  A device is told that the relay is full even when it already has a live session: the
  capacity check comes before the look-up of the device's own session.
\<close>

theorem full_relay_refuses_known_device:
  assumes "PUBLIC_HOST cfg \<noteq> []" and "MAX_SESSIONS cfg \<le> length (sessions (cleanup_sessions cfg (v_now env) s))"
  shows "\<not> is_ok (fst (create_session cfg env did s))"
  using assms by (simp add: create_session_def Let_def)

theorem full_relay_refuses_known_device_witness:
  "let s = \<lparr>relay_registry = [], sessions = [demo_session ''a'' ''dev_1'' 0, demo_session ''b'' ''dev_2'' 4]\<rparr> in
   \<not> is_ok (fst (create_session demo_cfg (demo_relay_env 0 ''c'' 8) ''dev_1'' s))
   \<and> list_ex (\<lambda>x. s_device x = ''dev_1'' \<and> \<not> expired demo_cfg 0 x) (sessions s)"
proof -
  let ?s = "\<lparr>relay_registry = [], sessions = [demo_session ''a'' ''dev_1'' 0, demo_session ''b'' ''dev_2'' 4]\<rparr>"
  have 1: "PUBLIC_HOST demo_cfg \<noteq> []" by (simp add: demo_cfg_def)
  have 2: "MAX_SESSIONS demo_cfg \<le> length (sessions (cleanup_sessions demo_cfg (v_now (demo_relay_env 0 ''c'' 8)) ?s))"
    by code_simp
  have 3: "list_ex (\<lambda>x. s_device x = ''dev_1'' \<and> \<not> expired demo_cfg 0 x) (sessions ?s)" by code_simp
  show ?thesis unfolding Let_def using full_relay_refuses_known_device [OF 1 2] 3 by blast
qed

text \<open>
  One device can hold several sessions: the identifier is stripped for authentication but
  compared as sent for sessions, so padding it with blanks passes for the same device and
  opens a further session each time.
\<close>

theorem padded_id_same_device:
  "authenticate_device (did @ '' '') tok s = authenticate_device did tok s
   \<and> map s_device (sessions (snd (create_session demo_cfg (demo_relay_env 0 ''b'' 4) ''dev_1 '' demo_one))) = [''dev_1'', ''dev_1 '']"
proof -
  have "py_strip (did @ '' '') = py_strip did"
  proof -
    have sp: "py_isspace (CHR '' '')" by code_simp
    show ?thesis
    proof (cases "dropWhile py_isspace did = []")
      case True
      then have all: "\<forall>c\<in>set did. py_isspace c" by simp
      then have "dropWhile py_isspace (did @ '' '') = dropWhile py_isspace '' ''" by (simp add: dropWhile_append2)
      then have "dropWhile py_isspace (did @ '' '') = []" using sp by simp
      then show ?thesis using True unfolding py_strip_def strip_by_def by (simp only:)
    next
      case False
      then have "dropWhile py_isspace (did @ '' '') = dropWhile py_isspace did @ '' ''"
        by (metis dropWhile_append3 dropWhile_eq_Nil_conv dropWhile_append1)
      then show ?thesis using sp by (simp add: py_strip_def strip_by_def)
    qed
  qed
  moreover have "map s_device (sessions (snd (create_session demo_cfg (demo_relay_env 0 ''b'' 4) ''dev_1 '' demo_one))) = [''dev_1'', ''dev_1 '']"
    by code_simp
  ultimately show ?thesis by (simp add: authenticate_device_def safe_device_id_def)
qed

text \<open>
  The control interface changes nothing for a caller it does not accept: an admin request
  without the stored token, or a device request that does not authenticate, leaves the relay
  as it is and is answered 401; so is every path that does not exist, with 404.
\<close>

theorem unauthorized_request_changes_nothing:
  "(starts_with ''/v1/admin/'' path \<and> admin_authorized (v_admin_token env) header = Inr False \<longrightarrow>
      do_POST cfg env path header (Some b) s = (Err 401 ''unauthorized'', s))
   \<and> (path \<in> {''/v1/device/request'', ''/v1/device/status''} \<and> \<not> authenticate_device (y_device_id b) (y_token b) s \<longrightarrow>
      do_POST cfg env path header (Some b) s = (Err 401 ''unauthorized'', s))
   \<and> (\<not> starts_with ''/v1/admin/'' path \<and> path \<notin> {''/v1/device/request'', ''/v1/device/status''} \<longrightarrow>
      do_POST cfg env path header (Some b) s = (Err 404 ''not_found'', s))"
  by (auto simp: do_POST_def device_post_def starts_with_def)

theorem unauthorized_request_changes_nothing_witness:
  "do_POST demo_cfg (demo_relay_env 0 ''a'' 0) ''/v1/admin/sync'' (Some ''Bearer nope'') (Some ask_body) demo_one
     = (Err 401 ''unauthorized'', demo_one)"
proof -
  have "starts_with ''/v1/admin/'' ''/v1/admin/sync''
      \<and> admin_authorized (v_admin_token (demo_relay_env 0 ''a'' 0)) (Some ''Bearer nope'') = Inr False"
    by code_simp
  then show ?thesis using unauthorized_request_changes_nothing by blast
qed

end
