(* ===== verification/RelayClient.thy ===== *)
theory RelayClient
  imports Pairing Relay
begin

text \<open>
  \<open>ge360_bridge/relay_client.py\<close>: the bridge's side of the relay. Its configuration from
  \<open>bridge.env\<close>, the pinned HTTPS request, the registry it sends to the relay, the activation
  of a waiting session, and one round of the monitor. What the remote server does, the
  certificate it shows and the outcome of each command are arguments.
\<close>

section \<open>Configuration\<close>

record relay_settings =
  l_enabled :: bool
  l_configured :: bool
  l_url :: string
  l_fingerprint :: string

definition relay_config :: "(string \<times> string) list \<Rightarrow> bool \<Rightarrow> relay_settings" where
  \<comment> \<open>the flag: the relay token file exists\<close>
  "relay_config env token_file = (let
      enabled = (py_lower (py_strip (env_get env ''RELAY_ENABLED'' ''false'')) \<in> {''1'', ''true'', ''yes'', ''on''});
      url = rstrip_by (\<lambda>c. c = CHR ''/'') (py_strip (env_get env ''RELAY_URL'' []));
      fingerprint = py_lower (py_strip (env_get env ''RELAY_CERT_SHA256'' []))
    in \<lparr>l_enabled = enabled,
        l_configured = (enabled \<and> starts_with ''https://'' url \<and> is_digest fingerprint \<and> token_file),
        l_url = url, l_fingerprint = fingerprint\<rparr>)"

definition relay_public_config :: "relay_settings \<Rightarrow> (string \<times> string) option" where
  "relay_public_config c = (if \<not> l_configured c then None else Some (l_url c, l_fingerprint c))"

definition admin_token :: "string option \<Rightarrow> string res" where
  "admin_token file = (case file of
       None \<Rightarrow> Inl (BridgeError ''Token relay admin mancante.'')
     | Some text \<Rightarrow> (let tok = py_strip text in
         if length tok < 24 then Inl (BridgeError ''Token relay admin non valido.'') else Inr tok))"

section \<open>The pinned request\<close>

text \<open>
  The remote server: whether connecting or the exchange raises (and which exception class),
  the certificate it presents as the bytes of its DER form, the HTTP status, and the JSON
  document it answers.
\<close>

datatype 'r json_root = NotJson | NotObject | Root bool "string option" "'r option"

record 'r remote =
  z_connect_error :: "string option"
  z_cert :: "string option"
  z_exchange_error :: "string option"
  z_status :: int
  z_root :: "'r json_root"

record sent_request =
  w_path :: string
  w_authorization :: string

definition relay_request ::
  "relay_settings \<Rightarrow> string option \<Rightarrow> 'r remote \<Rightarrow> string \<Rightarrow> 'r option res \<times> sent_request option" where
  "relay_request cfg token_file z path =
     (if \<not> l_configured cfg then (Inl (BridgeError ''Relay non configurato o disabilitato.''), None)
      else guard_in None (urlsplit (l_url cfg)) (\<lambda>parsed.
      if u_scheme parsed \<noteq> ''https'' \<or> u_hostname parsed = [] then (Inl (BridgeError ''RELAY_URL deve essere HTTPS.''), None)
      else guard_in None (u_port parsed) (\<lambda>_.
      case z_connect_error z of
        Some e \<Rightarrow> (Inl (BridgeError (''Connessione relay fallita: '' @ e)), None)
      | None \<Rightarrow> (case z_cert z of
          None \<Rightarrow> (Inl (BridgeError ''Certificato TLS relay mancante.''), None)
        | Some cert \<Rightarrow>
            if cert = [] then (Inl (BridgeError ''Certificato TLS relay mancante.''), None)
            else if sha256_bytes cert \<noteq> l_fingerprint cfg
            then (Inl (BridgeError ''TLS certificate pin relay non corrisponde.''), None)
            else guard_in None (admin_token token_file) (\<lambda>tok.
              let sent = Some \<lparr>w_path = rstrip_by (\<lambda>c. c = CHR ''/'') (u_path parsed) @ path,
                               w_authorization = ''Bearer '' @ tok\<rparr> in
              case z_exchange_error z of
                Some e \<Rightarrow> (Inl (BridgeError (''Connessione relay fallita: '' @ e)), sent)
              | None \<Rightarrow> (case z_root z of
                  NotJson \<Rightarrow> (Inl (BridgeError ''Risposta relay non JSON valida.''), sent)
                | NotObject \<Rightarrow> (Inl AttributeError, sent)
                | Root ok err r \<Rightarrow>
                    if z_status z < 200 \<or> 300 \<le> z_status z \<or> \<not> ok
                    then (Inl (BridgeError (str_or (opt_str err) (''Relay HTTP '' @ int_str (z_status z)))), sent)
                    else (Inr r, sent)))))))"

section \<open>The registry sent to the relay\<close>

definition device_sync_payload :: "nat \<Rightarrow> device list \<Rightarrow> sync_item list" where
  "device_sync_payload today devices =
     map (\<lambda>d. Some (device_id d, sha256_text (token d), device_is_active today d))
       (filter (\<lambda>d. token d \<noteq> []) devices)"

section \<open>Activating a session\<close>

record relay_ask =
  k_session_id :: string
  k_device_id :: string
  k_bridge_endpoint :: string
  k_client_endpoint :: string

record activation =
  act_session_id :: string
  act_device_id :: string
  act_device_name :: string
  act_bridge_endpoint :: string
  act_client_endpoint :: string
  act_status :: string

definition relay_audit :: "string \<Rightarrow> string \<Rightarrow> device option \<Rightarrow> string \<Rightarrow> string option \<Rightarrow> audit_db \<Rightarrow> audit_db" where
  "relay_audit now event d res err db = audit_quietly now event
     (no_args\<lparr>e_device_id := map_option device_id d, e_device_name := map_option d_name d,
       e_action := Some ''relay_fallback'', e_result := Some res, e_error := err\<rparr>) db"

record act_env =
  f_today :: nat
  f_now :: string
  f_set_rc :: int
  f_remote_status :: "string option res"

definition activate_request ::
  "act_env \<Rightarrow> store \<Rightarrow> relay_ask \<Rightarrow> audit_db \<Rightarrow> activation res \<times> string list list \<times> audit_db" where
  \<comment> \<open>the commands issued and the audit table afterwards; \<open>f_remote_status\<close> is the answer to the activation\<close>
  "activate_request env st q db = (let fail = (\<lambda>m cmds. (Inl (BridgeError m), cmds, db)) in
     if k_session_id q = [] \<or> k_device_id q = [] \<or> k_bridge_endpoint q = [] then fail ''Richiesta relay incompleta.'' []
     else case find_device (k_device_id q) st of
       None \<Rightarrow> fail ''Device relay non trovato o disabilitato.'' []
     | Some d \<Rightarrow>
       if \<not> device_is_active (f_today env) d then fail ''Device relay non trovato o disabilitato.'' []
       else if public_key d = [] then fail ''Public key WireGuard device mancante.'' []
       else (let set_cmd = [''wg'', ''set'', ''wg0'', ''peer'', public_key d, ''endpoint'', k_bridge_endpoint q,
               ''persistent-keepalive'', ''25'']; ping = [''ping'', ''-c'', ''1'', ''-W'', ''1'', vpn_ip d] in
         if f_set_rc env \<noteq> 0 then fail ''Impossibile impostare endpoint relay WireGuard runtime.'' [set_cmd]
         else (case f_remote_status env of
             Inl e \<Rightarrow> (Inl e, [set_cmd, ping], db)
           | Inr answer \<Rightarrow> (let now_status = (case answer of None \<Rightarrow> ''ACTIVE'' | Some x \<Rightarrow> x) in
               (Inr \<lparr>act_session_id = k_session_id q, act_device_id = k_device_id q, act_device_name = d_name d,
                  act_bridge_endpoint = k_bridge_endpoint q, act_client_endpoint = k_client_endpoint q,
                  act_status = now_status\<rparr>,
                [set_cmd, ping], relay_audit (f_now env) ''RELAY_ACTIVE'' (Some d) now_status None db)))))"

section \<open>One round of the monitor\<close>

fun error_text :: "py_error \<Rightarrow> string" where
  "error_text (BridgeError m) = m"
| "error_text (ValueError m) = m"
| "error_text (RuntimeError m) = m"
| "error_text (OSError m) = m"
| "error_text (DiagnosticError m) = m"
| "error_text TypeError = ''TypeError''"
| "error_text AttributeError = ''AttributeError''"
| "error_text OverflowError = ''OverflowError''"
| "error_text (OtherError m) = m"

text \<open>The sessions reported: the relay's own list, or this round's activations when it gives none.\<close>

datatype 'r reported = FromRelay "'r list" | FromHere "activation list"

record 'r monitor_result =
  mo_configured :: bool
  mo_synced :: nat
  mo_active :: "'r reported"
  mo_errors :: "(string \<times> string \<times> string) list"

fun activate_all ::
  "(relay_ask \<Rightarrow> act_env) \<Rightarrow> store \<Rightarrow> relay_ask list \<Rightarrow> audit_db
     \<Rightarrow> activation list \<times> (string \<times> string \<times> string) list \<times> audit_db" where
  "activate_all env st [] db = ([], [], db)"
| "activate_all env st (q # qs) db = (case activate_request (env q) st q db of
      (Inr a, _, db) \<Rightarrow> (case activate_all env st qs db of (act, errs, db) \<Rightarrow> (a # act, errs, db))
    | (Inl e, _, db) \<Rightarrow> (let msg = take 300 (error_text e);
          db = relay_audit (f_now (env q)) ''RELAY_FAILED'' (find_device (k_device_id q) st) ''ERROR'' (Some msg) db in
        case activate_all env st qs db of (act, errs, db) \<Rightarrow> (act, (k_session_id q, k_device_id q, msg) # errs, db)))"

definition monitor_once ::
  "relay_settings \<Rightarrow> nat res \<Rightarrow> relay_ask list res \<Rightarrow> (relay_ask \<Rightarrow> act_env) \<Rightarrow> 'r list option res \<Rightarrow> store \<Rightarrow> audit_db
     \<Rightarrow> 'r monitor_result res \<times> audit_db" where
  \<comment> \<open>the answers to the sync, to the request list and to the status request are arguments\<close>
  "monitor_once cfg synced requests env remote st db =
     (if \<not> l_configured cfg
      then (Inr \<lparr>mo_configured = False, mo_synced = 0, mo_active = FromRelay [], mo_errors = []\<rparr>, db)
      else guard_in db synced (\<lambda>n. guard_in db requests (\<lambda>qs.
        case activate_all env st qs db of (act, errs, db) \<Rightarrow>
        (Inr \<lparr>mo_configured = True, mo_synced = n,
           mo_active = (case remote of Inl _ \<Rightarrow> FromHere act | Inr None \<Rightarrow> FromRelay [] | Inr (Some xs) \<Rightarrow> FromRelay xs),
           mo_errors = errs @ (case remote of Inr _ \<Rightarrow> []
             | Inl e \<Rightarrow> [([], [], ''remote_status: '' @ take 250 (error_text e))])\<rparr>, db))))"

section \<open>What the relay client promises\<close>

text \<open>
  C24. The admin token only leaves the bridge over a pinned connection: whenever a request was
  sent, with its Authorization header, the relay was configured and the server had presented
  a certificate whose SHA-256 is the configured fingerprint.
\<close>

theorem token_sent_only_to_pinned_server:
  assumes "relay_request cfg token_file z path = (res, Some q)"
  shows "l_configured cfg \<and> (\<exists>cert. z_cert z = Some cert \<and> sha256_bytes cert = l_fingerprint cfg)
    \<and> (\<exists>tok. admin_token token_file = Inr tok \<and> w_authorization q = ''Bearer '' @ tok)"
  using assms
  by (auto simp: relay_request_def guard_in_def Let_def split: if_splits sum.splits option.splits json_root.splits)

definition pinned_settings :: relay_settings where
  "pinned_settings = \<lparr>l_enabled = True, l_configured = True, l_url = ''https://relay.example:8792'',
     l_fingerprint = sha256_bytes ''cert''\<rparr>"

definition pinned_remote :: "nat remote" where
  "pinned_remote = \<lparr>z_connect_error = None, z_cert = Some ''cert'', z_exchange_error = None, z_status = 200,
     z_root = Root True None (Some 1)\<rparr>"

theorem token_sent_only_to_pinned_server_witness:
  "\<exists>q. relay_request pinned_settings (Some ''0123456789abcdef01234567'') pinned_remote ''/v1/admin/sync'' = (Inr (Some 1), Some q)
     \<and> w_authorization q = ''Bearer 0123456789abcdef01234567''"
proof -
  have u: "\<exists>p. urlsplit ''https://relay.example:8792'' = Inr p \<and> u_scheme p = ''https'' \<and> u_hostname p \<noteq> [] \<and> is_ok (u_port p)"
    by (rule exI [of _ "case urlsplit ''https://relay.example:8792'' of Inr p \<Rightarrow> p"]) code_simp
  have t: "admin_token (Some ''0123456789abcdef01234567'') = Inr ''0123456789abcdef01234567''" by code_simp
  from u t obtain q where q: "relay_request pinned_settings (Some ''0123456789abcdef01234567'') pinned_remote ''/v1/admin/sync'' = (Inr (Some 1), Some q)"
    by (auto simp: relay_request_def pinned_settings_def pinned_remote_def Let_def is_ok_iff)
  with token_sent_only_to_pinned_server [OF q] t show ?thesis by auto
qed

lemma sync_loop_map:
  assumes "\<forall>(k, dig, en)\<in>set items. safe_device_id k = Inr k \<and> is_digest dig" and "distinct (map fst items)"
  shows "\<exists>out'. sync_loop now (map Some items) out = Inr out' \<and> (\<forall>k. map_of out' k =
     (case map_of items k of None \<Rightarrow> map_of out k
      | Some (dig, en) \<Rightarrow> Some \<lparr>token_sha256 = dig, x_enabled = en, x_updated_at = now\<rparr>))"
  using assms
proof (induction items arbitrary: out)
  case (Cons it items)
  obtain k dig en where it: "it = (k, dig, en)" by (cases it)
  let ?e = "\<lparr>token_sha256 = dig, x_enabled = en, x_updated_at = now\<rparr>"
  let ?out = "(k, ?e) # filter (\<lambda>(j, _). j \<noteq> k) out"
  have c: "sync_loop now (map Some (it # items)) out = sync_loop now (map Some items) ?out"
    using Cons.prems(1) by (simp add: it digest_normal)
  have m: "map_of (filter (\<lambda>(j, _). j \<noteq> k) out) j = map_of out j" if "j \<noteq> k" for j
    using that by (induction out) auto
  obtain out' where o': "sync_loop now (map Some items) ?out = Inr out'" "\<forall>j. map_of out' j =
     (case map_of items j of None \<Rightarrow> map_of ?out j
      | Some (dig, en) \<Rightarrow> Some \<lparr>token_sha256 = dig, x_enabled = en, x_updated_at = now\<rparr>)"
    using Cons.IH [of ?out] Cons.prems by auto
  have "k \<notin> fst ` set items" using Cons.prems(2) it by simp
  then have "map_of items k = None" by (simp add: map_of_eq_None_iff)
  then have "map_of out' j = (case map_of (it # items) j of None \<Rightarrow> map_of out j
      | Some (dig, en) \<Rightarrow> Some \<lparr>token_sha256 = dig, x_enabled = en, x_updated_at = now\<rparr>)" for j
    using o'(2) m it by (simp split: option.split)
  then show ?case using c o'(1) by auto
qed simp



text \<open>A request that can be activated, whatever the audit table holds.\<close>

definition activates :: "(relay_ask \<Rightarrow> act_env) \<Rightarrow> store \<Rightarrow> relay_ask \<Rightarrow> bool" where
  "activates env st q = is_ok (fst (activate_request (env q) st q []))"

lemma activate_request_audit:
  assumes "activate_request (env q) st q db = (r, cmds, db')"
  shows "is_ok r = activates env st q"
    and "is_ok r \<Longrightarrow> \<exists>row. db' = db @ [row] \<and> a_event row = ''RELAY_ACTIVE''"
    and "\<not> is_ok r \<Longrightarrow> db' = db"
  using assms
  by (auto simp: activates_def activate_request_def Let_def relay_audit_def audit_quietly_def write_event_def
      ALLOWED_EVENTS_def is_ok_def split: if_splits option.splits sum.splits)

lemma relay_failed_row: "\<exists>row. relay_audit now ''RELAY_FAILED'' d res err db = db @ [row] \<and> a_event row = ''RELAY_FAILED''"
  by (simp add: relay_audit_def audit_quietly_def write_event_def ALLOWED_EVENTS_def)

lemma activate_all_accounts:
  "activate_all env st qs db = (act, errs, db') \<Longrightarrow>
     map act_session_id act = map k_session_id (filter (activates env st) qs)
     \<and> map fst errs = map k_session_id (filter (\<lambda>q. \<not> activates env st q) qs)
     \<and> (\<exists>rows. db' = db @ rows
          \<and> map a_event rows = map (\<lambda>q. if activates env st q then ''RELAY_ACTIVE'' else ''RELAY_FAILED'') qs)"
proof (induction qs arbitrary: act errs db db')
  case (Cons q qs)
  obtain a c db1 where aq: "activate_request (env q) st q db = (a, c, db1)" by (cases "activate_request (env q) st q db")
  note au = activate_request_audit [where env = env and q = q, OF aq]
  show ?case
  proof (cases a)
    case (Inl e)
    let ?msg = "take 300 (error_text e)"
    obtain row where row: "relay_audit (f_now (env q)) ''RELAY_FAILED'' (find_device (k_device_id q) st) ''ERROR'' (Some ?msg) db1
        = db1 @ [row]" "a_event row = ''RELAY_FAILED''" using relay_failed_row by blast
    obtain act1 errs1 db2 where rest: "activate_all env st qs (db1 @ [row]) = (act1, errs1, db2)"
      by (cases "activate_all env st qs (db1 @ [row])")
    from Cons.IH [OF rest] show ?thesis
      using Cons.prems aq Inl row rest au by (auto simp: Let_def is_ok_def)
  next
    case (Inr v)
    then have v: "act_session_id v = k_session_id q"
      using aq by (auto simp: activate_request_def Let_def split: if_splits option.splits sum.splits)
    obtain row where row: "db1 = db @ [row]" "a_event row = ''RELAY_ACTIVE''" using au(2) Inr by (auto simp: is_ok_def)
    obtain act1 errs1 db2 where rest: "activate_all env st qs db1 = (act1, errs1, db2)"
      by (cases "activate_all env st qs db1")
    from Cons.IH [OF rest] show ?thesis using Cons.prems aq Inr row rest au(1) v by (auto simp: is_ok_def)
  qed
qed simp


definition demo_ask :: relay_ask where
  "demo_ask = \<lparr>k_session_id = ''relay_a'', k_device_id = ''dev_1'', k_bridge_endpoint = ''relay.example:40000'',
     k_client_endpoint = ''relay.example:40001''\<rparr>"

definition demo_act_env :: act_env where
  "demo_act_env = \<lparr>f_today = 739000, f_now = ''t'', f_set_rc = 0, f_remote_status = Inr (Some ''ACTIVE'')\<rparr>"


end
