(* ===== verification/P2P.thy ===== *)
theory P2P
  imports Pairing Window
begin

text \<open>
  \<open>ge360_bridge/p2p.py\<close>: the coordinator of direct NAT traversal. A device announces the
  address it was seen at, the bridge keeps a short-lived session, and an attempt points the
  device's WireGuard peer at that address, waits for a handshake and puts the previous
  endpoint back when there is none. The commands' answers, the clock, the random identifier
  and the machine's IPv6 addresses are arguments; the commands issued so far are part of the
  state.
\<close>

definition SESSION_TTL_SECONDS :: rat where "SESSION_TTL_SECONDS = 90"
definition PUNCH_ATTEMPTS :: nat where "PUNCH_ATTEMPTS = 5"
definition RATE_WINDOW_SECONDS :: rat where "RATE_WINDOW_SECONDS = 60"
definition RATE_LIMIT_PER_DEVICE :: nat where "RATE_LIMIT_PER_DEVICE = 6"

section \<open>Candidates\<close>

record peer_candidate =
  pc_ip :: string
  pc_port :: int
  pc_local_port :: "int option"
  pc_source :: string

definition endpoint_text :: "ip \<Rightarrow> int \<Rightarrow> string" where
  "endpoint_text a port = (if is_v4 a then ip_str a @ '':'' @ int_str port
     else ''['' @ ip_str a @ '']:'' @ int_str port)"

definition pc_endpoint :: "peer_candidate \<Rightarrow> string" where
  \<comment> \<open>the \<open>endpoint\<close> property; the address of a candidate was printed by \<open>ip_str\<close>\<close>
  "pc_endpoint c = (case ip_address (pc_ip c) of None \<Rightarrow> [] | Some a \<Rightarrow> endpoint_text a (pc_port c))"

definition valid_port :: "int \<Rightarrow> bool" where
  "valid_port p = (1 \<le> p \<and> p \<le> 65535)"

definition validate_candidate :: "string \<Rightarrow> int \<Rightarrow> int option \<Rightarrow> string \<Rightarrow> peer_candidate res" where
  "validate_candidate ip port local_port source = (case ip_address (py_strip ip) of
       None \<Rightarrow> Inl (BridgeError ''IP candidato P2P non valido.'')
     | Some a \<Rightarrow>
       if \<not> is_global a then Inl (BridgeError ''Il candidato P2P deve essere un indirizzo IP globale.'')
       else if port < 1 \<or> 65535 < port then Inl (BridgeError ''Porta candidata P2P non valida.'')
       else if (case local_port of None \<Rightarrow> False | Some l \<Rightarrow> l < 1 \<or> 65535 < l)
       then Inl (BridgeError ''Porta locale candidata P2P non valida.'')
       else (let src = py_lower (py_strip (str_or source ''stun'')) in
         if src \<notin> {''stun'', ''ipv6'', ''manual''} then Inl (BridgeError ''Sorgente candidato P2P non valida.'')
         else Inr \<lparr>pc_ip = ip_str a, pc_port = port, pc_local_port = local_port, pc_source = src\<rparr>))"

record server_candidate =
  sc_endpoint :: string
  sc_kind :: string
  sc_priority :: int

definition configured :: "string \<Rightarrow> server_candidate" where
  "configured ep = \<lparr>sc_endpoint = ep, sc_kind = ''configured_public_endpoint'', sc_priority = 100\<rparr>"

definition split_endpoint :: "string \<Rightarrow> (string \<times> int) option" where
  \<comment> \<open>host and port of the text, None where the parsing raises or either is missing or zero\<close>
  "split_endpoint raw = (if starts_with ''['' raw then
       (case urlsplit (''udp://'' @ raw) of Inl _ \<Rightarrow> None
        | Inr u \<Rightarrow> (case u_port u of Inr (Some p) \<Rightarrow> Some (u_hostname u, int p) | _ \<Rightarrow> None))
     else (case rpartition_at (CHR '':'') raw of
         (_, False, _) \<Rightarrow> None
       | (h, True, p) \<Rightarrow> map_option (\<lambda>i. (py_strip h, i)) (py_int p)))"

definition public_endpoint_candidate :: "(string \<times> string) list \<Rightarrow> server_candidate option" where
  "public_endpoint_candidate env = (let raw = py_strip (env_get env ''PUBLIC_ENDPOINT'' []) in
     if raw = [] \<or> starts_with ''CHANGE_ME'' (py_upper raw) then None
     else (case split_endpoint raw of
         None \<Rightarrow> None
       | Some (host, port) \<Rightarrow>
         if host = [] \<or> port < 1 \<or> 65535 < port then None
         else (case ip_address host of
             None \<Rightarrow> Some (configured raw)
           | Some a \<Rightarrow> if is_global a then Some (configured (endpoint_text a port)) else None)))"

definition sort_desc :: "('a \<Rightarrow> 'b::linorder) \<Rightarrow> 'a list \<Rightarrow> 'a list" where
  \<comment> \<open>\<open>sorted(..., reverse=True)\<close>: descending, equal keys in their original order\<close>
  "sort_desc k xs = rev (sort_key k (rev xs))"

fun add_ipv6 :: "int \<Rightarrow> string list \<Rightarrow> server_candidate list \<Rightarrow> server_candidate list" where
  "add_ipv6 port [] out = out"
| "add_ipv6 port (a # as) out = (let ep = ''['' @ a @ '']:'' @ int_str port in
     add_ipv6 port as (if list_ex (\<lambda>c. sc_endpoint c = ep) out then out
       else out @ [\<lparr>sc_endpoint = ep, sc_kind = ''global_ipv6'', sc_priority = 90\<rparr>]))"

definition server_candidates :: "(string \<times> string) list \<Rightarrow> string list \<Rightarrow> server_candidate list" where
  "server_candidates env v6 =
     (let port = (case py_int (env_get env ''WG_PORT'' ''51820'') of None \<Rightarrow> 51820 | Some p \<Rightarrow> p);
          out = (case public_endpoint_candidate env of None \<Rightarrow> [] | Some c \<Rightarrow> [c])
      in sort_desc sc_priority (add_ipv6 port v6 out))"

definition traversal_enabled :: "(string \<times> string) list \<Rightarrow> bool" where
  "traversal_enabled env =
     (py_lower (py_strip (env_get env ''TRAVERSAL_ENABLED'' ''true'')) \<notin> {''0'', ''false'', ''no'', ''off'', ''disabled''})"

section \<open>Sessions\<close>

text \<open>
  What a session shows to the outside, and the session itself: it also knows the peer's public
  key, which \<open>_safe_session\<close> cuts off.
\<close>

record p2p_view =
  t_session_id :: string
  t_device_id :: string
  t_device_name :: string
  t_vpn_ip :: string
  t_candidate :: peer_candidate
  t_candidate_endpoint :: string
  t_servers :: "server_candidate list"
  t_recommended :: string
  t_fallback :: string
  t_created :: rat
  t_expires :: rat
  t_status :: string
  t_attempts :: nat
  t_latest_handshake :: int
  t_error :: "string option"
  t_previous_endpoint :: "string option"
  t_previous_keepalive :: int
  t_baseline :: int
  t_completed :: "rat option"
  t_endpoint_active :: "string option"
  t_restore :: "string option"

record p2p_session = p2p_view +
  t_peer_key :: string

definition safe_session :: "p2p_session \<Rightarrow> p2p_view" where
  "safe_session x = p2p_view.truncate x"

record p2p =
  p2p_sessions :: "p2p_session list"
  device_attempts :: "string \<rightharpoonup> rat list"
  mirror :: "p2p_view list"
  mirror_writable :: bool
  p2p_log :: audit_db
  wg_commands :: "string list list"

definition newest_first :: "p2p_session list \<Rightarrow> p2p_view list" where
  "newest_first xs = map safe_session (sort_desc t_created xs)"

definition write_session_mirror :: "p2p \<Rightarrow> p2p" where
  "write_session_mirror s = (if mirror_writable s then s\<lparr>mirror := newest_first (p2p_sessions s)\<rparr> else s)"

definition read_session_mirror :: "rat \<Rightarrow> p2p \<Rightarrow> p2p_view list" where
  "read_session_mirror now s = filter (\<lambda>x. now < t_expires x) (mirror s)"

definition fresh_attempts :: "rat \<Rightarrow> rat list \<Rightarrow> rat list" where
  "fresh_attempts now values = filter (\<lambda>x. now - x < RATE_WINDOW_SECONDS) values"

definition p2p_cleanup :: "rat \<Rightarrow> p2p \<Rightarrow> p2p" where
  "p2p_cleanup now s = (let changed = list_ex (\<lambda>x. t_expires x \<le> now) (p2p_sessions s);
       s = s\<lparr>p2p_sessions := filter (\<lambda>x. \<not> t_expires x \<le> now) (p2p_sessions s),
             device_attempts := (\<lambda>d. case device_attempts s d of None \<Rightarrow> None
               | Some values \<Rightarrow> if fresh_attempts now values = [] then None else Some (fresh_attempts now values))\<rparr>
     in if changed then write_session_mirror s else s)"

definition p2p_attempts :: "p2p \<Rightarrow> string \<Rightarrow> rat list" where
  "p2p_attempts s d = (case device_attempts s d of None \<Rightarrow> [] | Some v \<Rightarrow> v)"

definition rate_limit :: "string \<Rightarrow> rat \<Rightarrow> p2p \<Rightarrow> unit res \<times> p2p" where
  "rate_limit did now s = (let s = p2p_cleanup now s; values = p2p_attempts s did in
     if RATE_LIMIT_PER_DEVICE \<le> length values
     then (Inl (BridgeError ''Troppi tentativi P2P per questo device; riprova tra poco.''), s)
     else (Inr (), s\<lparr>device_attempts := (device_attempts s)(did \<mapsto> values @ [now])\<rparr>))"

definition p2p_authenticate :: "nat \<Rightarrow> store \<Rightarrow> string \<Rightarrow> string \<Rightarrow> device res" where
  "p2p_authenticate today st did tok = (case find_device did st of
       None \<Rightarrow> Inl (BridgeError ''Device P2P non valido o disabilitato.'')
     | Some d \<Rightarrow>
       if \<not> device_is_active today d then Inl (BridgeError ''Device P2P non valido o disabilitato.'')
       else if token d = [] \<or> tok = [] then Inl (BridgeError ''Autenticazione P2P non valida.'')
       else rbind (compare_digest (token d) tok) (\<lambda>ok.
         if ok then Inr d else Inl (BridgeError ''Autenticazione P2P non valida.'')))"

definition p2p_audit :: "string \<Rightarrow> string \<Rightarrow> p2p_session \<Rightarrow> string \<Rightarrow> string option \<Rightarrow> p2p \<Rightarrow> p2p" where
  "p2p_audit now event x res err s = s\<lparr>p2p_log := audit_quietly now event
     (no_args\<lparr>e_device_id := Some (t_device_id x), e_device_name := Some (t_device_name x),
       e_action := Some ''nat_traversal'', e_result := Some res, e_ip := Some (pc_ip (t_candidate x)), e_error := err\<rparr>)
     (p2p_log s)\<rparr>"

definition put_session :: "p2p_session \<Rightarrow> p2p_session list \<Rightarrow> p2p_session list" where
  \<comment> \<open>assignment to the dictionary: an existing key keeps its place\<close>
  "put_session x xs = (if list_ex (\<lambda>y. t_session_id y = t_session_id x) xs
     then map_first (\<lambda>y. t_session_id y = t_session_id x) (\<lambda>_. x) xs else xs @ [x])"

definition get_session :: "string \<Rightarrow> p2p \<Rightarrow> p2p_session option" where
  "get_session sid s = find (\<lambda>x. t_session_id x = sid) (p2p_sessions s)"

record prepare_env =
  q_env :: "(string \<times> string) list"
  q_v6 :: "string list"
  q_today :: nat
  q_rate_now :: rat
  q_now :: rat
  q_iso :: string
  q_random :: string

definition new_p2p_session :: "prepare_env \<Rightarrow> device \<Rightarrow> peer_candidate \<Rightarrow> server_candidate list \<Rightarrow> p2p_session" where
  "new_p2p_session env d c servers =
     \<lparr>t_session_id = ''p2p_'' @ q_random env, t_device_id = device_id d, t_device_name = d_name d,
      t_vpn_ip = vpn_ip d, t_candidate = c, t_candidate_endpoint = pc_endpoint c, t_servers = servers,
      t_recommended = sc_endpoint (hd servers), t_fallback = env_get (q_env env) ''PUBLIC_ENDPOINT'' [],
      t_created = q_now env, t_expires = q_now env + SESSION_TTL_SECONDS, t_status = ''PREPARED'',
      t_attempts = 0, t_latest_handshake = 0, t_error = None, t_previous_endpoint = None,
      t_previous_keepalive = 0, t_baseline = 0, t_completed = None, t_endpoint_active = None,
      t_restore = None, t_peer_key = public_key d\<rparr>"

definition prepare_traversal ::
  "prepare_env \<Rightarrow> store \<Rightarrow> string \<Rightarrow> string \<Rightarrow> string \<Rightarrow> int \<Rightarrow> int option \<Rightarrow> string \<Rightarrow> p2p \<Rightarrow> p2p_view res \<times> p2p" where
  "prepare_traversal env st did tok ip port local_port source s =
     (if \<not> traversal_enabled (q_env env)
      then (Inl (BridgeError ''NAT Traversal P2P disabilitato in bridge.env.''), s)
      else guard_in s (p2p_authenticate (q_today env) st did tok) (\<lambda>d.
      guard_in s (validate_candidate ip port local_port source) (\<lambda>c.
      let servers = server_candidates (q_env env) (q_v6 env) in
      if servers = []
      then (Inl (BridgeError ''Nessun candidato server P2P disponibile: configura PUBLIC_ENDPOINT o IPv6 globale.''), s)
      else (case rate_limit (device_id d) (q_rate_now env) s of
          (Inl e, s) \<Rightarrow> (Inl e, s)
        | (Inr _, s) \<Rightarrow> (let x = new_p2p_session env d c servers; s = p2p_cleanup (q_now env) s;
            s = write_session_mirror (s\<lparr>p2p_sessions := put_session x (p2p_sessions s)\<rparr>)
          in (Inr (safe_session x), p2p_audit (q_iso env) ''P2P_PREPARED'' x ''PREPARED'' None s))))))"

definition traversal_status :: "nat \<Rightarrow> rat \<Rightarrow> store \<Rightarrow> string \<Rightarrow> string \<Rightarrow> string \<Rightarrow> p2p \<Rightarrow> p2p_view res \<times> p2p" where
  "traversal_status today now st did tok sid s = guard_in s (p2p_authenticate today st did tok) (\<lambda>d.
     let s = p2p_cleanup now s in
     (case get_session sid s of
        None \<Rightarrow> (Inl (BridgeError ''Sessione P2P non trovata o scaduta.''), s)
      | Some x \<Rightarrow> if t_device_id x \<noteq> device_id d then (Inl (BridgeError ''Sessione P2P non trovata o scaduta.''), s)
          else (Inr (safe_session x), s)))"

definition list_sessions :: "rat \<Rightarrow> p2p \<Rightarrow> p2p_view list \<times> p2p" where
  "list_sessions now s = (let s = p2p_cleanup now s in
     (if p2p_sessions s \<noteq> [] then newest_first (p2p_sessions s) else read_session_mirror now s, s))"

section \<open>The WireGuard commands\<close>

text \<open>
  The interface answers a command by its return code and output, whatever was issued before;
  the tables of \<open>wg show\<close> are a public key and a value per line.
\<close>

type_synonym wg_runner = "string list list \<Rightarrow> string list \<Rightarrow> int \<times> string"

definition run_cmd :: "wg_runner \<Rightarrow> string list \<Rightarrow> p2p \<Rightarrow> (int \<times> string) \<times> p2p" where
  "run_cmd runner cmd s = (runner (wg_commands s) cmd, s\<lparr>wg_commands := wg_commands s @ [cmd]\<rparr>)"

definition wg_value :: "string \<Rightarrow> string \<Rightarrow> string option" where
  "wg_value key out = map_option (\<lambda>parts. parts ! 1)
     (find (\<lambda>parts. 2 \<le> length parts \<and> parts ! 0 = key) (map py_split (py_splitlines out)))"

definition show_value :: "wg_runner \<Rightarrow> string \<Rightarrow> string \<Rightarrow> p2p \<Rightarrow> string option \<times> p2p" where
  "show_value runner what key s = (case run_cmd runner [''wg'', ''show'', ''wg0'', what] s of
     ((rc, out), s) \<Rightarrow> (if rc \<noteq> 0 then None else wg_value key out, s))"

definition int_or_0 :: "string \<Rightarrow> int" where
  "int_or_0 v = (case py_int v of None \<Rightarrow> 0 | Some i \<Rightarrow> i)"

definition latest_handshake :: "wg_runner \<Rightarrow> string \<Rightarrow> p2p \<Rightarrow> int \<times> p2p" where
  "latest_handshake runner key s = (case show_value runner ''latest-handshakes'' key s of
     (v, s) \<Rightarrow> (case v of None \<Rightarrow> 0 | Some v \<Rightarrow> int_or_0 v, s))"

definition current_endpoint :: "wg_runner \<Rightarrow> string \<Rightarrow> p2p \<Rightarrow> string option \<times> p2p" where
  "current_endpoint runner key s = (case show_value runner ''endpoints'' key s of
     (v, s) \<Rightarrow> (case v of None \<Rightarrow> None | Some v \<Rightarrow> let v = py_strip v in
        if v \<in> {''(none)'', ''off''} then None else Some v, s))"

definition current_keepalive :: "wg_runner \<Rightarrow> string \<Rightarrow> p2p \<Rightarrow> int \<times> p2p" where
  "current_keepalive runner key s = (case show_value runner ''persistent-keepalive'' key s of
     (v, s) \<Rightarrow> (case v of None \<Rightarrow> 0 | Some v \<Rightarrow> let v = py_lower (py_strip v) in
        if v \<in> {''off'', ''0''} then 0 else int_or_0 v, s))"

definition set_endpoint_cmd :: "string \<Rightarrow> string \<Rightarrow> int \<Rightarrow> string list" where
  "set_endpoint_cmd key ep keepalive =
     [''wg'', ''set'', ''wg0'', ''peer'', key, ''endpoint'', ep, ''persistent-keepalive'', int_str keepalive]"

definition set_peer_endpoint :: "wg_runner \<Rightarrow> string \<Rightarrow> string \<Rightarrow> int \<Rightarrow> p2p \<Rightarrow> bool \<times> p2p" where
  \<comment> \<open>False: the BridgeError of a command that fails\<close>
  "set_peer_endpoint runner key ep keepalive s =
     (case run_cmd runner (set_endpoint_cmd key ep keepalive) s of ((rc, _), s) \<Rightarrow> (rc = 0, s))"

definition trigger_wireguard :: "wg_runner \<Rightarrow> string \<Rightarrow> p2p \<Rightarrow> p2p" where
  "trigger_wireguard runner ip s = snd (run_cmd runner [''ping'', ''-c'', ''1'', ''-W'', ''1'', ip] s)"

section \<open>One attempt\<close>

definition update_session :: "string \<Rightarrow> (p2p_session \<Rightarrow> p2p_session) \<Rightarrow> p2p \<Rightarrow> p2p_session option \<times> p2p" where
  "update_session sid f s = (case get_session sid s of
       None \<Rightarrow> (None, s)
     | Some x \<Rightarrow> (let s = write_session_mirror (s\<lparr>p2p_sessions := map_first (\<lambda>y. t_session_id y = sid) f (p2p_sessions s)\<rparr>)
         in (Some (f x), s)))"

record attempt_env =
  u_runner :: wg_runner
  u_now :: rat
  u_started :: rat
  u_completed :: rat
  u_iso :: string

definition finish_attempt ::
  "attempt_env \<Rightarrow> p2p_session \<Rightarrow> (p2p_session \<Rightarrow> p2p_session) \<Rightarrow> string \<Rightarrow> string \<Rightarrow> string option \<Rightarrow> p2p \<Rightarrow> p2p_view \<times> p2p" where
  "finish_attempt env x f event res err s = (case update_session (t_session_id x) f s of (up, s) \<Rightarrow>
     let completed = (case up of None \<Rightarrow> x | Some y \<Rightarrow> y) in
     (safe_session completed, p2p_audit (u_iso env) event completed res err s))"

definition succeed :: "attempt_env \<Rightarrow> p2p_session \<Rightarrow> p2p \<Rightarrow> p2p_view \<times> p2p" where
  "succeed env x s = finish_attempt env x
     (\<lambda>y. y\<lparr>t_status := ''SUCCEEDED'', t_error := None, t_completed := Some (u_completed env),
       t_endpoint_active := Some (t_candidate_endpoint x)\<rparr>) ''P2P_SUCCEEDED'' ''SUCCEEDED'' None s"

definition give_up :: "attempt_env \<Rightarrow> p2p_session \<Rightarrow> string option \<Rightarrow> int \<Rightarrow> p2p \<Rightarrow> p2p_view \<times> p2p" where
  \<comment> \<open>no handshake was seen\<close>
  "give_up env x previous keepalive s =
     (case (case previous of
        Some ep \<Rightarrow> (case set_peer_endpoint (u_runner env) (t_peer_key x) ep keepalive s of
            (ok, s) \<Rightarrow> (if ok then ''previous_endpoint_restored'' else ''previous_endpoint_restore_failed'', s))
      | None \<Rightarrow> (''no_previous_endpoint_candidate_left_runtime_only'',
          snd (set_peer_endpoint (u_runner env) (t_peer_key x) (t_candidate_endpoint x) 0 s))) of
      (restore, s) \<Rightarrow> finish_attempt env x
        (\<lambda>y. y\<lparr>t_status := ''FAILED'', t_error := Some ''wireguard_handshake_not_observed'',
          t_completed := Some (u_completed env), t_restore := Some restore\<rparr>)
        ''P2P_FAILED'' ''FAILED'' (Some ''wireguard_handshake_not_observed'') s)"

definition attempt_error :: "attempt_env \<Rightarrow> p2p_session \<Rightarrow> string option \<Rightarrow> int \<Rightarrow> string \<Rightarrow> p2p \<Rightarrow> p2p_view \<times> p2p" where
  \<comment> \<open>the \<open>except Exception\<close> branch\<close>
  "attempt_error env x previous keepalive cls s =
     (let s = (case previous of None \<Rightarrow> s
        | Some ep \<Rightarrow> snd (set_peer_endpoint (u_runner env) (t_peer_key x) ep keepalive s)) in
      finish_attempt env x
        (\<lambda>y. y\<lparr>t_status := ''ERROR'', t_error := Some cls, t_completed := Some (u_completed env)\<rparr>)
        ''P2P_FAILED'' ''ERROR'' (Some cls) s)"

datatype punch_end = Handshake | SetFailed | NoHandshake

fun punch_loop :: "attempt_env \<Rightarrow> p2p_session \<Rightarrow> int \<Rightarrow> nat list \<Rightarrow> p2p \<Rightarrow> punch_end \<times> p2p" where
  "punch_loop env x baseline [] s = (NoHandshake, s)"
| "punch_loop env x baseline (k # ks) s =
     (let s = snd (update_session (t_session_id x) (\<lambda>y. y\<lparr>t_attempts := k\<rparr>) s);
          s = trigger_wireguard (u_runner env) (t_vpn_ip x) s;
          (latest, s) = latest_handshake (u_runner env) (t_peer_key x) s;
          s = snd (update_session (t_session_id x) (\<lambda>y. y\<lparr>t_latest_handshake := latest\<rparr>) s)
      in if max baseline (trunc_rat (u_started env) - 1) < latest
         then (case set_peer_endpoint (u_runner env) (t_peer_key x) (t_candidate_endpoint x) 25 s of
           (ok, s) \<Rightarrow> (if ok then Handshake else SetFailed, s))
         else punch_loop env x baseline ks s)"

definition attempt_traversal :: "attempt_env \<Rightarrow> string \<Rightarrow> p2p \<Rightarrow> p2p_view res \<times> p2p" where
  "attempt_traversal env sid s = (let s = p2p_cleanup (u_now env) s in
     case get_session sid s of
       None \<Rightarrow> (Inl (BridgeError ''Sessione P2P non trovata o scaduta.''), s)
     | Some x \<Rightarrow>
       if t_status x \<notin> {''PREPARED'', ''PUNCHING''} then (Inr (safe_session x), s)
       else (let (previous, s) = current_endpoint (u_runner env) (t_peer_key x) s;
           (keepalive, s) = current_keepalive (u_runner env) (t_peer_key x) s;
           (baseline, s) = latest_handshake (u_runner env) (t_peer_key x) s;
           s = snd (update_session sid (\<lambda>y. y\<lparr>t_status := ''PUNCHING'', t_previous_endpoint := previous,
                 t_previous_keepalive := keepalive, t_baseline := baseline\<rparr>) s);
           (ok, s) = set_peer_endpoint (u_runner env) (t_peer_key x) (t_candidate_endpoint x) 5 s;
           (ending, s) = (if ok then punch_loop env x baseline [1..<Suc PUNCH_ATTEMPTS] s else (SetFailed, s));
           (v, s) = (case ending of
               Handshake \<Rightarrow> succeed env x s
             | NoHandshake \<Rightarrow> give_up env x previous keepalive s
             | SetFailed \<Rightarrow> attempt_error env x previous keepalive ''BridgeError'' s)
         in (Inr v, s)))"

definition delayed_attempt :: "attempt_env \<Rightarrow> string \<Rightarrow> p2p \<Rightarrow> p2p" where
  "delayed_attempt env sid s = (case attempt_traversal env sid s of
       (Inr _, s) \<Rightarrow> s
     | (Inl _, s) \<Rightarrow> snd (update_session sid (\<lambda>y. y\<lparr>t_status := ''ERROR'', t_error := Some ''worker_error'',
           t_completed := Some (u_completed env)\<rparr>) s))"

record p2p_report =
  rp_enabled :: bool
  rp_candidates :: "server_candidate list"
  rp_sessions :: "p2p_view list"
  rp_relay_available :: bool
  rp_relay_used :: bool

definition p2p_status :: "(string \<times> string) list \<Rightarrow> string list \<Rightarrow> rat \<Rightarrow> (bool \<times> nat) option \<Rightarrow> p2p \<Rightarrow> p2p_report \<times> p2p" where
  \<comment> \<open>the relay's state: configured, and the number of active sessions; None when reading it raises\<close>
  "p2p_status env v6 now relay s = (case list_sessions now s of (xs, s) \<Rightarrow>
     (\<lparr>rp_enabled = traversal_enabled env, rp_candidates = server_candidates env v6, rp_sessions = xs,
       rp_relay_available = (case relay of None \<Rightarrow> False | Some (c, _) \<Rightarrow> c),
       rp_relay_used = (case relay of None \<Rightarrow> False | Some (_, n) \<Rightarrow> 0 < n)\<rparr>, s))"

section \<open>What the commands leave behind\<close>

definition peer_sets :: "p2p \<Rightarrow> string list list" where
  \<comment> \<open>the \<open>wg set\<close> commands issued so far\<close>
  "peer_sets s = filter (\<lambda>c. take 2 c = [''wg'', ''set'']) (wg_commands s)"

lemma write_session_mirror_frame [simp]:
  "p2p_sessions (write_session_mirror s) = p2p_sessions s"
  "wg_commands (write_session_mirror s) = wg_commands s"
  "device_attempts (write_session_mirror s) = device_attempts s"
  by (simp_all add: write_session_mirror_def)

lemma p2p_cleanup_commands [simp]: "wg_commands (p2p_cleanup t s) = wg_commands s"
  by (simp add: p2p_cleanup_def Let_def)

lemma p2p_cleanup_sessions [simp]:
  "p2p_sessions (p2p_cleanup now s) = filter (\<lambda>x. \<not> t_expires x \<le> now) (p2p_sessions s)"
  by (simp add: p2p_cleanup_def Let_def)

lemma show_value_frame:
  "show_value runner what key s = (v, s') \<Longrightarrow>
     p2p_sessions s' = p2p_sessions s \<and> peer_sets s' = peer_sets s"
  by (auto simp: show_value_def run_cmd_def peer_sets_def split: prod.splits)

lemma show_frames:
  "latest_handshake runner key s = (n, s') \<Longrightarrow> p2p_sessions s' = p2p_sessions s \<and> peer_sets s' = peer_sets s"
  "current_endpoint runner key s = (e, s') \<Longrightarrow> p2p_sessions s' = p2p_sessions s \<and> peer_sets s' = peer_sets s"
  "current_keepalive runner key s = (n, s') \<Longrightarrow> p2p_sessions s' = p2p_sessions s \<and> peer_sets s' = peer_sets s"
  by (auto simp: latest_handshake_def current_endpoint_def current_keepalive_def split: prod.splits
      dest: show_value_frame)

lemma trigger_frame [simp]:
  "p2p_sessions (trigger_wireguard runner ip s) = p2p_sessions s"
  "peer_sets (trigger_wireguard runner ip s) = peer_sets s"
  by (simp_all add: trigger_wireguard_def run_cmd_def peer_sets_def)

lemma set_peer_endpoint_effect:
  "set_peer_endpoint runner key ep k s = (ok, s') \<Longrightarrow>
     p2p_sessions s' = p2p_sessions s \<and> peer_sets s' = peer_sets s @ [set_endpoint_cmd key ep k]"
  by (auto simp: set_peer_endpoint_def run_cmd_def peer_sets_def set_endpoint_cmd_def split: prod.splits)

lemma find_map_first:
  "(\<And>y. k (f y) = k y) \<Longrightarrow> find (\<lambda>y. k y = c) (map_first (\<lambda>y. k y = c) f xs) = map_option f (find (\<lambda>y. k y = c) xs)"
  by (induction xs) auto

lemma update_session_effect:
  assumes "update_session sid f s = (up, s')" and "\<And>y. t_session_id (f y) = t_session_id y"
  shows "up = map_option f (get_session sid s) \<and> get_session sid s' = map_option f (get_session sid s)
    \<and> peer_sets s' = peer_sets s"
  using assms find_map_first [where k = t_session_id and f = f and c = sid and xs = "p2p_sessions s"]
  by (auto simp: update_session_def get_session_def peer_sets_def split: option.splits)

lemma get_session_id: "get_session sid s = Some x \<Longrightarrow> t_session_id x = sid"
  by (auto simp: get_session_def dest: find_Some_iff')

lemma get_session_cong: "p2p_sessions s' = p2p_sessions s \<Longrightarrow> get_session sid s' = get_session sid s"
  by (simp add: get_session_def)

lemma punch_loop_effect:
  assumes "punch_loop env x baseline ks s = (r, s')" and "get_session (t_session_id x) s = Some y"
  shows "\<exists>y'. get_session (t_session_id x) s' = Some y'
    \<and> t_previous_endpoint y' = t_previous_endpoint y \<and> t_previous_keepalive y' = t_previous_keepalive y
    \<and> t_baseline y' = t_baseline y
    \<and> (r = Handshake \<longrightarrow> max baseline (trunc_rat (u_started env) - 1) < t_latest_handshake y')
    \<and> peer_sets s' = peer_sets s @ (if r = NoHandshake then []
        else [set_endpoint_cmd (t_peer_key x) (t_candidate_endpoint x) 25])"
  using assms
proof (induction ks arbitrary: s y)
  case (Cons k ks)
  let ?sid = "t_session_id x"
  obtain u1 s1 where 1: "update_session ?sid (\<lambda>y. y\<lparr>t_attempts := k\<rparr>) s = (u1, s1)" by fastforce
  let ?s2 = "trigger_wireguard (u_runner env) (t_vpn_ip x) s1"
  obtain latest s3 where 3: "latest_handshake (u_runner env) (t_peer_key x) ?s2 = (latest, s3)" by fastforce
  obtain u4 s4 where 4: "update_session ?sid (\<lambda>y. y\<lparr>t_latest_handshake := latest\<rparr>) s3 = (u4, s4)" by fastforce
  let ?y = "y\<lparr>t_attempts := k, t_latest_handshake := latest\<rparr>"
  have g: "get_session ?sid s4 = Some ?y" and p: "peer_sets s4 = peer_sets s"
    using update_session_effect [OF 1] show_frames(1) [OF 3] update_session_effect [OF 4] Cons.prems(2)
    by (auto simp: get_session_cong [of s3 s1])
  show ?case
  proof (cases "max baseline (trunc_rat (u_started env) - 1) < latest")
    case True
    obtain ok s5 where 5: "set_peer_endpoint (u_runner env) (t_peer_key x) (t_candidate_endpoint x) 25 s4 = (ok, s5)" by fastforce
    have "r = (if ok then Handshake else SetFailed)" "s' = s5"
      using Cons.prems(1) 1 3 4 5 True by (auto simp: Let_def)
    then show ?thesis
      using set_peer_endpoint_effect [OF 5] g p True by (simp add: get_session_cong [of s5 s4])
  next
    case False
    have "punch_loop env x baseline ks s4 = (r, s')" using Cons.prems(1) 1 3 4 False by (auto simp: Let_def)
    from Cons.IH [OF this g] show ?thesis using p by simp
  qed
qed auto

lemma finish_attempt_effect:
  assumes "finish_attempt env x f ev res err s = (v, s')" and "get_session (t_session_id x) s = Some y"
    and "\<And>y. t_session_id (f y) = t_session_id y"
  shows "v = safe_session (f y) \<and> peer_sets s' = peer_sets s \<and> get_session (t_session_id x) s' = Some (f y)"
proof -
  obtain up s1 where 1: "update_session (t_session_id x) f s = (up, s1)" by fastforce
  have "up = Some (f y)" "peer_sets s1 = peer_sets s" "get_session (t_session_id x) s1 = Some (f y)"
    using update_session_effect [OF 1 assms(3)] assms(2) by auto
  with assms(1) 1 show ?thesis
    by (auto simp: finish_attempt_def p2p_audit_def peer_sets_def get_session_def Let_def)
qed

lemma terminal_effects:
  assumes "get_session (t_session_id x) s = Some y"
  shows "succeed env x s = (v, s') \<Longrightarrow> t_status v = ''SUCCEEDED'' \<and> t_latest_handshake v = t_latest_handshake y
      \<and> t_baseline v = t_baseline y \<and> peer_sets s' = peer_sets s"
    and "give_up env x prev k s = (v, s') \<Longrightarrow> t_status v = ''FAILED'' \<and> t_previous_endpoint v = t_previous_endpoint y
      \<and> t_previous_keepalive v = t_previous_keepalive y
      \<and> peer_sets s' = peer_sets s @ [case prev of Some ep \<Rightarrow> set_endpoint_cmd (t_peer_key x) ep k
          | None \<Rightarrow> set_endpoint_cmd (t_peer_key x) (t_candidate_endpoint x) 0]"
    and "attempt_error env x prev k cls s = (v, s') \<Longrightarrow> t_status v = ''ERROR'' \<and> t_previous_endpoint v = t_previous_endpoint y
      \<and> t_previous_keepalive v = t_previous_keepalive y
      \<and> peer_sets s' = peer_sets s @ (case prev of Some ep \<Rightarrow> [set_endpoint_cmd (t_peer_key x) ep k] | None \<Rightarrow> [])"
proof -
  note views = safe_session_def p2p_view.defs p2p_session.defs
  {
    assume "succeed env x s = (v, s')"
    from finish_attempt_effect [OF this [unfolded succeed_def] assms]
    show "t_status v = ''SUCCEEDED'' \<and> t_latest_handshake v = t_latest_handshake y
      \<and> t_baseline v = t_baseline y \<and> peer_sets s' = peer_sets s" by (simp add: views)
  next
    assume g: "give_up env x prev k s = (v, s')"
    define c where "c = (case prev of Some ep \<Rightarrow> (ep, k) | None \<Rightarrow> (t_candidate_endpoint x, 0))"
    obtain ok s1 where 1: "set_peer_endpoint (u_runner env) (t_peer_key x) (fst c) (snd c) s = (ok, s1)" by fastforce
    note e = set_peer_endpoint_effect [OF 1]
    then have y: "get_session (t_session_id x) s1 = Some y" using assms by (simp add: get_session_cong [of s1 s])
    from g 1 obtain restore where "finish_attempt env x
        (\<lambda>y. y\<lparr>t_status := ''FAILED'', t_error := Some ''wireguard_handshake_not_observed'',
          t_completed := Some (u_completed env), t_restore := Some restore\<rparr>)
        ''P2P_FAILED'' ''FAILED'' (Some ''wireguard_handshake_not_observed'') s1 = (v, s')"
      by (cases prev) (auto simp: give_up_def c_def split: if_splits)
    from finish_attempt_effect [OF this y] e
    show "t_status v = ''FAILED'' \<and> t_previous_endpoint v = t_previous_endpoint y
      \<and> t_previous_keepalive v = t_previous_keepalive y
      \<and> peer_sets s' = peer_sets s @ [case prev of Some ep \<Rightarrow> set_endpoint_cmd (t_peer_key x) ep k
          | None \<Rightarrow> set_endpoint_cmd (t_peer_key x) (t_candidate_endpoint x) 0]"
      by (cases prev) (simp_all add: views c_def)
  next
    assume g: "attempt_error env x prev k cls s = (v, s')"
    let ?f = "\<lambda>y. y\<lparr>t_status := ''ERROR'', t_error := Some cls, t_completed := Some (u_completed env)\<rparr>"
    show "t_status v = ''ERROR'' \<and> t_previous_endpoint v = t_previous_endpoint y
      \<and> t_previous_keepalive v = t_previous_keepalive y
      \<and> peer_sets s' = peer_sets s @ (case prev of Some ep \<Rightarrow> [set_endpoint_cmd (t_peer_key x) ep k] | None \<Rightarrow> [])"
    proof (cases prev)
      case None
      then have "finish_attempt env x ?f ''P2P_FAILED'' ''ERROR'' (Some cls) s = (v, s')"
        using g by (simp add: attempt_error_def)
      from finish_attempt_effect [OF this assms] show ?thesis by (simp add: views None)
    next
      case (Some ep)
      obtain ok s1 where 1: "set_peer_endpoint (u_runner env) (t_peer_key x) ep k s = (ok, s1)" by fastforce
      note e = set_peer_endpoint_effect [OF 1]
      then have y: "get_session (t_session_id x) s1 = Some y" using assms by (simp add: get_session_cong [of s1 s])
      have "finish_attempt env x ?f ''P2P_FAILED'' ''ERROR'' (Some cls) s1 = (v, s')"
        using g 1 by (simp add: attempt_error_def Some)
      from finish_attempt_effect [OF this y] e show ?thesis by (simp add: views Some)
    qed
  }
qed

section \<open>What a traversal promises\<close>


interpretation p2p: sliding_window fresh_attempts RATE_LIMIT_PER_DEVICE RATE_WINDOW_SECONDS
proof
  fix q :: "rat list" and now
  assume s: "sorted q" "\<forall>t\<in>set q. t \<le> now"
  have f: "q = takeWhile (\<lambda>t. \<not> now - t < RATE_WINDOW_SECONDS) q @ filter (\<lambda>t. now - t < RATE_WINDOW_SECONDS) q"
    by (rule filter_suffix [OF s(1)]) (auto intro: le_less_trans)
  show "\<exists>old. q = old @ fresh_attempts now q \<and> (\<forall>t\<in>set old. RATE_WINDOW_SECONDS \<le> now - t)"
    unfolding fresh_attempts_def
    by (rule exI, rule conjI, rule f) (auto dest: set_takeWhileD)
qed

lemma p2p_attempts_cleanup: "p2p_attempts (p2p_cleanup now s) d = fresh_attempts now (p2p_attempts s d)"
  by (auto simp: p2p_attempts_def p2p_cleanup_def fresh_attempts_def Let_def split: option.splits)

text \<open>A history of requests for a session; \<open>granted\<close> are the times a device was given one.\<close>

type_synonym prepare_request = "prepare_env \<times> store \<times> string \<times> string \<times> string \<times> int \<times> int option \<times> string"

fun do_prepare :: "prepare_request \<Rightarrow> p2p \<Rightarrow> p2p_view res \<times> p2p" where
  "do_prepare (env, st, did, tok, ip, port, lp, src) s = prepare_traversal env st did tok ip port lp src s"

fun granted :: "string \<Rightarrow> prepare_request list \<Rightarrow> p2p \<Rightarrow> rat list" where
  "granted d [] s = []"
| "granted d (rq # rqs) s = (case do_prepare rq s of
      (Inr v, s) \<Rightarrow> (if t_device_id v = d then [q_rate_now (fst rq)] else []) @ granted d rqs s
    | (Inl _, s) \<Rightarrow> granted d rqs s)"

fun clock_runs :: "rat \<Rightarrow> prepare_request list \<Rightarrow> bool" where
  \<comment> \<open>the clock readings of the history do not go back\<close>
  "clock_runs now [] = True"
| "clock_runs now (rq # rqs) = (now \<le> q_rate_now (fst rq) \<and> q_rate_now (fst rq) \<le> q_now (fst rq)
     \<and> clock_runs (q_now (fst rq)) rqs)"

lemma prepare_effect:
  assumes "prepare_traversal env st did tok ip port lp src s = (res, s')"
  obtains (refused) e where "res = Inl e" "p2p_attempts s' d = p2p_attempts s d \<or>
      p2p_attempts s' d = fresh_attempts (q_rate_now env) (p2p_attempts s d)"
  | (admitted) v x dev c where "res = Inr v" "p2p_authenticate (q_today env) st did tok = Inr dev"
      "validate_candidate ip port lp src = Inr c" "x = new_p2p_session env dev c (server_candidates (q_env env) (q_v6 env))"
      "server_candidates (q_env env) (q_v6 env) \<noteq> []" "v = safe_session x"
      "length (fresh_attempts (q_rate_now env) (p2p_attempts s (device_id dev))) < RATE_LIMIT_PER_DEVICE"
      "p2p_attempts s' d = fresh_attempts (q_now env) (fresh_attempts (q_rate_now env) (p2p_attempts s d)
         @ (if d = device_id dev then [q_rate_now env] else []))"
      "p2p_sessions s' = put_session x (p2p_sessions (p2p_cleanup (q_now env) (snd (rate_limit (device_id dev) (q_rate_now env) s))))"
proof -
  have fr: "p2p_attempts (write_session_mirror s) d = p2p_attempts s d" for s
    by (simp add: p2p_attempts_def)
  show thesis
  proof (cases res)
    case (Inl e)
    with assms have "p2p_attempts s' d = p2p_attempts s d \<or> p2p_attempts s' d = fresh_attempts (q_rate_now env) (p2p_attempts s d)"
      by (auto simp: prepare_traversal_def guard_in_def Let_def rate_limit_def p2p_attempts_cleanup
          split: if_splits sum.splits)
    with Inl show thesis by (rule refused)
  next
    case (Inr v)
    let ?servers = "server_candidates (q_env env) (q_v6 env)"
    from assms Inr obtain dev c where 1: "p2p_authenticate (q_today env) st did tok = Inr dev"
      "validate_candidate ip port lp src = Inr c" "?servers \<noteq> []" "traversal_enabled (q_env env)"
      by (auto simp: prepare_traversal_def guard_in_def Let_def split: if_splits sum.splits)
    let ?s1 = "p2p_cleanup (q_rate_now env) s" and ?k = "device_id dev"
    have adm: "\<not> RATE_LIMIT_PER_DEVICE \<le> length (p2p_attempts ?s1 ?k)"
      using assms Inr 1 by (auto simp: prepare_traversal_def rate_limit_def Let_def split: if_splits)
    let ?s2 = "?s1\<lparr>device_attempts := (device_attempts ?s1)(?k \<mapsto> p2p_attempts ?s1 ?k @ [q_rate_now env])\<rparr>"
    let ?x = "new_p2p_session env dev c ?servers"
    have rl: "rate_limit ?k (q_rate_now env) s = (Inr (), ?s2)"
      using adm by (simp add: rate_limit_def Let_def)
    have v: "v = safe_session ?x" and s': "s' = p2p_audit (q_iso env) ''P2P_PREPARED'' ?x ''PREPARED'' None
        (write_session_mirror ((p2p_cleanup (q_now env) ?s2)\<lparr>p2p_sessions := put_session ?x (p2p_sessions (p2p_cleanup (q_now env) ?s2))\<rparr>))"
      using assms Inr 1 rl by (simp_all add: prepare_traversal_def Let_def)
    have "p2p_attempts s' d = p2p_attempts (p2p_cleanup (q_now env) ?s2) d"
      unfolding s' by (simp add: p2p_audit_def p2p_attempts_def)
    also have "\<dots> = fresh_attempts (q_now env) (fresh_attempts (q_rate_now env) (p2p_attempts s d)
         @ (if d = ?k then [q_rate_now env] else []))"
      unfolding p2p_attempts_cleanup by (simp add: p2p_attempts_def p2p_attempts_cleanup [unfolded p2p_attempts_def])
    finally have at: "p2p_attempts s' d = fresh_attempts (q_now env) (fresh_attempts (q_rate_now env) (p2p_attempts s d)
         @ (if d = ?k then [q_rate_now env] else []))" .
    have "p2p_sessions s' = put_session ?x (p2p_sessions (p2p_cleanup (q_now env) (snd (rate_limit ?k (q_rate_now env) s))))"
      unfolding s' rl by (simp add: p2p_audit_def)
    with Inr 1 v at adm show thesis
      by (intro admitted) (auto simp: p2p_attempts_cleanup)
  qed
qed

lemma granted_run:
  "p2p.tracks now h (p2p_attempts s d) \<Longrightarrow> clock_runs now rqs \<Longrightarrow>
     spaced RATE_LIMIT_PER_DEVICE RATE_WINDOW_SECONDS (h @ granted d rqs s)"
proof (induction rqs arbitrary: now h s)
  case Nil
  then show ?case using p2p.tracks_spaced by simp
next
  case (Cons rq rqs)
  obtain env st did tok ip port lp src where rq: "rq = (env, st, did, tok, ip, port, lp, src)" by (cases rq) auto
  let ?t = "q_rate_now env"
  have le: "now \<le> ?t" "?t \<le> q_now env" "clock_runs (q_now env) rqs" using Cons.prems(2) rq by auto
  obtain res s' where p: "prepare_traversal env st did tok ip port lp src s = (res, s')" by fastforce
  show ?case
  proof (cases rule: prepare_effect [OF p, where d = d])
    case (1 e)
    have "p2p.tracks (q_now env) h (p2p_attempts s' d)"
      using 1(2) p2p.tracks_later [OF p2p.tracks_later [OF Cons.prems(1) le(1)] le(2)]
        p2p.tracks_later [OF p2p.tracks_prune [OF Cons.prems(1) le(1)] le(2)] by auto
    from Cons.IH [OF this le(3)] show ?thesis using 1(1) rq p by simp
  next
    case (2 v x dev c)
    let ?q = "fresh_attempts ?t (p2p_attempts s d)"
    have t: "p2p.tracks ?t h ?q" by (rule p2p.tracks_prune [OF Cons.prems(1) le(1)])
    have dev: "t_device_id v = device_id dev"
      using 2(4,6) by (simp add: safe_session_def p2p_view.defs new_p2p_session_def)
    define h' where "h' = h @ (if d = device_id dev then [?t] else [])"
    have "p2p.tracks ?t h' (?q @ (if d = device_id dev then [?t] else []))"
      using t p2p.tracks_admit [OF t] 2(7) by (auto simp: h'_def)
    then have "p2p.tracks (q_now env) h' (p2p_attempts s' d)"
      unfolding 2(8) by (rule p2p.tracks_prune [OF _ le(2)])
    from Cons.IH [OF this le(3)] show ?thesis using 2(1) rq p dev by (cases "d = device_id dev") (simp_all add: h'_def)
  qed
qed

definition p2p_start :: p2p where
  "p2p_start = \<lparr>p2p_sessions = [], device_attempts = Map.empty, mirror = [], mirror_writable = True,
     p2p_log = [], wg_commands = []\<rparr>"

text \<open>
  C21. A device is given at most six traversal sessions a minute: over any history of requests,
  by whichever devices and with whatever registry, the seventh session given to one device
  comes at least 60 seconds after the first, as long as the clock does not go back.
\<close>

theorem traversal_sessions_rate_limited:
  assumes "clock_runs now rqs"
  shows "spaced 6 60 (granted d rqs p2p_start)"
proof -
  have "p2p.tracks now [] (p2p_attempts p2p_start d)" by (simp add: p2p_attempts_def p2p_start_def p2p.tracks_start)
  from granted_run [OF this assms] show ?thesis
    by (simp add: RATE_LIMIT_PER_DEVICE_def RATE_WINDOW_SECONDS_def)
qed

definition p2p_config :: "(string \<times> string) list" where
  "p2p_config = [(''PUBLIC_ENDPOINT'', ''192.0.1.9:51820'')]"

definition prepare_at :: "rat \<Rightarrow> string \<Rightarrow> prepare_request" where
  "prepare_at t r = (\<lparr>q_env = p2p_config, q_v6 = [], q_today = 739000, q_rate_now = t, q_now = t, q_iso = ''t'',
     q_random = r\<rparr>, demo_store, ''dev_1'', ''tokdev_1'', ''8.8.4.4'', 40000, None, ''stun'')"

theorem traversal_sessions_rate_limited_witness:
  "let rqs = map (\<lambda>t. prepare_at t ''a'') [0, 1, 2, 3, 4, 5, 6, 70] in
   granted ''dev_1'' rqs p2p_start = [0, 1, 2, 3, 4, 5, 70] \<and> spaced 6 60 (granted ''dev_1'' rqs p2p_start)"
proof -
  let ?rqs = "map (\<lambda>t. prepare_at t ''a'') [0, 1, 2, 3, 4, 5, 6, 70]"
  have "clock_runs 0 ?rqs" by (simp add: prepare_at_def)
  then have "spaced 6 60 (granted ''dev_1'' ?rqs p2p_start)" by (rule traversal_sessions_rate_limited)
  moreover have "granted ''dev_1'' ?rqs p2p_start = [0, 1, 2, 3, 4, 5, 70]" by code_simp
  ultimately show ?thesis unfolding Let_def by blast
qed

text \<open>A WireGuard interface: the peer's endpoint before, and the handshake time it reports: a new one after the first ping.\<close>

definition demo_runner :: wg_runner where
  "demo_runner past cmd =
     (if cmd = [''wg'', ''show'', ''wg0'', ''endpoints''] then (0, ''kdev_1 198.51.100.4:1000'')
      else if cmd = [''wg'', ''show'', ''wg0'', ''persistent-keepalive''] then (0, ''kdev_1 off'')
      else if cmd = [''wg'', ''show'', ''wg0'', ''latest-handshakes''] then
        (0, if 4 < length past then ''kdev_1 120'' else ''kdev_1 7'')
      else (0, []))"

definition demo_attempt :: attempt_env where
  "demo_attempt = \<lparr>u_runner = demo_runner, u_now = 100, u_started = 100, u_completed = 104, u_iso = ''t''\<rparr>"

definition demo_p2p :: p2p where
  "demo_p2p = p2p_start\<lparr>p2p_sessions := [new_p2p_session (fst (prepare_at 90 ''a'')) (demo_device ''dev_1'' ''phone'' ''10.88.0.2'')
     \<lparr>pc_ip = ''8.8.4.4'', pc_port = 40000, pc_local_port = None, pc_source = ''stun''\<rparr> [configured ''192.0.1.9:51820'']]\<rparr>"


text \<open>
  C19. A session is only given to an active device that presents its own token, for a candidate
  with a global address and valid ports; it lives 90 seconds from its creation, is stored
  under its identifier, and the endpoint it recommends is one of the server's.
\<close>

theorem session_only_for_authenticated_device:
  assumes "prepare_traversal env st did tok ip port lp src s = (Inr v, s')"
  shows "\<exists>d a. find_device did st = Some d \<and> device_is_active (q_today env) d \<and> token d = tok \<and> tok \<noteq> []
    \<and> t_device_id v = device_id d \<and> t_vpn_ip v = vpn_ip d \<and> t_status v = ''PREPARED''
    \<and> t_created v = q_now env \<and> t_expires v = t_created v + 90
    \<and> ip_address (py_strip ip) = Some a \<and> is_global a \<and> pc_ip (t_candidate v) = ip_str a
    \<and> valid_port (pc_port (t_candidate v)) \<and> (\<forall>l. pc_local_port (t_candidate v) = Some l \<longrightarrow> valid_port l)
    \<and> t_recommended v \<in> sc_endpoint ` set (server_candidates (q_env env) (q_v6 env))
    \<and> map_option safe_session (get_session (t_session_id v) s') = Some v"
proof (cases rule: prepare_effect [OF assms, where d = did])
  case (2 w x d c)
  note admitted = 2
  have auth: "find_device did st = Some d \<and> device_is_active (q_today env) d \<and> token d = tok \<and> tok \<noteq> []"
    using admitted(2) by (auto simp: p2p_authenticate_def compare_digest_def res_simps split: option.splits if_splits)
  obtain a where cand: "ip_address (py_strip ip) = Some a" "is_global a" "pc_ip c = ip_str a"
      "valid_port (pc_port c)" "\<forall>l. pc_local_port c = Some l \<longrightarrow> valid_port l"
    using admitted(3) by (auto simp: validate_candidate_def valid_port_def Let_def split: option.splits if_splits)
  have rec: "sc_endpoint (hd (server_candidates (q_env env) (q_v6 env))) \<in> sc_endpoint ` set (server_candidates (q_env env) (q_v6 env))"
    using admitted(5) by simp
  have put: "find (\<lambda>y. t_session_id y = t_session_id x) (put_session x xs) = Some x" for xs
  proof (cases "find (\<lambda>y. t_session_id y = t_session_id x) xs")
    case None
    then have "\<not> list_ex (\<lambda>y. t_session_id y = t_session_id x) xs" by (induction xs) (auto split: if_splits)
    then show ?thesis using None by (induction xs) (auto simp: put_session_def split: if_splits)
  next
    case (Some y)
    then have "list_ex (\<lambda>y. t_session_id y = t_session_id x) xs" by (induction xs) (auto split: if_splits)
    then show ?thesis unfolding put_session_def by (simp, induction xs) auto
  qed
  have "v = safe_session x" using admitted(1,6) by simp
  then have "get_session (t_session_id v) s' = Some x" and v: "v = safe_session x"
    using put admitted(9) by (simp_all add: get_session_def safe_session_def p2p_view.defs)
  then show ?thesis
    using auth cand rec admitted(4)
    by (intro exI [of _ d] exI [of _ a]) (simp add: new_p2p_session_def safe_session_def p2p_view.defs SESSION_TTL_SECONDS_def)
qed simp_all

theorem session_only_for_authenticated_device_witness:
  "\<exists>v s'. do_prepare (prepare_at 10 ''a'') p2p_start = (Inr v, s') \<and> t_expires v = t_created v + 90
     \<and> t_recommended v = ''192.0.1.9:51820''"
proof -
  let ?p = "do_prepare (prepare_at 10 ''a'') p2p_start"
  have "is_ok (fst ?p) \<and> (case ?p of (Inr v, _) \<Rightarrow> t_recommended v = ''192.0.1.9:51820'' | _ \<Rightarrow> False)" by code_simp
  moreover obtain res s' where p0: "?p = (res, s')" by fastforce
  ultimately obtain v where "res = Inr v" "t_recommended v = ''192.0.1.9:51820''"
    by (auto split: sum.splits)
  then have p: "?p = (Inr v, s')" "t_recommended v = ''192.0.1.9:51820''" using p0 by simp_all
  then have "t_expires v = t_created v + 90"
    using session_only_for_authenticated_device by (fastforce simp: prepare_at_def)
  with p show ?thesis by blast
qed

text \<open>
  A session's state is shown to its own device alone: whoever asks must authenticate, and
  gets only a session that carries its own identifier, is the one asked for and has not
  expired. Every other answer is the same refusal, so a foreign session looks like no session.
\<close>

theorem session_shown_to_owner_only:
  "traversal_status today now st did tok sid s = (case p2p_authenticate today st did tok of
      Inl e \<Rightarrow> (Inl e, s)
    | Inr d \<Rightarrow> (case get_session sid (p2p_cleanup now s) of
        Some x \<Rightarrow> (if t_device_id x = device_id d then Inr (safe_session x)
             else Inl (BridgeError ''Sessione P2P non trovata o scaduta.''), p2p_cleanup now s)
      | None \<Rightarrow> (Inl (BridgeError ''Sessione P2P non trovata o scaduta.''), p2p_cleanup now s)))
   \<and> (\<forall>x. get_session sid (p2p_cleanup now s) = Some x \<longrightarrow> now < t_expires x \<and> t_session_id x = sid \<and> x \<in> set (p2p_sessions s))"
proof -
  have "now < t_expires x \<and> t_session_id x = sid \<and> x \<in> set (p2p_sessions s)"
    if "get_session sid (p2p_cleanup now s) = Some x" for x
  proof -
    have "x \<in> set (p2p_sessions (p2p_cleanup now s))" "t_session_id x = sid"
      using that by (auto simp: get_session_def dest: find_Some_iff')
    then show ?thesis by auto
  qed
  then show ?thesis
    by (auto simp: traversal_status_def Let_def split: sum.split option.split)
qed

theorem session_shown_to_owner_only_witness:
  "fst (traversal_status 739000 100 demo_store ''dev_1'' ''tokdev_1'' ''p2p_a'' demo_p2p)
     = Inr (safe_session (hd (p2p_sessions demo_p2p)))
   \<and> fst (traversal_status 739000 100 demo_store ''dev_2'' ''tokdev_2'' ''p2p_a'' demo_p2p)
     = Inl (BridgeError ''Sessione P2P non trovata o scaduta.'')"
proof -
  let ?d1 = "demo_device ''dev_1'' ''phone'' ''10.88.0.2''" and ?d2 = "demo_device ''dev_2'' ''laptop'' ''10.88.0.3''"
  have a: "p2p_authenticate 739000 demo_store ''dev_1'' ''tokdev_1'' = Inr ?d1"
    "p2p_authenticate 739000 demo_store ''dev_2'' ''tokdev_2'' = Inr ?d2" by code_simp+
  have g: "get_session ''p2p_a'' (p2p_cleanup 100 demo_p2p) = Some (hd (p2p_sessions demo_p2p))" by code_simp
  have i: "t_device_id (hd (p2p_sessions demo_p2p)) = ''dev_1''" "device_id ?d1 = ''dev_1''" "device_id ?d2 = ''dev_2''"
    by code_simp+
  show ?thesis
    using session_shown_to_owner_only [of 739000 100 demo_store "''dev_1''" "''tokdev_1''" "''p2p_a''" demo_p2p]
      session_shown_to_owner_only [of 739000 100 demo_store "''dev_2''" "''tokdev_2''" "''p2p_a''" demo_p2p] a g i
    by simp
qed

end
