(* ===== verification/PairingServer.thy ===== *)
theory PairingServer
  imports P2P RelayClient
begin

text \<open>
  \<open>ge360_bridge/pairing_server.py\<close>: the public HTTPS endpoint of enrollment and of the P2P
  traversal. The parsed request, the clock, the random values and the outcome of the two
  synchronisations after an enrollment are arguments; the state is the registry with its
  enrollments, the traversal sessions and the request times kept per source address.
\<close>

definition MAX_BODY :: int where "MAX_BODY = 8192"
definition RATE_LIMIT :: nat where "RATE_LIMIT = 20"
definition PAIRING_WINDOW_SECONDS :: rat where "PAIRING_WINDOW_SECONDS = 60"

record server_state =
  sv_pairing :: pairing_state
  sv_p2p :: p2p
  sv_attempts :: "string \<Rightarrow> rat list"

definition prune_requests :: "rat \<Rightarrow> rat list \<Rightarrow> rat list" where
  "prune_requests now q = dropWhile (\<lambda>t. PAIRING_WINDOW_SECONDS < now - t) q"

definition allowed_request :: "string \<Rightarrow> rat \<Rightarrow> server_state \<Rightarrow> bool \<times> server_state" where
  "allowed_request ip now s = (let q = prune_requests now (sv_attempts s ip) in
     if RATE_LIMIT \<le> length q then (False, s\<lparr>sv_attempts := (sv_attempts s)(ip := q)\<rparr>)
     else (True, s\<lparr>sv_attempts := (sv_attempts s)(ip := q @ [now])\<rparr>))"

section \<open>Requests and answers\<close>

text \<open>
  The parsed body; a text field is what \<open>str\<close> makes of the JSON value, and a candidate that is
  not an object is None.
\<close>

record candidate_body =
  cb_ip :: string
  cb_port :: num_arg
  cb_local_port :: "num_arg option"
  cb_source :: string

record post_body =
  pb_enrollment_id :: string
  pb_token :: string
  pb_public_key :: string
  pb_device_id :: string
  pb_device_token :: string
  pb_session_id :: string
  pb_candidate :: "candidate_body option"

datatype request_body = Unreadable | NotAnObject | Parsed post_body

datatype answer =
    Healthy
  | Refused int string
  | Enrolled enroll_response bool bool
  | Session p2p_view
  | Crashed py_error \<comment> \<open>an exception the handler does not catch\<close>

record post_env =
  h_now :: rat
  h_key :: "byte list"
  h_consume :: consume_env
  h_prepare :: prepare_env
  h_runtime_sync :: "int option" \<comment> \<open>the return code of \<open>device-sync\<close>, None when it does not run\<close>
  h_relay_configured :: bool
  h_relay_sync :: bool

definition answer_error :: "py_error \<Rightarrow> answer" where
  \<comment> \<open>the exceptions caught around a traversal request\<close>
  "answer_error e = (case e of
       BridgeError m \<Rightarrow> Refused 403 m
     | ValueError m \<Rightarrow> Refused 403 m
     | TypeError \<Rightarrow> Refused 403 (error_text TypeError)
     | _ \<Rightarrow> Crashed e)"

definition pairing_GET :: "string \<Rightarrow> answer" where
  "pairing_GET path = (if path = ''/healthz'' then Healthy else Refused 404 ''not_found'')"

definition body_size :: "string option \<Rightarrow> int" where
  "body_size header = (case py_int (case header of None \<Rightarrow> ''0'' | Some v \<Rightarrow> v) of None \<Rightarrow> 0 | Some i \<Rightarrow> i)"

definition post_enroll :: "post_env \<Rightarrow> post_body \<Rightarrow> server_state \<Rightarrow> answer \<times> server_state" where
  "post_enroll env b s =
     (case consume_enrollment (h_key env) (h_consume env) (pb_enrollment_id b) (pb_token b) (pb_public_key b) (sv_pairing s) of
        (Inl (BridgeError m), ps) \<Rightarrow>
          (Refused (if contains_str ''Public key'' m then 400 else 403) m, s\<lparr>sv_pairing := ps\<rparr>)
      | (Inl e, ps) \<Rightarrow> (Crashed e, s\<lparr>sv_pairing := ps\<rparr>)
      | (Inr r, ps) \<Rightarrow> (Enrolled r (h_runtime_sync env = Some 0) (h_relay_configured env \<and> h_relay_sync env),
          s\<lparr>sv_pairing := ps\<rparr>))"

definition local_port_arg :: "num_arg option \<Rightarrow> int option res" where
  "local_port_arg v = (case v of None \<Rightarrow> Inr None | Some a \<Rightarrow> rbind (py_int_arg a) (\<lambda>i. Inr (Some i)))"

definition post_prepare :: "post_env \<Rightarrow> post_body \<Rightarrow> server_state \<Rightarrow> answer \<times> server_state" where
  "post_prepare env b s = (case pb_candidate b of
       None \<Rightarrow> (answer_error (BridgeError ''Candidato P2P mancante.''), s)
     | Some c \<Rightarrow>
       (case rbind (py_int_arg (cb_port c)) (\<lambda>p. rbind (local_port_arg (cb_local_port c)) (\<lambda>l. Inr (p, l))) of
          Inl e \<Rightarrow> (answer_error e, s)
        | Inr (p, l) \<Rightarrow>
          (case prepare_traversal (h_prepare env) (registry_of (sv_pairing s)) (pb_device_id b) (pb_device_token b)
                 (cb_ip c) p l (cb_source c) (sv_p2p s) of
             (Inl e, t) \<Rightarrow> (answer_error e, s\<lparr>sv_p2p := t\<rparr>)
           | (Inr v, t) \<Rightarrow> (Session v, s\<lparr>sv_p2p := t\<rparr>))))"

definition post_status :: "post_env \<Rightarrow> post_body \<Rightarrow> server_state \<Rightarrow> answer \<times> server_state" where
  "post_status env b s =
     (case traversal_status (q_today (h_prepare env)) (h_now env) (registry_of (sv_pairing s))
            (pb_device_id b) (pb_device_token b) (pb_session_id b) (sv_p2p s) of
        (Inl e, t) \<Rightarrow> (answer_error e, s\<lparr>sv_p2p := t\<rparr>)
      | (Inr v, t) \<Rightarrow> (Session v, s\<lparr>sv_p2p := t\<rparr>))"

definition POST_PATHS :: "string list" where
  "POST_PATHS = [''/v2/enroll'', ''/v3/traversal/prepare'', ''/v3/traversal/status'']"

definition pairing_POST ::
  "post_env \<Rightarrow> string \<Rightarrow> string \<Rightarrow> string option \<Rightarrow> request_body \<Rightarrow> server_state \<Rightarrow> answer \<times> server_state" where
  "pairing_POST env path ip content_length body s =
     (if path \<notin> set POST_PATHS then (Refused 404 ''not_found'', s)
      else (case allowed_request ip (h_now env) s of
        (False, s) \<Rightarrow> (Refused 429 ''rate_limited'', s)
      | (True, s) \<Rightarrow>
        if body_size content_length \<le> 0 \<or> MAX_BODY < body_size content_length
        then (Refused 400 ''invalid_request'', s)
        else (case body of
            Unreadable \<Rightarrow> (Refused 400 ''invalid_json'', s)
          | NotAnObject \<Rightarrow> (Refused 400 ''invalid_json'', s)
          | Parsed b \<Rightarrow>
            if path = ''/v2/enroll'' then post_enroll env b s
            else if path = ''/v3/traversal/prepare'' then post_prepare env b s
            else post_status env b s)))"

section \<open>The request limit\<close>

interpretation requests: sliding_window prune_requests RATE_LIMIT PAIRING_WINDOW_SECONDS
  unfolding prune_requests_def by unfold_locales (rule dropWhile_prune, simp)

type_synonym post = "post_env \<times> string \<times> string \<times> string option \<times> request_body"

fun do_post :: "post \<Rightarrow> server_state \<Rightarrow> answer \<times> server_state" where
  "do_post (env, path, ip, len, body) s = pairing_POST env path ip len body s"

fun answered :: "string \<Rightarrow> post list \<Rightarrow> server_state \<Rightarrow> rat list" where
  \<comment> \<open>the times of the requests from an address that got past the path and the limit\<close>
  "answered ip [] s = []"
| "answered ip (p # ps) s = (case do_post p s of (a, s) \<Rightarrow>
     (if fst (snd (snd p)) = ip \<and> fst (snd p) \<in> set POST_PATHS \<and> a \<noteq> Refused 429 ''rate_limited''
      then [h_now (fst p)] else []) @ answered ip ps s)"

lemma post_frames:
  "sv_attempts (snd (post_enroll env b s)) = sv_attempts s"
  "sv_attempts (snd (post_prepare env b s)) = sv_attempts s"
  "sv_attempts (snd (post_status env b s)) = sv_attempts s"
  by (auto simp: post_enroll_def post_prepare_def post_status_def split: prod.split sum.split option.split py_error.split)

lemma post_not_limited:
  "fst (post_enroll env b s) \<noteq> Refused 429 m" "fst (post_prepare env b s) \<noteq> Refused 429 m"
  "fst (post_status env b s) \<noteq> Refused 429 m"
  by (auto simp: post_enroll_def post_prepare_def post_status_def answer_error_def
      split: prod.split sum.split option.split py_error.split)

lemma pairing_POST_attempts:
  assumes "pairing_POST env path ip len body s = (a, s')" and "path \<in> set POST_PATHS"
  defines "q \<equiv> prune_requests (h_now env) (sv_attempts s ip)"
  shows "if RATE_LIMIT \<le> length q
    then a = Refused 429 ''rate_limited'' \<and> sv_attempts s' = (sv_attempts s)(ip := q)
    else a \<noteq> Refused 429 ''rate_limited'' \<and> sv_attempts s' = (sv_attempts s)(ip := q @ [h_now env])"
proof (cases "RATE_LIMIT \<le> length q")
  case True
  with assms show ?thesis by (auto simp: pairing_POST_def allowed_request_def Let_def)
next
  case False
  let ?s = "s\<lparr>sv_attempts := (sv_attempts s)(ip := q @ [h_now env])\<rparr>"
  have al: "allowed_request ip (h_now env) s = (True, ?s)"
    using False by (simp add: allowed_request_def Let_def q_def)
  have "(a, s') = (fst (a, s'), snd (a, s'))" by simp
  with assms(1,2) al have "a \<noteq> Refused 429 ''rate_limited'' \<and> sv_attempts s' = sv_attempts ?s"
    using post_frames [where s = ?s and env = env] post_not_limited [where s = ?s and env = env]
    by (auto simp: pairing_POST_def split: if_splits request_body.splits) (metis fst_conv snd_conv)+
  with False show ?thesis by simp
qed

definition server_start :: "pairing_state \<Rightarrow> server_state" where
  "server_start ps = \<lparr>sv_pairing = ps, sv_p2p = p2p_start, sv_attempts = (\<lambda>_. [])\<rparr>"

lemma answered_run:
  "requests.tracks now h (sv_attempts s ip) \<Longrightarrow> sorted (now # map (\<lambda>p. h_now (fst p)) ps) \<Longrightarrow>
     spaced RATE_LIMIT PAIRING_WINDOW_SECONDS (h @ answered ip ps s)"
proof (induction ps arbitrary: now h s)
  case Nil
  then show ?case using requests.tracks_spaced by simp
next
  case (Cons p ps)
  obtain env path src len body where p: "p = (env, path, src, len, body)" by (cases p) auto
  obtain a s' where post: "pairing_POST env path src len body s = (a, s')" by fastforce
  have le: "now \<le> h_now env" "sorted (h_now env # map (\<lambda>p. h_now (fst p)) ps)"
    using Cons.prems(2) p by auto
  show ?case
  proof (cases "src = ip \<and> path \<in> set POST_PATHS")
    case False
    have "sv_attempts s' ip = sv_attempts s ip"
    proof (cases "path \<in> set POST_PATHS")
      case True
      with False show ?thesis using pairing_POST_attempts [OF post True] by (auto split: if_splits)
    qed (use post in \<open>auto simp: pairing_POST_def\<close>)
    then have "requests.tracks (h_now env) h (sv_attempts s' ip)"
      using requests.tracks_later [OF Cons.prems(1) le(1)] by simp
    from Cons.IH [OF this le(2)] show ?thesis using p post False by auto
  next
    case True
    then have src: "src = ip" and pth: "path \<in> set POST_PATHS" by simp_all
    note att = pairing_POST_attempts [OF post pth, unfolded src]
    have t: "requests.tracks (h_now env) h (prune_requests (h_now env) (sv_attempts s ip))"
      by (rule requests.tracks_prune [OF Cons.prems(1) le(1)])
    show ?thesis
    proof (cases "RATE_LIMIT \<le> length (prune_requests (h_now env) (sv_attempts s ip))")
      case lim: True
      then have "requests.tracks (h_now env) h (sv_attempts s' ip)" using att t by simp
      from Cons.IH [OF this le(2)] show ?thesis using p post True att lim by simp
    next
      case lim: False
      then have "requests.tracks (h_now env) (h @ [h_now env]) (sv_attempts s' ip)"
        using att requests.tracks_admit [OF t] by simp
      from Cons.IH [OF this le(2)] show ?thesis using p post True att lim by simp
    qed
  qed
qed

section \<open>What the public endpoint promises\<close>

text \<open>
  The endpoint handles at most twenty requests a minute from one address: over any run of
  requests, with whatever bodies and from whichever addresses, the twenty-first one handled
  for an address comes at least 60 seconds after the first, as long as the clock does not go
  back.
\<close>

theorem pairing_requests_rate_limited:
  assumes "sorted (map (\<lambda>p. h_now (fst p)) ps)"
  shows "spaced 20 60 (answered ip ps (server_start st))"
proof (cases ps)
  case Nil
  then show ?thesis by (simp add: spaced_def)
next
  case (Cons p qs)
  have "requests.tracks (h_now (fst p)) [] (sv_attempts (server_start st) ip)"
    by (simp add: server_start_def requests.tracks_start)
  from answered_run [OF this, of ps] assms Cons show ?thesis
    by (simp add: RATE_LIMIT_def PAIRING_WINDOW_SECONDS_def)
qed

definition probe_env :: "rat \<Rightarrow> post_env" where
  "probe_env t = \<lparr>h_now = t, h_key = demo_key, h_consume = demo_env, h_prepare = fst (prepare_at t ''a''),
     h_runtime_sync = None, h_relay_configured = False, h_relay_sync = False\<rparr>"

theorem pairing_requests_rate_limited_witness:
  "let ps = map (\<lambda>i. (probe_env (rat_of_nat i), ''/v2/enroll'', ''192.0.2.7'', Some ''2'', Unreadable)) [0..<22] in
   length (answered ''192.0.2.7'' ps (server_start empty_pairing)) = 20
   \<and> spaced 20 60 (answered ''192.0.2.7'' ps (server_start empty_pairing))"
proof -
  let ?ps = "map (\<lambda>i. (probe_env (rat_of_nat i), ''/v2/enroll'', ''192.0.2.7'', Some ''2'', Unreadable)) [0..<22]"
  have "sorted (map (\<lambda>p. h_now (fst p)) ?ps)"
    by (simp add: probe_env_def comp_def sorted_map sorted_wrt_upt upt_rec)
  then have "spaced 20 60 (answered ''192.0.2.7'' ?ps (server_start empty_pairing))"
    by (rule pairing_requests_rate_limited)
  moreover have "length (answered ''192.0.2.7'' ?ps (server_start empty_pairing)) = 20" by code_simp
  ultimately show ?thesis unfolding Let_def by blast
qed

text \<open>
  Only a well-formed request reaches the registry and the sessions: with an unknown path,
  past the limit, with a missing, malformed or oversized length or without a JSON object as
  its body, a request is answered 404, 429 or 400 and changes neither. Only an enrollment
  can change the registry, and a crash of the handler never does.
\<close>

theorem only_wellformed_requests_act:
  assumes "pairing_POST env path ip len body s = (a, s')"
  shows "((path \<in> set POST_PATHS \<and> length (prune_requests (h_now env) (sv_attempts s ip)) < 20
        \<and> 0 < body_size len \<and> body_size len \<le> 8192 \<and> (\<exists>b. body = Parsed b))
      \<or> (\<exists>m. a \<in> {Refused 404 m, Refused 429 m, Refused 400 m}) \<and> sv_pairing s' = sv_pairing s \<and> sv_p2p s' = sv_p2p s)
    \<and> (path \<noteq> ''/v2/enroll'' \<longrightarrow> sv_pairing s' = sv_pairing s)"
proof (rule conjI)
  show "path \<noteq> ''/v2/enroll'' \<longrightarrow> sv_pairing s' = sv_pairing s"
    using assms
    by (auto simp: pairing_POST_def allowed_request_def Let_def post_prepare_def post_status_def
        split: if_splits request_body.splits prod.splits sum.splits option.splits)
  show "(path \<in> set POST_PATHS \<and> length (prune_requests (h_now env) (sv_attempts s ip)) < 20
      \<and> 0 < body_size len \<and> body_size len \<le> 8192 \<and> (\<exists>b. body = Parsed b))
    \<or> (\<exists>m. a \<in> {Refused 404 m, Refused 429 m, Refused 400 m}) \<and> sv_pairing s' = sv_pairing s \<and> sv_p2p s' = sv_p2p s"
    using assms
    by (cases body) (auto simp: pairing_POST_def allowed_request_def Let_def RATE_LIMIT_def MAX_BODY_def
        not_le not_less split: if_splits)
qed

definition sample_body :: post_body where
  "sample_body = \<lparr>pb_enrollment_id = [], pb_token = [], pb_public_key = [], pb_device_id = ''dev_1'',
     pb_device_token = ''tokdev_1'', pb_session_id = [], pb_candidate =
       Some \<lparr>cb_ip = ''8.8.4.4'', cb_port = NInt 40000, cb_local_port = None, cb_source = ''stun''\<rparr>\<rparr>"

theorem only_wellformed_requests_act_witness:
  "let p = pairing_POST (probe_env 5) ''/v3/traversal/prepare'' ''192.0.2.7'' (Some ''9000'') (Parsed sample_body)
     (server_start empty_pairing) in
   sv_p2p (snd p) = p2p_start \<and> sv_pairing (snd p) = empty_pairing"
proof -
  let ?p = "pairing_POST (probe_env 5) ''/v3/traversal/prepare'' ''192.0.2.7'' (Some ''9000'') (Parsed sample_body)
     (server_start empty_pairing)"
  have big: "\<not> body_size (Some ''9000'') \<le> 8192" by code_simp
  have s: "sv_p2p (server_start empty_pairing) = p2p_start" "sv_pairing (server_start empty_pairing) = empty_pairing"
    by (simp_all add: server_start_def)
  show ?thesis
    using only_wellformed_requests_act [where env = "probe_env 5" and path = "''/v3/traversal/prepare''" and ip = "''192.0.2.7''"
        and len = "Some ''9000''" and body = "Parsed sample_body" and s = "server_start empty_pairing", OF surjective_pairing] big
    unfolding Let_def s by blast
qed

text \<open>
  A candidate port of \<open>Infinity\<close>, which Python's JSON parser accepts, makes \<open>int\<close> raise an
  OverflowError that the handler does not catch.
\<close>

lemma infinite_port_crashes:
  assumes "pb_candidate b = Some c" and "cb_port c = NFloat PInf"
  shows "post_prepare env b s = (Crashed OverflowError, s)"
  using assms by (simp add: post_prepare_def answer_error_def rbind_def)

end
