(* ===== verification/Launcher.thy ===== *)
theory Launcher
  imports Acl Health
begin

text \<open>
  \<open>ge360_bridge/launcher.py\<close>: what a device sees of its Resources, as the list the status API
  returns, as the combined catalog of several servers, and as the HTML page of the hub. The
  page is the string the code builds, character by character, so that escaping can be proved.
\<close>

definition BRIDGE_IP :: string where "BRIDGE_IP = ''10.88.0.1''"

section \<open>The Resources of a device\<close>

record launch_item =
  li_name :: string
  li_icon :: string
  li_description :: string
  li_protocol :: string
  li_bridge_port :: int
  li_url :: string
  li_launchable :: bool
  li_health :: "health option"

definition launch_url :: "resource \<Rightarrow> string" where
  "launch_url r = py_lower (protocol r) @ ''://'' @ BRIDGE_IP @ '':'' @ int_str (bridge_port r)"

definition health_by_name :: "health list \<Rightarrow> string \<Rightarrow> health option" where
  \<comment> \<open>the dict comprehension keeps the last result of a name\<close>
  "health_by_name hs = map_of (rev (map (\<lambda>h. (h_name h, h)) hs))"

definition launch_item_of :: "health list \<Rightarrow> resource \<Rightarrow> launch_item" where
  "launch_item_of hs r = (let p = py_lower (protocol r) in
     \<lparr>li_name = r_name r, li_icon = icon r, li_description = r_description r, li_protocol = p,
      li_bridge_port = bridge_port r, li_url = launch_url r, li_launchable = (p \<in> {''http'', ''https''}),
      li_health = health_by_name hs (r_name r)\<rparr>)"

definition resources_for_launcher ::
  "nat \<Rightarrow> device \<Rightarrow> resource list \<Rightarrow> group list \<Rightarrow> health list \<Rightarrow> launch_item list" where
  "resources_for_launcher today d resources groups hs =
     map (launch_item_of hs) (effective_resources_for_device today d resources groups)"

record launcher_body =
  lp_device :: string
  lp_device_id :: string
  lp_vpn_ip :: string
  lp_resources :: "launch_item list"

definition launcher_payload :: "device \<Rightarrow> launch_item list \<Rightarrow> launcher_body" where
  "launcher_payload d rs = \<lparr>lp_device = d_name d, lp_device_id = device_id d, lp_vpn_ip = vpn_ip d, lp_resources = rs\<rparr>"

section \<open>The catalog of several servers\<close>

text \<open>Of an entry of the catalog the launcher reads whether it is local and its name; the rest is passed on.\<close>

record 'x catalog_item =
  ci_local :: bool
  ci_name :: "string option"
  ci_rest :: 'x

record ('x, 's) catalog =
  cg_control_server :: "string option"
  cg_servers :: 's
  cg_resources :: "'x catalog_item list"

record ('x, 's) catalog_payload =
  cp_device :: string
  cp_device_id :: string
  cp_control_server :: "string option"
  cp_servers :: 's
  cp_resources :: "'x catalog_item list"
  cp_remote_proxy :: bool

definition multi_server_catalog_payload ::
  "device \<Rightarrow> launch_item list \<Rightarrow> ('x, 's) catalog \<Rightarrow> ('x, 's) catalog_payload" where
  "multi_server_catalog_payload d items c =
     \<lparr>cp_device = d_name d, cp_device_id = device_id d, cp_control_server = cg_control_server c,
      cp_servers = cg_servers c,
      cp_resources = filter (\<lambda>i. \<not> (ci_local i \<and> ci_name i \<notin> Some ` set (map li_name items))) (cg_resources c),
      cp_remote_proxy = False\<rparr>"

section \<open>The hub page\<close>

definition esc_char :: "char \<Rightarrow> string" where
  "esc_char c = (if c = CHR ''&'' then ''&amp;'' else if c = CHR ''<'' then ''&lt;''
     else if c = CHR ''>'' then ''&gt;'' else if ord_of c = 34 then ''&quot;''
     else if ord_of c = 39 then ''&#x27;'' else [c])"

definition esc :: "string \<Rightarrow> string" where
  \<comment> \<open>\<open>html.escape(x, quote=True)\<close>\<close>
  "esc s = concat (map esc_char s)"

definition hub_action :: "launch_item \<Rightarrow> string" where
  "hub_action r = (if li_launchable r
     then ''<a class='open' href='' @ [CHR 0x27] @ esc (li_url r) @ [CHR 0x27] @ ''>Apri</a>''
     else ''<span class='endpoint'>'' @ esc (li_url r) @ ''</span>'')"

definition hub_card :: "launch_item \<Rightarrow> string" where
  "hub_card r = ''<article class='card'>'' @ ''<div class='icon'>'' @ esc (li_icon r) @ ''</div>'' @
     ''<h2>'' @ esc (li_name r) @ ''</h2>'' @
     ''<p>'' @ esc (str_or (li_description r) ''GE360 Resource'') @ ''</p>'' @
     ''<div class='state'>'' @ esc (case li_health r of None \<Rightarrow> ''UNKNOWN'' | Some h \<Rightarrow> h_state h) @ ''</div>'' @
     hub_action r @ ''</article>''"

text \<open>The fixed text of the page: up to the device line, from there to the cards, and after them.\<close>

definition HUB_HEAD :: string where
  "HUB_HEAD =
     ''<!doctype html>'' @
     [CHR 0x0A] @
     ''<html lang='it'><head><meta charset='utf-8'><meta name='viewport' content='width=device-width,in'' @
     ''itial-scale=1'>'' @
     [CHR 0x0A] @
     ''<title>GE360 HUB</title>'' @
     [CHR 0x0A] @
     ''<style>'' @
     [CHR 0x0A] @
     '':root{color-scheme:dark}*{box-sizing:border-box}body{margin:0;background:#07111f;color:#eef6ff;f'' @
     ''ont:15px system-ui}main{max-width:980px;margin:auto;padding:22px}header{margin-bottom:20px}.m{co'' @
     ''lor:#91a7bd}.grid{display:grid;grid-template-columns:repeat(auto-fit,minmax(220px,1fr));gap:14px'' @
     ''}.card{background:#0d1b2a;border:1px solid #203b58;border-radius:16px;padding:18px}.icon{font-si'' @
     ''ze:26px}h2{margin:8px 0}p{color:#91a7bd;min-height:38px}.state{font-size:12px;margin:10px 0}.ope'' @
     ''n{display:inline-block;background:#116aa9;color:white;text-decoration:none;padding:9px 13px;bord'' @
     ''er-radius:9px}.endpoint{font:12px monospace;word-break:break-all}.empty{padding:20px;border:1px '' @
     ''dashed #203b58;border-radius:14px}'' @
     [CHR 0x0A] @
     ''</style></head><body><main><header><h1>GE360 HUB</h1><div class='m'>Device: ''"

definition HUB_MIDDLE :: string where
  "HUB_MIDDLE = ''</div></header>'' @
     [CHR 0x0A] @
     ''<div class='grid'>''"

definition HUB_TAIL :: string where
  "HUB_TAIL = ''</div></main></body></html>''"

definition HUB_EMPTY :: string where
  "HUB_EMPTY = ''<div class='empty'>Nessuna Resource autorizzata per questo dispositivo.</div>''"

definition render_hub :: "device \<Rightarrow> launch_item list \<Rightarrow> string" where
  "render_hub d rs = HUB_HEAD @ esc (d_name d) @ '' '' @ [CHR 0xB7] @ '' '' @ esc (vpn_ip d) @ HUB_MIDDLE @
     (if rs = [] then HUB_EMPTY else concat (map hub_card rs)) @ HUB_TAIL"

section \<open>What the hub promises\<close>

definition markup :: "string \<Rightarrow> string" where
  \<comment> \<open>the characters that can open or close a tag or an attribute\<close>
  "markup s = filter (\<lambda>c. c \<in> {CHR ''<'', CHR ''>'', CHR 0x22, CHR 0x27}) s"

lemma markup_simps [simp]:
  "markup [] = []" "markup (xs @ ys) = markup xs @ markup ys"
  by (simp_all add: markup_def)

lemma markup_esc [simp]: "markup (esc s) = []"
proof (induction s)
  case (Cons c s)
  have "markup (esc_char c) = []" by (auto simp: esc_char_def markup_def ord_of_def)
  then show ?case using Cons by (simp add: esc_def)
qed (simp add: esc_def)

lemma markup_concat: "markup (concat xss) = concat (map markup xss)"
  by (induction xss) auto

lemma markup_card: "markup (hub_card r) = markup (hub_card r')" if "li_launchable r = li_launchable r'"
  using that by (cases "li_launchable r'") (simp_all only: hub_card_def hub_action_def markup_simps markup_esc if_True if_False)

text \<open>
  Nothing a registry holds can add markup to the hub page: the tags and attribute quotes of
  the page depend only on how many Resources there are and which of them are launchable, not
  on any name, icon, description, state, URL or device.
\<close>

theorem hub_markup_fixed:
  assumes "map li_launchable rs = map li_launchable rs'"
  shows "markup (render_hub d rs) = markup (render_hub d' rs')"
proof -
  have "map (\<lambda>r. markup (hub_card r)) rs = map (\<lambda>r. markup (hub_card r)) rs'"
    using assms
  proof (induction rs arbitrary: rs')
    case (Cons r rs)
    then obtain r' rs'' where "rs' = r' # rs''" "li_launchable r = li_launchable r'"
      "map li_launchable rs = map li_launchable rs''" by (cases rs') auto
    then show ?case using Cons.IH markup_card [of r r'] by simp
  qed simp
  then have cards: "markup (concat (map hub_card rs)) = markup (concat (map hub_card rs'))"
    by (simp only: markup_concat map_map comp_def)
  have "rs = [] \<longleftrightarrow> rs' = []" using assms by (metis map_is_Nil_conv)
  then have "markup (if rs = [] then HUB_EMPTY else concat (map hub_card rs))
      = markup (if rs' = [] then HUB_EMPTY else concat (map hub_card rs'))"
    using cards by (cases "rs = []") (simp_all only: if_True if_False simp_thms)
  then show ?thesis by (simp only: render_hub_def markup_simps markup_esc)
qed

theorem hub_markup_fixed_witness:
  "let item = (\<lambda>n. \<lparr>li_name = n, li_icon = ''server'', li_description = [], li_protocol = ''http'', li_bridge_port = 9001,
       li_url = ''http://10.88.0.1:9001'', li_launchable = True, li_health = None\<rparr>) in
   markup (render_hub (demo_device ''dev_1'' ''phone'' ''10.88.0.2'') [item ''<script>''])
     = markup (render_hub (demo_device ''dev_1'' ''phone'' ''10.88.0.2'') [item ''web''])"
  unfolding Let_def by (rule hub_markup_fixed) simp

text \<open>
  The launcher shows a device exactly the enabled Resources its address is admitted to, each
  with the URL of the bridge port and its own latest health result.
\<close>

theorem launcher_matches_acl:
  assumes "d \<in> set devices" and "r \<in> set resources" and "distinct (map r_name resources)"
    and "distinct (map vpn_ip devices)"
  shows "r_name r \<in> li_name ` set (resources_for_launcher today d resources groups hs)
    \<longleftrightarrow> r_enabled r \<and> vpn_ip d \<in> allowed_ips_for_resource today r devices groups"
proof -
  have ip: "vpn_ip d \<in> allowed_ips_for_resource today r devices groups \<longleftrightarrow> resource_allows_device today r d groups"
    using assms(1,4) by (auto simp: allowed_ips_for_resource_def distinct_map dest: inj_onD)
  have nm: "li_name (launch_item_of hs r) = r_name r" for r by (simp add: launch_item_of_def Let_def)
  have "r_name r \<in> li_name ` set (resources_for_launcher today d resources groups hs)
      \<longleftrightarrow> (\<exists>x\<in>set resources. r_name x = r_name r \<and> r_enabled x \<and> resource_allows_device today x d groups)"
    by (simp add: resources_for_launcher_def effective_resources_for_device_def nm image_image image_iff eq_commute [of "r_name r"] conj_comms)
       (auto simp: conj_comms)
  also have "\<dots> \<longleftrightarrow> r_enabled r \<and> resource_allows_device today r d groups"
    using assms(2,3) by (metis distinct_map inj_onD)
  finally show ?thesis using ip by simp
qed

theorem launcher_matches_acl_witness:
  "''web'' \<in> li_name ` set (resources_for_launcher 739000 (demo_device ''dev_1'' ''phone'' ''10.88.0.2'')
      (list_resources demo_store) (list_groups demo_store) [])"
proof -
  let ?d = "demo_device ''dev_1'' ''phone'' ''10.88.0.2''"
  have h: "?d \<in> set (list_devices demo_store)" "distinct (map r_name (list_resources demo_store))"
    "distinct (map vpn_ip (list_devices demo_store))" "hd (list_resources demo_store) \<in> set (list_resources demo_store)"
    "r_name (hd (list_resources demo_store)) = ''web''" "r_enabled (hd (list_resources demo_store))"
    "resource_allows_device 739000 (hd (list_resources demo_store)) ?d (list_groups demo_store)"
    by code_simp+
  then have "vpn_ip ?d \<in> allowed_ips_for_resource 739000 (hd (list_resources demo_store)) (list_devices demo_store) (list_groups demo_store)"
    by (auto simp: allowed_ips_for_resource_def)
  with launcher_matches_acl [OF h(1,4,2,3), where today = 739000 and groups = "list_groups demo_store" and hs = "[]"] h(5,6)
  show ?thesis by simp
qed

end
