(* ===== verification/Daemon.thy ===== *)
theory Daemon
  imports Launcher RegistryOps
begin

text \<open>
  \<open>ge360_bridge/daemon.py\<close>: the process between the VPN and the backends. Which connections it
  admits and how it records them, the status service on port 8788, and the monitor that turns
  changes of state into audit events. The network, the clock, the output of \<open>wg\<close> and the health
  results are arguments.
\<close>

definition BIND_HOST :: string where "BIND_HOST = ''10.88.0.1''"
definition HEALTH_PORT :: int where "HEALTH_PORT = 8788"

section \<open>Forwarding bytes\<close>

text \<open>One turn of the copy loop: a chunk and whether the drain after it succeeds, or a read that raises.\<close>

datatype pipe_event = Chunk string bool | ReadFails

fun pipe :: "pipe_event list \<Rightarrow> string list" where
  \<comment> \<open>the chunks handed to the writer; an empty chunk is the end of the stream\<close>
  "pipe [] = []"
| "pipe (ReadFails # evs) = []"
| "pipe (Chunk bs drained # evs) =
     (if bs = [] then [] else if drained then bs # pipe evs else [bs])"

section \<open>A connection to a Resource\<close>

datatype connection = Denied | TargetFailed | Relayed

record connect_env =
  n_iso :: string
  n_error :: "string option" \<comment> \<open>the exception class when the backend cannot be reached\<close>
  n_elapsed :: rat

definition access_args :: "store \<Rightarrow> resource \<Rightarrow> string \<Rightarrow> event_args" where
  "access_args st r peer_ip = (let d = find (\<lambda>d. vpn_ip d = peer_ip) (list_devices st) in
     no_args\<lparr>e_device_id := map_option device_id d, e_device_name := map_option d_name d,
       e_resource := Some (r_name r), e_action := Some ''tcp_connect'', e_ip := some_if (Some peer_ip)\<rparr>)"

definition handle_client ::
  "connect_env \<Rightarrow> store \<Rightarrow> resource \<Rightarrow> string set \<Rightarrow> string \<Rightarrow> audit_db \<Rightarrow> connection res \<times> audit_db" where
  "handle_client env st r allowed peer_ip db = (let args = access_args st r peer_ip in
     if peer_ip \<notin> allowed
     then (case write_event (n_iso env) ''RESOURCE_ACCESS'' (args\<lparr>e_result := Some ''DENY'', e_error := Some ''acl_denied''\<rparr>) db of
         Inl e \<Rightarrow> (Inl e, db) | Inr (_, db) \<Rightarrow> (Inr Denied, db))
     else (case n_error env of
         Some cls \<Rightarrow> (case write_event (n_iso env) ''RESOURCE_ACCESS''
             (args\<lparr>e_result := Some ''ERROR'', e_latency_ms := Some (n_elapsed env * 1000), e_error := Some cls\<rparr>) db of
           Inl e \<Rightarrow> (Inl e, db) | Inr (_, db) \<Rightarrow> (Inr TargetFailed, db))
       | None \<Rightarrow> (case write_event (n_iso env) ''RESOURCE_ACCESS''
             (args\<lparr>e_result := Some ''ALLOW'', e_latency_ms := Some (n_elapsed env * 1000)\<rparr>) db of
           Inl e \<Rightarrow> (Inl e, db) | Inr (_, db) \<Rightarrow> (Inr Relayed, db))))"

section \<open>What the daemon serves\<close>

text \<open>
  The listeners are opened once, when the process starts: each enabled Resource with the
  addresses the registry admits at that moment.
\<close>

record listener =
  ls_port :: int
  ls_resource :: resource
  ls_allowed :: "string set"

definition serve_table :: "nat \<Rightarrow> store \<Rightarrow> listener list" where
  "serve_table today st = map (\<lambda>r. \<lparr>ls_port = listen_port r, ls_resource = r,
       ls_allowed = allowed_ips_for_resource today r (list_devices st) (list_groups st)\<rparr>)
     (filter r_enabled (list_resources st))"

definition admitted :: "listener list \<Rightarrow> int \<Rightarrow> string \<Rightarrow> bool" where
  \<comment> \<open>a connection to a port from an address reaches a backend\<close>
  "admitted table port ip = list_ex (\<lambda>l. ls_port l = port \<and> ip \<in> ls_allowed l) table"

section \<open>The status service\<close>

record status_payload =
  sp_device :: string
  sp_device_id :: string
  sp_vpn_ip :: string
  sp_groups :: "string list"
  sp_resources :: "launch_item list"
  sp_services :: "(string \<times> string) list"
  sp_launcher_url :: string

datatype ('x, 's) service_body =
    NotFoundBody
  | HubBody string
  | ResourcesBody launcher_body
  | CatalogBody "('x, 's) catalog_payload"
  | CatalogUnavailable string
  | StatusBody status_payload

datatype ('x, 's) service_answer = Closed | Http string string "('x, 's) service_body"

record ('x, 's) service_env =
  j_today :: nat
  j_request :: "string option" \<comment> \<open>the request head, None when it does not come in time\<close>
  j_health :: "health list"
  j_catalog :: "string + ('x, 's) catalog" \<comment> \<open>the text of the exception, or the catalog\<close>

definition ascii_replace :: "string \<Rightarrow> string" where
  \<comment> \<open>\<open>decode(''ascii'', ''replace'')\<close>: every other byte becomes one character that is in no path\<close>
  "ascii_replace s = map (\<lambda>c. if ord_of c < 128 then c else CHR 0xFF) s"

fun first_line :: "string \<Rightarrow> string" where
  "first_line (a # b # cs) = (if ord_of a = 13 \<and> ord_of b = 10 then [] else a # first_line (b # cs))"
| "first_line cs = cs"

definition request_path :: "string \<Rightarrow> string" where
  "request_path request = (let parts = py_split (ascii_replace (first_line request));
       target = (if 2 \<le> length parts then parts ! 1 else ''/'')
     in takeWhile (\<lambda>c. c \<noteq> CHR ''?'') target)"

definition SERVICE_PATHS :: "string list" where
  "SERVICE_PATHS = [''/'', ''/healthz'', ''/v1/status'', ''/v1/resources'', ''/v1/catalog'', ''/hub'']"

definition active_device :: "nat \<Rightarrow> string \<Rightarrow> device list \<Rightarrow> device option" where
  \<comment> \<open>the dictionary of active devices by address keeps the last of equal keys\<close>
  "active_device today ip devices = find (\<lambda>d. vpn_ip d = ip) (rev (filter (device_is_active today) devices))"

definition launcher_url :: string where
  "launcher_url = ''http://'' @ BIND_HOST @ '':'' @ int_str HEALTH_PORT @ ''/hub''"

definition status_body :: "device \<Rightarrow> string \<Rightarrow> group list \<Rightarrow> launch_item list \<Rightarrow> status_payload" where
  "status_body d ip groups rs =
     \<lparr>sp_device = d_name d, sp_device_id = device_id d, sp_vpn_ip = ip,
      sp_groups = map g_name (groups_for_device d groups), sp_resources = rs,
      sp_services = map (\<lambda>r. (li_name r, li_url r)) rs, sp_launcher_url = launcher_url\<rparr>"

definition handle_health ::
  "('x, 's) service_env \<Rightarrow> store \<Rightarrow> string \<Rightarrow> ('x, 's) service_answer" where
  "handle_health env st peer_ip = (case active_device (j_today env) peer_ip (list_devices st) of
       None \<Rightarrow> Closed
     | Some d \<Rightarrow> (case j_request env of
         None \<Rightarrow> Closed
       | Some request \<Rightarrow> (let path = request_path request; json = ''application/json'' in
           if path \<notin> set SERVICE_PATHS then Http ''404 Not Found'' json NotFoundBody
           else (let rs = resources_for_launcher (j_today env) d (list_resources st) (list_groups st) (j_health env) in
             if path = ''/hub'' then Http ''200 OK'' ''text/html; charset=utf-8'' (HubBody (render_hub d rs))
             else if path = ''/v1/resources'' then Http ''200 OK'' json (ResourcesBody (launcher_payload d rs))
             else if path = ''/v1/catalog'' then (case j_catalog env of
                 Inl e \<Rightarrow> Http ''503 Service Unavailable'' json (CatalogUnavailable (take 200 e))
               | Inr c \<Rightarrow> Http ''200 OK'' json (CatalogBody (multi_server_catalog_payload d rs c)))
             else Http ''200 OK'' json (StatusBody (status_body d peer_ip (list_groups st) rs))))))"

section \<open>The monitor\<close>

definition dump_handshakes :: "string \<Rightarrow> (string \<times> int) list" where
  \<comment> \<open>the newest line of a key comes first\<close>
  "dump_handshakes out = rev (map (\<lambda>p. (p ! 0, case py_int (p ! 4) of None \<Rightarrow> 0 | Some i \<Rightarrow> i))
     (filter (\<lambda>p. 5 \<le> length p)
       (map (split_on (CHR 0x09)) (drop 1 (filter (\<lambda>x. py_strip x \<noteq> []) (py_splitlines out))))))"

definition wireguard_connected ::
  "nat \<Rightarrow> int \<Rightarrow> (int \<times> string) option \<Rightarrow> device list \<Rightarrow> (string \<times> bool) list" where
  \<comment> \<open>return code and output of \<open>wg show wg0 dump\<close>, None when it cannot be run\<close>
  "wireguard_connected today now dump devices = (case dump of
       None \<Rightarrow> map (\<lambda>d. (device_id d, False)) devices
     | Some (rc, out) \<Rightarrow> (let latest = (if rc = 0 then dump_handshakes out else []) in
         map (\<lambda>d. (device_id d, (case map_of latest (public_key d) of
             None \<Rightarrow> False
           | Some hs \<Rightarrow> hs \<noteq> 0 \<and> now - hs \<le> 180 \<and> device_is_active today d))) devices))"

record monitor_state =
  previous_devices :: "(string \<times> bool) list option"
  previous_resources :: "(string \<times> bool) list option"

definition device_event :: "string \<Rightarrow> device list \<Rightarrow> string \<times> bool \<Rightarrow> audit_db \<Rightarrow> audit_db res" where
  "device_event stamp devices c db = (let d = find (\<lambda>d. device_id d = fst c) (rev devices) in
     map_sum id snd (write_event stamp (if snd c then ''DEVICE_CONNECTED'' else ''DEVICE_DISCONNECTED'')
       (no_args\<lparr>e_device_id := Some (fst c), e_device_name := map_option d_name d,
         e_action := Some ''wireguard_handshake'',
         e_result := Some (if snd c then ''CONNECTED'' else ''DISCONNECTED''), e_ip := map_option vpn_ip d\<rparr>) db))"

definition resource_event :: "string \<Rightarrow> health list \<Rightarrow> string \<times> bool \<Rightarrow> audit_db \<Rightarrow> audit_db res" where
  "resource_event stamp hs c db = (let h = health_by_name hs (fst c) in
     map_sum id snd (write_event stamp (if snd c then ''RESOURCE_ONLINE'' else ''RESOURCE_OFFLINE'')
       (no_args\<lparr>e_resource := Some (fst c), e_action := Some ''health_transition'',
         e_result := map_option h_state h, e_latency_ms := Option.bind h h_latency, e_error := Option.bind h h_error\<rparr>) db))"

fun write_all :: "('a \<Rightarrow> audit_db \<Rightarrow> audit_db res) \<Rightarrow> 'a list \<Rightarrow> audit_db \<Rightarrow> audit_db res" where
  "write_all f [] db = Inr db"
| "write_all f (x # xs) db = rbind (f x db) (write_all f xs)"

definition changed_devices :: "(string \<times> bool) list option \<Rightarrow> (string \<times> bool) list \<Rightarrow> (string \<times> bool) list" where
  "changed_devices previous current = (case previous of None \<Rightarrow> []
     | Some old \<Rightarrow> filter (\<lambda>(i, connected). connected \<noteq> (case map_of old i of None \<Rightarrow> False | Some b \<Rightarrow> b)) current)"

definition changed_resources :: "(string \<times> bool) list option \<Rightarrow> (string \<times> bool) list \<Rightarrow> (string \<times> bool) list" where
  "changed_resources previous current = (case previous of None \<Rightarrow> []
     | Some old \<Rightarrow> filter (\<lambda>(n, online). map_of old n = Some (\<not> online)) current)"

record round_env =
  o_today :: nat
  o_now :: int
  o_iso :: string
  o_dump :: "(int \<times> string) option"
  o_health :: "health list"

definition monitor_round :: "round_env \<Rightarrow> store \<Rightarrow> monitor_state \<Rightarrow> audit_db \<Rightarrow> (monitor_state \<times> audit_db) res" where
  "monitor_round env st m db =
     (let devices = list_devices st;
          current = wireguard_connected (o_today env) (o_now env) (o_dump env) devices;
          online = map (\<lambda>h. (h_name h, h_state h = ''ONLINE'')) (o_health env) in
      rbind (write_all (device_event (o_iso env) devices) (changed_devices (previous_devices m) current) db) (\<lambda>db.
      rbind (write_all (resource_event (o_iso env) (o_health env)) (changed_resources (previous_resources m) online) db) (\<lambda>db.
      Inr (\<lparr>previous_devices = Some current, previous_resources = Some online\<rparr>, db))))"

section \<open>What the daemon promises\<close>

lemma write_event_allowed:
  assumes "event \<in> set ALLOWED_EVENTS"
  obtains row where "write_event now event a db = Inr (Suc (length db), db @ [row])" "a_event row = event"
    "a_result row = clean (e_result a) 128" "a_device_id row = clean (e_device_id a) 128"
    "a_resource row = clean (e_resource a) 128"
  using assms by (simp add: write_event_def)

lemma clean_results [simp]:
  "clean (Some ''DENY'') 128 = Some ''DENY''" "clean (Some ''ERROR'') 128 = Some ''ERROR''"
  "clean (Some ''ALLOW'') 128 = Some ''ALLOW''"
  by code_simp+

text \<open>
  C28. Every connection to a Resource is decided by the listener's address set and recorded: it
  is refused exactly when its address is not admitted, bytes flow exactly when it is admitted
  and the backend can be reached, and each connection adds one RESOURCE_ACCESS row that says
  DENY, ERROR or ALLOW for the device that holds the address.
\<close>

theorem connection_decided_and_recorded:
  "\<exists>c row. handle_client env st r allowed ip db = (Inr c, db @ [row])
    \<and> (c = Denied \<longleftrightarrow> ip \<notin> allowed) \<and> (c = Relayed \<longleftrightarrow> ip \<in> allowed \<and> n_error env = None)
    \<and> a_event row = ''RESOURCE_ACCESS''
    \<and> a_result row = Some (case c of Denied \<Rightarrow> ''DENY'' | TargetFailed \<Rightarrow> ''ERROR'' | Relayed \<Rightarrow> ''ALLOW'')
    \<and> a_device_id row = clean (map_option device_id (find (\<lambda>d. vpn_ip d = ip) (list_devices st))) 128
    \<and> a_resource row = clean (Some (r_name r)) 128"
proof -
  have ev: "''RESOURCE_ACCESS'' \<in> set ALLOWED_EVENTS" by (simp add: ALLOWED_EVENTS_def)
  let ?a = "access_args st r ip"
  define args where "args = (if ip \<notin> allowed then ?a\<lparr>e_result := Some ''DENY'', e_error := Some ''acl_denied''\<rparr>
    else case n_error env of
      Some cls \<Rightarrow> ?a\<lparr>e_result := Some ''ERROR'', e_latency_ms := Some (n_elapsed env * 1000), e_error := Some cls\<rparr>
    | None \<Rightarrow> ?a\<lparr>e_result := Some ''ALLOW'', e_latency_ms := Some (n_elapsed env * 1000)\<rparr>)"
  obtain row where row: "write_event (n_iso env) ''RESOURCE_ACCESS'' args db = Inr (Suc (length db), db @ [row])"
      "a_event row = ''RESOURCE_ACCESS''" "a_result row = clean (e_result args) 128"
      "a_device_id row = clean (e_device_id args) 128" "a_resource row = clean (e_resource args) 128"
    by (rule write_event_allowed [OF ev])
  have who: "e_device_id args = map_option device_id (find (\<lambda>d. vpn_ip d = ip) (list_devices st))"
    "e_resource args = Some (r_name r)"
    by (auto simp: args_def access_args_def Let_def split: option.split)
  show ?thesis
    using row who
    by (intro exI [of _ "if ip \<notin> allowed then Denied else if n_error env = None then Relayed else TargetFailed"] exI [of _ row])
       (auto simp: handle_client_def args_def Let_def split: option.splits)
qed

definition answer_items :: "('x, 's) service_answer \<Rightarrow> launch_item list" where
  "answer_items a = (case a of Http _ _ (ResourcesBody p) \<Rightarrow> lp_resources p
     | Http _ _ (StatusBody p) \<Rightarrow> sp_resources p | _ \<Rightarrow> [])"

text \<open>
  The status service talks to active devices only: a peer whose address belongs to no
  enabled, unexpired device gets no answer, not even an error, and every Resource in an answer
  is enabled and admits the peer's own address.
\<close>

theorem service_answers_active_devices_only:
  assumes "distinct (map vpn_ip (list_devices st))"
  shows "(handle_health env st ip \<noteq> Closed \<longrightarrow>
      (\<exists>d\<in>set (list_devices st). vpn_ip d = ip \<and> device_is_active (j_today env) d))
    \<and> (\<forall>i\<in>set (answer_items (handle_health env st ip)). \<exists>r\<in>set (list_resources st).
        r_name r = li_name i \<and> r_enabled r \<and> li_url i = launch_url r
        \<and> ip \<in> allowed_ips_for_resource (j_today env) r (list_devices st) (list_groups st))"
proof (cases "active_device (j_today env) ip (list_devices st)")
  case None
  then show ?thesis by (simp add: handle_health_def answer_items_def)
next
  case (Some d)
  then have d: "d \<in> set (list_devices st)" "vpn_ip d = ip" "device_is_active (j_today env) d"
    by (auto simp: active_device_def dest!: find_Some_iff')
  let ?rs = "resources_for_launcher (j_today env) d (list_resources st) (list_groups st) (j_health env)"
  have "set (answer_items (handle_health env st ip)) \<subseteq> set ?rs"
    using Some by (auto simp: handle_health_def answer_items_def launcher_payload_def status_body_def Let_def
        split: option.splits if_splits sum.splits)
  moreover have "\<exists>r\<in>set (list_resources st). r_name r = li_name i \<and> r_enabled r \<and> li_url i = launch_url r
      \<and> ip \<in> allowed_ips_for_resource (j_today env) r (list_devices st) (list_groups st)" if "i \<in> set ?rs" for i
    using that d by (auto simp: resources_for_launcher_def effective_resources_for_device_def launch_item_of_def
        Let_def allowed_ips_for_resource_def)
  ultimately show ?thesis using d by blast
qed

definition demo_service :: "(unit, unit) service_env" where
  "demo_service = \<lparr>j_today = 739000, j_request = Some (''GET /v1/resources HTTP/1.1'' @ [CHR 0x0D, CHR 0x0A]),
     j_health = [], j_catalog = Inl []\<rparr>"

theorem service_answers_active_devices_only_witness:
  "handle_health demo_service demo_store ''10.88.0.9'' = Closed
   \<and> map li_name (answer_items (handle_health demo_service demo_store ''10.88.0.2'')) = [''web'']
   \<and> (\<exists>r\<in>set (list_resources demo_store). r_name r = ''web'' \<and> r_enabled r
        \<and> ''10.88.0.2'' \<in> allowed_ips_for_resource 739000 r (list_devices demo_store) (list_groups demo_store))"
proof -
  have d: "distinct (map vpn_ip (list_devices demo_store))" by code_simp
  have e: "handle_health demo_service demo_store ''10.88.0.9'' = Closed" by code_simp
  have n: "map li_name (answer_items (handle_health demo_service demo_store ''10.88.0.2'')) = [''web'']" by code_simp
  then obtain i where "i \<in> set (answer_items (handle_health demo_service demo_store ''10.88.0.2''))" "li_name i = ''web''"
    by (cases "answer_items (handle_health demo_service demo_store ''10.88.0.2'')") auto
  moreover have "j_today demo_service = 739000" by (simp add: demo_service_def)
  ultimately show ?thesis
    using e n service_answers_active_devices_only [OF d, of demo_service "''10.88.0.2''"] by fastforce
qed

lemma write_all_rows:
  assumes "\<And>x db. \<exists>row. f x db = Inr (db @ [row]) \<and> a_event row = ev x"
  shows "\<exists>rows. write_all f xs db = Inr (db @ rows) \<and> map a_event rows = map ev xs"
proof (induction xs arbitrary: db)
  case (Cons x xs)
  obtain row where r: "f x db = Inr (db @ [row])" "a_event row = ev x" using assms by blast
  obtain rows where "write_all f xs (db @ [row]) = Inr ((db @ [row]) @ rows)" "map a_event rows = map ev xs"
    using Cons.IH by blast
  with r show ?case by (intro exI [of _ "row # rows"]) (simp add: rbind_def)
qed simp

lemma device_event_row:
  "\<exists>row. device_event stamp devices c db = Inr (db @ [row])
     \<and> a_event row = (if snd c then ''DEVICE_CONNECTED'' else ''DEVICE_DISCONNECTED'')"
  by (simp add: device_event_def write_event_def ALLOWED_EVENTS_def Let_def)

lemma resource_event_row:
  "\<exists>row. resource_event stamp hs c db = Inr (db @ [row])
     \<and> a_event row = (if snd c then ''RESOURCE_ONLINE'' else ''RESOURCE_OFFLINE'')"
  by (simp add: resource_event_def write_event_def ALLOWED_EVENTS_def Let_def)

lemma monitor_round_effect:
  fixes env st
  defines "current \<equiv> wireguard_connected (o_today env) (o_now env) (o_dump env) (list_devices st)"
    and "online \<equiv> map (\<lambda>h. (h_name h, h_state h = ''ONLINE'')) (o_health env)"
  shows "\<exists>rows. monitor_round env st m db = Inr (\<lparr>previous_devices = Some current, previous_resources = Some online\<rparr>, db @ rows)
    \<and> map a_event rows =
        map (\<lambda>c. if snd c then ''DEVICE_CONNECTED'' else ''DEVICE_DISCONNECTED'') (changed_devices (previous_devices m) current)
      @ map (\<lambda>c. if snd c then ''RESOURCE_ONLINE'' else ''RESOURCE_OFFLINE'') (changed_resources (previous_resources m) online)"
proof -
  obtain rows1 where 1: "write_all (device_event (o_iso env) (list_devices st)) (changed_devices (previous_devices m) current) db
      = Inr (db @ rows1)" "map a_event rows1 = map (\<lambda>c. if snd c then ''DEVICE_CONNECTED'' else ''DEVICE_DISCONNECTED'')
      (changed_devices (previous_devices m) current)"
    using write_all_rows [where f = "device_event (o_iso env) (list_devices st)"
        and ev = "\<lambda>c. if snd c then ''DEVICE_CONNECTED'' else ''DEVICE_DISCONNECTED''", OF device_event_row] by blast
  obtain rows2 where 2: "write_all (resource_event (o_iso env) (o_health env)) (changed_resources (previous_resources m) online) (db @ rows1)
      = Inr ((db @ rows1) @ rows2)" "map a_event rows2 = map (\<lambda>c. if snd c then ''RESOURCE_ONLINE'' else ''RESOURCE_OFFLINE'')
      (changed_resources (previous_resources m) online)"
    using write_all_rows [where f = "resource_event (o_iso env) (o_health env)"
        and ev = "\<lambda>c. if snd c then ''RESOURCE_ONLINE'' else ''RESOURCE_OFFLINE''", OF resource_event_row] by blast
  show ?thesis
    using 1 2 by (intro exI [of _ "rows1 @ rows2"])
      (simp add: monitor_round_def Let_def rbind_def current_def [symmetric] online_def [symmetric])
qed

text \<open>
  The monitor reports transitions and nothing else: its first round reports nothing, a round
  reports one event for each device and Resource whose state differs from the round before,
  in order, and a round that sees what the one before saw adds nothing to the audit table.
\<close>

theorem monitor_reports_transitions_only:
  assumes "distinct (map device_id (list_devices st))" and "distinct (map h_name (o_health env))"
  shows "\<exists>m' rows. monitor_round env st m db = Inr (m', db @ rows)
    \<and> (previous_devices m = None \<and> previous_resources m = None \<longrightarrow> rows = [])
    \<and> length rows = length (changed_devices (previous_devices m) (the (previous_devices m')))
        + length (changed_resources (previous_resources m) (the (previous_resources m')))
    \<and> (\<forall>db. monitor_round env st m' db = Inr (m', db))"
proof -
  let ?current = "wireguard_connected (o_today env) (o_now env) (o_dump env) (list_devices st)"
  let ?online = "map (\<lambda>h. (h_name h, h_state h = ''ONLINE'')) (o_health env)"
  let ?m = "\<lparr>previous_devices = Some ?current, previous_resources = Some ?online\<rparr>"
  have same: "filter (\<lambda>(i, b). b \<noteq> (case map_of xs i of None \<Rightarrow> False | Some b \<Rightarrow> b)) xs = []"
    "filter (\<lambda>(n, b). map_of xs n = Some (\<not> b)) xs = []" if "distinct (map fst xs)" for xs :: "(string \<times> bool) list"
  proof -
    have "\<not> (snd x \<noteq> (case map_of xs (fst x) of None \<Rightarrow> False | Some b \<Rightarrow> b)) \<and> map_of xs (fst x) \<noteq> Some (\<not> snd x)"
      if "x \<in> set xs" for x
      using map_of_is_SomeI [OF \<open>distinct (map fst xs)\<close>, of "fst x" "snd x"] that by simp
    then show "filter (\<lambda>(i, b). b \<noteq> (case map_of xs i of None \<Rightarrow> False | Some b \<Rightarrow> b)) xs = []"
      "filter (\<lambda>(n, b). map_of xs n = Some (\<not> b)) xs = []"
      unfolding filter_empty_conv case_prod_beta by blast+
  qed
  have "map fst ?current = map device_id (list_devices st)"
    by (auto simp: wireguard_connected_def Let_def split: option.split)
  then have c: "changed_devices (Some ?current) ?current = []"
    using same(1) assms(1) by (simp add: changed_devices_def)
  have o: "changed_resources (Some ?online) ?online = []"
    using same(2) [of ?online] assms(2) by (simp add: changed_resources_def comp_def)
  obtain rows where r: "monitor_round env st m db = Inr (?m, db @ rows)"
    "map a_event rows =
        map (\<lambda>c. if snd c then ''DEVICE_CONNECTED'' else ''DEVICE_DISCONNECTED'') (changed_devices (previous_devices m) ?current)
      @ map (\<lambda>c. if snd c then ''RESOURCE_ONLINE'' else ''RESOURCE_OFFLINE'') (changed_resources (previous_resources m) ?online)"
    using monitor_round_effect by blast
  have again: "monitor_round env st ?m db = Inr (?m, db)" for db
  proof -
    obtain rows where "monitor_round env st ?m db = Inr (?m, db @ rows)" "map a_event rows = []"
      using monitor_round_effect [of env st ?m db] c o by auto
    then show ?thesis by simp
  qed
  have len: "length rows = length (changed_devices (previous_devices m) ?current) + length (changed_resources (previous_resources m) ?online)"
    using arg_cong [OF r(2), of length] by simp
  then have "previous_devices m = None \<and> previous_resources m = None \<longrightarrow> rows = []"
    by (auto simp: changed_devices_def changed_resources_def)
  then show ?thesis using r(1) len again by (intro exI [of _ ?m] exI [of _ rows]) simp
qed

definition demo_round :: round_env where
  "demo_round = \<lparr>o_today = 739000, o_now = 1000, o_iso = ''t'',
     o_dump = Some (0, ''wg0'' @ [CHR 0x0A] @ concat (map (\<lambda>f. f @ [CHR 0x09]) [''kdev_1'', ''p'', ''e'', ''a'', ''990'', ''1'', ''2'', ''25''])),
     o_health = [base_result ''t'' sample_resource]\<rparr>"

theorem monitor_reports_transitions_only_witness:
  "\<exists>m' rows. monitor_round demo_round demo_store
       \<lparr>previous_devices = Some [(''dev_1'', False), (''dev_2'', False)], previous_resources = None\<rparr> [] = (Inr (m', rows))
     \<and> length rows = 1 \<and> monitor_round demo_round demo_store m' rows = Inr (m', rows)"
proof -
  let ?m = "\<lparr>previous_devices = Some [(''dev_1'', False), (''dev_2'', False)], previous_resources = None\<rparr>"
  let ?current = "wireguard_connected 739000 1000 (o_dump demo_round) (list_devices demo_store)"
  have d: "distinct (map device_id (list_devices demo_store))" "distinct (map h_name (o_health demo_round))" by code_simp+
  have c: "length (changed_devices (previous_devices ?m) ?current) = 1" by code_simp
  obtain rows where r: "monitor_round demo_round demo_store ?m [] = Inr (\<lparr>previous_devices = Some ?current,
      previous_resources = Some (map (\<lambda>h. (h_name h, h_state h = ''ONLINE'')) (o_health demo_round))\<rparr>, rows)"
    using monitor_round_effect [of demo_round demo_store ?m "[]"] by (auto simp: demo_round_def)
  obtain m' rows' where q: "monitor_round demo_round demo_store ?m [] = Inr (m', [] @ rows')"
    "length rows' = length (changed_devices (previous_devices ?m) (the (previous_devices m')))
        + length (changed_resources (previous_resources ?m) (the (previous_resources m')))"
    "\<forall>db. monitor_round demo_round demo_store m' db = Inr (m', db)"
    using monitor_reports_transitions_only [OF d] by blast
  have "length rows' = 1" using q(1,2) r c by (auto simp: changed_resources_def)
  then show ?thesis using q by auto
qed

end
