(* ===== verification/Control.thy ===== *)
theory Control
  imports Daemon Pairing
begin

text \<open>
  The commands of \<open>ge360_bridge/cli.py\<close> that change the bridge, and what they do beside the
  registry: the WireGuard configuration is rendered from the registry and the daemon is
  restarted, which opens its listeners anew. The machine is the pairing state with the
  registry, the text of \<open>wg0.conf\<close> and the listeners of the running daemon.
\<close>

section \<open>Rendering configurations\<close>

definition load_env :: "string option \<Rightarrow> (string \<times> string) list" where
  \<comment> \<open>the loop is the one of \<open>pairing.load_bridge_env\<close>\<close>
  "load_env file = load_bridge_env file"

definition endpoint :: "(string \<times> string) list \<Rightarrow> string" where
  "endpoint env = str_or (env_get env ''PUBLIC_ENDPOINT'' []) (''CHANGE_ME:'' @ env_get env ''WG_PORT'' ''51820'')"

definition server_public_key :: "string option \<Rightarrow> string res" where
  "server_public_key file = (case file of
       None \<Rightarrow> Inl (BridgeError ''Chiave pubblica server mancante. Esegui install.sh.'')
     | Some text \<Rightarrow> Inr (py_strip text))"

definition newline :: char where "newline = CHR 0x0A"

definition unlines :: "string list \<Rightarrow> string" where
  \<comment> \<open>the lines joined by newlines, and a newline after the last\<close>
  "unlines ls = py_join [newline] ls @ [newline]"

definition peer_lines :: "device \<Rightarrow> string list" where
  "peer_lines d = [[], ''[Peer]'', ''# GE360 device: '' @ d_name d @ '' ('' @ device_id d @ '')'',
     ''PublicKey = '' @ public_key d, ''PresharedKey = '' @ preshared_key d, ''AllowedIPs = '' @ vpn_ip d @ ''/32'']"

definition interface_lines :: "(string \<times> string) list \<Rightarrow> string \<Rightarrow> string list" where
  "interface_lines env key = [''[Interface]'', ''Address = '' @ env_get env ''WG_ADDRESS'' ''10.88.0.1/24'',
     ''ListenPort = '' @ env_get env ''WG_PORT'' ''51820'', ''PrivateKey = '' @ py_strip key, ''SaveConfig = false'']"

definition render_wg_config :: "nat \<Rightarrow> (string \<times> string) list \<Rightarrow> string option \<Rightarrow> device list \<Rightarrow> string res" where
  "render_wg_config today env key devices = (case key of
       None \<Rightarrow> Inl (BridgeError ''Chiave server mancante. Esegui install.sh.'')
     | Some text \<Rightarrow> Inr (unlines (interface_lines env text
         @ concat (map peer_lines (filter (device_is_active today) devices)))))"

definition make_client_conf ::
  "(string \<times> string) list \<Rightarrow> string option \<Rightarrow> string \<Rightarrow> string \<Rightarrow> string \<Rightarrow> string res" where
  "make_client_conf env server_pub private_key psk ip = rbind (server_public_key server_pub) (\<lambda>pub.
     Inr (unlines ([''[Interface]'', ''PrivateKey = '' @ private_key, ''Address = '' @ ip @ ''/32'']
       @ (if env_get env ''CLIENT_DNS'' [] \<noteq> [] then [''DNS = '' @ env_get env ''CLIENT_DNS'' []] else [])
       @ [[], ''[Peer]'', ''PublicKey = '' @ pub, ''PresharedKey = '' @ psk, ''Endpoint = '' @ endpoint env,
          ''AllowedIPs = 10.88.0.1/32'', ''PersistentKeepalive = 25''])))"

section \<open>Commands\<close>

record update_args =
  ua_type :: "string option"
  ua_owner :: "string option"
  ua_expires :: "string option"
  ua_clear_expiry :: bool
  ua_notes :: "string option"
  ua_tags :: "string option"

datatype command =
    DeviceState string bool
  | DeviceRename string string
  | DeviceUpdate string update_args
  | DeviceSync
  | DeviceAdd enroll_args string string \<comment> \<open>with the tags and the groups as comma-separated lists\<close>
  | GroupCreate string string
  | GroupRemove string
  | GroupState string bool
  | GroupDevice string string bool
  | GroupService string string bool
  | ServiceOverride string string string
  | ResourceAdd string int string resource_args
  | ResourceUpdate string resource_patch
  | ResourceRemove string
  | ServiceAdd string int string int string
  | ServiceRemove string

record machine =
  m_pairing :: pairing_state
  m_conf :: "string option"
  m_table :: "listener list"

record cli_env =
  y_root :: bool
  y_today :: nat
  y_iso :: string
  y_env :: "(string \<times> string) list"
  y_server_key :: "string option"
  y_hmac_key :: "byte list"
  y_now :: int
  y_token :: string
  y_nonce :: string

definition split_csv :: "string \<Rightarrow> string list" where
  "split_csv v = filter (\<lambda>x. x \<noteq> []) (split_on (CHR '','') v)"

definition parse_tags_csv :: "string \<Rightarrow> string list res" where
  "parse_tags_csv v = normalize_tags (filter (\<lambda>x. py_strip x \<noteq> []) (split_on (CHR '','') v))"

definition parse_groups_csv :: "string \<Rightarrow> string list" where
  "parse_groups_csv v = filter (\<lambda>x. x \<noteq> []) (map py_strip (split_on (CHR '','') v))"

definition service_args :: "string \<Rightarrow> int \<Rightarrow> string \<Rightarrow> resource_args" where
  \<comment> \<open>\<open>register_service\<close> leaves the other arguments of \<open>register_resource\<close> at their defaults\<close>
  "service_args host port allow = \<lparr>a_target_host = host, a_target_port = port, a_allowed = split_csv allow,
     a_icon = ''server'', a_description = [], a_protocol = ''tcp'', a_health_url = [],
     a_timeout = NFloat (Fin 2), a_unit = [], a_self_heal = False\<rparr>"

definition discard_result :: "'a res \<times> 's \<Rightarrow> unit res \<times> 's" where
  "discard_result p = (map_sum id (\<lambda>_. ()) (fst p), snd p)"

definition found_or :: "string \<Rightarrow> bool res \<times> 's \<Rightarrow> unit res \<times> 's" where
  \<comment> \<open>a command that raises when the operation found nothing\<close>
  "found_or msg p = (rbind (fst p) (\<lambda>b. if b then Inr () else Inl (BridgeError msg)), snd p)"

definition cmd_device_update :: "string \<Rightarrow> string \<Rightarrow> update_args \<Rightarrow> store \<Rightarrow> unit res \<times> store" where
  "cmd_device_update now i a st = (case find_device i st of
       None \<Rightarrow> (Inl (BridgeError ''Dispositivo non trovato.''), st)
     | Some d \<Rightarrow> guard_in st (case ua_tags a of None \<Rightarrow> Inr (tags d) | Some v \<Rightarrow> parse_tags_csv v) (\<lambda>tg.
         discard_result (update_device_metadata now i
           \<lparr>p_device_type = Some (case ua_type a of None \<Rightarrow> device_type d | Some t \<Rightarrow> t),
            p_owner = Some (case ua_owner a of None \<Rightarrow> owner d | Some t \<Rightarrow> t),
            p_expires_at = Some (if ua_clear_expiry a then None
              else case ua_expires a of None \<Rightarrow> expires_at d | Some v \<Rightarrow> Some v),
            p_notes = Some (case ua_notes a of None \<Rightarrow> d_notes d | Some t \<Rightarrow> t),
            p_tags = Some tg\<rparr> st)))"

definition on_registry :: "(store \<Rightarrow> unit res \<times> store) \<Rightarrow> pairing_state \<Rightarrow> unit res \<times> pairing_state" where
  "on_registry f ps = (case f (registry_of ps) of (r, st) \<Rightarrow> (r, ps\<lparr>registry_of := st\<rparr>))"

fun apply_command :: "cli_env \<Rightarrow> command \<Rightarrow> pairing_state \<Rightarrow> unit res \<times> pairing_state" where
  \<comment> \<open>what a command does to the registry\<close>
  "apply_command e (DeviceState i b) ps = on_registry (\<lambda>st. found_or ''Dispositivo non trovato.''
     (apfst (map_sum id (\<lambda>d. d \<noteq> None)) (set_device_enabled (y_iso e) i b st))) ps"
| "apply_command e (DeviceRename i n) ps = on_registry (\<lambda>st. discard_result (rename_device (y_iso e) i n st)) ps"
| "apply_command e (DeviceUpdate i a) ps = on_registry (cmd_device_update (y_iso e) i a) ps"
| "apply_command e DeviceSync ps = (Inr (), ps)"
| "apply_command e (DeviceAdd a tg gs) ps = guard_in ps (parse_tags_csv tg) (\<lambda>ts.
     discard_result (create_enrollment (y_hmac_key e) (y_now e) (y_token e) (y_nonce e)
       (a\<lparr>q_tags := ts, q_groups := parse_groups_csv gs\<rparr>) ps))"
| "apply_command e (GroupCreate n d) ps = on_registry (\<lambda>st. discard_result (create_group n d st)) ps"
| "apply_command e (GroupRemove n) ps = on_registry (\<lambda>st. found_or ''Gruppo non trovato.'' (remove_group (y_iso e) n st)) ps"
| "apply_command e (GroupState n b) ps = on_registry (\<lambda>st. discard_result (set_group_enabled (y_iso e) n b st)) ps"
| "apply_command e (GroupDevice g d b) ps = on_registry (\<lambda>st. discard_result (set_group_device (y_iso e) g d b st)) ps"
| "apply_command e (GroupService g s b) ps = on_registry (\<lambda>st. discard_result (set_group_resource (y_iso e) g s b st)) ps"
| "apply_command e (ServiceOverride s d dec) ps =
     on_registry (\<lambda>st. discard_result (set_device_access_override (y_iso e) s d dec st)) ps"
| "apply_command e (ResourceAdd n p allow a) ps =
     on_registry (\<lambda>st. discard_result (register_resource n p (a\<lparr>a_allowed := split_csv allow\<rparr>) st)) ps"
| "apply_command e (ResourceUpdate n p) ps = on_registry (\<lambda>st. discard_result (update_resource n p st)) ps"
| "apply_command e (ResourceRemove n) ps = on_registry (\<lambda>st. found_or ''Resource non trovata.'' (remove_resource n st)) ps"
| "apply_command e (ServiceAdd n p h tp allow) ps =
     on_registry (\<lambda>st. discard_result (register_resource n p (service_args h tp allow) st)) ps"
| "apply_command e (ServiceRemove n) ps = on_registry (\<lambda>st. found_or ''Servizio non trovato.'' (remove_resource n st)) ps"

fun renders :: "command \<Rightarrow> bool" where
  \<comment> \<open>the commands that write \<open>wg0.conf\<close> before they reload\<close>
  "renders (DeviceState _ _) = True"
| "renders (DeviceRename _ _) = True"
| "renders (DeviceUpdate _ _) = True"
| "renders DeviceSync = True"
| "renders _ = False"

fun reloads :: "command \<Rightarrow> bool" where
  "reloads (DeviceAdd _ _ _) = False"
| "reloads (GroupCreate _ _) = False"
| "reloads _ = True"

definition reload_runtime :: "cli_env \<Rightarrow> machine \<Rightarrow> machine" where
  \<comment> \<open>\<open>systemctl restart ge360-bridge\<close>: the daemon opens its listeners from the registry\<close>
  "reload_runtime e m = m\<lparr>m_table := serve_table (y_today e) (registry_of (m_pairing m))\<rparr>"

definition run_command :: "cli_env \<Rightarrow> command \<Rightarrow> machine \<Rightarrow> unit res \<times> machine" where
  "run_command e c m =
     (if \<not> y_root e then (Inl (BridgeError ''Questo comando richiede root (usa sudo).''), m)
      else (case apply_command e c (m_pairing m) of
        (Inl err, ps) \<Rightarrow> (Inl err, m\<lparr>m_pairing := ps\<rparr>)
      | (Inr _, ps) \<Rightarrow> (let m = m\<lparr>m_pairing := ps\<rparr> in
          if renders c then
            guard_in m (render_wg_config (y_today e) (y_env e) (y_server_key e) (list_devices (registry_of ps))) (\<lambda>conf.
              (Inr (), reload_runtime e (m\<lparr>m_conf := Some conf\<rparr>)))
          else (Inr (), if reloads c then reload_runtime e m else m))))"

section \<open>The invariant every command keeps\<close>

lemma discard_result_snd [simp]: "snd (discard_result p) = snd p"
  by (simp add: discard_result_def)

lemma discard_result_Inr: "discard_result p = (Inr u, s) \<longleftrightarrow> (\<exists>x. p = (Inr x, s))"
  by (cases p; cases "fst p") (auto simp: discard_result_def)

lemma found_or_snd [simp]: "snd (found_or msg p) = snd p"
  by (simp add: found_or_def)

lemma found_or_Inr: "found_or msg p = (Inr u, s) \<longleftrightarrow> p = (Inr True, s)"
  by (cases p; cases "fst p") (auto simp: found_or_def rbind_def)

lemma on_registry_effect:
  "on_registry f ps = (r, ps') \<Longrightarrow> f (registry_of ps) = (r, registry_of ps') \<and> ps' = ps\<lparr>registry_of := registry_of ps'\<rparr>"
  by (auto simp: on_registry_def split: prod.splits)

lemma on_registry_discard:
  "on_registry (\<lambda>st. discard_result (g st)) ps = (Inr u, ps') \<Longrightarrow> \<exists>x. g (registry_of ps) = (Inr x, registry_of ps')"
  by (drule on_registry_effect) (simp add: discard_result_Inr)

lemma on_registry_found:
  "on_registry (\<lambda>st. found_or msg (g st)) ps = (Inr u, ps') \<Longrightarrow> g (registry_of ps) = (Inr True, registry_of ps')"
  by (drule on_registry_effect) (simp add: found_or_Inr)

lemma cmd_device_update_effect:
  "cmd_device_update now i a st = (r, st') \<Longrightarrow>
     (\<exists>e. r = Inl e) \<and> st' = st \<or> (\<exists>p. discard_result (update_device_metadata now i p st) = (r, st'))"
  unfolding cmd_device_update_def guard_in_def by (cases "find_device i st") (simp_all split: sum.splits, blast+)

lemma cmd_device_update_ok: "registry_ok st \<Longrightarrow> registry_ok (snd (cmd_device_update now i a st))"
  using cmd_device_update_effect [OF surjective_pairing, of now i a st] update_device_metadata_ok [OF _ surjective_pairing]
  by (metis discard_result_snd snd_conv)

lemma apply_registry_ok:
  assumes ok: "registry_ok (registry_of ps)" and op: "apply_command e c ps = (r, ps')"
    and add: "\<And>a tg gs. c \<noteq> DeviceAdd a tg gs"
  shows "registry_ok (registry_of ps') \<and> ENROLLMENTS_FILE ps' = ENROLLMENTS_FILE ps"
proof -
  have reg: "registry_ok (registry_of ps') \<and> ENROLLMENTS_FILE ps' = ENROLLMENTS_FILE ps"
    if f: "on_registry f ps = (r, ps')" "registry_ok (snd (f (registry_of ps)))" for f
    using on_registry_effect [OF f(1)] f(2) by (metis snd_conv pairing_state.select_convs(2) pairing_state.surjective pairing_state.update_convs(1))
  show ?thesis
  proof (cases c)
    case (DeviceState i b)
    show ?thesis
      by (rule reg [OF op [unfolded DeviceState apply_command.simps]])
         (simp add: set_device_enabled_ok [OF ok surjective_pairing])
  next
    case (DeviceRename i n)
    show ?thesis
      by (rule reg [OF op [unfolded DeviceRename apply_command.simps]]) (simp add: rename_device_ok [OF ok surjective_pairing])
  next
    case (DeviceUpdate i a)
    show ?thesis by (rule reg [OF op [unfolded DeviceUpdate apply_command.simps]]) (rule cmd_device_update_ok [OF ok])
  next
    case (GroupCreate n d)
    show ?thesis
      by (rule reg [OF op [unfolded GroupCreate apply_command.simps]]) (simp add: create_group_ok [OF ok surjective_pairing])
  next
    case (GroupRemove n)
    show ?thesis
      by (rule reg [OF op [unfolded GroupRemove apply_command.simps]]) (simp add: remove_group_ok [OF ok surjective_pairing])
  next
    case (GroupState n b)
    show ?thesis
      by (rule reg [OF op [unfolded GroupState apply_command.simps]]) (simp add: set_group_enabled_ok [OF ok surjective_pairing])
  next
    case (GroupDevice g d b)
    show ?thesis
      by (rule reg [OF op [unfolded GroupDevice apply_command.simps]]) (simp add: set_group_device_ok [OF ok surjective_pairing])
  next
    case (GroupService g d b)
    show ?thesis
      by (rule reg [OF op [unfolded GroupService apply_command.simps]]) (simp add: set_group_resource_ok [OF ok surjective_pairing])
  next
    case (ServiceOverride g d b)
    show ?thesis
      by (rule reg [OF op [unfolded ServiceOverride apply_command.simps]]) (simp add: set_override_ok [OF ok surjective_pairing])
  next
    case (ResourceAdd n p l a)
    show ?thesis
      by (rule reg [OF op [unfolded ResourceAdd apply_command.simps]]) (simp add: register_resource_ok [OF ok surjective_pairing])
  next
    case (ResourceUpdate n p)
    show ?thesis
      by (rule reg [OF op [unfolded ResourceUpdate apply_command.simps]]) (simp add: update_resource_ok [OF ok surjective_pairing])
  next
    case (ResourceRemove n)
    show ?thesis
      by (rule reg [OF op [unfolded ResourceRemove apply_command.simps]]) (simp add: remove_resource_ok [OF ok surjective_pairing])
  next
    case (ServiceAdd n p h tp l)
    show ?thesis
      by (rule reg [OF op [unfolded ServiceAdd apply_command.simps]]) (simp add: register_resource_ok [OF ok surjective_pairing])
  next
    case (ServiceRemove n)
    show ?thesis
      by (rule reg [OF op [unfolded ServiceRemove apply_command.simps]]) (simp add: remove_resource_ok [OF ok surjective_pairing])
  qed (use op ok add in simp_all)
qed

text \<open>
  The machine over time: commands of the administrator, and enrollments, after which the server
  runs \<open>device-sync\<close>. Fresh identifiers come from the system's random source.
\<close>

inductive machine_step :: "machine \<Rightarrow> machine \<Rightarrow> bool" where
  command: "run_command e c m = (r, m') \<Longrightarrow>
     ''enr_'' @ y_nonce e \<notin> enrollment_id ` set (load_enrollments (m_pairing m)) \<Longrightarrow> machine_step m m'"
| enroll: "consume_enrollment (y_hmac_key e) env eid tok pk (m_pairing m) = (res, ps) \<Longrightarrow>
     c_device_id env \<noteq> [] \<Longrightarrow> c_device_id env \<notin> device_id ` set (list_devices (registry_of (m_pairing m))) \<Longrightarrow>
     m' = (if is_ok res then snd (run_command e DeviceSync (m\<lparr>m_pairing := ps\<rparr>)) else m\<lparr>m_pairing := ps\<rparr>) \<Longrightarrow>
     machine_step m m'"

definition fresh_install :: machine where
  "fresh_install = \<lparr>m_pairing = \<lparr>registry_of = \<lparr>DEVICES_FILE = None, RESOURCES_FILE = None, SERVICES_FILE = None,
       GROUPS_FILE = None, AUDIT_DB = []\<rparr>, ENROLLMENTS_FILE = None\<rparr>, m_conf = None, m_table = []\<rparr>"

inductive machine_reachable :: "machine \<Rightarrow> bool" where
  start: "machine_reachable fresh_install"
| step: "machine_reachable m \<Longrightarrow> machine_step m m' \<Longrightarrow> machine_reachable m'"

definition machine_ok :: "machine \<Rightarrow> bool" where
  "machine_ok m = (registry_ok (registry_of (m_pairing m)) \<and> enrollments_ok (m_pairing m))"

lemma run_command_pairing: "y_root e \<Longrightarrow> m_pairing (snd (run_command e c m)) = snd (apply_command e c (m_pairing m))"
  by (auto simp: run_command_def reload_runtime_def guard_in_def Let_def split: prod.split sum.split)

lemma enrollments_ok_cong:
  "ENROLLMENTS_FILE ps' = ENROLLMENTS_FILE ps \<Longrightarrow> enrollments_ok ps' = enrollments_ok ps"
  by (simp add: enrollments_ok_def load_enrollments_def)

lemma run_command_ok:
  assumes ok: "machine_ok m" and fresh: "''enr_'' @ y_nonce e \<notin> enrollment_id ` set (load_enrollments (m_pairing m))"
  shows "machine_ok (snd (run_command e c m))"
proof (cases "y_root e")
  case False
  with ok show ?thesis by (simp add: run_command_def)
next
  case True
  obtain r ps' where op: "apply_command e c (m_pairing m) = (r, ps')" by fastforce
  have "registry_ok (registry_of ps') \<and> enrollments_ok ps'"
  proof (cases "\<exists>a tg gs. c = DeviceAdd a tg gs")
    case True
    then obtain a tg gs where c: "c = DeviceAdd a tg gs" by blast
    show ?thesis
    proof (cases "parse_tags_csv tg")
      case (Inl err)
      then show ?thesis using op c ok by (simp add: guard_in_def machine_ok_def)
    next
      case (Inr ts)
      obtain q ps1 where q: "create_enrollment (y_hmac_key e) (y_now e) (y_token e) (y_nonce e)
          (a\<lparr>q_tags := ts, q_groups := parse_groups_csv gs\<rparr>) (m_pairing m) = (q, ps1)" by fastforce
      then have "ps' = ps1" using op c Inr by (simp add: discard_result_def guard_in_def)
      with create_enrollment_ok [OF _ q fresh] ok show ?thesis by (simp add: machine_ok_def)
    qed
  next
    case False
    then have "registry_ok (registry_of ps') \<and> ENROLLMENTS_FILE ps' = ENROLLMENTS_FILE (m_pairing m)"
      using apply_registry_ok [OF _ op] ok unfolding machine_ok_def by blast
    moreover have "enrollments_ok (m_pairing m)" using ok by (simp add: machine_ok_def)
    ultimately show ?thesis using enrollments_ok_cong by blast
  qed
  then show ?thesis using run_command_pairing [OF True, of c m] op by (simp add: machine_ok_def)
qed

lemma device_sync_pairing [simp]: "m_pairing (snd (run_command e DeviceSync m)) = m_pairing m"
  by (cases "y_root e") (simp_all add: run_command_pairing, simp add: run_command_def)

lemma machine_step_ok: "machine_step m m' \<Longrightarrow> machine_ok m \<Longrightarrow> machine_ok m'"
proof (induction rule: machine_step.induct)
  case (command e c m r m')
  from run_command_ok [OF command.prems command.hyps(2), of c] command.hyps(1) show ?case by simp
next
  case (enroll e env eid tok pk m res ps m')
  have ok: "registry_ok (registry_of (m_pairing m))" "enrollments_ok (m_pairing m)"
    using enroll.prems by (simp_all add: machine_ok_def)
  have "registry_ok (registry_of ps) \<and> enrollments_ok ps"
  proof (cases rule: consume_cases [OF ok enroll.hyps(2,3,1)])
    case (1 err)
    then show ?thesis using ok(1) by simp
  next
    case (2 r d)
    then have r: "r \<in> set (load_enrollments (m_pairing m))" "enrollment_id r = eid" "registry_ok (registry_of ps)"
      and l: "load_enrollments ps = set_record eid (\<lambda>x. x\<lparr>status := ''used'', used_at := Some (c_now env),
          n_device_id := Some (device_id d)\<rparr>) (cleanup_enrollments (load_enrollments (m_pairing m)) (c_now env))"
      by (simp_all add: consumed_def)
    let ?ps = "(m_pairing m)\<lparr>ENROLLMENTS_FILE := Some (cleanup_enrollments (load_enrollments (m_pairing m)) (c_now env))\<rparr>"
    let ?use = "\<lambda>x. x\<lparr>status := ''used'', used_at := Some (c_now env), n_device_id := Some (device_id d)\<rparr>"
    have f: "find (\<lambda>x. enrollment_id x = eid) (load_enrollments ?ps) = Some r"
      using 2(2) by (simp only: grantable_def load_upd)
    have "enrollment_wf r" using ok(2) r(1) by (simp add: enrollments_ok_def)
    then have w: "enrollment_id (?use r) = enrollment_id r" "enrollment_wf (?use r)" "status (?use r) \<noteq> ''pending''"
      by (simp_all add: enrollment_wf_def)
    have "enrollments_ok (?ps\<lparr>ENROLLMENTS_FILE := Some (set_record eid ?use (load_enrollments ?ps))\<rparr>)"
      by (rule close_record_ok [where f = ?use, OF cleanup_ok [OF ok(2)] f w])
    then have "enrollments_ok (?ps\<lparr>ENROLLMENTS_FILE := Some (load_enrollments ps)\<rparr>)"
      by (simp only: l load_upd)
    then show ?thesis using r(3) by (simp add: enrollments_ok_def load_enrollments_def load_file_def)
  qed
  then show ?case using enroll.hyps(4) by (simp add: machine_ok_def)
qed

section \<open>What the commands promise\<close>


text \<open>The runtime agrees with the registry: the listeners and the WireGuard configuration are the ones it gives.\<close>

definition in_sync :: "cli_env \<Rightarrow> machine \<Rightarrow> bool" where
  "in_sync e m = (m_table m = serve_table (y_today e) (registry_of (m_pairing m))
     \<and> (\<exists>conf. m_conf m = Some conf
         \<and> render_wg_config (y_today e) (y_env e) (y_server_key e) (list_devices (registry_of (m_pairing m))) = Inr conf))"

lemma save_resources_devices: "save_resources rs st = Inr st' \<Longrightarrow> list_devices st' = list_devices st"
  by (auto simp: save_resources_Inr)

lemma create_group_grants_nothing:
  "create_group n d st = (Inr g, st') \<Longrightarrow> allowed_services (renorm_group g) = []"
  by (auto simp: create_group_def Let_def guard_in_def renorm_group_def normalize_group_def raw_of_group_def
      opt_list_def nonempty_def sorted_set_def split: sum.splits)

lemma remove_resource_devices:
  "remove_resource n st = (Inr b, st') \<Longrightarrow> list_devices st' = list_devices st"
  by (auto simp: remove_resource_def Let_def guard_in_def split: if_splits sum.splits
      dest!: save_groups_lists(2) save_resources_devices)

lemma apply_devices:
  assumes op: "apply_command e c ps = (Inr u, ps')" and nr: "\<not> renders c"
  shows "list_devices (registry_of ps') = list_devices (registry_of ps)"
proof -
  let ?st = "registry_of ps" and ?st' = "registry_of ps'"
  show ?thesis
  proof (cases c)
    case (DeviceAdd a tg gs)
    from op [unfolded DeviceAdd apply_command.simps] obtain x b where
      q: "create_enrollment (y_hmac_key e) (y_now e) (y_token e) (y_nonce e) b ps = (Inr x, ps')"
      by (auto simp: guard_in_def discard_result_Inr split: sum.splits)
    show ?thesis by (rule create_enrollment_inv [OF q]) simp
  next
    case (GroupCreate n d)
    from on_registry_discard [OF op [unfolded GroupCreate apply_command.simps]]
    obtain x where q: "create_group n d ?st = (Inr x, ?st')" by blast
    show ?thesis using q by (cases rule: create_group_inv) (auto dest: save_groups_lists(2))
  next
    case (GroupRemove n)
    have q: "remove_group (y_iso e) n ?st = (Inr True, ?st')"
      by (rule on_registry_found [OF op [unfolded GroupRemove apply_command.simps]])
    show ?thesis using q by (cases rule: remove_group_inv) (auto dest: save_groups_lists(2))
  next
    case (GroupState n b)
    from on_registry_discard [OF op [unfolded GroupState apply_command.simps]]
    obtain x where q: "set_group_enabled (y_iso e) n b ?st = (Inr x, ?st')" by blast
    show ?thesis using q [unfolded set_group_enabled_def] by (cases rule: edit_group_inv) (auto dest: save_groups_lists(2))
  next
    case (GroupDevice g d b)
    from on_registry_discard [OF op [unfolded GroupDevice apply_command.simps]]
    obtain x where q: "set_group_device (y_iso e) g d b ?st = (Inr x, ?st')" by blast
    from q obtain dev f where "edit_group g f (audit_acl (y_iso e) (if b then ''group_device_add'' else ''group_device_remove'')
        (Some dev) None (Some g)) ?st = (Inr x, ?st')"
      by (auto simp: set_group_device_def split: option.splits)
    then show ?thesis by (cases rule: edit_group_inv) (auto dest: save_groups_lists(2))
  next
    case (GroupService g d b)
    from on_registry_discard [OF op [unfolded GroupService apply_command.simps]]
    obtain x where q: "set_group_resource (y_iso e) g d b ?st = (Inr x, ?st')" by blast
    from q obtain f where "edit_group g f (audit_acl (y_iso e) (if b then ''group_resource_grant'' else ''group_resource_revoke'')
        None (Some d) (Some g)) ?st = (Inr x, ?st')"
      by (auto simp: set_group_resource_def split: if_splits)
    then show ?thesis by (cases rule: edit_group_inv) (auto dest: save_groups_lists(2))
  next
    case (ServiceOverride g d b)
    from on_registry_discard [OF op [unfolded ServiceOverride apply_command.simps]]
    obtain x where q: "set_device_access_override (y_iso e) g d b ?st = (Inr x, ?st')" by blast
    show ?thesis using q by (cases rule: override_inv) (auto simp: save_resources_Inr)
  next
    case (ResourceAdd n p l a)
    from on_registry_discard [OF op [unfolded ResourceAdd apply_command.simps]]
    obtain x where q: "register_resource n p (a\<lparr>a_allowed := split_csv l\<rparr>) ?st = (Inr x, ?st')" by blast
    show ?thesis using q by (cases rule: register_resource_inv) (auto simp: save_resources_Inr)
  next
    case (ResourceUpdate n p)
    from on_registry_discard [OF op [unfolded ResourceUpdate apply_command.simps]]
    obtain x where q: "update_resource n p ?st = (Inr x, ?st')" by blast
    show ?thesis using q by (cases rule: update_resource_inv) (auto simp: save_resources_Inr)
  next
    case (ResourceRemove n)
    have q: "remove_resource n ?st = (Inr True, ?st')"
      by (rule on_registry_found [OF op [unfolded ResourceRemove apply_command.simps]])
    then show ?thesis by (rule remove_resource_devices)
  next
    case (ServiceAdd n p h tp l)
    from on_registry_discard [OF op [unfolded ServiceAdd apply_command.simps]]
    obtain x where q: "register_resource n p (service_args h tp l) ?st = (Inr x, ?st')" by blast
    show ?thesis using q by (cases rule: register_resource_inv) (auto simp: save_resources_Inr)
  next
    case (ServiceRemove n)
    have q: "remove_resource n ?st = (Inr True, ?st')"
      by (rule on_registry_found [OF op [unfolded ServiceRemove apply_command.simps]])
    then show ?thesis by (rule remove_resource_devices)
  qed (use nr in simp_all)
qed

text \<open>The commands that do not reload leave every decision as it is.\<close>

lemma empty_group_changes_nothing:
  assumes "allowed_services g = []"
  shows "allowed_ips_for_resource today r ds (gs @ [g]) = allowed_ips_for_resource today r ds gs"
  using assms by (auto simp: set_eq_iff allowed_ips_iff access_spec_def group_grants_def)

lemma apply_quiet_table:
  assumes op: "apply_command e c ps = (Inr u, ps')" and nr: "\<not> reloads c"
  shows "serve_table today (registry_of ps') = serve_table today (registry_of ps)"
proof (cases c)
  case (DeviceAdd a tg gs)
  from op [unfolded DeviceAdd apply_command.simps] obtain x b where
    q: "create_enrollment (y_hmac_key e) (y_now e) (y_token e) (y_nonce e) b ps = (Inr x, ps')"
    by (auto simp: guard_in_def discard_result_Inr split: sum.splits)
  show ?thesis by (rule create_enrollment_inv [OF q]) simp
next
  case (GroupCreate n d)
  let ?st = "registry_of ps" and ?st' = "registry_of ps'"
  from on_registry_discard [OF op [unfolded GroupCreate apply_command.simps]]
  obtain x where q: "create_group n d ?st = (Inr x, ?st')" by blast
  show ?thesis
    using q
  proof (cases rule: create_group_inv)
    case (written g)
    note l = save_groups_lists [OF written(1)]
    have "map renorm_group (list_groups ?st) = list_groups ?st"
      by (simp add: map_idI list_groups_wf)
    then have "list_groups ?st' = list_groups ?st @ [renorm_group g]" using l(1) by simp
    moreover have "allowed_services (renorm_group g) = []"
      using create_group_grants_nothing [of n d ?st g ?st'] q written(2) by simp
    ultimately show ?thesis
      unfolding serve_table_def l(2,3) using empty_group_changes_nothing by simp
  qed simp
qed (use nr in simp_all)


text \<open>What WireGuard reads: the settings of each peer section of a configuration.\<close>

definition setting :: "string \<Rightarrow> string list \<Rightarrow> string" where
  "setting k ls = (case find (starts_with (k @ '' = '')) ls of None \<Rightarrow> [] | Some l \<Rightarrow> drop (length k + 3) l)"

fun peer_sections :: "string list \<Rightarrow> (string \<times> string \<times> string) list" where
  "peer_sections [] = []"
| "peer_sections (l # ls) = (if l = ''[Peer]'' then
       (let sec = takeWhile (\<lambda>x. x \<noteq> ''[Peer]'') ls in
         (setting ''PublicKey'' sec, setting ''PresharedKey'' sec, setting ''AllowedIPs'' sec) # peer_sections ls)
     else peer_sections ls)"

definition config_peers :: "string \<Rightarrow> (string \<times> string \<times> string) list" where
  "config_peers conf = peer_sections (split_on newline conf)"

definition one_line :: "device \<Rightarrow> bool" where
  \<comment> \<open>no field the configuration copies contains a newline\<close>
  "one_line d = (newline \<notin> set (d_name d) \<union> set (device_id d) \<union> set (public_key d) \<union> set (preshared_key d) \<union> set (vpn_ip d))"

lemma split_on_unlines:
  assumes "\<forall>l\<in>set ls. newline \<notin> set l" and "ls \<noteq> []"
  shows "split_on newline (unlines ls) = ls @ [[]]"
  using assms(2,1)
proof (induction ls rule: list_nonempty_induct)
  case (single l)
  then show ?case by (simp add: unlines_def split_on_append)
next
  case (cons l ls)
  then obtain y ys where ls: "ls = y # ys" by (cases ls) auto
  have "unlines (l # ls) = l @ newline # unlines ls" by (simp add: unlines_def ls)
  with cons show ?case by (simp add: split_on_append)
qed

lemma peer_sections_append:
  assumes "''[Peer]'' \<notin> set xs"
  shows "peer_sections (xs @ ys) = peer_sections ys"
  using assms by (induction xs) auto

lemma no_peer_line: "''[Peer]'' \<notin> set (interface_lines env key)"
  by (simp add: interface_lines_def)

lemma setting_simps [simp]:
  "setting k [] = []"
  "setting k ((k @ '' = '' @ v) # ls) = v"
  by (simp_all add: setting_def starts_with_def)

lemma peer_sections_device:
  "peer_sections (peer_lines d @ rest) = (public_key d, preshared_key d, vpn_ip d @ ''/32'') # peer_sections rest"
proof -
  let ?body = "[''# GE360 device: '' @ d_name d @ '' ('' @ device_id d @ '')'', ''PublicKey = '' @ public_key d,
     ''PresharedKey = '' @ preshared_key d, ''AllowedIPs = '' @ vpn_ip d @ ''/32'']"
  have tw: "takeWhile (\<lambda>x. x \<noteq> ''[Peer]'') (?body @ rest) = ?body @ takeWhile (\<lambda>x. x \<noteq> ''[Peer]'') rest"
    by (simp add: takeWhile_append2)
  have set: "setting ''PublicKey'' (?body @ zs) = public_key d" "setting ''PresharedKey'' (?body @ zs) = preshared_key d"
    "setting ''AllowedIPs'' (?body @ zs) = vpn_ip d @ ''/32''" for zs
    by (simp_all add: setting_def starts_with_def)
  have "peer_lines d @ rest = [] # ''[Peer]'' # (?body @ rest)" by (simp add: peer_lines_def)
  then have "peer_sections (peer_lines d @ rest) = (public_key d, preshared_key d, vpn_ip d @ ''/32'') # peer_sections (?body @ rest)"
    using tw set by (simp only: peer_sections.simps Let_def simp_thms if_True if_False list.distinct append_Cons append_Nil)
  also have "peer_sections (?body @ rest) = peer_sections rest" by (rule peer_sections_append) simp
  finally show ?thesis .
qed

lemma peer_sections_devices:
  "peer_sections (concat (map peer_lines ds) @ [[]]) = map (\<lambda>d. (public_key d, preshared_key d, vpn_ip d @ ''/32'')) ds"
  by (induction ds) (simp_all add: peer_sections_device)

text \<open>
  C5. Round trip of the WireGuard configuration: read back as WireGuard reads it, the rendered
  text has exactly one peer per active device, in registry order, with the key, preshared key
  and address the registry holds, provided no copied field contains a newline.
\<close>

theorem rendered_config_lists_active_devices:
  assumes "render_wg_config today env key devices = Inr conf" and "\<forall>d\<in>set devices. one_line d"
    and "\<forall>l\<in>set (interface_lines env (the key)). newline \<notin> set l"
  shows "config_peers conf
    = map (\<lambda>d. (public_key d, preshared_key d, vpn_ip d @ ''/32'')) (filter (device_is_active today) devices)"
proof -
  let ?ds = "filter (device_is_active today) devices"
  let ?ls = "interface_lines env (the key) @ concat (map peer_lines ?ds)"
  have conf: "conf = unlines ?ls" using assms(1) by (auto simp: render_wg_config_def split: option.splits)
  have "newline \<notin> set l" if "l \<in> set (peer_lines d)" "one_line d" for l d
    using that by (auto simp: peer_lines_def one_line_def newline_def)
  then have "\<forall>l\<in>set ?ls. newline \<notin> set l" using assms(2,3) by auto
  moreover have "?ls \<noteq> []" by (simp add: interface_lines_def)
  ultimately have "config_peers conf = peer_sections (?ls @ [[]])"
    unfolding config_peers_def conf by (subst split_on_unlines) simp_all
  also have "\<dots> = peer_sections (concat (map peer_lines ?ds) @ [[]])"
    unfolding append_assoc by (rule peer_sections_append [OF no_peer_line])
  finally show ?thesis by (simp only: peer_sections_devices)
qed

theorem rendered_config_lists_active_devices_witness:
  "let ds = [demo_device ''d1'' ''phone'' ''10.88.0.2'', (demo_device ''d2'' ''old'' ''10.88.0.3'')\<lparr>d_enabled := False\<rparr>] in
     \<exists>conf. render_wg_config 739000 [] (Some ''sk'') ds = Inr conf
       \<and> config_peers conf = [(''kd1'', ''p'', ''10.88.0.2/32'')]"
proof -
  let ?ds = "[demo_device ''d1'' ''phone'' ''10.88.0.2'', (demo_device ''d2'' ''old'' ''10.88.0.3'')\<lparr>d_enabled := False\<rparr>]"
  obtain conf where c: "render_wg_config 739000 [] (Some ''sk'') ?ds = Inr conf"
    by (simp add: render_wg_config_def)
  have a: "\<forall>d\<in>set ?ds. one_line d" by (simp add: one_line_def demo_device_def newline_def)
  have b: "\<forall>l\<in>set (interface_lines [] (the (Some ''sk''))). newline \<notin> set l" by code_simp
  have f: "map (\<lambda>d. (public_key d, preshared_key d, vpn_ip d @ ''/32'')) (filter (device_is_active 739000) ?ds)
      = [(''kd1'', ''p'', ''10.88.0.2/32'')]"
    by code_simp
  from rendered_config_lists_active_devices [OF c a b] have "config_peers conf = [(''kd1'', ''p'', ''10.88.0.2/32'')]"
    by (simp only: f)
  with c show ?thesis by auto
qed

text \<open>
  The proviso matters: the name check accepts one trailing newline, and such a name splits the
  comment line of its peer, so that the configuration has a line WireGuard rejects.
\<close>

lemma trailing_newline_splits_a_line:
  "is_ok (validate_name (''phone'' @ [newline]))
   \<and> (let d = (demo_device ''d1'' ''phone'' ''10.88.0.2'')\<lparr>d_name := ''phone'' @ [newline]\<rparr> in
       '' (d1)'' \<in> set (split_on newline (unlines (peer_lines d))))"
  by code_simp

text \<open>
  C4. Revocation takes effect on the running machine: when \<open>device disable\<close> succeeds, no
  listener of the restarted daemon admits the device's address on any port, and the rewritten
  WireGuard configuration is rendered from a list in which the device is inactive, so it is
  not a peer any more.
\<close>

theorem disabled_device_cut_off:
  assumes "run_command e (DeviceState i False) m = (Inr (), m')" and "registry_ok (registry_of (m_pairing m))"
  shows "\<exists>d. find_device i (registry_of (m_pairing m)) = Some d
    \<and> (\<forall>port. \<not> admitted (m_table m') port (vpn_ip d))
    \<and> (\<exists>conf. m_conf m' = Some conf \<and> render_wg_config (y_today e) (y_env e) (y_server_key e)
          (filter (\<lambda>x. vpn_ip x \<noteq> vpn_ip d) (list_devices (registry_of (m_pairing m')))) = Inr conf)"
proof -
  let ?st = "registry_of (m_pairing m)"
  obtain r st' where q: "set_device_enabled (y_iso e) i False ?st = (r, st')" by fastforce
  from assms(1) q obtain d conf where r: "r = Inr (Some d)"
    and conf: "render_wg_config (y_today e) (y_env e) (y_server_key e) (list_devices st') = Inr conf"
    and m': "registry_of (m_pairing m') = st'" "m_conf m' = Some conf" "m_table m' = serve_table (y_today e) st'"
    by (cases r) (auto simp: run_command_def on_registry_def found_or_def rbind_def guard_in_def Let_def
        reload_runtime_def split: if_splits sum.splits option.splits)
  note q = q [unfolded r]
  have in_: "\<not> device_is_active (y_today e) y" if "y \<in> set (list_devices st')" "vpn_ip y = vpn_ip d" for y
    by (rule disabled_device_inactive [OF assms(2) q that])
  have "\<not> admitted (m_table m') port (vpn_ip d)" for port
    using in_ by (auto simp: m'(3) admitted_def serve_table_def list_ex_iff allowed_ips_iff access_spec_def)
  moreover have "filter (device_is_active (y_today e)) (filter (\<lambda>x. vpn_ip x \<noteq> vpn_ip d) (list_devices st'))
      = filter (device_is_active (y_today e)) (list_devices st')"
    using in_ by (auto intro: filter_cong)
  then have "render_wg_config (y_today e) (y_env e) (y_server_key e)
      (filter (\<lambda>x. vpn_ip x \<noteq> vpn_ip d) (list_devices st')) = Inr conf"
    using conf by (auto simp: render_wg_config_def split: option.splits)
  moreover from q obtain x where "find_device i ?st = Some x" "d = x\<lparr>d_enabled := False\<rparr>"
    by (cases rule: set_device_enabled_inv) (auto simp: find_device_def)
  ultimately show ?thesis using m' by auto
qed

section \<open>A machine with two devices\<close>

definition demo_cli :: cli_env where
  "demo_cli = \<lparr>y_root = True, y_today = 739000, y_iso = ''t1'', y_env = [], y_server_key = Some ''sk'',
     y_hmac_key = [], y_now = 1000, y_token = ''tok'', y_nonce = ''n1''\<rparr>"

definition demo_machine :: machine where
  "demo_machine = \<lparr>m_pairing = \<lparr>registry_of = demo_store, ENROLLMENTS_FILE = None\<rparr>, m_conf = None, m_table = []\<rparr>"

lemma demo_disable_runs:
  "fst (run_command demo_cli (DeviceState ''phone'' False) demo_machine) = Inr ()"
  by code_simp

lemma demo_disable:
  "run_command demo_cli (DeviceState ''phone'' False) demo_machine
   = (Inr (), snd (run_command demo_cli (DeviceState ''phone'' False) demo_machine))"
  using demo_disable_runs by (metis prod.collapse)

theorem disabled_device_cut_off_witness:
  "\<not> admitted (m_table (snd (run_command demo_cli (DeviceState ''phone'' False) demo_machine))) 9001 ''10.88.0.2''
   \<and> admitted (m_table (snd (run_command demo_cli DeviceSync demo_machine))) 9001 ''10.88.0.2''"
proof -
  have "registry_ok (registry_of (m_pairing demo_machine))" using demo_store_ok by (simp add: demo_machine_def)
  from disabled_device_cut_off [OF demo_disable this]
  obtain d where d: "find_device ''phone'' (registry_of (m_pairing demo_machine)) = Some d"
    "\<not> admitted (m_table (snd (run_command demo_cli (DeviceState ''phone'' False) demo_machine))) 9001 (vpn_ip d)"
    by blast
  have "map_option vpn_ip (find_device ''phone'' (registry_of (m_pairing demo_machine))) = Some ''10.88.0.2''" by code_simp
  then have "vpn_ip d = ''10.88.0.2''" using d(1) by simp
  moreover have "admitted (m_table (snd (run_command demo_cli DeviceSync demo_machine))) 9001 ''10.88.0.2''" by code_simp
  ultimately show ?thesis using d(2) by simp
qed



end
