(* ===== verification/Json.thy ===== *)
theory Json
  imports PyNum
begin

text \<open>
  JSON values as \<open>json.loads\<close> gives them, and what the program does with a value of any type:
  \<open>dict.get\<close>, truth, \<open>str()\<close>, \<open>int()\<close>, \<open>isinstance\<close>. The text Python prints for a float,
  a list or a dictionary is an argument (\<open>show\<close>) of what uses it: the program never depends
  on it. An object is the list of its pairs, of which \<open>json.loads\<close> keeps the last of a key.
\<close>

datatype json =
    JNull
  | JBool bool
  | JInt int
  | JFloat pyfloat
  | JStr string
  | JList "json list"
  | JObj "(string \<times> json) list"

definition obj_get :: "(string \<times> json) list \<Rightarrow> string \<Rightarrow> json" where
  \<comment> \<open>\<open>d.get(key)\<close>, null for a missing key\<close>
  "obj_get kvs k = (case map_of (rev kvs) k of None \<Rightarrow> JNull | Some v \<Rightarrow> v)"

definition obj_get_or :: "(string \<times> json) list \<Rightarrow> string \<Rightarrow> json \<Rightarrow> json" where
  \<comment> \<open>\<open>d.get(key, default)\<close>\<close>
  "obj_get_or kvs k d = (case map_of (rev kvs) k of None \<Rightarrow> d | Some v \<Rightarrow> v)"

fun truthy :: "json \<Rightarrow> bool" where
  "truthy JNull = False"
| "truthy (JBool b) = b"
| "truthy (JInt i) = (i \<noteq> 0)"
| "truthy (JFloat f) = (f \<noteq> Fin 0)"
| "truthy (JStr s) = (s \<noteq> [])"
| "truthy (JList xs) = (xs \<noteq> [])"
| "truthy (JObj kvs) = (kvs \<noteq> [])"

fun py_str :: "(json \<Rightarrow> string) \<Rightarrow> json \<Rightarrow> string" where
  "py_str show JNull = ''None''"
| "py_str show (JBool b) = (if b then ''True'' else ''False'')"
| "py_str show (JInt i) = int_str i"
| "py_str show (JStr s) = s"
| "py_str show j = show j"

definition text_or :: "(json \<Rightarrow> string) \<Rightarrow> json \<Rightarrow> string \<Rightarrow> string" where
  \<comment> \<open>\<open>str(value or default)\<close>\<close>
  "text_or show j d = (if truthy j then py_str show j else d)"

fun num_of :: "json \<Rightarrow> num_arg" where
  "num_of (JBool b) = NInt (if b then 1 else 0)"
| "num_of (JInt i) = NInt i"
| "num_of (JFloat f) = NFloat f"
| "num_of (JStr s) = NStr s"
| "num_of _ = NOther"

definition json_int :: "json \<Rightarrow> int res" where
  \<comment> \<open>\<open>int(value)\<close>\<close>
  "json_int j = py_int_arg (num_of j)"

fun as_number :: "json \<Rightarrow> json option" where
  \<comment> \<open>the value if \<open>isinstance(value, (int, float))\<close>, which a bool is too\<close>
  "as_number (JBool b) = Some (JBool b)"
| "as_number (JInt i) = Some (JInt i)"
| "as_number (JFloat f) = Some (JFloat f)"
| "as_number _ = None"

lemma text_or_str [simp]: "text_or show (JStr s) d = (if s = [] then d else s)"
  by (simp add: text_or_def)

lemma text_or_Null [simp]: "text_or show JNull d = d"
  by (simp add: text_or_def)

lemma json_int_Int [simp]: "json_int (JInt i) = Inr i"
  by (simp add: json_int_def)

lemma obj_get_Nil [simp]: "obj_get [] k = JNull" "obj_get_or [] k d = d"
  by (simp_all add: obj_get_def obj_get_or_def)

lemma map_of_rev_distinct: "distinct (map fst kvs) \<Longrightarrow> map_of (rev kvs) = map_of kvs"
  by (rule map_of_eqI) (auto simp: rev_map [symmetric] distinct_rev)

end
