(* ===== verification/MultiServer.thy ===== *)
theory MultiServer
  imports Json Launcher
begin

text \<open>
  \<open>ge360_bridge/multi_server.py\<close> and \<open>ge360_bridge/multi_server_server.py\<close>: the registry of
  other bridge servers, the request for their snapshot over a pinned connection, what is kept
  of a snapshot, the catalog that merges the local Resources with the remote ones, and the
  control service that answers such requests. A snapshot is the JSON value the agent or the
  remote server gives. \<open>show\<close> is the text of \<open>str()\<close> for a float, a list or a dictionary.
\<close>

section \<open>Validators\<close>

definition server_id_head :: "char \<Rightarrow> bool" where
  "server_id_head c = (is_digit c \<or> 97 \<le> ord_of c \<and> ord_of c \<le> 122)"

definition server_id_char :: "char \<Rightarrow> bool" where
  "server_id_char c = (server_id_head c \<or> c = CHR ''_'' \<or> c = CHR ''-'')"

definition SERVER_ID_fullmatch :: "string \<Rightarrow> bool" where
  "SERVER_ID_fullmatch s = (starts_with ''srv_'' s \<and>
     class_fullmatch server_id_head server_id_char 63 (drop 4 s) \<and> 7 \<le> length s)"

definition SERVER_ALIAS_fullmatch :: "string \<Rightarrow> bool" where
  "SERVER_ALIAS_fullmatch s = class_fullmatch is_alnum
     (\<lambda>c. is_alnum c \<or> c = CHR ''_'' \<or> c = CHR ''.'' \<or> c = CHR ''-'') 63 s"

definition token_char :: "char \<Rightarrow> bool" where
  "token_char c = (is_alnum c \<or> c = CHR ''_'' \<or> c = CHR ''-'')"

definition SERVER_TOKEN_fullmatch :: "string \<Rightarrow> bool" where
  "SERVER_TOKEN_fullmatch s = (list_all token_char s \<and> 32 \<le> length s \<and> length s \<le> 256)"

definition validate_server_id :: "string \<Rightarrow> string res" where
  "validate_server_id v = (let s = py_lower (py_strip v) in
     if SERVER_ID_fullmatch s then Inr s
     else Inl (BridgeError ''server_id non valido: usa srv_ seguito da lettere, numeri, _ o -.''))"

definition validate_server_name :: "string \<Rightarrow> string res" where
  "validate_server_name v = (let s = py_strip v in
     if SERVER_ALIAS_fullmatch s then Inr s else Inl (BridgeError ''Nome server non valido.''))"

definition validate_control_url :: "string \<Rightarrow> string res" where
  "validate_control_url v = (let url = rstrip_by (\<lambda>c. c = CHR ''/'') (py_strip v) in
     rbind (urlsplit url) (\<lambda>parsed.
     if u_scheme parsed \<noteq> ''https'' \<or> u_hostname parsed = [] \<or> u_username parsed \<noteq> [] \<or> u_password parsed \<noteq> []
        \<or> u_fragment parsed \<noteq> []
     then Inl (BridgeError ''Control URL server deve essere HTTPS senza credenziali o fragment.'')
     else (case u_port parsed of
         Inl _ \<Rightarrow> Inl (BridgeError ''Porta control server non valida.'')
       | Inr None \<Rightarrow> Inr url
       | Inr (Some p) \<Rightarrow> rbind (validate_port (int p)) (\<lambda>_. Inr url))))"

definition validate_fingerprint :: "string \<Rightarrow> string res" where
  "validate_fingerprint v = (let s = py_lower (py_strip v) in
     if is_digest s then Inr s else Inl (BridgeError ''TLS certificate pin server non valido.''))"

definition validate_server_token :: "string \<Rightarrow> string res" where
  "validate_server_token v = (let s = py_strip v in
     if SERVER_TOKEN_fullmatch s then Inr s else Inl (BridgeError ''Token server non valido.''))"

section \<open>The server registry\<close>

record server =
  sr_id :: string
  sr_name :: string
  sr_url :: string
  sr_fingerprint :: string
  sr_token :: string
  sr_enabled :: bool
  sr_notes :: string
  sr_created :: string

record public_server =
  pv_id :: string
  pv_name :: string
  pv_enabled :: bool
  pv_notes :: string
  pv_created :: string

datatype registry_file = Missing | Unreadable string | Payload json

definition normalize_server :: "(json \<Rightarrow> string) \<Rightarrow> string \<Rightarrow> (string \<times> json) list \<Rightarrow> server res" where
  "normalize_server show now raw =
     rbind (validate_server_id (text_or show (obj_get raw ''server_id'') [])) (\<lambda>i.
     rbind (validate_server_name (text_or show (obj_get raw ''name'') [])) (\<lambda>n.
     rbind (validate_control_url (text_or show (obj_get raw ''control_url'') [])) (\<lambda>u.
     rbind (validate_fingerprint (text_or show (obj_get raw ''tls_cert_sha256'') [])) (\<lambda>f.
     rbind (validate_server_token (text_or show (obj_get raw ''token'') [])) (\<lambda>t.
     Inr \<lparr>sr_id = i, sr_name = n, sr_url = u, sr_fingerprint = f, sr_token = t,
       sr_enabled = truthy (obj_get_or raw ''enabled'' (JBool True)),
       sr_notes = take 500 (text_or show (obj_get raw ''notes'') []),
       sr_created = text_or show (obj_get raw ''created_at'') now\<rparr>)))))"

definition server_pairs :: "server \<Rightarrow> (string \<times> json) list" where
  \<comment> \<open>the dictionary of a record\<close>
  "server_pairs s = [(''server_id'', JStr (sr_id s)), (''name'', JStr (sr_name s)),
     (''control_url'', JStr (sr_url s)), (''tls_cert_sha256'', JStr (sr_fingerprint s)),
     (''token'', JStr (sr_token s)), (''enabled'', JBool (sr_enabled s)),
     (''notes'', JStr (sr_notes s)), (''created_at'', JStr (sr_created s))]"

fun dicts :: "json list \<Rightarrow> (string \<times> json) list list" where
  "dicts [] = []"
| "dicts (JObj kvs # js) = kvs # dicts js"
| "dicts (_ # js) = dicts js"

definition list_servers :: "(json \<Rightarrow> string) \<Rightarrow> string \<Rightarrow> registry_file \<Rightarrow> server list res" where
  "list_servers show now file = (case file of
       Missing \<Rightarrow> Inr []
     | Unreadable e \<Rightarrow> Inl (BridgeError (''Server Registry non leggibile: '' @ e))
     | Payload (JList js) \<Rightarrow> rmap (normalize_server show now) (dicts js)
     | Payload _ \<Rightarrow> Inl (BridgeError ''Server Registry non valido.''))"

definition MAX_SERVERS :: nat where "MAX_SERVERS = 64"

definition save_servers :: "(json \<Rightarrow> string) \<Rightarrow> string \<Rightarrow> server list \<Rightarrow> registry_file \<Rightarrow> unit res \<times> registry_file" where
  "save_servers show now items file =
     guard_in file (rmap (normalize_server show now) (map server_pairs items)) (\<lambda>ss.
     if MAX_SERVERS < length ss then (Inl (BridgeError ''Troppi server: massimo 64.''), file)
     else if \<not> distinct (map sr_id ss) \<or> \<not> distinct (map sr_name ss) \<or> \<not> distinct (map sr_url ss)
     then (Inl (BridgeError ''Server Registry contiene server_id, nome o URL duplicati.''), file)
     else (Inr (), Payload (JList (map (JObj \<circ> server_pairs) ss))))"

definition server_matches :: "string \<Rightarrow> server \<Rightarrow> bool" where
  "server_matches i s = (sr_id s = i \<or> sr_name s = i)"

definition public_view :: "server \<Rightarrow> public_server" where
  "public_view s = \<lparr>pv_id = sr_id s, pv_name = sr_name s, pv_enabled = sr_enabled s,
     pv_notes = sr_notes s, pv_created = sr_created s\<rparr>"

definition find_server :: "(json \<Rightarrow> string) \<Rightarrow> string \<Rightarrow> string \<Rightarrow> registry_file \<Rightarrow> server option res" where
  "find_server show now i file = rbind (list_servers show now file) (\<lambda>ss. Inr (find (server_matches i) ss))"

record add_args =
  b_name :: string
  b_url :: string
  b_fingerprint :: string
  b_token :: string
  b_server_id :: "string option"
  b_notes :: string
  b_enabled :: bool

definition add_server ::
  "(json \<Rightarrow> string) \<Rightarrow> string \<Rightarrow> string \<Rightarrow> add_args \<Rightarrow> registry_file \<Rightarrow> public_server res \<times> registry_file" where
  \<comment> \<open>\<open>fresh\<close> is the random identifier\<close>
  "add_server show now fresh a file =
     guard_in file (list_servers show now file) (\<lambda>items.
     guard_in file (normalize_server show now
       [(''server_id'', JStr (str_or (opt_str (b_server_id a)) (''srv_'' @ fresh))), (''name'', JStr (b_name a)),
        (''control_url'', JStr (b_url a)), (''tls_cert_sha256'', JStr (b_fingerprint a)), (''token'', JStr (b_token a)),
        (''enabled'', JBool (b_enabled a)), (''notes'', JStr (b_notes a)), (''created_at'', JStr now)]) (\<lambda>record.
     case save_servers show now (items @ [record]) file of
       (Inl e, f) \<Rightarrow> (Inl e, f) | (Inr _, f) \<Rightarrow> (Inr (public_view record), f)))"

definition remove_server ::
  "(json \<Rightarrow> string) \<Rightarrow> string \<Rightarrow> string \<Rightarrow> registry_file \<Rightarrow> bool res \<times> registry_file" where
  "remove_server show now i file =
     guard_in file (list_servers show now file) (\<lambda>items.
     let new = filter (\<lambda>s. \<not> server_matches i s) items in
     if length new = length items then (Inr False, file)
     else (case save_servers show now new file of (Inl e, f) \<Rightarrow> (Inl e, f) | (Inr _, f) \<Rightarrow> (Inr True, f)))"

definition set_server_enabled ::
  "(json \<Rightarrow> string) \<Rightarrow> string \<Rightarrow> string \<Rightarrow> bool \<Rightarrow> registry_file \<Rightarrow> public_server res \<times> registry_file" where
  "set_server_enabled show now i enabled file =
     guard_in file (list_servers show now file) (\<lambda>items.
     case find (server_matches i) items of
       None \<Rightarrow> (Inl (BridgeError ''Server non trovato.''), file)
     | Some s \<Rightarrow> (case save_servers show now (map_first (server_matches i) (\<lambda>x. x\<lparr>sr_enabled := enabled\<rparr>) items) file of
           (Inl e, f) \<Rightarrow> (Inl e, f) | (Inr _, f) \<Rightarrow> (Inr (public_view (s\<lparr>sr_enabled := enabled\<rparr>)), f)))"

section \<open>What is kept of a snapshot\<close>

definition peer_ip_allowed :: "string \<Rightarrow> bool" where
  "peer_ip_allowed v = (case ip_address v of None \<Rightarrow> False
     | Some a \<Rightarrow> \<not> (is_unspecified a \<or> is_multicast a \<or> is_loopback a \<or> is_link_local a))"

record remote_resource =
  rr_name :: string
  rr_display :: string
  rr_version :: string
  rr_icon :: string
  rr_description :: string
  rr_protocol :: string
  rr_port :: int
  rr_state :: string
  rr_latency :: "json option"
  rr_enabled :: bool

record host_info =
  hi_hostname :: string
  hi_os :: string
  hi_architecture :: string
  hi_uptime :: "json option"

record snapshot =
  sn_version :: string
  sn_read_only :: bool
  sn_host :: host_info
  sn_ips :: "string list"
  sn_resources :: "remote_resource list"
  sn_generated :: string

definition SNAPSHOT_STATES :: "string list" where
  "SNAPSHOT_STATES = [''ONLINE'', ''DEGRADED'', ''OFFLINE'', ''TIMEOUT'', ''UNAUTHORIZED'', ''BAD_RESPONSE'', ''UNKNOWN'']"

definition MAX_RESOURCES_PER_SERVER :: nat where "MAX_RESOURCES_PER_SERVER = 256"

definition sanitize_resource :: "(json \<Rightarrow> string) \<Rightarrow> string list \<Rightarrow> json \<Rightarrow> remote_resource res" where
  "sanitize_resource show names j = (case j of
       JObj raw \<Rightarrow>
         rbind (validate_name (text_or show (obj_get raw ''name'') [])) (\<lambda>name.
         rbind (ensure (name \<notin> set names) (BridgeError ''Resource remota duplicata.'')) (\<lambda>_.
         rbind (validate_resource_protocol (text_or show (obj_get raw ''protocol'') ''tcp'')) (\<lambda>pr.
         rbind (if truthy (obj_get raw ''target_port'') then json_int (obj_get raw ''target_port'') else Inr 0) (\<lambda>p.
         rbind (validate_port p) (\<lambda>port.
         rbind (validate_resource_icon (text_or show (obj_get raw ''icon'') ''server'')) (\<lambda>ic.
         let st = py_upper (text_or show (obj_get raw ''health_state'') ''UNKNOWN'') in
         Inr \<lparr>rr_name = name, rr_display = take 120 (text_or show (obj_get raw ''display_name'') name),
           rr_version = take 64 (text_or show (obj_get raw ''version'') []), rr_icon = ic,
           rr_description = take 500 (text_or show (obj_get raw ''description'') []), rr_protocol = pr,
           rr_port = port, rr_state = (if st \<in> set SNAPSHOT_STATES then st else ''UNKNOWN''),
           rr_latency = as_number (obj_get raw ''latency_ms''),
           rr_enabled = truthy (obj_get_or raw ''enabled'' (JBool True))\<rparr>))))))
     | _ \<Rightarrow> Inl (BridgeError ''Resource remota non valida.''))"

fun sanitize_resources :: "(json \<Rightarrow> string) \<Rightarrow> string list \<Rightarrow> json list \<Rightarrow> remote_resource list res" where
  "sanitize_resources show names [] = Inr []"
| "sanitize_resources show names (j # js) = rbind (sanitize_resource show names j) (\<lambda>r.
     rbind (sanitize_resources show (rr_name r # names) js) (\<lambda>rs. Inr (r # rs)))"

definition snapshot_addresses :: "(json \<Rightarrow> string) \<Rightarrow> json \<Rightarrow> string list res" where
  \<comment> \<open>a string or an object can be iterated too, but has no dictionaries in it\<close>
  "snapshot_addresses show j = (if \<not> truthy j then Inr [] else case j of
       JList js \<Rightarrow> Inr (filter peer_ip_allowed (map (\<lambda>kvs. text_or show (obj_get kvs ''address'') []) (dicts js)))
     | JStr _ \<Rightarrow> Inr []
     | JObj _ \<Rightarrow> Inr []
     | _ \<Rightarrow> Inl TypeError)"

definition or_dict :: "json \<Rightarrow> (string \<times> json) list res" where
  \<comment> \<open>\<open>(value or {}).get\<close>\<close>
  "or_dict j = (if \<not> truthy j then Inr [] else case j of JObj kvs \<Rightarrow> Inr kvs | _ \<Rightarrow> Inl AttributeError)"

definition sanitize_agent_snapshot :: "(json \<Rightarrow> string) \<Rightarrow> json \<Rightarrow> snapshot res" where
  "sanitize_agent_snapshot show j = (case j of
       JObj snap \<Rightarrow> (case obj_get snap ''resources'' of
           JList js \<Rightarrow>
             if MAX_RESOURCES_PER_SERVER < length js then Inl (BridgeError ''Resource remote non valide.'')
             else rbind (sanitize_resources show [] js) (\<lambda>rs.
               let host = (case obj_get snap ''host'' of JObj h \<Rightarrow> h | _ \<Rightarrow> []) in
               rbind (snapshot_addresses show (obj_get snap ''ip_addresses'')) (\<lambda>ips.
               rbind (or_dict (obj_get snap ''agent'')) (\<lambda>agent.
               Inr \<lparr>sn_version = take 64 (text_or show (obj_get agent ''version'') []),
                 sn_read_only = truthy (obj_get_or agent ''read_only'' (JBool True)),
                 sn_host = \<lparr>hi_hostname = take 255 (text_or show (obj_get host ''hostname'') []),
                   hi_os = take 255 (text_or show (obj_get host ''os'') []),
                   hi_architecture = take 64 (text_or show (obj_get host ''architecture'') []),
                   hi_uptime = as_number (obj_get host ''uptime_seconds'')\<rparr>,
                 sn_ips = sorted_set ips, sn_resources = rs,
                 sn_generated = text_or show (obj_get snap ''generated_at'') []\<rparr>)))
         | _ \<Rightarrow> Inl (BridgeError ''Resource remote non valide.''))
     | _ \<Rightarrow> Inl (BridgeError ''Snapshot server non valido.''))"

section \<open>The request for a snapshot\<close>

text \<open>
  What the connection gives: an error of \<open>connect\<close>, the peer's certificate, an error of the
  exchange, the status, the body (of which at most one byte more than the limit is read) and
  what \<open>json.loads\<close> makes of it.
\<close>

record pinned_env =
  pe_connect_error :: "string option"
  pe_cert :: "string option"
  pe_exchange_error :: "string option"
  pe_status :: int
  pe_body :: string
  pe_json :: "json option"

record pinned_sent =
  ps_path :: string
  ps_authorization :: string

definition MAX_RESPONSE_BYTES :: nat where "MAX_RESPONSE_BYTES = 1048576"

definition pinned_json_request ::
  "pinned_env \<Rightarrow> string \<Rightarrow> string \<Rightarrow> string \<Rightarrow> (string \<times> json) list res \<times> pinned_sent option" where
  "pinned_json_request env url tok fingerprint =
     guard_in None (urlsplit url) (\<lambda>parsed.
     if u_scheme parsed \<noteq> ''https'' \<or> u_hostname parsed = [] then (Inl (BridgeError ''URL server deve essere HTTPS.''), None)
     else guard_in None (u_port parsed) (\<lambda>_.
     case pe_connect_error env of
       Some e \<Rightarrow> (Inl (BridgeError (''Server remoto non raggiungibile: '' @ e)), None)
     | None \<Rightarrow>
       if (case pe_cert env of None \<Rightarrow> True | Some c \<Rightarrow> c = [] \<or> sha256_bytes c \<noteq> fingerprint)
       then (Inl (BridgeError ''TLS certificate pin server non corrisponde.''), None)
       else let sent = Some \<lparr>ps_path = str_or (u_path parsed) ''/'', ps_authorization = ''Bearer '' @ tok\<rparr> in
         (case pe_exchange_error env of
           Some e \<Rightarrow> (Inl (BridgeError (''Server remoto non raggiungibile: '' @ e)), sent)
         | None \<Rightarrow>
           if MAX_RESPONSE_BYTES < length (pe_body env) then (Inl (BridgeError ''Risposta server remota troppo grande.''), sent)
           else (case pe_json env of
               None \<Rightarrow> (Inl (BridgeError ''Risposta server remota non JSON valida.''), sent)
             | Some reply \<Rightarrow> (case reply of
                 JObj kvs \<Rightarrow> if pe_status env < 200 \<or> 300 \<le> pe_status env
                   then (Inl (BridgeError (''Server remoto HTTP '' @ int_str (pe_status env))), sent)
                   else (Inr kvs, sent)
               | _ \<Rightarrow> (Inl (BridgeError (''Server remoto HTTP '' @ int_str (pe_status env))), sent))))))"

definition fetch_server_snapshot ::
  "(json \<Rightarrow> string) \<Rightarrow> pinned_env \<Rightarrow> server \<Rightarrow> snapshot res \<times> pinned_sent option" where
  "fetch_server_snapshot show env s =
     (if \<not> sr_enabled s then (Inl (BridgeError ''Server disabilitato.''), None)
      else guard_in None (validate_control_url (sr_url s)) (\<lambda>base.
      guard_in None (validate_server_token (sr_token s)) (\<lambda>tok.
      guard_in None (validate_fingerprint (sr_fingerprint s)) (\<lambda>fp.
      case pinned_json_request env (base @ ''/v1/control/snapshot'') tok fp of
        (Inl e, sent) \<Rightarrow> (Inl e, sent)
      | (Inr reply, sent) \<Rightarrow> (sanitize_agent_snapshot show (JObj reply), sent)))))"

definition or_value :: "json \<Rightarrow> json \<Rightarrow> json" where
  "or_value a b = (if truthy a then a else b)"

definition fetch_agent_snapshot ::
  "(json \<Rightarrow> string) \<Rightarrow> pinned_env \<Rightarrow> pinned_env \<Rightarrow> string \<Rightarrow> string \<Rightarrow> string \<Rightarrow> snapshot res" where
  "fetch_agent_snapshot show env1 env2 url tok_arg fp_arg =
     rbind (validate_control_url url) (\<lambda>base.
     rbind (validate_server_token tok_arg) (\<lambda>tok.
     rbind (validate_fingerprint fp_arg) (\<lambda>fp.
     rbind (fst (pinned_json_request env1 (base @ ''/v1/status'') tok fp)) (\<lambda>st.
     rbind (fst (pinned_json_request env2 (base @ ''/v1/resources'') tok fp)) (\<lambda>rs.
     sanitize_agent_snapshot show (JObj
       [(''agent'', or_value (obj_get st ''agent'') (JObj [])), (''host'', or_value (obj_get st ''host'') (JObj [])),
        (''ip_addresses'', or_value (obj_get st ''ip_addresses'') (JList [])),
        (''resources'', or_value (obj_get rs ''resources'') (JList [])),
        (''generated_at'', or_value (or_value (obj_get rs ''generated_at'') (obj_get st ''generated_at'')) (JStr []))]))))))"

section \<open>The catalog\<close>

record catalog_server =
  cs_public :: public_server \<comment> \<open>of the local server only the identifier and the name are shown\<close>
  cs_local :: bool
  cs_online :: bool
  cs_disabled :: bool
  cs_host :: "host_info option"
  cs_ips :: "string list"
  cs_error :: "string option"
  cs_count :: nat

record catalog_resource =
  cr_resource :: remote_resource
  cr_id :: string
  cr_server_id :: string
  cr_server_name :: string
  cr_local :: bool
  cr_bridge_port :: "int option"

record full_catalog =
  fc_control :: string
  fc_servers :: "catalog_server list"
  fc_resources :: "catalog_resource list"
  fc_generated :: string

definition resource_id :: "string \<Rightarrow> string \<Rightarrow> string" where
  "resource_id server name = server @ '':'' @ name"

definition registered_port :: "resource list \<Rightarrow> string \<Rightarrow> int option" where
  \<comment> \<open>the bridge port of the last registered Resource of the name, unless it is zero\<close>
  "registered_port rs n = (case find (\<lambda>r. r_name r = n) (rev rs) of None \<Rightarrow> None
     | Some r \<Rightarrow> if bridge_port r = 0 then None else Some (bridge_port r))"

definition remote_entries :: "server \<Rightarrow> snapshot \<Rightarrow> catalog_resource list" where
  "remote_entries s sn = map (\<lambda>r. \<lparr>cr_resource = r, cr_id = resource_id (sr_id s) (rr_name r), cr_server_id = sr_id s,
     cr_server_name = sr_name s, cr_local = False, cr_bridge_port = None\<rparr>) (sn_resources sn)"

definition online_server :: "server \<Rightarrow> snapshot \<Rightarrow> catalog_server" where
  "online_server s sn = \<lparr>cs_public = public_view s, cs_local = False, cs_online = True, cs_disabled = False,
     cs_host = Some (sn_host sn), cs_ips = sn_ips sn, cs_error = None, cs_count = length (sn_resources sn)\<rparr>"

definition offline_server :: "server \<Rightarrow> bool \<Rightarrow> string option \<Rightarrow> catalog_server" where
  "offline_server s disabled e = \<lparr>cs_public = public_view s, cs_local = False, cs_online = False, cs_disabled = disabled,
     cs_host = None, cs_ips = [], cs_error = e, cs_count = 0\<rparr>"

fun collect_servers :: "(server \<Rightarrow> snapshot res) \<Rightarrow> server list \<Rightarrow> (catalog_server list \<times> catalog_resource list) res" where
  \<comment> \<open>only a \<open>BridgeError\<close> marks the server offline; any other exception ends the loop\<close>
  "collect_servers get [] = Inr ([], [])"
| "collect_servers get (s # ss) =
     rbind (if \<not> sr_enabled s then Inr (offline_server s True None, [])
            else (case get s of
                Inr sn \<Rightarrow> Inr (online_server s sn, remote_entries s sn)
              | Inl (BridgeError e) \<Rightarrow> Inr (offline_server s False (Some (take 300 e)), [])
              | Inl err \<Rightarrow> Inl err)) (\<lambda>(entry, rs).
     rbind (collect_servers get ss) (\<lambda>(entries, more). Inr (entry # entries, rs @ more)))"

definition snapshot_of ::
  "(json \<Rightarrow> string) \<Rightarrow> (string \<rightharpoonup> json) \<Rightarrow> (server \<Rightarrow> snapshot res) \<Rightarrow> server \<Rightarrow> snapshot res" where
  "snapshot_of show supplied fetcher s = (case supplied (sr_id s) of
       Some j \<Rightarrow> sanitize_agent_snapshot show j | None \<Rightarrow> fetcher s)"

definition local_server :: "string \<Rightarrow> snapshot \<Rightarrow> catalog_server" where
  "local_server i sn = \<lparr>cs_public = \<lparr>pv_id = i, pv_name = ''local'', pv_enabled = True, pv_notes = [], pv_created = []\<rparr>,
     cs_local = True, cs_online = True, cs_disabled = False, cs_host = Some (sn_host sn), cs_ips = sn_ips sn,
     cs_error = None, cs_count = length (sn_resources sn)\<rparr>"

definition local_entries :: "string \<Rightarrow> resource list \<Rightarrow> snapshot \<Rightarrow> catalog_resource list" where
  "local_entries i known sn = map (\<lambda>r. \<lparr>cr_resource = r, cr_id = resource_id i (rr_name r), cr_server_id = i,
     cr_server_name = ''local'', cr_local = True, cr_bridge_port = registered_port known (rr_name r)\<rparr>) (sn_resources sn)"

definition build_catalog ::
  "(json \<Rightarrow> string) \<Rightarrow> string \<Rightarrow> json \<Rightarrow> string \<Rightarrow> resource list \<Rightarrow> (string \<rightharpoonup> json) \<Rightarrow> (server \<Rightarrow> snapshot res)
     \<Rightarrow> registry_file \<Rightarrow> full_catalog res" where
  "build_catalog show now local_snapshot local_id known supplied fetcher file =
     rbind (sanitize_agent_snapshot show local_snapshot) (\<lambda>sn.
     rbind (list_servers show now file) (\<lambda>ss.
     rbind (collect_servers (snapshot_of show supplied fetcher) ss) (\<lambda>(servers, others).
     Inr \<lparr>fc_control = local_id, fc_servers = local_server local_id sn # servers,
       fc_resources = local_entries local_id known sn @ others, fc_generated = now\<rparr>)))"

record catalog_status =
  st_control :: string
  st_servers :: nat
  st_online :: nat
  st_resources :: nat

definition server_status :: "full_catalog \<Rightarrow> catalog_status" where
  "server_status c = \<lparr>st_control = fc_control c, st_servers = length (fc_servers c),
     st_online = length (filter cs_online (fc_servers c)), st_resources = length (fc_resources c)\<rparr>"

definition launcher_catalog :: "full_catalog \<Rightarrow> (catalog_resource, catalog_server list) catalog" where
  \<comment> \<open>what the launcher reads of it\<close>
  "launcher_catalog c = \<lparr>cg_control_server = Some (fc_control c), cg_servers = fc_servers c,
     cg_resources = map (\<lambda>r. \<lparr>ci_local = cr_local r, ci_name = Some (rr_name (cr_resource r)), ci_rest = r\<rparr>) (fc_resources c)\<rparr>"

section \<open>The identity of this server\<close>

definition local_server_id :: "string \<Rightarrow> string option \<Rightarrow> string \<times> string option" where
  \<comment> \<open>the file's text, None when it cannot be read; and the random identifier\<close>
  "local_server_id fresh file = (let v = py_strip (opt_str file) in
     if SERVER_ID_fullmatch v then (v, file) else (let v = ''srv_'' @ fresh in (v, Some (v @ [CHR 0x0A]))))"

definition local_server_token :: "string \<Rightarrow> string option \<Rightarrow> string \<times> string option" where
  "local_server_token fresh file = (let v = py_strip (opt_str file) in
     if SERVER_TOKEN_fullmatch v then (v, file) else (fresh, Some (fresh @ [CHR 0x0A])))"

record invite =
  iv_server_id :: string
  iv_name :: string
  iv_control_url :: string
  iv_fingerprint :: string
  iv_token :: string

record export_env =
  xe_public_host :: string \<comment> \<open>the argument or the environment variable\<close>
  xe_nodename :: string
  xe_der :: "string option" \<comment> \<open>the certificate, None when it is missing or not valid\<close>
  xe_port :: int

definition server_export :: "export_env \<Rightarrow> string \<Rightarrow> string \<Rightarrow> invite res" where
  "server_export env local_id local_token = (let host = str_or (py_strip (xe_public_host env)) ''CHANGE_ME'' in
     if CHR ''/'' \<in> set host \<or> list_ex py_isspace host then Inl (BridgeError ''Host pubblico multi-server non valido.'')
     else (let shown = (if CHR '':'' \<in> set host \<and> \<not> starts_with ''['' host then ''['' @ host @ '']'' else host) in
       case xe_der env of
         None \<Rightarrow> Inl (BridgeError ''Certificato multi-server non valido.'')
       | Some der \<Rightarrow> Inr \<lparr>iv_server_id = local_id, iv_name = take 64 (str_or (xe_nodename env) ''ge360-server''),
           iv_control_url = ''https://'' @ shown @ '':'' @ int_str (xe_port env),
           iv_fingerprint = sha256_bytes der, iv_token = local_token\<rparr>))"

section \<open>The control service\<close>

datatype control_answer = Healthy string | NotFound | Unauthorized | SnapshotSent json | ControlCrash py_error

definition control_authorized :: "string \<Rightarrow> string \<Rightarrow> bool res" where
  "control_authorized expected auth = (let candidate = (if starts_with ''Bearer '' auth then py_strip (drop 7 auth) else []) in
     if candidate = [] \<or> expected = [] then Inr False else compare_digest candidate expected)"

definition control_GET :: "string \<Rightarrow> string \<Rightarrow> json \<Rightarrow> string \<Rightarrow> string \<Rightarrow> control_answer" where
  "control_GET server_id tok snap target auth = (let path = takeWhile (\<lambda>c. c \<noteq> CHR ''?'') target in
     if path = ''/healthz'' then Healthy server_id
     else if path \<noteq> ''/v1/control/snapshot'' then NotFound
     else (case control_authorized tok auth of
         Inl e \<Rightarrow> ControlCrash e
       | Inr False \<Rightarrow> Unauthorized
       | Inr True \<Rightarrow> SnapshotSent snap))"

section \<open>The registry invariant\<close>

lemma strip_clean: "(\<And>c. c \<in> set s \<Longrightarrow> \<not> py_isspace c) \<Longrightarrow> py_strip s = s"
  by (cases "s = []") (simp_all add: py_strip_def strip_by_fix_iff)

lemma starts_with_split: "starts_with p s \<Longrightarrow> s = p @ drop (length p) s"
  by (metis append_take_drop_id starts_with_def)

lemma server_id_char_clean:
  "server_id_char c \<Longrightarrow> lower_char c = c \<and> \<not> py_isspace c \<and> c \<noteq> CHR '':''"
  by (auto simp: server_id_char_def server_id_head_def is_digit_def lower_char_def py_isspace_def ord_of_def Let_def)

lemma server_id_clean:
  assumes "SERVER_ID_fullmatch s" and "c \<in> set s"
  shows "lower_char c = c \<and> \<not> py_isspace c \<and> c \<noteq> CHR '':''"
proof -
  have "s = ''srv_'' @ drop (length ''srv_'') s"
    by (rule starts_with_split) (use assms(1) in \<open>simp add: SERVER_ID_fullmatch_def\<close>)
  moreover have "length ''srv_'' = 4" by simp
  ultimately have "set s = set ''srv_'' \<union> set (drop 4 s)" by (metis set_append)
  moreover have "server_id_char d" if "d \<in> set (drop 4 s)" for d
  proof -
    have "class_fullmatch server_id_head server_id_char 63 (drop 4 s)" using assms(1) by (simp add: SERVER_ID_fullmatch_def)
    from class_fullmatch_chars [OF this _ that] show ?thesis by (simp add: server_id_char_def)
  qed
  moreover have "server_id_char d" if "d \<in> set ''srv_''" for d
    using that by (auto simp: server_id_char_def server_id_head_def is_digit_def ord_of_def)
  ultimately show ?thesis using assms(2) server_id_char_clean by blast
qed

lemma alias_clean: "SERVER_ALIAS_fullmatch s \<Longrightarrow> c \<in> set s \<Longrightarrow> \<not> py_isspace c"
  unfolding SERVER_ALIAS_fullmatch_def
  by (drule class_fullmatch_chars [where c = c])
     (auto simp: is_alnum_def is_alpha_def is_digit_def py_isspace_def ord_of_def Let_def)

lemma token_clean: "SERVER_TOKEN_fullmatch s \<Longrightarrow> c \<in> set s \<Longrightarrow> \<not> py_isspace c \<and> ord_of c < 128"
  by (auto simp: SERVER_TOKEN_fullmatch_def list_all_iff token_char_def is_alnum_def is_alpha_def is_digit_def
      py_isspace_def ord_of_def Let_def dest!: bspec)

lemma server_id_fix: "SERVER_ID_fullmatch s \<Longrightarrow> py_lower (py_strip s) = s"
  by (simp add: strip_clean server_id_clean py_lower_def map_idI)

lemma validated_server_fields:
  "validate_server_id v = Inr i \<longleftrightarrow> SERVER_ID_fullmatch i \<and> i = py_lower (py_strip v)"
  "validate_server_name v = Inr n \<longleftrightarrow> SERVER_ALIAS_fullmatch n \<and> n = py_strip v"
  "validate_fingerprint v = Inr f \<longleftrightarrow> is_digest f \<and> f = py_lower (py_strip v)"
  "validate_server_token v = Inr t \<longleftrightarrow> SERVER_TOKEN_fullmatch t \<and> t = py_strip v"
  by (auto simp: validate_server_id_def validate_server_name_def validate_fingerprint_def
      validate_server_token_def Let_def)

lemma server_fields_fix:
  "SERVER_ID_fullmatch i \<Longrightarrow> validate_server_id i = Inr i"
  "SERVER_ALIAS_fullmatch n \<Longrightarrow> validate_server_name n = Inr n"
  "is_digest f \<Longrightarrow> validate_fingerprint f = Inr f"
  "SERVER_TOKEN_fullmatch t \<Longrightarrow> validate_server_token t = Inr t"
  by (simp_all add: validated_server_fields server_id_fix digest_normal strip_clean alias_clean token_clean)

interpretation srv_id: validator validate_server_id
  by unfold_locales (simp add: validated_server_fields server_fields_fix(1) [unfolded validated_server_fields])

interpretation srv_name: validator validate_server_name
  by unfold_locales (simp add: validated_server_fields)

interpretation srv_fingerprint: validator validate_fingerprint
  by unfold_locales (simp add: validated_server_fields digest_normal)

interpretation srv_token: validator validate_server_token
  by unfold_locales (simp add: validated_server_fields)

text \<open>
  The control URL is the exception: trailing slashes are dropped after the white space, which
  may uncover more white space. Without white space it is stable too.
\<close>

lemma rstrip_idem [simp]: "rstrip_by p (rstrip_by p s) = rstrip_by p s"
  by (simp add: rstrip_by_def dropWhile_idem)

lemma set_rstrip: "set (rstrip_by p s) \<subseteq> set s"
  using set_dropWhileD by (fastforce simp: rstrip_by_def)

lemma validate_url_Inr: "validate_control_url v = Inr u \<Longrightarrow> u = rstrip_by (\<lambda>c. c = CHR ''/'') (py_strip v)"
  by (auto simp: validate_control_url_def Let_def res_simps split: if_splits sum.splits option.splits)

lemma validate_url_again:
  assumes "validate_control_url v = Inr u" and "\<And>c. c \<in> set (py_strip v) \<Longrightarrow> \<not> py_isspace c"
  shows "validate_control_url u = Inr u"
proof -
  let ?p = "\<lambda>c. c = CHR ''/''"
  have u: "u = rstrip_by ?p (py_strip v)" by (rule validate_url_Inr [OF assms(1)])
  then have "py_strip u = u" using assms(2) set_rstrip by (intro strip_clean) blast
  then have "rstrip_by ?p (py_strip u) = rstrip_by ?p (py_strip v)" using u by simp
  then show ?thesis using assms(1) by (simp add: validate_control_url_def)
qed

definition server_wf :: "server \<Rightarrow> bool" where
  "server_wf s = (SERVER_ID_fullmatch (sr_id s) \<and> SERVER_ALIAS_fullmatch (sr_name s)
     \<and> validate_control_url (sr_url s) = Inr (sr_url s) \<and> is_digest (sr_fingerprint s)
     \<and> SERVER_TOKEN_fullmatch (sr_token s) \<and> length (sr_notes s) \<le> 500 \<and> sr_created s \<noteq> [])"

definition servers_consistent :: "server list \<Rightarrow> bool" where
  "servers_consistent ss = ((\<forall>s\<in>set ss. server_wf s) \<and> distinct (map sr_id ss) \<and> distinct (map sr_name ss)
     \<and> distinct (map sr_url ss) \<and> length ss \<le> MAX_SERVERS)"

definition stored_servers :: "server list \<Rightarrow> registry_file" where
  "stored_servers ss = Payload (JList (map (JObj \<circ> server_pairs) ss))"

definition servers_ok :: "registry_file \<Rightarrow> bool" where
  "servers_ok file = (file = Missing \<or> (\<exists>ss. file = stored_servers ss \<and> servers_consistent ss))"

lemma obj_get_pairs [simp]:
  "obj_get (server_pairs s) ''server_id'' = JStr (sr_id s)" "obj_get (server_pairs s) ''name'' = JStr (sr_name s)"
  "obj_get (server_pairs s) ''control_url'' = JStr (sr_url s)"
  "obj_get (server_pairs s) ''tls_cert_sha256'' = JStr (sr_fingerprint s)"
  "obj_get (server_pairs s) ''token'' = JStr (sr_token s)" "obj_get (server_pairs s) ''notes'' = JStr (sr_notes s)"
  "obj_get (server_pairs s) ''created_at'' = JStr (sr_created s)"
  "obj_get_or (server_pairs s) ''enabled'' d = JBool (sr_enabled s)"
  by (simp_all add: server_pairs_def obj_get_def obj_get_or_def)

lemma text_or_Nil [simp]: "text_or show (JStr s) [] = s"
  by simp

lemma normalize_server_pairs:
  "normalize_server show now (server_pairs s) =
     rbind (validate_server_id (sr_id s)) (\<lambda>i. rbind (validate_server_name (sr_name s)) (\<lambda>n.
     rbind (validate_control_url (sr_url s)) (\<lambda>u. rbind (validate_fingerprint (sr_fingerprint s)) (\<lambda>f.
     rbind (validate_server_token (sr_token s)) (\<lambda>t.
     Inr \<lparr>sr_id = i, sr_name = n, sr_url = u, sr_fingerprint = f, sr_token = t, sr_enabled = sr_enabled s,
       sr_notes = take 500 (sr_notes s), sr_created = str_or (sr_created s) now\<rparr>)))))"
  by (simp add: normalize_server_def str_or_def cong: if_cong)

lemma normalize_wf: "server_wf s \<Longrightarrow> normalize_server show now (server_pairs s) = Inr s"
  by (simp add: normalize_server_pairs server_wf_def server_fields_fix str_or_def)

lemma dicts_pairs [simp]: "dicts (map (JObj \<circ> server_pairs) ss) = map server_pairs ss"
  by (induction ss) auto

lemma rmap_map: "rmap f (map g xs) = rmap (f \<circ> g) xs"
  by (induction xs) auto

lemma list_servers_stored:
  "servers_consistent ss \<Longrightarrow> list_servers show now (stored_servers ss) = Inr ss"
  by (simp add: list_servers_def stored_servers_def rmap_map servers_consistent_def normalize_wf rmap_fixpoint)

lemma list_servers_ok:
  assumes "servers_ok file"
  obtains ss where "list_servers show now file = Inr ss" "servers_consistent ss"
  using assms list_servers_stored
  by (auto simp: servers_ok_def list_servers_def servers_consistent_def)

lemma save_servers_ok:
  assumes "\<forall>s\<in>set items. server_wf s" and "save_servers show now items file = (r, file')"
  shows "(r = Inr () \<and> file' = stored_servers items \<and> servers_consistent items) \<or> (\<exists>e. r = Inl e) \<and> file' = file"
proof -
  have "rmap (normalize_server show now) (map server_pairs items) = Inr items"
    using assms(1) by (simp add: rmap_map normalize_wf rmap_fixpoint)
  then show ?thesis using assms
    by (auto simp: save_servers_def guard_in_def stored_servers_def servers_consistent_def split: if_splits)
qed

lemma normalize_server_fields:
  "normalize_server show now raw = Inr s \<Longrightarrow>
     validate_server_id (text_or show (obj_get raw ''server_id'') []) = Inr (sr_id s)
     \<and> validate_server_name (text_or show (obj_get raw ''name'') []) = Inr (sr_name s)
     \<and> validate_control_url (text_or show (obj_get raw ''control_url'') []) = Inr (sr_url s)
     \<and> validate_fingerprint (text_or show (obj_get raw ''tls_cert_sha256'') []) = Inr (sr_fingerprint s)
     \<and> validate_server_token (text_or show (obj_get raw ''token'') []) = Inr (sr_token s)
     \<and> sr_enabled s = truthy (obj_get_or raw ''enabled'' (JBool True))
     \<and> length (sr_notes s) \<le> 500 \<and> sr_created s = text_or show (obj_get raw ''created_at'') now"
  by (auto simp: normalize_server_def res_simps)

lemma normalize_server_wf:
  assumes "normalize_server show now raw = Inr s" and "sr_created s \<noteq> []"
    and "\<And>c. c \<in> set (py_strip (text_or show (obj_get raw ''control_url'') [])) \<Longrightarrow> \<not> py_isspace c"
  shows "server_wf s"
proof -
  note f = normalize_server_fields [OF assms(1)]
  have "validate_control_url (sr_url s) = Inr (sr_url s)"
    by (rule validate_url_again [of "text_or show (obj_get raw ''control_url'') []"]) (use f assms(3) in simp_all)
  moreover have "SERVER_ID_fullmatch (sr_id s)" "SERVER_ALIAS_fullmatch (sr_name s)" "is_digest (sr_fingerprint s)"
      "SERVER_TOKEN_fullmatch (sr_token s)"
    using f validated_server_fields by metis+
  ultimately show ?thesis using f assms(2) by (simp add: server_wf_def)
qed

lemma add_server_effect:
  assumes "servers_ok file" and "now \<noteq> []" and "\<forall>c\<in>set (py_strip (b_url a)). \<not> py_isspace c"
    and "add_server show now fresh a file = (r, file')"
  obtains (raised) e where "r = Inl e" "file' = file"
    | (added) ss s where "list_servers show now file = Inr ss" "r = Inr (public_view s)" "file' = stored_servers (ss @ [s])"
        "servers_consistent (ss @ [s])" "validate_control_url (b_url a) = Inr (sr_url s)"
        "validate_server_token (b_token a) = Inr (sr_token s)" "validate_fingerprint (b_fingerprint a) = Inr (sr_fingerprint s)"
        "validate_server_id (str_or (opt_str (b_server_id a)) (''srv_'' @ fresh)) = Inr (sr_id s)" "sr_enabled s = b_enabled a"
proof -
  obtain ss where l: "list_servers show now file = Inr ss" and c: "servers_consistent ss"
    by (rule list_servers_ok [OF assms(1)])
  let ?raw = "[(''server_id'', JStr (str_or (opt_str (b_server_id a)) (''srv_'' @ fresh))), (''name'', JStr (b_name a)),
        (''control_url'', JStr (b_url a)), (''tls_cert_sha256'', JStr (b_fingerprint a)), (''token'', JStr (b_token a)),
        (''enabled'', JBool (b_enabled a)), (''notes'', JStr (b_notes a)), (''created_at'', JStr now)]"
  have g: "obj_get ?raw ''server_id'' = JStr (str_or (opt_str (b_server_id a)) (''srv_'' @ fresh))"
    "obj_get ?raw ''control_url'' = JStr (b_url a)" "obj_get ?raw ''tls_cert_sha256'' = JStr (b_fingerprint a)"
    "obj_get ?raw ''token'' = JStr (b_token a)" "obj_get_or ?raw ''enabled'' (JBool True) = JBool (b_enabled a)"
    "obj_get ?raw ''created_at'' = JStr now"
    by (simp_all add: obj_get_def obj_get_or_def)
  show thesis
  proof (cases "normalize_server show now ?raw")
    case (Inl e)
    show thesis by (rule raised [of e]) (use assms(4) l Inl in \<open>simp_all add: add_server_def\<close>)
  next
    case (Inr s)
    have f: "validate_control_url (b_url a) = Inr (sr_url s)" "validate_server_token (b_token a) = Inr (sr_token s)"
        "validate_fingerprint (b_fingerprint a) = Inr (sr_fingerprint s)"
        "validate_server_id (str_or (opt_str (b_server_id a)) (''srv_'' @ fresh)) = Inr (sr_id s)"
        "sr_enabled s = b_enabled a" "sr_created s = now"
      using normalize_server_fields [OF Inr] assms(2) unfolding g text_or_Nil by simp_all
    have "server_wf s"
    proof (rule normalize_server_wf [OF Inr])
      show "sr_created s \<noteq> []" using f(6) assms(2) by simp
      show "\<not> py_isspace c" if "c \<in> set (py_strip (text_or show (obj_get ?raw ''control_url'') []))" for c
        using that assms(3) unfolding g(2) text_or_Nil by blast
    qed
    then have wf: "\<forall>x\<in>set (ss @ [s]). server_wf x" using c by (auto simp: servers_consistent_def)
    obtain q f2 where sv: "save_servers show now (ss @ [s]) file = (q, f2)" by fastforce
    from save_servers_ok [OF wf sv] show thesis
    proof (elim disjE conjE exE)
      assume "q = Inr ()" "f2 = stored_servers (ss @ [s])" "servers_consistent (ss @ [s])"
      then show thesis using assms(4) l Inr sv f by (intro added [of ss s]) (simp_all add: add_server_def)
    next
      fix e assume "q = Inl e" "f2 = file"
      then show thesis using assms(4) l Inr sv by (intro raised [of e]) (simp_all add: add_server_def)
    qed
  qed
qed

lemma save_subset_ok:
  assumes "\<forall>s\<in>set items. server_wf s" and "servers_ok file"
  shows "servers_ok (snd (save_servers show now items file))
    \<and> (\<forall>e. fst (save_servers show now items file) = Inl e \<longrightarrow> snd (save_servers show now items file) = file)"
proof -
  obtain r f where sv: "save_servers show now items file = (r, f)" by fastforce
  from save_servers_ok [OF assms(1) sv] assms(2) show ?thesis by (auto simp: sv servers_ok_def)
qed

lemma remove_server_ok:
  assumes "servers_ok file"
  shows "servers_ok (snd (remove_server show now i file))
    \<and> (\<forall>e. fst (remove_server show now i file) = Inl e \<longrightarrow> snd (remove_server show now i file) = file)"
proof -
  obtain ss where l: "list_servers show now file = Inr ss" and "servers_consistent ss"
    by (rule list_servers_ok [OF assms])
  then have "\<forall>s\<in>set (filter (\<lambda>s. \<not> server_matches i s) ss). server_wf s" by (simp add: servers_consistent_def)
  from save_subset_ok [OF this assms, of "show" now] show ?thesis
    by (auto simp: remove_server_def l Let_def assms split: prod.split sum.split)
qed

lemma set_server_enabled_ok:
  assumes "servers_ok file"
  shows "servers_ok (snd (set_server_enabled show now i b file))
    \<and> (\<forall>e. fst (set_server_enabled show now i b file) = Inl e \<longrightarrow> snd (set_server_enabled show now i b file) = file)"
proof -
  obtain ss where l: "list_servers show now file = Inr ss" and "servers_consistent ss"
    by (rule list_servers_ok [OF assms])
  then have "\<forall>s\<in>set (map_first (server_matches i) (\<lambda>x. x\<lparr>sr_enabled := b\<rparr>) ss). server_wf s"
    by (auto simp: servers_consistent_def server_wf_def dest!: set_map_first)
  from save_subset_ok [OF this assms, of "show" now] show ?thesis
    by (auto simp: set_server_enabled_def l assms split: prod.split sum.split option.split)
qed


definition sample_add :: "string \<Rightarrow> add_args" where
  "sample_add u = \<lparr>b_name = ''branch'', b_url = u, b_fingerprint = replicate 64 (CHR ''a''),
     b_token = replicate 32 (CHR ''t''), b_server_id = Some ''srv_branch'', b_notes = [], b_enabled = True\<rparr>"


text \<open>
  The proviso matters: a URL in which slashes and white space alternate is accepted when the
  server is added, and from then on the registry cannot be read, so no server can be listed,
  removed or added any more.
\<close>

lemma url_makes_registry_unreadable:
  "let (r, file) = add_server (\<lambda>_. []) ''t'' ''f'' (sample_add ''https:// / /'') Missing in
     is_ok r \<and> \<not> is_ok (list_servers (\<lambda>_. []) ''t'' file) \<and> \<not> is_ok (fst (remove_server (\<lambda>_. []) ''t'' ''branch'' file))"
  by code_simp

section \<open>What the catalog holds\<close>

lemma sanitize_resources_names:
  "sanitize_resources show names js = Inr rs \<Longrightarrow> distinct (map rr_name rs) \<and> rr_name ` set rs \<inter> set names = {}"
proof (induction js arbitrary: names rs)
  case (Cons j js)
  from Cons.prems obtain r rs' where r: "sanitize_resource show names j = Inr r"
      "sanitize_resources show (rr_name r # names) js = Inr rs'" "rs = r # rs'"
    by (auto simp: res_simps)
  have "rr_name r \<notin> set names"
    using r(1) by (auto simp: sanitize_resource_def res_simps Let_def validate_name_def split: json.splits if_splits)
  with Cons.IH [OF r(2)] r(3) show ?case by auto
qed simp

lemma sanitized_names: "sanitize_agent_snapshot show j = Inr sn \<Longrightarrow> distinct (map rr_name (sn_resources sn))"
  by (auto simp: sanitize_agent_snapshot_def res_simps Let_def dest!: sanitize_resources_names
      split: json.splits if_splits)

lemma fetched_names: "fst (fetch_server_snapshot show env s) = Inr sn \<Longrightarrow> distinct (map rr_name (sn_resources sn))"
  by (auto simp: fetch_server_snapshot_def guard_in_def sanitized_names split: if_splits sum.splits prod.splits)

lemma server_id_no_colon: "SERVER_ID_fullmatch s \<Longrightarrow> CHR '':'' \<notin> set s"
  using server_id_clean by blast

lemma resource_id_inject:
  assumes "CHR '':'' \<notin> set a" and "CHR '':'' \<notin> set b"
  shows "resource_id a n = resource_id b m \<longleftrightarrow> a = b \<and> n = m"
proof
  assume e: "resource_id a n = resource_id b m"
  have t: "takeWhile (\<lambda>c. c \<noteq> CHR '':'') (resource_id x y) = x" if "CHR '':'' \<notin> set x" for x y
    using that by (induction x) (auto simp: resource_id_def)
  have "a = b" using t [OF assms(1), of n] t [OF assms(2), of m] e by simp
  then show "a = b \<and> n = m" using e by (simp add: resource_id_def)
qed simp

lemma entry_ids:
  "map cr_id (remote_entries s sn) = map (resource_id (sr_id s)) (map rr_name (sn_resources sn))"
  "map cr_id (local_entries i known sn) = map (resource_id i) (map rr_name (sn_resources sn))"
  by (simp_all add: remote_entries_def local_entries_def)

lemma distinct_resource_ids: "distinct ns \<Longrightarrow> distinct (map (resource_id i) ns)"
  by (simp add: distinct_map inj_on_def resource_id_def)

lemma disjoint_ids:
  assumes "A \<subseteq> {resource_id i n |n. True}" and "B \<subseteq> {resource_id (sr_id s) n |s n. s \<in> S}"
    and "CHR '':'' \<notin> set i" and "\<And>s. s \<in> S \<Longrightarrow> CHR '':'' \<notin> set (sr_id s) \<and> sr_id s \<noteq> i"
  shows "A \<inter> B = {}"
proof (rule ccontr)
  assume "A \<inter> B \<noteq> {}"
  then obtain z where z: "z \<in> A" "z \<in> B" by blast
  from z(1) assms(1) obtain n where n: "z = resource_id i n" by blast
  from z(2) assms(2) obtain s m where s: "s \<in> S" "z = resource_id (sr_id s) m" by blast
  have "resource_id i n = resource_id (sr_id s) m" using n s(2) by simp
  then show False using assms(3) assms(4) [OF s(1)] by (simp only: resource_id_inject simp_thms)
qed

text \<open>What a server contributes: its entry, and its Resources when it answered.\<close>

definition server_entry :: "(server \<Rightarrow> snapshot res) \<Rightarrow> server \<Rightarrow> catalog_server" where
  "server_entry get s = (if \<not> sr_enabled s then offline_server s True None
     else (case get s of Inr sn \<Rightarrow> online_server s sn
       | Inl e \<Rightarrow> offline_server s False (case e of BridgeError t \<Rightarrow> Some (take 300 t) | _ \<Rightarrow> None)))"

definition server_resources :: "(server \<Rightarrow> snapshot res) \<Rightarrow> server \<Rightarrow> catalog_resource list" where
  "server_resources get s = (if \<not> sr_enabled s then []
     else (case get s of Inr sn \<Rightarrow> remote_entries s sn | Inl _ \<Rightarrow> []))"

definition bridge_error :: "'a res \<Rightarrow> bool" where
  "bridge_error r = (case r of Inl (BridgeError _) \<Rightarrow> True | _ \<Rightarrow> False)"

lemma collect_servers_map:
  "\<forall>s\<in>set ss. sr_enabled s \<longrightarrow> is_ok (get s) \<or> bridge_error (get s) \<Longrightarrow>
     collect_servers get ss = Inr (map (server_entry get) ss, concat (map (server_resources get) ss))"
  by (induction ss) (auto simp: server_entry_def server_resources_def is_ok_def bridge_error_def
      split: sum.splits py_error.splits)

lemma server_resource_ids:
  assumes "\<forall>s\<in>set ss. SERVER_ID_fullmatch (sr_id s)" and "distinct (map sr_id ss)"
    and "\<forall>s\<in>set ss. \<forall>sn. get s = Inr sn \<longrightarrow> distinct (map rr_name (sn_resources sn))"
  shows "distinct (map cr_id (concat (map (server_resources get) ss)))
    \<and> cr_id ` set (concat (map (server_resources get) ss)) \<subseteq> {resource_id (sr_id s) n |s n. s \<in> set ss}"
  using assms
proof (induction ss)
  case (Cons s ss)
  let ?own = "map cr_id (server_resources get s)" and ?rest = "concat (map (server_resources get) ss)"
  have colon: "CHR '':'' \<notin> set (sr_id x)" if "x \<in> set (s # ss)" for x
    using Cons.prems(1) that server_id_no_colon by blast
  obtain ns where e: "?own = map (resource_id (sr_id s)) ns" "distinct ns"
  proof (cases "sr_enabled s \<and> is_ok (get s)")
    case True
    then obtain sn where "get s = Inr sn" by (auto simp: is_ok_iff)
    then show thesis using True Cons.prems(3)
      by (intro that [of "map rr_name (sn_resources sn)"]) (simp_all add: server_resources_def entry_ids del: map_map)
  next
    case False
    then show thesis by (intro that [of "[]"]) (auto simp: server_resources_def is_ok_def split: sum.splits)
  qed
  have own: "set ?own \<subseteq> {resource_id (sr_id s) n |n. True}" unfolding e(1) by auto
  have own_d: "distinct ?own" unfolding e(1) by (rule distinct_resource_ids [OF e(2)])
  have IH: "distinct (map cr_id ?rest)" "cr_id ` set ?rest \<subseteq> {resource_id (sr_id x) n |x n. x \<in> set ss}"
    using Cons.IH Cons.prems by auto
  have "set ?own \<inter> cr_id ` set ?rest = {}"
    by (rule disjoint_ids [OF own IH(2)]) (use colon Cons.prems(2) in \<open>auto simp: image_iff\<close>)
  then have "distinct (map cr_id (concat (map (server_resources get) (s # ss))))"
    using own_d IH(1) by simp
  moreover have "{resource_id (sr_id s) n |n. True} \<subseteq> {resource_id (sr_id x) n |x n. x \<in> set (s # ss)}"
      "{resource_id (sr_id x) n |x n. x \<in> set ss} \<subseteq> {resource_id (sr_id x) n |x n. x \<in> set (s # ss)}"
    by auto
  then have "set ?own \<union> cr_id ` set ?rest \<subseteq> {resource_id (sr_id x) n |x n. x \<in> set (s # ss)}"
    by (intro Un_least order_trans [OF own] order_trans [OF IH(2)])
  then have "cr_id ` set (concat (map (server_resources get) (s # ss))) \<subseteq> {resource_id (sr_id x) n |x n. x \<in> set (s # ss)}"
    by (simp add: image_Un)
  ultimately show ?case by blast
qed simp


definition snapshot_json :: "json \<Rightarrow> json" where
  \<comment> \<open>a snapshot with one Resource on the given port\<close>
  "snapshot_json port = JObj [(''agent'', JObj [(''version'', JStr ''1.0'')]),
     (''resources'', JList [JObj [(''name'', JStr ''web''), (''target_port'', port), (''health_state'', JStr ''online'')]]),
     (''ip_addresses'', JList [JObj [(''address'', JStr ''192.168.1.5'')], JObj [(''address'', JStr ''127.0.0.1'')]])]"

definition sample_servers :: registry_file where
  "sample_servers = snd (add_server (\<lambda>_. []) ''t'' ''f'' (sample_add ''https://b.example:8793'') Missing)"

definition sample_env :: pinned_env where
  "sample_env = \<lparr>pe_connect_error = Some ''ConnectionRefusedError'', pe_cert = None, pe_exchange_error = None,
     pe_status = 0, pe_body = [], pe_json = None\<rparr>"

lemma sample_servers_ok: "servers_ok sample_servers"
proof -
  have "\<forall>c\<in>set (py_strip (b_url (sample_add ''https://b.example:8793''))). \<not> py_isspace c" by code_simp
  moreover have "servers_ok Missing" by (simp add: servers_ok_def)
  ultimately show ?thesis
    unfolding sample_servers_def
    by (cases rule: add_server_effect [OF _ _ _ surjective_pairing, of Missing "''t''" _ "\<lambda>_. []" "''f''", consumes 0])
       (auto simp: servers_ok_def)
qed


text \<open>
  A server that answers with a port that is no number does take the catalog with it: \<open>int()\<close>
  raises a \<open>ValueError\<close>, which the loop does not catch.
\<close>

lemma one_server_breaks_the_catalog:
  "build_catalog (\<lambda>_. []) ''t'' (snapshot_json (JInt 3000)) ''srv_here'' [] [''srv_branch'' \<mapsto> snapshot_json (JStr ''http'')]
       (\<lambda>s. fst (fetch_server_snapshot (\<lambda>_. []) sample_env s)) sample_servers
     = Inl (ValueError ''invalid literal for int()'')"
  by code_simp

section \<open>An invitation, from one server to the other\<close>

definition plain_host_char :: "char \<Rightarrow> bool" where
  "plain_host_char c = (is_alnum c \<or> c = CHR ''.'' \<or> c = CHR ''-'')"

lemma plain_host_clean:
  "plain_host_char c \<Longrightarrow> \<not> py_isspace c \<and> c \<notin> set ''/?#[]@:%'' \<and> 32 < ord_of c"
  by (auto simp: plain_host_char_def is_alnum_def is_alpha_def is_digit_def py_isspace_def ord_of_def Let_def)

lemma takeWhile_stop: "\<forall>c\<in>set h. P c \<Longrightarrow> \<not> P x \<Longrightarrow> takeWhile P (h @ x # r) = h"
  by (simp add: takeWhile_append2)

lemma urlsplit_https:
  assumes "\<forall>c\<in>set h. 32 < ord_of c \<and> c \<notin> set ''/?#[]''" and "\<forall>c\<in>set path. 32 < ord_of c \<and> c \<notin> set ''?#''"
    and "path = [] \<or> (\<exists>r. path = CHR ''/'' # r)"
  shows "urlsplit (''https://'' @ h @ path) =
    Inr \<lparr>u_scheme = ''https'', u_netloc = h, u_path = path, u_query = [], u_fragment = []\<rparr>"
proof -
  let ?raw = "''https://'' @ h @ path" and ?keep = "\<lambda>c. ord_of c \<notin> {9, 10, 13}"
  have "?keep c" if "c \<in> set h \<union> set path" for c
  proof -
    have "32 < ord_of c" using assms(1,2) that by blast
    then show ?thesis by auto
  qed
  then have "filter ?keep h = h" "filter ?keep path = path" by (simp_all add: filter_id_conv)
  moreover have "filter ?keep ''https://'' = ''https://''" by code_simp
  moreover have "dropWhile (\<lambda>c. ord_of c \<le> 32) ?raw = ?raw" by (simp add: ord_of_def)
  ultimately have f: "filter ?keep (dropWhile (\<lambda>c. ord_of c \<le> 32) ?raw) = ?raw" by (simp only: filter_append)
  have p1: "partition_at (CHR '':'') ?raw = (''https'', True, ''//'' @ h @ path)" by (simp add: partition_at_def)
  have h: "\<forall>c\<in>set h. c \<notin> set ''/?#''" using assms(1) by auto
  have n: "takeWhile (\<lambda>c. c \<notin> set ''/?#'') (h @ path) = h"
  proof (cases "path = []")
    case True
    then show ?thesis using h by (simp only: append_Nil2 takeWhile_eq_all_conv)
  next
    case False
    then obtain r where r: "path = CHR ''/'' # r" using assms(3) by blast
    show ?thesis unfolding r by (rule takeWhile_stop [OF h]) simp
  qed
  have "py_lower ''https'' = ''https''" "is_alpha (CHR ''h'')" "list_all scheme_char ''https''" by code_simp+
  moreover have "CHR ''['' \<notin> set h" "CHR '']'' \<notin> set h" using assms(1) by auto
  moreover have "partition_at d path = (path, False, [])" if "d \<notin> set path" for d
  proof -
    have "takeWhile (\<lambda>c. c \<noteq> d) path = path" unfolding takeWhile_eq_all_conv using that by blast
    then show ?thesis unfolding partition_at_def by (simp only: Let_def drop_all order_refl list.case)
  qed
  then have "partition_at (CHR ''#'') path = (path, False, [])" "partition_at (CHR ''?'') path = (path, False, [])"
    using assms(2) by auto
  ultimately show ?thesis
    unfolding urlsplit_def Let_def f p1 prod.case using n by (simp add: starts_with_def)
qed

lemma u_port_netloc: "u_netloc a = u_netloc b \<Longrightarrow> u_port a = u_port b \<and> u_hostname a = u_hostname b"
  by (simp add: u_port_def u_hostname_def u_hostport_def)

text \<open>The request that is sent, for a valid record and a host without path, query or brackets.\<close>

lemma request_of_server:
  assumes "server_wf s" and "sr_enabled s" and "sr_url s = ''https://'' @ n"
    and "\<forall>c\<in>set n. 32 < ord_of c \<and> c \<notin> set ''/?#[]''"
    and "pe_connect_error env = None" and "pe_cert env = Some der" and "der \<noteq> []" and "sha256_bytes der = sr_fingerprint s"
  shows "snd (fetch_server_snapshot show env s)
    = Some \<lparr>ps_path = ''/v1/control/snapshot'', ps_authorization = ''Bearer '' @ sr_token s\<rparr>"
proof -
  let ?path = "''/v1/control/snapshot''"
  have v: "validate_control_url (sr_url s) = Inr (sr_url s)" "validate_server_token (sr_token s) = Inr (sr_token s)"
      "validate_fingerprint (sr_fingerprint s) = Inr (sr_fingerprint s)"
    using assms(1) server_fields_fix by (auto simp: server_wf_def)
  have path: "\<forall>c\<in>set ?path. 32 < ord_of c \<and> c \<notin> set ''?#''" by code_simp
  let ?a = "\<lparr>u_scheme = ''https'', u_netloc = n, u_path = [], u_query = [], u_fragment = []\<rparr>"
  let ?b = "\<lparr>u_scheme = ''https'', u_netloc = n, u_path = ?path, u_query = [], u_fragment = []\<rparr>"
  have a: "urlsplit (sr_url s) = Inr ?a" using urlsplit_https [OF assms(4), of "[]"] assms(3) by simp
  have b: "urlsplit (sr_url s @ ?path) = Inr ?b" using urlsplit_https [OF assms(4) path] assms(3) by simp
  have "rstrip_by (\<lambda>c. c = CHR ''/'') (py_strip (sr_url s)) = sr_url s" using validate_url_Inr [OF v(1)] by simp
  then have "u_hostname ?a \<noteq> []" "\<exists>q. u_port ?a = Inr q"
    using v(1) a by (cases "u_port ?a"; simp add: validate_control_url_def Let_def split: if_splits)+
  then obtain q where "u_hostname ?b \<noteq> []" "u_port ?b = Inr q" using u_port_netloc [of ?a ?b] by auto
  then have "snd (pinned_json_request env (sr_url s @ ?path) (sr_token s) (sr_fingerprint s))
      = Some \<lparr>ps_path = ?path, ps_authorization = ''Bearer '' @ sr_token s\<rparr>"
    using assms(5-8) b
    by (simp add: pinned_json_request_def str_or_def Let_def split: option.split json.split)
  then obtain r where "pinned_json_request env (sr_url s @ ?path) (sr_token s) (sr_fingerprint s)
      = (r, Some \<lparr>ps_path = ?path, ps_authorization = ''Bearer '' @ sr_token s\<rparr>)"
    by (metis prod.collapse)
  then show ?thesis using assms(2) v by (cases r) (simp_all add: fetch_server_snapshot_def)
qed

text \<open>
  The token of a server only leaves over a connection whose certificate is the pinned one, and
  a disabled server is not contacted.
\<close>

lemma server_token_pinned:
  assumes "snd (fetch_server_snapshot show env s) = Some q"
  shows "sr_enabled s \<and> (\<exists>c f t. pe_cert env = Some c \<and> validate_fingerprint (sr_fingerprint s) = Inr f \<and> sha256_bytes c = f
    \<and> validate_server_token (sr_token s) = Inr t \<and> ps_authorization q = ''Bearer '' @ t)"
proof -
  have pin: "\<exists>c. pe_cert env = Some c \<and> sha256_bytes c = f \<and> ps_authorization q = ''Bearer '' @ t"
    if "pinned_json_request env u t f = (r, Some q)" for u t f r
    using that by (auto simp: pinned_json_request_def guard_in_def Let_def
        split: sum.splits if_splits option.splits json.splits)
  from assms show ?thesis
    by (auto simp: fetch_server_snapshot_def guard_in_def dest!: pin split: if_splits sum.splits prod.splits)
qed

lemma rstrip_fix: "s \<noteq> [] \<Longrightarrow> \<not> p (last s) \<Longrightarrow> rstrip_by p s = s"
  unfolding rstrip_by_def by (subst dropWhile_fix_iff [THEN iffD2]) (simp_all add: hd_rev)

lemma authorized_own_token:
  assumes "SERVER_TOKEN_fullmatch tok"
  shows "control_GET sid tok snap ''/v1/control/snapshot'' (''Bearer '' @ tok) = SnapshotSent snap"
proof -
  have "takeWhile (\<lambda>c. c \<noteq> CHR ''?'') ''/v1/control/snapshot'' = ''/v1/control/snapshot''" by code_simp
  moreover have "is_ascii tok" "py_strip tok = tok" "tok \<noteq> []"
    using token_clean [OF assms] assms by (auto simp: is_ascii_def list_all_iff strip_clean SERVER_TOKEN_fullmatch_def)
  then have "control_authorized tok (''Bearer '' @ tok) = Inr True"
    by (simp add: control_authorized_def starts_with_def compare_digest_def)
  ultimately show ?thesis by (simp add: control_GET_def)
qed

text \<open>
  C31. An invitation works: what one server exports, added to the registry of another, makes that
  one send, to the server whose certificate was exported, a request its control service answers
  with the snapshot. The host is a name or an IPv4 address.
\<close>

theorem invitation_connects:
  assumes "server_export x sid tok = Inr iv" and "SERVER_ID_fullmatch sid" and "SERVER_TOKEN_fullmatch tok"
    and "py_strip (xe_public_host x) = h" and "h \<noteq> []" and "\<forall>c\<in>set h. plain_host_char c"
    and "0 \<le> xe_port x" and "xe_der x = Some der" and "der \<noteq> []"
    and "servers_ok file" and "now \<noteq> []"
    and "add_server show now fresh \<lparr>b_name = alias, b_url = iv_control_url iv, b_fingerprint = iv_fingerprint iv,
       b_token = iv_token iv, b_server_id = Some (iv_server_id iv), b_notes = notes, b_enabled = True\<rparr> file = (Inr pv, file')"
    and "pe_connect_error env = None" and "pe_cert env = Some der"
  shows "\<exists>ss s q. list_servers show now file' = Inr ss \<and> s \<in> set ss \<and> sr_id s = sid
    \<and> snd (fetch_server_snapshot show env s) = Some q
    \<and> control_GET sid tok snap (ps_path q) (ps_authorization q) = SnapshotSent snap"
proof -
  let ?n = "h @ '':'' @ int_str (xe_port x)"
  have "CHR ''/'' \<notin> set h" "\<not> list_ex py_isspace h" "CHR '':'' \<notin> set h"
    using assms(6) plain_host_clean by (fastforce simp: list_ex_iff)+
  then have iv: "iv_server_id iv = sid" "iv_control_url iv = ''https://'' @ ?n" "iv_fingerprint iv = sha256_bytes der" "iv_token iv = tok"
    using assms(1,4,5,8) by (auto simp: server_export_def str_or_def Let_def)
  have dig: "\<forall>c\<in>set (int_str (xe_port x)). is_digit c" "int_str (xe_port x) \<noteq> []"
    using nat_str_digits assms(7) by (auto simp: int_str_def list_all_iff)
  have n: "\<forall>c\<in>set ?n. 32 < ord_of c \<and> c \<notin> set ''/?#[]''"
    using assms(6) dig(1) plain_host_clean by (auto simp: is_digit_def ord_of_def Let_def)
  have ns: "\<forall>c\<in>set (''https://'' @ ?n). \<not> py_isspace c"
    using assms(6) dig(1) plain_host_clean by (auto simp: is_digit_def py_isspace_def ord_of_def Let_def)
  then have strip: "py_strip (''https://'' @ ?n) = ''https://'' @ ?n" by (intro strip_clean) blast
  let ?a = "\<lparr>b_name = alias, b_url = iv_control_url iv, b_fingerprint = iv_fingerprint iv,
       b_token = iv_token iv, b_server_id = Some (iv_server_id iv), b_notes = notes, b_enabled = True\<rparr>"
  have clean: "\<forall>c\<in>set (py_strip (b_url ?a)). \<not> py_isspace c" unfolding add_args.select_convs iv(2) strip by (rule ns)
  show ?thesis
  proof (rule add_server_effect [OF assms(10,11) clean assms(12)])
    fix ss s
    assume added: "list_servers show now file = Inr ss" "Inr pv = Inr (public_view s)" "file' = stored_servers (ss @ [s])"
        "servers_consistent (ss @ [s])" "validate_control_url (b_url ?a) = Inr (sr_url s)"
        "validate_server_token (b_token ?a) = Inr (sr_token s)" "validate_fingerprint (b_fingerprint ?a) = Inr (sr_fingerprint s)"
        "validate_server_id (str_or (opt_str (b_server_id ?a)) (''srv_'' @ fresh)) = Inr (sr_id s)"
        "sr_enabled s = b_enabled ?a"
    have wf: "server_wf s" using added(4) by (simp add: servers_consistent_def)
    have "last (''https://'' @ ?n) = last (int_str (xe_port x))" using dig(2) by simp
    then have "last (''https://'' @ ?n) \<noteq> CHR ''/''" using dig last_in_set by (fastforce simp: is_digit_def ord_of_def Let_def)
    then have url: "sr_url s = ''https://'' @ ?n"
      using validate_url_Inr [OF added(5)] by (simp only: add_args.select_convs iv(2) strip) (simp add: rstrip_fix)
    have f: "sr_token s = tok" "sr_fingerprint s = sha256_bytes der" "sr_id s = sid" "sr_enabled s"
      using added(6-9) iv assms(2,3) server_id_clean
      by (simp_all add: server_fields_fix str_or_def opt_str_def split: if_splits) (auto simp: SERVER_ID_fullmatch_def)
    have q: "snd (fetch_server_snapshot show env s)
        = Some \<lparr>ps_path = ''/v1/control/snapshot'', ps_authorization = ''Bearer '' @ tok\<rparr>"
      using request_of_server [OF wf f(4) url n assms(13,14,9)] f by simp
    show ?thesis
      using list_servers_stored [OF added(4)] added(3) f(3) q authorized_own_token [OF assms(3)]
      by (intro exI [of _ "ss @ [s]"] exI [of _ s] exI conjI) auto
  qed simp
qed

definition sample_export :: export_env where
  "sample_export = \<lparr>xe_public_host = ''b.example'', xe_nodename = ''branch'', xe_der = Some ''cert'', xe_port = 8793\<rparr>"

definition sample_invite :: invite where
  "sample_invite = \<lparr>iv_server_id = ''srv_branch'', iv_name = ''branch'', iv_control_url = ''https://b.example:8793'',
     iv_fingerprint = sha256_bytes ''cert'', iv_token = replicate 32 (CHR ''t'')\<rparr>"

definition sample_peer :: server where
  "sample_peer = \<lparr>sr_id = ''srv_branch'', sr_name = ''branch'', sr_url = ''https://b.example:8793'',
     sr_fingerprint = sha256_bytes ''cert'', sr_token = replicate 32 (CHR ''t''), sr_enabled = True, sr_notes = [], sr_created = ''t''\<rparr>"

lemma sample_peer_wf: "server_wf sample_peer"
proof -
  have "SERVER_ID_fullmatch ''srv_branch''" "SERVER_ALIAS_fullmatch ''branch''"
    "validate_control_url ''https://b.example:8793'' = Inr ''https://b.example:8793''"
    "SERVER_TOKEN_fullmatch (replicate 32 (CHR ''t''))" by code_simp+
  then show ?thesis by (simp add: server_wf_def sample_peer_def)
qed

lemma sample_peer_added:
  "add_server show ''t'' fresh \<lparr>b_name = ''branch'', b_url = iv_control_url sample_invite, b_fingerprint = iv_fingerprint sample_invite,
       b_token = iv_token sample_invite, b_server_id = Some (iv_server_id sample_invite), b_notes = [], b_enabled = True\<rparr> Missing
   = (Inr (public_view sample_peer), stored_servers [sample_peer])"
proof -
  have "normalize_server show ''t'' (server_pairs sample_peer) = Inr sample_peer" by (rule normalize_wf [OF sample_peer_wf])
  then have "normalize_server show ''t'' [(''server_id'', JStr ''srv_branch''), (''name'', JStr ''branch''),
      (''control_url'', JStr ''https://b.example:8793''), (''tls_cert_sha256'', JStr (sha256_bytes ''cert'')),
      (''token'', JStr (replicate 32 (CHR ''t''))), (''enabled'', JBool True), (''notes'', JStr []), (''created_at'', JStr ''t'')]
      = Inr sample_peer"
    by (simp only: server_pairs_def sample_peer_def server.select_convs)
  moreover have "save_servers show ''t'' [sample_peer] Missing = (Inr (), stored_servers [sample_peer])"
    by (simp add: save_servers_def normalize_wf [OF sample_peer_wf] stored_servers_def MAX_SERVERS_def)
  moreover have "list_servers show ''t'' Missing = Inr []" by (simp add: list_servers_def)
  moreover have "str_or (opt_str (Some ''srv_branch'')) (''srv_'' @ fresh) = ''srv_branch''" by (simp add: str_or_def opt_str_def)
  ultimately show ?thesis
    unfolding add_server_def sample_invite_def add_args.select_convs invite.select_convs
    by (simp only: guard_in_simps append_Nil prod.case sum.case)
qed

theorem invitation_connects_witness:
  "\<exists>ss s q. list_servers (\<lambda>_. []) ''t'' (stored_servers [sample_peer]) = Inr ss \<and> s \<in> set ss \<and> sr_id s = ''srv_branch''
    \<and> snd (fetch_server_snapshot (\<lambda>_. []) (sample_env\<lparr>pe_connect_error := None, pe_cert := Some ''cert''\<rparr>) s) = Some q
    \<and> control_GET ''srv_branch'' (replicate 32 (CHR ''t'')) JNull (ps_path q) (ps_authorization q) = SnapshotSent JNull"
proof -
  have inv: "server_export sample_export ''srv_branch'' (replicate 32 (CHR ''t'')) = Inr sample_invite"
  proof -
    have "int_str 8793 = ''8793''" "py_strip ''b.example'' = ''b.example''" "list_ex py_isspace ''b.example'' = False" by code_simp+
    then show ?thesis by (simp add: server_export_def sample_export_def sample_invite_def str_or_def)
  qed
  have facts: "SERVER_ID_fullmatch ''srv_branch''" "SERVER_TOKEN_fullmatch (replicate 32 (CHR ''t''))"
    "py_strip (xe_public_host sample_export) = ''b.example''" "''b.example'' \<noteq> []" "\<forall>c\<in>set ''b.example''. plain_host_char c"
    "0 \<le> xe_port sample_export" "xe_der sample_export = Some ''cert''" "''cert'' \<noteq> []" "servers_ok Missing" "''t'' \<noteq> []"
    by (code_simp, code_simp, code_simp, simp, code_simp, code_simp, code_simp, simp, simp add: servers_ok_def, simp)
  show ?thesis
    by (rule invitation_connects [OF inv facts(1-10) sample_peer_added]) simp_all
qed

end
