(* ===== verification/Archive.thy ===== *)
theory Archive
  imports Json "HOL-Library.Product_Lexorder"
begin

text \<open>
  Archives and encodings as the backup and the update engine see them. A tar file is the list of
  its members: name, kind, declared size and what \<open>extractfile\<close> reads. What the standard
  library makes of bytes is an argument of what uses it: UTF-8 decoding, \<open>json.loads\<close> of the
  decoded text, \<open>json.dumps\<close>, and \<open>str()\<close> of a float, a list or a dictionary.
\<close>

record tar_member =
  tm_name :: string
  tm_regular :: bool
  tm_size :: int
  tm_data :: "string option"

record codec =
  cd_text :: "string \<Rightarrow> string option"
  cd_json :: "string \<Rightarrow> json option"
  cd_dumps :: "json \<Rightarrow> string"
  cd_str :: "json \<Rightarrow> string"

definition plain_member :: "string \<Rightarrow> string \<Rightarrow> tar_member" where
  "plain_member n d = \<lparr>tm_name = n, tm_regular = True, tm_size = int (length d), tm_data = Some d\<rparr>"

fun sort_keys :: "json \<Rightarrow> json" where
  \<comment> \<open>the order \<open>json.dumps(..., sort_keys=True)\<close> writes\<close>
  "sort_keys (JObj kvs) = JObj (sort_key fst (map (\<lambda>(k, v). (k, sort_keys v)) kvs))"
| "sort_keys (JList js) = JList (map sort_keys js)"
| "sort_keys j = j"

definition dumps_line :: "codec \<Rightarrow> json \<Rightarrow> string" where
  \<comment> \<open>\<open>json.dumps(j, indent=2, sort_keys=True) + newline\<close>\<close>
  "dumps_line cd j = cd_dumps cd (sort_keys j) @ [CHR 0x0A]"

definition dumps_law :: "codec \<Rightarrow> nat \<Rightarrow> json \<Rightarrow> bool" where
  \<comment> \<open>\<open>json.loads\<close> reads back what \<open>json.dumps\<close> wrote, and the text is no longer than a member may be\<close>
  "dumps_law cd limit j = (cd_json cd (dumps_line cd j) = Some (sort_keys j) \<and> length (dumps_line cd j) \<le> limit)"

definition obj_lookup :: "(string \<times> json) list \<Rightarrow> string \<Rightarrow> json option" where
  "obj_lookup kvs k = map_of (rev kvs) k"

definition opt_text :: "(json \<Rightarrow> string) \<Rightarrow> json \<Rightarrow> string option" where
  \<comment> \<open>the value \<open>str(v or default)\<close> sees: None for a falsy one\<close>
  "opt_text show j = (if truthy j then Some (py_str show j) else None)"

definition text_list :: "(json \<Rightarrow> string) \<Rightarrow> json \<Rightarrow> string list option res" where
  \<comment> \<open>the elements of \<open>v or []\<close>\<close>
  "text_list show j = (if \<not> truthy j then Inr None else case j of
       JList js \<Rightarrow> Inr (Some (map (py_str show) js))
     | JStr s \<Rightarrow> Inr (Some (map (\<lambda>c. [c]) s))
     | JObj kvs \<Rightarrow> Inr (Some (map fst kvs))
     | _ \<Rightarrow> Inl TypeError)"

definition opt_int :: "json option \<Rightarrow> int option res" where
  "opt_int v = (case v of None \<Rightarrow> Inr None | Some j \<Rightarrow> rbind (json_int j) (\<lambda>i. Inr (Some i)))"

definition is_obj :: "json \<Rightarrow> bool" where
  "is_obj j = (case j of JObj _ \<Rightarrow> True | _ \<Rightarrow> False)"

definition obj_of :: "json \<Rightarrow> (string \<times> json) list" where
  "obj_of j = (case j of JObj kvs \<Rightarrow> kvs | _ \<Rightarrow> [])"

definition lines_ok :: "(string \<Rightarrow> bool) \<Rightarrow> string \<Rightarrow> bool" where
  "lines_ok p text = list_all p (py_splitlines text)"

lemma distinct_keys_sort [simp]: "distinct (map fst (sort_key fst kvs)) \<longleftrightarrow> distinct (map fst kvs)"
  by (simp only: distinct_map distinct_sort set_sort)

lemma map_of_sort_key:
  assumes "distinct (map fst kvs)"
  shows "map_of (sort_key fst kvs) = map_of kvs" "map_of (rev (sort_key fst kvs)) = map_of kvs"
proof -
  have d: "distinct (map fst (sort_key fst kvs))"
    using assms by (simp only: distinct_map distinct_sort set_sort)
  then have "distinct (map fst (rev (sort_key fst kvs)))" by (simp only: rev_map [symmetric] distinct_rev)
  then show "map_of (rev (sort_key fst kvs)) = map_of kvs"
    using assms by (rule map_of_inject_set [THEN iffD2]) simp
  show "map_of (sort_key fst kvs) = map_of kvs"
    by (rule map_of_inject_set [THEN iffD2, OF d assms]) simp
qed

lemma obj_get_sorted:
  assumes "distinct (map fst kvs)"
  shows "obj_get (obj_of (sort_keys (JObj kvs))) k = (case map_of kvs k of None \<Rightarrow> JNull | Some v \<Rightarrow> sort_keys v)"
proof -
  let ?l = "map (\<lambda>(k, v). (k, sort_keys v)) kvs"
  have "map fst ?l = map fst kvs" by (induction kvs) auto
  then have "distinct (map fst ?l)" using assms by (simp only:)
  then have "map_of (rev (sort_key fst ?l)) = map_of ?l" by (rule map_of_sort_key)
  moreover have "map_of ?l k = map_option sort_keys (map_of kvs k)" by (induction kvs) auto
  ultimately show ?thesis by (simp add: obj_get_def obj_of_def split: option.splits)
qed

lemma obj_get_or_present: "obj_get kvs k \<noteq> JNull \<Longrightarrow> obj_get_or kvs k d = obj_get kvs k"
  by (auto simp: obj_get_def obj_get_or_def split: option.splits)

lemma is_obj_sort_keys [simp]: "is_obj (sort_keys (JObj kvs))"
  by (simp add: is_obj_def)

section \<open>Retention\<close>

text \<open>
  Both engines keep the newest files of a directory: they sort by time and then by name and
  remove what follows the first \<open>k\<close>.
\<close>

definition newest_names :: "('b \<Rightarrow> int) \<Rightarrow> (string \<Rightarrow> bool) \<Rightarrow> (string \<times> 'b) list \<Rightarrow> string list" where
  "newest_names mt sel fs = map snd (rev (sort (map (\<lambda>(n, b). (mt b, n)) (filter (\<lambda>(n, b). sel n) fs))))"

definition keep_newest ::
  "nat \<Rightarrow> ('b \<Rightarrow> int) \<Rightarrow> (string \<Rightarrow> bool) \<Rightarrow> (string \<times> 'b) list \<Rightarrow> string list \<times> (string \<times> 'b) list" where
  "keep_newest k mt sel fs = (let removed = drop k (newest_names mt sel fs) in
     (removed, filter (\<lambda>(n, b). n \<notin> set removed) fs))"

lemma set_newest_names: "set (newest_names mt sel fs) = {n. \<exists>b. (n, b) \<in> set fs \<and> sel n}"
  by (force simp: newest_names_def)

lemma distinct_newest_names:
  assumes "distinct (map fst fs)" shows "distinct (newest_names mt sel fs)"
proof -
  let ?l = "map (\<lambda>(n, b). (mt b, n)) (filter (\<lambda>(n, b). sel n) fs)"
  have "map snd ?l = map fst (filter (\<lambda>(n, b). sel n) fs)" by simp
  then have "distinct (map snd ?l)" using assms by (simp only: distinct_map_filter)
  then show ?thesis by (simp only: newest_names_def distinct_map distinct_rev distinct_sort set_rev set_sort)
qed

lemma keep_newest_bound:
  assumes "distinct (map fst fs)" and "keep_newest k mt sel fs = (removed, kept)"
  shows "length (filter (\<lambda>(n, b). sel n) kept) \<le> k"
proof -
  let ?ns = "newest_names mt sel fs"
  let ?kept = "map fst (filter (\<lambda>(n, b). sel n) kept)"
  have kept: "kept = filter (\<lambda>(n, b). n \<notin> set (drop k ?ns)) fs" using assms(2) by (auto simp: keep_newest_def Let_def)
  have d: "distinct ?kept" unfolding kept using assms(1) by (simp add: distinct_map_filter)
  have "set ?kept \<subseteq> set ?ns - set (drop k ?ns)" unfolding kept by (force simp: set_newest_names)
  also have "\<dots> \<subseteq> set (take k ?ns)" by (metis Diff_subset_conv Un_commute append_take_drop_id set_append subset_refl)
  finally have "card (set ?kept) \<le> card (set (take k ?ns))" by (simp add: card_mono)
  also have "\<dots> \<le> k" using card_length [of "take k ?ns"] by simp
  finally show ?thesis by (metis d distinct_card length_map)
qed

lemma keep_newest_order:
  assumes d: "distinct (map fst fs)" and "keep_newest k mt sel fs = (removed, kept)"
    and "(n, b) \<in> set kept" "sel n" "(m, c) \<in> set fs" "m \<in> set removed"
  shows "(mt c, m) \<le> (mt b, n)"
proof -
  let ?s = "rev (sort (map (\<lambda>(n, b). (mt b, n)) (filter (\<lambda>(n, b). sel n) fs)))"
  have r: "removed = map snd (drop k ?s)" and n: "(n, b) \<in> set fs" "n \<notin> set removed"
    using assms(2,3) by (auto simp: keep_newest_def Let_def newest_names_def drop_map)
  have "(mt b, n) \<in> set ?s" using n(1) \<open>sel n\<close> by force
  moreover have "(mt b, n) \<notin> set (drop k ?s)" using n(2) r by force
  ultimately have b: "(mt b, n) \<in> set (take k ?s)" by (metis Un_iff append_take_drop_id set_append)
  obtain t where t: "(t, m) \<in> set (drop k ?s)" using \<open>m \<in> set removed\<close> r by force
  then have "(t, m) \<in> set ?s" by (meson in_set_dropD)
  then obtain c' where "(m, c') \<in> set fs" "t = mt c'" by auto
  then have "t = mt c" using \<open>(m, c) \<in> set fs\<close> d by (metis eq_key_imp_eq_value)
  have "sorted (rev ?s)" by simp
  then have "sorted (rev (take k ?s @ drop k ?s))" by (simp only: append_take_drop_id)
  then show ?thesis using b t \<open>t = mt c\<close> unfolding rev_append sorted_append set_rev by blast
qed

lemma keep_newest_other:
  "keep_newest k mt sel fs = (removed, kept) \<Longrightarrow> \<not> sel n \<Longrightarrow> (n, b) \<in> set fs \<Longrightarrow> (n, b) \<in> set kept"
  using set_newest_names [of mt sel fs] by (auto simp: keep_newest_def Let_def dest!: in_set_dropD)

lemma keep_newest_subset: "keep_newest k mt sel fs = (removed, kept) \<Longrightarrow> set kept \<subseteq> set fs"
  by (auto simp: keep_newest_def Let_def)

end
