(* ===== verification/Backup.thy ===== *)
theory Backup
  imports Archive MultiServer Health
begin

text \<open>
  \<open>ge360_bridge/backup.py\<close>: the snapshot of the configuration files and its validation, the
  archive with its manifest, retention, and restore. The host is the configuration files by
  path and the archives of the backup directory by name. How \<open>gzip\<close> compresses, the clock and
  the decoders of \<open>Archive\<close> are arguments; a file that is not there is the only read error.
\<close>

section \<open>What a backup holds\<close>

definition REQUIRED_FILES :: "string list" where
  "REQUIRED_FILES = [''state/devices.json'', ''state/resources.json'', ''state/services.json'', ''state/groups.json'',
     ''state/bridge.env'', ''state/server.key'', ''state/server.pub'', ''state/dashboard.token'',
     ''state/enrollment.key'', ''state/pairing-tls.key'', ''state/pairing-tls.crt'', ''wireguard/wg0.conf'']"

definition OPTIONAL_FILES :: "string list" where
  "OPTIONAL_FILES = [''state/relay.token'', ''state/servers.json'', ''state/server-id'', ''state/server.token'',
     ''state/multi-server-tls.key'', ''state/multi-server-tls.crt'']"

definition ALLOWED_FILES :: "string list" where
  "ALLOWED_FILES = REQUIRED_FILES @ OPTIONAL_FILES"

definition source_path :: "string \<Rightarrow> string" where
  \<comment> \<open>\<open>ALL_SOURCE_MAP\<close>\<close>
  "source_path n = (if n = ''wireguard/wg0.conf'' then ''/etc/wireguard/wg0.conf'' else ''/etc/ge360-bridge/'' @ drop 6 n)"

definition DEFAULT_RETENTION :: int where "DEFAULT_RETENTION = 10"
definition MAX_RETENTION :: int where "MAX_RETENTION = 100"
definition MAX_ARCHIVE_BYTES :: int where "MAX_ARCHIVE_BYTES = 8388608"
definition MAX_FILE_BYTES :: nat where "MAX_FILE_BYTES = 2097152"

definition FORBIDDEN_CLIENT_PRIVATE_KEYS :: "string list" where
  "FORBIDDEN_CLIENT_PRIVATE_KEYS = [''private_key'', ''client_private_key'', ''wireguard_private_key'', ''client_private'']"

definition validate_retention :: "json \<Rightarrow> int res" where
  "validate_retention v = (case json_int v of
       Inl OverflowError \<Rightarrow> Inl OverflowError
     | Inl _ \<Rightarrow> Inl (BridgeError ''Retention backup non valida.'')
     | Inr keep \<Rightarrow> if keep < 1 \<or> MAX_RETENTION < keep then Inl (BridgeError ''Retention backup non valida: usa 1..100.'')
         else Inr keep)"

section \<open>Validation of a snapshot\<close>

definition key_form :: "string \<Rightarrow> string" where
  "key_form k = map (\<lambda>c. if c = CHR ''-'' then CHR ''_'' else c) (py_lower (py_strip k))"

fun scan :: "string \<Rightarrow> json \<Rightarrow> unit res"
  and scan_pairs :: "string \<Rightarrow> (string \<times> json) list \<Rightarrow> unit res"
  and scan_items :: "string \<Rightarrow> nat \<Rightarrow> json list \<Rightarrow> unit res" where
  "scan path (JObj kvs) = scan_pairs path kvs"
| "scan path (JList js) = scan_items path 0 js"
| "scan path _ = Inr ()"
| "scan_pairs path [] = Inr ()"
| "scan_pairs path ((k, v) # kvs) =
     (if key_form k \<in> set FORBIDDEN_CLIENT_PRIVATE_KEYS
      then Inl (BridgeError (''Backup bloccato: possibile private key client rilevata in '' @ path @ ''.'' @ k @ ''.''))
      else rbind (scan (path @ ''.'' @ k) v) (\<lambda>_. scan_pairs path kvs))"
| "scan_items path i [] = Inr ()"
| "scan_items path i (j # js) =
     rbind (scan (path @ ''['' @ nat_str i @ '']'') j) (\<lambda>_. scan_items path (Suc i) js)"

text \<open>The stored forms of \<open>Registry\<close>, read from JSON objects.\<close>

definition raw_device_of :: "(json \<Rightarrow> string) \<Rightarrow> (string \<times> json) list \<Rightarrow> raw_device res" where
  "raw_device_of show d = rbind (text_list show (obj_get d ''tags'')) (\<lambda>tg.
     Inr \<lparr>raw_device_id = opt_text show (obj_get d ''device_id''), raw_d_name = opt_text show (obj_get d ''name''),
       raw_device_type = opt_text show (obj_get d ''device_type''), raw_owner = opt_text show (obj_get d ''owner''),
       raw_vpn_ip = text_or show (obj_get d ''vpn_ip'') [], raw_public_key = text_or show (obj_get d ''public_key'') [],
       raw_preshared_key = text_or show (obj_get d ''preshared_key'') [], raw_token = text_or show (obj_get d ''token'') [],
       raw_created_at = opt_text show (obj_get d ''created_at''), raw_expires_at = opt_text show (obj_get d ''expires_at''),
       raw_notes = opt_text show (obj_get d ''notes''), raw_tags = tg,
       raw_d_enabled = map_option truthy (obj_lookup d ''enabled'')\<rparr>)"

definition raw_resource_of :: "(json \<Rightarrow> string) \<Rightarrow> (string \<times> json) list \<Rightarrow> raw_resource res" where
  "raw_resource_of show r =
     rbind (opt_int (obj_lookup r ''bridge_port'')) (\<lambda>bp.
     rbind (if bp \<noteq> None then Inr None else opt_int (obj_lookup r ''listen_port'')) (\<lambda>lp.
     rbind (if truthy (obj_get r ''target_port'') then json_int (obj_get r ''target_port'') else Inr 0) (\<lambda>tp.
     rbind (case obj_get r ''systemd_unit'' of JStr s \<Rightarrow> Inr (Some s)
       | j \<Rightarrow> if truthy j then Inl AttributeError else Inr None) (\<lambda>unit.
     rbind (text_list show (obj_get r ''allowed_devices'')) (\<lambda>allow.
     rbind (text_list show (obj_get r ''denied_devices'')) (\<lambda>deny.
     Inr \<lparr>raw_r_name = opt_text show (obj_get r ''name''), raw_bridge_port = bp, raw_listen_port = lp,
       raw_target_host = opt_text show (obj_get r ''target_host''), raw_target_port = Some tp,
       raw_allowed_devices = allow, raw_icon = opt_text show (obj_get r ''icon''),
       raw_r_description = opt_text show (obj_get r ''description''), raw_protocol = opt_text show (obj_get r ''protocol''),
       raw_health_url = opt_text show (obj_get r ''health_url''),
       raw_timeout_seconds = map_option num_of (obj_lookup r ''timeout_seconds''), raw_systemd_unit = unit,
       raw_self_heal_enabled = map_option truthy (obj_lookup r ''self_heal_enabled''),
       raw_denied_devices = deny, raw_r_enabled = map_option truthy (obj_lookup r ''enabled'')\<rparr>))))))"

definition raw_group_of :: "(json \<Rightarrow> string) \<Rightarrow> (string \<times> json) list \<Rightarrow> raw_group res" where
  "raw_group_of show g =
     rbind (text_list show (obj_get g ''device_ids'')) (\<lambda>ds.
     rbind (text_list show (obj_get g ''allowed_services'')) (\<lambda>ss.
     rbind (if ss \<noteq> None then Inr None else text_list show (obj_get g ''allowed_resources'')) (\<lambda>rs.
     Inr \<lparr>raw_g_name = opt_text show (obj_get g ''name''), raw_g_description = opt_text show (obj_get g ''description''),
       raw_device_ids = ds, raw_allowed_services = ss, raw_allowed_resources = rs,
       raw_g_enabled = map_option truthy (obj_lookup g ''enabled'')\<rparr>)))"

definition object_list :: "string \<Rightarrow> json \<Rightarrow> (string \<times> json) list list res" where
  "object_list file j = (case j of
       JList js \<Rightarrow> if list_all is_obj js then Inr (map obj_of js) else Inl (BridgeError (file @ '' non valido.''))
     | _ \<Rightarrow> Inl (BridgeError (file @ '' non valido.'')))"

definition json_bytes :: "codec \<Rightarrow> string \<Rightarrow> string \<Rightarrow> json res" where
  "json_bytes cd data name = (case cd_json cd data of
       None \<Rightarrow> Inl (BridgeError (''JSON non valido nel backup: '' @ name)) | Some j \<Rightarrow> Inr j)"

definition validate_device_registry :: "codec \<Rightarrow> json \<Rightarrow> raw_device list res" where
  \<comment> \<open>the stored devices, which are normalised as when the registry is read\<close>
  "validate_device_registry cd payload =
     rbind (object_list ''devices.json'' payload) (\<lambda>ds.
     rbind (scan ''devices'' payload) (\<lambda>_.
     rbind (rmap (raw_device_of (cd_str cd)) ds) (\<lambda>raws.
     let items = map (\<lambda>d. normalize_device d []) raws; ids = map device_id items; names = map d_name items in
     rbind (ensure (\<not> ([] \<in> set (ids @ names) \<or> \<not> distinct ids \<or> \<not> distinct names))
       (BridgeError ''devices.json contiene device_id o nomi non validi/duplicati.'')) (\<lambda>_. Inr raws))))"

definition check_resource_entry :: "resource \<Rightarrow> unit res" where
  "check_resource_entry r =
     rbind (validate_name (r_name r)) (\<lambda>_. rbind (validate_port (bridge_port r)) (\<lambda>_.
     rbind (validate_port (target_port r)) (\<lambda>_. rbind (validate_target_host (target_host r)) (\<lambda>_.
     rbind (validate_resource_protocol (protocol r)) (\<lambda>_. rbind (validate_timeout_seconds (NFloat (timeout_seconds r))) (\<lambda>_.
     rbind (validate_health_url (Some (health_url r)) (target_host r) (target_port r)) (\<lambda>_.
     rbind (validate_systemd_unit (Some (systemd_unit r))) (\<lambda>unit.
     ensure (\<not> (self_heal_enabled r \<and> unit = []))
       (BridgeError (''Resource '' @ r_name r @ '': self-healing senza systemd_unit.''))))))))))"

definition validate_resource_registry :: "codec \<Rightarrow> json \<Rightarrow> raw_resource list res" where
  "validate_resource_registry cd payload =
     rbind (object_list ''resources.json'' payload) (\<lambda>rs.
     rbind (rmap (\<lambda>d. rbind (raw_resource_of (cd_str cd) d) (\<lambda>raw.
       rbind (check_resource_entry (normalize_resource raw)) (\<lambda>_. Inr raw))) rs) (\<lambda>raws.
     let items = map normalize_resource raws in
     rbind (ensure (distinct (map r_name items) \<and> distinct (map bridge_port items))
       (BridgeError ''resources.json contiene nomi o bridge port duplicati.'')) (\<lambda>_. Inr raws)))"

definition check_group_entry :: "string list \<Rightarrow> string list \<Rightarrow> group \<Rightarrow> unit res" where
  "check_group_entry ids resources g =
     rbind (validate_name (g_name g)) (\<lambda>_.
     rbind (ensure (without (device_ids g) ids = [])
       (BridgeError (''groups.json contiene device sconosciuti: '' @ py_join '', '' (without (device_ids g) ids)))) (\<lambda>_.
     ensure (without (allowed_services g) resources = [])
       (BridgeError (''groups.json contiene Resource sconosciute: '' @ py_join '', '' (without (allowed_services g) resources)))))"

definition validate_group_registry :: "codec \<Rightarrow> json \<Rightarrow> string list \<Rightarrow> string list \<Rightarrow> raw_group list res" where
  "validate_group_registry cd payload ids resources =
     rbind (object_list ''groups.json'' payload) (\<lambda>gs.
     rbind (rmap (raw_group_of (cd_str cd)) gs) (\<lambda>raws.
     let items = map normalize_group raws in
     rbind (ensure (distinct (map g_name items)) (BridgeError ''groups.json contiene nomi duplicati.'')) (\<lambda>_.
     rbind (rmap (check_group_entry ids resources) items) (\<lambda>_. Inr raws))))"

definition validate_bridge_env :: "codec \<Rightarrow> string \<Rightarrow> unit res" where
  "validate_bridge_env cd data = (case cd_text cd data of
       None \<Rightarrow> Inl (BridgeError (''bridge.env non '' @ [CHR 0xE8] @ '' UTF-8 valido.''))
     | Some text \<Rightarrow>
         if CHR 0x00 \<in> set text \<or> 65536 < length text then Inl (BridgeError ''bridge.env non valido.'')
         else ensure (lines_ok (\<lambda>raw. let l = py_strip raw in l = [] \<or> starts_with ''#'' l \<or> CHR ''='' \<in> set l) text)
           (BridgeError ''bridge.env contiene una riga non valida.''))"

definition validate_wireguard_conf :: "codec \<Rightarrow> string \<Rightarrow> unit res" where
  "validate_wireguard_conf cd data = (case cd_text cd data of
       None \<Rightarrow> Inl (BridgeError (''wg0.conf non '' @ [CHR 0xE8] @ '' UTF-8 valido.''))
     | Some text \<Rightarrow> ensure (CHR 0x00 \<notin> set text \<and> contains_str ''[Interface]'' text
         \<and> contains_str ''PrivateKey ='' text \<and> contains_str ''Address ='' text) (BridgeError ''wg0.conf non valido.''))"

definition validate_servers :: "codec \<Rightarrow> string \<Rightarrow> string \<Rightarrow> unit res" where
  \<comment> \<open>whatever the normalisation raises is reported as an invalid file\<close>
  "validate_servers cd now data = (let invalid = Inl (BridgeError ''servers.json non valido nel backup.'') in
     case cd_json cd data of
       Some (JList js) \<Rightarrow> (case rmap (normalize_server (cd_str cd) now) (dicts js) of
           Inl _ \<Rightarrow> invalid
         | Inr ss \<Rightarrow> if length ss \<noteq> length js then invalid
             else ensure (distinct (map sr_id ss) \<and> distinct (map sr_name ss))
               (BridgeError ''servers.json contiene server duplicati.''))
     | _ \<Rightarrow> invalid)"

type_synonym files = "(string \<times> string) list"

definition file_of :: "files \<Rightarrow> string \<Rightarrow> string" where
  "file_of fs n = (case map_of fs n of None \<Rightarrow> [] | Some d \<Rightarrow> d)"

definition SECRET_FILES :: "string list" where
  "SECRET_FILES = [''state/server.key'', ''state/server.pub'', ''state/dashboard.token'', ''state/enrollment.key'',
     ''state/pairing-tls.key'', ''state/pairing-tls.crt'']"

record summary =
  su_devices :: nat
  su_resources :: nat
  su_groups :: nat

record registries =
  rg_devices :: "raw_device list"
  rg_resources :: "raw_resource list"
  rg_groups :: "raw_group list"

definition snapshot_registries :: "codec \<Rightarrow> files \<Rightarrow> registries res" where
  \<comment> \<open>the first half of \<open>validate_snapshot\<close>: the registries\<close>
  "snapshot_registries cd fs =
     rbind (json_bytes cd (file_of fs ''state/devices.json'') ''devices.json'') (\<lambda>dj.
     rbind (validate_device_registry cd dj) (\<lambda>ds.
     rbind (json_bytes cd (file_of fs ''state/resources.json'') ''resources.json'') (\<lambda>rj.
     rbind (validate_resource_registry cd rj) (\<lambda>rs.
     rbind (json_bytes cd (file_of fs ''state/services.json'') ''services.json'') (\<lambda>sj.
     rbind (validate_resource_registry cd sj) (\<lambda>ss.
     rbind (ensure (map normalize_resource rs = map normalize_resource ss)
       (BridgeError ''services.json non corrisponde al mirror resources.json.'')) (\<lambda>_.
     rbind (json_bytes cd (file_of fs ''state/groups.json'') ''groups.json'') (\<lambda>gj.
     rbind (validate_group_registry cd gj (map (\<lambda>d. device_id (normalize_device d [])) ds)
       (map (r_name \<circ> normalize_resource) rs)) (\<lambda>gs.
     Inr \<lparr>rg_devices = ds, rg_resources = rs, rg_groups = gs\<rparr>)))))))))"

definition validate_snapshot :: "codec \<Rightarrow> string \<Rightarrow> files \<Rightarrow> summary res" where
  "validate_snapshot cd now fs = (let names = map fst fs in
     rbind (ensure (without REQUIRED_FILES names = [])
       (BridgeError (''Backup incompleto, file mancanti: '' @ py_join '', '' (without REQUIRED_FILES names)))) (\<lambda>_.
     rbind (ensure (without names ALLOWED_FILES = [])
       (BridgeError (''Backup contiene file non previsti: '' @ py_join '', '' (without names ALLOWED_FILES)))) (\<lambda>_.
     rbind (snapshot_registries cd fs) (\<lambda>rg.
     rbind (validate_bridge_env cd (file_of fs ''state/bridge.env'')) (\<lambda>_.
     rbind (validate_wireguard_conf cd (file_of fs ''wireguard/wg0.conf'')) (\<lambda>_.
     rbind (rmap (\<lambda>n. ensure (bytes_strip (file_of fs n) \<noteq> [])
       (BridgeError (''Backup contiene un segreto/config vuoto: '' @ n))) SECRET_FILES) (\<lambda>_.
     rbind (ensure (''state/relay.token'' \<notin> set names \<or> bytes_strip (file_of fs ''state/relay.token'') \<noteq> [])
       (BridgeError ''Backup contiene relay.token vuoto.'')) (\<lambda>_.
     rbind (rmap (\<lambda>n. ensure (n \<notin> set names \<or> bytes_strip (file_of fs n) \<noteq> [])
         (BridgeError (''Backup contiene segreto/config multi-server vuoto: '' @ n)))
       [''state/server-id'', ''state/server.token'', ''state/multi-server-tls.key'', ''state/multi-server-tls.crt'']) (\<lambda>_.
     rbind (if ''state/servers.json'' \<in> set names then validate_servers cd now (file_of fs ''state/servers.json'') else Inr ()) (\<lambda>_.
     Inr \<lparr>su_devices = length (rg_devices rg), su_resources = length (rg_resources rg),
       su_groups = length (rg_groups rg)\<rparr>))))))))))"

section \<open>The host\<close>

record stored_backup =
  sb_size :: int
  sb_mtime :: int
  sb_members :: "tar_member list option" \<comment> \<open>None when the file is no readable archive\<close>

record backup_host =
  h_files :: "string \<rightharpoonup> string"
  h_backups :: "(string \<times> stored_backup) list"

fun snapshot_loop :: "(string \<rightharpoonup> string) \<Rightarrow> string list \<Rightarrow> files \<Rightarrow> string list \<Rightarrow> (files \<times> string list) res" where
  \<comment> \<open>the files that are there and the paths of those that are not\<close>
  "snapshot_loop disk [] fs missing = Inr (fs, missing)"
| "snapshot_loop disk (n # ns) fs missing = (case disk (source_path n) of
       None \<Rightarrow> snapshot_loop disk ns fs (missing @ [source_path n])
     | Some d \<Rightarrow> if MAX_FILE_BYTES < length d
         then Inl (BridgeError (''File troppo grande per backup configurazione: '' @ source_path n))
         else snapshot_loop disk ns (fs @ [(n, d)]) missing)"

definition snapshot_sources :: "codec \<Rightarrow> string \<Rightarrow> (string \<rightharpoonup> string) \<Rightarrow> files res" where
  "snapshot_sources cd now disk =
     rbind (snapshot_loop disk REQUIRED_FILES [] []) (\<lambda>(fs, missing).
     rbind (ensure (missing = []) (BridgeError (''Configurazione incompleta, file mancanti: '' @ py_join '', '' missing))) (\<lambda>_.
     rbind (snapshot_loop disk OPTIONAL_FILES fs []) (\<lambda>(fs, _).
     rbind (validate_snapshot cd now fs) (\<lambda>_. Inr fs))))"

record backup_env =
  be_codec :: codec
  be_now :: string \<comment> \<open>ISO text of the time\<close>
  be_day :: string
  be_time :: string
  be_mtime :: int
  be_version :: string
  be_gzip :: "tar_member list \<Rightarrow> int" \<comment> \<open>size of the compressed archive\<close>

definition backup_name :: "backup_env \<Rightarrow> string \<Rightarrow> string" where
  "backup_name env reason = ''ge360-config-'' @ be_day env @ ''T'' @ be_time env @ ''Z-''
     @ (if reason \<in> {''manual'', ''daily'', ''pre-restore'', ''pre-update''} then reason else ''manual'') @ ''.tar.gz''"

definition glob_match :: "string \<Rightarrow> string \<Rightarrow> string \<Rightarrow> bool" where
  \<comment> \<open>the pattern \<open>prefix*suffix\<close>\<close>
  "glob_match p q n = (starts_with p n \<and> ends_with q n \<and> length p + length q \<le> length n)"

definition same_day_scheduled :: "backup_env \<Rightarrow> backup_host \<Rightarrow> string option" where
  "same_day_scheduled env h =
     (case sorted_set (filter (glob_match (''ge360-config-'' @ be_day env @ ''T'') ''-daily.tar.gz'') (map fst (h_backups h))) of
        [] \<Rightarrow> None | n # _ \<Rightarrow> Some n)"

definition config_name :: "string \<Rightarrow> bool" where
  "config_name n = glob_match ''ge360-config-'' ''.tar.gz'' n"

definition config_backups :: "backup_host \<Rightarrow> string list" where
  \<comment> \<open>newest first\<close>
  "config_backups h = newest_names sb_mtime config_name (h_backups h)"

definition prune_backups :: "int \<Rightarrow> backup_host \<Rightarrow> string list \<times> backup_host" where
  \<comment> \<open>the limit is validated\<close>
  "prune_backups keep h = (case keep_newest (nat keep) sb_mtime config_name (h_backups h) of
     (removed, kept) \<Rightarrow> (removed, h\<lparr>h_backups := kept\<rparr>))"

section \<open>Creating a backup\<close>

fun file_entry :: "string \<times> string \<Rightarrow> json" where
  "file_entry (n, d) = JObj [(''name'', JStr n), (''size'', JInt (int (length d))), (''sha256'', JStr (sha256_bytes d))]"

definition manifest_of :: "backup_env \<Rightarrow> string \<Rightarrow> files \<Rightarrow> summary \<Rightarrow> json" where
  "manifest_of env reason fs su = JObj
     [(''schema'', JStr ''ge360-bridge-config-backup/v1''), (''bridge_version'', JStr (be_version env)),
      (''created_at'', JStr (be_now env)), (''reason'', JStr reason), (''sensitive'', JBool True),
      (''contains_server_secrets'', JBool True), (''contains_client_private_keys'', JBool False),
      (''files'', JList (map file_entry (sort_key fst fs))),
      (''summary'', JObj [(''devices'', JInt (int (su_devices su))), (''resources'', JInt (int (su_resources su))),
         (''groups'', JInt (int (su_groups su))), (''client_private_keys'', JBool False)])]"

definition archive_of :: "codec \<Rightarrow> json \<Rightarrow> files \<Rightarrow> tar_member list" where
  "archive_of cd manifest fs = plain_member ''manifest.json'' (dumps_line cd manifest)
     # map (\<lambda>(n, d). plain_member n d) (sort_key fst fs)"

datatype backup_result = Skipped string "string list" | Created string summary "string list"

definition create_backup ::
  "backup_env \<Rightarrow> bool \<Rightarrow> json \<Rightarrow> string \<Rightarrow> backup_host \<Rightarrow> backup_result res \<times> backup_host" where
  \<comment> \<open>the reason is empty when none is given\<close>
  "create_backup env scheduled keep_arg reason_arg h =
     guard_in h (validate_retention keep_arg) (\<lambda>keep.
     case (if scheduled then same_day_scheduled env h else None) of
       Some n \<Rightarrow> (case prune_backups keep h of (removed, h) \<Rightarrow> (Inr (Skipped n removed), h))
     | None \<Rightarrow>
       let cd = be_codec env; reason = str_or reason_arg (if scheduled then ''daily'' else ''manual'') in
       guard_in h (snapshot_sources cd (be_now env) (h_files h)) (\<lambda>fs.
       guard_in h (validate_snapshot cd (be_now env) fs) (\<lambda>su.
       let name = backup_name env reason; members = archive_of cd (manifest_of env reason fs su) fs in
       if name \<in> set (map fst (h_backups h))
       then (Inl (BridgeError (''Backup gi'' @ [CHR 0xE0] @ '' esistente: '' @ name)), h)
       else if MAX_ARCHIVE_BYTES < be_gzip env members then (Inl (BridgeError ''Archivio backup troppo grande.''), h)
       else (case prune_backups keep (h\<lparr>h_backups := h_backups h @
             [(name, \<lparr>sb_size = be_gzip env members, sb_mtime = be_mtime env, sb_members = Some members\<rparr>)]\<rparr>) of
           (removed, h) \<Rightarrow> (Inr (Created name su removed), h)))))"

section \<open>Reading an archive\<close>

fun read_members :: "tar_member list \<Rightarrow> files \<Rightarrow> files res" where
  "read_members [] acc = Inr acc"
| "read_members (m # ms) acc = (let n = tm_name m; fail = (\<lambda>t. Inl (BridgeError (t @ n))) in
     if \<not> tm_regular m then fail ''Backup contiene un membro non regolare: ''
     else if n \<in> set (map fst acc) then fail ''Backup contiene un file duplicato: ''
     else if n \<noteq> ''manifest.json'' \<and> n \<notin> set ALLOWED_FILES then fail ''Backup contiene un percorso non consentito: ''
     else if tm_size m < 0 \<or> int MAX_FILE_BYTES < tm_size m then fail ''File backup troppo grande: ''
     else (case tm_data m of
         None \<Rightarrow> fail ''Impossibile leggere dal backup: ''
       | Some d \<Rightarrow> let data = take (MAX_FILE_BYTES + 1) d in
           if int (length data) \<noteq> tm_size m \<or> MAX_FILE_BYTES < length data then fail ''Dimensione non valida per ''
           else read_members ms (acc @ [(n, data)])))"

fun check_declared :: "codec \<Rightarrow> files \<Rightarrow> string list \<Rightarrow> json list \<Rightarrow> string list res" where
  \<comment> \<open>the names the manifest declares\<close>
  "check_declared cd members names [] = Inr names"
| "check_declared cd members names (j # js) = (case j of
       JObj item \<Rightarrow> (let n = text_or (cd_str cd) (obj_get item ''name'') [] in
         if n \<in> set names \<or> n \<notin> set ALLOWED_FILES
         then Inl (BridgeError ''Manifest backup contiene file duplicati/non consentiti.'')
         else (case map_of members n of
             None \<Rightarrow> Inl (BridgeError (''File dichiarato ma assente: '' @ n))
           | Some data \<Rightarrow> rbind (json_int (obj_get_or item ''size'' (JInt (-1)))) (\<lambda>size.
               if size \<noteq> int (length data) then Inl (BridgeError (''Size mismatch nel backup: '' @ n))
               else if text_or (cd_str cd) (obj_get item ''sha256'') [] \<noteq> sha256_bytes data
               then Inl (BridgeError (''Checksum mismatch nel backup: '' @ n))
               else check_declared cd members (names @ [n]) js)))
     | _ \<Rightarrow> Inl (BridgeError ''Manifest backup non valido.''))"

definition read_archive :: "codec \<Rightarrow> string \<Rightarrow> stored_backup \<Rightarrow> ((string \<times> json) list \<times> files) res" where
  "read_archive cd now b =
     (if MAX_ARCHIVE_BYTES < sb_size b then Inl (BridgeError ''Archivio backup troppo grande.'')
      else case sb_members b of
        None \<Rightarrow> Inl (BridgeError ''Archivio backup non valido: '')
      | Some ms \<Rightarrow> rbind (read_members ms []) (\<lambda>all.
          case map_of all ''manifest.json'' of
            None \<Rightarrow> Inl (BridgeError ''manifest.json mancante dal backup.'')
          | Some manifest_raw \<Rightarrow>
            let members = filter (\<lambda>(n, d). n \<noteq> ''manifest.json'') all in
            rbind (json_bytes cd manifest_raw ''manifest.json'') (\<lambda>j.
            if \<not> is_obj j \<or> obj_get (obj_of j) ''schema'' \<noteq> JStr ''ge360-bridge-config-backup/v1''
            then Inl (BridgeError ''Schema backup GE360 non supportato.'')
            else if obj_get (obj_of j) ''contains_client_private_keys'' \<noteq> JBool False
            then Inl (BridgeError ''Backup rifiutato: garanzia private key client assente.'')
            else (case obj_get (obj_of j) ''files'' of
                JList declared \<Rightarrow> rbind (check_declared cd members [] declared) (\<lambda>names.
                  rbind (ensure (set names = fst ` set members)
                    (BridgeError ''Manifest e contenuto archivio non corrispondono.'')) (\<lambda>_.
                  rbind (validate_snapshot cd now members) (\<lambda>_. Inr (obj_of j, members))))
              | _ \<Rightarrow> Inl (BridgeError ''Manifest backup non valido.'')))))"

definition resolve_backup :: "string \<Rightarrow> backup_host \<Rightarrow> (string \<times> stored_backup) res" where
  \<comment> \<open>the name has no directory part\<close>
  "resolve_backup i h =
     (if i = [] \<or> CHR ''/'' \<in> set i \<or> \<not> ends_with ''.tar.gz'' i then Inl (BridgeError ''Nome backup non valido.'')
      else (case map_of (h_backups h) i of
          None \<Rightarrow> Inl (BridgeError (''Backup non trovato: '' @ i)) | Some b \<Rightarrow> Inr (i, b)))"

record verified =
  vf_backup :: string
  vf_size :: int
  vf_version :: json
  vf_created :: json
  vf_reason :: json
  vf_files :: nat

definition verify_backup :: "codec \<Rightarrow> string \<Rightarrow> string \<Rightarrow> backup_host \<Rightarrow> verified res" where
  "verify_backup cd now i h = rbind (resolve_backup i h) (\<lambda>(n, b).
     rbind (read_archive cd now b) (\<lambda>(manifest, fs).
     Inr \<lparr>vf_backup = n, vf_size = sb_size b, vf_version = obj_get manifest ''bridge_version'',
       vf_created = obj_get manifest ''created_at'', vf_reason = obj_get manifest ''reason'', vf_files = length fs\<rparr>))"

datatype backup_row = ValidRow verified | InvalidRow string string

definition list_backups :: "codec \<Rightarrow> string \<Rightarrow> backup_host \<Rightarrow> backup_row list res" where
  \<comment> \<open>any exception but a \<open>BridgeError\<close> ends the listing\<close>
  "list_backups cd now h = rmap (\<lambda>n. case verify_backup cd now n h of
       Inr v \<Rightarrow> Inr (ValidRow v) | Inl (BridgeError e) \<Rightarrow> Inr (InvalidRow n e) | Inl err \<Rightarrow> Inl err) (config_backups h)"

section \<open>Restoring\<close>

record restore_result =
  rs_backup :: string
  rs_applied :: bool
  rs_targets :: "string list"
  rs_summary :: summary
  rs_safety :: "string option"
  rs_safety_error :: "string option"

definition restore_file :: "string \<times> string \<Rightarrow> (string \<rightharpoonup> string) \<Rightarrow> (string \<rightharpoonup> string)" where
  \<comment> \<open>\<open>_atomic_restore_file\<close>\<close>
  "restore_file f disk = disk(source_path (fst f) \<mapsto> snd f)"

definition restore_apply ::
  "backup_env \<Rightarrow> int \<Rightarrow> bool \<Rightarrow> files \<Rightarrow> restore_result \<Rightarrow> backup_host \<Rightarrow> restore_result res \<times> backup_host" where
  \<comment> \<open>the safety backup and the writing of the files\<close>
  "restore_apply env keep safety fs plan h =
     (case (if safety then create_backup env False (JInt keep) ''pre-restore'' h else (Inr (Skipped [] []), h)) of
         (Inl (BridgeError e), h) \<Rightarrow>
           (Inr (plan\<lparr>rs_safety_error := Some e\<rparr>), h\<lparr>h_files := fold restore_file fs (h_files h)\<rparr>)
       | (Inl err, h) \<Rightarrow> (Inl err, h)
       | (Inr r, h) \<Rightarrow>
           (Inr (plan\<lparr>rs_safety := (case r of Created m _ _ \<Rightarrow> Some m | Skipped _ _ \<Rightarrow> None)\<rparr>),
            h\<lparr>h_files := fold restore_file fs (h_files h)\<rparr>))"

definition restore_backup ::
  "backup_env \<Rightarrow> string \<Rightarrow> bool \<Rightarrow> json \<Rightarrow> bool \<Rightarrow> backup_host \<Rightarrow> restore_result res \<times> backup_host" where
  "restore_backup env i apply_it keep_arg safety h =
     guard_in h (validate_retention keep_arg) (\<lambda>keep.
     guard_in h (resolve_backup i h) (\<lambda>(n, b).
     guard_in h (read_archive (be_codec env) (be_now env) b) (\<lambda>(manifest, fs).
     guard_in h (validate_snapshot (be_codec env) (be_now env) fs) (\<lambda>su.
     let ordered = sort_key fst fs;
         plan = \<lparr>rs_backup = n, rs_applied = apply_it, rs_targets = map (source_path \<circ> fst) ordered,
                 rs_summary = su, rs_safety = None, rs_safety_error = None\<rparr> in
     if \<not> apply_it then (Inr plan, h) else restore_apply env keep safety ordered plan h))))"

section \<open>What the archive keeps of a snapshot\<close>

lemma source_path_inj: "inj_on source_path (set ALLOWED_FILES)"
  by (simp add: inj_on_def ALLOWED_FILES_def REQUIRED_FILES_def OPTIONAL_FILES_def source_path_def)

lemma distinct_ALLOWED_FILES: "distinct ALLOWED_FILES"
  by (simp add: ALLOWED_FILES_def REQUIRED_FILES_def OPTIONAL_FILES_def)

lemma without_cong: "set xs = set xs' \<Longrightarrow> set ys = set ys' \<Longrightarrow> without xs ys = without xs' ys'"
  by (auto simp: without_def intro!: sorted_set_cong)

lemma file_of_cong: "map_of fs = map_of fs' \<Longrightarrow> file_of fs = file_of fs'"
  by (simp add: file_of_def fun_eq_iff)

lemma snapshot_registries_cong: "map_of fs = map_of fs' \<Longrightarrow> snapshot_registries cd fs = snapshot_registries cd fs'"
  by (simp only: snapshot_registries_def file_of_cong [of fs fs'])

lemma validate_snapshot_cong:
  assumes "map_of fs = map_of fs'"
  shows "validate_snapshot cd now fs = validate_snapshot cd now fs'"
proof -
  have s: "set (map fst fs) = set (map fst fs')" using assms by (metis dom_map_of_conv_image_fst set_map)
  show ?thesis
    unfolding validate_snapshot_def Let_def snapshot_registries_cong [OF assms] file_of_cong [OF assms] s
      without_cong [OF s refl] without_cong [OF refl s] ..
qed

text \<open>The time only fills in a missing creation time: it decides nothing.\<close>

lemma normalize_server_time:
  "normalize_server show t raw =
     rbind (normalize_server show now raw) (\<lambda>s. Inr (s\<lparr>sr_created := text_or show (obj_get raw ''created_at'') t\<rparr>))"
  by (simp add: normalize_server_def rbind_def split: sum.splits)

lemma normalize_servers_time:
  "rmap (normalize_server show t) xs = rbind (rmap (normalize_server show now) xs) (\<lambda>zs.
     Inr (map2 (\<lambda>x z. z\<lparr>sr_created := text_or show (obj_get x ''created_at'') t\<rparr>) xs zs))"
proof (induction xs)
  case (Cons x xs)
  then show ?case
    by (cases "normalize_server show now x"; cases "rmap (normalize_server show now) xs")
      (simp_all add: normalize_server_time [of "show" t x now])
qed simp

lemma renamed_servers:
  "length zs = length xs \<Longrightarrow> map sr_id (map2 (\<lambda>x z. z\<lparr>sr_created := f x\<rparr>) xs zs) = map sr_id zs"
  "length zs = length xs \<Longrightarrow> map sr_name (map2 (\<lambda>x z. z\<lparr>sr_created := f x\<rparr>) xs zs) = map sr_name zs"
  by (induction zs xs rule: list_induct2) auto

lemma validate_servers_time: "validate_servers cd t data = validate_servers cd now data"
proof -
  have "(case rmap (normalize_server (cd_str cd) t) xs of Inl _ \<Rightarrow> bad
      | Inr ss \<Rightarrow> if length ss \<noteq> k then bad else ensure (distinct (map sr_id ss) \<and> distinct (map sr_name ss)) e)
    = (case rmap (normalize_server (cd_str cd) now) xs of Inl _ \<Rightarrow> bad
      | Inr ss \<Rightarrow> if length ss \<noteq> k then bad else ensure (distinct (map sr_id ss) \<and> distinct (map sr_name ss)) e)"
    for xs k bad e
  proof (cases "rmap (normalize_server (cd_str cd) now) xs")
    case (Inr ss)
    then have "length ss = length xs" by (rule rmap_Inr_length)
    then show ?thesis unfolding normalize_servers_time [of "cd_str cd" t xs now] Inr by (simp add: renamed_servers del: map_map)
  qed (simp add: normalize_servers_time [of "cd_str cd" t xs now])
  then show ?thesis unfolding validate_servers_def Let_def by (simp split: option.split json.split)
qed

lemma validate_snapshot_time: "validate_snapshot cd t fs = validate_snapshot cd now fs"
  unfolding validate_snapshot_def validate_servers_time [of cd t _ now] ..

lemma snapshot_loop_Inr:
  "snapshot_loop disk ns fs missing = Inr (fs', missing') \<Longrightarrow>
     fs' = fs @ map (\<lambda>n. (n, the (disk (source_path n)))) (filter (\<lambda>n. disk (source_path n) \<noteq> None) ns)
     \<and> missing' = missing @ map source_path (filter (\<lambda>n. disk (source_path n) = None) ns)
     \<and> (\<forall>n\<in>set ns. \<forall>d. disk (source_path n) = Some d \<longrightarrow> length d \<le> MAX_FILE_BYTES)"
  by (induction ns arbitrary: fs missing) (fastforce split: option.splits if_splits)+

lemma snapshot_sources_Inr:
  assumes "snapshot_sources cd now disk = Inr fs"
  shows "map fst fs = filter (\<lambda>n. disk (source_path n) \<noteq> None) ALLOWED_FILES"
    and "map_of fs = (\<lambda>n. if n \<in> set ALLOWED_FILES then disk (source_path n) else None)"
    and "\<forall>(n, d)\<in>set fs. length d \<le> MAX_FILE_BYTES"
    and "is_ok (validate_snapshot cd now fs)"
proof -
  let ?present = "\<lambda>ns. map (\<lambda>n. (n, the (disk (source_path n)))) (filter (\<lambda>n. disk (source_path n) \<noteq> None) ns)"
  obtain fs1 u where 1: "snapshot_loop disk REQUIRED_FILES [] [] = Inr (fs1, [])"
    and 2: "snapshot_loop disk OPTIONAL_FILES fs1 [] = Inr (fs, u)" and v: "is_ok (validate_snapshot cd now fs)"
    using assms by (auto simp: snapshot_sources_def res_simps is_ok_iff)
  have fs: "fs = ?present ALLOWED_FILES"
    using snapshot_loop_Inr [OF 1] snapshot_loop_Inr [OF 2] by (simp add: ALLOWED_FILES_def)
  show "is_ok (validate_snapshot cd now fs)" by (rule v)
  show "map fst fs = filter (\<lambda>n. disk (source_path n) \<noteq> None) ALLOWED_FILES" by (simp add: fs comp_def)
  show "map_of fs = (\<lambda>n. if n \<in> set ALLOWED_FILES then disk (source_path n) else None)"
    unfolding fs by (rule ext) (auto simp: map_of_map_restrict restrict_map_def)
  show "\<forall>(n, d)\<in>set fs. length d \<le> MAX_FILE_BYTES"
    using snapshot_loop_Inr [OF 1] snapshot_loop_Inr [OF 2] unfolding fs by (auto simp: ALLOWED_FILES_def)
qed

section \<open>Reading back an archive\<close>

lemma read_members_plain:
  assumes "distinct (map fst (acc @ fs))" and "\<forall>(n, d)\<in>set fs. n \<in> set (''manifest.json'' # ALLOWED_FILES) \<and> length d \<le> MAX_FILE_BYTES"
  shows "read_members (map (\<lambda>(n, d). plain_member n d) fs) acc = Inr (acc @ fs)"
  using assms
proof (induction fs arbitrary: acc)
  case (Cons f fs)
  obtain n d where f: "f = (n, d)" by fastforce
  have "read_members (map (\<lambda>(n, d). plain_member n d) fs) (acc @ [(n, d)]) = Inr ((acc @ [(n, d)]) @ fs)"
    using Cons.prems by (intro Cons.IH) (auto simp: f)
  then show ?case using Cons.prems by (auto simp: f plain_member_def Let_def)
qed simp

lemma file_entry_get:
  obtains item where "sort_keys (file_entry (n, d)) = JObj item" "obj_get item ''name'' = JStr n"
    "\<And>v. obj_get_or item ''size'' v = JInt (int (length d))" "obj_get item ''sha256'' = JStr (sha256_bytes d)"
proof -
  let ?kvs = "[(''name'', JStr n), (''size'', JInt (int (length d))), (''sha256'', JStr (sha256_bytes d))]"
  obtain item where item: "sort_keys (JObj ?kvs) = JObj item" by simp
  have get: "obj_get item k = (case map_of ?kvs k of None \<Rightarrow> JNull | Some v \<Rightarrow> sort_keys v)" for k
    using obj_get_sorted [of ?kvs k] unfolding item by (simp add: obj_of_def)
  show thesis
    by (rule that [of item]) (simp_all only: file_entry.simps item, simp_all add: get obj_get_or_present)
qed

lemma check_declared_entries:
  assumes "distinct (names @ map fst fs)" and "\<forall>(n, d)\<in>set fs. n \<in> set ALLOWED_FILES \<and> map_of members n = Some d"
  shows "check_declared cd members names (map (sort_keys \<circ> file_entry) fs) = Inr (names @ map fst fs)"
  using assms
proof (induction fs arbitrary: names)
  case (Cons f fs)
  obtain n d where f: "f = (n, d)" by fastforce
  obtain item where item: "sort_keys (file_entry (n, d)) = JObj item" "obj_get item ''name'' = JStr n"
    "\<And>v. obj_get_or item ''size'' v = JInt (int (length d))" "obj_get item ''sha256'' = JStr (sha256_bytes d)"
    using file_entry_get by blast
  have ne: "sha256_bytes d \<noteq> []" "n \<noteq> []"
    using is_digest_sha256_bytes [of d] Cons.prems(2)
    by (auto simp: is_digest_def f ALLOWED_FILES_def REQUIRED_FILES_def OPTIONAL_FILES_def)
  have "check_declared cd members (names @ [n]) (map (sort_keys \<circ> file_entry) fs) = Inr ((names @ [n]) @ map fst fs)"
    using Cons.prems by (intro Cons.IH) (auto simp: f)
  then show ?case using Cons.prems ne
    by (simp add: item f Let_def comp_def del: file_entry.simps sort_keys.simps)
qed simp


lemma manifest_keys: "distinct (map fst (obj_of (manifest_of env reason fs su)))"
  by (simp add: manifest_of_def obj_of_def)

lemma manifest_get:
  "obj_get (obj_of (sort_keys (manifest_of env reason fs su))) k =
     (case map_of (obj_of (manifest_of env reason fs su)) k of None \<Rightarrow> JNull | Some v \<Rightarrow> sort_keys v)"
  using obj_get_sorted [OF manifest_keys, of env reason fs su k] by (simp add: manifest_of_def obj_of_def)

text \<open>Reading gives back, in name order, the files an archive was made of.\<close>

lemma read_archive_of:
  assumes d: "distinct (map fst fs)" and names: "\<forall>(n, d)\<in>set fs. n \<in> set ALLOWED_FILES \<and> length d \<le> MAX_FILE_BYTES"
    and law: "dumps_law cd MAX_FILE_BYTES (manifest_of env reason fs su)"
    and ok: "is_ok (validate_snapshot cd t fs)"
    and b: "sb_size b \<le> MAX_ARCHIVE_BYTES" "sb_members b = Some (archive_of cd (manifest_of env reason fs su) fs)"
  shows "\<exists>m. read_archive cd now b = Inr (m, sort_key fst fs)"
proof -
  let ?m = "manifest_of env reason fs su"
  let ?fs = "sort_key fst fs"
  let ?all = "(''manifest.json'', dumps_line cd ?m) # ?fs"
  have ds: "distinct (map fst ?fs)" using d by (simp only: distinct_map distinct_sort set_sort)
  have no: "''manifest.json'' \<notin> set ALLOWED_FILES" by (simp add: ALLOWED_FILES_def REQUIRED_FILES_def OPTIONAL_FILES_def)
  then have nm: "''manifest.json'' \<notin> set (map fst ?fs)" using names by auto
  have rm: "read_members (archive_of cd ?m fs) [] = Inr ?all"
  proof -
    have "\<forall>(n, d)\<in>set ?all. n \<in> set (''manifest.json'' # ALLOWED_FILES) \<and> length d \<le> MAX_FILE_BYTES"
      using names law by (auto simp: dumps_law_def)
    moreover have "distinct (map fst ([] @ ?all))" using ds nm by simp
    moreover have "archive_of cd ?m fs = map (\<lambda>(n, d). plain_member n d) ?all" by (simp add: archive_of_def)
    ultimately show ?thesis using read_members_plain [of "[]" ?all] by (simp del: read_members.simps)
  qed
  have fl: "filter (\<lambda>(n, d). n \<noteq> ''manifest.json'') ?fs = ?fs"
    using nm by (force simp: filter_id_conv)
  have js: "json_bytes cd (dumps_line cd ?m) ''manifest.json'' = Inr (sort_keys ?m)"
    using law by (simp add: json_bytes_def dumps_law_def)
  have get: "obj_get (obj_of (sort_keys ?m)) ''schema'' = JStr ''ge360-bridge-config-backup/v1''"
    "obj_get (obj_of (sort_keys ?m)) ''contains_client_private_keys'' = JBool False"
    "obj_get (obj_of (sort_keys ?m)) ''files'' = JList (map (sort_keys \<circ> file_entry) ?fs)"
    "is_obj (sort_keys ?m)"
    by (simp_all only: manifest_get, simp_all add: manifest_of_def obj_of_def is_obj_def)
  have cd: "check_declared cd ?fs [] (map (sort_keys \<circ> file_entry) ?fs) = Inr (map fst ?fs)"
    using check_declared_entries [of "[]" ?fs ?fs cd] ds names by auto
  have "validate_snapshot cd now ?fs = validate_snapshot cd t fs"
    using validate_snapshot_cong [of ?fs fs cd now] validate_snapshot_time [of cd now fs t] map_of_sort_key(1) [OF d] by simp
  then obtain su' where v: "validate_snapshot cd now ?fs = Inr su'" using ok by (auto simp: is_ok_iff)
  have "set (map fst ?fs) = fst ` set ?fs" by simp
  then show ?thesis using b
    by (simp add: read_archive_def rm js get fl cd v Let_def del: set_map set_sort map_map check_declared.simps)
qed

lemma create_backup_files: "h_files (snd (create_backup env scheduled keep reason h)) = h_files h"
  by (cases "validate_retention keep")
    (auto simp: create_backup_def prune_backups_def guard_in_def Let_def split: option.splits sum.splits prod.splits)

lemma create_backup_Created:
  assumes "create_backup env scheduled keep reason h = (Inr (Created name su removed), h1)"
    and "distinct (map fst (h_backups h))" and "map_of (h_backups h1) name = Some b"
  obtains fs r where "snapshot_sources (be_codec env) (be_now env) (h_files h) = Inr fs"
    "validate_snapshot (be_codec env) (be_now env) fs = Inr su"
    "r = str_or reason (if scheduled then ''daily'' else ''manual'')"
    "sb_size b \<le> MAX_ARCHIVE_BYTES"
    "sb_members b = Some (archive_of (be_codec env) (manifest_of env r fs su) fs)"
    "name = backup_name env r" "ends_with ''.tar.gz'' name"
proof -
  have v: "is_ok (validate_retention keep)" using assms(1) by (cases "validate_retention keep") (auto simp: create_backup_def)
  let ?r = "str_or reason (if scheduled then ''daily'' else ''manual'')" and ?cd = "be_codec env"
  let ?name = "backup_name env ?r"
  have "(if scheduled then same_day_scheduled env h else None) = None"
    using assms(1) v by (auto simp: create_backup_def is_ok_iff split: option.splits prod.splits)
  then obtain k fs where k: "snapshot_sources ?cd (be_now env) (h_files h) = Inr fs"
    "validate_snapshot ?cd (be_now env) fs = Inr su" "name = ?name"
    "?name \<notin> set (map fst (h_backups h))"
    "be_gzip env (archive_of ?cd (manifest_of env ?r fs su) fs) \<le> MAX_ARCHIVE_BYTES"
    "prune_backups k (h\<lparr>h_backups := h_backups h @ [(?name, \<lparr>sb_size = be_gzip env (archive_of ?cd (manifest_of env ?r fs su) fs),
       sb_mtime = be_mtime env, sb_members = Some (archive_of ?cd (manifest_of env ?r fs su) fs)\<rparr>)]\<rparr>) = (removed, h1)"
    using assms(1) v by (auto simp: create_backup_def Let_def guard_in_Inr is_ok_iff split: if_splits prod.splits)
  have "set (h_backups h1) \<subseteq> set (h_backups h @ [(?name, \<lparr>sb_size = be_gzip env (archive_of ?cd (manifest_of env ?r fs su) fs),
       sb_mtime = be_mtime env, sb_members = Some (archive_of ?cd (manifest_of env ?r fs su) fs)\<rparr>)])"
    using k(6) by (auto simp: prune_backups_def split: prod.splits dest!: keep_newest_subset)
  then have b: "b = \<lparr>sb_size = be_gzip env (archive_of ?cd (manifest_of env ?r fs su) fs),
       sb_mtime = be_mtime env, sb_members = Some (archive_of ?cd (manifest_of env ?r fs su) fs)\<rparr>"
    using map_of_SomeD [OF assms(3)] k(3,4) by force
  show thesis
    by (rule that [of fs ?r]) (use k b in \<open>simp_all add: ends_with_def starts_with_def backup_name_def\<close>)
qed

section \<open>Restoring\<close>

lemma fold_restore_file:
  "distinct (map fst fs) \<Longrightarrow> set (map fst fs) \<subseteq> set ALLOWED_FILES \<Longrightarrow> n \<in> set ALLOWED_FILES \<Longrightarrow>
   fold restore_file fs disk (source_path n) = (case map_of fs n of None \<Rightarrow> disk (source_path n) | Some d \<Rightarrow> Some d)"
proof (induction fs arbitrary: disk)
  case (Cons f fs)
  have "source_path n = source_path (fst f) \<longleftrightarrow> n = fst f"
    using Cons.prems(2,3) source_path_inj by (auto simp: inj_on_def)
  then show ?case using Cons
    by (cases "n = fst f"; cases f) (auto simp: restore_file_def map_of_eq_None_iff split: option.split, force)
qed simp

lemma fold_restore_other:
  "set (map fst fs) \<subseteq> set ALLOWED_FILES \<Longrightarrow> p \<notin> source_path ` set ALLOWED_FILES \<Longrightarrow> fold restore_file fs disk p = disk p"
  by (induction fs arbitrary: disk) (auto simp: restore_file_def)

lemma create_backup_error_files:
  "create_backup env scheduled keep reason h = (r, h') \<Longrightarrow> h_files h' = h_files h"
  using create_backup_files [of env scheduled keep reason h] by simp

lemma restore_backup_applies:
  assumes "validate_retention keep = Inr k" and "resolve_backup name h = Inr (n, b)"
    and "read_archive (be_codec env) (be_now env) b = Inr (m, fs)"
    and "is_ok (validate_snapshot (be_codec env) (be_now env) fs)"
    and safe: "safety \<longrightarrow> (\<forall>e. fst (create_backup env False (JInt k) ''pre-restore'' h) = Inl e \<longrightarrow> (\<exists>t. e = BridgeError t))"
  shows "\<exists>r h'. restore_backup env name True keep safety h = (Inr r, h')
    \<and> h_files h' = fold restore_file (sort_key fst fs) (h_files h)"
proof -
  obtain su where su: "validate_snapshot (be_codec env) (be_now env) fs = Inr su" using assms(4) by (auto simp: is_ok_iff)
  let ?s = "if safety then create_backup env False (JInt k) ''pre-restore'' h else (Inr (Skipped [] []), h)"
  obtain r h' where s: "?s = (r, h')" by fastforce
  have f: "h_files h' = h_files h" using s by (auto split: if_splits dest: create_backup_error_files)
  have e: "\<exists>t. e = BridgeError t" if "r = Inl e" for e using s safe that by (auto split: if_splits)
  show ?thesis
  proof (cases r)
    case (Inl x)
    then obtain t where "r = Inl (BridgeError t)" using e by blast
    then show ?thesis using s f by (simp add: restore_backup_def restore_apply_def assms(1,2,3) su Let_def)
  next
    case (Inr x)
    then show ?thesis using s f by (simp add: restore_backup_def restore_apply_def assms(1,2,3) su Let_def)
  qed
qed

text \<open>
  C17. A backup restores the configuration it was made of. Take any host whose backup succeeds;
  whatever happens to its files afterwards, as long as the archive is still in the directory
  restoring it succeeds, every configuration file the host had gets its contents of that time
  back, and every other path, optional files added since included, is left as it is. A safety
  backup that fails with a \<open>BridgeError\<close> does not stop the restore. The manifest is JSON that
  \<open>json.loads\<close> reads back, and its text fits the size limit of a member.
\<close>

theorem backup_restores_files:
  assumes created: "create_backup env scheduled keep reason h = (Inr (Created name su removed), h1)"
    and distinct: "distinct (map fst (h_backups h))"
    and clock: "list_all is_digit (be_day env @ be_time env)"
    and snapshot: "snapshot_sources (be_codec env) (be_now env) (h_files h) = Inr fs"
    and law: "dumps_law (be_codec env) MAX_FILE_BYTES
      (manifest_of env (str_or reason (if scheduled then ''daily'' else ''manual'')) fs su)"
    and kept: "map_of (h_backups h1) name = Some b" "map_of (h_backups h2) name = Some b"
    and later: "be_codec env' = be_codec env" "validate_retention keep' = Inr k"
    and safe: "safety \<longrightarrow> (\<forall>e. fst (create_backup env' False (JInt k) ''pre-restore'' h2) = Inl e \<longrightarrow> (\<exists>t. e = BridgeError t))"
  shows "\<exists>r h3. restore_backup env' name True keep' safety h2 = (Inr r, h3)
    \<and> h_files h3 = (\<lambda>p. if p \<in> source_path ` set ALLOWED_FILES \<and> h_files h p \<noteq> None then h_files h p else h_files h2 p)"
proof -
  let ?cd = "be_codec env" and ?now = "be_now env'"
  obtain r where v: "validate_snapshot ?cd (be_now env) fs = Inr su"
    and b: "r = str_or reason (if scheduled then ''daily'' else ''manual'')" "sb_size b \<le> MAX_ARCHIVE_BYTES"
      "sb_members b = Some (archive_of ?cd (manifest_of env r fs su) fs)" and name: "name = backup_name env r" "ends_with ''.tar.gz'' name"
    using create_backup_Created [OF created distinct kept(1)] snapshot by force
  note fs = snapshot_sources_Inr [OF snapshot]
  have d: "distinct (map fst fs)" unfolding fs(1) by (simp add: distinct_ALLOWED_FILES)
  have names: "set (map fst fs) \<subseteq> set ALLOWED_FILES" unfolding fs(1) by auto
  have "\<exists>m. read_archive ?cd ?now b = Inr (m, sort_key fst fs)"
    by (rule read_archive_of [where t = "be_now env", OF d _ law _ b(2) b(3) [unfolded b(1)]]) (use fs(3) names v in \<open>auto simp: image_subset_iff split_beta\<close>)
  then obtain m where m: "read_archive ?cd ?now b = Inr (m, sort_key fst fs)" ..
  have "CHR ''/'' \<notin> set (be_day env @ be_time env)"
    using clock by (force simp: list_all_iff is_digit_def ord_of_def Let_def)
  then have res: "resolve_backup name h2 = Inr (name, b)"
    using kept(2) name by (auto simp: resolve_backup_def backup_name_def)
  have "is_ok (validate_snapshot ?cd ?now (sort_key fst fs))"
    using v validate_snapshot_cong [OF map_of_sort_key(1) [OF d], of ?cd ?now] validate_snapshot_time [of ?cd ?now fs "be_now env"] by simp
  then obtain r' h3 where r: "restore_backup env' name True keep' safety h2 = (Inr r', h3)"
      "h_files h3 = fold restore_file (sort_key fst (sort_key fst fs)) (h_files h2)"
    using restore_backup_applies [OF later(2) res, of env' m "sort_key fst fs" safety] m later(1) safe by auto
  have "h_files h3 p = (if p \<in> source_path ` set ALLOWED_FILES \<and> h_files h p \<noteq> None then h_files h p else h_files h2 p)" for p
  proof (cases "p \<in> source_path ` set ALLOWED_FILES")
    case True
    then obtain n where n: "n \<in> set ALLOWED_FILES" "p = source_path n" by blast
    have "map_of (sort_key fst fs) n = h_files h p" using n fs(2) map_of_sort_key(1) [OF d] by simp
    then show ?thesis unfolding r(2) n(2)
      using fold_restore_file [of "sort_key fst fs" n "h_files h2"] d names n
      by (auto simp: sort_key_id_if_sorted split: option.splits)
  next
    case False
    then show ?thesis unfolding r(2) using fold_restore_other [of "sort_key fst fs" p "h_files h2"] d names
      by (simp add: sort_key_id_if_sorted)
  qed
  then show ?thesis using r(1) by (intro exI [of _ r'] exI [of _ h3]) auto
qed

section \<open>What an accepted archive is\<close>

fun json_keys :: "json \<Rightarrow> string list" where
  \<comment> \<open>the keys of every object at any depth\<close>
  "json_keys (JObj kvs) = concat (map (\<lambda>(k, v). k # json_keys v) kvs)"
| "json_keys (JList js) = concat (map json_keys js)"
| "json_keys _ = []"

definition keys_allowed :: "json \<Rightarrow> bool" where
  "keys_allowed j = (\<forall>k\<in>set (json_keys j). key_form k \<notin> set FORBIDDEN_CLIENT_PRIVATE_KEYS)"

lemma scan_ok:
  "scan path j = Inr u \<longleftrightarrow> keys_allowed j"
  "scan_pairs path kvs = Inr u \<longleftrightarrow> (\<forall>(k, v)\<in>set kvs. key_form k \<notin> set FORBIDDEN_CLIENT_PRIVATE_KEYS \<and> keys_allowed v)"
  "scan_items path i js = Inr u \<longleftrightarrow> (\<forall>v\<in>set js. keys_allowed v)"
  by (induction path j and path kvs and path i js rule: scan_scan_pairs_scan_items.induct)
    (auto simp: res_simps keys_allowed_def)

definition declares :: "codec \<Rightarrow> json \<Rightarrow> string \<times> string \<Rightarrow> bool" where
  \<comment> \<open>an entry of the manifest describes the file\<close>
  "declares cd j f = (case j of
       JObj item \<Rightarrow> text_or (cd_str cd) (obj_get item ''name'') [] = fst f
         \<and> json_int (obj_get_or item ''size'' (JInt (-1))) = Inr (int (length (snd f)))
         \<and> text_or (cd_str cd) (obj_get item ''sha256'') [] = sha256_bytes (snd f)
     | _ \<Rightarrow> False)"

definition archive_sound :: "codec \<Rightarrow> stored_backup \<Rightarrow> (string \<times> json) list \<Rightarrow> files \<Rightarrow> bool" where
  "archive_sound cd b m fs =
     ((\<exists>ms. sb_members b = Some ms \<and> (\<forall>x\<in>set ms. tm_regular x \<and> tm_name x \<in> set (''manifest.json'' # ALLOWED_FILES)))
      \<and> distinct (map fst fs) \<and> set REQUIRED_FILES \<subseteq> fst ` set fs \<and> fst ` set fs \<subseteq> set ALLOWED_FILES
      \<and> (\<exists>js. obj_get m ''files'' = JList js \<and> (\<forall>f\<in>set fs. length (snd f) \<le> MAX_FILE_BYTES \<and> (\<exists>j\<in>set js. declares cd j f)))
      \<and> (\<exists>j. cd_json cd (file_of fs ''state/devices.json'') = Some j \<and> keys_allowed j))"

lemma read_members_sound:
  "read_members ms acc = Inr fs \<Longrightarrow> distinct (map fst acc) \<Longrightarrow>
     (\<forall>x\<in>set ms. tm_regular x \<and> tm_name x \<in> set (''manifest.json'' # ALLOWED_FILES)) \<and> distinct (map fst fs)
     \<and> (\<forall>f\<in>set fs. f \<in> set acc \<or> length (snd f) \<le> MAX_FILE_BYTES \<and> fst f \<in> set (''manifest.json'' # ALLOWED_FILES))"
proof (induction ms arbitrary: acc)
  case (Cons m ms)
  let ?data = "take (MAX_FILE_BYTES + 1) (the (tm_data m))"
  have *: "tm_regular m" "tm_name m \<notin> set (map fst acc)" "tm_name m \<in> set (''manifest.json'' # ALLOWED_FILES)"
    "length ?data \<le> MAX_FILE_BYTES" "read_members ms (acc @ [(tm_name m, ?data)]) = Inr fs"
    using Cons.prems(1) by (simp_all add: Let_def split: if_splits option.splits)
  moreover have "distinct (map fst (acc @ [(tm_name m, ?data)]))" using * Cons.prems(2) by simp
  ultimately show ?case using Cons.IH [OF *(5)] by auto
qed simp

lemma check_declared_sound:
  "check_declared cd members names js = Inr names' \<Longrightarrow>
     set names \<subseteq> set names' \<and> (\<forall>n\<in>set names'. n \<in> set names \<or> (\<exists>d. map_of members n = Some d \<and> (\<exists>j\<in>set js. declares cd j (n, d))))"
proof (induction js arbitrary: names)
  case (Cons j js)
  from Cons.prems obtain item d where j: "j = JObj item" and "map_of members (text_or (cd_str cd) (obj_get item ''name'') []) = Some d"
    "declares cd j (text_or (cd_str cd) (obj_get item ''name'') [], d)"
    "check_declared cd members (names @ [text_or (cd_str cd) (obj_get item ''name'') []]) js = Inr names'"
    by (auto simp: declares_def Let_def res_simps split: json.splits if_splits option.splits)
  with Cons.IH show ?case by fastforce
qed auto

lemma snapshot_devices_scanned:
  "validate_snapshot cd now fs = Inr su \<Longrightarrow> set REQUIRED_FILES \<subseteq> fst ` set fs \<and> fst ` set fs \<subseteq> set ALLOWED_FILES
     \<and> (\<exists>j. cd_json cd (file_of fs ''state/devices.json'') = Some j \<and> keys_allowed j)"
  by (auto simp: validate_snapshot_def snapshot_registries_def validate_device_registry_def json_bytes_def
      without_empty_iff res_simps scan_ok(1) Let_def split: option.splits)

lemma read_archive_sound:
  assumes "read_archive cd now b = Inr (m, fs)"
  shows "archive_sound cd b m fs" and "is_ok (validate_snapshot cd now fs)"
proof -
  from assms obtain ms all raw j js names su where
    ms: "sb_members b = Some ms" "read_members ms [] = Inr all" and
    j: "m = obj_of j" "obj_get m ''files'' = JList js" and
    fs: "fs = filter (\<lambda>(n, d). n \<noteq> ''manifest.json'') all" and
    names: "check_declared cd fs [] js = Inr names" "set names = fst ` set fs" and
    su: "validate_snapshot cd now fs = Inr su"
    by (auto simp: read_archive_def res_simps Let_def split: if_splits option.splits json.splits)
  show "is_ok (validate_snapshot cd now fs)" by (simp add: su)
  note r = read_members_sound [OF ms(2), simplified]
  have d: "distinct (map fst fs)" using r unfolding fs by (simp add: distinct_map_filter)
  have "\<exists>j\<in>set js. declares cd j f" if "f \<in> set fs" for f
  proof -
    have "fst f \<in> set names" using that names(2) by auto
    then obtain x where "map_of fs (fst f) = Some x" "\<exists>j\<in>set js. declares cd j (fst f, x)"
      using check_declared_sound [OF names(1)] by fastforce
    moreover have "map_of fs (fst f) = Some (snd f)" using d that by simp
    ultimately show ?thesis by (metis option.inject prod.collapse)
  qed
  moreover have "\<forall>f\<in>set fs. length (snd f) \<le> MAX_FILE_BYTES" using r unfolding fs by auto
  ultimately show "archive_sound cd b m fs"
    using ms(1) r d j(2) snapshot_devices_scanned [OF su] by (auto simp: archive_sound_def)
qed

lemma restore_apply_files:
  assumes "restore_apply env keep safety fs plan h = (r, h')"
  shows "h_files h' = h_files h \<or> h_files h' = fold restore_file fs (h_files h)"
proof -
  obtain s h2 where s: "(if safety then create_backup env False (JInt keep) ''pre-restore'' h else (Inr (Skipped [] []), h)) = (s, h2)"
    by fastforce
  have "h_files h2 = h_files h" using s by (auto split: if_splits dest: create_backup_error_files)
  then show ?thesis using assms unfolding restore_apply_def s by (auto split: sum.splits py_error.splits)
qed

lemma restore_backup_cases:
  assumes "restore_backup env i apply_it keep safety h = (r, h')"
  shows "h_files h' = h_files h \<or> apply_it \<and> (\<exists>n b m fs. resolve_backup i h = Inr (n, b)
    \<and> read_archive (be_codec env) (be_now env) b = Inr (m, fs) \<and> h_files h' = fold restore_file (sort_key fst fs) (h_files h))"
  using assms by (auto simp: restore_backup_def guard_in_def Let_def split: sum.splits if_splits dest!: restore_apply_files)

lemma fold_restore_change:
  "fold restore_file fs disk p \<noteq> disk p \<Longrightarrow> \<exists>n d. (n, d) \<in> set fs \<and> p = source_path n \<and> fold restore_file fs disk p = Some d"
proof (induction fs arbitrary: disk)
  case (Cons f fs)
  show ?case
  proof (cases "fold restore_file fs (restore_file f disk) p = restore_file f disk p")
    case True
    then have v: "fold restore_file (f # fs) disk p = restore_file f disk p" by simp
    have "restore_file f disk p \<noteq> disk p" using Cons.prems unfolding v .
    then have "p = source_path (fst f)" by (auto simp: restore_file_def split: if_splits)
    then show ?thesis unfolding v by (intro exI [of _ "fst f"] exI [of _ "snd f"]) (simp add: restore_file_def)
  next
    case False
    then show ?thesis using Cons.IH [of "restore_file f disk"] by auto
  qed
qed simp


lemma prune_backups_bound:
  assumes "distinct (map fst (h_backups h))" and "prune_backups k h = (removed, h')"
  shows "length (filter (\<lambda>(n, b). config_name n) (h_backups h')) \<le> nat k"
    and "set (h_backups h') \<subseteq> set (h_backups h)" and "h_files h' = h_files h"
    and "(n, b) \<in> set (h_backups h) \<Longrightarrow> (n, b) \<notin> set (h_backups h') \<Longrightarrow>
      config_name n \<and> (\<forall>(m, c)\<in>set (h_backups h'). config_name m \<longrightarrow> (sb_mtime b, n) \<le> (sb_mtime c, m))"
proof -
  obtain kept where k: "keep_newest (nat k) sb_mtime config_name (h_backups h) = (removed, kept)" "h' = h\<lparr>h_backups := kept\<rparr>"
    using assms(2) by (auto simp: prune_backups_def split: prod.splits)
  show "length (filter (\<lambda>(n, b). config_name n) (h_backups h')) \<le> nat k"
    using keep_newest_bound [OF assms(1) k(1)] by (simp add: k(2))
  show "set (h_backups h') \<subseteq> set (h_backups h)" using keep_newest_subset [OF k(1)] by (simp add: k(2))
  show "h_files h' = h_files h" by (simp add: k(2))
  show "config_name n \<and> (\<forall>(m, c)\<in>set (h_backups h'). config_name m \<longrightarrow> (sb_mtime b, n) \<le> (sb_mtime c, m))"
    if "(n, b) \<in> set (h_backups h)" "(n, b) \<notin> set (h_backups h')"
  proof -
    have "config_name n" using keep_newest_other [OF k(1) _ that(1)] that(2) k(2) by auto
    moreover have "n \<in> set removed" using that k by (auto simp: keep_newest_def Let_def)
    ultimately show ?thesis using keep_newest_order [OF assms(1) k(1) _ _ that(1)] k(2) by auto
  qed
qed

text \<open>
  Retention. After a successful \<open>create_backup\<close>, scheduled or not, at most as many
  configuration archives are left as the limit allows, the configuration files are untouched,
  and an archive that was removed is a configuration archive no newer (by time, then name) than
  any that is left.
\<close>

theorem backup_retention:
  assumes "create_backup env scheduled (JInt k) reason h = (Inr res, h')" and "distinct (map fst (h_backups h))"
  shows "length (filter (\<lambda>(n, b). config_name n) (h_backups h')) \<le> nat k \<and> 1 \<le> k \<and> k \<le> MAX_RETENTION \<and> h_files h' = h_files h
    \<and> (\<forall>(n, b)\<in>set (h_backups h). (n, b) \<notin> set (h_backups h') \<longrightarrow>
         config_name n \<and> (\<forall>(m, c)\<in>set (h_backups h'). config_name m \<longrightarrow> (sb_mtime b, n) \<le> (sb_mtime c, m)))"
proof -
  have k: "1 \<le> k" "k \<le> MAX_RETENTION" and v: "validate_retention (JInt k) = Inr k"
    using assms(1) by (auto simp: create_backup_def validate_retention_def guard_in_def split: if_splits)
  obtain h1 removed where h1: "prune_backups k h1 = (removed, h')" "distinct (map fst (h_backups h1))"
    "set (h_backups h) \<subseteq> set (h_backups h1)" "h_files h1 = h_files h"
  proof (cases "if scheduled then same_day_scheduled env h else None")
    case None
    obtain n b removed where "n \<notin> set (map fst (h_backups h))" "prune_backups k (h\<lparr>h_backups := h_backups h @ [(n, b)]\<rparr>) = (removed, h')"
      using assms(1) v unfolding create_backup_def None
      by (auto simp: guard_in_Inr Let_def split: if_splits prod.splits)
    then show thesis using that [of "h\<lparr>h_backups := h_backups h @ [(n, b)]\<rparr>" removed] assms(2) by auto
  next
    case (Some n)
    then show thesis using assms v that [of h] by (auto simp: create_backup_def split: prod.splits)
  qed
  have "config_name n \<and> (\<forall>(m, c)\<in>set (h_backups h'). config_name m \<longrightarrow> (sb_mtime b, n) \<le> (sb_mtime c, m))"
    if "(n, b) \<in> set (h_backups h)" "(n, b) \<notin> set (h_backups h')" for n b
    using prune_backups_bound(4) [OF h1(2,1)] that h1(3) by blast
  then have "\<forall>(n, b)\<in>set (h_backups h). (n, b) \<notin> set (h_backups h') \<longrightarrow>
      config_name n \<and> (\<forall>(m, c)\<in>set (h_backups h'). config_name m \<longrightarrow> (sb_mtime b, n) \<le> (sb_mtime c, m))" by fast
  then show ?thesis using prune_backups_bound(1,3) [OF h1(2,1)] h1(4) k by simp
qed

text \<open>
  A safety backup that raises anything but a \<open>BridgeError\<close> ends the restore: a registry whose
  \<open>systemd_unit\<close> is a number is enough.
\<close>

lemma damaged_state_blocks_restore:
  assumes "validate_retention keep = Inr k" "resolve_backup i h = Inr (n, b)"
    and "read_archive (be_codec env) (be_now env) b = Inr (m, fs)"
    and "create_backup env False (JInt k) ''pre-restore'' h = (Inl AttributeError, h2)"
  shows "restore_backup env i True keep True h = (Inl AttributeError, h2)"
  using read_archive_sound(2) [OF assms(3)] assms by (auto simp: restore_backup_def restore_apply_def Let_def is_ok_iff)

lemma number_as_unit_raises:
  "validate_resource_registry cd (JList [JObj [(''systemd_unit'', JInt 5)]]) = Inl AttributeError"
  by (simp add: validate_resource_registry_def object_list_def is_obj_def obj_of_def raw_resource_of_def
      opt_int_def obj_lookup_def obj_get_def)

lemma backup_accepts_shared_vpn_ip:
  "is_ok (validate_device_registry cd (JList
     [JObj [(''device_id'', JStr ''dev_a''), (''name'', JStr ''a''), (''vpn_ip'', JStr ''10.88.0.2'')],
      JObj [(''device_id'', JStr ''dev_b''), (''name'', JStr ''b''), (''vpn_ip'', JStr ''10.88.0.2'')]]))"
  by code_simp

section \<open>A concrete backup\<close>

definition demo_disk :: "string \<Rightarrow> string option" where
  "demo_disk p =
     (if p \<in> {''/etc/ge360-bridge/devices.json'', ''/etc/ge360-bridge/resources.json'', ''/etc/ge360-bridge/services.json'',
        ''/etc/ge360-bridge/groups.json''} then Some ''[]''
      else if p \<in> {''/etc/ge360-bridge/server.key'', ''/etc/ge360-bridge/server.pub'', ''/etc/ge360-bridge/dashboard.token'',
        ''/etc/ge360-bridge/enrollment.key'', ''/etc/ge360-bridge/pairing-tls.key'', ''/etc/ge360-bridge/pairing-tls.crt''} then Some ''k''
      else if p = ''/etc/ge360-bridge/bridge.env'' then Some ''A=1''
      else if p = ''/etc/wireguard/wg0.conf'' then Some ''[Interface] PrivateKey = k Address = a'' else None)"

definition demo_files :: files where
  "demo_files = map (\<lambda>n. (n, the (demo_disk (source_path n)))) REQUIRED_FILES"

definition demo_codec :: "json \<Rightarrow> codec" where
  \<comment> \<open>a codec that knows two texts\<close>
  "demo_codec m = \<lparr>cd_text = Some,
     cd_json = (\<lambda>s. if s = ''[]'' then Some (JList []) else if s = ''M'' @ [CHR 0x0A] then Some (sort_keys m) else None),
     cd_dumps = (\<lambda>_. ''M''), cd_str = (\<lambda>_. [])\<rparr>"

definition demo_backup_env :: "json \<Rightarrow> backup_env" where
  "demo_backup_env m = \<lparr>be_codec = demo_codec m, be_now = ''2026-01-01T00:00:00+00:00'', be_day = ''20260101'', be_time = ''000000'',
     be_mtime = 5, be_version = ''0.23.0'', be_gzip = (\<lambda>_. 100)\<rparr>"

definition demo_manifest :: json where
  "demo_manifest = manifest_of (demo_backup_env JNull) ''manual'' demo_files \<lparr>su_devices = 0, su_resources = 0, su_groups = 0\<rparr>"

definition demo_archive :: stored_backup where
  "demo_archive = \<lparr>sb_size = 100, sb_mtime = 5, sb_members = Some (archive_of (demo_codec demo_manifest) demo_manifest demo_files)\<rparr>"

lemma demo_snapshot:
  "snapshot_sources (demo_codec m) now demo_disk = Inr demo_files"
  "validate_snapshot (demo_codec m) now demo_files = Inr \<lparr>su_devices = 0, su_resources = 0, su_groups = 0\<rparr>"
  by code_simp+

lemma demo_manifest_same: "manifest_of (demo_backup_env m) ''manual'' demo_files \<lparr>su_devices = 0, su_resources = 0, su_groups = 0\<rparr> = demo_manifest"
  by (simp add: demo_manifest_def manifest_of_def demo_backup_env_def)

lemma demo_law: "dumps_law (demo_codec demo_manifest) MAX_FILE_BYTES demo_manifest"
  by (simp add: dumps_law_def dumps_line_def demo_codec_def MAX_FILE_BYTES_def)

definition demo_name :: string where
  "demo_name = ''ge360-config-20260101T000000Z-manual.tar.gz''"

lemma demo_create_any:
  assumes "1 \<le> k" "k \<le> 100" "demo_name \<notin> set (map fst bs)"
  shows "create_backup (demo_backup_env demo_manifest) False (JInt k) [] \<lparr>h_files = demo_disk, h_backups = bs\<rparr>
     = (case prune_backups k \<lparr>h_files = demo_disk, h_backups = bs @ [(demo_name, demo_archive)]\<rparr> of
          (removed, h) \<Rightarrow> (Inr (Created demo_name \<lparr>su_devices = 0, su_resources = 0, su_groups = 0\<rparr> removed), h))"
proof -
  let ?e = "demo_backup_env demo_manifest"
  have c: "be_codec ?e = demo_codec demo_manifest" "be_gzip ?e ms = 100" "be_mtime ?e = 5" for ms by (simp_all add: demo_backup_env_def)
  have n: "backup_name ?e ''manual'' = demo_name" by (simp add: backup_name_def demo_backup_env_def demo_name_def)
  have r: "validate_retention (JInt k) = Inr k" using assms by (simp add: validate_retention_def MAX_RETENTION_def)
  have s: "str_or [] ''manual'' = ''manual''" by code_simp
  show ?thesis using assms(3) unfolding create_backup_def r Let_def
    by (simp add: s c n demo_snapshot demo_manifest_same demo_archive_def MAX_ARCHIVE_BYTES_def)
qed

lemma demo_prune:
  "prune_backups 10 \<lparr>h_files = d, h_backups = [(n, b)]\<rparr> = ([], \<lparr>h_files = d, h_backups = [(n, b)]\<rparr>)"
  by (simp add: prune_backups_def keep_newest_def newest_names_def)

lemmas demo_create = demo_create_any [of 10 "[]", simplified, unfolded demo_prune prod.case]

lemma demo_codec_of_env: "be_codec (demo_backup_env m) = demo_codec m"
  by (simp add: demo_backup_env_def)

lemma demo_retention: "validate_retention (JInt 10) = Inr 10"
  by (simp add: validate_retention_def MAX_RETENTION_def)

lemma demo_lost: "\<exists>t. snapshot_sources (demo_codec m) now Map.empty = Inl (BridgeError t)"
proof -
  have "snapshot_loop Map.empty ns fs ms = Inr (fs, ms @ map source_path ns)" for ns fs ms
    by (induction ns arbitrary: ms) simp_all
  then show ?thesis by (simp add: snapshot_sources_def REQUIRED_FILES_def ensure_def)
qed

theorem backup_restores_files_witness:
  "\<exists>r h3. restore_backup (demo_backup_env demo_manifest) demo_name True (JInt 10) True
      \<lparr>h_files = Map.empty, h_backups = [(demo_name, demo_archive)]\<rparr> = (Inr r, h3)
    \<and> h_files h3 ''/etc/ge360-bridge/bridge.env'' = Some ''A=1''"
proof -
  let ?e = "demo_backup_env demo_manifest" and ?h2 = "\<lparr>h_files = Map.empty, h_backups = [(demo_name, demo_archive)]\<rparr>"
  obtain t where "snapshot_sources (be_codec ?e) (be_now ?e) Map.empty = Inl (BridgeError t)"
    using demo_lost unfolding demo_codec_of_env by blast
  then have safe: "fst (create_backup ?e False (JInt 10) ''pre-restore'' ?h2) = Inl (BridgeError t)"
    by (simp add: create_backup_def demo_retention Let_def)
  have law: "dumps_law (be_codec ?e) MAX_FILE_BYTES (manifest_of ?e (str_or [] (if False then ''daily'' else ''manual'')) demo_files
      \<lparr>su_devices = 0, su_resources = 0, su_groups = 0\<rparr>)"
    using demo_law by (simp add: demo_codec_of_env str_or_def demo_manifest_same)
  have "list_all is_digit (be_day ?e @ be_time ?e)" by (simp add: demo_backup_env_def, code_simp)
  moreover have "snapshot_sources (be_codec ?e) (be_now ?e) demo_disk = Inr demo_files" unfolding demo_codec_of_env by (rule demo_snapshot)
  ultimately have "\<exists>r h3. restore_backup ?e demo_name True (JInt 10) True ?h2 = (Inr r, h3)
    \<and> h_files h3 = (\<lambda>p. if p \<in> source_path ` set ALLOWED_FILES \<and> demo_disk p \<noteq> None then demo_disk p else None)"
    using backup_restores_files [OF demo_create _ _ _ law, of demo_archive ?h2 ?e "JInt 10" 10 True] demo_retention safe
    by (simp cong: if_cong)
  then show ?thesis by (auto simp: demo_disk_def ALLOWED_FILES_def REQUIRED_FILES_def source_path_def)
qed

lemma demo_files_ok: "distinct (map fst demo_files)" "\<forall>(n, d)\<in>set demo_files. n \<in> set ALLOWED_FILES \<and> length d \<le> MAX_FILE_BYTES"
  by code_simp+

lemma demo_read: "\<exists>m. read_archive (demo_codec demo_manifest) now demo_archive = Inr (m, sort_key fst demo_files)"
  using demo_law
  by (intro read_archive_of [where env = "demo_backup_env demo_manifest" and reason = "''manual''"
        and su = "\<lparr>su_devices = 0, su_resources = 0, su_groups = 0\<rparr>", OF demo_files_ok, unfolded demo_manifest_same])
    (auto simp: demo_archive_def MAX_ARCHIVE_BYTES_def demo_snapshot)


theorem backup_retention_witness:
  "\<exists>h' res. create_backup (demo_backup_env demo_manifest) False (JInt 1) []
      \<lparr>h_files = demo_disk, h_backups = [(''ge360-config-20250101T000000Z-manual.tar.gz'', demo_archive\<lparr>sb_mtime := 1\<rparr>)]\<rparr> = (Inr res, h')
    \<and> length (filter (\<lambda>(n, b). config_name n) (h_backups h')) \<le> 1 \<and> h_backups h' = [(demo_name, demo_archive)]"
proof -
  let ?old = "''ge360-config-20250101T000000Z-manual.tar.gz''"
  let ?h = "\<lparr>h_files = demo_disk, h_backups = [(?old, demo_archive\<lparr>sb_mtime := 1\<rparr>)]\<rparr>"
  have n: "config_name ?old" "config_name demo_name" "demo_name \<noteq> ?old" by code_simp+
  have p: "prune_backups 1 \<lparr>h_files = demo_disk, h_backups = [(?old, demo_archive\<lparr>sb_mtime := 1\<rparr>), (demo_name, demo_archive)]\<rparr>
      = ([?old], \<lparr>h_files = demo_disk, h_backups = [(demo_name, demo_archive)]\<rparr>)"
    using n by (simp add: prune_backups_def keep_newest_def newest_names_def demo_archive_def)
  obtain res where c: "create_backup (demo_backup_env demo_manifest) False (JInt 1) [] ?h
      = (Inr res, \<lparr>h_files = demo_disk, h_backups = [(demo_name, demo_archive)]\<rparr>)"
    using demo_create_any [of 1 "h_backups ?h"] n p by simp
  then show ?thesis using backup_retention [OF c] by simp
qed

end
