(* ===== verification/UpdatePackage.thy ===== *)
theory UpdatePackage
  imports Backup
begin

text \<open>
  \<open>ge360_bridge/update_engine.py\<close>, first part: the logical paths a package may carry and where
  they are installed, versions, reading and verifying a package, the preflight, the download and
  the building of a package. A package file is its bytes and, when they are a readable archive,
  its members. \<open>compileall\<close>, \<open>bash -n\<close>, the HTTPS request and the decoders of \<open>Archive\<close> are
  arguments.
\<close>

section \<open>Logical paths and their targets\<close>

definition path_parts :: "string \<Rightarrow> string list" where
  \<comment> \<open>\<open>PurePosixPath(value).parts\<close> of a relative path\<close>
  "path_parts v = filter (\<lambda>p. p \<noteq> [] \<and> p \<noteq> ''.'') (split_on (CHR ''/'') v)"

definition as_posix :: "string list \<Rightarrow> string" where
  "as_posix parts = (if parts = [] then ''.'' else py_join ''/'' parts)"

definition word_char :: "char \<Rightarrow> bool" where
  "word_char c = (is_alnum c \<or> c = CHR ''_'')"

definition module_part :: "string \<Rightarrow> bool" where
  "module_part p = (let b = (if ends_with ''.py'' p then take (length p - 3) p else p) in b \<noteq> [] \<and> list_all word_char b)"

definition unit_middle :: "string \<Rightarrow> bool" where
  "unit_middle m = (case m of [] \<Rightarrow> True
     | c # cs \<Rightarrow> c = CHR ''-'' \<and> cs \<noteq> [] \<and> list_all (\<lambda>c. is_alnum c \<or> c \<in> set ''_.@-'') cs)"

definition unit_file :: "string \<Rightarrow> bool" where
  "unit_file n = (starts_with ''ge360-bridge'' n \<and>
     list_ex (\<lambda>suffix. ends_with suffix n \<and> 12 + length suffix \<le> length n
       \<and> unit_middle (drop 12 (take (length n - length suffix) n))) [''.service'', ''.timer''])"

definition FIXED_SCRIPT_TARGETS :: "(string \<times> string) list" where
  "FIXED_SCRIPT_TARGETS =
     [(''ge360-bridge'', ''/usr/local/sbin/ge360-bridge''),
      (''scripts/apply-firewall.sh'', ''/usr/local/sbin/ge360-bridge-firewall''),
      (''scripts/boot-verify.sh'', ''/usr/local/sbin/ge360-bridge-boot-verify'')]"

definition safe_logical_path :: "string \<Rightarrow> string res" where
  "safe_logical_path v = (let parts = path_parts v; normalized = as_posix parts in
     if v = [] then Inl (BridgeError ''Percorso update non valido.'')
     else if hd v = CHR ''/'' \<or> ''..'' \<in> set parts \<or> CHR 0x5C \<in> set v
     then Inl (BridgeError (''Percorso update non consentito: '' @ v))
     else if starts_with ''ge360_bridge/'' normalized
     then if \<not> ends_with ''.py'' normalized
       then Inl (BridgeError (''Solo moduli Python sono consentiti sotto ge360_bridge/: '' @ v))
       else if \<not> list_all module_part (tl parts) then Inl (BridgeError (''Nome modulo update non valido: '' @ v))
       else Inr normalized
     else if normalized \<in> set (map fst FIXED_SCRIPT_TARGETS) then Inr normalized
     else if starts_with ''systemd/'' normalized
     then if \<not> unit_file (last parts) then Inl (BridgeError (''Unit systemd update non consentita: '' @ v))
       else if length parts \<noteq> 2 then Inl (BridgeError (''Percorso systemd update non valido: '' @ v))
       else Inr normalized
     else Inl (BridgeError (''File update non gestito: '' @ v)))"

definition target_of :: "string \<Rightarrow> string" where
  "target_of l = (if starts_with ''ge360_bridge/'' l then ''/opt/ge360-bridge/'' @ l
     else case map_of FIXED_SCRIPT_TARGETS l of Some t \<Rightarrow> t | None \<Rightarrow> ''/etc/systemd/system/'' @ last (path_parts l))"

definition target_for :: "string \<Rightarrow> string res" where
  "target_for p = rbind (safe_logical_path p) (\<lambda>l. Inr (target_of l))"

definition mode_of :: "string \<Rightarrow> int" where
  "mode_of l = (if l \<in> set (map fst FIXED_SCRIPT_TARGETS) then 493 else 420)"

definition mode_for :: "string \<Rightarrow> int res" where
  \<comment> \<open>0o755 and 0o644\<close>
  "mode_for p = rbind (safe_logical_path p) (\<lambda>l. Inr (mode_of l))"

section \<open>Versions and digests\<close>

definition validate_version :: "(json \<Rightarrow> string) \<Rightarrow> json \<Rightarrow> string res" where
  \<comment> \<open>one to four groups of digits after a first one, then an optional suffix\<close>
  "validate_version show j = (let v = py_strip (text_or show j []);
       head = takeWhile (\<lambda>c. is_digit c \<or> c = CHR ''.'') v; rest = drop (length head) v; groups = split_on (CHR ''.'') head in
     if 2 \<le> length groups \<and> length groups \<le> 4 \<and> list_all (\<lambda>g. g \<noteq> [] \<and> list_all is_digit g) groups
        \<and> (case rest of [] \<Rightarrow> True | c # cs \<Rightarrow> c \<in> set ''-+'' \<and> cs \<noteq> [] \<and> list_all (\<lambda>c. is_alnum c \<or> c \<in> set ''._-'') cs)
     then Inr v else Inl (BridgeError ''Versione update non valida.''))"

definition version_tuple :: "string \<Rightarrow> int list res" where
  "version_tuple v = (let base = hd (split_on (CHR ''+'') (hd (split_on (CHR ''-'') v))) in
     rmap (\<lambda>x. case py_int x of None \<Rightarrow> Inl (BridgeError (''Versione update non valida: '' @ v)) | Some i \<Rightarrow> Inr i)
       (split_on (CHR ''.'') base))"

definition match_version :: "string \<Rightarrow> string option" where
  \<comment> \<open>\<open>INIT_VERSION_RE\<close> at the start of a line\<close>
  "match_version s =
     (if \<not> starts_with ''__version__'' s then None
      else let a = dropWhile py_isspace (drop 11 s) in
        if \<not> starts_with ''='' a then None
        else case dropWhile py_isspace (tl a) of [] \<Rightarrow> None
          | q # b \<Rightarrow> if q \<notin> {CHR 0x22, CHR 0x27} then None
            else let v = takeWhile (\<lambda>c. c \<notin> {CHR 0x22, CHR 0x27}) b; r = drop (length v) b in
              if v = [] \<or> r = [] then None
              else if CHR 0x0A \<in> set (takeWhile py_isspace (tl r)) \<or> dropWhile py_isspace (tl r) = [] then Some v
              else None)"

fun search_version :: "bool \<Rightarrow> string \<Rightarrow> string option" where
  "search_version line_start s = (case (if line_start then match_version s else None) of
       Some v \<Rightarrow> Some v
     | None \<Rightarrow> (case s of [] \<Rightarrow> None | c # cs \<Rightarrow> search_version (c = CHR 0x0A) cs))"

declare search_version.simps [simp del]

definition validate_sha256_hex :: "string \<Rightarrow> string res" where
  "validate_sha256_hex v = (let digest = py_lower (py_strip v) in
     if length digest = 64 \<and> list_all is_hex_lower digest then Inr digest
     else Inl (BridgeError ''SHA-256 update non valido: servono 64 caratteri esadecimali.''))"

section \<open>Reading a package\<close>

definition UPDATE_SCHEMA :: string where "UPDATE_SCHEMA = ''ge360-bridge-update/v1''"
definition MAX_PACKAGE_BYTES :: nat where "MAX_PACKAGE_BYTES = 33554432"
definition MAX_MEMBER_BYTES :: nat where "MAX_MEMBER_BYTES = 4194304"
definition MAX_PACKAGE_FILES :: nat where "MAX_PACKAGE_FILES = 256"
definition MAX_UNPACKED_BYTES :: int where "MAX_UNPACKED_BYTES = 33554432"

definition REQUIRED_RUNTIME_PATHS :: "string list" where
  "REQUIRED_RUNTIME_PATHS = [''ge360_bridge/__init__.py'', ''ge360_bridge/cli.py'', ''ge360_bridge/core.py'',
     ''ge360_bridge/daemon.py'', ''ge360_bridge/dashboard.py'', ''ge360_bridge/pairing_server.py'', ''ge360-bridge'']"

record package =
  pk_regular :: bool
  pk_data :: string
  pk_members :: "tar_member list option" \<comment> \<open>None when the bytes are no readable archive\<close>

definition read_regular_file :: "package \<Rightarrow> string res" where
  "read_regular_file p =
     (if \<not> pk_regular p then Inl (BridgeError ''File update non valido: '')
      else if pk_data p = [] \<or> MAX_PACKAGE_BYTES < length (pk_data p)
      then Inl (BridgeError ''Dimensione pacchetto update non valida.'') else Inr (pk_data p))"

definition member_key :: "string \<Rightarrow> string option res" where
  \<comment> \<open>None for the manifest, the logical path of a payload\<close>
  "member_key n = (if n = ''manifest.json'' then Inr None
     else if starts_with ''payload/'' n then rbind (safe_logical_path (drop 8 n)) (\<lambda>l. Inr (Some l))
     else Inl (BridgeError (''Percorso pacchetto update non consentito: '' @ n)))"

definition member_data :: "nat \<Rightarrow> tar_member \<Rightarrow> string option" where
  \<comment> \<open>what \<open>read(limit + 1)\<close> gives when it is as long as declared and within the limit\<close>
  "member_data limit m = (case tm_data m of None \<Rightarrow> None
     | Some d \<Rightarrow> let data = take (limit + 1) d in
         if int (length data) \<noteq> tm_size m \<or> limit < length data then None else Some data)"

fun read_payload :: "tar_member list \<Rightarrow> int \<Rightarrow> string option \<Rightarrow> files \<Rightarrow> (string option \<times> files) res" where
  "read_payload [] unpacked manifest acc = Inr (manifest, acc)"
| "read_payload (m # ms) unpacked manifest acc = (let n = tm_name m; total = unpacked + max 0 (tm_size m) in
     if MAX_UNPACKED_BYTES < total then Inl (BridgeError ''Pacchetto update supera il limite decompressed.'')
     else if \<not> tm_regular m then Inl (BridgeError (''Pacchetto update contiene membro non regolare: '' @ n))
     else if tm_size m < 0 \<or> int MAX_MEMBER_BYTES < tm_size m then Inl (BridgeError (''File update troppo grande: '' @ n))
     else rbind (member_key n) (\<lambda>key.
       if (case key of None \<Rightarrow> manifest \<noteq> None | Some l \<Rightarrow> l \<in> set (map fst acc))
       then Inl (BridgeError (''Membro update duplicato: '' @ n))
       else if tm_data m = None then Inl (BridgeError (''Impossibile leggere membro update: '' @ n))
       else (case member_data MAX_MEMBER_BYTES m of
           None \<Rightarrow> Inl (BridgeError (''Dimensione membro update non valida: '' @ n))
         | Some data \<Rightarrow> (case key of
             None \<Rightarrow> read_payload ms total (Some data) acc
           | Some l \<Rightarrow> read_payload ms total manifest (acc @ [(l, data)])))))"

fun check_payload :: "codec \<Rightarrow> files \<Rightarrow> string list \<Rightarrow> json list \<Rightarrow> string list res" where
  \<comment> \<open>the logical paths the manifest declares\<close>
  "check_payload cd members seen [] = Inr seen"
| "check_payload cd members seen (j # js) = (case j of
       JObj item \<Rightarrow>
         rbind (safe_logical_path (text_or (cd_str cd) (obj_get item ''path'') [])) (\<lambda>l.
         if l \<in> set seen then Inl (BridgeError (''File update duplicato nel manifest: '' @ l))
         else rbind (mode_for l) (\<lambda>expected.
         rbind (json_int (obj_get_or item ''mode'' (JInt (-1)))) (\<lambda>mode.
         if mode \<noteq> expected then Inl (BridgeError (''Mode update non valido per '' @ l))
         else (case map_of members l of None \<Rightarrow> Inl (BridgeError (''Payload mancante: '' @ l))
           | Some data \<Rightarrow>
             rbind (json_int (obj_get_or item ''size'' (JInt (-1)))) (\<lambda>size.
             if size \<noteq> int (length data) then Inl (BridgeError (''Size mismatch update: '' @ l))
             else rbind (validate_sha256_hex (text_or (cd_str cd) (obj_get item ''sha256'') [])) (\<lambda>digest.
             if digest \<noteq> sha256_bytes data then Inl (BridgeError (''Checksum mismatch update: '' @ l))
             else check_payload cd members (seen @ [l]) js))))))
     | _ \<Rightarrow> Inl (BridgeError ''Manifest update non valido.''))"

definition init_version :: "codec \<Rightarrow> string \<Rightarrow> string option res" where
  "init_version cd data = (case cd_text cd data of
       None \<Rightarrow> Inl (BridgeError ''__init__.py update non UTF-8.'') | Some text \<Rightarrow> Inr (search_version True text))"

definition check_manifest :: "codec \<Rightarrow> (string \<times> json) list \<Rightarrow> files \<Rightarrow> files res" where
  \<comment> \<open>the checks on a manifest of the right schema\<close>
  "check_manifest cd m members =
     rbind (validate_version (cd_str cd) (obj_get m ''version'')) (\<lambda>version.
     (case obj_get m ''files'' of
       JList declared \<Rightarrow> if declared = [] then Inl (BridgeError ''Manifest update senza file.'') else
         rbind (check_payload cd members [] declared) (\<lambda>seen.
         rbind (ensure (set seen = fst ` set members) (BridgeError ''Manifest update e payload non corrispondono.'')) (\<lambda>_.
         rbind (ensure (without REQUIRED_RUNTIME_PATHS seen = []) (BridgeError
           (''Pacchetto update incompleto, file runtime mancanti: '' @ py_join '', '' (without REQUIRED_RUNTIME_PATHS seen)))) (\<lambda>_.
         rbind (init_version cd (file_of members ''ge360_bridge/__init__.py'')) (\<lambda>found.
         rbind (ensure (found = Some version)
           (BridgeError ''Versione manifest e ge360_bridge.__version__ non corrispondono.'')) (\<lambda>_.
         rmap (\<lambda>(l, d). rbind (safe_logical_path l) (\<lambda>l'. Inr (l', d))) members)))))
     | _ \<Rightarrow> Inl (BridgeError ''Manifest update senza file.'')))"

definition read_package :: "codec \<Rightarrow> package \<Rightarrow> ((string \<times> json) list \<times> files) res" where
  "read_package cd p =
     rbind (read_regular_file p) (\<lambda>_. case pk_members p of
         None \<Rightarrow> Inl (BridgeError ''Pacchetto update non valido: '')
       | Some ms \<Rightarrow> if MAX_PACKAGE_FILES + 1 < length ms then Inl (BridgeError ''Pacchetto update contiene troppi file.'') else
         rbind (read_payload ms 0 None []) (\<lambda>(manifest_raw, members). case manifest_raw of
           None \<Rightarrow> Inl (BridgeError ''manifest.json mancante dal pacchetto update.'')
         | Some raw \<Rightarrow> (case cd_json cd raw of
             None \<Rightarrow> Inl (BridgeError ''Manifest update non contiene JSON UTF-8 valido.'')
           | Some j \<Rightarrow> if \<not> is_obj j \<or> obj_get (obj_of j) ''schema'' \<noteq> JStr UPDATE_SCHEMA
               then Inl (BridgeError ''Schema update GE360 non supportato.'')
               else rbind (check_manifest cd (obj_of j) members) (\<lambda>fs. Inr (obj_of j, fs)))))"

record verified_update =
  vu_version :: string
  vu_files :: nat
  vu_size :: nat
  vu_sha256 :: string

definition verify_update :: "codec \<Rightarrow> string \<Rightarrow> bool \<Rightarrow> package \<Rightarrow> verified_update res" where
  \<comment> \<open>the second argument is the installed version\<close>
  "verify_update cd current require_newer p =
     rbind (read_package cd p) (\<lambda>(m, fs).
     rbind (validate_version (cd_str cd) (obj_get m ''version'')) (\<lambda>version.
     rbind (if require_newer
       then rbind (version_tuple version) (\<lambda>new. rbind (version_tuple current) (\<lambda>old.
         ensure (\<not> new \<le> old) (BridgeError (''Update '' @ version @ '' non '' @ [CHR 0xE8] @ '' pi'' @ [CHR 0xF9]
           @ '' recente della versione installata '' @ current @ ''.''))))
       else Inr ()) (\<lambda>_.
     Inr \<lparr>vu_version = version, vu_files = length fs, vu_size = length (pk_data p), vu_sha256 = sha256_bytes (pk_data p)\<rparr>)))"

section \<open>Staging and preflight\<close>

definition stage_clash :: "string list \<Rightarrow> bool" where
  \<comment> \<open>one name is a directory of another\<close>
  "stage_clash names = list_ex (\<lambda>a. list_ex (\<lambda>b. starts_with (a @ ''/'') b) names) names"

definition stage_package :: "codec \<Rightarrow> package \<Rightarrow> ((string \<times> json) list \<times> files) res" where
  \<comment> \<open>the staged files in the order of their names\<close>
  "stage_package cd p = rbind (read_package cd p) (\<lambda>(m, fs).
     if stage_clash (map fst fs) then Inl (OSError ''stage'') else Inr (m, sort_key fst fs))"

record preflight_tools =
  pt_compile :: "files \<Rightarrow> bool"
  pt_bash :: "string \<Rightarrow> string \<Rightarrow> (int \<times> string) res" \<comment> \<open>return code and error text of \<open>bash -n\<close>\<close>

definition check_shell :: "preflight_tools \<Rightarrow> string \<times> string \<Rightarrow> unit res" where
  "check_shell tools f = rbind (pt_bash tools (fst f) (snd f)) (\<lambda>(rc, err).
     ensure (rc = 0) (BridgeError (''Preflight update fallito: bash -n '' @ fst f @ '': '' @ take 200 (py_strip err))))"

definition check_unit :: "codec \<Rightarrow> string \<times> string \<Rightarrow> unit res" where
  "check_unit cd f = (case cd_text cd (snd f) of
       None \<Rightarrow> Inl (ValueError [])
     | Some text \<Rightarrow> ensure (contains_str ''[Unit]'' text \<and> (contains_str ''[Service]'' text \<or> contains_str ''[Timer]'' text))
         (BridgeError (''Unit systemd update non valida: '' @ fst f)))"

definition preflight_update ::
  "codec \<Rightarrow> preflight_tools \<Rightarrow> string \<Rightarrow> bool \<Rightarrow> package \<Rightarrow> (verified_update \<times> string list) res" where
  "preflight_update cd tools current require_newer p =
     rbind (verify_update cd current require_newer p) (\<lambda>v.
     rbind (stage_package cd p) (\<lambda>(m, fs).
     rbind (ensure (pt_compile tools (filter (\<lambda>f. starts_with ''ge360_bridge/'' (fst f)) fs))
       (BridgeError ''Preflight update fallito: compileall Python.'')) (\<lambda>_.
     rbind (rmap (check_shell tools) (filter (\<lambda>f. fst f = ''ge360-bridge'' \<or> starts_with ''scripts/'' (fst f)) fs)) (\<lambda>_.
     rbind (rmap (check_unit cd) (filter (\<lambda>f. starts_with ''systemd/'' (fst f)) fs)) (\<lambda>_.
     Inr (v, map fst fs))))))"

section \<open>Download\<close>

record fetched =
  ft_url :: string \<comment> \<open>after redirects\<close>
  ft_length :: "string option"
  ft_body :: string

datatype fetch_result = Fetched fetched | FetchFailed string | FetchRaised py_error

record downloaded =
  dl_name :: string
  dl_sha256 :: string
  dl_data :: string

definition download_update :: "(string \<Rightarrow> fetch_result) \<Rightarrow> string \<Rightarrow> string \<Rightarrow> downloaded res" where
  \<comment> \<open>\<open>FetchFailed\<close> names the class of an error the request may raise, \<open>FetchRaised\<close> is any other\<close>
  "download_update fetch url expected_sha256 =
     rbind (validate_sha256_hex expected_sha256) (\<lambda>expected.
     rbind (urlsplit (py_strip url)) (\<lambda>parsed.
     if py_lower (u_scheme parsed) \<noteq> ''https'' \<or> u_hostname parsed = []
     then Inl (BridgeError ''Download update consentito soltanto tramite URL HTTPS.'')
     else if u_username parsed \<noteq> [] \<or> u_password parsed \<noteq> [] \<or> u_fragment parsed \<noteq> []
     then Inl (BridgeError ''URL update non valido.'')
     else (case fetch url of
         FetchFailed c \<Rightarrow> Inl (BridgeError (''Download update fallito: '' @ c))
       | FetchRaised e \<Rightarrow> Inl e
       | Fetched r \<Rightarrow> (case urlsplit (ft_url r) of
           Inl _ \<Rightarrow> Inl (BridgeError (''Download update fallito: ValueError''))
         | Inr final \<Rightarrow>
           if py_lower (u_scheme final) \<noteq> ''https''
           then Inl (BridgeError ''Redirect update verso protocollo non HTTPS rifiutato.'')
           else
             let declared = (case ft_length r of None \<Rightarrow> Some 0 | Some t \<Rightarrow> if t = [] then Some 0 else py_int t);
                 data = take (MAX_PACKAGE_BYTES + 1) (ft_body r) in
             case declared of
               None \<Rightarrow> Inl (BridgeError (''Download update fallito: ValueError''))
             | Some n \<Rightarrow>
               if int MAX_PACKAGE_BYTES < n then Inl (BridgeError ''Pacchetto update troppo grande.'')
               else if data = [] \<or> MAX_PACKAGE_BYTES < length data
               then Inl (BridgeError ''Pacchetto update vuoto o troppo grande.'')
               else let actual = sha256_bytes data in
                 if actual \<noteq> expected
                 then Inl (BridgeError (''SHA-256 update non corrisponde: atteso '' @ expected @ '', ottenuto '' @ actual @ ''.''))
                 else Inr \<lparr>dl_name = ''download-'' @ take 16 actual @ ''.tar.gz'', dl_sha256 = actual, dl_data = data\<rparr>))))"

section \<open>Building a package\<close>

definition source_files :: "files \<Rightarrow> string list res" where
  \<comment> \<open>of a source tree given by its regular files\<close>
  "source_files src = (let names = map fst src in
     if \<not> list_ex (starts_with ''ge360_bridge/'') names then Inl (BridgeError ''Sorgente update senza ge360_bridge/.'')
     else
       rbind (rmap safe_logical_path (filter (\<lambda>n. starts_with ''ge360_bridge/'' n \<and> ends_with ''.py'' n) names)) (\<lambda>modules.
       rbind (rmap safe_logical_path (filter (\<lambda>n. n \<in> set names) (map fst FIXED_SCRIPT_TARGETS))) (\<lambda>fixed.
       rbind (rmap safe_logical_path (filter (\<lambda>n. starts_with ''systemd/'' n \<and> CHR ''/'' \<notin> set (drop 8 n)
           \<and> starts_with ''ge360-bridge'' (drop 8 n) \<and> (ends_with ''.service'' n \<or> ends_with ''.timer'' n)) names)) (\<lambda>units.
       Inr (sorted_set (modules @ fixed @ units))))))"

record built_package =
  bp_members :: "tar_member list"
  bp_version :: string
  bp_files :: nat

fun payload_entry :: "string \<times> string \<Rightarrow> json" where
  "payload_entry (l, d) = JObj [(''path'', JStr l), (''size'', JInt (int (length d))),
     (''sha256'', JStr (sha256_bytes d)), (''mode'', JInt (mode_of l))]"

definition package_manifest :: "string \<Rightarrow> string \<Rightarrow> files \<Rightarrow> json" where
  "package_manifest now version fs = JObj [(''schema'', JStr UPDATE_SCHEMA), (''version'', JStr version),
     (''created_at'', JStr now), (''files'', JList (map payload_entry fs))]"

definition build_update_package :: "codec \<Rightarrow> string \<Rightarrow> files \<Rightarrow> built_package res" where
  \<comment> \<open>the version constant is decoded as text; a file that is not text raises\<close>
  "build_update_package cd now src =
     rbind (source_files src) (\<lambda>names.
     rbind (ensure (without REQUIRED_RUNTIME_PATHS names = [])
       (BridgeError (''Sorgente update incompleta: '' @ py_join '', '' (without REQUIRED_RUNTIME_PATHS names)))) (\<lambda>_.
     (case cd_text cd (file_of src ''ge360_bridge/__init__.py'') of
       None \<Rightarrow> Inl (ValueError [])
     | Some init \<Rightarrow> (case search_version True init of
         None \<Rightarrow> Inl (BridgeError ''Impossibile leggere __version__ dal sorgente.'')
       | Some found \<Rightarrow>
         rbind (validate_version (cd_str cd) (JStr found)) (\<lambda>version.
         rbind (rmap (\<lambda>l. let d = file_of src l in
             if MAX_MEMBER_BYTES < length d then Inl (BridgeError (''File sorgente troppo grande: '' @ l)) else Inr (l, d)) names) (\<lambda>fs.
         Inr \<lparr>bp_members = plain_member ''manifest.json'' (dumps_line cd (package_manifest now version fs))
                # map (\<lambda>(l, d). plain_member (''payload/'' @ l) d) fs,
              bp_version = version, bp_files = length names\<rparr>))))))"

section \<open>Paths\<close>

lemma split_on_join: "ws \<noteq> [] \<Longrightarrow> \<forall>w\<in>set ws. d \<notin> set w \<Longrightarrow> split_on d (py_join [d] ws) = ws"
proof (induction ws)
  case (Cons w ws)
  then show ?case by (cases ws) (simp_all add: split_on_append split_on_single)
qed simp

lemma path_parts_posix:
  assumes "parts = path_parts v" "parts \<noteq> []"
  shows "path_parts (as_posix parts) = parts"
proof -
  have "\<forall>w\<in>set parts. CHR ''/'' \<notin> set w \<and> w \<noteq> [] \<and> w \<noteq> ''.''"
    using assms(1) by (auto simp: path_parts_def dest: split_on_no_sep)
  then show ?thesis using assms(2) split_on_join [of parts "CHR ''/''"]
    by (simp add: path_parts_def as_posix_def filter_id_conv)
qed

lemma set_py_join: "set (py_join sep ws) \<subseteq> set sep \<union> \<Union> (set ` set ws)"
  by (induction ws rule: py_join.induct [of _ sep]) auto

lemma set_split_on: "w \<in> set (split_on d s) \<Longrightarrow> set w \<subseteq> set s"
  by (induction s arbitrary: w) (fastforce split: if_splits list.splits)+

lemma safe_logical_path_Inr:
  assumes "safe_logical_path v = Inr l"
  shows "l = as_posix (path_parts v)" "path_parts v \<noteq> []" "path_parts l = path_parts v" "hd l \<noteq> CHR ''/''" "l \<noteq> []" "CHR 0x5C \<notin> set l"
    "''..'' \<notin> set (path_parts v)"
proof -
  let ?parts = "path_parts v"
  have l: "l = as_posix ?parts" and n: "?parts \<noteq> []"
    and dots: "''..'' \<notin> set ?parts" and bs: "CHR 0x5C \<notin> set v"
    using assms by (auto simp: safe_logical_path_def Let_def as_posix_def starts_with_def FIXED_SCRIPT_TARGETS_def split: if_splits)
  show "l = as_posix ?parts" "?parts \<noteq> []" "''..'' \<notin> set ?parts" by fact+
  show "path_parts l = ?parts" unfolding l by (rule path_parts_posix [OF refl n])
  have parts: "\<forall>w\<in>set ?parts. CHR ''/'' \<notin> set w \<and> w \<noteq> [] \<and> set w \<subseteq> set v"
    by (auto simp: path_parts_def dest: split_on_no_sep set_split_on)
  obtain w ws where ws: "?parts = w # ws" using n by (cases ?parts) auto
  obtain r where r: "l = w @ r" unfolding l as_posix_def ws by (cases ws) auto
  have "w \<noteq> []" "CHR ''/'' \<notin> set w" using parts ws by auto
  then obtain c cs where "w = c # cs" "c \<noteq> CHR ''/''" by (cases w) auto
  then show "l \<noteq> []" "hd l \<noteq> CHR ''/''" by (simp_all add: r)
  have "set l \<subseteq> insert (CHR ''/'') (set v)"
    using set_py_join [of "''/''" ?parts] parts unfolding l as_posix_def using n by auto
  then show "CHR 0x5C \<notin> set l" using bs by auto
qed

lemma safe_logical_path_idem:
  assumes "safe_logical_path v = Inr l"
  shows "safe_logical_path l = Inr l"
proof -
  note s = safe_logical_path_Inr [OF assms]
  have v: "v \<noteq> []" "hd v \<noteq> CHR ''/''" "CHR 0x5C \<notin> set v" using assms by (auto simp: safe_logical_path_def Let_def split: if_splits)
  have "safe_logical_path l = safe_logical_path v" if "\<And>A B. (if l = [] then A else B) = B"
    using assms s(4-7) v unfolding safe_logical_path_def Let_def s(3) s(1) [symmetric]
    by (simp split: if_splits)
  then show ?thesis using assms s(5) by simp
qed

interpretation logical_path: validator safe_logical_path
  by unfold_locales (rule safe_logical_path_idem)

lemma starts_with_iff: "starts_with p s \<longleftrightarrow> (\<exists>r. s = p @ r)"
  using starts_with_split by auto

lemma valid_path_cases:
  assumes "safe_logical_path v = Inr l"
  obtains (module) "starts_with ''ge360_bridge/'' l" "ends_with ''.py'' l" "list_all module_part (tl (path_parts l))"
  | (script) t where "map_of FIXED_SCRIPT_TARGETS l = Some t" "\<not> starts_with ''ge360_bridge/'' l"
  | (unit) n where "l = ''systemd/'' @ n" "unit_file n" "CHR ''/'' \<notin> set n" "path_parts l = [''systemd'', n]" "map_of FIXED_SCRIPT_TARGETS l = None"
proof -
  note s = safe_logical_path_Inr [OF assms]
  have parts: "\<forall>w\<in>set (path_parts v). CHR ''/'' \<notin> set w" by (auto simp: path_parts_def dest: split_on_no_sep)
  consider "starts_with ''ge360_bridge/'' l" "ends_with ''.py'' l" "list_all module_part (tl (path_parts v))"
    | "l \<in> set (map fst FIXED_SCRIPT_TARGETS)" "\<not> starts_with ''ge360_bridge/'' l"
    | "starts_with ''systemd/'' l" "unit_file (last (path_parts v))" "length (path_parts v) = 2"
      "l \<notin> set (map fst FIXED_SCRIPT_TARGETS)"
    using assms unfolding safe_logical_path_def Let_def s(1) [symmetric] by (simp split: if_splits)
  then show thesis
  proof cases
    case 1
    then show thesis using module s(3) by simp
  next
    case 2
    then show thesis using script by (auto simp: FIXED_SCRIPT_TARGETS_def)
  next
    case 3
    then obtain a n where ps: "path_parts v = [a, n]" by (auto simp: length_Suc_conv numeral_2_eq_2)
    then have l: "l = a @ CHR ''/'' # n" using s(1) by (simp add: as_posix_def)
    have na: "CHR ''/'' \<notin> set a" "CHR ''/'' \<notin> set n" using parts ps by auto
    obtain r where "l = ''systemd'' @ CHR ''/'' # r" using 3(1) by (auto simp: starts_with_iff)
    then have "split_on (CHR ''/'') l = ''systemd'' # split_on (CHR ''/'') r"
      by (simp only:) (rule split_on_append, simp)
    moreover have "split_on (CHR ''/'') l = [a, n]" unfolding l using na by (simp add: split_on_append split_on_single)
    ultimately have "a = ''systemd''" by simp
    then show thesis using unit [of n] l ps 3 s(3) na by (simp add: map_of_eq_None_iff)
  qed
qed

definition managed_path :: "string \<Rightarrow> bool" where
  \<comment> \<open>where an update may write\<close>
  "managed_path t =
     ((\<exists>r. t = ''/opt/ge360-bridge/ge360_bridge/'' @ r \<and> ends_with ''.py'' t \<and> ''..'' \<notin> set (split_on (CHR ''/'') r))
      \<or> t \<in> {''/usr/local/sbin/ge360-bridge'', ''/usr/local/sbin/ge360-bridge-firewall'', ''/usr/local/sbin/ge360-bridge-boot-verify''}
      \<or> (\<exists>n. t = ''/etc/systemd/system/'' @ n \<and> unit_file n \<and> CHR ''/'' \<notin> set n))"

lemma ends_with_append: "ends_with p s \<Longrightarrow> ends_with p (x @ s)"
  using ends_with_split [of p s] by (auto simp: ends_with_def starts_with_iff)

lemma target_managed:
  assumes "safe_logical_path v = Inr l" shows "managed_path (target_of l)"
  using assms
proof (cases rule: valid_path_cases)
  case module
  then obtain r where r: "l = ''ge360_bridge'' @ CHR ''/'' # r" by (auto simp: starts_with_iff)
  have "split_on (CHR ''/'') l = ''ge360_bridge'' # split_on (CHR ''/'') r"
    unfolding r by (rule split_on_append) simp
  moreover have "''..'' \<notin> set (path_parts l)" using safe_logical_path_Inr(3,7) [OF assms] by simp
  ultimately have "''..'' \<notin> set (split_on (CHR ''/'') r)" by (simp add: path_parts_def)
  moreover have "target_of l = ''/opt/ge360-bridge/ge360_bridge/'' @ r" using module(1) by (simp add: target_of_def r)
  moreover have "ends_with ''.py'' (target_of l)" using module ends_with_append [of "''.py''" l "''/opt/ge360-bridge/''"] by (simp add: target_of_def)
  ultimately show ?thesis unfolding managed_path_def by blast
next
  case (script t)
  then show ?thesis by (auto simp: managed_path_def target_of_def FIXED_SCRIPT_TARGETS_def split: if_splits)
next
  case (unit n)
  then show ?thesis by (auto simp: managed_path_def target_of_def starts_with_def)
qed

definition logical_of :: "string \<Rightarrow> string" where
  \<comment> \<open>the logical path of a target\<close>
  "logical_of t = (if starts_with ''/opt/ge360-bridge/'' t then drop 18 t
     else case map_of (map prod.swap FIXED_SCRIPT_TARGETS) t of Some l \<Rightarrow> l | None \<Rightarrow> ''systemd/'' @ drop 20 t)"

lemma logical_of_target: "safe_logical_path v = Inr l \<Longrightarrow> logical_of (target_of l) = l"
proof (erule valid_path_cases)
  fix t assume "map_of FIXED_SCRIPT_TARGETS l = Some t" "\<not> starts_with ''ge360_bridge/'' l"
  then show ?thesis by (auto simp: target_of_def logical_of_def FIXED_SCRIPT_TARGETS_def starts_with_def split: if_splits)
qed (simp_all add: target_of_def logical_of_def starts_with_def FIXED_SCRIPT_TARGETS_def)

lemma target_of_inject:
  "safe_logical_path v = Inr l \<Longrightarrow> safe_logical_path w = Inr k \<Longrightarrow> target_of l = target_of k \<Longrightarrow> l = k"
  by (metis logical_of_target)

text \<open>
  C32. An update writes only where software lives. The target of any logical path the program
  accepts is a module below the package directory, one of the three scripts, or a unit of the
  bridge directly in the systemd directory; no such target is a file of the configuration;
  targets of different logical paths are different; and checking the path of a checked path
  gives it back.
\<close>

theorem targets_confined:
  assumes "target_for p = Inr t"
  shows "managed_path t \<and> t \<notin> source_path ` set ALLOWED_FILES
    \<and> (\<forall>q. target_for q = Inr t \<longrightarrow> safe_logical_path q = safe_logical_path p)
    \<and> (\<exists>l. safe_logical_path p = Inr l \<and> target_for l = Inr t \<and> mode_for l = mode_for p)"
proof -
  obtain l where l: "safe_logical_path p = Inr l" "t = target_of l" using assms by (auto simp: target_for_def res_simps)
  have m: "managed_path t" using target_managed [OF l(1)] l(2) by simp
  have "t \<notin> source_path ` set ALLOWED_FILES"
    using m by (auto simp: managed_path_def ALLOWED_FILES_def REQUIRED_FILES_def OPTIONAL_FILES_def source_path_def)
  moreover have "safe_logical_path q = safe_logical_path p" if "target_for q = Inr t" for q
    using that l target_of_inject by (auto simp: target_for_def res_simps)
  moreover have "target_for l = Inr t" "mode_for l = mode_for p"
    using safe_logical_path_idem [OF l(1)] l by (simp_all add: target_for_def mode_for_def)
  ultimately show ?thesis using m l(1) by blast
qed

theorem targets_confined_witness:
  "managed_path ''/usr/local/sbin/ge360-bridge-firewall'' \<and> target_for ''scripts//./apply-firewall.sh'' = Inr ''/usr/local/sbin/ge360-bridge-firewall''"
proof -
  have t: "target_for ''scripts//./apply-firewall.sh'' = Inr ''/usr/local/sbin/ge360-bridge-firewall''" by code_simp
  from targets_confined [OF t] t show ?thesis by simp
qed

section \<open>What an accepted package is\<close>

definition declares_payload :: "codec \<Rightarrow> json \<Rightarrow> string \<times> string \<Rightarrow> bool" where
  "declares_payload cd j f = (case j of
       JObj item \<Rightarrow> safe_logical_path (text_or (cd_str cd) (obj_get item ''path'') []) = Inr (fst f)
         \<and> json_int (obj_get_or item ''mode'' (JInt (-1))) = Inr (mode_of (fst f))
         \<and> json_int (obj_get_or item ''size'' (JInt (-1))) = Inr (int (length (snd f)))
         \<and> validate_sha256_hex (text_or (cd_str cd) (obj_get item ''sha256'') []) = Inr (sha256_bytes (snd f))
     | _ \<Rightarrow> False)"

definition content_size :: "files \<Rightarrow> nat" where
  "content_size fs = sum_list (map (length \<circ> snd) fs)"

definition package_sound :: "codec \<Rightarrow> package \<Rightarrow> (string \<times> json) list \<Rightarrow> files \<Rightarrow> bool" where
  "package_sound cd p m fs =
     (pk_regular p \<and> pk_data p \<noteq> [] \<and> length (pk_data p) \<le> MAX_PACKAGE_BYTES
      \<and> distinct (map fst fs) \<and> length fs \<le> MAX_PACKAGE_FILES \<and> int (content_size fs) \<le> MAX_UNPACKED_BYTES
      \<and> (\<exists>js. obj_get m ''files'' = JList js \<and> (\<forall>f\<in>set fs. safe_logical_path (fst f) = Inr (fst f)
           \<and> length (snd f) \<le> MAX_MEMBER_BYTES \<and> (\<exists>j\<in>set js. declares_payload cd j f)))
      \<and> set REQUIRED_RUNTIME_PATHS \<subseteq> fst ` set fs
      \<and> (\<exists>v. validate_version (cd_str cd) (obj_get m ''version'') = Inr v
           \<and> init_version cd (file_of fs ''ge360_bridge/__init__.py'') = Inr (Some v)))"

lemma member_data_Some: "member_data limit m = Some d \<Longrightarrow> int (length d) = tm_size m \<and> length d \<le> limit"
  by (auto simp: member_data_def Let_def split: option.splits if_splits)

lemma member_key_Some: "member_key n = Inr (Some l) \<Longrightarrow> safe_logical_path l = Inr l"
  by (auto simp: member_key_def res_simps dest: safe_logical_path_idem split: if_splits)

lemma read_payload_sound:
  assumes "read_payload ms unpacked manifest acc = Inr (manifest', fs)"
    and "distinct (map fst acc)" "int (content_size acc) \<le> unpacked" "unpacked \<le> MAX_UNPACKED_BYTES"
  shows "distinct (map fst fs) \<and> int (content_size fs) \<le> MAX_UNPACKED_BYTES
    \<and> length fs + (if manifest' = None then 0 else 1) \<le> length acc + (if manifest = None then 0 else 1) + length ms
    \<and> (\<forall>f\<in>set fs. f \<in> set acc \<or> safe_logical_path (fst f) = Inr (fst f) \<and> length (snd f) \<le> MAX_MEMBER_BYTES)"
  using assms
proof (induction ms arbitrary: unpacked manifest acc)
  case (Cons m ms)
  let ?total = "unpacked + max 0 (tm_size m)"
  obtain key data where k: "?total \<le> MAX_UNPACKED_BYTES" "0 \<le> tm_size m" "member_key (tm_name m) = Inr key"
    "member_data MAX_MEMBER_BYTES m = Some data"
    "case key of None \<Rightarrow> manifest = None \<and> read_payload ms ?total (Some data) acc = Inr (manifest', fs)
      | Some l \<Rightarrow> l \<notin> set (map fst acc) \<and> read_payload ms ?total manifest (acc @ [(l, data)]) = Inr (manifest', fs)"
    using Cons.prems(1) by (auto simp: Let_def res_simps split: if_splits option.splits)
  note d = member_data_Some [OF k(4)]
  show ?case
  proof (cases key)
    case None
    then show ?thesis using Cons.IH [of ?total "Some data" acc] k Cons.prems(2,3) by auto
  next
    case (Some l)
    have "int (content_size (acc @ [(l, data)])) \<le> ?total" using Cons.prems(3) d k(2) by (simp add: content_size_def)
    then show ?thesis using Some Cons.IH [of ?total manifest "acc @ [(l, data)]"] k Cons.prems(2) d member_key_Some [of "tm_name m" l]
      by fastforce
  qed
qed simp

lemma check_payload_sound:
  "check_payload cd members seen js = Inr seen' \<Longrightarrow>
     \<forall>l\<in>set seen'. l \<in> set seen \<or> (\<exists>d. map_of members l = Some d \<and> (\<exists>j\<in>set js. declares_payload cd j (l, d)))"
proof (induction js arbitrary: seen)
  case (Cons j js)
  from Cons.prems obtain item l d mode where j: "j = JObj item" and l: "safe_logical_path (text_or (cd_str cd) (obj_get item ''path'') []) = Inr l"
    "mode_for l = Inr mode" and d: "map_of members l = Some d" "json_int (obj_get_or item ''mode'' (JInt (-1))) = Inr mode"
      "json_int (obj_get_or item ''size'' (JInt (-1))) = Inr (int (length d))"
      "validate_sha256_hex (text_or (cd_str cd) (obj_get item ''sha256'') []) = Inr (sha256_bytes d)"
    and r: "check_payload cd members (seen @ [l]) js = Inr seen'"
    by (auto simp: Let_def res_simps split: json.splits if_splits option.splits)
  have "declares_payload cd j (l, d)" using d l safe_logical_path_idem [OF l(1)] by (simp add: declares_payload_def j mode_for_def)
  then have d: "map_of members l = Some d" "declares_payload cd j (l, d)" using d(1) by simp_all
  show ?case using Cons.IH [OF r] d by fastforce
qed auto

lemma rmap_safe_paths:
  "\<forall>f\<in>set fs. safe_logical_path (fst f) = Inr (fst f) \<Longrightarrow> rmap (\<lambda>(l, d). rbind (safe_logical_path l) (\<lambda>l'. Inr (l', d))) fs = Inr fs"
  by (rule rmap_fixpoint) auto

lemma read_package_sound:
  assumes "read_package cd p = Inr (m, fs)"
  shows "package_sound cd p m fs"
proof -
  obtain ms where p: "pk_members p = Some ms" "length ms \<le> MAX_PACKAGE_FILES + 1" "is_ok (read_regular_file p)"
    using assms by (auto simp: read_package_def res_simps split: option.splits if_splits)
  then obtain mr members where rp: "read_payload ms 0 None [] = Inr (mr, members)"
    using assms by (auto simp: read_package_def res_simps)
  then obtain raw j where mr: "mr = Some raw" "cd_json cd raw = Some j" "obj_of j = m" and c: "check_manifest cd m members = Inr fs"
    using assms p by (auto simp: read_package_def is_ok_iff res_simps split: option.splits if_splits)
  have s: "distinct (map fst members)" "int (content_size members) \<le> MAX_UNPACKED_BYTES" "length members \<le> MAX_PACKAGE_FILES"
    "\<forall>f\<in>set members. safe_logical_path (fst f) = Inr (fst f) \<and> length (snd f) \<le> MAX_MEMBER_BYTES"
    using read_payload_sound [OF rp] p(2) mr(1) by (simp_all add: content_size_def MAX_UNPACKED_BYTES_def)
  obtain v js seen where v: "validate_version (cd_str cd) (obj_get m ''version'') = Inr v" "obj_get m ''files'' = JList js"
    and cp: "check_payload cd members [] js = Inr seen" "set seen = fst ` set members" "without REQUIRED_RUNTIME_PATHS seen = []"
    and i: "init_version cd (file_of members ''ge360_bridge/__init__.py'') = Inr (Some v)"
    and fs: "rmap (\<lambda>(l, d). rbind (safe_logical_path l) (\<lambda>l'. Inr (l', d))) members = Inr fs"
    using c by (cases "obj_get m ''files''") (auto simp: check_manifest_def res_simps split: if_splits)
  have [simp]: "fs = members" using fs rmap_safe_paths [of members] s(4) by auto
  have "\<exists>j\<in>set js. declares_payload cd j f" if "f \<in> set members" for f
  proof -
    have "map_of members (fst f) = Some (snd f)" using s(1) that by simp
    moreover have "fst f \<in> set seen" using cp(2) that by auto
    ultimately show ?thesis using check_payload_sound [OF cp(1)] by fastforce
  qed
  moreover have "pk_regular p \<and> pk_data p \<noteq> [] \<and> length (pk_data p) \<le> MAX_PACKAGE_BYTES"
    using p(3) by (auto simp: read_regular_file_def split: if_splits)
  ultimately show ?thesis using s v i cp(2,3) by (auto simp: package_sound_def without_empty_iff)
qed


section \<open>Building and reading\<close>

lemma plain_member_simps [simp]:
  "tm_name (plain_member n d) = n" "tm_regular (plain_member n d)" "tm_size (plain_member n d) = int (length d)"
  "tm_data (plain_member n d) = Some d"
  by (simp_all add: plain_member_def)

lemma case_option_Inr [res_simps]:
  "(case x of None \<Rightarrow> Inl e | Some y \<Rightarrow> f y) = Inr z \<longleftrightarrow> (\<exists>y. x = Some y \<and> f y = Inr z)"
  by (cases x) auto

lemma validate_version_idem:
  assumes "validate_version show j = Inr v" shows "validate_version show (JStr v) = Inr v"
proof -
  have "v = py_strip (text_or show j [])" using assms by (simp add: validate_version_def Let_def split: if_splits)
  moreover from this have "text_or show (JStr v) [] = v" by simp
  ultimately show ?thesis using assms by (simp add: validate_version_def)
qed

lemma digest_validates: "validate_sha256_hex (sha256_bytes d) = Inr (sha256_bytes d)"
proof -
  have d: "length (sha256_bytes d) = 64" "list_all is_hex_lower (sha256_bytes d)"
    using is_digest_sha256_bytes [of d] by (simp_all add: is_digest_def)
  have "\<not> py_isspace c \<and> lower_char c = c" if "c \<in> set (sha256_bytes d)" for c
    using d(2) that by (force simp: list_all_iff is_hex_lower_def is_digit_def py_isspace_def lower_char_def Let_def)
  then have "py_strip (sha256_bytes d) = sha256_bytes d" "py_lower (sha256_bytes d) = sha256_bytes d"
    by (auto simp: py_strip_def strip_by_fix_iff py_lower_def map_idI)
  then show ?thesis using d by (simp add: validate_sha256_hex_def)
qed

lemma payload_entry_get:
  obtains item where "sort_keys (payload_entry (l, d)) = JObj item" "obj_get item ''path'' = JStr l"
    "\<And>v. obj_get_or item ''size'' v = JInt (int (length d))" "obj_get item ''sha256'' = JStr (sha256_bytes d)"
    "\<And>v. obj_get_or item ''mode'' v = JInt (mode_of l)"
proof -
  let ?kvs = "[(''path'', JStr l), (''size'', JInt (int (length d))), (''sha256'', JStr (sha256_bytes d)), (''mode'', JInt (mode_of l))]"
  obtain item where item: "sort_keys (JObj ?kvs) = JObj item" by simp
  have get: "obj_get item k = (case map_of ?kvs k of None \<Rightarrow> JNull | Some v \<Rightarrow> sort_keys v)" for k
    using obj_get_sorted [of ?kvs k] unfolding item by (simp add: obj_of_def)
  show thesis
    by (rule that [of item]) (simp_all only: payload_entry.simps item, simp_all add: get obj_get_or_present)
qed

lemma check_payload_entries:
  assumes "distinct (seen @ map fst fs)"
    and "\<forall>(l, d)\<in>set fs. safe_logical_path l = Inr l \<and> map_of members l = Some d"
  shows "check_payload cd members seen (map (sort_keys \<circ> payload_entry) fs) = Inr (seen @ map fst fs)"
  using assms
proof (induction fs arbitrary: seen)
  case (Cons f fs)
  obtain l d where f: "f = (l, d)" by fastforce
  have l: "safe_logical_path l = Inr l" "map_of members l = Some d" "l \<noteq> []"
    using Cons.prems(2) safe_logical_path_Inr(5) by (auto simp: f)
  obtain item where item: "sort_keys (payload_entry (l, d)) = JObj item" "obj_get item ''path'' = JStr l"
    "\<And>v. obj_get_or item ''size'' v = JInt (int (length d))" "obj_get item ''sha256'' = JStr (sha256_bytes d)"
    "\<And>v. obj_get_or item ''mode'' v = JInt (mode_of l)"
    using payload_entry_get by blast
  have ne: "sha256_bytes d \<noteq> []" using is_digest_sha256_bytes [of d] by (auto simp: is_digest_def)
  have "check_payload cd members (seen @ [l]) (map (sort_keys \<circ> payload_entry) fs) = Inr ((seen @ [l]) @ map fst fs)"
    using Cons.prems by (intro Cons.IH) (auto simp: f)
  then show ?case using Cons.prems(1) ne l
    by (simp add: item f Let_def comp_def mode_for_def digest_validates del: payload_entry.simps sort_keys.simps)
qed simp

lemma member_data_plain: "length d \<le> limit \<Longrightarrow> member_data limit (plain_member n d) = Some d"
  by (simp add: member_data_def plain_member_def)

lemma read_payload_plain:
  assumes "distinct (map fst (acc @ fs))" "\<forall>(l, d)\<in>set fs. safe_logical_path l = Inr l \<and> length d \<le> MAX_MEMBER_BYTES"
    and "unpacked + int (content_size fs) \<le> MAX_UNPACKED_BYTES"
  shows "read_payload (map (\<lambda>(l, d). plain_member (''payload/'' @ l) d) fs) unpacked manifest acc = Inr (manifest, acc @ fs)"
  using assms
proof (induction fs arbitrary: unpacked acc)
  case (Cons f fs)
  obtain l d where f: "f = (l, d)" by fastforce
  have "member_key (''payload/'' @ l) = Inr (Some l)" using Cons.prems(2) by (simp add: f member_key_def starts_with_def)
  moreover have "read_payload (map (\<lambda>(l, d). plain_member (''payload/'' @ l) d) fs) (unpacked + int (length d)) manifest (acc @ [(l, d)])
      = Inr (manifest, (acc @ [(l, d)]) @ fs)"
    using Cons.prems by (intro Cons.IH) (auto simp: f content_size_def)
  moreover have "unpacked + int (length d) \<le> MAX_UNPACKED_BYTES" using Cons.prems(3) by (simp add: f content_size_def)
  ultimately show ?case using Cons.prems(1,2) by (simp add: f member_data_plain Let_def del: append_Cons)
qed simp

definition bp_payload :: "built_package \<Rightarrow> files" where
  "bp_payload b = map (\<lambda>m. (drop 8 (tm_name m), the (tm_data m))) (tl (bp_members b))"

lemma source_files_valid:
  assumes "source_files src = Inr names"
  shows "distinct names" "sorted names" "\<forall>l\<in>set names. safe_logical_path l = Inr l"
proof -
  obtain xs ys zs where n: "names = sorted_set (xs @ ys @ zs)"
    and r: "\<exists>ns. rmap safe_logical_path ns = Inr xs" "\<exists>ns. rmap safe_logical_path ns = Inr ys" "\<exists>ns. rmap safe_logical_path ns = Inr zs"
    using assms by (auto simp: source_files_def Let_def res_simps split: if_splits)
  show "distinct names" "sorted names" by (simp_all add: n)
  have "safe_logical_path l = Inr l" if "l \<in> set us" "rmap safe_logical_path ns = Inr us" for l us ns
    using rmap_Inr_in_set [OF that(2,1)] safe_logical_path_idem by blast
  then show "\<forall>l\<in>set names. safe_logical_path l = Inr l" using r by (auto simp: n)
qed

lemma rmap_files:
  "rmap (\<lambda>l. let d = f l in if k < length d then Inl (e l) else Inr (l, d)) ls = Inr fs \<Longrightarrow>
     fs = map (\<lambda>l. (l, f l)) ls \<and> (\<forall>l\<in>set ls. length (f l) \<le> k)"
  by (induction ls arbitrary: fs) (auto simp: Let_def res_simps split: if_splits)

lemma build_update_package_Inr:
  assumes "build_update_package cd now src = Inr b"
  obtains names found where "bp_payload b = map (\<lambda>l. (l, file_of src l)) names" "distinct names"
    "\<forall>l\<in>set names. safe_logical_path l = Inr l \<and> length (file_of src l) \<le> MAX_MEMBER_BYTES" "set REQUIRED_RUNTIME_PATHS \<subseteq> set names"
    "validate_version (cd_str cd) (JStr found) = Inr (bp_version b)" "bp_files b = length names"
    "bp_members b = plain_member ''manifest.json'' (dumps_line cd (package_manifest now (bp_version b) (bp_payload b)))
       # map (\<lambda>(l, d). plain_member (''payload/'' @ l) d) (bp_payload b)"
proof -
  obtain names found fs where n: "source_files src = Inr names" "without REQUIRED_RUNTIME_PATHS names = []"
    and v: "validate_version (cd_str cd) (JStr found) = Inr (bp_version b)" "bp_files b = length names"
    and fs: "rmap (\<lambda>l. let d = file_of src l in
             if MAX_MEMBER_BYTES < length d then Inl (BridgeError (''File sorgente troppo grande: '' @ l)) else Inr (l, d)) names = Inr fs"
    and ms: "bp_members b = plain_member ''manifest.json'' (dumps_line cd (package_manifest now (bp_version b) fs))
       # map (\<lambda>(l, d). plain_member (''payload/'' @ l) d) fs"
    using assms by (auto simp: build_update_package_def res_simps)
  have "bp_payload b = fs"
    unfolding bp_payload_def ms by (induction fs) (auto simp: plain_member_def)
  then show thesis using that [of names found] source_files_valid [OF n(1)] n(2) v ms rmap_files [OF fs]
    by (simp add: without_empty_iff)
qed

lemma read_package_of:
  assumes raw: "cd_json cd raw = Some (sort_keys (package_manifest now v fs))" "length raw \<le> MAX_MEMBER_BYTES"
    and fs: "distinct (map fst fs)" "\<forall>(l, d)\<in>set fs. safe_logical_path l = Inr l \<and> length d \<le> MAX_MEMBER_BYTES"
      "set REQUIRED_RUNTIME_PATHS \<subseteq> fst ` set fs"
    and v: "validate_version (cd_str cd) (JStr v) = Inr v" "init_version cd (file_of fs ''ge360_bridge/__init__.py'') = Inr (Some v)"
    and p: "pk_regular p" "pk_data p \<noteq> []" "length (pk_data p) \<le> MAX_PACKAGE_BYTES"
      "pk_members p = Some (plain_member ''manifest.json'' raw # map (\<lambda>(l, d). plain_member (''payload/'' @ l) d) fs)"
    and size: "length fs \<le> MAX_PACKAGE_FILES" "int (length raw + content_size fs) \<le> MAX_UNPACKED_BYTES"
  shows "read_package cd p = Inr (obj_of (sort_keys (package_manifest now v fs)), fs)"
    and "obj_get (obj_of (sort_keys (package_manifest now v fs))) ''version'' = JStr v"
proof -
  let ?j = "sort_keys (package_manifest now v fs)"
  let ?kvs = "[(''schema'', JStr UPDATE_SCHEMA), (''version'', JStr v), (''created_at'', JStr now), (''files'', JList (map payload_entry fs))]"
  have rp: "read_payload (plain_member ''manifest.json'' raw # map (\<lambda>(l, d). plain_member (''payload/'' @ l) d) fs) 0 None [] = Inr (Some raw, fs)"
    using read_payload_plain [of "[]" fs "int (length raw)"] fs(1,2) size(2) raw(2) member_data_plain [OF raw(2), of "''manifest.json''"]
    by (simp add: Let_def member_key_def)
  have keys: "distinct (map fst ?kvs)" by simp
  have get: "obj_get (obj_of ?j) k = (case map_of ?kvs k of None \<Rightarrow> JNull | Some v \<Rightarrow> sort_keys v)" for k
    unfolding package_manifest_def by (rule obj_get_sorted [OF keys])
  have g: "obj_get (obj_of ?j) ''schema'' = JStr UPDATE_SCHEMA" "obj_get (obj_of ?j) ''version'' = JStr v"
    "obj_get (obj_of ?j) ''files'' = JList (map (sort_keys \<circ> payload_entry) fs)" "is_obj ?j"
    by (simp_all only: get, simp_all add: package_manifest_def is_obj_def)
  then show "obj_get (obj_of ?j) ''version'' = JStr v" by simp
  have cp: "check_payload cd fs [] (map (sort_keys \<circ> payload_entry) fs) = Inr (map fst fs)"
    using check_payload_entries [of "[]" fs fs cd] fs(1,2) by (simp add: case_prod_beta)
  have "fs \<noteq> []" using fs(3) by (auto simp: REQUIRED_RUNTIME_PATHS_def)
  moreover have "rmap (\<lambda>(l, d). rbind (safe_logical_path l) (\<lambda>l'. Inr (l', d))) fs = Inr fs"
    using fs(2) by (intro rmap_safe_paths) auto
  ultimately have cm: "check_manifest cd (obj_of ?j) fs = Inr fs"
    using fs(3) by (simp add: check_manifest_def g v cp without_empty_iff del: check_payload.simps map_map)
  show "read_package cd p = Inr (obj_of ?j, fs)"
    unfolding read_package_def p(4) option.case rp
    by (use p(1,2,3) raw(1) g size(1) cm in \<open>simp add: read_regular_file_def\<close>)
qed

text \<open>
  A package that is built verifies. The archive \<open>build_update_package\<close> writes, when its bytes
  and its contents are within the limits of a package, its manifest is JSON that is read back,
  and the version constant of the source carries no padding, passes \<open>verify_update\<close> with that
  version, and what is read from it is the source's files, byte for byte.
\<close>

theorem built_package_verifies:
  assumes build: "build_update_package cd now src = Inr b"
    and law: "dumps_law cd MAX_MEMBER_BYTES (package_manifest now (bp_version b) (bp_payload b))"
    and version: "init_version cd (file_of src ''ge360_bridge/__init__.py'') = Inr (Some (bp_version b))"
    and p: "pk_regular p" "pk_members p = Some (bp_members b)" "pk_data p \<noteq> []" "length (pk_data p) \<le> MAX_PACKAGE_BYTES"
    and size: "bp_files b \<le> MAX_PACKAGE_FILES"
      "int (length (dumps_line cd (package_manifest now (bp_version b) (bp_payload b))) + content_size (bp_payload b)) \<le> MAX_UNPACKED_BYTES"
  shows "\<exists>m. read_package cd p = Inr (m, bp_payload b)
    \<and> verify_update cd current False p = Inr \<lparr>vu_version = bp_version b, vu_files = bp_files b,
        vu_size = length (pk_data p), vu_sha256 = sha256_bytes (pk_data p)\<rparr>
    \<and> (\<forall>(l, d)\<in>set (bp_payload b). d = file_of src l)"
proof -
  let ?fs = "bp_payload b" let ?m = "package_manifest now (bp_version b) (bp_payload b)"
  obtain names found where n: "?fs = map (\<lambda>l. (l, file_of src l)) names" "distinct names"
    "\<forall>l\<in>set names. safe_logical_path l = Inr l \<and> length (file_of src l) \<le> MAX_MEMBER_BYTES" "set REQUIRED_RUNTIME_PATHS \<subseteq> set names"
    "validate_version (cd_str cd) (JStr found) = Inr (bp_version b)" "bp_files b = length names"
    "bp_members b = plain_member ''manifest.json'' (dumps_line cd ?m) # map (\<lambda>(l, d). plain_member (''payload/'' @ l) d) ?fs"
    using build_update_package_Inr [OF build] by blast
  have fst: "map fst ?fs = names" by (simp add: n(1) comp_def)
  have valid: "\<forall>(l, d)\<in>set ?fs. safe_logical_path l = Inr l \<and> length d \<le> MAX_MEMBER_BYTES" using n(3) by (auto simp: n(1))
  have init: "file_of ?fs ''ge360_bridge/__init__.py'' = file_of src ''ge360_bridge/__init__.py''"
    using n(2,4) by (auto simp: file_of_def n(1) map_of_map_restrict restrict_map_def REQUIRED_RUNTIME_PATHS_def)
  have v: "validate_version (cd_str cd) (JStr (bp_version b)) = Inr (bp_version b)" by (rule validate_version_idem [OF n(5)])
  have len: "length ?fs = bp_files b" using n(1,6) by simp
  have req: "set REQUIRED_RUNTIME_PATHS \<subseteq> fst ` set ?fs" using n(4) fst by (metis set_map)
  have r: "read_package cd p = Inr (obj_of (sort_keys ?m), ?fs)" "obj_get (obj_of (sort_keys ?m)) ''version'' = JStr (bp_version b)"
    using law version p size n(2,7) len
    by (intro read_package_of [OF _ _ _ valid req v]; simp add: dumps_law_def fst init)+
  then have "verify_update cd current False p = Inr \<lparr>vu_version = bp_version b, vu_files = bp_files b,
      vu_size = length (pk_data p), vu_sha256 = sha256_bytes (pk_data p)\<rparr>" using len by (simp add: verify_update_def v)
  moreover have "\<forall>(l, d)\<in>set ?fs. d = file_of src l" unfolding n(1) by auto
  ultimately show ?thesis using r(1) by blast
qed

section \<open>A concrete package\<close>

definition demo_source :: files where
  "demo_source = map (\<lambda>l. (l, if l = ''ge360_bridge/__init__.py'' then ''__version__ = '' @ [CHR 0x22] @ ''0.24.0'' @ [CHR 0x22]
     else ''x'')) REQUIRED_RUNTIME_PATHS"

definition demo_update_manifest :: json where
  "demo_update_manifest = package_manifest ''now'' ''0.24.0'' (sort_key fst demo_source)"

definition demo_built :: built_package where
  "demo_built = \<lparr>bp_members = plain_member ''manifest.json'' (dumps_line (demo_codec demo_update_manifest) demo_update_manifest)
     # map (\<lambda>(l, d). plain_member (''payload/'' @ l) d) (sort_key fst demo_source), bp_version = ''0.24.0'', bp_files = 7\<rparr>"

definition demo_package :: package where
  "demo_package = \<lparr>pk_regular = True, pk_data = ''x'', pk_members = Some (bp_members demo_built)\<rparr>"

lemma demo_dumps: "dumps_line (demo_codec m) j = ''M'' @ [CHR 0x0A]"
  by (simp add: dumps_line_def demo_codec_def)

lemma demo_build_any:
  "build_update_package (demo_codec m) now demo_source = Inr \<lparr>bp_members =
     plain_member ''manifest.json'' (dumps_line (demo_codec m) (package_manifest now ''0.24.0'' (sort_key fst demo_source)))
     # map (\<lambda>(l, d). plain_member (''payload/'' @ l) d) (sort_key fst demo_source), bp_version = ''0.24.0'', bp_files = 7\<rparr>"
proof -
  have s: "source_files demo_source = Inr (map fst (sort_key fst demo_source))" by code_simp
  have v: "search_version True (file_of demo_source ''ge360_bridge/__init__.py'') = Some ''0.24.0''" by code_simp
  have t: "validate_version f (JStr ''0.24.0'') = Inr ''0.24.0''" for f by code_simp
  have c: "cd_text (demo_codec m) = Some" by (simp add: demo_codec_def)
  have len: "length demo_source = 7" by code_simp
  have w: "without REQUIRED_RUNTIME_PATHS (map fst (sort_key fst demo_source)) = []" by code_simp
  have f: "rmap (\<lambda>l. let d = file_of demo_source l in if MAX_MEMBER_BYTES < length d then Inl (e l) else Inr (l, d))
      (map fst (sort_key fst demo_source)) = Inr (sort_key fst demo_source)" for e
  proof -
    have r: "rmap (\<lambda>l. let d = g l in if k < length d then Inl (e l) else Inr (l, d)) ls = Inr (map (\<lambda>l. (l, g l)) ls)"
      if "\<forall>l\<in>set ls. length (g l) \<le> k" for ls k and g :: "string \<Rightarrow> string" using that by (induction ls) (auto simp: Let_def)
    have len: "\<forall>l\<in>set (map fst (sort_key fst demo_source)). length (file_of demo_source l) \<le> MAX_MEMBER_BYTES" by code_simp
    have m: "map (\<lambda>l. (l, file_of demo_source l)) (map fst (sort_key fst demo_source)) = sort_key fst demo_source" by code_simp
    show ?thesis using r [OF len] unfolding m .
  qed
  show ?thesis
    unfolding build_update_package_def s rbind_simps w c v option.case t f
    by (simp only: ensure_simps rbind_simps simp_thms length_map length_sort len)
qed

theorem built_package_verifies_witness:
  "\<exists>m. read_package (demo_codec demo_update_manifest) demo_package = Inr (m, sort_key fst demo_source)"
proof -
  let ?cd = "demo_codec demo_update_manifest"
  have b: "build_update_package ?cd ''now'' demo_source = Inr demo_built"
    by (simp add: demo_build_any demo_built_def demo_update_manifest_def demo_dumps)
  have payload: "bp_payload demo_built = sort_key fst demo_source"
  proof -
    have "map (\<lambda>m. (drop 8 (tm_name m), the (tm_data m))) (map (\<lambda>(l, d). plain_member (''payload/'' @ l) d) fs) = fs" for fs
      by (induction fs) auto
    then show ?thesis unfolding bp_payload_def demo_built_def by (simp only: built_package.simps list.sel)
  qed
  have law: "dumps_law ?cd MAX_MEMBER_BYTES (package_manifest ''now'' (bp_version demo_built) (bp_payload demo_built))"
    unfolding payload by (simp add: dumps_law_def demo_dumps demo_built_def demo_update_manifest_def [symmetric] MAX_MEMBER_BYTES_def)
      (simp add: demo_codec_def)
  have v: "init_version ?cd (file_of demo_source ''ge360_bridge/__init__.py'') = Inr (Some (bp_version demo_built))"
  proof -
    have "search_version True (file_of demo_source ''ge360_bridge/__init__.py'') = Some ''0.24.0''" by code_simp
    then show ?thesis by (simp add: init_version_def demo_codec_def demo_built_def)
  qed
  have "content_size (sort_key fst demo_source) = 28" by code_simp
  then show ?thesis
    using built_package_verifies [OF b law v, of demo_package] payload
    by (simp add: demo_package_def demo_built_def demo_dumps MAX_PACKAGE_BYTES_def MAX_PACKAGE_FILES_def MAX_UNPACKED_BYTES_def)
qed


end
