(* ===== verification/Update.thy ===== *)
theory Update
  imports UpdatePackage
begin

text \<open>
  \<open>ge360_bridge/update_engine.py\<close>, second part: the software snapshot and its restoration, the
  installation, the restart and health check of the services, and \<open>apply_update\<close>, which composes
  them with the configuration backup of \<open>Backup\<close>. The disk maps paths to regular files (contents
  and mode) and symbolic links. What \<open>systemctl\<close> and the health URLs answer is a function of all
  the calls made before; which file operations fail, and the text Python prints for an exception,
  are arguments.
\<close>

section \<open>Files\<close>

datatype fs_node = File string int | Link string

type_synonym disk = "string \<rightharpoonup> fs_node"

definition regular_content :: "disk \<Rightarrow> string \<Rightarrow> string option" where
  \<comment> \<open>the bytes of \<open>t\<close> if \<open>t.is_file() and not t.is_symlink()\<close>\<close>
  "regular_content disk t = (case disk t of Some (File d m) \<Rightarrow> Some d | _ \<Rightarrow> None)"

definition atomic_install :: "(string \<Rightarrow> string option) \<Rightarrow> string \<Rightarrow> string \<Rightarrow> int \<Rightarrow> disk \<Rightarrow> unit res \<times> disk" where
  \<comment> \<open>written beside the target and renamed over it: a failure leaves the target alone\<close>
  "atomic_install io t data mode disk = (case io t of
       Some e \<Rightarrow> (Inl (OSError e), disk) | None \<Rightarrow> (Inr (), disk(t \<mapsto> File data mode)))"

definition unlink :: "(string \<Rightarrow> string option) \<Rightarrow> string \<Rightarrow> disk \<Rightarrow> unit res \<times> disk" where
  "unlink io t disk = (if disk t = None then (Inr (), disk) else case io t of
       Some e \<Rightarrow> (Inl (OSError e), disk) | None \<Rightarrow> (Inr (), disk(t := None)))"

fun install_payload :: "(string \<Rightarrow> string option) \<Rightarrow> files \<Rightarrow> disk \<Rightarrow> unit res \<times> disk" where
  "install_payload io [] disk = (Inr (), disk)"
| "install_payload io ((l, d) # fs) disk =
     guard_in disk (target_for l) (\<lambda>t. guard_in disk (mode_for l) (\<lambda>m.
     case atomic_install io t d m disk of
       (Inl e, disk) \<Rightarrow> (Inl e, disk) | (Inr _, disk) \<Rightarrow> install_payload io fs disk))"

section \<open>Software snapshots\<close>

definition ROLLBACK_SCHEMA :: string where "ROLLBACK_SCHEMA = ''ge360-bridge-software-rollback/v1''"
definition ROLLBACK_RETENTION :: nat where "ROLLBACK_RETENTION = 3"

definition rollback_entry :: "string \<Rightarrow> string option \<Rightarrow> int \<Rightarrow> json" where
  "rollback_entry l old mode = (let data = (case old of None \<Rightarrow> [] | Some d \<Rightarrow> d) in
     JObj [(''path'', JStr l), (''existed'', JBool (old \<noteq> None)), (''size'', JInt (int (length data))),
       (''sha256'', JStr (sha256_bytes data)), (''mode'', JInt mode)])"

fun rollback_items :: "disk \<Rightarrow> string list \<Rightarrow> (json list \<times> files) res" where
  \<comment> \<open>the entries of the manifest and the payload\<close>
  "rollback_items disk [] = Inr ([], [])"
| "rollback_items disk (l # ls) =
     rbind (target_for l) (\<lambda>t. let old = regular_content disk t in
     if (case old of None \<Rightarrow> False | Some d \<Rightarrow> MAX_MEMBER_BYTES < length d)
     then Inl (BridgeError (''File installato troppo grande per rollback: '' @ t))
     else rbind (mode_for l) (\<lambda>mode. rbind (rollback_items disk ls) (\<lambda>(js, ps).
       Inr (rollback_entry l old mode # js, (case old of None \<Rightarrow> ps | Some d \<Rightarrow> (l, d) # ps)))))"

definition rollback_manifest :: "string \<Rightarrow> string \<Rightarrow> json list \<Rightarrow> json" where
  "rollback_manifest now version js = JObj [(''schema'', JStr ROLLBACK_SCHEMA), (''created_at'', JStr now),
     (''version'', JStr version), (''files'', JList js)]"

record rollback_file =
  rf_mtime :: int
  rf_members :: "tar_member list"

definition rollback_name :: "string \<Rightarrow> bool" where
  "rollback_name n = glob_match ''rollback-'' ''.tar.gz'' n"

definition create_software_rollback ::
  "codec \<Rightarrow> string \<Rightarrow> string \<Rightarrow> int \<Rightarrow> string \<Rightarrow> disk \<Rightarrow> string list \<Rightarrow> (string \<times> rollback_file) list
     \<Rightarrow> string res \<times> (string \<times> rollback_file) list" where
  \<comment> \<open>the stamp in the name, the time in the manifest and the modification time of the file are arguments\<close>
  "create_software_rollback cd stamp now mtime version disk names rollbacks =
     guard_in rollbacks (rollback_items disk names) (\<lambda>(js, ps).
     let n = ''rollback-'' @ stamp @ ''-from-'' @ version @ ''.tar.gz'';
         file = \<lparr>rf_mtime = mtime, rf_members =
           plain_member ''manifest.json'' (dumps_line cd (rollback_manifest now version js))
           # map (\<lambda>(l, d). plain_member (''payload/'' @ l) d) (sort_key fst ps)\<rparr> in
     (Inr n, snd (keep_newest ROLLBACK_RETENTION rf_mtime rollback_name (filter (\<lambda>(m, f). m \<noteq> n) rollbacks @ [(n, file)]))))"

fun read_rollback_members :: "codec \<Rightarrow> tar_member list \<Rightarrow> int \<Rightarrow> json option \<Rightarrow> (string \<rightharpoonup> string)
    \<Rightarrow> (json option \<times> (string \<rightharpoonup> string)) res" where
  "read_rollback_members cd [] unpacked manifest payload = Inr (manifest, payload)"
| "read_rollback_members cd (m # ms) unpacked manifest payload = (let total = unpacked + max 0 (tm_size m) in
     if MAX_UNPACKED_BYTES < total then Inl (BridgeError ''Rollback supera il limite decompressed.'')
     else if \<not> tm_regular m then Inl (BridgeError ''Rollback contiene membro non regolare.'')
     else if tm_data m = None then Inl (BridgeError ''Rollback non leggibile.'')
     else (case member_data MAX_MEMBER_BYTES m of
         None \<Rightarrow> Inl (BridgeError ''Rollback contiene file troppo grande.'')
       | Some data \<Rightarrow>
           if tm_name m = ''manifest.json'' then (case cd_json cd data of
               None \<Rightarrow> Inl (BridgeError ''Snapshot rollback non valido: '')
             | Some j \<Rightarrow> read_rollback_members cd ms total (Some j) payload)
           else if starts_with ''payload/'' (tm_name m)
           then rbind (safe_logical_path (drop 8 (tm_name m))) (\<lambda>l. read_rollback_members cd ms total manifest (payload(l \<mapsto> data)))
           else Inl (BridgeError ''Rollback contiene path non consentito.'')))"

definition read_rollback ::
  "codec \<Rightarrow> string \<Rightarrow> (string \<times> rollback_file) list \<Rightarrow> ((string \<times> json) list \<times> (string \<rightharpoonup> string)) res" where
  "read_rollback cd n rollbacks = (case map_of rollbacks n of
       None \<Rightarrow> Inl (BridgeError ''Snapshot rollback non valido.'')
     | Some f \<Rightarrow> if MAX_PACKAGE_FILES + 1 < length (rf_members f) then Inl (BridgeError ''Rollback contiene troppi file.'')
         else rbind (read_rollback_members cd (rf_members f) 0 None Map.empty) (\<lambda>(manifest, payload).
           (case manifest of
             None \<Rightarrow> Inl (BridgeError ''Schema rollback non valido.'')
           | Some j \<Rightarrow> if \<not> is_obj j \<or> obj_get (obj_of j) ''schema'' \<noteq> JStr ROLLBACK_SCHEMA
               then Inl (BridgeError ''Schema rollback non valido.'') else Inr (obj_of j, payload))))"

fun restore_items :: "codec \<Rightarrow> (string \<Rightarrow> string option) \<Rightarrow> (string \<rightharpoonup> string) \<Rightarrow> json list \<Rightarrow> disk \<Rightarrow> unit res \<times> disk" where
  "restore_items cd io payload [] disk = (Inr (), disk)"
| "restore_items cd io payload (j # js) disk = (case j of
       JObj item \<Rightarrow>
         guard_in disk (safe_logical_path (text_or (cd_str cd) (obj_get item ''path'') [])) (\<lambda>l.
         guard_in disk (target_for l) (\<lambda>t. let data = (case payload l of None \<Rightarrow> [] | Some d \<Rightarrow> d) in
         case (if truthy (obj_get item ''existed'')
           then guard_in disk (json_int (obj_get_or item ''size'' (JInt (-1)))) (\<lambda>size.
             if size \<noteq> int (length data) \<or> text_or (cd_str cd) (obj_get item ''sha256'') [] \<noteq> sha256_bytes data
             then (Inl (BridgeError (''Checksum rollback non valido: '' @ l)), disk)
             else guard_in disk (mode_for l) (\<lambda>m. atomic_install io t data m disk))
           else if payload l \<noteq> None then (Inl (BridgeError (''Payload rollback inatteso: '' @ l)), disk)
           else unlink io t disk) of
           (Inl e, disk) \<Rightarrow> (Inl e, disk) | (Inr _, disk) \<Rightarrow> restore_items cd io payload js disk))
     | _ \<Rightarrow> (Inl (BridgeError ''Manifest rollback non valido.''), disk))"

definition restore_software_rollback ::
  "codec \<Rightarrow> (string \<Rightarrow> string option) \<Rightarrow> string \<Rightarrow> (string \<times> rollback_file) list \<Rightarrow> disk \<Rightarrow> unit res \<times> disk" where
  "restore_software_rollback cd io n rollbacks disk =
     guard_in disk (read_rollback cd n rollbacks) (\<lambda>(m, payload). case obj_get m ''files'' of
       JList js \<Rightarrow> restore_items cd io payload js disk
     | _ \<Rightarrow> (Inl (BridgeError ''Manifest rollback non valido.''), disk))"

section \<open>Restart and health check\<close>

datatype sys_call = Systemctl "string list" | HttpGet string | Sleep

record world =
  w_rc :: "sys_call list \<Rightarrow> string list \<Rightarrow> int" \<comment> \<open>return code, after the calls made so far\<close>
  w_http :: "sys_call list \<Rightarrow> string \<Rightarrow> bool"

definition CORE_SERVICES :: "string list" where
  "CORE_SERVICES = [''wg-quick@wg0.service'', ''ge360-bridge-firewall.service'', ''ge360-bridge.service'',
     ''ge360-bridge-dashboard.service'', ''ge360-bridge-enrollment.service'', ''ge360-bridge-multi-server.service'']"

fun run_commands :: "world \<Rightarrow> string list list \<Rightarrow> sys_call list \<Rightarrow> unit res \<times> sys_call list" where
  "run_commands w [] calls = (Inr (), calls)"
| "run_commands w (args # cmds) calls =
     (if w_rc w calls args \<noteq> 0
      then (Inl (BridgeError (''Restart runtime update fallito: systemctl '' @ py_join '' '' args)), calls @ [Systemctl args])
      else run_commands w cmds (calls @ [Systemctl args]))"

definition restart_runtime :: "world \<Rightarrow> sys_call list \<Rightarrow> unit res \<times> sys_call list" where
  "restart_runtime w calls =
     (case run_commands w ([''daemon-reload''] # map (\<lambda>u. [''restart'', u]) CORE_SERVICES) calls of
        (Inl e, calls) \<Rightarrow> (Inl e, calls)
      | (Inr _, calls) \<Rightarrow>
          let active = [''is-active'', ''--quiet'', ''ge360-bridge-relay-monitor.service''];
              restart = [''restart'', ''ge360-bridge-relay-monitor.service''];
              after = calls @ [Systemctl active] in
          if w_rc w calls active \<noteq> 0 then (Inr (), after)
          else if w_rc w after restart \<noteq> 0
          then (Inl (BridgeError ''Restart monitor relay update fallito.''), after @ [Systemctl restart])
          else (Inr (), after @ [Systemctl restart]))"

record runtime_health =
  rh_ok :: bool
  rh_services :: "(string \<times> bool) list"
  rh_dashboard :: bool
  rh_pairing :: bool

fun probe_services :: "world \<Rightarrow> string list \<Rightarrow> sys_call list \<Rightarrow> (string \<times> bool) list \<times> sys_call list" where
  "probe_services w [] calls = ([], calls)"
| "probe_services w (u # us) calls = (let args = [''is-active'', ''--quiet'', u];
       (rest, calls') = probe_services w us (calls @ [Systemctl args]) in ((u, w_rc w calls args = 0) # rest, calls'))"

fun health_loop :: "world \<Rightarrow> nat \<Rightarrow> runtime_health \<Rightarrow> sys_call list \<Rightarrow> runtime_health \<times> sys_call list" where
  "health_loop w 0 latest calls = (latest, calls)"
| "health_loop w (Suc n) latest calls = (let
       (services, calls) = probe_services w CORE_SERVICES calls;
       dashboard = w_http w calls ''http://127.0.0.1:8789/healthz'';
       calls = calls @ [HttpGet ''http://127.0.0.1:8789/healthz''];
       pairing = w_http w calls ''https://127.0.0.1:8790/healthz'';
       calls = calls @ [HttpGet ''https://127.0.0.1:8790/healthz''];
       ok = list_all snd services \<and> dashboard \<and> pairing;
       latest = \<lparr>rh_ok = ok, rh_services = services, rh_dashboard = dashboard, rh_pairing = pairing\<rparr> in
     if ok then (latest, calls) else health_loop w n latest (calls @ [Sleep]))"

definition health_check_runtime :: "world \<Rightarrow> sys_call list \<Rightarrow> runtime_health \<times> sys_call list" where
  \<comment> \<open>ten attempts\<close>
  "health_check_runtime w calls =
     health_loop w 10 \<lparr>rh_ok = False, rh_services = [], rh_dashboard = False, rh_pairing = False\<rparr> calls"

section \<open>Applying an update\<close>

record update_result =
  ur_ok :: bool
  ur_rolled_back :: bool
  ur_from :: string
  ur_to :: json
  ur_config_backup :: "string option"
  ur_rollback :: "string option"
  ur_error :: "string option"
  ur_rollback_error :: "string option"
  ur_health :: "runtime_health option"
  ur_completed :: string

record update_host =
  uh_config :: backup_host
  uh_disk :: disk
  uh_rollbacks :: "(string \<times> rollback_file) list"
  uh_history :: "update_result option"
  uh_calls :: "sys_call list"

record update_env =
  ue_backup :: backup_env
  ue_tools :: preflight_tools
  ue_world :: world
  ue_install_io :: "string \<Rightarrow> string option"
  ue_rollback_io :: "string \<Rightarrow> string option"
  ue_text :: "py_error \<Rightarrow> string"
  ue_stamp :: string
  ue_now :: string
  ue_mtime :: int

definition check_runtime :: "world \<Rightarrow> string \<Rightarrow> update_host \<Rightarrow> runtime_health option \<times> unit res \<times> update_host" where
  \<comment> \<open>restart, then health check; the second component is the message of a failed one\<close>
  "check_runtime w failed h = (case restart_runtime w (uh_calls h) of
       (Inl e, calls) \<Rightarrow> (None, Inl e, h\<lparr>uh_calls := calls\<rparr>)
     | (Inr _, calls) \<Rightarrow> (case health_check_runtime w calls of
         (hl, calls) \<Rightarrow> (Some hl, ensure (rh_ok hl) (BridgeError failed), h\<lparr>uh_calls := calls\<rparr>)))"

record attempt =
  at_result :: "runtime_health option res"
  at_config :: "string option"
  at_rollback :: "string option"

definition attempt_update :: "update_env \<Rightarrow> json \<Rightarrow> files \<Rightarrow> update_host \<Rightarrow> attempt \<times> update_host" where
  \<comment> \<open>the \<open>try\<close> block: its outcome and what it had assigned when it ended\<close>
  "attempt_update env keep fs h =
     (case create_backup (ue_backup env) False keep ''pre-update'' (uh_config h) of
        (Inl e, c) \<Rightarrow> (\<lparr>at_result = Inl e, at_config = None, at_rollback = None\<rparr>, h\<lparr>uh_config := c\<rparr>)
      | (Inr r, c) \<Rightarrow>
        let n = (case r of Created n _ _ \<Rightarrow> n | Skipped n _ \<Rightarrow> n); h = h\<lparr>uh_config := c\<rparr> in
        if n = [] then (\<lparr>at_result = Inl (BridgeError ''Backup configurazione pre-update non creato.''),
                         at_config = Some n, at_rollback = None\<rparr>, h)
        else (case create_software_rollback (be_codec (ue_backup env)) (ue_stamp env) (ue_now env) (ue_mtime env)
                 (be_version (ue_backup env)) (uh_disk h) (map fst fs) (uh_rollbacks h) of
            (Inl e, rs) \<Rightarrow> (\<lparr>at_result = Inl e, at_config = Some n, at_rollback = None\<rparr>, h\<lparr>uh_rollbacks := rs\<rparr>)
          | (Inr rb, rs) \<Rightarrow>
            (case install_payload (ue_install_io env) fs (uh_disk h) of
               (Inl e, d) \<Rightarrow> (\<lparr>at_result = Inl e, at_config = Some n, at_rollback = Some rb\<rparr>, h\<lparr>uh_rollbacks := rs, uh_disk := d\<rparr>)
             | (Inr _, d) \<Rightarrow>
               (case check_runtime (ue_world env) ''Health check post-update fallito.'' (h\<lparr>uh_rollbacks := rs, uh_disk := d\<rparr>) of
                  (hl, res, h) \<Rightarrow> (\<lparr>at_result = rbind res (\<lambda>_. Inr hl), at_config = Some n, at_rollback = Some rb\<rparr>, h)))))"

definition roll_back ::
  "update_env \<Rightarrow> string option \<Rightarrow> string \<Rightarrow> update_host \<Rightarrow> runtime_health option \<times> unit res \<times> update_host" where
  "roll_back env config rb h =
     (case restore_software_rollback (be_codec (ue_backup env)) (ue_rollback_io env) rb (uh_rollbacks h) (uh_disk h) of
        (Inl e, d) \<Rightarrow> (None, Inl e, h\<lparr>uh_disk := d\<rparr>)
      | (Inr _, d) \<Rightarrow>
        let h = h\<lparr>uh_disk := d\<rparr>;
            (res, c) = (if config \<in> {None, Some []} then (Inr (), uh_config h)
              else (case restore_backup (ue_backup env) (the config) True (JInt DEFAULT_RETENTION) False (uh_config h) of
                  (Inl e, c) \<Rightarrow> (Inl e, c) | (Inr _, c) \<Rightarrow> (Inr (), c)));
            h = h\<lparr>uh_config := c\<rparr> in
        (case res of Inl e \<Rightarrow> (None, Inl e, h)
         | Inr _ \<Rightarrow> check_runtime (ue_world env) ''Health check dopo rollback fallito.'' h))"

definition recover :: "update_env \<Rightarrow> json \<Rightarrow> attempt \<Rightarrow> py_error \<Rightarrow> update_host \<Rightarrow> update_result res \<times> update_host" where
  \<comment> \<open>the \<open>except\<close> block; the second argument is the version of the package\<close>
  "recover env version a e h = (let
       (health, res, h) = (case at_rollback a of None \<Rightarrow> (None, Inr (), h) | Some rb \<Rightarrow> roll_back env (at_config a) rb h);
       failed = (case res of Inl err \<Rightarrow> Some (ue_text env err) | Inr _ \<Rightarrow> None);
       result = \<lparr>ur_ok = False, ur_rolled_back = (at_rollback a \<noteq> None \<and> failed = None), ur_from = be_version (ue_backup env),
         ur_to = version, ur_config_backup = at_config a, ur_rollback = at_rollback a, ur_error = Some (ue_text env e),
         ur_rollback_error = failed, ur_health = health, ur_completed = ue_now env\<rparr>;
       h = h\<lparr>uh_history := Some result\<rparr> in
     (case failed of
        Some (c # cs) \<Rightarrow> (Inl (BridgeError (''Update fallito e rollback NON riuscito: '' @ ue_text env e @ ''; rollback: '' @ c # cs)), h)
      | _ \<Rightarrow> if at_rollback a \<noteq> None then (Inl (BridgeError (''Update fallito; rollback eseguito: '' @ ue_text env e)), h)
          else (Inl (BridgeError (''Update abortito prima dell'' @ [CHR 0x27] @ ''installazione: '' @ ue_text env e)), h)))"

definition apply_update :: "update_env \<Rightarrow> json \<Rightarrow> package \<Rightarrow> update_host \<Rightarrow> update_result res \<times> update_host" where
  \<comment> \<open>under the update lock\<close>
  "apply_update env keep p h = (let cd = be_codec (ue_backup env); version = be_version (ue_backup env) in
     guard_in h (preflight_update cd (ue_tools env) version True p) (\<lambda>_.
     guard_in h (stage_package cd p) (\<lambda>(m, fs).
     case attempt_update env keep fs h of
       (a, h) \<Rightarrow> (case at_result a of
           Inr health \<Rightarrow> (let result = \<lparr>ur_ok = True, ur_rolled_back = False, ur_from = version, ur_to = obj_get m ''version'',
               ur_config_backup = at_config a, ur_rollback = at_rollback a, ur_error = None, ur_rollback_error = None,
               ur_health = health, ur_completed = ue_now env\<rparr> in
             (Inr result, h\<lparr>uh_history := Some result\<rparr>))
         | Inl e \<Rightarrow> recover env (obj_get m ''version'') a e h))))"

definition run_update ::
  "(string \<Rightarrow> fetch_result) \<Rightarrow> (string \<Rightarrow> tar_member list option) \<Rightarrow> update_env \<Rightarrow> string \<Rightarrow> string \<Rightarrow> json
     \<Rightarrow> update_host \<Rightarrow> update_result res \<times> update_host" where
  \<comment> \<open>the second argument reads the bytes as an archive\<close>
  "run_update fetch unpack env url digest keep h =
     guard_in h (download_update fetch url digest) (\<lambda>d.
     apply_update env keep \<lparr>pk_regular = True, pk_data = dl_data d, pk_members = unpack (dl_data d)\<rparr> h)"

definition update_status :: "update_env \<Rightarrow> update_host \<Rightarrow> string \<times> update_result option \<times> string list" where
  "update_status env h = (be_version (ue_backup env), uh_history h, rev (sort (filter rollback_name (map fst (uh_rollbacks h)))))"

section \<open>Installing\<close>

definition checked :: "string list \<Rightarrow> bool" where
  "checked ls = (\<forall>l\<in>set ls. safe_logical_path l = Inr l)"

lemma checked_Cons [simp]: "checked (l # ls) \<longleftrightarrow> safe_logical_path l = Inr l \<and> checked ls" "checked []"
  by (auto simp: checked_def)

lemma checked_target: "safe_logical_path l = Inr l \<Longrightarrow> target_for l = Inr (target_of l) \<and> mode_for l = Inr (mode_of l)"
  by (simp add: target_for_def mode_for_def)

lemma checked_inj: "checked ls \<Longrightarrow> inj_on target_of (set ls)"
  by (auto simp: checked_def inj_on_def intro: target_of_inject)

definition payload_nodes :: "files \<Rightarrow> disk" where
  \<comment> \<open>the files a package puts on the disk\<close>
  "payload_nodes fs = map_of (map (\<lambda>(l, d). (target_of l, File d (mode_of l))) fs)"

definition targets :: "files \<Rightarrow> string set" where
  "targets fs = target_of ` fst ` set fs"

lemma dom_payload_nodes: "dom (payload_nodes fs) = targets fs"
  by (force simp: payload_nodes_def targets_def dom_map_of_conv_image_fst)

lemma atomic_install_Inr: "atomic_install io t d m disk = (Inr u, disk') \<Longrightarrow> disk' = disk(t \<mapsto> File d m)"
  by (auto simp: atomic_install_def split: option.splits)

lemma atomic_install_frame: "atomic_install io t d m disk = (r, disk') \<Longrightarrow> t' \<noteq> t \<Longrightarrow> disk' t' = disk t'"
  by (auto simp: atomic_install_def split: option.splits)

lemma map_upd_before: "k \<notin> dom n \<Longrightarrow> m(k \<mapsto> v) ++ n = m ++ n(k \<mapsto> v)"
  by (rule ext) (auto simp: map_add_def domIff split: option.split)

lemma install_payload_Inr:
  "install_payload io fs disk = (Inr u, disk') \<Longrightarrow> checked (map fst fs) \<Longrightarrow> distinct (map fst fs) \<Longrightarrow> disk' = disk ++ payload_nodes fs"
proof (induction fs arbitrary: disk)
  case (Cons f fs)
  obtain l d where f: "f = (l, d)" by fastforce
  have "target_of k \<noteq> target_of l" if "k \<in> fst ` set fs" for k
  proof -
    have "safe_logical_path k = Inr k" "safe_logical_path l = Inr l" "k \<noteq> l"
      using Cons.prems(2,3) that by (auto simp: f checked_def)
    then show ?thesis using target_of_inject by blast
  qed
  then have "target_of l \<notin> dom (payload_nodes fs)" unfolding dom_payload_nodes by (force simp: targets_def)
  moreover have "install_payload io fs (disk(target_of l \<mapsto> File d (mode_of l))) = (Inr u, disk')"
    using Cons.prems(1,2) by (auto simp: f checked_target guard_in_Inr split: prod.splits sum.splits dest!: atomic_install_Inr)
  moreover have "payload_nodes (f # fs) = (payload_nodes fs)(target_of l \<mapsto> File d (mode_of l))" by (simp add: payload_nodes_def f)
  moreover have "checked (map fst fs)" "distinct (map fst fs)" using Cons.prems(2,3) by simp_all
  ultimately show ?case using Cons.IH map_upd_before by metis
qed (simp add: payload_nodes_def)

lemma install_payload_frame:
  "install_payload io fs disk = (r, disk') \<Longrightarrow> checked (map fst fs) \<Longrightarrow> t \<notin> targets fs \<Longrightarrow> disk' t = disk t"
proof (induction fs arbitrary: disk)
  case (Cons f fs)
  obtain l d where f: "f = (l, d)" by fastforce
  have "t \<noteq> target_of l" "t \<notin> targets fs" using Cons.prems(3) by (auto simp: f targets_def)
  then show ?case using Cons.prems(1,2) Cons.IH
    by (auto simp: f checked_target split: prod.splits sum.splits dest!: atomic_install_frame)
qed simp

section \<open>The software snapshot\<close>

lemma rollback_items_Inr:
  "rollback_items disk ls = Inr (js, ps) \<Longrightarrow> checked ls \<Longrightarrow>
     js = map (\<lambda>l. rollback_entry l (regular_content disk (target_of l)) (mode_of l)) ls
     \<and> set (map fst ps) \<subseteq> set ls \<and> (distinct ls \<longrightarrow> distinct (map fst ps))
     \<and> (\<forall>l\<in>set ls. map_of ps l = regular_content disk (target_of l))"
proof (induction ls arbitrary: js ps)
  case (Cons l ls)
  obtain js' ps' where r: "rollback_items disk ls = Inr (js', ps')"
      "js = rollback_entry l (regular_content disk (target_of l)) (mode_of l) # js'"
      "ps = (case regular_content disk (target_of l) of None \<Rightarrow> ps' | Some d \<Rightarrow> (l, d) # ps')"
    using Cons.prems by (auto simp: checked_target Let_def res_simps split: if_splits)
  have IH: "js' = map (\<lambda>l. rollback_entry l (regular_content disk (target_of l)) (mode_of l)) ls" "set (map fst ps') \<subseteq> set ls"
      "distinct ls \<longrightarrow> distinct (map fst ps')" "\<forall>l\<in>set ls. map_of ps' l = regular_content disk (target_of l)"
    using Cons.IH [OF r(1)] Cons.prems(2) by simp_all
  have "l \<notin> set ls \<Longrightarrow> map_of ps' l = None" using IH(2) by (auto simp: map_of_eq_None_iff)
  then show ?case using IH r(2,3) by (cases "l \<in> set ls") (auto split: option.splits)
qed simp

lemma rollback_entry_get:
  obtains item where "sort_keys (rollback_entry l old mode) = JObj item" "obj_get item ''path'' = JStr l"
    "obj_get item ''existed'' = JBool (old \<noteq> None)" "\<And>v. obj_get_or item ''size'' v = JInt (int (length (case old of None \<Rightarrow> [] | Some d \<Rightarrow> d)))"
    "obj_get item ''sha256'' = JStr (sha256_bytes (case old of None \<Rightarrow> [] | Some d \<Rightarrow> d))"
proof -
  let ?d = "case old of None \<Rightarrow> [] | Some d \<Rightarrow> d"
  let ?kvs = "[(''path'', JStr l), (''existed'', JBool (old \<noteq> None)), (''size'', JInt (int (length ?d))), (''sha256'', JStr (sha256_bytes ?d)),
    (''mode'', JInt mode)]"
  obtain item where item: "sort_keys (JObj ?kvs) = JObj item" by simp
  have get: "obj_get item k = (case map_of ?kvs k of None \<Rightarrow> JNull | Some v \<Rightarrow> sort_keys v)" for k
    using obj_get_sorted [of ?kvs k] unfolding item by (simp add: obj_of_def)
  show thesis
    by (rule that [of item]) (simp_all only: rollback_entry_def Let_def item, simp_all add: get obj_get_or_present)
qed

definition previous_node :: "disk \<Rightarrow> string \<Rightarrow> fs_node option" where
  \<comment> \<open>what the snapshot of a disk puts back for a logical path\<close>
  "previous_node disk l = map_option (\<lambda>d. File d (mode_of l)) (regular_content disk (target_of l))"

lemma restore_items_step:
  assumes "safe_logical_path l = Inr l" and "payload l = old"
  shows "restore_items cd io payload (sort_keys (rollback_entry l old (mode_of l)) # js) disk =
     (case (case old of Some d \<Rightarrow> atomic_install io (target_of l) d (mode_of l) disk | None \<Rightarrow> unlink io (target_of l) disk) of
        (Inl e, disk) \<Rightarrow> (Inl e, disk) | (Inr _, disk) \<Rightarrow> restore_items cd io payload js disk)"
proof -
  obtain item where item: "sort_keys (rollback_entry l old (mode_of l)) = JObj item" "obj_get item ''path'' = JStr l"
    "obj_get item ''existed'' = JBool (old \<noteq> None)" "\<And>v. obj_get_or item ''size'' v = JInt (int (length (case old of None \<Rightarrow> [] | Some d \<Rightarrow> d)))"
    "obj_get item ''sha256'' = JStr (sha256_bytes (case old of None \<Rightarrow> [] | Some d \<Rightarrow> d))"
    using rollback_entry_get by blast
  have "l \<noteq> []" using safe_logical_path_Inr(5) [OF assms(1)] .
  moreover have "sha256_bytes d \<noteq> []" for d using is_digest_sha256_bytes [of d] by (auto simp: is_digest_def)
  ultimately show ?thesis using assms unfolding restore_items.simps item(1) json.case item(2,3,4,5)
    by (cases old) (simp_all add: checked_target Let_def)
qed

lemma unlink_frame: "unlink io t disk = (r, disk') \<Longrightarrow> t' \<noteq> t \<Longrightarrow> disk' t' = disk t'"
  by (auto simp: unlink_def split: option.splits if_splits)

lemma unlink_Inr: "unlink io t disk = (Inr u, disk') \<Longrightarrow> disk' = disk(t := None)"
  by (auto simp: unlink_def split: option.splits if_splits)

lemma restore_items_entries:
  assumes "restore_items cd io payload (map (\<lambda>l. sort_keys (rollback_entry l (old l) (mode_of l))) ls) disk = (r, disk')"
    and "checked ls" and "\<forall>l\<in>set ls. payload l = old l"
  shows "(\<forall>t. t \<notin> target_of ` set ls \<longrightarrow> disk' t = disk t)
    \<and> (is_ok r \<longrightarrow> distinct ls \<longrightarrow> (\<forall>l\<in>set ls. disk' (target_of l) = map_option (\<lambda>d. File d (mode_of l)) (old l)))"
  using assms
proof (induction ls arbitrary: disk)
  case (Cons l ls)
  let ?js = "map (\<lambda>l. sort_keys (rollback_entry l (old l) (mode_of l))) ls"
  have l: "safe_logical_path l = Inr l" "payload l = old l" using Cons.prems by simp_all
  obtain s d1 where s: "(case old l of Some d \<Rightarrow> atomic_install io (target_of l) d (mode_of l) disk | None \<Rightarrow> unlink io (target_of l) disk) = (s, d1)"
    by fastforce
  have frame: "d1 t = disk t" if "t \<noteq> target_of l" for t
    using s that by (auto split: option.splits dest: atomic_install_frame unlink_frame)
  have run: "(case s of Inl e \<Rightarrow> (Inl e, d1) | Inr _ \<Rightarrow> restore_items cd io payload ?js d1) = (r, disk')"
    using Cons.prems(1) unfolding list.map restore_items_step [of l payload, OF l] s by (cases s) auto
  show ?case
  proof (cases s)
    case (Inl e)
    then show ?thesis using run frame by auto
  next
    case (Inr u)
    then have d1: "d1 (target_of l) = map_option (\<lambda>d. File d (mode_of l)) (old l)"
      using s by (auto split: option.splits dest: atomic_install_Inr unlink_Inr)
    have IH: "(\<forall>t. t \<notin> target_of ` set ls \<longrightarrow> disk' t = d1 t)
      \<and> (is_ok r \<longrightarrow> distinct ls \<longrightarrow> (\<forall>l\<in>set ls. disk' (target_of l) = map_option (\<lambda>d. File d (mode_of l)) (old l)))"
      using Cons.IH [of d1] run Inr Cons.prems(2,3) by simp
    have "target_of l \<notin> target_of ` set ls" if "l \<notin> set ls"
      using that checked_inj [OF Cons.prems(2)] by (auto simp: inj_on_def)
    then show ?thesis using IH d1 frame by auto
  qed
qed simp

lemma read_rollback_payload:
  assumes "read_rollback_members cd (map (\<lambda>(l, d). plain_member (''payload/'' @ l) d) fs) n man payload = Inr (man', payload')"
    and "checked (map fst fs)" "distinct (map fst fs)"
  shows "man' = man \<and> payload' = payload ++ map_of fs"
  using assms
proof (induction fs arbitrary: n payload)
  case (Cons f fs)
  obtain l d where f: "f = (l, d)" by fastforce
  have md: "data = d" if "member_data MAX_MEMBER_BYTES (plain_member x d) = Some data" for x data
    using that by (auto simp: member_data_def Let_def split: if_splits)
  have "\<exists>n'. read_rollback_members cd (map (\<lambda>(l, d). plain_member (''payload/'' @ l) d) fs) n' man (payload(l \<mapsto> d)) = Inr (man', payload')"
    using Cons.prems(1,2) by (auto simp: f Let_def starts_with_def case_option_Inr split: if_splits dest: md)
  moreover have "l \<notin> dom (map_of fs)" using Cons.prems(3) by (simp add: f dom_map_of_conv_image_fst)
  moreover have "map_of (f # fs) = (map_of fs)(l \<mapsto> d)" "checked (map fst fs)" "distinct (map fst fs)"
    using Cons.prems(2,3) by (simp_all add: f)
  ultimately show ?case using Cons.IH map_upd_before by metis
qed simp

definition snapshot_manifest :: "string \<Rightarrow> string \<Rightarrow> disk \<Rightarrow> string list \<Rightarrow> json" where
  "snapshot_manifest now version disk ls = rollback_manifest now version
     (map (\<lambda>l. rollback_entry l (regular_content disk (target_of l)) (mode_of l)) ls)"

lemma snapshot_manifest_get:
  "is_obj (sort_keys (snapshot_manifest now version disk ls))"
  "obj_get (obj_of (sort_keys (snapshot_manifest now version disk ls))) ''files'' =
     JList (map (\<lambda>l. sort_keys (rollback_entry l (regular_content disk (target_of l)) (mode_of l))) ls)"
proof -
  let ?kvs = "[(''schema'', JStr ROLLBACK_SCHEMA), (''created_at'', JStr now), (''version'', JStr version),
    (''files'', JList (map (\<lambda>l. rollback_entry l (regular_content disk (target_of l)) (mode_of l)) ls))]"
  have "distinct (map fst ?kvs)" by simp
  note obj_get_sorted [OF this, of "''files''"]
  then show "obj_get (obj_of (sort_keys (snapshot_manifest now version disk ls))) ''files'' =
     JList (map (\<lambda>l. sort_keys (rollback_entry l (regular_content disk (target_of l)) (mode_of l))) ls)"
    by (simp add: snapshot_manifest_def rollback_manifest_def comp_def)
qed (simp add: snapshot_manifest_def rollback_manifest_def is_obj_def)

text \<open>A snapshot puts back the files it was taken of, whatever was written to their targets since.\<close>

lemma software_rollback_restores:
  assumes create: "create_software_rollback cd stamp now mt version disk0 ls rbs = (Inr n, rbs')"
    and ls: "checked ls" "distinct ls"
    and law: "cd_json cd (dumps_line cd (snapshot_manifest now version disk0 ls)) = Some (sort_keys (snapshot_manifest now version disk0 ls))"
    and restore: "restore_software_rollback cd io n rbs' disk = (r, disk')"
  shows "(\<forall>t. t \<notin> target_of ` set ls \<longrightarrow> disk' t = disk t) \<and> (is_ok r \<longrightarrow> (\<forall>l\<in>set ls. disk' (target_of l) = previous_node disk0 l))"
proof (cases "read_rollback cd n rbs'")
  case (Inl e)
  then show ?thesis using restore by (auto simp: restore_software_rollback_def)
next
  case (Inr mp)
  then obtain m payload where mp: "read_rollback cd n rbs' = Inr (m, payload)" by (cases mp) auto
  let ?M = "snapshot_manifest now version disk0 ls"
  obtain js ps where items: "rollback_items disk0 ls = Inr (js, ps)"
    and rbs': "rbs' = snd (keep_newest ROLLBACK_RETENTION rf_mtime rollback_name (filter (\<lambda>(m, f). m \<noteq> n) rbs @
      [(n, \<lparr>rf_mtime = mt, rf_members = plain_member ''manifest.json'' (dumps_line cd (rollback_manifest now version js))
           # map (\<lambda>(l, d). plain_member (''payload/'' @ l) d) (sort_key fst ps)\<rparr>)]))"
    using create by (auto simp: create_software_rollback_def guard_in_Inr Let_def)
  note it = rollback_items_Inr [OF items ls(1)]
  have M: "rollback_manifest now version js = ?M" using it by (simp add: snapshot_manifest_def)
  obtain f where f: "map_of rbs' n = Some f" using mp by (auto simp: read_rollback_def split: option.splits)
  have "set rbs' \<subseteq> set (filter (\<lambda>(m, f). m \<noteq> n) rbs @
      [(n, \<lparr>rf_mtime = mt, rf_members = plain_member ''manifest.json'' (dumps_line cd (rollback_manifest now version js))
           # map (\<lambda>(l, d). plain_member (''payload/'' @ l) d) (sort_key fst ps)\<rparr>)])"
    unfolding rbs' using keep_newest_subset by (metis prod.collapse)
  then have members: "rf_members f = plain_member ''manifest.json'' (dumps_line cd ?M)
      # map (\<lambda>(l, d). plain_member (''payload/'' @ l) d) (sort_key fst ps)"
    using map_of_SomeD [OF f] by (auto simp: M)
  obtain j where j: "read_rollback_members cd (rf_members f) 0 None Map.empty = Inr (Some j, payload)" "m = obj_of j"
    using mp f by (auto simp: read_rollback_def res_simps split: if_splits option.splits)
  have md: "data = d" if "member_data MAX_MEMBER_BYTES (plain_member x d) = Some data" for x d data
    using that by (auto simp: member_data_def Let_def split: if_splits)
  have "\<exists>k. read_rollback_members cd (map (\<lambda>(l, d). plain_member (''payload/'' @ l) d) (sort_key fst ps)) k (Some (sort_keys ?M)) Map.empty
      = Inr (Some j, payload)"
    using j(1) law unfolding members by (auto simp: Let_def case_option_Inr split: if_splits dest!: md)
  moreover have "checked (map fst (sort_key fst ps))" "distinct (map fst (sort_key fst ps))"
    using it ls by (auto simp: checked_def)
  ultimately have "j = sort_keys ?M" "payload = map_of (sort_key fst ps)" using read_rollback_payload by fastforce+
  moreover have "map_of (sort_key fst ps) = map_of ps" using it ls(2) map_of_sort_key by blast
  ultimately have "restore_items cd io (map_of ps)
      (map (\<lambda>l. sort_keys (rollback_entry l (regular_content disk0 (target_of l)) (mode_of l))) ls) disk = (r, disk')"
    using restore mp j(2) by (simp add: restore_software_rollback_def snapshot_manifest_get)
  from restore_items_entries [OF this ls(1)] it ls(2) show ?thesis by (auto simp: previous_node_def)
qed

lemma read_members_plain_Inr:
  "read_members (map (\<lambda>(n, d). plain_member n d) fs) acc = Inr all \<Longrightarrow> all = acc @ fs"
proof (induction fs arbitrary: acc)
  case (Cons f fs)
  obtain n d where f: "f = (n, d)" by fastforce
  have "read_members (map (\<lambda>(n, d). plain_member n d) fs) (acc @ [(n, d)]) = Inr all"
    using Cons.prems by (auto simp: f Let_def split: if_splits)
  from Cons.IH [OF this] show ?case by (simp add: f)
qed simp

text \<open>Restoring a backup just made changes no configuration file.\<close>

lemma restore_own_backup:
  assumes create: "create_backup env scheduled keep reason c0 = (Inr (Created n su removed), c)" "distinct (map fst (h_backups c0))"
    and restore: "restore_backup env n apply_it keep' safety c = (r, c')"
  shows "h_files c' = h_files c0"
proof -
  have c: "h_files c = h_files c0" using create_backup_error_files [OF create(1)] .
  consider "h_files c' = h_files c" | n' b m fs where "resolve_backup n c = Inr (n', b)"
      "read_archive (be_codec env) (be_now env) b = Inr (m, fs)" "h_files c' = fold restore_file (sort_key fst fs) (h_files c)"
    using restore_backup_cases [OF restore] by blast
  then show ?thesis
  proof cases
    case 2
    have b: "map_of (h_backups c) n = Some b" using 2(1) by (auto simp: resolve_backup_def split: if_splits option.splits)
    obtain fs0 r where s: "snapshot_sources (be_codec env) (be_now env) (h_files c0) = Inr fs0"
      "sb_members b = Some (archive_of (be_codec env) (manifest_of env r fs0 su) fs0)"
      using create_backup_Created [OF create b] by metis
    obtain all where all: "read_members (archive_of (be_codec env) (manifest_of env r fs0 su) fs0) [] = Inr all"
      "fs = filter (\<lambda>(n, d). n \<noteq> ''manifest.json'') all"
      using 2(2) s(2) by (auto simp: read_archive_def res_simps Let_def split: if_splits option.splits json.splits)
    have "archive_of (be_codec env) (manifest_of env r fs0 su) fs0 = map (\<lambda>(n, d). plain_member n d)
        ((''manifest.json'', dumps_line (be_codec env) (manifest_of env r fs0 su)) # sort_key fst fs0)"
      by (simp add: archive_of_def)
    with all(1) have "all = (''manifest.json'', dumps_line (be_codec env) (manifest_of env r fs0 su)) # sort_key fst fs0"
      using read_members_plain_Inr by (metis append_Nil)
    then have sub: "set fs \<subseteq> set fs0" using all(2) by auto
    have d: "distinct (map fst fs0)" using snapshot_sources_Inr(1) [OF s(1)] by (simp add: distinct_ALLOWED_FILES)
    have "h_files c' p = h_files c p" for p
    proof (rule ccontr)
      assume "h_files c' p \<noteq> h_files c p"
      then obtain k x where k: "(k, x) \<in> set fs" "p = source_path k" "h_files c' p = Some x"
        using fold_restore_change [of "sort_key fst fs" "h_files c" p] unfolding 2(3) by auto
      then have "map_of fs0 k = Some x" using sub d by auto
      then have "h_files c0 p = Some x" using snapshot_sources_Inr(2) [OF s(1)] k(2) by (auto split: if_splits)
      with k(3) c \<open>h_files c' p \<noteq> h_files c p\<close> show False by simp
    qed
    then show ?thesis using c by auto
  qed (simp add: c)
qed

section \<open>The outcome of an update\<close>

lemma check_runtime_frame:
  "check_runtime w t h = (hl, r, h') \<Longrightarrow> uh_disk h' = uh_disk h \<and> uh_config h' = uh_config h
     \<and> uh_rollbacks h' = uh_rollbacks h \<and> uh_history h' = uh_history h \<and> (is_ok r \<longrightarrow> (\<exists>x. hl = Some x \<and> rh_ok x))"
  by (auto simp: check_runtime_def res_simps is_ok_iff split: prod.splits sum.splits)

lemma create_backup_unscheduled:
  "create_backup env False keep reason h = (Inr r, h') \<Longrightarrow> \<exists>n su removed. r = Created n su removed"
  by (auto simp: create_backup_def guard_in_Inr Let_def split: if_splits prod.splits)

definition attempt_spec :: "update_env \<Rightarrow> json \<Rightarrow> files \<Rightarrow> update_host \<Rightarrow> attempt \<Rightarrow> update_host \<Rightarrow> bool" where
  "attempt_spec env keep fs h a h' =
     (uh_history h' = uh_history h \<and> h_files (uh_config h') = h_files (uh_config h)
      \<and> (\<forall>t. t \<notin> targets fs \<longrightarrow> uh_disk h' t = uh_disk h t)
      \<and> (case at_rollback a of
           None \<Rightarrow> uh_disk h' = uh_disk h \<and> uh_calls h' = uh_calls h \<and> \<not> is_ok (at_result a)
         | Some rb \<Rightarrow> (\<exists>n su removed. at_config a = Some n \<and> n \<noteq> []
               \<and> create_backup (ue_backup env) False keep ''pre-update'' (uh_config h) = (Inr (Created n su removed), uh_config h'))
             \<and> create_software_rollback (be_codec (ue_backup env)) (ue_stamp env) (ue_now env) (ue_mtime env)
                 (be_version (ue_backup env)) (uh_disk h) (map fst fs) (uh_rollbacks h) = (Inr rb, uh_rollbacks h')
             \<and> (\<forall>x. at_result a = Inr x \<longrightarrow> uh_disk h' = uh_disk h ++ payload_nodes fs \<and> (\<exists>y. x = Some y \<and> rh_ok y))))"

lemma attempt_update_spec:
  assumes "attempt_update env keep fs h = (a, h')" and fs: "checked (map fst fs)" "distinct (map fst fs)"
  shows "attempt_spec env keep fs h a h'"
proof -
  obtain r c where c: "create_backup (ue_backup env) False keep ''pre-update'' (uh_config h) = (r, c)" by fastforce
  have cf: "h_files c = h_files (uh_config h)" using create_backup_error_files [OF c] .
  show ?thesis
  proof (cases r)
    case (Inl e)
    then show ?thesis using assms(1) cf by (auto simp: attempt_update_def c attempt_spec_def)
  next
    case (Inr b)
    then obtain n su removed where b: "b = Created n su removed" using create_backup_unscheduled c by blast
    obtain rb rs where rb: "create_software_rollback (be_codec (ue_backup env)) (ue_stamp env) (ue_now env) (ue_mtime env)
        (be_version (ue_backup env)) (uh_disk h) (map fst fs) (uh_rollbacks h) = (rb, rs)" by fastforce
    consider "n = []" | e where "n \<noteq> []" "rb = Inl e" | x where "n \<noteq> []" "rb = Inr x" by (cases rb) auto
    then show ?thesis
    proof cases
      case 1
      then show ?thesis using assms(1) cf by (auto simp: attempt_update_def c Inr b Let_def attempt_spec_def)
    next
      case 2
      then show ?thesis using assms(1) cf rb by (auto simp: attempt_update_def c Inr b Let_def attempt_spec_def)
    next
      case x: 3
      note n = x(1)
      obtain i d where i: "install_payload (ue_install_io env) fs (uh_disk h) = (i, d)" by fastforce
      note frame = install_payload_frame [OF i fs(1)]
      show ?thesis
      proof (cases i)
        case (Inl e)
        then show ?thesis using assms(1) cf n rb frame x by (auto simp: attempt_update_def c Inr b Let_def i attempt_spec_def)
      next
        case i': (Inr u)
        obtain hl res h2 where k: "check_runtime (ue_world env) ''Health check post-update fallito.'' (h\<lparr>uh_config := c, uh_rollbacks := rs, uh_disk := d\<rparr>)
          = (hl, res, h2)" by (metis surj_pair)
        have d: "d = uh_disk h ++ payload_nodes fs" using install_payload_Inr [OF i [unfolded i'] fs] .
        have ah: "a = \<lparr>at_result = rbind res (\<lambda>_. Inr hl), at_config = Some n, at_rollback = Some x\<rparr>" "h' = h2"
          using assms(1) n rb x by (simp_all add: attempt_update_def c Inr b Let_def i i' k)
        show ?thesis unfolding ah(2) using check_runtime_frame [OF k] c rb cf n frame x d
          by (auto simp: ah(1) Inr b attempt_spec_def res_simps)
      qed
    qed
  qed
qed

definition rolled_disk :: "files \<Rightarrow> disk \<Rightarrow> disk" where
  \<comment> \<open>the disk before the update, except that a target that was no regular file is gone and a
     target that was one has the mode the program gives it\<close>
  "rolled_disk fs disk t = (if t \<in> targets fs then previous_node disk (logical_of t) else disk t)"

lemma stage_package_Inr:
  assumes "stage_package cd p = Inr (m, fs)"
  obtains fs0 where "read_package cd p = Inr (m, fs0)" "fs = sort_key fst fs0" "checked (map fst fs)" "distinct (map fst fs)"
    "package_sound cd p m fs0"
proof -
  obtain fs0 where r: "read_package cd p = Inr (m, fs0)" "fs = sort_key fst fs0"
    using assms by (auto simp: stage_package_def res_simps split: if_splits)
  note s = read_package_sound [OF r(1)]
  then have "checked (map fst fs)" "distinct (map fst fs)" by (auto simp: r(2) package_sound_def checked_def)
  with r s that show thesis by blast
qed

lemma recover_frame:
  "recover env v a e h = (r, h') \<Longrightarrow> at_rollback a = None \<Longrightarrow> uh_disk h' = uh_disk h \<and> uh_calls h' = uh_calls h
     \<and> uh_config h' = uh_config h \<and> (\<exists>u. uh_history h' = Some u \<and> \<not> ur_rolled_back u \<and> ur_rollback u = None)"
  by (auto simp: recover_def Let_def)

lemma roll_back_spec:
  assumes "roll_back env (Some n) rb h = (hl, r, h')" and n: "n \<noteq> []"
  shows "\<exists>s q. restore_software_rollback (be_codec (ue_backup env)) (ue_rollback_io env) rb (uh_rollbacks h) (uh_disk h) = (s, uh_disk h')
    \<and> (is_ok r \<longrightarrow> is_ok s) \<and> (uh_config h' = uh_config h
      \<or> restore_backup (ue_backup env) n True (JInt DEFAULT_RETENTION) False (uh_config h) = (q, uh_config h'))"
proof -
  obtain s d where s: "restore_software_rollback (be_codec (ue_backup env)) (ue_rollback_io env) rb (uh_rollbacks h) (uh_disk h) = (s, d)"
    by fastforce
  obtain q c where q: "restore_backup (ue_backup env) n True (JInt DEFAULT_RETENTION) False (uh_config h) = (q, c)" by fastforce
  have "uh_disk h' = d \<and> (is_ok r \<longrightarrow> is_ok s) \<and> (uh_config h' = uh_config h \<or> uh_config h' = c)"
    using assms unfolding roll_back_def s
    by (cases s; cases q) (auto simp: q Let_def dest!: check_runtime_frame)
  then show ?thesis using s q by blast
qed

lemma recover_Inl: "\<exists>t. fst (recover env v a e h) = Inl (BridgeError t)"
  by (auto simp: recover_def Let_def split: prod.splits option.splits list.splits)

lemma payload_nodes_at:
  assumes "checked (map fst fs)" "distinct (map fst fs)" "(l, d) \<in> set fs"
  shows "payload_nodes fs (target_of l) = Some (File d (mode_of l))"
proof -
  have "distinct (map target_of (map fst fs))" using assms(2) checked_inj [OF assms(1)] by (simp add: distinct_map inj_on_def)
  then have "distinct (map fst (map (\<lambda>(l, d). (target_of l, File d (mode_of l))) fs))" by (simp add: comp_def case_prod_unfold)
  then show ?thesis unfolding payload_nodes_def using assms(3) by (force intro: map_of_is_SomeI)
qed

lemma targets_sort [simp]: "targets (sort_key fst fs) = targets fs"
  by (simp add: targets_def)

lemma preflight_newer:
  "is_ok (preflight_update cd tools current True p) \<Longrightarrow> \<exists>m fs v new old. read_package cd p = Inr (m, fs)
     \<and> validate_version (cd_str cd) (obj_get m ''version'') = Inr v
     \<and> version_tuple v = Inr new \<and> version_tuple current = Inr old \<and> old < new"
  by (fastforce simp: preflight_update_def verify_update_def is_ok_iff res_simps)

lemma recover_spec:
  assumes rec: "recover env v a e h1 = (r, h')" and spec: "attempt_spec env keep fs h a h1" and rb: "at_rollback a = Some rb"
    and fs: "checked (map fst fs)" "distinct (map fst fs)" and d: "distinct (map fst (h_backups (uh_config h)))"
    and law: "let j = snapshot_manifest (ue_now env) (be_version (ue_backup env)) (uh_disk h) (map fst fs) in
       cd_json (be_codec (ue_backup env)) (dumps_line (be_codec (ue_backup env)) j) = Some (sort_keys j)"
  shows "h_files (uh_config h') = h_files (uh_config h) \<and> (\<exists>u. uh_history h' = Some u \<and> ur_rollback u \<noteq> None
    \<and> (\<forall>t. t \<notin> targets fs \<longrightarrow> uh_disk h' t = uh_disk h t) \<and> (ur_rolled_back u \<longrightarrow> uh_disk h' = rolled_disk fs (uh_disk h)))"
proof -
  let ?b = "ue_backup env" and ?cd = "be_codec (ue_backup env)"
  obtain n su removed where n: "at_config a = Some n" "n \<noteq> []"
      "create_backup ?b False keep ''pre-update'' (uh_config h) = (Inr (Created n su removed), uh_config h1)"
    and sr: "create_software_rollback ?cd (ue_stamp env) (ue_now env) (ue_mtime env) (be_version ?b) (uh_disk h)
      (map fst fs) (uh_rollbacks h) = (Inr rb, uh_rollbacks h1)"
    using spec rb by (auto simp: attempt_spec_def)
  obtain hl res h2 where undone: "roll_back env (Some n) rb h1 = (hl, res, h2)" by (metis surj_pair)
  have h': "uh_disk h' = uh_disk h2" "uh_config h' = uh_config h2"
    "\<exists>u. uh_history h' = Some u \<and> ur_rollback u = Some rb \<and> (ur_rolled_back u \<longleftrightarrow> is_ok res)"
    using rec by (auto simp: recover_def rb n(1) undone Let_def split: option.splits list.splits sum.splits)
  obtain s q where s: "restore_software_rollback ?cd (ue_rollback_io env) rb (uh_rollbacks h1) (uh_disk h1) = (s, uh_disk h2)"
      "is_ok res \<longrightarrow> is_ok s" and q: "uh_config h2 = uh_config h1
        \<or> restore_backup ?b n True (JInt DEFAULT_RETENTION) False (uh_config h1) = (q, uh_config h2)"
    using roll_back_spec [OF undone n(2)] by (elim exE conjE) (rule that)
  have config: "h_files (uh_config h2) = h_files (uh_config h)"
    using q restore_own_backup [OF n(3) d] spec by (auto simp: attempt_spec_def)
  have ts: "target_of ` set (map fst fs) = targets fs" by (simp add: targets_def)
  note undone = software_rollback_restores [OF sr fs law [unfolded Let_def] s(1), unfolded ts]
  have frame: "uh_disk h2 t = uh_disk h t" if "t \<notin> targets fs" for t
    using undone that spec by (auto simp: attempt_spec_def)
  moreover have "uh_disk h2 = rolled_disk fs (uh_disk h)" if "is_ok res"
  proof (rule ext)
    fix t
    show "uh_disk h2 t = rolled_disk fs (uh_disk h) t"
    proof (cases "t \<in> targets fs")
      case True
      then obtain l where l: "l \<in> set (map fst fs)" "t = target_of l" by (auto simp: targets_def)
      then have "logical_of t = l" using logical_of_target [of l l] fs(1) by (auto simp: checked_def)
      then show ?thesis using True undone s(2) that l by (auto simp: rolled_disk_def)
    qed (simp add: frame rolled_disk_def)
  qed
  ultimately show ?thesis using h' config by auto
qed

text \<open>
  C15. A successful update installed the package. When \<open>apply_update\<close> returns, the package was
  accepted and its version is greater than the installed one; each of its files is at its target
  with its contents and mode, every other path of the disk and all configuration files are as
  they were; and the last health check found all services active and both endpoints well.
\<close>

theorem successful_update_installs:
  assumes "apply_update env keep p h = (Inr r, h')"
  shows "\<exists>m fs v new old. read_package (be_codec (ue_backup env)) p = Inr (m, fs)
    \<and> package_sound (be_codec (ue_backup env)) p m fs
    \<and> validate_version (cd_str (be_codec (ue_backup env))) (obj_get m ''version'') = Inr v
    \<and> version_tuple v = Inr new \<and> version_tuple (be_version (ue_backup env)) = Inr old \<and> old < new
    \<and> (\<forall>(l, d)\<in>set fs. uh_disk h' (target_of l) = Some (File d (mode_of l)))
    \<and> (\<forall>t. t \<notin> targets fs \<longrightarrow> uh_disk h' t = uh_disk h t)
    \<and> h_files (uh_config h') = h_files (uh_config h)
    \<and> uh_history h' = Some r \<and> ur_ok r \<and> (\<exists>x. ur_health r = Some x \<and> rh_ok x)"
proof -
  let ?cd = "be_codec (ue_backup env)"
  obtain m fs where st: "stage_package ?cd p = Inr (m, fs)" and pf: "is_ok (preflight_update ?cd (ue_tools env) (be_version (ue_backup env)) True p)"
    using assms by (auto simp: apply_update_def Let_def guard_in_Inr is_ok_iff)
  obtain fs0 where fs: "read_package ?cd p = Inr (m, fs0)" "fs = sort_key fst fs0" "checked (map fst fs)" "distinct (map fst fs)"
    "package_sound ?cd p m fs0" using stage_package_Inr [OF st] by blast
  obtain a h1 where a: "attempt_update env keep fs h = (a, h1)" by fastforce
  note spec = attempt_update_spec [OF a fs(3,4)]
  have "is_ok (at_result a)"
    using assms pf recover_Inl [of env "obj_get m ''version''" a _ h1]
    by (auto simp: apply_update_def Let_def st a is_ok_iff split: sum.splits) (metis fst_conv sum.distinct(1))
  then obtain x where x: "at_result a = Inr x" by (auto simp: is_ok_iff)
  have r: "r = \<lparr>ur_ok = True, ur_rolled_back = False, ur_from = be_version (ue_backup env), ur_to = obj_get m ''version'',
      ur_config_backup = at_config a, ur_rollback = at_rollback a, ur_error = None, ur_rollback_error = None,
      ur_health = x, ur_completed = ue_now env\<rparr>" and h': "h' = h1\<lparr>uh_history := Some r\<rparr>"
    using assms pf by (auto simp: apply_update_def Let_def st a x is_ok_iff)
  have d: "uh_disk h1 = uh_disk h ++ payload_nodes fs" "\<exists>y. x = Some y \<and> rh_ok y" "h_files (uh_config h1) = h_files (uh_config h)"
    using spec x by (auto simp: attempt_spec_def split: option.splits)
  have "uh_disk h' (target_of l) = Some (File d (mode_of l))" if "(l, d) \<in> set fs0" for l d
    using payload_nodes_at [OF fs(3,4), of l d] that fs(2) by (simp add: h' d(1))
  moreover have "uh_disk h' t = uh_disk h t" if "t \<notin> targets fs0" for t
    using that dom_payload_nodes [of fs] fs(2) by (simp add: h' d(1) map_add_dom_app_simps(3) domIff)
  moreover obtain v new old where "validate_version (cd_str ?cd) (obj_get m ''version'') = Inr v"
    "version_tuple v = Inr new" "version_tuple (be_version (ue_backup env)) = Inr old" "old < new"
    using preflight_newer [OF pf] fs(1) by auto
  ultimately show ?thesis using fs(1,5) d(2,3) by (auto simp: h' r)
qed

text \<open>
  C14. A failed update leaves the old software or the old software back in place. When
  \<open>apply_update\<close> raises, the configuration files are as they were. Either nothing of the disk was
  touched and no service was, or the recorded result names a snapshot: then every path that is no
  target of the package is as it was, and if the result says the update was rolled back, every
  target that was a regular file has its old contents (and the mode the program gives it) and every
  other target is gone.
\<close>

theorem failed_update_restores:
  assumes fail: "apply_update env keep p h = (Inl e, h')"
    and distinct: "distinct (map fst (h_backups (uh_config h)))"
    and law: "\<forall>m fs. stage_package (be_codec (ue_backup env)) p = Inr (m, fs) \<longrightarrow>
      (let j = snapshot_manifest (ue_now env) (be_version (ue_backup env)) (uh_disk h) (map fst fs) in
       cd_json (be_codec (ue_backup env)) (dumps_line (be_codec (ue_backup env)) j) = Some (sort_keys j))"
  shows "h_files (uh_config h') = h_files (uh_config h)
    \<and> (uh_disk h' = uh_disk h \<and> uh_calls h' = uh_calls h
       \<or> (\<exists>m fs r. read_package (be_codec (ue_backup env)) p = Inr (m, fs) \<and> uh_history h' = Some r \<and> ur_rollback r \<noteq> None
           \<and> (\<forall>t. t \<notin> targets fs \<longrightarrow> uh_disk h' t = uh_disk h t)
           \<and> (ur_rolled_back r \<longrightarrow> uh_disk h' = rolled_disk fs (uh_disk h))))"
proof (cases "is_ok (preflight_update (be_codec (ue_backup env)) (ue_tools env) (be_version (ue_backup env)) True p)
    \<and> is_ok (stage_package (be_codec (ue_backup env)) p)")
  case False
  then have "h' = h" using fail
    by (cases "preflight_update (be_codec (ue_backup env)) (ue_tools env) (be_version (ue_backup env)) True p";
        cases "stage_package (be_codec (ue_backup env)) p") (auto simp: apply_update_def Let_def)
  then show ?thesis by simp
next
  case True
  let ?cd = "be_codec (ue_backup env)"
  obtain m fs where st: "stage_package ?cd p = Inr (m, fs)" using True by (auto simp: is_ok_iff)
  obtain fs0 where fs: "read_package ?cd p = Inr (m, fs0)" "fs = sort_key fst fs0" "checked (map fst fs)" "distinct (map fst fs)"
    using stage_package_Inr [OF st] by metis
  obtain a h1 where a: "attempt_update env keep fs h = (a, h1)" by fastforce
  note spec = attempt_update_spec [OF a fs(3,4)]
  obtain x where x: "at_result a = Inl x" and rec: "recover env (obj_get m ''version'') a x h1 = (Inl e, h')"
    using fail True st a by (auto simp: apply_update_def Let_def is_ok_iff split: sum.splits)
  show ?thesis
  proof (cases "at_rollback a")
    case None
    then show ?thesis using recover_frame [OF rec None] spec by (auto simp: attempt_spec_def)
  next
    case (Some rb)
    have "let j = snapshot_manifest (ue_now env) (be_version (ue_backup env)) (uh_disk h) (map fst fs) in
      cd_json ?cd (dumps_line ?cd j) = Some (sort_keys j)" using law st by blast
    with recover_spec [OF rec spec Some fs(3,4) distinct] fs(1) show ?thesis by (fastforce simp: fs(2) rolled_disk_def fun_eq_iff)
  qed
qed

text \<open>
  \<open>run_update\<close> installs only what the caller's SHA-256 names. If it changes anything, the URL and
  the address the answer came from are HTTPS, the bytes have the given digest, and what happens is
  \<open>apply_update\<close> on exactly these bytes.
\<close>

theorem run_update_pinned:
  assumes "run_update fetch unpack env url digest keep h = (res, h')" and "h' \<noteq> h"
  shows "\<exists>f d parsed final. fetch url = Fetched f \<and> d = take (MAX_PACKAGE_BYTES + 1) (ft_body f) \<and> length d \<le> MAX_PACKAGE_BYTES
    \<and> sha256_bytes d = py_lower (py_strip digest)
    \<and> urlsplit (py_strip url) = Inr parsed \<and> py_lower (u_scheme parsed) = ''https''
    \<and> urlsplit (ft_url f) = Inr final \<and> py_lower (u_scheme final) = ''https''
    \<and> (res, h') = apply_update env keep \<lparr>pk_regular = True, pk_data = d, pk_members = unpack d\<rparr> h"
  using assms
  by (auto simp: run_update_def download_update_def validate_sha256_hex_def guard_in_def res_simps Let_def
      split: sum.splits if_splits fetch_result.splits option.splits)

section \<open>A concrete update\<close>

definition demo_system_codec :: "json \<Rightarrow> json \<Rightarrow> codec" where
  \<comment> \<open>knows an empty list, a package manifest and the manifest of a software snapshot\<close>
  "demo_system_codec m r = \<lparr>cd_text = Some,
     cd_json = (\<lambda>s. if s = ''[]'' then Some (JList []) else if s = ''M'' @ [CHR 0x0A] then Some (sort_keys m)
       else if s = ''R'' @ [CHR 0x0A] then Some (sort_keys r) else None),
     cd_dumps = (\<lambda>j. if j = sort_keys r then ''R'' else ''M''), cd_str = (\<lambda>_. [])\<rparr>"

definition demo_old_disk :: disk where
  "demo_old_disk = [''/opt/ge360-bridge/ge360_bridge/cli.py'' \<mapsto> File ''old'' 420]"

definition demo_update_env :: "(sys_call list \<Rightarrow> string list \<Rightarrow> int) \<Rightarrow> json \<Rightarrow> update_env" where
  "demo_update_env rc r = \<lparr>ue_backup = (demo_backup_env JNull)\<lparr>be_codec := demo_system_codec demo_update_manifest r\<rparr>,
     ue_tools = \<lparr>pt_compile = (\<lambda>_. True), pt_bash = (\<lambda>_ _. Inr (0, []))\<rparr>,
     ue_world = \<lparr>w_rc = rc, w_http = (\<lambda>_ _. True)\<rparr>, ue_install_io = (\<lambda>_. None), ue_rollback_io = (\<lambda>_. None),
     ue_text = (\<lambda>_. ''error''), ue_stamp = ''20260101T000000000000Z'', ue_now = ''now'', ue_mtime = 5\<rparr>"

definition demo_update_host :: update_host where
  "demo_update_host = \<lparr>uh_config = \<lparr>h_files = demo_disk, h_backups = []\<rparr>, uh_disk = demo_old_disk, uh_rollbacks = [],
     uh_history = None, uh_calls = []\<rparr>"

lemma demo_system_codec_simps:
  "cd_text (demo_system_codec m r) = Some" "cd_json (demo_system_codec m r) (''M'' @ [CHR 0x0A]) = Some (sort_keys m)"
  "dumps_line (demo_system_codec m r) r = ''R'' @ [CHR 0x0A]"
  "cd_json (demo_system_codec m r) (''R'' @ [CHR 0x0A]) = Some (sort_keys r)"
  by (simp_all add: demo_system_codec_def dumps_line_def)

lemma demo_system_read:
  "read_package (demo_system_codec demo_update_manifest r) demo_package = Inr (obj_of (sort_keys demo_update_manifest), sort_key fst demo_source)"
  "obj_get (obj_of (sort_keys demo_update_manifest)) ''version'' = JStr ''0.24.0''"
proof -
  let ?fs = "sort_key fst demo_source" and ?cd = "demo_system_codec demo_update_manifest r"
  have d: "distinct (map fst ?fs)" by code_simp
  have v: "\<forall>(l, d)\<in>set ?fs. safe_logical_path l = Inr l \<and> length d \<le> MAX_MEMBER_BYTES" by code_simp
  have q: "set REQUIRED_RUNTIME_PATHS \<subseteq> fst ` set ?fs" by code_simp
  have t: "validate_version f (JStr ''0.24.0'') = Inr ''0.24.0''" for f by code_simp
  have "search_version True (file_of ?fs ''ge360_bridge/__init__.py'') = Some ''0.24.0''" by code_simp
  then have i: "init_version ?cd (file_of ?fs ''ge360_bridge/__init__.py'') = Inr (Some ''0.24.0'')"
    by (simp add: init_version_def demo_system_codec_simps)
  have c: "content_size ?fs = 28" by code_simp
  have m: "pk_members demo_package = Some (plain_member ''manifest.json'' (''M'' @ [CHR 0x0A])
      # map (\<lambda>(l, d). plain_member (''payload/'' @ l) d) ?fs)"
    by (simp add: demo_package_def demo_built_def demo_dumps)
  note r = read_package_of [where raw = "''M'' @ [CHR 0x0A]" and now = "''now''" and v = "''0.24.0''" and fs = ?fs and cd = ?cd
      and p = demo_package, OF _ _ d v q t i _ _ _ m, folded demo_update_manifest_def]
  have len: "length demo_source = 7" by code_simp
  show "read_package ?cd demo_package = Inr (obj_of (sort_keys demo_update_manifest), ?fs)"
    by (rule r(1)) (simp_all add: demo_system_codec_def demo_package_def MAX_MEMBER_BYTES_def MAX_PACKAGE_BYTES_def MAX_PACKAGE_FILES_def
        MAX_UNPACKED_BYTES_def c len)
  show "obj_get (obj_of (sort_keys demo_update_manifest)) ''version'' = JStr ''0.24.0''"
    by (rule r(2)) (simp_all add: demo_system_codec_def demo_package_def MAX_MEMBER_BYTES_def MAX_PACKAGE_BYTES_def MAX_PACKAGE_FILES_def
        MAX_UNPACKED_BYTES_def c len)
qed

lemma demo_system_stage:
  "stage_package (demo_system_codec demo_update_manifest r) demo_package = Inr (obj_of (sort_keys demo_update_manifest), sort_key fst demo_source)"
proof -
  have "stage_clash (map fst (sort_key fst demo_source)) = False" "sort_key fst (sort_key fst demo_source) = sort_key fst demo_source" by code_simp+
  then show ?thesis by (simp add: stage_package_def demo_system_read)
qed

lemma demo_system_preflight:
  "is_ok (preflight_update (demo_system_codec demo_update_manifest r) \<lparr>pt_compile = (\<lambda>_. True), pt_bash = (\<lambda>_ _. Inr (0, []))\<rparr>
     ''0.23.0'' True demo_package)"
proof -
  have t: "validate_version f (JStr ''0.24.0'') = Inr ''0.24.0''" for f by code_simp
  have n: "version_tuple ''0.24.0'' = Inr [0, 24, 0]" "version_tuple ''0.23.0'' = Inr [0, 23, 0]" "\<not> [0, 24, 0::int] \<le> [0, 23, 0]" by code_simp+
  have u: "filter (\<lambda>f. starts_with ''systemd/'' (fst f)) (sort_key fst demo_source) = []" by code_simp
  have b: "rmap (check_shell \<lparr>pt_compile = (\<lambda>_. True), pt_bash = (\<lambda>_ _. Inr (0, []))\<rparr>) fs = Inr (map (\<lambda>_. ()) fs)" for fs
    by (induction fs) (simp_all add: check_shell_def)
  show ?thesis by (simp add: preflight_update_def verify_update_def demo_system_read t n demo_system_stage u b)
qed

lemma demo_system_snapshot:
  "snapshot_sources (demo_system_codec m r) now demo_disk = Inr demo_files"
  "validate_snapshot (demo_system_codec m r) now demo_files = Inr \<lparr>su_devices = 0, su_resources = 0, su_groups = 0\<rparr>"
  by code_simp+

lemma demo_system_create:
  "\<exists>b. create_backup (ue_backup (demo_update_env rc r)) False (JInt 10) ''pre-update'' \<lparr>h_files = demo_disk, h_backups = []\<rparr>
     = (Inr (Created ''ge360-config-20260101T000000Z-pre-update.tar.gz'' \<lparr>su_devices = 0, su_resources = 0, su_groups = 0\<rparr> []),
        \<lparr>h_files = demo_disk, h_backups = [(''ge360-config-20260101T000000Z-pre-update.tar.gz'', b)]\<rparr>)"
proof -
  let ?e = "ue_backup (demo_update_env rc r)"
  have c: "be_codec ?e = demo_system_codec demo_update_manifest r" "be_gzip ?e ms = 100" for ms
    by (simp_all add: demo_update_env_def demo_backup_env_def)
  have n: "backup_name ?e ''pre-update'' = ''ge360-config-20260101T000000Z-pre-update.tar.gz''"
    by (simp add: backup_name_def demo_update_env_def demo_backup_env_def)
  show ?thesis unfolding create_backup_def demo_retention Let_def
    by (simp add: str_or_def c n demo_prune demo_system_snapshot MAX_ARCHIVE_BYTES_def)
qed

lemma rollback_items_works:
  "checked ls \<Longrightarrow> \<forall>t d. regular_content disk t = Some d \<longrightarrow> length d \<le> MAX_MEMBER_BYTES \<Longrightarrow> is_ok (rollback_items disk ls)"
  by (induction ls) (auto simp: checked_target Let_def is_ok_iff leD split: option.splits)

lemma demo_system_rollback:
  "\<exists>rs. create_software_rollback cd stamp now t version demo_old_disk (map fst (sort_key fst demo_source)) []
     = (Inr (''rollback-'' @ stamp @ ''-from-'' @ version @ ''.tar.gz''), rs)"
proof -
  have "checked (map fst (sort_key fst demo_source))" by code_simp
  moreover have "\<forall>t d. regular_content demo_old_disk t = Some d \<longrightarrow> length d \<le> MAX_MEMBER_BYTES"
    by (simp add: regular_content_def demo_old_disk_def MAX_MEMBER_BYTES_def)
  ultimately have "is_ok (rollback_items demo_old_disk (map fst (sort_key fst demo_source)))" by (rule rollback_items_works)
  then show ?thesis by (auto simp: create_software_rollback_def Let_def is_ok_iff)
qed

lemma install_payload_works:
  "\<forall>t. io t = None \<Longrightarrow> checked (map fst fs) \<Longrightarrow> \<exists>d. install_payload io fs disk = (Inr (), d)"
proof (induction fs arbitrary: disk)
  case (Cons f fs)
  then show ?case by (cases f) (simp add: checked_target atomic_install_def)
qed simp

lemma run_commands_works: "\<forall>c a. w_rc w c a = 0 \<Longrightarrow> run_commands w cmds calls = (Inr (), calls @ map Systemctl cmds)"
  by (induction cmds arbitrary: calls) auto

lemma probe_services_works: "\<forall>c a. w_rc w c a = 0 \<Longrightarrow> list_all snd (fst (probe_services w us calls))"
  by (induction us arbitrary: calls) (auto simp: Let_def split: prod.splits, metis fst_conv)

lemma check_runtime_works:
  assumes "\<forall>c a. w_rc w c a = 0" "\<forall>c u. w_http w c u"
  shows "\<exists>hl h'. check_runtime w t h = (Some hl, Inr (), h')"
proof -
  have "\<exists>calls'. restart_runtime w calls = (Inr (), calls')" for calls
    using assms(1) run_commands_works [OF assms(1)] by (auto simp: restart_runtime_def Let_def)
  moreover have "\<exists>hl calls'. health_check_runtime w calls = (hl, calls') \<and> rh_ok hl" for calls
  proof -
    obtain sv cs where p: "probe_services w CORE_SERVICES calls = (sv, cs)" by fastforce
    then have "list_all snd sv" using probe_services_works [OF assms(1), of CORE_SERVICES calls] by simp
    then have "\<exists>hl calls'. health_loop w (Suc 9) l calls = (hl, calls') \<and> rh_ok hl" for l
      using assms(2) by (subst health_loop.simps) (simp add: p Let_def)
    then show ?thesis by (simp add: health_check_runtime_def)
  qed
  ultimately obtain c1 hl c2 where "restart_runtime w (uh_calls h) = (Inr (), c1)" "health_check_runtime w c1 = (hl, c2)" "rh_ok hl"
    by blast
  then show ?thesis by (simp add: check_runtime_def)
qed

lemma demo_attempt:
  assumes "attempt_update (demo_update_env rc r) (JInt 10) (sort_key fst demo_source) demo_update_host = (a, h1)"
  shows "(\<forall>c x. rc c x = 0) \<Longrightarrow> is_ok (at_result a)" and "rc [] [''daemon-reload''] \<noteq> 0 \<Longrightarrow> \<not> is_ok (at_result a) \<and> at_rollback a \<noteq> None"
proof -
  let ?e = "demo_update_env rc r" and ?fs = "sort_key fst demo_source"
  have ch: "checked (map fst ?fs)" by code_simp
  obtain b where b: "create_backup (ue_backup ?e) False (JInt 10) ''pre-update'' (uh_config demo_update_host)
     = (Inr (Created ''ge360-config-20260101T000000Z-pre-update.tar.gz'' \<lparr>su_devices = 0, su_resources = 0, su_groups = 0\<rparr> []), b)"
    using demo_system_create unfolding demo_update_host_def by fastforce
  obtain n rs where n: "create_software_rollback (be_codec (ue_backup ?e)) (ue_stamp ?e) (ue_now ?e) (ue_mtime ?e) (be_version (ue_backup ?e))
      (uh_disk demo_update_host) (map fst ?fs) (uh_rollbacks demo_update_host) = (Inr n, rs)"
    using demo_system_rollback unfolding demo_update_host_def by fastforce
  have "\<forall>t. ue_install_io ?e t = None" by (simp add: demo_update_env_def)
  then obtain d where d: "install_payload (ue_install_io ?e) ?fs (uh_disk demo_update_host) = (Inr (), d)"
    using install_payload_works [OF _ ch] by blast
  obtain hl res h2 where k: "check_runtime (ue_world ?e) ''Health check post-update fallito.''
      (demo_update_host\<lparr>uh_config := b, uh_rollbacks := rs, uh_disk := d\<rparr>) = (hl, res, h2)" by (metis surj_pair)
  have a: "a = \<lparr>at_result = rbind res (\<lambda>_. Inr hl), at_config = Some ''ge360-config-20260101T000000Z-pre-update.tar.gz'', at_rollback = Some n\<rparr>"
    using assms b n d k by (simp add: attempt_update_def Let_def demo_update_host_def)
  show "is_ok (at_result a)" if rc: "\<forall>c x. rc c x = 0"
  proof -
    have "\<forall>c x. w_rc (ue_world ?e) c x = 0" "\<forall>c u. w_http (ue_world ?e) c u" using rc by (simp_all add: demo_update_env_def)
    from check_runtime_works [OF this] obtain y z where "check_runtime (ue_world ?e) ''Health check post-update fallito.''
      (demo_update_host\<lparr>uh_config := b, uh_rollbacks := rs, uh_disk := d\<rparr>) = (Some y, Inr (), z)" by blast
    then have "res = Inr ()" unfolding k by simp
    then show ?thesis by (simp add: a)
  qed
  show "\<not> is_ok (at_result a) \<and> at_rollback a \<noteq> None" if "rc [] [''daemon-reload''] \<noteq> 0"
    using that k by (auto simp: a check_runtime_def restart_runtime_def demo_update_env_def demo_update_host_def)
qed

lemma demo_apply:
  assumes "attempt_update (demo_update_env rc r) (JInt 10) (sort_key fst demo_source) demo_update_host = (a, h1)"
  shows "apply_update (demo_update_env rc r) (JInt 10) demo_package demo_update_host = (case at_result a of
     Inr health \<Rightarrow> (let result = \<lparr>ur_ok = True, ur_rolled_back = False, ur_from = ''0.23.0'', ur_to = JStr ''0.24.0'',
         ur_config_backup = at_config a, ur_rollback = at_rollback a, ur_error = None, ur_rollback_error = None,
         ur_health = health, ur_completed = ''now''\<rparr> in (Inr result, h1\<lparr>uh_history := Some result\<rparr>))
   | Inl e \<Rightarrow> recover (demo_update_env rc r) (JStr ''0.24.0'') a e h1)"
proof -
  have e: "be_codec (ue_backup (demo_update_env rc r)) = demo_system_codec demo_update_manifest r"
    "be_version (ue_backup (demo_update_env rc r)) = ''0.23.0''" "ue_now (demo_update_env rc r) = ''now''"
    "ue_tools (demo_update_env rc r) = \<lparr>pt_compile = (\<lambda>_. True), pt_bash = (\<lambda>_ _. Inr (0, []))\<rparr>"
    by (simp_all add: demo_update_env_def demo_backup_env_def)
  obtain v where v: "preflight_update (demo_system_codec demo_update_manifest r) \<lparr>pt_compile = (\<lambda>_. True), pt_bash = (\<lambda>_ _. Inr (0, []))\<rparr>
     ''0.23.0'' True demo_package = Inr v" using demo_system_preflight [of r] unfolding is_ok_iff by blast
  show ?thesis by (cases "at_result a") (simp_all add: apply_update_def e v demo_system_stage assms demo_system_read(2))
qed

theorem successful_update_installs_witness:
  "\<exists>r h'. apply_update (demo_update_env (\<lambda>_ _. 0) JNull) (JInt 10) demo_package demo_update_host = (Inr r, h')
    \<and> uh_disk h' (target_of ''ge360-bridge'') = Some (File ''x'' 493) \<and> uh_history h' = Some r"
proof -
  let ?e = "demo_update_env (\<lambda>_ _. 0) JNull"
  obtain a h1 where a: "attempt_update ?e (JInt 10) (sort_key fst demo_source) demo_update_host = (a, h1)" by fastforce
  then obtain x where "at_result a = Inr x" using demo_attempt(1) [OF a] by (auto simp: is_ok_iff)
  then obtain r h' where r: "apply_update ?e (JInt 10) demo_package demo_update_host = (Inr r, h')"
    using demo_apply [OF a] by (auto simp: Let_def)
  have e: "be_codec (ue_backup ?e) = demo_system_codec demo_update_manifest JNull" by (simp add: demo_update_env_def)
  have "(''ge360-bridge'', ''x'') \<in> set (sort_key fst demo_source)" "mode_of ''ge360-bridge'' = 493" by code_simp+
  moreover have "\<forall>(l, d)\<in>set (sort_key fst demo_source). uh_disk h' (target_of l) = Some (File d (mode_of l))" "uh_history h' = Some r"
    using successful_update_installs [OF r] by (auto simp: e demo_system_read(1))
  ultimately show ?thesis using r by fastforce
qed

theorem failed_update_restores_witness:
  "\<exists>e h' r. apply_update (demo_update_env (\<lambda>_ _. 1) (snapshot_manifest ''now'' ''0.23.0'' demo_old_disk (map fst (sort_key fst demo_source))))
      (JInt 10) demo_package demo_update_host = (Inl e, h')
    \<and> h_files (uh_config h') = demo_disk \<and> (uh_disk h' = demo_old_disk \<and> uh_calls h' = [] \<or> uh_history h' = Some r \<and> ur_rollback r \<noteq> None)"
proof -
  let ?r = "snapshot_manifest ''now'' ''0.23.0'' demo_old_disk (map fst (sort_key fst demo_source))"
  let ?e = "demo_update_env (\<lambda>_ _. 1) ?r"
  obtain a h1 where a: "attempt_update ?e (JInt 10) (sort_key fst demo_source) demo_update_host = (a, h1)" by fastforce
  then obtain x where "at_result a = Inl x" using demo_attempt(2) [OF a] by (cases "at_result a") auto
  then obtain e h' where f: "apply_update ?e (JInt 10) demo_package demo_update_host = (Inl e, h')"
    using demo_apply [OF a] recover_Inl [of ?e "JStr ''0.24.0''" a x h1] by (cases "recover ?e (JStr ''0.24.0'') a x h1") auto
  have e: "be_codec (ue_backup ?e) = demo_system_codec demo_update_manifest ?r" "ue_now ?e = ''now''" "be_version (ue_backup ?e) = ''0.23.0''"
    by (simp_all add: demo_update_env_def demo_backup_env_def)
  have h: "uh_disk demo_update_host = demo_old_disk" "h_files (uh_config demo_update_host) = demo_disk" "uh_calls demo_update_host = []"
    "h_backups (uh_config demo_update_host) = []" by (simp_all add: demo_update_host_def)
  have law: "\<forall>m fs. stage_package (be_codec (ue_backup ?e)) demo_package = Inr (m, fs) \<longrightarrow>
      (let j = snapshot_manifest (ue_now ?e) (be_version (ue_backup ?e)) (uh_disk demo_update_host) (map fst fs) in
       cd_json (be_codec (ue_backup ?e)) (dumps_line (be_codec (ue_backup ?e)) j) = Some (sort_keys j))"
    unfolding e h demo_system_stage Let_def using demo_system_codec_simps(3,4) by auto
  show ?thesis using failed_update_restores [OF f _ law] f by (auto simp: h)
qed

theorem run_update_pinned_witness:
  "\<exists>h' res. run_update (\<lambda>_. Fetched \<lparr>ft_url = ''https://u.example/p'', ft_length = None, ft_body = ''x''\<rparr>) (\<lambda>_. Some (bp_members demo_built))
      (demo_update_env (\<lambda>_ _. 0) JNull) ''https://u.example/p'' (sha256_bytes ''x'') (JInt 10) demo_update_host = (res, h')
    \<and> (res, h') = apply_update (demo_update_env (\<lambda>_ _. 0) JNull) (JInt 10) demo_package demo_update_host"
proof -
  let ?f = "\<lambda>_::string. Fetched \<lparr>ft_url = ''https://u.example/p'', ft_length = None, ft_body = ''x''\<rparr>"
  let ?e = "demo_update_env (\<lambda>_ _. 0) JNull" and ?u = "\<lambda>_::string. Some (bp_members demo_built)"
  have p: "\<lparr>pk_regular = True, pk_data = ''x'', pk_members = Some (bp_members demo_built)\<rparr> = demo_package" by (simp add: demo_package_def)
  obtain a h1 where a: "attempt_update ?e (JInt 10) (sort_key fst demo_source) demo_update_host = (a, h1)" by fastforce
  then obtain x where "at_result a = Inr x" using demo_attempt(1) [OF a] by (auto simp: is_ok_iff)
  then obtain r h' where r: "apply_update ?e (JInt 10) demo_package demo_update_host = (Inr r, h')" "uh_history h' \<noteq> None"
    using demo_apply [OF a] by (auto simp: Let_def)
  have t: "take (MAX_PACKAGE_BYTES + 1) ''x'' = ''x''" by (simp add: MAX_PACKAGE_BYTES_def)
  obtain s where s: "urlsplit (py_strip ''https://u.example/p'') = Inr s" "urlsplit ''https://u.example/p'' = Inr s" "py_lower (u_scheme s) = ''https''"
      "u_hostname s \<noteq> []" "u_username s = []" "u_password s = []" "u_fragment s = []"
  proof -
    let ?s = "case urlsplit ''https://u.example/p'' of Inr s \<Rightarrow> s"
    show thesis by (rule that [of ?s]; code_simp)
  qed
  have run: "run_update ?f ?u ?e ''https://u.example/p'' (sha256_bytes ''x'') (JInt 10) demo_update_host
      = apply_update ?e (JInt 10) demo_package demo_update_host"
    unfolding run_update_def download_update_def digest_validates rbind_simps s(1)
    by (simp add: s(2-7) t MAX_PACKAGE_BYTES_def p Let_def)
  moreover have "h' \<noteq> demo_update_host" using r(2) by (auto simp: demo_update_host_def)
  ultimately show ?thesis using run_update_pinned [OF run [unfolded r(1)]] p by (auto simp: r(1) t)
qed

text \<open>
  A target that was a symbolic link is not restored: the snapshot records it as absent, so rolling
  back removes it.
\<close>

lemma rolled_back_link_is_gone:
  "safe_logical_path l = Inr l \<Longrightarrow> l \<in> fst ` set fs \<Longrightarrow> disk (target_of l) = Some (Link x) \<Longrightarrow> rolled_disk fs disk (target_of l) = None"
  using logical_of_target [of l l] by (simp add: rolled_disk_def targets_def previous_node_def regular_content_def)

text \<open>
  An exception without text: the result says the rollback failed, the message says it was done.
\<close>

lemma silent_rollback_failure:
  assumes "at_rollback a = Some rb" "roll_back env (at_config a) rb h = (hl, Inl err, h2)" "ue_text env err = []"
  shows "recover env v a e h = (Inl (BridgeError (''Update fallito; rollback eseguito: '' @ ue_text env e)), h2\<lparr>uh_history :=
    Some \<lparr>ur_ok = False, ur_rolled_back = False, ur_from = be_version (ue_backup env), ur_to = v, ur_config_backup = at_config a,
      ur_rollback = Some rb, ur_error = Some (ue_text env e), ur_rollback_error = Some [], ur_health = hl, ur_completed = ue_now env\<rparr>\<rparr>)"
  using assms by (simp add: recover_def Let_def)

end
