(* ===== verification/NatDiscovery.thy ===== *)
theory NatDiscovery
  imports Sha256 PyNet PyNum Json Pairing
begin

unbundle bit_operations_syntax

text \<open>
  NAT discovery (\<open>nat_discovery.py\<close>): the STUN Binding request and the parser of its response
  on bytes, the list of servers, the probe over a sequence of exchanges on one socket, and the
  classification of the mapping and of a carrier-grade NAT. Sockets, name resolution, the \<open>ip\<close>
  and \<open>upnpc\<close> commands and the clock are inputs. \<open>struct.unpack\<close> is fallible as in Python: a
  wrong length raises \<open>struct.error\<close>.
\<close>

section \<open>Messages\<close>

definition STUN_MAGIC_COOKIE :: nat where "STUN_MAGIC_COOKIE = 0x2112A442"
definition STUN_BINDING_REQUEST :: nat where "STUN_BINDING_REQUEST = 0x0001"
definition STUN_BINDING_SUCCESS :: nat where "STUN_BINDING_SUCCESS = 0x0101"
definition ATTR_MAPPED_ADDRESS :: nat where "ATTR_MAPPED_ADDRESS = 0x0001"
definition ATTR_CHANGE_REQUEST :: nat where "ATTR_CHANGE_REQUEST = 0x0003"
definition ATTR_XOR_MAPPED_ADDRESS :: nat where "ATTR_XOR_MAPPED_ADDRESS = 0x0020"
definition ATTR_RESPONSE_ORIGIN :: nat where "ATTR_RESPONSE_ORIGIN = 0x802B"
definition ATTR_OTHER_ADDRESS :: nat where "ATTR_OTHER_ADDRESS = 0x802C"

definition be_nat :: "byte list \<Rightarrow> nat" where
  "be_nat bs = foldl (\<lambda>a b. 256 * a + unat b) 0 bs"

definition unpack_HH :: "byte list \<Rightarrow> (nat \<times> nat) res" where
  "unpack_HH bs = (if length bs \<noteq> 4 then Inl (OtherError ''struct.error'')
     else Inr (be_nat (take 2 bs), be_nat (drop 2 bs)))"

definition unpack_BBH :: "byte list \<Rightarrow> (nat \<times> nat \<times> nat) res" where
  "unpack_BBH bs = (if length bs \<noteq> 4 then Inl (OtherError ''struct.error'')
     else Inr (be_nat (take 1 bs), be_nat (take 1 (drop 1 bs)), be_nat (drop 2 bs)))"

definition unpack_HHI12s :: "byte list \<Rightarrow> (nat \<times> nat \<times> nat \<times> byte list) res" where
  "unpack_HHI12s bs = (if length bs \<noteq> 20 then Inl (OtherError ''struct.error'')
     else Inr (be_nat (take 2 bs), be_nat (take 2 (drop 2 bs)), be_nat (take 4 (drop 4 bs)), drop 8 bs))"

definition IPv4Address_packed :: "byte list \<Rightarrow> string res" where
  \<comment> \<open>\<open>str(ipaddress.IPv4Address(bytes))\<close>\<close>
  "IPv4Address_packed bs = (if length bs \<noteq> 4 then Inl (ValueError ''4 bytes'') else Inr (v4_str (be_nat bs)))"

definition IPv6Address_packed :: "byte list \<Rightarrow> string res" where
  "IPv6Address_packed bs = (if length bs \<noteq> 16 then Inl (ValueError ''16 bytes'') else Inr (v6_str (be_nat bs)))"

definition stun_request :: "byte list \<Rightarrow> nat option \<Rightarrow> byte list res" where
  \<comment> \<open>the flags of a change request, when there is one, are a 32-bit value\<close>
  "stun_request txid change =
     (if length txid \<noteq> 12 then Inl (BridgeError ''Transaction ID STUN non valido.'')
      else let attrs = (case change of None \<Rightarrow> []
             | Some flags \<Rightarrow> bytes_be 2 ATTR_CHANGE_REQUEST @ bytes_be 2 4 @ bytes_be 4 flags) in
        Inr (bytes_be 2 STUN_BINDING_REQUEST @ bytes_be 2 (length attrs) @ bytes_be 4 STUN_MAGIC_COOKIE @ txid @ attrs))"

definition xor_bytes :: "byte list \<Rightarrow> byte list \<Rightarrow> byte list" where
  \<comment> \<open>\<open>zip\<close> stops at the end of the shorter one\<close>
  "xor_bytes a b = map2 (\<lambda>x y. x XOR y) a b"

definition decode_address :: "byte list \<Rightarrow> bool \<Rightarrow> byte list \<Rightarrow> (string \<times> nat) res" where
  "decode_address val unmask txid =
     (if length val < 4 then Inl (BridgeError ''Attributo indirizzo STUN troppo corto.'')
      else rbind (unpack_BBH (take 4 val)) (\<lambda>(zero, family, port).
      let port = (if unmask then port XOR drop_bit 16 STUN_MAGIC_COOKIE else port) in
      if family = 1 then
        (if length val \<noteq> 8 then Inl (BridgeError ''Attributo STUN IPv4 non valido.'')
         else let packed = take 4 (drop 4 val);
                  packed = (if unmask then xor_bytes packed (bytes_be 4 STUN_MAGIC_COOKIE) else packed) in
           rbind (IPv4Address_packed packed) (\<lambda>ip. Inr (ip, port)))
      else if family = 2 then
        (if length val \<noteq> 20 then Inl (BridgeError ''Attributo STUN IPv6 non valido.'')
         else let packed = take 16 (drop 4 val);
                  packed = (if unmask then xor_bytes packed (bytes_be 4 STUN_MAGIC_COOKIE @ txid) else packed) in
           rbind (IPv6Address_packed packed) (\<lambda>ip. Inr (ip, port)))
      else Inl (BridgeError ''Famiglia indirizzo STUN sconosciuta.'')))"

type_synonym stun_attrs = "(nat \<times> byte list) list"

function parse_attrs :: "byte list \<Rightarrow> nat \<Rightarrow> nat \<Rightarrow> stun_attrs \<Rightarrow> stun_attrs res" where
  \<comment> \<open>the attributes in the order of the message\<close>
  "parse_attrs data off stop_at acc =
     (if stop_at \<le> off then Inr acc
      else if stop_at < off + 4 then Inl (BridgeError ''Header attributo STUN troncato.'')
      else rbind (unpack_HH (take 4 (drop off data))) (\<lambda>(attr_type, attr_len).
        let start = off + 4; stop = start + attr_len in
        if stop_at < stop then Inl (BridgeError ''Attributo STUN troncato.'')
        else parse_attrs data (start + (attr_len + 3) div 4 * 4) stop_at
               (acc @ [(attr_type, take attr_len (drop start data))])))"
  by pat_completeness auto
termination by (relation "measure (\<lambda>(data, off, stop_at, acc). stop_at - off)") auto

declare parse_attrs.simps [simp del]

definition hex4 :: "nat \<Rightarrow> string" where
  "hex4 n = (let s = hex_str n in replicate (4 - length s) (CHR ''0'') @ s)"

record stun_reply =
  sp_mapped_ip :: string
  sp_mapped_port :: nat
  sp_response_origin :: "(string \<times> nat) option"
  sp_other_address :: "(string \<times> nat) option"

definition mapped_address :: "stun_attrs \<Rightarrow> byte list \<Rightarrow> (string \<times> nat) res" where
  "mapped_address attrs txid =
     (case map_of attrs ATTR_XOR_MAPPED_ADDRESS of
        Some v \<Rightarrow> decode_address v True txid
      | None \<Rightarrow> (case map_of attrs ATTR_MAPPED_ADDRESS of
          Some v \<Rightarrow> decode_address v False txid
        | None \<Rightarrow> Inl (BridgeError ''Risposta STUN senza MAPPED-ADDRESS.'')))"

definition addr_of :: "stun_attrs \<Rightarrow> byte list \<Rightarrow> nat \<Rightarrow> (string \<times> nat) option res" where
  "addr_of attrs txid attr_type =
     (case map_of attrs attr_type of None \<Rightarrow> Inr None
      | Some v \<Rightarrow> rbind (decode_address v False txid) (\<lambda>a. Inr (Some a)))"

definition parse_stun_response :: "byte list \<Rightarrow> byte list \<Rightarrow> stun_reply res" where
  "parse_stun_response data expected =
     (if length data < 20 then Inl (BridgeError ''Risposta STUN troppo corta.'')
      else rbind (unpack_HHI12s (take 20 data)) (\<lambda>(msg_type, len, cookie, txid).
      if cookie \<noteq> STUN_MAGIC_COOKIE then Inl (BridgeError ''Magic cookie STUN non valida.'')
      else if txid \<noteq> expected then Inl (BridgeError ''Transaction ID STUN non corrisponde.'')
      else if msg_type \<noteq> STUN_BINDING_SUCCESS
      then Inl (BridgeError (''Risposta STUN non-success: 0x'' @ hex4 msg_type @ ''.''))
      else if int len \<noteq> int (length data) - 20 then Inl (BridgeError ''Lunghezza risposta STUN non valida.'')
      else rbind (parse_attrs data 20 (20 + len) []) (\<lambda>attrs.
           rbind (mapped_address attrs txid) (\<lambda>(ip, port).
           rbind (addr_of attrs txid ATTR_RESPONSE_ORIGIN) (\<lambda>origin.
           rbind (addr_of attrs txid ATTR_OTHER_ADDRESS) (\<lambda>other.
           Inr \<lparr>sp_mapped_ip = ip, sp_mapped_port = port, sp_response_origin = origin, sp_other_address = other\<rparr>))))))"

section \<open>Servers\<close>

definition DEFAULT_STUN_SERVERS :: "string list" where
  "DEFAULT_STUN_SERVERS = [''stun.cloudflare.com:3478'', ''stun.cloudflare.com:53'']"

definition MAX_STUN_SERVERS :: nat where "MAX_STUN_SERVERS = 6"

definition HOST_RE_fullmatch :: "string \<Rightarrow> bool" where
  "HOST_RE_fullmatch s = (1 \<le> length s \<and> length s \<le> 253 \<and> list_all (\<lambda>c. is_alnum c \<or> c = CHR ''.'' \<or> c = CHR ''-'') s)"

definition parse_stun_server :: "string \<Rightarrow> (string \<times> int) res" where
  "parse_stun_server v = (let raw = py_strip v in
     if raw = [] then Inl (BridgeError ''Server STUN vuoto.'')
     else if starts_with ''['' raw
     then Inl (BridgeError ''La Fase 18 usa STUN IPv4 per classificare NAT; usa hostname/IPv4 senza parentesi.'')
     else let (host, port_text) = (case rpartition_at (CHR '':'') raw of
              (a, True, b) \<Rightarrow> (a, b) | (_, False, _) \<Rightarrow> (raw, ''3478''));
            host = py_lower (py_strip host) in
       if ip_address host = None \<and> (\<not> HOST_RE_fullmatch host \<or> contains_str ''..'' host
            \<or> starts_with ''.'' host \<or> ends_with ''.'' host)
       then Inl (BridgeError (''Hostname STUN non valido: '' @ host))
       else (case py_int port_text of
           None \<Rightarrow> Inl (BridgeError ''Porta STUN non valida.'')
         | Some port \<Rightarrow> if port < 1 \<or> 65535 < port then Inl (BridgeError ''Porta STUN non valida.'')
             else Inr (host, port)))"

fun bridge_env_lookup :: "string \<Rightarrow> string list \<Rightarrow> string" where
  \<comment> \<open>the first line of the file that sets the key\<close>
  "bridge_env_lookup k [] = []"
| "bridge_env_lookup k (raw # lines) = (let line = py_strip raw in
     if line = [] \<or> starts_with ''#'' line \<or> CHR ''='' \<notin> set line then bridge_env_lookup k lines
     else (case partition_at (CHR ''='') line of (key, _, v) \<Rightarrow>
       if py_strip key = k then strip_by (\<lambda>c. ord_of c = 39) (strip_by (\<lambda>c. ord_of c = 34) (py_strip v))
       else bridge_env_lookup k lines))"

definition bridge_env_stun_servers :: "string option \<Rightarrow> string" where
  \<comment> \<open>\<open>None\<close> is a file that cannot be read\<close>
  "bridge_env_stun_servers file =
     (case file of None \<Rightarrow> [] | Some text \<Rightarrow> bridge_env_lookup ''STUN_SERVERS'' (py_splitlines text))"

fun add_servers :: "(string \<times> int) list \<Rightarrow> string list \<Rightarrow> (string \<times> int) list res" where
  "add_servers out [] = Inr out"
| "add_servers out (raw # raws) = rbind (parse_stun_server raw) (\<lambda>server.
     add_servers (if server \<in> set out then out else out @ [server]) raws)"

definition configured_stun_servers :: "string list \<Rightarrow> string \<Rightarrow> string option \<Rightarrow> (string \<times> int) list res" where
  \<comment> \<open>the values given, the environment variable, the text of \<open>bridge.env\<close>\<close>
  "configured_stun_servers given env_var file =
     (let env = (if py_strip env_var \<noteq> [] then py_strip env_var else bridge_env_stun_servers file);
          raws = (if given \<noteq> [] then given
            else if env \<noteq> [] then filter (\<lambda>x. x \<noteq> []) (map py_strip (split_on (CHR '','') env))
            else DEFAULT_STUN_SERVERS) in
      if MAX_STUN_SERVERS < length raws
      then Inl (BridgeError (''Troppi server STUN: massimo '' @ nat_str MAX_STUN_SERVERS @ ''.''))
      else rbind (add_servers [] raws) (\<lambda>out.
        if out = [] then Inl (BridgeError ''Nessun server STUN configurato.'') else Inr out))"

section \<open>Probing\<close>

type_synonym udp_endpoint = "string \<times> nat"

datatype socket_outcome = Answered "byte list" udp_endpoint | SocketTimeout | SocketError string

record nat_net =
  nn_resolve :: "string \<Rightarrow> int \<Rightarrow> string + udp_endpoint list"  \<comment> \<open>the class of an \<open>OSError\<close>, or the IPv4 rows\<close>
  nn_txid :: "nat \<Rightarrow> byte list"  \<comment> \<open>\<open>secrets.token_bytes(12)\<close> of the n-th exchange\<close>
  nn_outcome :: "nat \<Rightarrow> udp_endpoint \<Rightarrow> byte list \<Rightarrow> socket_outcome"  \<comment> \<open>of sending a request to an udp_endpoint\<close>
  nn_local_port :: nat

definition resolve_ipv4 :: "nat_net \<Rightarrow> string \<Rightarrow> int \<Rightarrow> udp_endpoint list res" where
  "resolve_ipv4 net host port = (case nn_resolve net host port of
       Inl cls \<Rightarrow> Inl (BridgeError (''DNS STUN fallito per '' @ host @ '': '' @ cls))
     | Inr rows \<Rightarrow> let out = foldl (\<lambda>out r. if r \<in> set out then out else out @ [r]) [] rows in
         if out = [] then Inl (BridgeError (''Nessun IPv4 risolto per server STUN '' @ host @ ''.'')) else Inr out)"

definition exchange :: "nat_net \<Rightarrow> pyfloat \<Rightarrow> nat \<Rightarrow> udp_endpoint \<Rightarrow> nat option \<Rightarrow> (stun_reply \<times> udp_endpoint) res" where
  \<comment> \<open>\<open>settimeout\<close> raises for NaN\<close>
  "exchange net timeout n dest change =
     rbind (stun_request (nn_txid net n) change) (\<lambda>request.
     if timeout = NaN then Inl (ValueError ''Invalid value NaN (not a number)'')
     else case nn_outcome net n dest request of
       SocketTimeout \<Rightarrow> Inl (BridgeError ''STUN timeout.'')
     | SocketError cls \<Rightarrow> Inl (BridgeError (''STUN socket error: '' @ cls))
     | Answered data source \<Rightarrow> rbind (parse_stun_response (take 4096 data) (nn_txid net n)) (\<lambda>p. Inr (p, source)))"

record nat_observation =
  ob_server :: string
  ob_remote :: udp_endpoint
  ob_source :: udp_endpoint
  ob_mapped :: udp_endpoint
  ob_other :: "udp_endpoint option"

record probe_state =
  ps_count :: nat  \<comment> \<open>exchanges made\<close>
  ps_seen :: "udp_endpoint list"
  ps_observations :: "nat_observation list"
  ps_errors :: "(string \<times> udp_endpoint option \<times> string) list"
  ps_first :: "(udp_endpoint \<times> udp_endpoint option) option"  \<comment> \<open>\<open>first_remote\<close> and its \<open>first_other\<close>\<close>

definition add_error :: "string \<Rightarrow> udp_endpoint option \<Rightarrow> string \<Rightarrow> probe_state \<Rightarrow> probe_state" where
  "add_error server dest t st = st\<lparr>ps_errors := ps_errors st @ [(server, dest, t)]\<rparr>"

definition observe :: "string \<Rightarrow> udp_endpoint \<Rightarrow> stun_reply \<Rightarrow> udp_endpoint \<Rightarrow> probe_state \<Rightarrow> probe_state" where
  "observe server dest p source st = st\<lparr>
     ps_observations := ps_observations st @ [\<lparr>ob_server = server, ob_remote = dest, ob_source = source,
       ob_mapped = (sp_mapped_ip p, sp_mapped_port p), ob_other = sp_other_address p\<rparr>],
     ps_first := (case ps_first st of None \<Rightarrow> Some (dest, sp_other_address p) | Some f \<Rightarrow> Some f)\<rparr>"

fun try_remotes :: "nat_net \<Rightarrow> pyfloat \<Rightarrow> string \<Rightarrow> udp_endpoint list \<Rightarrow> probe_state \<Rightarrow> (bool \<times> probe_state) res" where
  "try_remotes net timeout server [] st = Inr (False, st)"
| "try_remotes net timeout server (dest # dests) st =
     (if dest \<in> set (ps_seen st) then try_remotes net timeout server dests st
      else let n = ps_count st; st = st\<lparr>ps_seen := dest # ps_seen st, ps_count := Suc n\<rparr> in
        case exchange net timeout n dest None of
          Inl (BridgeError t) \<Rightarrow> try_remotes net timeout server dests (add_error server (Some dest) t st)
        | Inl e \<Rightarrow> Inl e
        | Inr (p, source) \<Rightarrow> Inr (True, observe server dest p source st))"

definition server_text :: "string \<times> int \<Rightarrow> string" where
  "server_text s = fst s @ '':'' @ int_str (snd s)"

fun probe_loop :: "nat_net \<Rightarrow> pyfloat \<Rightarrow> (string \<times> int) list \<Rightarrow> probe_state \<Rightarrow> probe_state res" where
  "probe_loop net timeout [] st = Inr st"
| "probe_loop net timeout (s # servers) st = (case resolve_ipv4 net (fst s) (snd s) of
       Inl (BridgeError t) \<Rightarrow> probe_loop net timeout servers (add_error (server_text s) None t st)
     | Inl e \<Rightarrow> Inl e
     | Inr dests \<Rightarrow> rbind (try_remotes net timeout (server_text s) (take 2 dests) st) (\<lambda>(success, st).
         probe_loop net timeout servers
           (if \<not> success \<and> dests = [] then add_error (server_text s) None ''no_remote_endpoint'' st else st)))"

record probe_report =
  pr_local_port :: nat
  pr_observations :: "nat_observation list"
  pr_errors :: "(string \<times> udp_endpoint option \<times> string) list"
  pr_filtering :: string
  pr_reason :: string

definition filtering_test :: "nat_net \<Rightarrow> pyfloat \<Rightarrow> probe_state \<Rightarrow> (string \<times> string) res" where
  \<comment> \<open>\<open>CHANGE-REQUEST\<close> with both flags, when the first server names another address\<close>
  "filtering_test net timeout st = (case ps_first st of
       Some (dest, Some other) \<Rightarrow>
         if other = dest then Inr (''UNKNOWN'', ''server_rfc5780_not_observed'')
         else (case exchange net timeout (ps_count st) dest (Some 6) of
           Inr (p, source) \<Rightarrow> if source \<noteq> dest
             then Inr (''ENDPOINT_INDEPENDENT'', ''rfc5780_change_ip_port_response_received'')
             else Inr (''UNKNOWN'', ''rfc5780_change_request_ignored'')
         | Inl (BridgeError t) \<Rightarrow> Inr (''UNKNOWN'', ''rfc5780_change_request_no_response_or_unsupported'')
         | Inl e \<Rightarrow> Inl e)
     | _ \<Rightarrow> Inr (''UNKNOWN'', ''server_rfc5780_not_observed''))"

definition probe_stun_servers :: "nat_net \<Rightarrow> (string \<times> int) list \<Rightarrow> pyfloat \<Rightarrow> probe_report res" where
  "probe_stun_servers net servers timeout =
     (if fl_less timeout (Fin (1/5)) \<or> fl_less (Fin 5) timeout
      then Inl (BridgeError ''Timeout STUN non valido: usa 0.2..5.0 secondi.'')
      else rbind (probe_loop net timeout servers
          \<lparr>ps_count = 0, ps_seen = [], ps_observations = [], ps_errors = [], ps_first = None\<rparr>) (\<lambda>st.
        rbind (filtering_test net timeout st) (\<lambda>(behavior, reason).
        Inr \<lparr>pr_local_port = nn_local_port net, pr_observations = ps_observations st, pr_errors = ps_errors st,
             pr_filtering = behavior, pr_reason = reason\<rparr>)))"

section \<open>What the host and the router say\<close>

definition IPv4Address :: "string \<Rightarrow> nat option" where
  "IPv4Address s = (if CHR ''/'' \<in> set s then None else parse_v4 s)"

definition IPv6Address :: "string \<Rightarrow> ip option" where
  "IPv6Address s = (if CHR ''/'' \<in> set s then None
     else case partition_at (CHR ''%'') s of (addr, sep, scope) \<Rightarrow>
       if sep \<and> (scope = [] \<or> CHR ''%'' \<in> set scope) then None
       else map_option (\<lambda>n. V6 n (if sep then scope else [])) (parse_v6_int addr))"

definition local_ipv4 :: "string option \<Rightarrow> string option" where
  \<comment> \<open>the address \<open>getsockname\<close> gives for the connected socket, \<open>None\<close> for an \<open>OSError\<close>\<close>
  "local_ipv4 name = (case name of None \<Rightarrow> None | Some t \<Rightarrow> (case ip_address t of
       Some (V4 a) \<Rightarrow> if is_loopback (V4 a) then None else Some t
     | _ \<Rightarrow> None))"

datatype command_outcome = NotRun string | Ran int string string  \<comment> \<open>exception class, or code, stdout, stderr\<close>

fun json_iter :: "json \<Rightarrow> json list res" where
  \<comment> \<open>\<open>for x in value\<close>\<close>
  "json_iter (JList xs) = Inr xs"
| "json_iter (JStr s) = Inr (map (\<lambda>c. JStr [c]) s)"
| "json_iter (JObj kvs) = Inr (map (\<lambda>kv. JStr (fst kv)) kvs)"
| "json_iter _ = Inl TypeError"

fun addr_infos :: "(json \<Rightarrow> string) \<Rightarrow> json list \<Rightarrow> string list \<Rightarrow> string list res" where
  "addr_infos show [] out = Inr out"
| "addr_infos show (JObj info # infos) out =
     (if obj_get info ''family'' \<noteq> JStr ''inet6'' then addr_infos show infos out
      else case IPv6Address (text_or show (obj_get info ''local'') []) of
        None \<Rightarrow> addr_infos show infos out
      | Some ip \<Rightarrow> addr_infos show infos
          (if is_global ip \<and> ip_str ip \<notin> set out then out @ [ip_str ip] else out))"
| "addr_infos show (_ # infos) out = Inl AttributeError"

fun ipv6_rows :: "(json \<Rightarrow> string) \<Rightarrow> json list \<Rightarrow> string list \<Rightarrow> string list res" where
  "ipv6_rows show [] out = Inr out"
| "ipv6_rows show (JObj iface # rows) out =
     rbind (json_iter (obj_get_or iface ''addr_info'' (JList []))) (\<lambda>infos.
     rbind (addr_infos show infos out) (\<lambda>out. ipv6_rows show rows out))"
| "ipv6_rows show (_ # rows) out = ipv6_rows show rows out"

definition global_ipv6_addresses :: "(json \<Rightarrow> string) \<Rightarrow> (string \<Rightarrow> json option) \<Rightarrow> command_outcome \<Rightarrow> string list res" where
  \<comment> \<open>the second argument is \<open>json.loads\<close>\<close>
  "global_ipv6_addresses show loads proc = (case proc of NotRun cls \<Rightarrow> Inr []
     | Ran code out err \<Rightarrow> if code \<noteq> 0 then Inr []
         else (case loads (if out = [] then ''[]'' else out) of
           Some (JList rows) \<Rightarrow> ipv6_rows show rows [] | _ \<Rightarrow> Inr []))"

fun search_external :: "string \<Rightarrow> string option" where
  \<comment> \<open>the group of the first match of \<open>ExternalIPAddress\\s*=\\s*([^\\s]+)\<close>\<close>
  "search_external [] = None"
| "search_external (c # cs) =
     (let rest = dropWhile py_isspace (drop 17 (c # cs));
          v = takeWhile (\<lambda>c. \<not> py_isspace c) (dropWhile py_isspace (drop 1 rest)) in
      if starts_with ''ExternalIPAddress'' (c # cs) \<and> starts_with ''='' rest \<and> v \<noteq> [] then Some v
      else search_external cs)"

record upnp_status =
  up_ip :: "string option"  \<comment> \<open>\<open>available\<close> is true exactly when there is one\<close>
  up_error :: "string option"
  up_global :: bool
  up_shared :: bool

definition no_upnp :: "string \<Rightarrow> upnp_status" where
  "no_upnp e = \<lparr>up_ip = None, up_error = Some e, up_global = False, up_shared = False\<rparr>"

definition upnp_external_ipv4 :: "command_outcome \<Rightarrow> upnp_status" where
  "upnp_external_ipv4 proc = (case proc of NotRun cls \<Rightarrow> no_upnp cls
     | Ran code out err \<Rightarrow> (case search_external (out @ [char_of (10::nat)] @ err) of
         None \<Rightarrow> no_upnp ''external_ip_not_reported''
       | Some raw \<Rightarrow> (case IPv4Address raw of
           None \<Rightarrow> no_upnp ''invalid_external_ip''
         | Some a \<Rightarrow> \<lparr>up_ip = Some (v4_str a), up_error = None, up_global = is_global4 a,
             up_shared = in_net4 a shared_net4\<rparr>)))"

section \<open>Classification\<close>

record cgnat =
  cg_status :: string
  cg_confidence :: string
  cg_reason :: string

definition v4_of :: "string option \<Rightarrow> nat option" where
  \<comment> \<open>the IPv4 address a text names; an IPv6 address is none\<close>
  "v4_of t = (case t of None \<Rightarrow> None | Some s \<Rightarrow> if s = [] then None
     else (case ip_address s of Some (V4 a) \<Rightarrow> Some a | _ \<Rightarrow> None))"

definition classify_cgnat :: "string option \<Rightarrow> upnp_status \<Rightarrow> cgnat" where
  "classify_cgnat stun_ip upnp = (let stun = v4_of stun_ip; wan = v4_of (up_ip upnp);
       shared = (\<lambda>x. case x of None \<Rightarrow> False | Some a \<Rightarrow> in_net4 a shared_net4);
       global = (\<lambda>x. case x of None \<Rightarrow> False | Some a \<Rightarrow> is_global4 a);
       r = (\<lambda>s c t. \<lparr>cg_status = s, cg_confidence = c, cg_reason = t\<rparr>) in
     if shared wan then r ''YES'' ''HIGH'' ''router_wan_in_rfc6598_shared_space''
     else if shared stun then r ''YES'' ''HIGH'' ''stun_mapped_ip_in_rfc6598_shared_space''
     else if wan \<noteq> None \<and> \<not> global wan \<and> stun \<noteq> None \<and> global stun
     then r ''LIKELY'' ''MEDIUM'' ''router_wan_non_global_but_stun_public''
     else if wan \<noteq> None \<and> global wan \<and> stun \<noteq> None \<and> global stun
     then (if wan = stun then r ''NO_EVIDENCE'' ''HIGH'' ''router_wan_matches_stun_public_ip''
           else r ''POSSIBLE'' ''LOW'' ''router_wan_and_stun_public_ip_differ'')
     else if stun \<noteq> None \<and> \<not> global stun then r ''POSSIBLE'' ''MEDIUM'' ''stun_mapping_not_globally_routable''
     else r ''UNKNOWN'' ''LOW'' ''insufficient_router_wan_evidence'')"

record nat_class =
  nc_type :: string
  nc_mapping :: string
  nc_filtering :: string
  nc_preserved :: "bool option"
  nc_reason :: string

definition direct_endpoint :: "string option \<Rightarrow> nat option \<Rightarrow> udp_endpoint list \<Rightarrow> bool" where
  "direct_endpoint local_ip local_port mapped = (case (local_ip, local_port) of
       (Some ip, Some p) \<Rightarrow> ip \<noteq> [] \<and> (case IPv4Address ip of None \<Rightarrow> False | Some a \<Rightarrow> is_global4 a)
         \<and> list_all (\<lambda>m. m = (ip, p)) mapped
     | _ \<Rightarrow> False)"

definition classify_nat :: "nat_observation list \<Rightarrow> string option \<Rightarrow> nat option \<Rightarrow> string \<Rightarrow> nat_class" where
  "classify_nat obs local_ip local_port filtering =
     (if obs = [] then \<lparr>nc_type = ''UNKNOWN'', nc_mapping = ''UNKNOWN'', nc_filtering = filtering,
        nc_preserved = None, nc_reason = ''no_stun_observation''\<rparr>
      else let mapped = map ob_mapped obs;
          preserved = (case local_port of None \<Rightarrow> None | Some p \<Rightarrow> Some (list_all (\<lambda>m. snd m = p) mapped)) in
        if direct_endpoint local_ip local_port mapped
        then \<lparr>nc_type = ''NO_NAT'', nc_mapping = ''DIRECT'', nc_filtering = filtering,
           nc_preserved = Some True, nc_reason = ''global_local_endpoint_matches_stun_mapping''\<rparr>
        else if card (set (map ob_remote obs)) < 2
        then \<lparr>nc_type = ''UNKNOWN'', nc_mapping = ''UNKNOWN'', nc_filtering = filtering,
           nc_preserved = preserved, nc_reason = ''single_stun_destination''\<rparr>
        else if card (set mapped) = 1
        then \<lparr>nc_type = ''ENDPOINT_INDEPENDENT_MAPPING'', nc_mapping = ''ENDPOINT_INDEPENDENT'', nc_filtering = filtering,
           nc_preserved = preserved, nc_reason = ''same_mapping_across_distinct_stun_destinations''\<rparr>
        else \<lparr>nc_type = ''SYMMETRIC_LIKE_MAPPING'', nc_mapping = ''DESTINATION_DEPENDENT'', nc_filtering = filtering,
           nc_preserved = preserved, nc_reason = ''mapping_changes_across_stun_destinations''\<rparr>)"

section \<open>The report\<close>

record nat_report =
  nr_servers :: "string list"
  nr_local_ipv4 :: "string option"
  nr_stun :: probe_report
  nr_upnp :: upnp_status
  nr_cgnat :: cgnat
  nr_nat :: nat_class
  nr_global_ipv6 :: "string list"
  nr_mapped :: "udp_endpoint option"

record nat_env =
  ne_now :: rat  \<comment> \<open>\<open>time.monotonic()\<close>\<close>
  ne_env_var :: string
  ne_bridge_env :: "string option"
  ne_net :: nat_net
  ne_sockname :: "string option"
  ne_ip_command :: command_outcome
  ne_upnpc :: command_outcome
  ne_loads :: "string \<Rightarrow> json option"

definition CACHE_SECONDS :: rat where "CACHE_SECONDS = 30"

definition nat_report_of :: "(json \<Rightarrow> string) \<Rightarrow> nat_env \<Rightarrow> string list \<Rightarrow> pyfloat \<Rightarrow> nat_report res" where
  \<comment> \<open>the body of \<open>discover_nat\<close> after the cache; constant fields and the wall clock are left out\<close>
  "nat_report_of show env given timeout =
     rbind (configured_stun_servers given (ne_env_var env) (ne_bridge_env env)) (\<lambda>servers.
     rbind (probe_stun_servers (ne_net env) servers timeout) (\<lambda>stun.
     rbind (global_ipv6_addresses show (ne_loads env) (ne_ip_command env)) (\<lambda>ipv6.
     let obs = pr_observations stun; local_ip = local_ipv4 (ne_sockname env);
         upnp = upnp_external_ipv4 (ne_upnpc env);
         mapped = (case obs of [] \<Rightarrow> None | x # _ \<Rightarrow> Some (ob_mapped x)) in
     Inr \<lparr>nr_servers = map server_text servers, nr_local_ipv4 = local_ip, nr_stun = stun, nr_upnp = upnp,
          nr_cgnat = classify_cgnat (map_option fst mapped) upnp,
          nr_nat = classify_nat obs local_ip (Some (pr_local_port stun)) (str_or (pr_filtering stun) ''UNKNOWN''),
          nr_global_ipv6 = ipv6, nr_mapped = mapped\<rparr>)))"

type_synonym nat_cache = "(rat \<times> nat_report) option"

definition discover_nat ::
  "(json \<Rightarrow> string) \<Rightarrow> nat_env \<Rightarrow> string list \<Rightarrow> pyfloat \<Rightarrow> bool \<Rightarrow> nat_cache \<Rightarrow> nat_report res \<times> nat_cache" where
  "discover_nat show env given timeout use_cache cache =
     (let cached = (case cache of Some (t, r) \<Rightarrow>
            if use_cache \<and> given = [] \<and> ne_now env - t \<le> CACHE_SECONDS then Some r else None
          | None \<Rightarrow> None) in
      case cached of Some r \<Rightarrow> (Inr r, cache)
      | None \<Rightarrow> guard_in cache (nat_report_of show env given timeout) (\<lambda>r.
          (Inr r, if use_cache \<and> given = [] then Some (ne_now env, r) else cache)))"

section \<open>Big-endian numbers\<close>

lemma be_nat_Nil [simp]: "be_nat [] = 0"
  by (simp add: be_nat_def)

lemma be_nat_foldl: "foldl (\<lambda>a b. 256 * a + unat b) a bs = a * 256 ^ length bs + be_nat (bs :: byte list)"
proof (induction bs arbitrary: a)
  case (Cons b bs)
  have "be_nat (b # bs) = unat b * 256 ^ length bs + be_nat bs"
    unfolding be_nat_def using Cons.IH [of "unat b"] by (simp add: be_nat_def)
  then show ?case using Cons.IH [of "256 * a + unat b"] by (simp add: algebra_simps)
qed simp

lemma be_nat_Cons [simp]: "be_nat (b # bs) = unat b * 256 ^ length bs + be_nat bs"
  unfolding be_nat_def using be_nat_foldl [of "unat b" bs] by (simp add: be_nat_def)

lemma unat_byte: "unat (b :: byte) < 256"
  using unsigned_less [of b, where 'a = nat] by simp

lemma be_nat_less: "be_nat bs < 256 ^ length bs"
proof (induction bs)
  case (Cons b bs)
  have "unat b * 256 ^ length bs + be_nat bs < (unat b + 1) * 256 ^ length bs" using Cons by simp
  also have "\<dots> \<le> 256 * 256 ^ length bs" by (rule mult_le_mono1) (use unat_byte [of b] in simp)
  finally show ?case by simp
qed simp

lemma bytes_be_Suc: "bytes_be (Suc k) n = of_nat (n div 256 ^ k) # bytes_be k n"
  by (simp add: bytes_be_def)

lemma be_nat_bytes_be: "be_nat (bytes_be k n) = n mod 256 ^ k"
proof (induction k)
  case (Suc k)
  have "unat (of_nat (n div 256 ^ k) :: byte) = n div 256 ^ k mod 256" by (simp add: unat_of_nat)
  with Suc show ?case using mod_mult2_eq [of n "256 ^ k" 256] by (simp add: bytes_be_Suc mult.commute)
qed (simp add: bytes_be_def)

lemma xor_less: "a < 2 ^ k \<Longrightarrow> b < 2 ^ k \<Longrightarrow> (a :: nat) XOR b < 2 ^ k"
  by (metis take_bit_nat_eq_self take_bit_nat_less_exp take_bit_xor)

lemma port_mask: "drop_bit 16 STUN_MAGIC_COOKIE = 0x2112"
  by (simp add: STUN_MAGIC_COOKIE_def drop_bit_eq_div)

section \<open>The parser refuses or accepts\<close>

definition tame :: "'a res \<Rightarrow> bool" where
  "tame r = (case r of Inr _ \<Rightarrow> True | Inl (BridgeError _) \<Rightarrow> True | _ \<Rightarrow> False)"

named_theorems tame_intros "the only exception is the bridge's own"

lemma tame_simps [simp]: "tame (Inr x)" "tame (Inl (BridgeError t))"
  by (simp_all add: tame_def)

lemma tame_rbind [tame_intros]: "tame m \<Longrightarrow> (\<And>x. m = Inr x \<Longrightarrow> tame (f x)) \<Longrightarrow> tame (rbind m f)"
  by (cases m) (auto simp: tame_def split: py_error.splits)

lemma tame_cases: "tame r \<Longrightarrow> (\<And>t. r = Inl (BridgeError t) \<Longrightarrow> P) \<Longrightarrow> (\<And>x. r = Inr x \<Longrightarrow> P) \<Longrightarrow> P"
  by (cases r) (auto simp: tame_def split: py_error.splits)

lemma decode_address_tame:
  assumes "length txid = 12" shows "tame (decode_address val u txid)"
proof -
  have "length val = 8 \<Longrightarrow> length (xor_bytes (take 4 (drop 4 val)) (bytes_be 4 c)) = 4" for c
    by (simp add: xor_bytes_def)
  moreover have "length val = 20 \<Longrightarrow> length (xor_bytes (take 16 (drop 4 val)) (bytes_be 4 c @ txid)) = 16" for c
    using assms by (simp add: xor_bytes_def)
  ultimately show ?thesis
    by (auto simp: decode_address_def unpack_BBH_def IPv4Address_packed_def IPv6Address_packed_def Let_def)
qed

lemma decode_address_port:
  assumes "decode_address val u txid = Inr (ip, p)" shows "p < 65536" "8 \<le> length val"
proof -
  have "be_nat (drop 2 (take 4 val)) < 2 ^ 16" using be_nat_less [of "drop 2 (take 4 val)"] assms
    by (auto simp: decode_address_def min_def split: if_splits)
  moreover from this have "be_nat (drop 2 (take 4 val)) XOR 0x2112 < 2 ^ 16" by (intro xor_less) auto
  ultimately show "p < 65536" "8 \<le> length val" using assms
    by (auto simp: decode_address_def unpack_BBH_def res_simps Let_def port_mask split: if_splits)
qed

lemma parse_attrs_tame:
  "stop_at \<le> length data \<Longrightarrow> tame (parse_attrs data off stop_at acc)"
proof (induction data off stop_at acc rule: parse_attrs.induct)
  case (1 data off stop_at acc)
  show ?case
  proof (cases "stop_at \<le> off \<or> stop_at < off + 4")
    case True
    then show ?thesis by (subst parse_attrs.simps) auto
  next
    case False
    then have "length (take 4 (drop off data)) = 4" using 1(2) by auto
    then obtain t l where u: "unpack_HH (take 4 (drop off data)) = Inr (t, l)" unfolding unpack_HH_def by simp
    show ?thesis
      by (subst parse_attrs.simps) (use False u 1 in \<open>auto simp: Let_def\<close>)
  qed
qed

lemma parse_attrs_sound:
  "parse_attrs data off stop_at acc = Inr as \<Longrightarrow>
    \<exists>new. as = acc @ new \<and> 4 * length new \<le> stop_at - off \<and> (\<forall>(t, v)\<in>set new. off + 4 + length v \<le> stop_at)"
proof (induction data off stop_at acc rule: parse_attrs.induct)
  case (1 data off stop_at acc)
  show ?case
  proof (cases "stop_at \<le> off")
    case True
    then show ?thesis using 1(2) by (subst (asm) parse_attrs.simps) auto
  next
    case False
    obtain t l where u: "unpack_HH (take 4 (drop off data)) = Inr (t, l)" and l: "off + 4 + l \<le> stop_at"
      and r: "parse_attrs data (off + 4 + (l + 3) div 4 * 4) stop_at (acc @ [(t, take l (drop (off + 4) data))]) = Inr as"
      using 1(2) False by (subst (asm) parse_attrs.simps) (auto simp: res_simps Let_def split: if_splits)
    obtain new where "as = (acc @ [(t, take l (drop (off + 4) data))]) @ new"
      "4 * length new \<le> stop_at - (off + 4 + (l + 3) div 4 * 4)"
      "\<forall>(t, v)\<in>set new. off + 4 + (l + 3) div 4 * 4 + 4 + length v \<le> stop_at"
      using 1(1) [OF _ _ refl refl _ r] l False by auto
    then show ?thesis using l False
      by (intro exI [of _ "(t, take l (drop (off + 4) data)) # new"]) (auto simp: min_def)
  qed
qed

lemma parse_stun_response_tame: "tame (parse_stun_response data txid)"
proof (cases "length data < 20")
  case False
  have "tame (mapped_address as t)" "tame (addr_of as t k)" if "length t = 12" for as t k
    using that decode_address_tame
    by (auto simp: mapped_address_def addr_of_def intro!: tame_intros split: option.splits)
  then show ?thesis using False
    by (auto simp: parse_stun_response_def unpack_HHI12s_def Let_def intro!: tame_intros parse_attrs_tame split: prod.splits)
qed (simp add: parse_stun_response_def)

lemma parse_stun_response_Inr:
  assumes "parse_stun_response data txid = Inr r"
  obtains as where "20 \<le> length data" "txid = take 12 (drop 8 data)" "parse_attrs data 20 (length data) [] = Inr as"
    "mapped_address as txid = Inr (sp_mapped_ip r, sp_mapped_port r)" "addr_of as txid ATTR_OTHER_ADDRESS = Inr (sp_other_address r)"
proof -
  have len: "20 \<le> length data" using assms by (simp add: parse_stun_response_def split: if_splits)
  then have u: "unpack_HHI12s (take 20 data) =
      Inr (be_nat (take 2 data), be_nat (take 2 (drop 2 data)), be_nat (take 4 (drop 4 data)), take 12 (drop 8 data))"
    by (simp add: unpack_HHI12s_def drop_take)
  have n: "20 + be_nat (take 2 (drop 2 data)) = length data" and t: "txid = take 12 (drop 8 data)"
    using assms len by (simp_all add: parse_stun_response_def u split: if_splits)
  show thesis using assms len that unfolding parse_stun_response_def u rbind_simps prod.case n t
    by (auto simp: res_simps split: if_splits)
qed

text \<open>
  C33. Any datagram is parsed or refused with the program's own error: no length read from the network
  makes \<open>struct.unpack\<close> or \<open>ipaddress\<close> raise. The loop over the attributes ends, and the values it
  collects are at most a quarter as many as there are bytes after the header. What is accepted has
  the transaction id of the request, a header and at least one whole address, and a 16-bit port.
\<close>

theorem stun_response_total:
  "(\<exists>t. parse_stun_response data txid = Inl (BridgeError t))
   \<or> (\<exists>r as. parse_stun_response data txid = Inr r \<and> take 12 (drop 8 data) = txid \<and> 32 \<le> length data
        \<and> sp_mapped_port r < 65536 \<and> parse_attrs data 20 (length data) [] = Inr as \<and> 4 * length as \<le> length data - 20)"
proof (cases rule: tame_cases [OF parse_stun_response_tame [of data txid]])
  case (2 r)
  then obtain as ip where a: "20 \<le> length data" "parse_attrs data 20 (length data) [] = Inr as" "take 12 (drop 8 data) = txid"
    "mapped_address as txid = Inr (ip, sp_mapped_port r)" by (blast elim: parse_stun_response_Inr)
  then obtain k v u where v: "(k, v) \<in> set as" "decode_address v u txid = Inr (ip, sp_mapped_port r)"
    by (auto simp: mapped_address_def dest!: map_of_SomeD split: option.splits)
  obtain new where "as = [] @ new" "4 * length new \<le> length data - 20" "\<forall>(t, v)\<in>set new. 20 + 4 + length v \<le> length data"
    using parse_attrs_sound [OF a(2)] by blast
  then show ?thesis using 2 a v decode_address_port [OF v(2)] by force
qed blast

section \<open>What a server answers\<close>

text \<open>The reference encoder: a success response of RFC 5389 with the attributes in the given order.\<close>

definition attr_bytes :: "nat \<times> byte list \<Rightarrow> byte list" where
  "attr_bytes a = (case a of (t, v) \<Rightarrow>
     bytes_be 2 t @ bytes_be 2 (length v) @ v @ replicate ((length v + 3) div 4 * 4 - length v) 0)"

definition stun_success :: "byte list \<Rightarrow> stun_attrs \<Rightarrow> byte list" where
  "stun_success txid as = (let body = concat (map attr_bytes as) in
     bytes_be 2 STUN_BINDING_SUCCESS @ bytes_be 2 (length body) @ bytes_be 4 STUN_MAGIC_COOKIE @ txid @ body)"

definition plain_address :: "nat \<times> nat \<Rightarrow> byte list" where
  "plain_address ap = [0, 1] @ bytes_be 2 (snd ap) @ bytes_be 4 (fst ap)"

definition masked_address :: "nat \<times> nat \<Rightarrow> byte list" where
  "masked_address ap = [0, 1] @ bytes_be 2 (snd ap XOR 0x2112) @ xor_bytes (bytes_be 4 (fst ap)) (bytes_be 4 STUN_MAGIC_COOKIE)"

definition endpoint_of :: "nat \<times> nat \<Rightarrow> udp_endpoint" where
  "endpoint_of ap = (v4_str (fst ap), snd ap)"

definition address_ok :: "nat \<times> nat \<Rightarrow> bool" where
  "address_ok ap = (fst ap < 2 ^ 32 \<and> snd ap < 2 ^ 16)"

lemma length_xor_bytes [simp]: "length (xor_bytes a b) = min (length a) (length b)"
  by (simp add: xor_bytes_def)

lemma xor_bytes_cancel: "length a = length b \<Longrightarrow> xor_bytes (xor_bytes a b) b = a"
  by (induction a b rule: list_induct2) (simp_all add: xor_bytes_def xor.assoc)

lemma be2 [simp]: "n < 2 ^ 16 \<Longrightarrow> be_nat (bytes_be 2 n) = n" and be4 [simp]: "n < 2 ^ 32 \<Longrightarrow> be_nat (bytes_be 4 n) = n"
  by (simp_all add: be_nat_bytes_be)

lemma unpack_address: "p < 2 ^ 16 \<Longrightarrow> unpack_BBH ([0, 1] @ bytes_be 2 p) = Inr (0, 1, p)"
  by (simp add: unpack_BBH_def be_nat_bytes_be)

lemma decode_v4:
  assumes "p < 2 ^ 16" "length b = 4"
  shows "decode_address ([0, 1] @ bytes_be 2 p @ b) unmask txid =
    Inr (v4_str (be_nat (if unmask then xor_bytes b (bytes_be 4 STUN_MAGIC_COOKIE) else b)), if unmask then p XOR 0x2112 else p)"
proof -
  let ?v = "[0, 1] @ bytes_be 2 p @ b"
  have v: "take 4 ?v = [0, 1] @ bytes_be 2 p" "take 4 (drop 4 ?v) = b" "length ?v = 8" using assms(2) by simp_all
  have "length (xor_bytes b (bytes_be 4 STUN_MAGIC_COOKIE)) = 4" using assms(2) by (simp add: xor_bytes_def)
  then show ?thesis
    unfolding decode_address_def v unpack_address [OF assms(1)] by (simp add: IPv4Address_packed_def port_mask assms(2))
qed

lemma decode_plain: "address_ok ap \<Longrightarrow> decode_address (plain_address ap) False txid = Inr (endpoint_of ap)"
  unfolding plain_address_def by (subst decode_v4) (simp_all add: address_ok_def endpoint_of_def)

lemma decode_masked: "address_ok ap \<Longrightarrow> decode_address (masked_address ap) True txid = Inr (endpoint_of ap)"
  unfolding masked_address_def
  by (subst decode_v4) (auto simp: address_ok_def endpoint_of_def xor_bytes_cancel xor.assoc intro: xor_less [of _ 16, simplified])

definition attr_ok :: "nat \<times> byte list \<Rightarrow> bool" where
  "attr_ok a = (fst a < 2 ^ 16 \<and> length (snd a) < 2 ^ 16)"

lemma attr_bytes_parts:
  assumes "attr_ok a"
  shows "unpack_HH (take 4 (attr_bytes a)) = Inr (fst a, length (snd a))" "take (length (snd a)) (drop 4 (attr_bytes a)) = snd a"
    "length (attr_bytes a) = 4 + (length (snd a) + 3) div 4 * 4"
proof -
  have "length (snd a) \<le> (length (snd a) + 3) div 4 * 4" by presburger
  then show "length (attr_bytes a) = 4 + (length (snd a) + 3) div 4 * 4" by (simp add: attr_bytes_def split: prod.split)
  have "take 4 (attr_bytes a) = bytes_be 2 (fst a) @ bytes_be 2 (length (snd a))" by (simp add: attr_bytes_def split: prod.split)
  then show "unpack_HH (take 4 (attr_bytes a)) = Inr (fst a, length (snd a))" using assms by (simp add: unpack_HH_def attr_ok_def)
  show "take (length (snd a)) (drop 4 (attr_bytes a)) = snd a" by (simp add: attr_bytes_def split: prod.split)
qed

lemma parse_attrs_encoded:
  assumes "\<forall>a\<in>set as. attr_ok a" and "drop off data = concat (map attr_bytes as)" and "off \<le> length data"
  shows "parse_attrs data off (length data) acc = Inr (acc @ as)"
  using assms
proof (induction as arbitrary: off acc)
  case Nil
  then show ?case by (subst parse_attrs.simps) simp
next
  case (Cons a as)
  note p = attr_bytes_parts [of a]
  let ?l = "length (snd a)" and ?r = "concat (map attr_bytes as)"
  have d: "drop off data = attr_bytes a @ ?r" and a: "attr_ok a" using Cons.prems by simp_all
  then have len: "length data = off + length (attr_bytes a) + length ?r" using Cons.prems(3)
    by (metis add.assoc append_take_drop_id length_append length_take min.absorb2)
  have pad: "?l \<le> (?l + 3) div 4 * 4" by presburger
  have "take 4 (drop off data) = take 4 (attr_bytes a)" unfolding d using p(3) [OF a] by simp
  then have u: "unpack_HH (take 4 (drop off data)) = Inr (fst a, ?l)" using p(1) [OF a] by simp
  have "drop (off + 4) data = drop 4 (drop off data)" by (simp add: add.commute)
  also have "\<dots> = drop 4 (attr_bytes a) @ ?r" unfolding d using p(3) [OF a] by simp
  finally have "drop (off + 4) data = drop 4 (attr_bytes a) @ ?r" .
  then have val: "take ?l (drop (off + 4) data) = snd a" using p(2,3) [OF a] pad by simp
  have "drop (off + 4 + (?l + 3) div 4 * 4) data = drop (length (attr_bytes a)) (drop off data)"
    using p(3) [OF a] by (simp add: add.assoc add.commute)
  also have "\<dots> = ?r" unfolding d by simp
  finally have "parse_attrs data (off + 4 + (?l + 3) div 4 * 4) (length data) (acc @ [a]) = Inr ((acc @ [a]) @ as)"
    using Cons.prems(1) len p(3) [OF a] by (intro Cons.IH) auto
  then show ?case
    by (subst parse_attrs.simps) (use u val len p(3) [OF a] pad in \<open>simp add: Let_def\<close>)
qed

lemma parse_stun_success:
  assumes "length txid = 12" and "\<forall>a\<in>set as. attr_ok a" and "length (concat (map attr_bytes as)) < 2 ^ 16"
  shows "parse_stun_response (stun_success txid as) txid = rbind (mapped_address as txid) (\<lambda>(ip, port).
     rbind (addr_of as txid ATTR_RESPONSE_ORIGIN) (\<lambda>origin. rbind (addr_of as txid ATTR_OTHER_ADDRESS) (\<lambda>other.
     Inr \<lparr>sp_mapped_ip = ip, sp_mapped_port = port, sp_response_origin = origin, sp_other_address = other\<rparr>)))"
proof -
  let ?body = "concat (map attr_bytes as)" and ?m = "stun_success txid as"
  let ?h = "bytes_be 2 STUN_BINDING_SUCCESS @ bytes_be 2 (length ?body) @ bytes_be 4 STUN_MAGIC_COOKIE @ txid"
  have m: "?m = ?h @ ?body" by (simp add: stun_success_def Let_def)
  have h: "length ?h = 20" using assms(1) by simp
  then have t: "take 20 ?m = ?h" and d: "drop 20 ?m = ?body" and len: "length ?m = 20 + length ?body" unfolding m by simp_all
  have u: "unpack_HHI12s ?h = Inr (STUN_BINDING_SUCCESS, length ?body, STUN_MAGIC_COOKIE, txid)"
    using assms(1,3) by (simp add: unpack_HHI12s_def STUN_BINDING_SUCCESS_def STUN_MAGIC_COOKIE_def)
  have "parse_attrs ?m 20 (length ?m) [] = Inr as" using parse_attrs_encoded [OF assms(2) d] len by simp
  then have a: "parse_attrs ?m 20 (20 + length ?body) [] = Inr as" unfolding len .
  show ?thesis unfolding parse_stun_response_def t u rbind_simps prod.case a by (simp add: len)
qed

lemma request_txid: "stun_request txid change = Inr req \<Longrightarrow> length txid = 12 \<and> take 12 (drop 8 req) = txid"
  by (auto simp: stun_request_def Let_def split: if_splits)

lemma addr_of_plain:
  assumes "map_of as k = map_option plain_address o'" and "\<forall>x\<in>set_option o'. address_ok x"
  shows "addr_of as txid k = Inr (map_option endpoint_of o')"
  using assms by (cases o') (simp_all add: addr_of_def decode_plain)

lemma mapped_address_of:
  assumes "map_of as ATTR_XOR_MAPPED_ADDRESS = Some (masked_address ap)
      \<or> map_of as ATTR_XOR_MAPPED_ADDRESS = None \<and> map_of as ATTR_MAPPED_ADDRESS = Some (plain_address ap)" and "address_ok ap"
  shows "mapped_address as txid = Inr (endpoint_of ap)"
  using assms by (auto simp: mapped_address_def decode_masked decode_plain)

text \<open>
  A Binding exchange with a server that follows RFC 5389 tells the address the server saw. Whatever
  request the program sends, and with whatever other attributes in any order, an answer that
  repeats the request's transaction id and carries the address plain or masked gives exactly that
  address and port, the server's origin and other address as they were sent, and the source.
\<close>

theorem stun_exchange_roundtrip:
  assumes "length (nn_txid net n) = 12" and "timeout \<noteq> NaN"
    and "\<forall>req. nn_outcome net n dest req = Answered (stun_success (take 12 (drop 8 req)) as) source"
    and "\<forall>a\<in>set as. attr_ok a" and "length (concat (map attr_bytes as)) \<le> 4076"
    and "map_of as ATTR_XOR_MAPPED_ADDRESS = Some (masked_address ap)
      \<or> map_of as ATTR_XOR_MAPPED_ADDRESS = None \<and> map_of as ATTR_MAPPED_ADDRESS = Some (plain_address ap)"
    and "map_of as ATTR_RESPONSE_ORIGIN = map_option plain_address origin"
    and "map_of as ATTR_OTHER_ADDRESS = map_option plain_address other"
    and "\<forall>x\<in>insert ap (set_option origin \<union> set_option other). address_ok x"
  shows "exchange net timeout n dest change = Inr (\<lparr>sp_mapped_ip = v4_str (fst ap), sp_mapped_port = snd ap,
    sp_response_origin = map_option endpoint_of origin, sp_other_address = map_option endpoint_of other\<rparr>, source)"
proof -
  obtain req where req: "stun_request (nn_txid net n) change = Inr req" using assms(1) by (simp add: stun_request_def Let_def)
  let ?m = "stun_success (nn_txid net n) as"
  have "length ?m \<le> 4096" using assms(1,5) by (simp add: stun_success_def Let_def)
  then have t: "take 4096 ?m = ?m" by simp
  have "parse_stun_response ?m (nn_txid net n) = Inr \<lparr>sp_mapped_ip = v4_str (fst ap), sp_mapped_port = snd ap,
      sp_response_origin = map_option endpoint_of origin, sp_other_address = map_option endpoint_of other\<rparr>"
    using assms by (simp add: parse_stun_success mapped_address_of addr_of_plain endpoint_of_def)
  then show ?thesis using assms(2,3) request_txid [OF req] by (simp add: exchange_def req t)
qed

definition demo_stun_attrs :: stun_attrs where
  "demo_stun_attrs = [(0x8022, [1, 2, 3]), (ATTR_XOR_MAPPED_ADDRESS, masked_address (quad 203 0 113 7, 40000)),
     (ATTR_OTHER_ADDRESS, plain_address (quad 198 51 100 9, 3479))]"

definition demo_nat_net :: nat_net where
  "demo_nat_net = \<lparr>nn_resolve = (\<lambda>host port. Inr [(''198.51.100.1'', nat port), (''198.51.100.2'', nat port)]),
     nn_txid = (\<lambda>n. replicate 12 (of_nat n)),
     nn_outcome = (\<lambda>n dest req. Answered (stun_success (take 12 (drop 8 req)) demo_stun_attrs) dest), nn_local_port = 40000\<rparr>"

theorem stun_exchange_roundtrip_witness:
  "exchange demo_nat_net (Fin 1) 3 (''198.51.100.1'', 3478) (Some 6) =
     Inr (\<lparr>sp_mapped_ip = ''203.0.113.7'', sp_mapped_port = 40000, sp_response_origin = None,
       sp_other_address = Some (''198.51.100.9'', 3479)\<rparr>, (''198.51.100.1'', 3478))"
proof -
  have a: "\<forall>a\<in>set demo_stun_attrs. attr_ok a" "length (concat (map attr_bytes demo_stun_attrs)) \<le> 4076"
    "map_of demo_stun_attrs ATTR_XOR_MAPPED_ADDRESS = Some (masked_address (quad 203 0 113 7, 40000))"
    "map_of demo_stun_attrs ATTR_RESPONSE_ORIGIN = map_option plain_address None"
    "map_of demo_stun_attrs ATTR_OTHER_ADDRESS = map_option plain_address (Some (quad 198 51 100 9, 3479))"
    by (simp_all add: demo_stun_attrs_def attr_ok_def attr_bytes_def masked_address_def plain_address_def xor_bytes_def
        ATTR_XOR_MAPPED_ADDRESS_def ATTR_OTHER_ADDRESS_def ATTR_RESPONSE_ORIGIN_def)
  have s: "v4_str 3405803783 = ''203.0.113.7''" "v4_str 3325256713 = ''198.51.100.9''" by code_simp+
  show ?thesis
    using stun_exchange_roundtrip [of demo_nat_net 3 "Fin 1" "(''198.51.100.1'', 3478)" demo_stun_attrs "(''198.51.100.1'', 3478)",
        OF _ _ _ a(1,2) disjI1 [OF a(3)] a(4,5)]
    by (simp add: demo_nat_net_def s address_ok_def quad_def endpoint_of_def)
qed

section \<open>What a verdict rests on\<close>

definition backed :: "nat_net \<Rightarrow> nat_observation \<Rightarrow> bool" where
  \<comment> \<open>an exchange with the observed server was answered, and the answer carries the observed mapping\<close>
  "backed net x \<longleftrightarrow> (\<exists>n request data p. stun_request (nn_txid net n) None = Inr request
     \<and> nn_outcome net n (ob_remote x) request = Answered data (ob_source x)
     \<and> parse_stun_response (take 4096 data) (nn_txid net n) = Inr p
     \<and> ob_mapped x = (sp_mapped_ip p, sp_mapped_port p) \<and> ob_other x = sp_other_address p)"

definition probe_ok :: "nat_net \<Rightarrow> probe_state \<Rightarrow> bool" where
  "probe_ok net st \<longleftrightarrow> distinct (map ob_remote (ps_observations st))
     \<and> ob_remote ` set (ps_observations st) \<subseteq> set (ps_seen st) \<and> (\<forall>x\<in>set (ps_observations st). backed net x)"

lemma exchange_Inr:
  assumes "exchange net timeout n dest None = Inr (p, source)"
  shows "backed net \<lparr>ob_server = s, ob_remote = dest, ob_source = source, ob_mapped = (sp_mapped_ip p, sp_mapped_port p),
    ob_other = sp_other_address p\<rparr>"
  using assms by (fastforce simp: exchange_def backed_def res_simps split: if_splits socket_outcome.splits)

lemma probe_ok_error [simp]: "probe_ok net (add_error s d t st) = probe_ok net st"
  by (simp add: probe_ok_def add_error_def)

lemma try_remotes_ok: "try_remotes net timeout server dests st = Inr (b, st') \<Longrightarrow> probe_ok net st \<Longrightarrow> probe_ok net st'"
proof (induction net timeout server dests st rule: try_remotes.induct)
  case (2 net timeout server dest dests st)
  let ?st = "st\<lparr>ps_seen := dest # ps_seen st, ps_count := Suc (ps_count st)\<rparr>"
  have st: "probe_ok net ?st" using 2(4) by (auto simp: probe_ok_def)
  show ?case
  proof (cases "dest \<in> set (ps_seen st)")
    case True
    then show ?thesis using 2 by simp
  next
    case False
    show ?thesis
    proof (cases "exchange net timeout (ps_count st) dest None")
      case (Inl e)
      then show ?thesis using 2(2) [OF False refl refl Inl] 2(3) False st by (cases e) (simp_all add: Let_def)
    next
      case (Inr x)
      obtain p source where x: "x = (p, source)" by (cases x)
      have "st' = observe server dest p source ?st" using 2(3) False by (simp add: Inr x Let_def)
      then show ?thesis using st False exchange_Inr [OF Inr [unfolded x]] 2(4) by (auto simp: probe_ok_def observe_def)
    qed
  qed
qed simp

lemma probe_loop_ok: "probe_loop net timeout servers st = Inr st' \<Longrightarrow> probe_ok net st \<Longrightarrow> probe_ok net st'"
proof (induction net timeout servers st rule: probe_loop.induct)
  case (2 net timeout s servers st)
  show ?case
  proof (cases "resolve_ipv4 net (fst s) (snd s)")
    case (Inl e)
    then show ?thesis using 2(1) [OF Inl] 2(3,4) by (cases e) simp_all
  next
    case (Inr dests)
    then obtain b st1 where t: "try_remotes net timeout (server_text s) (take 2 dests) st = Inr (b, st1)"
      and r: "probe_loop net timeout servers (if \<not> b \<and> dests = [] then add_error (server_text s) None ''no_remote_endpoint'' st1 else st1) = Inr st'"
      using 2(3) by (auto simp: res_simps)
    show ?thesis using 2(2) [OF Inr r] try_remotes_ok [OF t 2(4)] by simp
  qed
qed simp

lemma probe_ok_start: "probe_ok net \<lparr>ps_count = 0, ps_seen = [], ps_observations = [], ps_errors = [], ps_first = None\<rparr>"
  by (simp add: probe_ok_def)

lemma probe_stun_servers_ok:
  assumes "probe_stun_servers net servers timeout = Inr r"
  shows "distinct (map ob_remote (pr_observations r)) \<and> (\<forall>x\<in>set (pr_observations r). backed net x)"
  using assms probe_loop_ok [OF _ probe_ok_start] by (auto simp: probe_stun_servers_def probe_ok_def res_simps split: if_splits)

definition verdict_spec :: "nat_observation list \<Rightarrow> string option \<Rightarrow> nat \<Rightarrow> nat_class \<Rightarrow> bool" where
  \<comment> \<open>what each type of NAT claims of the observations\<close>
  "verdict_spec obs local_ip port c =
     (if nc_type c = ''NO_NAT''
      then obs \<noteq> [] \<and> (\<exists>ip a. local_ip = Some ip \<and> IPv4Address ip = Some a \<and> is_global4 a \<and> (\<forall>x\<in>set obs. ob_mapped x = (ip, port)))
      else if nc_type c = ''ENDPOINT_INDEPENDENT_MAPPING''
      then 2 \<le> length obs \<and> (\<exists>m. \<forall>x\<in>set obs. ob_mapped x = m)
      else if nc_type c = ''SYMMETRIC_LIKE_MAPPING''
      then (\<exists>x\<in>set obs. \<exists>y\<in>set obs. ob_remote x \<noteq> ob_remote y \<and> ob_mapped x \<noteq> ob_mapped y)
      else nc_type c = ''UNKNOWN'' \<and> length obs < 2)"

lemma card_set_one: "xs \<noteq> [] \<Longrightarrow> card (set xs) = 1 \<longleftrightarrow> (\<exists>m. \<forall>x\<in>set xs. x = m)"
proof -
  assume "xs \<noteq> []"
  have "set xs = {m}" if "\<forall>x\<in>set xs. x = m" for m using that \<open>xs \<noteq> []\<close> by (cases xs) auto
  then show ?thesis by (auto simp: card_1_singleton_iff)
qed

lemma classify_nat_spec:
  assumes "distinct (map ob_remote obs)"
  shows "verdict_spec obs local_ip port (classify_nat obs local_ip (Some port) f)"
proof (cases "obs = []")
  case False
  have n: "card (ob_remote ` set obs) = length obs" using distinct_card [OF assms] by simp
  have one: "card (ob_mapped ` set obs) = 1 \<longleftrightarrow> (\<exists>m. \<forall>x\<in>set obs. ob_mapped x = m)"
    using card_set_one [of "map ob_mapped obs"] False by simp
  have two: "\<exists>x\<in>set obs. \<exists>y\<in>set obs. ob_remote x \<noteq> ob_remote y \<and> ob_mapped x \<noteq> ob_mapped y"
    if ne: "\<not> (\<exists>m. \<forall>x\<in>set obs. ob_mapped x = m)"
  proof -
    obtain x where x: "x \<in> set obs" using False by (cases obs) auto
    then obtain y where "y \<in> set obs" "ob_mapped x \<noteq> ob_mapped y" using ne by metis
    note this x
    then show ?thesis using assms by (metis distinct_map inj_on_def)
  qed
  have direct: "\<exists>ip a. local_ip = Some ip \<and> IPv4Address ip = Some a \<and> is_global4 a \<and> (\<forall>x\<in>set obs. ob_mapped x = (ip, port))"
    if "direct_endpoint local_ip (Some port) (map ob_mapped obs)"
    using that by (auto simp: direct_endpoint_def list_all_iff split: option.splits)
  show ?thesis
    using False direct one two by (auto simp: classify_nat_def verdict_spec_def n Let_def)
qed (simp add: classify_nat_def verdict_spec_def)

text \<open>
  C34. The verdict on the NAT rests on answers. In a fresh report no remote address is counted twice, and
  every observation comes from an answer with the request's transaction id. A mapping is reported
  endpoint independent only when at least two different servers saw the same address and port,
  symmetric-like only when two different servers saw different ones, and no NAT only when all of
  them saw the host's own global address and port.
\<close>

theorem nat_verdict_grounded:
  assumes "discover_nat show env given timeout False cache = (Inr r, cache')"
  shows "distinct (map ob_remote (pr_observations (nr_stun r))) \<and> cache' = cache
    \<and> (\<forall>x\<in>set (pr_observations (nr_stun r)). backed (ne_net env) x)
    \<and> verdict_spec (pr_observations (nr_stun r)) (nr_local_ipv4 r) (pr_local_port (nr_stun r)) (nr_nat r)"
proof -
  have r: "nat_report_of show env given timeout = Inr r" and c: "cache' = cache"
    using assms by (auto simp: discover_nat_def guard_in_Inr split: option.splits)
  then obtain servers where p: "probe_stun_servers (ne_net env) servers timeout = Inr (nr_stun r)"
    and n: "nr_nat r = classify_nat (pr_observations (nr_stun r)) (nr_local_ipv4 r) (Some (pr_local_port (nr_stun r)))
      (str_or (pr_filtering (nr_stun r)) ''UNKNOWN'')"
    by (auto simp: nat_report_of_def res_simps Let_def)
  note ok = probe_stun_servers_ok [OF p]
  show ?thesis using ok c classify_nat_spec [of "pr_observations (nr_stun r)"] unfolding n by blast
qed

definition demo_nat_env :: nat_env where
  "demo_nat_env = \<lparr>ne_now = 0, ne_env_var = [], ne_bridge_env = None, ne_net = demo_nat_net, ne_sockname = Some ''192.168.1.5'',
     ne_ip_command = NotRun ''FileNotFoundError'', ne_upnpc = NotRun ''FileNotFoundError'', ne_loads = (\<lambda>_. None)\<rparr>"

lemma demo_nat_discovery:
  "map_sum (\<lambda>_. ()) (\<lambda>r. (nc_type (nr_nat r), length (pr_observations (nr_stun r))))
     (fst (discover_nat show demo_nat_env [''192.0.2.1:3478'', ''192.0.2.2:3478''] (Fin 1) False None)) = Inr (''ENDPOINT_INDEPENDENT_MAPPING'', 2)"
  by code_simp

theorem nat_verdict_grounded_witness:
  "\<exists>r. fst (discover_nat (\<lambda>_. []) demo_nat_env [''192.0.2.1:3478'', ''192.0.2.2:3478''] (Fin 1) False None) = Inr r
    \<and> (\<exists>x y m. pr_observations (nr_stun r) = [x, y] \<and> ob_remote x \<noteq> ob_remote y \<and> backed demo_nat_net x \<and> backed demo_nat_net y
        \<and> ob_mapped x = m \<and> ob_mapped y = m)"
proof -
  obtain r c where r: "discover_nat (\<lambda>_. []) demo_nat_env [''192.0.2.1:3478'', ''192.0.2.2:3478''] (Fin 1) False None = (Inr r, c)"
      and t: "nc_type (nr_nat r) = ''ENDPOINT_INDEPENDENT_MAPPING''" "length (pr_observations (nr_stun r)) = 2"
    using demo_nat_discovery [of "\<lambda>_. []"]
    by (cases "discover_nat (\<lambda>_. []) demo_nat_env [''192.0.2.1:3478'', ''192.0.2.2:3478''] (Fin 1) False None"; cases "fst
      (discover_nat (\<lambda>_. []) demo_nat_env [''192.0.2.1:3478'', ''192.0.2.2:3478''] (Fin 1) False None)") auto
  obtain x y where xy: "pr_observations (nr_stun r) = [x, y]" using t(2) by (auto simp: numeral_2_eq_2 length_Suc_conv)
  have "ne_net demo_nat_env = demo_nat_net" by (simp add: demo_nat_env_def)
  then show ?thesis using nat_verdict_grounded [OF r] unfolding xy r verdict_spec_def t(1) by (auto simp: xy)
qed

lemma nan_timeout_crashes:
  "fst (discover_nat show demo_nat_env [''192.0.2.1:3478''] NaN False None) = Inl (ValueError ''Invalid value NaN (not a number)'')"
  by code_simp

end
