(* ===== verification/Discovery.thy ===== *)
theory Discovery
  imports Acl Archive "HOL-Library.Multiset"
begin

text \<open>
  Backend discovery (\<open>discovery.py\<close>): the manifest a backend publishes, the loopback listeners of
  \<open>/proc/net/tcp\<close>, the concurrent scan and the import of a backend as a Resource. What \<open>urlopen\<close>
  gives for a URL is an input, exceptions that are neither \<open>OSError\<close> nor \<open>URLError\<close> included
  (\<open>http.client\<close> raises its own for an answer that is not HTTP); so is the order in which the
  probes of a scan finish.
\<close>

section \<open>The manifest\<close>

definition DISCOVERY_PATH :: string where "DISCOVERY_PATH = ''/.well-known/ge360''"
definition MAX_DISCOVERY_PORTS :: nat where "MAX_DISCOVERY_PORTS = 64"
definition MAX_MANIFEST_BYTES :: nat where "MAX_MANIFEST_BYTES = 16 * 1024"

definition ALLOWED_MANIFEST_KEYS :: "string list" where
  "ALLOWED_MANIFEST_KEYS = [''schema'', ''name'', ''type'', ''version'', ''health'', ''icon'', ''description'']"

definition VERSION_RE_fullmatch :: "string \<Rightarrow> bool" where
  "VERSION_RE_fullmatch s = class_fullmatch is_alnum (\<lambda>c. is_alnum c \<or> c \<in> set ''._+-'') 63 s"

definition validate_discovery_timeout :: "num_arg \<Rightarrow> pyfloat res" where
  "validate_discovery_timeout v = (case py_float v of
       None \<Rightarrow> Inl (BridgeError ''Timeout discovery non valido.'')
     | Some timeout \<Rightarrow>
         if fl_less timeout (Fin (1 / 10)) \<or> fl_less (Fin 5) timeout
         then Inl (BridgeError ''Timeout discovery non valido: usa un valore tra 0.1 e 5 secondi.'')
         else Inr timeout)"

record manifest =
  mf_name :: string
  mf_type :: string
  mf_version :: string
  mf_health :: string
  mf_icon :: string
  mf_description :: string

fun text_field :: "string \<Rightarrow> json \<Rightarrow> string res" where
  "text_field e (JStr s) = Inr s"
| "text_field e _ = Inl (BridgeError (''Manifest GE360: '' @ e))"

definition check_name :: "string \<Rightarrow> string res" where
  "check_name v = (let name = py_strip v in
     if name = [] \<or> 120 < length name \<or> list_ex (\<lambda>c. ord_of c < 32) name
     then Inl (BridgeError ''Manifest GE360: name non valido.'') else Inr name)"

definition check_version :: "string \<Rightarrow> string res" where
  "check_version v = (let version = py_strip v in
     if \<not> VERSION_RE_fullmatch version then Inl (BridgeError ''Manifest GE360: version non valida.'') else Inr version)"

definition check_health :: "string \<Rightarrow> string res" where
  "check_health v = (let health = py_strip v in
     rbind (urlsplit health) (\<lambda>parsed.
     if \<not> starts_with ''/'' health \<or> starts_with ''//'' health \<or> u_scheme parsed \<noteq> [] \<or> u_netloc parsed \<noteq> []
        \<or> u_fragment parsed \<noteq> [] \<or> 500 < length health
     then Inl (BridgeError ''Manifest GE360: health deve essere un percorso locale assoluto, es. /healthz.'')
     else Inr health))"

definition check_description :: "string \<Rightarrow> string res" where
  "check_description v = (let description = py_strip v in
     if 500 < length description \<or> list_ex (\<lambda>c. ord_of c < 32 \<and> ord_of c \<notin> {9, 10, 13}) description
     then Inl (BridgeError ''Manifest GE360: description non valida.'') else Inr description)"

definition manifest_fields :: "(string \<times> json) list \<Rightarrow> manifest res" where
  "manifest_fields kvs =
     rbind (text_field ''name deve essere una stringa.'' (obj_get kvs ''name'')) (\<lambda>v. rbind (check_name v) (\<lambda>name.
     rbind (text_field ''type deve essere una stringa.'' (obj_get kvs ''type'')) (\<lambda>v.
     rbind (validate_name (py_lower (py_strip v))) (\<lambda>kind.
     rbind (text_field ''version deve essere una stringa.'' (obj_get kvs ''version'')) (\<lambda>v. rbind (check_version v) (\<lambda>version.
     rbind (text_field ''health deve essere un percorso.'' (obj_get kvs ''health'')) (\<lambda>v. rbind (check_health v) (\<lambda>health.
     rbind (text_field ''icon deve essere una stringa.'' (obj_get_or kvs ''icon'' (JStr ''server''))) (\<lambda>v.
     rbind (validate_resource_icon v) (\<lambda>icon.
     rbind (text_field ''description deve essere una stringa.'' (obj_get_or kvs ''description'' (JStr []))) (\<lambda>v.
     rbind (check_description v) (\<lambda>description.
     Inr \<lparr>mf_name = name, mf_type = kind, mf_version = version, mf_health = health, mf_icon = icon,
          mf_description = description\<rparr>))))))))))))"

definition validate_manifest :: "json \<Rightarrow> manifest res" where
  "validate_manifest payload = (case payload of
       JObj kvs \<Rightarrow>
         (let unknown = without (map fst kvs) ALLOWED_MANIFEST_KEYS;
              missing = filter (\<lambda>k. k \<notin> fst ` set kvs) [''name'', ''type'', ''version'', ''health''] in
          if unknown \<noteq> []
          then Inl (BridgeError (''Manifest GE360 contiene campi non supportati: '' @ py_join '', '' unknown))
          else if missing \<noteq> [] then Inl (BridgeError (''Manifest GE360 incompleto: mancano '' @ py_join '', '' missing))
          else if obj_get_or kvs ''schema'' (JInt 1) \<noteq> JInt 1
          then Inl (BridgeError ''Schema manifest GE360 non supportato: usa schema=1.'')
          else manifest_fields kvs)
     | _ \<Rightarrow> Inl (BridgeError ''Manifest GE360 non valido: atteso un oggetto JSON.''))"

section \<open>Reading a manifest\<close>

definition endpoint_url :: "string \<Rightarrow> int \<Rightarrow> string \<Rightarrow> string res" where
  "endpoint_url host port scheme =
     rbind (validate_target_host host) (\<lambda>checked_host.
     rbind (validate_port port) (\<lambda>checked_port.
     let checked_scheme = py_lower (py_strip (str_or scheme ''http'')) in
     if checked_scheme \<notin> {''http'', ''https''} then Inl (BridgeError ''Discovery GE360 supporta soltanto HTTP o HTTPS.'')
     else let display_host = (if CHR '':'' \<in> set checked_host then ''['' @ checked_host @ '']'' else checked_host) in
       Inr (checked_scheme @ ''://'' @ display_host @ '':'' @ int_str checked_port @ DISCOVERY_PATH)))"

datatype url_outcome =
    UrlResponse int string string  \<comment> \<open>status, the \<open>Content-Type\<close> header (empty without one), the body\<close>
  | UrlHTTPError int
  | UrlUnreachable
  | UrlRaised string  \<comment> \<open>any other exception, by its class\<close>

record web =
  wb_open :: "string \<Rightarrow> url_outcome"
  wb_loads :: "string \<Rightarrow> json option"  \<comment> \<open>\<open>json.loads\<close> of the decoded body\<close>

definition probe_manifest :: "web \<Rightarrow> string \<Rightarrow> int \<Rightarrow> string \<Rightarrow> num_arg \<Rightarrow> manifest res" where
  "probe_manifest w host port scheme timeout =
     rbind (validate_discovery_timeout timeout) (\<lambda>_.
     rbind (endpoint_url host port scheme) (\<lambda>url. case wb_open w url of
       UrlHTTPError code \<Rightarrow> Inl (BridgeError (''Manifest GE360 non disponibile: HTTP '' @ int_str code @ ''.''))
     | UrlUnreachable \<Rightarrow> Inl (BridgeError ''Manifest GE360 non raggiungibile.'')
     | UrlRaised cls \<Rightarrow> Inl (OtherError cls)
     | UrlResponse status content_type body \<Rightarrow>
         if status \<noteq> 200 then Inl (BridgeError (''Manifest GE360 non disponibile: HTTP '' @ int_str status @ ''.''))
         else if py_lower (py_strip (fst (partition_at (CHR '';'') content_type))) \<noteq> ''application/json''
         then Inl (BridgeError ''Manifest GE360 non valido: Content-Type deve essere application/json.'')
         else if MAX_MANIFEST_BYTES < length (take (MAX_MANIFEST_BYTES + 1) body)
         then Inl (BridgeError ''Manifest GE360 troppo grande.'')
         else (case wb_loads w (take (MAX_MANIFEST_BYTES + 1) body) of
             None \<Rightarrow> Inl (BridgeError ''Manifest GE360 non contiene JSON UTF-8 valido.'')
           | Some payload \<Rightarrow> validate_manifest payload)))"

section \<open>Listeners\<close>

fun hex_groups_ok :: "bool \<Rightarrow> string \<Rightarrow> bool" where
  "hex_groups_ok b [] = b"
| "hex_groups_ok b (c # cs) =
     (if hex_val c \<noteq> None then hex_groups_ok True cs else c = CHR ''_'' \<and> b \<and> hex_groups_ok False cs)"

definition nat_of_hex :: "string \<Rightarrow> nat option" where
  "nat_of_hex s = (if starts_with ''0x'' (py_lower s)
     then (if hex_groups_ok True (drop 2 s) \<and> drop 2 s \<noteq> [] then hex_digits 0 (filter (\<lambda>c. c \<noteq> CHR ''_'') (drop 2 s)) else None)
     else (if hex_groups_ok False s then hex_digits 0 (filter (\<lambda>c. c \<noteq> CHR ''_'') s) else None))"

definition py_int_hex :: "string \<Rightarrow> int option" where
  \<comment> \<open>\<open>int(text, 16)\<close>\<close>
  "py_int_hex s = (case py_strip s of [] \<Rightarrow> None
     | c # cs \<Rightarrow> if c = CHR ''-'' then map_option (\<lambda>n. - int n) (nat_of_hex cs)
         else if c = CHR ''+'' then map_option int (nat_of_hex cs) else map_option int (nat_of_hex (c # cs)))"

definition listener_port :: "string \<Rightarrow> int option" where
  \<comment> \<open>the port of a line of \<open>/proc/net/tcp\<close> for a listener on 127.0.0.1\<close>
  "listener_port line = (let fields = py_split line in
     if length fields < 4 \<or> fields ! 3 \<noteq> ''0A'' \<or> CHR '':'' \<notin> set (fields ! 1) then None
     else (case rpartition_at (CHR '':'') (fields ! 1) of (address_hex, _, port_hex) \<Rightarrow>
       if py_upper address_hex \<noteq> ''0100007F'' then None
       else (case py_int_hex port_hex of None \<Rightarrow> None
         | Some p \<Rightarrow> (case validate_port p of Inl _ \<Rightarrow> None | Inr p \<Rightarrow> Some p))))"

definition proc_ipv4_loopback_ports :: "string option \<Rightarrow> int list" where
  \<comment> \<open>\<open>None\<close> is a file that cannot be read\<close>
  "proc_ipv4_loopback_ports file = (case file of None \<Rightarrow> []
     | Some text \<Rightarrow> sorted_set (List.map_filter listener_port (drop 1 (py_splitlines text))))"

section \<open>Proposals\<close>

record proposal =
  pp_manifest :: manifest
  pp_name :: string
  pp_host :: string
  pp_port :: int
  pp_protocol :: string
  pp_url :: string
  pp_bridge_port :: "int option"
  pp_status :: string
  pp_reason :: string

definition already :: "string \<Rightarrow> string" where
  "already s = ''gi'' @ [CHR 0xE0] @ s"

definition proposal_status :: "resource list \<Rightarrow> string \<Rightarrow> int \<Rightarrow> int option \<Rightarrow> string \<times> string" where
  "proposal_status rs name port suggested =
     (case find (\<lambda>r. r_name r = name) rs of
        Some r \<Rightarrow> (if target_port r = port then ''registered'' else ''name_conflict'',
                  ''Resource '' @ name @ '' '' @ already '' registrata.'')
      | None \<Rightarrow> (case find (\<lambda>r. target_host r \<in> {''127.0.0.1'', ''localhost''} \<and> target_port r = port) rs of
          Some r \<Rightarrow> (''target_registered'', ''Target '' @ already '' registrato come '' @ r_name r @ ''.'')
        | None \<Rightarrow> if suggested = None
            then (''bridge_port_required'', ''La target port non pu'' @ [CHR 0xF2] @
                  '' essere riutilizzata come bridge port; scegline una libera.'')
            else (''new'', [])))"

definition make_proposal :: "manifest \<Rightarrow> string \<Rightarrow> int \<Rightarrow> string \<Rightarrow> store \<Rightarrow> proposal res" where
  "make_proposal m host port scheme st =
     (let rs = list_resources st;
          suggested = (if port \<notin> set RESERVED_BRIDGE_PORTS \<and> port \<notin> bridge_port ` set rs then Some port else None);
          (status, reason) = proposal_status rs (mf_type m) port suggested in
      rbind (validate_target_host host) (\<lambda>h. rbind (endpoint_url host port scheme) (\<lambda>url.
      Inr \<lparr>pp_manifest = m, pp_name = mf_type m, pp_host = h, pp_port = port, pp_protocol = scheme, pp_url = url,
           pp_bridge_port = suggested, pp_status = status, pp_reason = reason\<rparr>)))"

section \<open>The scan\<close>

record discovery_report =
  dr_host :: string
  dr_scheme :: string
  dr_ports :: "int list"
  dr_proposals :: "proposal list"
  dr_errors :: "(int \<times> string) list"

definition probe_port :: "web \<Rightarrow> store \<Rightarrow> string \<Rightarrow> string \<Rightarrow> pyfloat \<Rightarrow> int \<Rightarrow> (string + proposal) res" where
  \<comment> \<open>\<open>one\<close>: the text of a \<open>BridgeError\<close>, or a proposal; another exception reaches the caller\<close>
  "probe_port w st host scheme timeout port =
     (case rbind (probe_manifest w host port scheme (NFloat timeout)) (\<lambda>m. make_proposal m host port scheme st) of
        Inr p \<Rightarrow> Inr (Inr p)
      | Inl (BridgeError t) \<Rightarrow> Inr (Inl (take 200 t))
      | Inl e \<Rightarrow> Inl e)"

fun collect_probes ::
  "(int \<Rightarrow> (string + proposal) res) \<Rightarrow> int list \<Rightarrow> proposal list \<Rightarrow> (int \<times> string) list
   \<Rightarrow> (proposal list \<times> (int \<times> string) list) res" where
  \<comment> \<open>the ports in the order in which their probes finish\<close>
  "collect_probes one [] ps es = Inr (ps, es)"
| "collect_probes one (port # ports) ps es = rbind (one port) (\<lambda>r. case r of
       Inr p \<Rightarrow> collect_probes one ports (ps @ [p]) es
     | Inl t \<Rightarrow> collect_probes one ports ps (if t \<noteq> [] then es @ [(port, t)] else es))"

definition selected_ports :: "int list option \<Rightarrow> string option \<Rightarrow> int list res" where
  "selected_ports ports file =
     rbind (case ports of None \<Rightarrow> Inr (proc_ipv4_loopback_ports file) | Some ps \<Rightarrow> rmap validate_port ps) (\<lambda>ps.
     let selected = sorted_set (filter (\<lambda>p. p \<notin> set RESERVED_BRIDGE_PORTS) ps) in
     if MAX_DISCOVERY_PORTS < length selected
     then Inl (BridgeError (''Discovery GE360 limitata a massimo '' @ nat_str MAX_DISCOVERY_PORTS @ '' porte per esecuzione.''))
     else Inr selected)"

definition discover_backends ::
  "web \<Rightarrow> store \<Rightarrow> string option \<Rightarrow> int list option \<Rightarrow> string \<Rightarrow> string \<Rightarrow> num_arg \<Rightarrow> (int list \<Rightarrow> int list)
   \<Rightarrow> discovery_report res" where
  \<comment> \<open>the last argument puts the selected ports in the order in which the probes finish\<close>
  "discover_backends w st file ports host scheme timeout order =
     rbind (validate_target_host host) (\<lambda>host.
     let scheme = py_lower (py_strip (str_or scheme ''http'')) in
     if scheme \<notin> {''http'', ''https''} then Inl (BridgeError ''Discovery GE360 supporta soltanto HTTP o HTTPS.'')
     else rbind (validate_discovery_timeout timeout) (\<lambda>timeout.
     rbind (selected_ports ports file) (\<lambda>selected.
     rbind (collect_probes (probe_port w st host scheme timeout) (order selected) [] []) (\<lambda>(ps, es).
     Inr \<lparr>dr_host = host, dr_scheme = scheme, dr_ports = selected,
          dr_proposals = sort_key (\<lambda>p. (pp_port p, pp_name p)) ps, dr_errors = sort_key fst es\<rparr>))))"

section \<open>The import\<close>

definition import_discovered_backend ::
  "web \<Rightarrow> string \<Rightarrow> int \<Rightarrow> string \<Rightarrow> int option \<Rightarrow> num_arg \<Rightarrow> store \<Rightarrow> resource res \<times> store" where
  "import_discovered_backend w host tp scheme bp timeout st =
     guard_in st (validate_target_host host) (\<lambda>host.
     guard_in st (validate_port tp) (\<lambda>tp.
     let scheme = py_lower (py_strip (str_or scheme ''http'')) in
     guard_in st (probe_manifest w host tp scheme timeout) (\<lambda>m.
     guard_in st (make_proposal m host tp scheme st) (\<lambda>p.
     if pp_status p \<in> {''registered'', ''name_conflict'', ''target_registered''} then (Inl (BridgeError (pp_reason p)), st)
     else (case (if bp \<noteq> None then bp else pp_bridge_port p) of
         None \<Rightarrow> (Inl (BridgeError ''Specifica una bridge port libera per importare questo backend.''), st)
       | Some bp \<Rightarrow>
           guard_in st (validate_port bp) (\<lambda>bp.
           register_resource (mf_type m) bp
             \<lparr>a_target_host = host, a_target_port = tp, a_allowed = [], a_icon = mf_icon m,
              a_description = str_or (mf_description m) (mf_name m @ '' v'' @ mf_version m), a_protocol = scheme,
              a_health_url = mf_health m, a_timeout = NFloat (Fin 2), a_unit = [], a_self_heal = False\<rparr> st))))))"

section \<open>Validating again\<close>

interpretation manifest_name: validator check_name
  by unfold_locales (auto simp: check_name_def Let_def split: if_splits)

interpretation manifest_version: validator check_version
  by unfold_locales (auto simp: check_version_def Let_def split: if_splits)

interpretation manifest_health: validator check_health
  by unfold_locales (auto simp: check_health_def Let_def res_simps split: if_splits)

interpretation manifest_description: validator check_description
  by unfold_locales (auto simp: check_description_def Let_def split: if_splits)

definition manifest_json :: "manifest \<Rightarrow> json" where
  \<comment> \<open>the dictionary \<open>validate_manifest\<close> returns\<close>
  "manifest_json m = JObj [(''schema'', JInt 1), (''name'', JStr (mf_name m)), (''type'', JStr (mf_type m)),
     (''version'', JStr (mf_version m)), (''health'', JStr (mf_health m)), (''icon'', JStr (mf_icon m)),
     (''description'', JStr (mf_description m))]"

definition manifest_wf :: "manifest \<Rightarrow> bool" where
  "manifest_wf m = (check_name (mf_name m) = Inr (mf_name m) \<and> py_lower (py_strip (mf_type m)) = mf_type m
     \<and> SAFE_NAME_match (mf_type m) \<and> check_version (mf_version m) = Inr (mf_version m)
     \<and> check_health (mf_health m) = Inr (mf_health m) \<and> validate_resource_icon (mf_icon m) = Inr (mf_icon m)
     \<and> check_description (mf_description m) = Inr (mf_description m))"

lemma py_strip_lower_strip: "py_lower (py_strip (py_lower (py_strip s))) = py_lower (py_strip s)"
  by (simp add: py_strip_lower)

lemma manifest_fields_wf: "manifest_fields kvs = Inr m \<Longrightarrow> manifest_wf m"
  by (auto simp: manifest_fields_def manifest_wf_def res_simps validate_name_Inr py_strip_lower_strip
      dest: manifest_name.validate_idem manifest_version.validate_idem manifest_health.validate_idem icon.validate_idem
        manifest_description.validate_idem)

lemma validate_manifest_wf: "validate_manifest j = Inr m \<Longrightarrow> manifest_wf m"
  by (auto simp: validate_manifest_def Let_def dest: manifest_fields_wf split: json.splits if_splits)

lemma manifest_json_get:
  assumes "j = manifest_json m" and "j = JObj kvs"
  shows "obj_get kvs ''name'' = JStr (mf_name m)" "obj_get kvs ''type'' = JStr (mf_type m)"
    "obj_get kvs ''version'' = JStr (mf_version m)" "obj_get kvs ''health'' = JStr (mf_health m)"
    "obj_get_or kvs ''icon'' d = JStr (mf_icon m)" "obj_get_or kvs ''description'' d = JStr (mf_description m)"
    "obj_get_or kvs ''schema'' d = JInt 1"
  using assms by (simp_all add: manifest_json_def obj_get_def obj_get_or_def)

lemma manifest_wf_validates:
  assumes "manifest_wf m" shows "validate_manifest (manifest_json m) = Inr m"
proof -
  obtain kvs where j: "manifest_json m = JObj kvs" by (simp add: manifest_json_def)
  have k: "map fst kvs = [''schema'', ''name'', ''type'', ''version'', ''health'', ''icon'', ''description'']"
    using j by (auto simp: manifest_json_def)
  have f: "filter (\<lambda>k. k \<notin> fst ` set kvs) [''name'', ''type'', ''version'', ''health''] = []"
    unfolding set_map [symmetric] k by simp
  have u: "without (map fst kvs) ALLOWED_MANIFEST_KEYS = []" unfolding k by code_simp
  have "manifest_fields kvs = Inr m"
    using assms by (simp add: manifest_fields_def manifest_json_get [OF j [symmetric] refl] manifest_json_get [OF refl j]
        manifest_wf_def validate_name_Inr validate_name_def)
  then show ?thesis unfolding j validate_manifest_def json.case Let_def f u
    by (simp add: manifest_json_get [OF refl j])
qed

lemma manifest_health_url:
  assumes "manifest_wf m"
  shows "validate_health_url (Some (mf_health m)) host port = Inr (mf_health m)" and "py_strip (mf_health m) = mf_health m"
proof -
  have h: "starts_with ''/'' (mf_health m)" "length (mf_health m) \<le> 500" "py_strip (mf_health m) = mf_health m"
    using assms by (auto simp: manifest_wf_def check_health_def Let_def res_simps split: if_splits)
  then have "mf_health m \<noteq> []" by (auto simp: starts_with_def)
  with h show "validate_health_url (Some (mf_health m)) host port = Inr (mf_health m)" "py_strip (mf_health m) = mf_health m"
    by (simp_all add: validate_health_url_def opt_str_def)
qed

text \<open>
  A manifest means one thing. Whatever JSON a backend sends, what the program keeps of an accepted
  manifest is in a normal form: sent again it is accepted and gives the same values; its type is a
  valid Resource name, its health path is accepted as the health URL of a Resource on any target,
  and its icon as a Resource icon.
\<close>

theorem accepted_manifest_normal:
  assumes "validate_manifest j = Inr m"
  shows "validate_manifest (manifest_json m) = Inr m \<and> validate_name (mf_type m) = Inr (mf_type m)
    \<and> validate_health_url (Some (mf_health m)) host port = Inr (mf_health m)
    \<and> validate_resource_icon (mf_icon m) = Inr (mf_icon m) \<and> length (mf_description m) \<le> 500"
proof -
  have w: "manifest_wf m" by (rule validate_manifest_wf [OF assms])
  then have "length (mf_description m) \<le> 500"
    by (auto simp: manifest_wf_def check_description_def Let_def split: if_splits)
  then show ?thesis using w manifest_wf_validates [OF w] manifest_health_url [OF w]
    by (simp add: manifest_wf_def validate_name_Inr)
qed

definition demo_manifest_json :: json where
  "demo_manifest_json = JObj [(''name'', JStr ''GE360 Rilievi''), (''type'', JStr '' Rilievi ''), (''version'', JStr ''4.2''),
     (''health'', JStr ''/healthz'')]"

definition demo_manifest :: manifest where
  "demo_manifest = \<lparr>mf_name = ''GE360 Rilievi'', mf_type = ''rilievi'', mf_version = ''4.2'', mf_health = ''/healthz'',
     mf_icon = ''server'', mf_description = []\<rparr>"

lemma demo_manifest_valid: "validate_manifest demo_manifest_json = Inr demo_manifest"
  by code_simp

theorem accepted_manifest_normal_witness:
  "validate_manifest (manifest_json demo_manifest) = Inr demo_manifest
    \<and> validate_health_url (Some ''/healthz'') ''localhost'' 3000 = Inr ''/healthz''"
  using accepted_manifest_normal [OF demo_manifest_valid, of "''localhost''" 3000] by (simp add: demo_manifest_def)

section \<open>The order of the probes\<close>

definition found_of :: "(int \<Rightarrow> (string + proposal) res) \<Rightarrow> int \<Rightarrow> proposal option" where
  "found_of one port = (case one port of Inr (Inr p) \<Rightarrow> Some p | _ \<Rightarrow> None)"

definition error_of :: "(int \<Rightarrow> (string + proposal) res) \<Rightarrow> int \<Rightarrow> (int \<times> string) option" where
  "error_of one port = (case one port of Inr (Inl (c # cs)) \<Rightarrow> Some (port, c # cs) | _ \<Rightarrow> None)"

lemma map_filter_Cons: "List.map_filter f (x # xs) = (case f x of None \<Rightarrow> [] | Some y \<Rightarrow> [y]) @ List.map_filter f xs"
  by (simp add: List.map_filter_def split: option.split)

lemma found_error_simps:
  "one port = Inr (Inr p) \<Longrightarrow> found_of one port = Some p \<and> error_of one port = None"
  "one port = Inr (Inl t) \<Longrightarrow> found_of one port = None \<and> error_of one port = (if t \<noteq> [] then Some (port, t) else None)"
  by (auto simp: found_of_def error_of_def split: list.splits)

lemma collect_probes_Inr:
  "\<forall>p\<in>set ports. is_ok (one p) \<Longrightarrow>
    collect_probes one ports ps es = Inr (ps @ List.map_filter (found_of one) ports, es @ List.map_filter (error_of one) ports)"
proof (induction ports arbitrary: ps es)
  case (Cons port ports)
  then obtain r where r: "one port = Inr r" by (auto simp: is_ok_iff)
  show ?case using Cons r by (cases r) (simp_all add: map_filter_Cons found_error_simps [of one port])
qed (simp add: List.map_filter_simps)

lemma collect_probes_ok: "is_ok (collect_probes one ports ps es) \<longleftrightarrow> (\<forall>p\<in>set ports. is_ok (one p))"
  by (induction one ports ps es rule: collect_probes.induct)
    (auto simp: is_ok_iff rbind_def split: sum.splits)

lemma mset_map_filter_cong: "mset xs = mset ys \<Longrightarrow> mset (List.map_filter f xs) = mset (List.map_filter f ys)"
  by (simp add: List.map_filter_def mset_filter [symmetric] del: mset_filter) (metis mset_filter mset_map)

lemma in_map_filter: "y \<in> set (List.map_filter f xs) \<longleftrightarrow> (\<exists>x\<in>set xs. f x = Some y)"
  by (force simp: List.map_filter_def)

lemma found_of_Some: "found_of one port = Some p \<longleftrightarrow> one port = Inr (Inr p)"
  by (auto simp: found_of_def split: sum.splits)

lemma error_of_Some: "error_of one port = Some e \<Longrightarrow> fst e = port"
  by (auto simp: error_of_def split: sum.splits list.splits)

lemma make_proposal_Inr:
  assumes "make_proposal m host port scheme st = Inr p"
  shows "pp_manifest p = m" "pp_name p = mf_type m" "pp_port p = port" "pp_protocol p = scheme"
    "validate_target_host host = Inr (pp_host p)" "endpoint_url host port scheme = Inr (pp_url p)"
    "pp_bridge_port p = (if port \<notin> set RESERVED_BRIDGE_PORTS \<and> port \<notin> bridge_port ` set (list_resources st) then Some port else None)"
    "(pp_status p, pp_reason p) = proposal_status (list_resources st) (mf_type m) port (pp_bridge_port p)"
  using assms by (auto simp: make_proposal_def case_prod_beta res_simps Let_def)

lemma probe_port_Inr:
  assumes "probe_port w st host scheme timeout port = Inr (Inr p)"
  obtains m where "probe_manifest w host port scheme (NFloat timeout) = Inr m" "make_proposal m host port scheme st = Inr p"
  using assms by (auto simp: probe_port_def res_simps split: sum.splits py_error.splits)

lemma probe_port_port: "probe_port w st host scheme timeout port = Inr (Inr p) \<Longrightarrow> pp_port p = port"
  using make_proposal_Inr(3) by (elim probe_port_Inr)

lemma sort_by_port_cong:
  assumes "mset xs = mset ys" and "f = probe_port w st host scheme timeout"
  shows "sort_key (\<lambda>p. (pp_port p, pp_name p)) (List.map_filter (found_of f) xs)
       = sort_key (\<lambda>p. (pp_port p, pp_name p)) (List.map_filter (found_of f) ys)"
    and "sort_key fst (List.map_filter (error_of f) xs) = sort_key fst (List.map_filter (error_of f) ys)"
proof -
  have "inj_on (\<lambda>p. (pp_port p, pp_name p)) (set (List.map_filter (found_of f) xs))"
    by (rule inj_onI) (simp add: in_map_filter found_of_Some assms(2), metis probe_port_port sum.inject(2))
  then show "sort_key (\<lambda>p. (pp_port p, pp_name p)) (List.map_filter (found_of f) xs)
       = sort_key (\<lambda>p. (pp_port p, pp_name p)) (List.map_filter (found_of f) ys)"
    using mset_map_filter_cong [OF assms(1), of "found_of f"] by (intro sort_key_inj_key_eq) auto
  have "inj_on fst (set (List.map_filter (error_of f) xs))"
    by (rule inj_onI) (metis error_of_Some in_map_filter option.inject)
  then show "sort_key fst (List.map_filter (error_of f) xs) = sort_key fst (List.map_filter (error_of f) ys)"
    using mset_map_filter_cong [OF assms(1), of "error_of f"] by (intro sort_key_inj_key_eq) auto
qed

text \<open>
  C36. The scan does not depend on timing. Up to eight probes run at once and finish in any order; for
  any two orders in which the probes of the same ports may finish, either both scans raise or both
  give the same report.
\<close>

theorem discovery_order_irrelevant:
  assumes "\<And>ps. mset (order ps) = mset ps" and "\<And>ps. mset (order' ps) = mset ps"
  shows "is_ok (discover_backends w st file ports host scheme timeout order) =
      is_ok (discover_backends w st file ports host scheme timeout order')
    \<and> (is_ok (discover_backends w st file ports host scheme timeout order) \<longrightarrow>
        discover_backends w st file ports host scheme timeout order = discover_backends w st file ports host scheme timeout order')"
proof -
  have o: "set (order ps) = set ps" "set (order' ps) = set ps" "mset (order ps) = mset (order' ps)" for ps
    using assms by (metis set_mset_mset)+
  let ?one = "probe_port w st" and ?sort = "sort_key (\<lambda>p. (pp_port p, pp_name p)) :: proposal list \<Rightarrow> _"
  have step: "is_ok (collect_probes (?one h sc t) (order ps) [] []) = is_ok (collect_probes (?one h sc t) (order' ps) [] [])"
    "is_ok (collect_probes (?one h sc t) (order ps) [] []) \<Longrightarrow> \<exists>a b a' b'. collect_probes (?one h sc t) (order ps) [] [] = Inr (a, b)
      \<and> collect_probes (?one h sc t) (order' ps) [] [] = Inr (a', b') \<and> ?sort a = ?sort a' \<and> sort_key fst b = sort_key fst b'" for h sc t ps
    using sort_by_port_cong [OF o(3) refl, of w st h sc t] o(1,2)
    by (auto simp: collect_probes_ok collect_probes_Inr)
  show ?thesis
    using step(1) by (auto simp: discover_backends_def Let_def is_ok_iff res_simps) (use step(2) in \<open>fastforce simp: is_ok_iff\<close>)+
qed

definition demo_web :: web where
  \<comment> \<open>a backend on port 3000, an HTTP server without a manifest on 3001, nothing else\<close>
  "demo_web = \<lparr>wb_open = (\<lambda>url. if url = ''http://127.0.0.1:3000/.well-known/ge360'' then UrlResponse 200 ''application/json'' ''m''
       else if url = ''http://127.0.0.1:3001/.well-known/ge360'' then UrlHTTPError 404 else UrlUnreachable),
     wb_loads = (\<lambda>_. Some demo_manifest_json)\<rparr>"

definition demo_empty_store :: store where
  "demo_empty_store = \<lparr>DEVICES_FILE = None, RESOURCES_FILE = None, SERVICES_FILE = None, GROUPS_FILE = None, AUDIT_DB = []\<rparr>"

theorem discovery_order_irrelevant_witness:
  "discover_backends demo_web demo_empty_store None (Some [3000, 3001, 3002]) ''localhost'' ''http'' (NInt 1) rev
     = discover_backends demo_web demo_empty_store None (Some [3000, 3001, 3002]) ''localhost'' ''http'' (NInt 1) id"
proof -
  have "is_ok (discover_backends demo_web demo_empty_store None (Some [3000, 3001, 3002]) ''localhost'' ''http'' (NInt 1) rev)"
    by code_simp
  then show ?thesis
    using discovery_order_irrelevant [of rev id demo_web demo_empty_store None "Some [3000, 3001, 3002]" "''localhost''" "''http''" "NInt 1"]
    by simp
qed

section \<open>From a proposal to a Resource\<close>

lemma register_new:
  assumes "validate_name name = Inr name" and "validate_port p = Inr p" and "p \<notin> set RESERVED_BRIDGE_PORTS"
    and "validate_port (a_target_port a) = Inr (a_target_port a)" and "validate_target_host (a_target_host a) = Inr host"
    and "validate_resource_protocol (a_protocol a) = Inr proto" and "validate_resource_icon (a_icon a) = Inr ic"
    and "validate_timeout_seconds (a_timeout a) = Inr t" and "validate_health_url (Some (a_health_url a)) host (a_target_port a) = Inr hu"
    and "a_unit a = []" and "\<not> a_self_heal a" and "a_allowed a = []"
    and "registry_ok st" and "name \<notin> r_name ` set (list_resources st)" and "p \<notin> bridge_port ` set (list_resources st)"
  obtains r st' where "register_resource name p a st = (Inr r, st')"
proof -
  let ?r = "\<lparr>r_name = name, bridge_port = p, listen_port = p, target_host = host, target_port = a_target_port a,
      allowed_devices = [], icon = ic, r_description = take 500 (py_strip (a_description a)), protocol = proto, health_url = hu,
      timeout_seconds = t, systemd_unit = [], self_heal_enabled = False, denied_devices = [], r_enabled = True\<rparr>"
  have u: "validate_systemd_unit (Some []) = Inr []" and w: "without [] ks = []" for ks by code_simp (simp add: without_empty_iff)
  have n: "\<not> list_ex (\<lambda>r. r_name r = name) (list_resources st)" "\<not> list_ex (\<lambda>r. bridge_port r = p) (list_resources st)"
    using assms(14,15) by (auto simp: list_ex_iff)
  have "register_resource name p a st = guard_in st (save_resources (list_resources st @ [?r]) st) (\<lambda>st'. (Inr ?r, st'))"
    by (simp add: register_resource_def Let_def u w n assms(1-12))
  moreover obtain st' where "save_resources (list_resources st @ [?r]) st = Inr st'"
    using assms(13-15) by (auto simp: save_resources_Inr registry_ok_def consistent_def)
  ultimately show thesis using that by simp
qed

lemma probe_manifest_timeout:
  assumes "validate_discovery_timeout t = Inr x" and "validate_discovery_timeout u = Inr y"
  shows "probe_manifest w host port scheme t = probe_manifest w host port scheme u"
  using assms by (simp add: probe_manifest_def)

lemma probe_manifest_wf:
  assumes "probe_manifest w host port scheme t = Inr m" shows "manifest_wf m"
proof -
  obtain x url where "validate_discovery_timeout t = Inr x" "endpoint_url host port scheme = Inr url"
    using assms by (cases "validate_discovery_timeout t"; cases "endpoint_url host port scheme") (simp_all add: probe_manifest_def)
  then show ?thesis using assms
    by (cases "wb_open w url") (auto simp: probe_manifest_def dest: validate_manifest_wf split: if_splits option.splits)
qed

lemma reported_proposal:
  assumes "discover_backends w st file ports host scheme timeout order = Inr rep" and "p \<in> set (dr_proposals rep)"
  obtains t where "validate_discovery_timeout timeout = Inr t" "validate_target_host (dr_host rep) = Inr (dr_host rep)"
    "dr_scheme rep \<in> {''http'', ''https''}" "probe_port w st (dr_host rep) (dr_scheme rep) t (pp_port p) = Inr (Inr p)"
proof -
  obtain t selected ps es where t: "validate_target_host host = Inr (dr_host rep)" "validate_discovery_timeout timeout = Inr t"
    "dr_scheme rep \<in> {''http'', ''https''}"
    "collect_probes (probe_port w st (dr_host rep) (dr_scheme rep) t) (order selected) [] [] = Inr (ps, es)"
    "dr_proposals rep = sort_key (\<lambda>p. (pp_port p, pp_name p)) ps"
    using assms(1) by (auto simp: discover_backends_def res_simps Let_def split: if_splits)
  let ?one = "probe_port w st (dr_host rep) (dr_scheme rep) t"
  have "\<forall>p\<in>set (order selected). is_ok (?one p)" using collect_probes_ok [of ?one "order selected" "[]" "[]"] t(4) by simp
  then have "ps = List.map_filter (found_of ?one) (order selected)" using t(4) by (simp add: collect_probes_Inr)
  then obtain port where port: "?one port = Inr (Inr p)" using assms(2) t(5) by (auto simp: in_map_filter found_of_Some)
  then show thesis using that t(1-3) target.validate_idem probe_port_port [OF port] by metis
qed

lemma proposal_new:
  assumes "proposal_status rs name port sug = (''new'', reason)"
  shows "name \<notin> r_name ` set rs" "sug \<noteq> None"
  using assms by (auto simp: proposal_status_def find_None_iff split: option.splits if_splits)

lemma import_new_effect:
  assumes "registry_ok st" and "validate_target_host host = Inr host" and "scheme \<in> {''http'', ''https''}"
    and "validate_discovery_timeout u = Inr y"
    and "probe_manifest w host port scheme u = Inr m" and "make_proposal m host port scheme st = Inr p" and "pp_status p = ''new''"
  obtains r st' a where "import_discovered_backend w host port scheme None u st = (Inr r, st')"
    "register_resource (mf_type m) port a st = (Inr r, st')" "a_allowed a = []" "a_target_host a = host" "a_target_port a = port"
    "a_health_url a = mf_health m"
proof -
  note mp = make_proposal_Inr [OF assms(6)]
  have m: "manifest_wf m" by (rule probe_manifest_wf [OF assms(5)])
  have new: "mf_type m \<notin> r_name ` set (list_resources st)" "pp_bridge_port p = Some port" "port \<notin> set RESERVED_BRIDGE_PORTS"
    "port \<notin> bridge_port ` set (list_resources st)"
    using proposal_new [of "list_resources st" "mf_type m" port "pp_bridge_port p" "pp_reason p"] mp(7,8) assms(7)
    by (auto split: if_splits)
  have port: "validate_port port = Inr port" using mp(6) by (auto simp: endpoint_url_def res_simps validate_port_Inr)
  have sch: "py_lower (py_strip (str_or scheme d)) = scheme" "scheme \<in> set RESOURCE_PROTOCOLS" for d
    using assms(3) by (auto simp: RESOURCE_PROTOCOLS_def intro!: protocol_fix)
  let ?a = "\<lparr>a_target_host = host, a_target_port = port, a_allowed = [], a_icon = mf_icon m,
      a_description = str_or (mf_description m) (mf_name m @ '' v'' @ mf_version m), a_protocol = scheme,
      a_health_url = mf_health m, a_timeout = NFloat (Fin 2), a_unit = [], a_self_heal = False\<rparr>"
  have tmo: "validate_timeout_seconds (NFloat (Fin 2)) = Inr (Fin 2)" by code_simp
  have pr: "validate_resource_protocol scheme = Inr scheme" using sch by (simp add: validate_resource_protocol_def)
  have mf: "validate_name (mf_type m) = Inr (mf_type m)" "validate_resource_icon (mf_icon m) = Inr (mf_icon m)"
    using m by (simp_all add: manifest_wf_def validate_name_Inr)
  have hl: "validate_health_url (Some (mf_health m)) host port = Inr (mf_health m)" by (rule manifest_health_url(1) [OF m])
  obtain r st' where reg: "register_resource (mf_type m) port ?a st = (Inr r, st')"
    by (rule register_new [of "mf_type m" port ?a host scheme "mf_icon m" "Fin 2" "mf_health m" st])
      (use mf port new assms(1,2) pr tmo hl in simp_all)
  have "import_discovered_backend w host port scheme None u st = (Inr r, st')"
    by (simp add: import_discovered_backend_def assms(2,5,6,7) port sch Let_def new(2) reg [simplified])
  then show thesis using that [OF _ reg] by simp
qed

text \<open>
  C35. What a scan offers can be imported. A backend the scan lists as \<open>new\<close>, as long as the registry
  and the backend's answer stay what they were, is imported without further arguments: exactly one
  Resource is added, under the name and on the port of the proposal, for the loopback backend that
  was probed, with the health path of its manifest; the registry stays consistent, and nobody is
  allowed on the new Resource.
\<close>

theorem new_proposal_importable:
  assumes "registry_ok st" and "discover_backends w st file ports host scheme timeout order = Inr rep"
    and "p \<in> set (dr_proposals rep)" and "pp_status p = ''new''" and "validate_discovery_timeout u = Inr y"
  shows "\<exists>r st'. import_discovered_backend w (dr_host rep) (pp_port p) (dr_scheme rep) None u st = (Inr r, st')
    \<and> registry_ok st' \<and> list_resources st' = list_resources st @ [r] \<and> list_devices st' = list_devices st
    \<and> r_name r = pp_name p \<and> bridge_port r = pp_port p \<and> target_port r = pp_port p \<and> target_host r = dr_host rep
    \<and> health_url r = mf_health (pp_manifest p)
    \<and> allowed_ips_for_resource today r (list_devices st') (list_groups st') = {}"
proof -
  obtain t where t: "validate_discovery_timeout timeout = Inr t" "validate_target_host (dr_host rep) = Inr (dr_host rep)"
    "dr_scheme rep \<in> {''http'', ''https''}" "probe_port w st (dr_host rep) (dr_scheme rep) t (pp_port p) = Inr (Inr p)"
    by (rule reported_proposal [OF assms(2,3)])
  obtain m where m: "probe_manifest w (dr_host rep) (pp_port p) (dr_scheme rep) (NFloat t) = Inr m"
    "make_proposal m (dr_host rep) (pp_port p) (dr_scheme rep) st = Inr p" by (rule probe_port_Inr [OF t(4)])
  have "validate_discovery_timeout (NFloat t) = Inr t" using t(1) by (auto simp: validate_discovery_timeout_def split: option.splits if_splits)
  then have mu: "probe_manifest w (dr_host rep) (pp_port p) (dr_scheme rep) u = Inr m"
    using probe_manifest_timeout [OF assms(5)] m(1) by metis
  obtain r st' a where i: "import_discovered_backend w (dr_host rep) (pp_port p) (dr_scheme rep) None u st = (Inr r, st')"
    "register_resource (mf_type m) (pp_port p) a st = (Inr r, st')" "a_allowed a = []" "a_target_host a = dr_host rep"
    "a_target_port a = pp_port p" "a_health_url a = mf_health m"
    by (rule import_new_effect [OF assms(1) t(2,3) assms(5) mu m(2) assms(4)])
  note mp = make_proposal_Inr [OF m(2)]
  show ?thesis using i(2)
  proof (cases rule: register_resource_inv)
    case (registered r')
    have w: "\<forall>r\<in>set (list_resources st @ [r]). wf_resource r" using list_all_wf(2) registered(2,3) by auto
    have sv: "save_resources (list_resources st @ [r]) st = Inr st'" using registered(3,7) by simp
    note lists = save_resources_lists [OF sv w]
    have f: "r_name r = mf_type m" "bridge_port r = pp_port p" "target_port r = pp_port p" "target_host r = py_lower (py_strip (dr_host rep))"
      "health_url r = py_strip (mf_health m)" "set (allowed_devices r) = {}"
      using registered(1,3) i(3-6) unfolding registered_def by (metis resource.select_convs set_sorted_set list.set(1) sum.inject(2))+
    have "\<not> group_grants r d (list_groups st')" for d
      using assms(1) registered(4) unfolding lists(3) group_grants_def f(1) registry_ok_def consistent_def by blast
    then have "allowed_ips_for_resource today r (list_devices st') (list_groups st') = {}"
      by (auto simp: allowed_ips_iff access_spec_def f(6))
    moreover have "target_host r = dr_host rep" using f(4) t(2) by (simp add: validate_target_host_Inr)
    moreover have "py_strip (mf_health m) = mf_health m" by (rule manifest_health_url(2) [OF probe_manifest_wf [OF mu]])
    ultimately show ?thesis using i(1) register_resource_ok [OF assms(1) i(2)] lists f mp(1,2) by auto
  qed simp
qed

definition demo_new_proposal :: proposal where
  "demo_new_proposal = \<lparr>pp_manifest = demo_manifest, pp_name = ''rilievi'', pp_host = ''127.0.0.1'', pp_port = 3000,
     pp_protocol = ''http'', pp_url = ''http://127.0.0.1:3000/.well-known/ge360'', pp_bridge_port = Some 3000,
     pp_status = ''new'', pp_reason = []\<rparr>"

lemma demo_scan:
  "discover_backends demo_web demo_empty_store None (Some [3000, 3001]) ''127.0.0.1'' ''http'' (NInt 1) id = Inr
     \<lparr>dr_host = ''127.0.0.1'', dr_scheme = ''http'', dr_ports = [3000, 3001], dr_proposals = [demo_new_proposal],
      dr_errors = [(3001, ''Manifest GE360 non disponibile: HTTP 404.'')]\<rparr>"
  by code_simp

lemma demo_empty_ok: "registry_ok demo_empty_store"
  by code_simp

theorem new_proposal_importable_witness:
  "\<exists>r st'. import_discovered_backend demo_web ''127.0.0.1'' 3000 ''http'' None (NInt 1) demo_empty_store = (Inr r, st')
    \<and> registry_ok st' \<and> list_resources st' = [r] \<and> r_name r = ''rilievi'' \<and> health_url r = ''/healthz''"
proof -
  have u: "validate_discovery_timeout (NInt 1) = Inr (Fin 1)" by code_simp
  have e: "list_resources demo_empty_store = []" by code_simp
  show ?thesis
    using new_proposal_importable [where p = demo_new_proposal and today = 0, OF demo_empty_ok demo_scan _ _ u]
    by (auto simp: demo_new_proposal_def demo_manifest_def e)
qed

lemma foreign_listener_stops_the_scan:
  \<comment> \<open>one listener whose answer is not HTTP, and the scan reports nothing of the backends beside it\<close>
  "discover_backends (demo_web\<lparr>wb_open := (wb_open demo_web)(''http://127.0.0.1:3002/.well-known/ge360'' := UrlRaised ''BadStatusLine'')\<rparr>)
     demo_empty_store None (Some [3000, 3002]) ''127.0.0.1'' ''http'' (NInt 1) id = Inl (OtherError ''BadStatusLine'')"
  by code_simp

lemma health_path_stops_the_scan:
  \<comment> \<open>a manifest whose health is \<open>//[\<close> makes \<open>urlsplit\<close> raise before the path is refused\<close>
  "validate_manifest (JObj [(''name'', JStr ''x''), (''type'', JStr ''x''), (''version'', JStr ''1''), (''health'', JStr ''//['')])
     = Inl (ValueError ''Invalid IPv6 URL'')"
  by code_simp

end
