(* ===== verification/Diagnostics.thy ===== *)
theory Diagnostics
  imports Registry Json
begin

text \<open>
  Diagnostics of a Resource (\<open>diagnostics.py\<close>): ping, name lookup, TCP, HTTP, PDF and traceroute
  tests and the report that puts them together. The outcome of each command, connection and HTTP
  exchange is an input; what is modelled is how the program reads them: the two regular expressions
  over the text of \<open>ping\<close>, the request it is willing to make for a path or URL, and the verdict
  of each test. The timeouts of the sockets (finite ones), latencies, the time stamp, the TLS details and the preview of a body are left out.
\<close>

definition bridge_address :: string where "bridge_address = ''10.88.0.1''"
definition MAX_PREVIEW_BYTES :: nat where "MAX_PREVIEW_BYTES = 4096"
definition MAX_TRACE_LINES :: nat where "MAX_TRACE_LINES = 40"

section \<open>Commands\<close>

datatype process = Exited int string string | NotFound | TimedOut | OsFailed string
  \<comment> \<open>code, stdout, stderr; \<open>FileNotFoundError\<close>; \<open>TimeoutExpired\<close>; another \<open>OSError\<close>\<close>

definition run_tool :: "string \<Rightarrow> process \<Rightarrow> (int \<times> string \<times> string) res" where
  "run_tool tool proc = (case proc of
       Exited code out err \<Rightarrow> Inr (code, out, err)
     | NotFound \<Rightarrow> Inl (DiagnosticError (''comando_non_disponibile:'' @ tool))
     | TimedOut \<Rightarrow> Inl (DiagnosticError (''comando_timeout:'' @ tool))
     | OsFailed cls \<Rightarrow> Inl (OSError cls))"

definition try_diag :: "'a res \<Rightarrow> (string \<Rightarrow> 'b) \<Rightarrow> ('a \<Rightarrow> 'b res) \<Rightarrow> 'b res" where
  \<comment> \<open>\<open>try: ... except DiagnosticError\<close>, the handler working on the text\<close>
  "try_diag m h f = (case m of Inl (DiagnosticError t) \<Rightarrow> Inr (h t) | Inl e \<Rightarrow> Inl e | Inr x \<Rightarrow> f x)"

section \<open>Names and ping\<close>

datatype addr_family = AF_INET | AF_INET6 | AF_OTHER string

fun family_name :: "addr_family \<Rightarrow> string" where
  "family_name AF_INET6 = ''IPv6''" | "family_name AF_INET = ''IPv4''" | "family_name (AF_OTHER s) = s"

record dns_check =
  dk_host :: string
  dk_ok :: bool
  dk_addresses :: "(string \<times> string) list"
  dk_error :: "string option"

definition dns_lookup :: "string \<Rightarrow> string + (addr_family \<times> string) list \<Rightarrow> dns_check" where
  \<comment> \<open>the class of a \<open>gaierror\<close>, or the rows of \<open>getaddrinfo\<close>\<close>
  "dns_lookup host rows = (case rows of
       Inl cls \<Rightarrow> \<lparr>dk_host = host, dk_ok = False, dk_addresses = [], dk_error = Some (''dns_error:'' @ cls)\<rparr>
     | Inr infos \<Rightarrow>
         let addresses = foldl (\<lambda>out (f, a). let key = (family_name f, a) in if key \<in> set out then out else out @ [key]) [] infos in
         \<lparr>dk_host = host, dk_ok = (addresses \<noteq> []), dk_addresses = addresses,
          dk_error = (if addresses = [] then Some ''nessun_indirizzo'' else None)\<rparr>)"

definition after_space :: "string \<Rightarrow> string \<Rightarrow> string option" where
  \<comment> \<open>what follows \<open>\\s+\<close> and a literal\<close>
  "after_space lit s = (let r = dropWhile py_isspace s in
     if r \<noteq> s \<and> starts_with lit r then Some (drop (length lit) r) else None)"

definition digit_or_dot :: "char \<Rightarrow> bool" where
  "digit_or_dot c = (is_digit c \<or> c = CHR ''.'')"

definition span_some :: "(char \<Rightarrow> bool) \<Rightarrow> string \<Rightarrow> (string \<times> string) option" where
  \<comment> \<open>one or more characters of a class, and the rest\<close>
  "span_some p s = (let a = takeWhile p s in if a = [] then None else Some (a, drop (length a) s))"

definition match_packets :: "string \<Rightarrow> (string \<times> string \<times> string) option" where
  \<comment> \<open>\<open>(\\d+)\\s+packets transmitted,\\s+(\\d+)\\s+(?:packets )?received,\\s+([\\d.]+)%\\s+packet loss\<close>\<close>
  "match_packets s =
     Option.bind (span_some is_digit s) (\<lambda>(sent, s).
     Option.bind (after_space ''packets transmitted,'' s) (\<lambda>s.
     Option.bind (after_space [] s) (\<lambda>s.
     Option.bind (span_some is_digit s) (\<lambda>(received, s).
     Option.bind (after_space [] s) (\<lambda>s.
     let s = (if starts_with ''packets '' s then drop 8 s else s) in
     if \<not> starts_with ''received,'' s then None
     else Option.bind (after_space [] (drop 9 s)) (\<lambda>s.
     Option.bind (span_some digit_or_dot s) (\<lambda>(loss, s).
     if \<not> starts_with ''%'' s then None
     else Option.bind (after_space ''packet loss'' (drop 1 s)) (\<lambda>_. Some (sent, received, loss)))))))))"

fun search_packets :: "string \<Rightarrow> (string \<times> string \<times> string) option" where
  "search_packets [] = None"
| "search_packets (c # cs) = (case match_packets (c # cs) of None \<Rightarrow> search_packets cs | Some m \<Rightarrow> Some m)"

definition rtt_tail :: "string \<Rightarrow> string option" where
  \<comment> \<open>\<open>\\s*[\\d.]+/([\\d.]+)/\<close>\<close>
  "rtt_tail s =
     Option.bind (span_some digit_or_dot (dropWhile py_isspace s)) (\<lambda>(_, s).
     if \<not> starts_with ''/'' s then None
     else Option.bind (span_some digit_or_dot (drop 1 s)) (\<lambda>(avg, s). if starts_with ''/'' s then Some avg else None))"

fun rtt_scan :: "string \<Rightarrow> string option" where
  \<comment> \<open>\<open>.*?=\<close> and the tail, on one line\<close>
  "rtt_scan [] = None"
| "rtt_scan (c # cs) =
     (case (if c = CHR ''='' then rtt_tail cs else None) of
        Some v \<Rightarrow> Some v | None \<Rightarrow> if ord_of c = 10 then None else rtt_scan cs)"

fun search_rtt :: "string \<Rightarrow> string option" where
  "search_rtt [] = None"
| "search_rtt (c # cs) =
     (case (if starts_with ''rtt'' (c # cs) then rtt_scan (drop 3 (c # cs))
            else if starts_with ''round-trip'' (c # cs) then rtt_scan (drop 10 (c # cs)) else None) of
        Some v \<Rightarrow> Some v | None \<Rightarrow> search_rtt cs)"

record ping_check =
  pk_host :: string
  pk_ok :: bool
  pk_transmitted :: nat
  pk_received :: nat
  pk_loss :: "pyfloat option"
  pk_rtt :: "pyfloat option"
  pk_error :: "string option"

definition float_text :: "string \<Rightarrow> pyfloat res" where
  \<comment> \<open>\<open>float(text)\<close>\<close>
  "float_text s = (case parse_float s of None \<Rightarrow> Inl (ValueError ''could not convert string to float'') | Some f \<Rightarrow> Inr f)"

definition ping_host :: "string \<Rightarrow> nat \<Rightarrow> process \<Rightarrow> ping_check res" where
  "ping_host host count proc =
     (let start = \<lparr>pk_host = host, pk_ok = False, pk_transmitted = count, pk_received = 0, pk_loss = None, pk_rtt = None, pk_error = None\<rparr> in
      try_diag (run_tool ''ping'' proc) (\<lambda>t. start\<lparr>pk_error := Some t\<rparr>) (\<lambda>(code, out, err).
      let text = out @ [char_of (10::nat)] @ err in
      rbind (case search_packets text of None \<Rightarrow> Inr start
        | Some (sent, received, loss) \<Rightarrow> rbind (float_text loss) (\<lambda>l.
            Inr (start\<lparr>pk_transmitted := digits_val 0 sent, pk_received := digits_val 0 received, pk_loss := Some l\<rparr>))) (\<lambda>r.
      rbind (case search_rtt text of None \<Rightarrow> Inr r
        | Some v \<Rightarrow> rbind (float_text v) (\<lambda>f. Inr (r\<lparr>pk_rtt := Some f\<rparr>))) (\<lambda>r.
      let ok = (code = 0 \<and> 0 < pk_received r) in
      Inr (r\<lparr>pk_ok := ok, pk_error := (if ok then None else Some ''ping_failed'')\<rparr>)))))"

section \<open>TCP and traceroute\<close>

datatype tcp_reply = Connected | ConnectTimeout | ConnectFailed string

record tcp_test_check =
  tt_host :: string
  tt_port :: int
  tt_ok :: bool
  tt_error :: "string option"

definition tcp_test :: "string \<Rightarrow> int \<Rightarrow> tcp_reply \<Rightarrow> tcp_test_check" where
  "tcp_test host port reply = \<lparr>tt_host = host, tt_port = port, tt_ok = (reply = Connected),
     tt_error = (case reply of Connected \<Rightarrow> None | ConnectTimeout \<Rightarrow> Some ''timeout'' | ConnectFailed cls \<Rightarrow> Some cls)\<rparr>"

record trace_check =
  tr_host :: string
  tr_ok :: bool
  tr_skipped :: bool
  tr_hops :: "string list"
  tr_error :: "string option"

definition hop_line :: "string \<Rightarrow> bool" where
  \<comment> \<open>\<open>^\\d+\\s+\<close>\<close>
  "hop_line s = (case span_some is_digit s of None \<Rightarrow> False | Some (_, r) \<Rightarrow> after_space [] r \<noteq> None)"

definition traceroute_host :: "string \<Rightarrow> process \<Rightarrow> trace_check res" where
  "traceroute_host host proc =
     try_diag (run_tool ''traceroute'' proc)
       (\<lambda>t. \<lparr>tr_host = host, tr_ok = False, tr_skipped = False, tr_hops = [], tr_error = Some t\<rparr>) (\<lambda>(code, out, err).
     let hops = take MAX_TRACE_LINES (filter hop_line (filter (\<lambda>l. l \<noteq> []) (map py_strip (py_splitlines out))));
         ok = (code = 0 \<and> hops \<noteq> []) in
     Inr \<lparr>tr_host = host, tr_ok = ok, tr_skipped = False, tr_hops = hops, tr_error = (if ok then None else Some ''traceroute_failed'')\<rparr>)"

section \<open>HTTP\<close>

definition resource_request :: "resource \<Rightarrow> string \<Rightarrow> (string \<times> string \<times> int \<times> string) res" where
  \<comment> \<open>scheme, host, port and path of the request for a path or a URL\<close>
  "resource_request r path_or_url = (let raw = py_strip path_or_url; host = py_lower (target_host r); proto = py_lower (protocol r) in
     if raw = [] then Inl (DiagnosticError ''percorso_mancante'')
     else if proto \<notin> {''http'', ''https''} then Inl (DiagnosticError ''resource_non_http'')
     else if starts_with ''/'' raw then Inr (proto, host, target_port r, raw)
     else rbind (urlsplit raw) (\<lambda>parsed.
       if u_scheme parsed \<notin> {''http'', ''https''} \<or> u_hostname parsed = [] then Inl (DiagnosticError ''url_non_valida'')
       else (case u_port parsed of
           Inl _ \<Rightarrow> Inl (DiagnosticError ''porta_url_non_valida'')
         | Inr p \<Rightarrow> let port = int (effective_port parsed p) in
             if py_lower (u_hostname parsed) \<noteq> host \<or> port \<noteq> target_port r then Inl (DiagnosticError ''url_fuori_resource'')
             else let path = str_or (u_path parsed) ''/'';
                      path = (if u_query parsed = [] then path else path @ ''?'' @ u_query parsed) in
               Inr (py_lower (u_scheme parsed), py_lower (u_hostname parsed), port, path))))"

datatype get_outcome =
    GotReply int string "string option" string  \<comment> \<open>status, \<open>Content-Type\<close>, \<open>Content-Length\<close>, body\<close>
  | GetCertInvalid | GetTlsError | GetTimeout | GetFailed string

record web_result =
  wr_ok :: bool
  wr_status :: "int option"
  wr_ctype :: "string option"
  wr_length :: "string option"
  wr_body :: string
  wr_error :: "string option"

definition failed_get :: "string \<Rightarrow> web_result" where
  "failed_get e = \<lparr>wr_ok = False, wr_status = None, wr_ctype = None, wr_length = None, wr_body = [], wr_error = Some e\<rparr>"

type_synonym getter = "string \<times> string \<times> int \<times> string \<Rightarrow> get_outcome"

definition http_get :: "getter \<Rightarrow> resource \<Rightarrow> string \<Rightarrow> nat \<Rightarrow> bool \<Rightarrow> web_result res" where
  "http_get get r path_or_url max_bytes allow_truncated =
     rbind (resource_request r path_or_url) (\<lambda>request. Inr (case get request of
         GetCertInvalid \<Rightarrow> failed_get ''tls_certificate_invalid''
       | GetTlsError \<Rightarrow> failed_get ''tls_error''
       | GetTimeout \<Rightarrow> failed_get ''timeout''
       | GetFailed cls \<Rightarrow> failed_get cls
       | GotReply status ctype clen content \<Rightarrow> let body = take (max_bytes + 1) content; long = max_bytes < length body in
           \<lparr>wr_ok = (200 \<le> status \<and> status < 300), wr_status = Some status, wr_ctype = Some ctype, wr_length = clen,
            wr_body = take max_bytes body,
            wr_error = (if long \<and> \<not> allow_truncated then Some ''body_too_large_for_diagnostic'' else None)\<rparr>))"

record web_check =
  wk_ok :: bool
  wk_skipped :: bool
  wk_status :: "int option"
  wk_ctype :: "string option"
  wk_error :: "string option"

record api_check = web_check +
  ak_request :: string
  ak_json_valid :: "bool option"
  ak_json_type :: "string option"

record pdf_check = web_check +
  fk_request :: string
  fk_length :: "string option"
  fk_magic :: bool

fun type_name :: "json \<Rightarrow> string" where
  "type_name JNull = ''NoneType''" | "type_name (JBool _) = ''bool''" | "type_name (JInt _) = ''int''"
| "type_name (JFloat _) = ''float''" | "type_name (JStr _) = ''str''" | "type_name (JList _) = ''list''"
| "type_name (JObj _) = ''dict''"

definition http_error_text :: "bool \<Rightarrow> int option \<Rightarrow> string option \<Rightarrow> string option \<Rightarrow> string option" where
  \<comment> \<open>the error of a failed test that has none yet: the status, or else the given text\<close>
  "http_error_text ok status err other =
     (if ok \<or> err \<notin> {None, Some []} then err
      else (case status of Some s \<Rightarrow> if \<not> (200 \<le> s \<and> s < 300) then Some (''http_'' @ int_str s)
              else if other \<noteq> None then other else err
            | None \<Rightarrow> if other \<noteq> None then other else err))"

definition api_test :: "getter \<Rightarrow> (string \<Rightarrow> json option) \<Rightarrow> resource \<Rightarrow> string option \<Rightarrow> api_check res" where
  \<comment> \<open>the second argument is \<open>json.loads\<close> of the decoded body\<close>
  "api_test get loads r path_or_url =
     (let requested = py_strip (str_or (opt_str path_or_url) (str_or (health_url r) ''/'')) in
      try_diag (http_get get r requested 65536 False)
        (\<lambda>t. \<lparr>wk_ok = False, wk_skipped = False, wk_status = None, wk_ctype = None, wk_error = Some t,
             ak_request = requested, ak_json_valid = None, ak_json_type = None\<rparr>) (\<lambda>raw.
      let valid = (if wr_body raw = [] then None else Some (loads (wr_body raw) \<noteq> None));
          ok = (wr_ok raw \<and> valid \<noteq> Some False) in
      Inr \<lparr>wk_ok = ok, wk_skipped = False, wk_status = wr_status raw, wk_ctype = wr_ctype raw,
           wk_error = http_error_text ok (wr_status raw) (wr_error raw) (if valid = Some False then Some ''invalid_json'' else None),
           ak_request = requested, ak_json_valid = valid,
           ak_json_type = (if wr_body raw = [] then None else map_option type_name (loads (wr_body raw)))\<rparr>))"

definition pdf_test :: "getter \<Rightarrow> resource \<Rightarrow> string \<Rightarrow> pdf_check res" where
  "pdf_test get r path_or_url =
     try_diag (http_get get r path_or_url MAX_PREVIEW_BYTES True)
       (\<lambda>t. \<lparr>wk_ok = False, wk_skipped = False, wk_status = None, wk_ctype = None, wk_error = Some t,
            fk_request = path_or_url, fk_length = None, fk_magic = False\<rparr>) (\<lambda>raw.
     let magic = starts_with ''%PDF-'' (wr_body raw); ok = (wr_ok raw \<and> magic) in
     Inr \<lparr>wk_ok = ok, wk_skipped = False, wk_status = wr_status raw, wk_ctype = wr_ctype raw,
          wk_error = http_error_text ok (wr_status raw) (wr_error raw) (if \<not> magic then Some ''not_a_pdf'' else None),
          fk_request = path_or_url, fk_length = wr_length raw, fk_magic = magic\<rparr>)"

section \<open>The report\<close>

record diag_env =
  de_ping :: "string \<Rightarrow> process"
  de_dns :: "string \<Rightarrow> string + (addr_family \<times> string) list"
  de_tcp :: "string \<Rightarrow> int \<Rightarrow> tcp_reply"
  de_get :: getter
  de_loads :: "string \<Rightarrow> json option"
  de_trace :: "string \<Rightarrow> process"

record diag_report =
  rp_resource :: string
  rp_bridge_ping :: ping_check
  rp_backend_ping :: ping_check
  rp_tcp :: tcp_test_check
  rp_dns :: dns_check
  rp_api :: api_check
  rp_pdf :: pdf_check
  rp_trace :: trace_check

definition skipped_api :: api_check where
  "skipped_api = \<lparr>wk_ok = False, wk_skipped = True, wk_status = None, wk_ctype = None, wk_error = Some ''resource_non_http'',
     ak_request = [], ak_json_valid = None, ak_json_type = None\<rparr>"

definition skipped_pdf :: pdf_check where
  "skipped_pdf = \<lparr>wk_ok = False, wk_skipped = True, wk_status = None, wk_ctype = None, wk_error = Some ''pdf_path_non_fornito'',
     fk_request = [], fk_length = None, fk_magic = False\<rparr>"

definition diagnose_resource :: "diag_env \<Rightarrow> resource \<Rightarrow> string option \<Rightarrow> string option \<Rightarrow> bool \<Rightarrow> diag_report res" where
  "diagnose_resource env r api_path pdf_path include_traceroute =
     rbind (ping_host bridge_address 2 (de_ping env bridge_address)) (\<lambda>bridge.
     rbind (ping_host (target_host r) 2 (de_ping env (target_host r))) (\<lambda>backend.
     let tcp = tcp_test (target_host r) (target_port r) (de_tcp env (target_host r) (target_port r));
         dns = dns_lookup (target_host r) (de_dns env (target_host r)) in
     rbind (if py_lower (protocol r) \<in> {''http'', ''https''} then api_test (de_get env) (de_loads env) r api_path
       else Inr skipped_api) (\<lambda>api.
     rbind (if opt_str pdf_path \<noteq> [] then pdf_test (de_get env) r (opt_str pdf_path) else Inr skipped_pdf) (\<lambda>pdf.
     rbind (if include_traceroute then traceroute_host (target_host r) (de_trace env (target_host r))
       else Inr \<lparr>tr_host = target_host r, tr_ok = False, tr_skipped = True, tr_hops = [], tr_error = Some ''traceroute_disabilitato''\<rparr>) (\<lambda>trace.
     Inr \<lparr>rp_resource = r_name r, rp_bridge_ping = bridge, rp_backend_ping = backend, rp_tcp = tcp, rp_dns = dns,
          rp_api = api, rp_pdf = pdf, rp_trace = trace\<rparr>)))))"

definition performed_checks :: "diag_report \<Rightarrow> bool list" where
  \<comment> \<open>the verdicts of the tests that were not skipped, in the order of the report\<close>
  "performed_checks rp = [pk_ok (rp_bridge_ping rp), pk_ok (rp_backend_ping rp), tt_ok (rp_tcp rp), dk_ok (rp_dns rp)]
     @ (if wk_skipped (rp_api rp) then [] else [wk_ok (rp_api rp)])
     @ (if wk_skipped (rp_pdf rp) then [] else [wk_ok (rp_pdf rp)])
     @ (if tr_skipped (rp_trace rp) then [] else [tr_ok (rp_trace rp)])"

definition diag_summary :: "diag_report \<Rightarrow> nat \<times> nat \<times> nat" where
  \<comment> \<open>performed, ok, failed\<close>
  "diag_summary rp = (let performed = performed_checks rp in
     (length performed, length (filter (\<lambda>b. b) performed), length (filter (\<lambda>b. \<not> b) performed)))"

section \<open>Where the tests go\<close>

lemma lower_schemes: "py_lower ''http'' = ''http''" "py_lower ''https'' = ''https''"
  by code_simp+

lemma resource_request_Inr:
  assumes "resource_request r v = Inr (scheme, host, port, path)" and "py_lower (protocol r) = protocol r"
  shows "host = py_lower (target_host r)" "port = target_port r" "scheme \<in> {''http'', ''https''}"
  using assms by (auto simp: resource_request_def Let_def res_simps lower_schemes split: if_splits sum.splits)

lemma http_get_cong:
  assumes "\<And>scheme path. scheme \<in> {''http'', ''https''} \<Longrightarrow>
      get (scheme, py_lower (target_host r), target_port r, path) = get' (scheme, py_lower (target_host r), target_port r, path)"
    and "py_lower (protocol r) = protocol r"
  shows "http_get get r v n t = http_get get' r v n t"
proof (cases "resource_request r v")
  case (Inr q)
  obtain s h p x where q: "q = (s, h, p, x)" by (cases q)
  have "get q = get' q" using resource_request_Inr [OF Inr [unfolded q] assms(2)] assms(1) by (simp add: q)
  then show ?thesis by (simp add: http_get_def Inr)
qed (simp add: http_get_def)

text \<open>
  C40. Diagnostics never leave the Resource. Whatever path or URL the user asks to test, the only HTTP
  requests made go, over HTTP or HTTPS, to the host and port the Resource is registered with: two
  worlds in which those answer alike give the same report, however anything else would answer.
\<close>

theorem diagnostics_stay_at_the_resource:
  assumes "\<And>scheme path. scheme \<in> {''http'', ''https''} \<Longrightarrow>
      get (scheme, py_lower (target_host r), target_port r, path) = get' (scheme, py_lower (target_host r), target_port r, path)"
    and "wf_resource r"
  shows "diagnose_resource (env\<lparr>de_get := get\<rparr>) r api_path pdf_path t = diagnose_resource (env\<lparr>de_get := get'\<rparr>) r api_path pdf_path t"
proof -
  have "protocol r \<in> set RESOURCE_PROTOCOLS" using assms(2) by (simp add: wf_resource_def)
  then have p: "py_lower (protocol r) = protocol r" using protocol_lower [of "protocol r" "protocol r"] by (simp add: str_or_def)
  have "api_test get l r v = api_test get' l r v" "pdf_test get r u = pdf_test get' r u" for l v u
    unfolding api_test_def pdf_test_def Let_def using http_get_cong [of get r get', OF assms(1) p] by simp_all
  then show ?thesis by (simp add: diagnose_resource_def)
qed

definition demo_backend :: resource where
  "demo_backend = \<lparr>r_name = ''rilievi'', bridge_port = 9888, listen_port = 9888, target_host = ''127.0.0.1'', target_port = 3000,
     allowed_devices = [''phone''], icon = ''server'', r_description = [], protocol = ''http'', health_url = ''/healthz'',
     timeout_seconds = Fin 2, systemd_unit = [], self_heal_enabled = False, denied_devices = [], r_enabled = True\<rparr>"

definition demo_getter :: getter where
  "demo_getter q = (case q of (scheme, host, port, path) \<Rightarrow>
     if (scheme, host, port) \<noteq> (''http'', ''127.0.0.1'', 3000) then GetFailed ''ConnectionRefusedError''
     else if path = ''/healthz'' then GotReply 200 ''application/json'' None ''{}'' else GotReply 404 ''text/html'' None [])"

definition demo_diag_env :: diag_env where
  "demo_diag_env = \<lparr>de_ping = (\<lambda>h. Exited 0 ''2 packets transmitted, 2 received, 0% packet loss'' []),
     de_dns = (\<lambda>h. Inr [(AF_INET, h)]), de_tcp = (\<lambda>h p. Connected), de_get = demo_getter, de_loads = (\<lambda>s. Some (JObj [])),
     de_trace = (\<lambda>h. NotFound)\<rparr>"

theorem diagnostics_stay_at_the_resource_witness:
  "diagnose_resource (demo_diag_env\<lparr>de_get := demo_getter\<rparr>) demo_backend (Some ''http://10.0.0.9/secret'') None True
     = diagnose_resource (demo_diag_env\<lparr>de_get := (\<lambda>q. if fst (snd q) = ''10.0.0.9'' then GotReply 200 ''text/plain'' None ''s3cret'' else demo_getter q)\<rparr>)
         demo_backend (Some ''http://10.0.0.9/secret'') None True"
proof -
  have w: "wf_resource demo_backend" by code_simp
  have l: "py_lower ''127.0.0.1'' = ''127.0.0.1''" by code_simp
  show ?thesis by (rule diagnostics_stay_at_the_resource [OF _ w]) (simp add: demo_backend_def l)
qed

lemma diag_summary_adds_up: "diag_summary rp = (n, a, b) \<Longrightarrow> n = a + b \<and> 4 \<le> n \<and> n \<le> 7"
proof -
  assume s: "diag_summary rp = (n, a, b)"
  have "length (filter (\<lambda>b. b) bs) + length (filter (\<lambda>b. \<not> b) bs) = length bs" for bs by (rule sum_length_filter_compl)
  moreover have "4 \<le> length (performed_checks rp)" "length (performed_checks rp) \<le> 7" by (simp_all add: performed_checks_def)
  ultimately show ?thesis using s by (auto simp: diag_summary_def Let_def)
qed

lemma bad_url_crashes_diagnostics:
  \<comment> \<open>\<open>urlsplit\<close> raises outside the \<open>try\<close> of the request\<close>
  "diagnose_resource demo_diag_env demo_backend (Some ''http://[x'') None True = Inl (ValueError ''Invalid IPv6 URL'')"
  by code_simp

end
