(* ===== verification/Doctor.thy ===== *)
theory Doctor
  imports Diagnostics Acl Pairing
begin

text \<open>
  The connection doctor (\<open>doctor.py\<close>): the public endpoint, the state of the bridge and of a device,
  and the classification of everything that was observed into one category. The output of
  \<open>systemctl\<close>, \<open>ip\<close>, \<open>ss\<close> and \<open>wg\<close>, the clock and the text of \<open>bridge.env\<close> are inputs. A
  finding is its category: the reason is a fixed text for each, and the evidence repeats inputs.
\<close>

section \<open>The public endpoint\<close>

definition HANDSHAKE_FRESH_SECONDS :: int where "HANDSHAKE_FRESH_SECONDS = 180"

definition bracketed_endpoint :: "string \<Rightarrow> (string \<times> string) option" where
  \<comment> \<open>\<open>\\[([^\\]]+)\\]:(\\d+)\<close>, the whole text\<close>
  "bracketed_endpoint s = (let host = takeWhile (\<lambda>c. c \<noteq> CHR '']'') (drop 1 s); r = drop (length host) (drop 1 s); p = drop 2 r in
     if starts_with ''['' s \<and> host \<noteq> [] \<and> starts_with '']:'' r \<and> p \<noteq> [] \<and> list_all is_digit p then Some (host, p) else None)"

definition check_endpoint_port :: "string \<Rightarrow> string option" where
  "check_endpoint_port t = (case py_int t of None \<Rightarrow> Some ''public_endpoint_porta_non_valida''
     | Some p \<Rightarrow> if \<not> (1 \<le> p \<and> p \<le> 65535) then Some ''public_endpoint_porta_non_valida'' else None)"

definition validate_public_endpoint :: "string option \<Rightarrow> string option" where
  \<comment> \<open>the error, none for a valid endpoint\<close>
  "validate_public_endpoint v = (let endpoint = py_strip (opt_str v) in
     if endpoint = [] \<or> starts_with ''CHANGE_ME'' (py_upper endpoint) then Some ''public_endpoint_non_configurato''
     else if starts_with ''['' endpoint then
       (case bracketed_endpoint endpoint of
          None \<Rightarrow> Some ''public_endpoint_formato_non_valido''
        | Some (host, p) \<Rightarrow> (case ip_address host of
            Some (V6 _ _) \<Rightarrow> check_endpoint_port p | _ \<Rightarrow> Some ''public_endpoint_ipv6_non_valido''))
     else if length (filter (\<lambda>c. c = CHR '':'') endpoint) \<noteq> 1 then Some ''public_endpoint_formato_non_valido''
     else (case rpartition_at (CHR '':'') endpoint of (host, _, p) \<Rightarrow>
       if host = [] then Some ''public_endpoint_host_mancante'' else check_endpoint_port p))"

section \<open>The bridge and the device\<close>

record doctor_env =
  dx_service :: "int \<times> string"  \<comment> \<open>code and output of \<open>systemctl is-active\<close>; code 127 and no output when it cannot run\<close>
  dx_wg0 :: int  \<comment> \<open>code of \<open>ip link show wg0\<close>\<close>
  dx_listeners :: string  \<comment> \<open>output of \<open>ss -H -ltn\<close>\<close>
  dx_dump :: "int \<times> string"  \<comment> \<open>code and output of \<open>wg show wg0 dump\<close>\<close>
  dx_bridge_env :: "string option"
  dx_now :: int
  dx_today :: nat

record bridge_state =
  bs_service :: bool
  bs_wg0 :: bool
  bs_port :: int
  bs_listening :: bool
  bs_conflict :: bool
  bs_listeners :: "string list"
  bs_endpoint :: "string option"
  bs_endpoint_error :: "string option"

definition bridge_runtime :: "doctor_env \<Rightarrow> resource \<Rightarrow> bridge_state" where
  "bridge_runtime env r = (let port = int_str (bridge_port r);
       listener_lines = filter (\<lambda>l. l \<noteq> []) (map py_strip (py_splitlines (dx_listeners env)));
       matching = filter (contains_str ('':'' @ port)) listener_lines;
       expected = list_ex (\<lambda>l. contains_str (''10.88.0.1:'' @ port) l \<or> contains_str (''[10.88.0.1]:'' @ port) l) matching;
       endpoint = map_of (load_bridge_env (dx_bridge_env env)) ''PUBLIC_ENDPOINT'' in
     \<lparr>bs_service = (fst (dx_service env) = 0 \<and> py_strip (snd (dx_service env)) = ''active''), bs_wg0 = (dx_wg0 env = 0),
      bs_port = bridge_port r, bs_listening = expected, bs_conflict = (matching \<noteq> [] \<and> \<not> expected), bs_listeners = take 5 matching,
      bs_endpoint = endpoint, bs_endpoint_error = validate_public_endpoint endpoint\<rparr>)"

fun first_handshake :: "string \<Rightarrow> string list \<Rightarrow> int" where
  \<comment> \<open>of the first peer line with the key; 0 without one or when it is not a number\<close>
  "first_handshake key [] = 0"
| "first_handshake key (raw # lines) = (let parts = split_on (char_of (9::nat)) raw in
     if 5 \<le> length parts \<and> parts ! 0 = key then (case py_int (parts ! 4) of None \<Rightarrow> 0 | Some n \<Rightarrow> n)
     else first_handshake key lines)"

record device_state =
  dv_requested :: bool
  dv_found :: bool
  dv_name :: "string option"
  dv_active :: bool
  dv_allowed :: bool
  dv_age :: "int option"
  dv_vpn_up :: bool

definition handshake_age :: "doctor_env \<Rightarrow> device \<Rightarrow> int option" where
  "handshake_age env d = (let latest = (if fst (dx_dump env) = 0
         then first_handshake (public_key d) (drop 1 (filter (\<lambda>l. py_strip l \<noteq> []) (py_splitlines (snd (dx_dump env))))) else 0) in
     if latest \<le> 0 then None else Some (max 0 (dx_now env - latest)))"

definition device_runtime :: "doctor_env \<Rightarrow> store \<Rightarrow> string option \<Rightarrow> resource \<Rightarrow> device_state" where
  \<comment> \<open>the values that are \<open>None\<close> when no device is asked for are false here\<close>
  "device_runtime env st ident r =
     (if opt_str ident = [] then \<lparr>dv_requested = False, dv_found = False, dv_name = None, dv_active = False, dv_allowed = False,
        dv_age = None, dv_vpn_up = False\<rparr>
      else (case find_device (opt_str ident) st of
          None \<Rightarrow> \<lparr>dv_requested = True, dv_found = False, dv_name = None, dv_active = False, dv_allowed = False,
            dv_age = None, dv_vpn_up = False\<rparr>
        | Some d \<Rightarrow> let age = handshake_age env d in
            \<lparr>dv_requested = True, dv_found = True, dv_name = Some (d_name d), dv_active = device_is_active (dx_today env) d,
             dv_allowed = resource_allows_device (dx_today env) r d (list_groups st), dv_age = age,
             dv_vpn_up = (case age of None \<Rightarrow> False | Some a \<Rightarrow> a \<le> HANDSHAKE_FRESH_SECONDS)\<rparr>))"

section \<open>Classification\<close>

definition precedence :: "string list" where
  "precedence = [''BRIDGE_DOWN'', ''PORT_CONFLICT'', ''ENDPOINT_INVALID'', ''DEVICE_NOT_AUTHORIZED'', ''SERVICE_NOT_ALLOWED'',
     ''VPN_DOWN'', ''TIMEOUT'', ''BACKEND_DOWN'', ''PDF_URL_INVALID'', ''HTTP_ERROR'']"

definition PDF_URL_ERRORS :: "string list" where
  "PDF_URL_ERRORS = [''url_fuori_resource'', ''url_non_valida'', ''porta_url_non_valida'', ''percorso_mancante'', ''not_a_pdf'']"

definition bridge_findings :: "bridge_state \<Rightarrow> string list" where
  "bridge_findings b =
     (if \<not> bs_wg0 b \<or> \<not> bs_service b then [''BRIDGE_DOWN''] else [])
     @ (if bs_conflict b then [''PORT_CONFLICT''] else [])
     @ (if bs_endpoint_error b \<noteq> None then [''ENDPOINT_INVALID''] else [])"

definition device_findings :: "device_state \<Rightarrow> string list" where
  "device_findings d =
     (if \<not> dv_requested d then []
      else if \<not> dv_found d \<or> \<not> dv_active d then [''DEVICE_NOT_AUTHORIZED'']
      else if \<not> dv_allowed d then [''SERVICE_NOT_ALLOWED'']
      else if \<not> dv_vpn_up d then [''VPN_DOWN''] else [])"

definition http_failed :: "diag_report \<Rightarrow> string \<Rightarrow> bool" where
  "http_failed rp health_state = (let api = rp_api rp in
     if \<not> wk_skipped api \<and> \<not> wk_ok api then wk_error api \<noteq> Some ''timeout'' \<and> tt_ok (rp_tcp rp)
     else health_state \<in> {''UNAUTHORIZED'', ''BAD_RESPONSE''})"

definition backend_findings :: "diag_report \<Rightarrow> string \<Rightarrow> string list" where
  "backend_findings rp health_state =
     (if health_state = ''TIMEOUT'' \<or> tt_error (rp_tcp rp) = Some ''timeout'' \<or> wk_error (rp_api rp) = Some ''timeout''
        \<or> wk_error (rp_pdf rp) = Some ''timeout'' then [''TIMEOUT''] else [])
     @ (if \<not> tt_ok (rp_tcp rp) \<and> tt_error (rp_tcp rp) \<noteq> Some ''timeout'' then [''BACKEND_DOWN''] else [])
     @ (if \<not> wk_skipped (rp_pdf rp) \<and> \<not> wk_ok (rp_pdf rp) \<and> opt_str (wk_error (rp_pdf rp)) \<in> set PDF_URL_ERRORS
        then [''PDF_URL_INVALID''] else [])
     @ (if http_failed rp health_state then [''HTTP_ERROR''] else [])"

record diagnosis =
  dg_category :: string
  dg_findings :: "string list"

definition classify :: "diag_report \<Rightarrow> string \<Rightarrow> bridge_state \<Rightarrow> device_state \<Rightarrow> diagnosis" where
  "classify rp health_state b d = (let findings = bridge_findings b @ device_findings d @ backend_findings rp health_state in
     \<lparr>dg_category = (case find (\<lambda>x. x \<in> set findings) precedence of None \<Rightarrow> ''OK'' | Some c \<Rightarrow> c), dg_findings = findings\<rparr>)"

record doctor_report =
  dr_resource_name :: string
  dr_device :: "string option"
  dr_diagnosis :: diagnosis
  dr_bridge :: bridge_state
  dr_state :: device_state

definition connection_doctor :: "doctor_env \<Rightarrow> store \<Rightarrow> resource \<Rightarrow> diag_report \<Rightarrow> string \<Rightarrow> string option \<Rightarrow> doctor_report" where
  "connection_doctor env st r rp health_state ident = (let b = bridge_runtime env r; d = device_runtime env st ident r in
     \<lparr>dr_resource_name = r_name r, dr_device = (if dv_found d then dv_name d else ident),
      dr_diagnosis = classify rp health_state b d, dr_bridge = b, dr_state = d\<rparr>)"

section \<open>What a diagnosis says\<close>

lemma bridge_findings_known: "set (bridge_findings b) \<subseteq> {''BRIDGE_DOWN'', ''PORT_CONFLICT'', ''ENDPOINT_INVALID''}"
  by (auto simp: bridge_findings_def)

lemma device_findings_known:
  "set (device_findings d) \<subseteq> {''DEVICE_NOT_AUTHORIZED'', ''SERVICE_NOT_ALLOWED'', ''VPN_DOWN''}"
  by (auto simp: device_findings_def)

lemma backend_findings_known:
  "set (backend_findings rp h) \<subseteq> {''TIMEOUT'', ''BACKEND_DOWN'', ''PDF_URL_INVALID'', ''HTTP_ERROR''}"
  by (auto simp: backend_findings_def)

lemma precedence_parts:
  "{''BRIDGE_DOWN'', ''PORT_CONFLICT'', ''ENDPOINT_INVALID''} \<subseteq> set precedence"
  "{''DEVICE_NOT_AUTHORIZED'', ''SERVICE_NOT_ALLOWED'', ''VPN_DOWN''} \<subseteq> set precedence"
  "{''TIMEOUT'', ''BACKEND_DOWN'', ''PDF_URL_INVALID'', ''HTTP_ERROR''} \<subseteq> set precedence"
  by (simp_all add: precedence_def)

lemma findings_known: "set (bridge_findings b @ device_findings d @ backend_findings rp h) \<subseteq> set precedence"
  unfolding set_append
  by (intro Un_least subset_trans [OF bridge_findings_known precedence_parts(1)] subset_trans [OF device_findings_known precedence_parts(2)]
    subset_trans [OF backend_findings_known precedence_parts(3)])

lemma findings_distinct: "distinct (bridge_findings b @ device_findings d @ backend_findings rp h)"
proof -
  have "distinct (bridge_findings b)" "distinct (device_findings d)" by (simp_all add: bridge_findings_def device_findings_def)
  moreover have "distinct (backend_findings rp h)" by (simp add: backend_findings_def)
  moreover have "set (bridge_findings b) \<inter> set (device_findings d) = {}"
    using bridge_findings_known [of b] device_findings_known [of d] by fastforce
  moreover have "set (bridge_findings b) \<inter> set (backend_findings rp h) = {}" "set (device_findings d) \<inter> set (backend_findings rp h) = {}"
    using bridge_findings_known [of b] device_findings_known [of d] backend_findings_known [of rp h] by fastforce+
  ultimately show ?thesis by auto
qed

lemma find_first: "find P xs = Some x \<Longrightarrow> P x \<and> x \<in> set xs \<and> (\<forall>i j. i < j \<longrightarrow> j < length xs \<longrightarrow> xs ! j = x \<longrightarrow> distinct xs \<longrightarrow> \<not> P (xs ! i))"
  by (auto simp: find_Some_iff) (metis less_trans nat_neq_iff nth_eq_iff_index_eq)

lemma classify_category:
  "dg_category (classify rp h b d) =
    (case find (\<lambda>x. x \<in> set (dg_findings (classify rp h b d))) precedence of None \<Rightarrow> ''OK'' | Some c \<Rightarrow> c)"
  by (simp add: classify_def Let_def)

text \<open>
  The verdict is the most important finding. Every finding has one of the ten documented categories
  and no category twice; the diagnosis is \<open>OK\<close> exactly when there is no finding; and otherwise it is
  a finding before which no other comes in the documented order.
\<close>

theorem diagnosis_by_precedence:
  "set (dg_findings (classify rp h b d)) \<subseteq> set precedence \<and> distinct (dg_findings (classify rp h b d))
   \<and> (dg_category (classify rp h b d) = ''OK'' \<longleftrightarrow> dg_findings (classify rp h b d) = [])
   \<and> (\<forall>j<length precedence. dg_category (classify rp h b d) = precedence ! j \<longrightarrow>
        precedence ! j \<in> set (dg_findings (classify rp h b d)) \<and> (\<forall>i<j. precedence ! i \<notin> set (dg_findings (classify rp h b d))))"
proof -
  let ?f = "dg_findings (classify rp h b d)"
  have sub: "set ?f \<subseteq> set precedence" using findings_known by (simp add: classify_def Let_def)
  have dist: "distinct precedence" "''OK'' \<notin> set precedence" by (simp_all add: precedence_def)
  have d: "distinct ?f" using findings_distinct [of b d rp h] by (simp add: classify_def Let_def)
  show ?thesis
  proof (cases "find (\<lambda>x. x \<in> set ?f) precedence")
    case None
    then have "\<forall>x\<in>set precedence. x \<notin> set ?f" by (simp add: find_None_iff)
    then have e: "?f = []" using sub by (cases ?f) auto
    have "dg_category (classify rp h b d) = ''OK''" by (simp add: classify_category None)
    moreover have "precedence ! j \<noteq> ''OK''" if "j < length precedence" for j using nth_mem [OF that] dist(2) by metis
    ultimately show ?thesis unfolding e by fastforce
  next
    case (Some c)
    note c = find_first [OF Some]
    have cat: "dg_category (classify rp h b d) = c" by (simp add: classify_category Some)
    then have "c \<noteq> ''OK''" using c dist(2) by metis
    moreover have "?f \<noteq> []" using c by auto
    moreover have "precedence ! j \<in> set ?f \<and> (\<forall>i<j. precedence ! i \<notin> set ?f)" if "j < length precedence" "c = precedence ! j" for j
      using c dist(1) that by blast
    ultimately show ?thesis using sub d cat by blast
  qed
qed

definition ok_claims :: "doctor_env \<Rightarrow> store \<Rightarrow> resource \<Rightarrow> diag_report \<Rightarrow> string \<Rightarrow> device \<Rightarrow> bool" where
  \<comment> \<open>what a diagnosis without findings promises for a device\<close>
  "ok_claims env st r rp h d = (device_is_active (dx_today env) d
     \<and> vpn_ip d \<in> allowed_ips_for_resource (dx_today env) r (list_devices st) (list_groups st)
     \<and> (\<exists>age. handshake_age env d = Some age \<and> 0 \<le> age \<and> age \<le> 180)
     \<and> dx_wg0 env = 0 \<and> fst (dx_service env) = 0 \<and> py_strip (snd (dx_service env)) = ''active''
     \<and> validate_public_endpoint (map_of (load_bridge_env (dx_bridge_env env)) ''PUBLIC_ENDPOINT'') = None
     \<and> tt_ok (rp_tcp rp) \<and> (wk_skipped (rp_api rp) \<or> wk_ok (rp_api rp)) \<and> h \<notin> {''TIMEOUT''})"

lemma classify_OK: "dg_category (classify rp h b d) = ''OK'' \<Longrightarrow> dg_findings (classify rp h b d) = []"
proof -
  assume ok: "dg_category (classify rp h b d) = ''OK''"
  have "''OK'' \<notin> set precedence" by (simp add: precedence_def)
  then have "find (\<lambda>x. x \<in> set (dg_findings (classify rp h b d))) precedence = None"
    using ok find_first [of "\<lambda>x. x \<in> set (dg_findings (classify rp h b d))" precedence] unfolding classify_category
    by (auto split: option.splits)
  then have "\<forall>x\<in>set precedence. x \<notin> set (dg_findings (classify rp h b d))" by (simp add: find_None_iff)
  moreover have "set (dg_findings (classify rp h b d)) \<subseteq> set precedence" using findings_known by (simp add: classify_def Let_def)
  ultimately have "x \<notin> set (dg_findings (classify rp h b d))" for x by (meson subsetD)
  then show ?thesis by (cases "dg_findings (classify rp h b d)") auto
qed

text \<open>
  C38. An \<open>OK\<close> for a device means it gets through the bridge. When the doctor finds nothing wrong for a
  device that was asked for, the device exists, is active, the access decision admits its address to
  the Resource, and it had a WireGuard handshake at most three minutes ago; the interface and the
  daemon are up and the public endpoint is well formed; the backend accepts TCP connections, and the
  API test, where the Resource has one, succeeded.
\<close>

theorem ok_diagnosis_sound:
  assumes "dg_category (dr_diagnosis (connection_doctor env st r rp h ident)) = ''OK''" and "ident = Some i" and "i \<noteq> []"
  shows "\<exists>d. find_device i st = Some d \<and> d \<in> set (list_devices st) \<and> ok_claims env st r rp h d"
proof -
  let ?b = "bridge_runtime env r" and ?v = "device_runtime env st ident r"
  have f: "dg_findings (classify rp h ?b ?v) = []" by (rule classify_OK) (use assms(1) in \<open>simp add: connection_doctor_def Let_def\<close>)
  then have e: "bridge_findings ?b = []" "device_findings ?v = []" "backend_findings rp h = []" by (simp_all add: classify_def Let_def)
  obtain d where d: "find_device i st = Some d"
    using e(2) assms(2,3) by (cases "find_device i st") (auto simp: device_runtime_def device_findings_def opt_str_def)
  have v: "?v = \<lparr>dv_requested = True, dv_found = True, dv_name = Some (d_name d), dv_active = device_is_active (dx_today env) d,
      dv_allowed = resource_allows_device (dx_today env) r d (list_groups st), dv_age = handshake_age env d,
      dv_vpn_up = (case handshake_age env d of None \<Rightarrow> False | Some a \<Rightarrow> a \<le> HANDSHAKE_FRESH_SECONDS)\<rparr>"
    using d assms(2,3) by (simp add: device_runtime_def opt_str_def Let_def)
  have mem: "d \<in> set (list_devices st)" using d by (auto simp: find_device_def find_Some_iff)
  have a: "device_is_active (dx_today env) d" "resource_allows_device (dx_today env) r d (list_groups st)"
      "case handshake_age env d of None \<Rightarrow> False | Some a \<Rightarrow> a \<le> HANDSHAKE_FRESH_SECONDS"
    using e(2) unfolding v by (simp_all add: device_findings_def split: if_splits)
  have age: "handshake_age env d = Some x \<Longrightarrow> 0 \<le> x" for x by (auto simp: handshake_age_def Let_def split: if_splits)
  have "vpn_ip d \<in> allowed_ips_for_resource (dx_today env) r (list_devices st) (list_groups st)"
    using mem a(2) by (auto simp: allowed_ips_for_resource_def)
  moreover have "dx_wg0 env = 0" "fst (dx_service env) = 0" "py_strip (snd (dx_service env)) = ''active''"
      "validate_public_endpoint (map_of (load_bridge_env (dx_bridge_env env)) ''PUBLIC_ENDPOINT'') = None"
    using e(1) by (auto simp: bridge_findings_def bridge_runtime_def Let_def split: if_splits)
  moreover have "tt_ok (rp_tcp rp)" "wk_skipped (rp_api rp) \<or> wk_ok (rp_api rp)" "h \<noteq> ''TIMEOUT''"
    using e(3) by (auto simp: backend_findings_def http_failed_def Let_def split: if_splits)
  ultimately show ?thesis using d mem a age by (auto simp: ok_claims_def HANDSHAKE_FRESH_SECONDS_def split: option.splits)
qed

definition demo_doctor_env :: doctor_env where
  "demo_doctor_env = (let tab = [char_of (9::nat)]; nl = [char_of (10::nat)] in
     \<lparr>dx_service = (0, ''active'' @ nl), dx_wg0 = 0, dx_listeners = ''LISTEN 0 128 10.88.0.1:9001 0.0.0.0:*'',
      dx_dump = (0, ''priv'' @ tab @ ''pub'' @ tab @ ''51820'' @ tab @ ''off'' @ nl
        @ ''kdev_1'' @ tab @ ''p'' @ tab @ ''192.0.2.7:4000'' @ tab @ ''10.88.0.2/32'' @ tab @ ''1000'' @ tab @ ''5'' @ tab @ ''6'' @ tab @ ''25''),
      dx_bridge_env = Some ''PUBLIC_ENDPOINT=vpn.example.org:51820'', dx_now = 1100, dx_today = 739000\<rparr>)"

definition demo_diag_report :: diag_report where
  "demo_diag_report = projr (diagnose_resource demo_diag_env (demo_backend\<lparr>r_name := ''web''\<rparr>) None None False)"

lemma demo_diag_report_sound: "isl (diagnose_resource demo_diag_env (demo_backend\<lparr>r_name := ''web''\<rparr>) None None False) = False"
  by code_simp

theorem ok_diagnosis_sound_witness:
  "dr_diagnosis (connection_doctor demo_doctor_env demo_store (demo_resource ''web'' 9001 [''phone'']) demo_diag_report ''ONLINE'' (Some ''phone''))
     = \<lparr>dg_category = ''OK'', dg_findings = []\<rparr>
   \<and> (\<exists>d. find_device ''phone'' demo_store = Some d
        \<and> ok_claims demo_doctor_env demo_store (demo_resource ''web'' 9001 [''phone'']) demo_diag_report ''ONLINE'' d)"
proof -
  have 1: "dr_diagnosis (connection_doctor demo_doctor_env demo_store (demo_resource ''web'' 9001 [''phone'']) demo_diag_report
      ''ONLINE'' (Some ''phone'')) = \<lparr>dg_category = ''OK'', dg_findings = []\<rparr>" by code_simp
  then have 2: "dg_category (dr_diagnosis (connection_doctor demo_doctor_env demo_store (demo_resource ''web'' 9001 [''phone''])
      demo_diag_report ''ONLINE'' (Some ''phone''))) = ''OK''" by (simp only: diagnosis.simps)
  obtain d where "find_device ''phone'' demo_store = Some d"
      "ok_claims demo_doctor_env demo_store (demo_resource ''web'' 9001 [''phone'']) demo_diag_report ''ONLINE'' d"
    using ok_diagnosis_sound [OF 2 refl] by blast
  then show ?thesis using 1 by blast
qed

section \<open>What it misses\<close>

lemma longer_port_is_a_conflict:
  \<comment> \<open>a listener on port 90010 is taken for one on port 9001, and the bridge blamed\<close>
  "dg_category (dr_diagnosis (connection_doctor (demo_doctor_env\<lparr>dx_listeners := ''LISTEN 0 128 0.0.0.0:90010 0.0.0.0:*''\<rparr>) demo_store
     (demo_resource ''web'' 9001 [''phone'']) demo_diag_report ''ONLINE'' (Some ''phone''))) = ''PORT_CONFLICT''"
  by code_simp

lemma longer_port_hides_a_missing_listener:
  "bs_listening (bridge_runtime (demo_doctor_env\<lparr>dx_listeners := ''LISTEN 0 128 10.88.0.1:90010 0.0.0.0:*''\<rparr>)
     (demo_resource ''web'' 9001 [''phone'']))"
  by code_simp

lemma missing_listener_is_no_finding:
  \<comment> \<open>no listener at all on the bridge port is not a problem for the classification\<close>
  "classify rp h (b\<lparr>bs_listening := x\<rparr>) d = classify rp h b d"
  by (simp add: classify_def bridge_findings_def)

lemma failed_pdf_is_no_finding:
  \<comment> \<open>a PDF that answers 404 fails its test and is still diagnosed \<open>OK\<close>\<close>
  "wk_error p \<notin> Some ` set PDF_URL_ERRORS \<and> wk_error p \<noteq> Some ''timeout'' \<Longrightarrow>
   wk_error (rp_pdf rp) \<notin> Some ` set PDF_URL_ERRORS \<and> wk_error (rp_pdf rp) \<noteq> Some ''timeout'' \<Longrightarrow>
   classify (rp\<lparr>rp_pdf := p\<rparr>) h b d = classify rp h b d"
proof -
  assume a: "wk_error p \<notin> Some ` set PDF_URL_ERRORS \<and> wk_error p \<noteq> Some ''timeout''"
    "wk_error (rp_pdf rp) \<notin> Some ` set PDF_URL_ERRORS \<and> wk_error (rp_pdf rp) \<noteq> Some ''timeout''"
  have "[] \<notin> set PDF_URL_ERRORS" by (simp add: PDF_URL_ERRORS_def)
  then have "opt_str e \<notin> set PDF_URL_ERRORS" if "e \<notin> Some ` set PDF_URL_ERRORS" for e
    using that by (cases e) (auto simp: opt_str_def)
  then show ?thesis using a by (simp add: classify_def backend_findings_def http_failed_def Let_def)
qed

end
