(* ===== verification/Metrics.thy ===== *)
theory Metrics
  imports AuditLog Health "HOL-Library.Multiset" "HOL-Library.Product_Lexorder" "HOL-Library.List_Lexorder"
begin

text \<open>
  Metrics (\<open>metrics.py\<close>): the samples of devices, Resources and the bridge, their retention, and the
  series a window of time gives. A table of the database is the list of its rows in the order of
  insertion; SQLite itself, and the write-ahead settings, are not modelled. The output of \<open>wg\<close>, the
  health results and \<open>/proc/uptime\<close> (which holds a finite number) are inputs.
\<close>

section \<open>Samples\<close>

definition WINDOWS :: "(string \<times> int \<times> int) list" where
  "WINDOWS = [(''1h'', 3600, 60), (''24h'', 86400, 300), (''7d'', 604800, 1800), (''30d'', 2592000, 7200)]"

definition RETENTION_SECONDS :: int where "RETENTION_SECONDS = 35 * 86400"

record device_sample =
  ds_ts :: int
  ds_device_id :: string
  ds_name :: "string option"
  ds_rx :: int
  ds_tx :: int
  ds_age :: "int option"
  ds_connected :: bool

record resource_sample =
  rs_ts :: int
  rs_resource :: string
  rs_state :: string
  rs_latency :: "rat option"
  rs_error :: "string option"

record bridge_sample =
  bg_ts :: int
  bg_uptime :: "rat option"
  bg_connections :: int
  bg_errors :: int

record metrics_db =
  db_devices :: "device_sample list"
  db_resources :: "resource_sample list"
  db_bridge :: "bridge_sample list"

record wg_peer =
  wp_rx :: int
  wp_tx :: int
  wp_age :: "int option"
  wp_connected :: bool

definition wg_peer_of :: "int \<Rightarrow> string list \<Rightarrow> (string \<times> wg_peer) option" where
  \<comment> \<open>one line of the dump, split at tabs\<close>
  "wg_peer_of now p = (if length p < 7 then None
     else let latest = (case py_int (p ! 4) of None \<Rightarrow> 0 | Some n \<Rightarrow> n);
              (rx, tx) = (case (py_int (p ! 5), py_int (p ! 6)) of (Some a, Some b) \<Rightarrow> (a, b) | _ \<Rightarrow> (0, 0));
              age = (if latest \<le> 0 then None else Some (max 0 (now - latest))) in
       Some (p ! 0, \<lparr>wp_rx = max 0 rx, wp_tx = max 0 tx, wp_age = age,
         wp_connected = (case age of None \<Rightarrow> False | Some a \<Rightarrow> a \<le> 180)\<rparr>))"

definition parse_wg_dump :: "int \<Rightarrow> string \<Rightarrow> (string \<times> wg_peer) list" where
  \<comment> \<open>the newest binding of a key comes first\<close>
  "parse_wg_dump now text =
     rev (List.map_filter (\<lambda>raw. wg_peer_of now (split_on (char_of (9::nat)) raw))
       (drop 1 (filter (\<lambda>l. py_strip l \<noteq> []) (py_splitlines text))))"

definition system_uptime_seconds :: "string option \<Rightarrow> pyfloat option" where
  \<comment> \<open>the text of \<open>/proc/uptime\<close>\<close>
  "system_uptime_seconds file = (case file of None \<Rightarrow> None
     | Some text \<Rightarrow> (case py_split text of [] \<Rightarrow> None | w # _ \<Rightarrow> map_option (fl_round 2) (parse_float w)))"

definition persist_sample :: "int \<Rightarrow> device_sample list \<Rightarrow> resource_sample list \<Rightarrow> bridge_sample \<Rightarrow> metrics_db \<Rightarrow> metrics_db" where
  "persist_sample ts ds rs b db = (let cutoff = ts - RETENTION_SECONDS in
     \<lparr>db_devices = filter (\<lambda>x. \<not> ds_ts x < cutoff) (db_devices db @ map (\<lambda>x. x\<lparr>ds_ts := ts\<rparr>) ds),
      db_resources = filter (\<lambda>x. \<not> rs_ts x < cutoff) (db_resources db @ map (\<lambda>x. x\<lparr>rs_ts := ts, rs_state := str_or (rs_state x) ''UNKNOWN''\<rparr>) rs),
      db_bridge = filter (\<lambda>x. \<not> bg_ts x < cutoff) (db_bridge db @ [b\<lparr>bg_ts := ts\<rparr>])\<rparr>)"

definition device_row :: "int \<Rightarrow> (string \<times> wg_peer) list \<Rightarrow> device \<Rightarrow> device_sample" where
  "device_row now wg d = (case map_of wg (public_key d) of
       None \<Rightarrow> \<lparr>ds_ts = now, ds_device_id = device_id d, ds_name = Some (d_name d), ds_rx = 0, ds_tx = 0, ds_age = None, ds_connected = False\<rparr>
     | Some p \<Rightarrow> \<lparr>ds_ts = now, ds_device_id = device_id d, ds_name = Some (d_name d), ds_rx = wp_rx p, ds_tx = wp_tx p, ds_age = wp_age p,
         ds_connected = (wp_connected p \<and> d_enabled d)\<rparr>)"

definition resource_row :: "int \<Rightarrow> health \<Rightarrow> resource_sample" where
  "resource_row now h = \<lparr>rs_ts = now, rs_resource = h_name h, rs_state = h_state h, rs_latency = h_latency h, rs_error = h_error h\<rparr>"

definition collect_snapshot ::
  "int \<Rightarrow> string \<Rightarrow> string option \<Rightarrow> audit_db \<Rightarrow> device list \<Rightarrow> health list \<Rightarrow> metrics_db \<Rightarrow> metrics_db" where
  \<comment> \<open>the arguments: the clock, the dump of \<open>wg\<close> (empty when it fails), \<open>/proc/uptime\<close>, the audit log, the devices and the health results\<close>
  "collect_snapshot now dump uptime audit devices results db = (let totals = audit_totals audit in
     persist_sample now (map (device_row now (parse_wg_dump now dump)) devices) (map (resource_row now) results)
       \<lparr>bg_ts = now, bg_uptime = (case system_uptime_seconds uptime of Some (Fin q) \<Rightarrow> Some q | _ \<Rightarrow> None),
        bg_connections = int (fst totals), bg_errors = int (snd totals)\<rparr> db)"

section \<open>Series\<close>

definition bucket :: "int \<Rightarrow> int \<Rightarrow> int" where
  "bucket ts seconds = ts div seconds * seconds"

definition window_of :: "string \<Rightarrow> (int \<times> int) res" where
  "window_of w = (case map_of WINDOWS w of None \<Rightarrow> Inl (ValueError ''Finestra non valida: usa 1h, 24h, 7d o 30d.'')
     | Some x \<Rightarrow> Inr x)"

text \<open>The dictionary of buckets is an association list in the order in which the buckets are made.\<close>

fun upsert :: "int \<Rightarrow> 'a \<Rightarrow> ('a \<Rightarrow> 'a) \<Rightarrow> (int \<times> 'a) list \<Rightarrow> (int \<times> 'a) list" where
  \<comment> \<open>\<open>setdefault\<close>, then an update in place\<close>
  "upsert k d f [] = [(k, f d)]"
| "upsert k d f ((k', v) # kvs) = (if k' = k then (k', f v) # kvs else (k', v) # upsert k d f kvs)"

record device_bucket =
  dp_name :: "string option"
  dp_rx :: int
  dp_tx :: int
  dp_age_sum :: int
  dp_age_samples :: nat
  dp_connected :: nat
  dp_samples :: nat

definition empty_device_bucket :: "device_sample \<Rightarrow> device_bucket" where
  "empty_device_bucket x = \<lparr>dp_name = ds_name x, dp_rx = 0, dp_tx = 0, dp_age_sum = 0, dp_age_samples = 0, dp_connected = 0, dp_samples = 0\<rparr>"

definition add_device_sample :: "(int \<times> int) option \<Rightarrow> device_sample \<Rightarrow> device_bucket \<Rightarrow> device_bucket" where
  \<comment> \<open>the first argument holds the counters of the sample before\<close>
  "add_device_sample prev x b = b\<lparr>
     dp_rx := dp_rx b + (case prev of None \<Rightarrow> 0 | Some (rx, tx) \<Rightarrow> max 0 (ds_rx x - rx)),
     dp_tx := dp_tx b + (case prev of None \<Rightarrow> 0 | Some (rx, tx) \<Rightarrow> max 0 (ds_tx x - tx)),
     dp_age_sum := dp_age_sum b + (case ds_age x of None \<Rightarrow> 0 | Some a \<Rightarrow> a),
     dp_age_samples := dp_age_samples b + (if ds_age x = None then 0 else 1),
     dp_connected := dp_connected b + (if ds_connected x then 1 else 0),
     dp_samples := dp_samples b + 1\<rparr>"

fun device_buckets :: "int \<Rightarrow> (int \<times> int) option \<Rightarrow> device_sample list \<Rightarrow> (int \<times> device_bucket) list \<Rightarrow> (int \<times> device_bucket) list" where
  "device_buckets secs prev [] bs = bs"
| "device_buckets secs prev (x # xs) bs =
     device_buckets secs (Some (ds_rx x, ds_tx x)) xs
       (upsert (bucket (ds_ts x) secs) (empty_device_bucket x) (add_device_sample prev x) bs)"

record device_point =
  dq_ts :: int
  dq_name :: "string option"
  dq_rx :: int
  dq_tx :: int
  dq_age :: "rat option"
  dq_ratio :: rat

definition ratio :: "nat \<Rightarrow> rat \<Rightarrow> nat \<Rightarrow> rat" where
  \<comment> \<open>\<open>round(x / n, digits)\<close> for a positive \<open>n\<close>\<close>
  "ratio digits x n = py_round digits (x / of_nat n)"

definition device_point_of :: "int \<times> device_bucket \<Rightarrow> device_point" where
  "device_point_of kb = (case kb of (ts, b) \<Rightarrow> \<lparr>dq_ts = ts, dq_name = dp_name b, dq_rx = dp_rx b, dq_tx = dp_tx b,
     dq_age = (if dp_age_samples b = 0 then None else Some (ratio 2 (of_int (dp_age_sum b)) (dp_age_samples b))),
     dq_ratio = (if dp_samples b = 0 then 0 else ratio 3 (of_nat (dp_connected b)) (dp_samples b))\<rparr>)"

definition device_series :: "int \<Rightarrow> device_sample list \<Rightarrow> device_point list" where
  \<comment> \<open>the samples of one device, oldest first\<close>
  "device_series secs xs = map device_point_of (sort_key fst (device_buckets secs None xs []))"

record resource_bucket =
  rb_latency_sum :: rat
  rb_latency_samples :: nat
  rb_online :: nat
  rb_errors :: nat
  rb_samples :: nat

definition add_resource_sample :: "resource_sample \<Rightarrow> resource_bucket \<Rightarrow> resource_bucket" where
  "add_resource_sample x b = b\<lparr>
     rb_latency_sum := rb_latency_sum b + (case rs_latency x of None \<Rightarrow> 0 | Some l \<Rightarrow> l),
     rb_latency_samples := rb_latency_samples b + (if rs_latency x = None then 0 else 1),
     rb_online := rb_online b + (if rs_state x = ''ONLINE'' then 1 else 0),
     rb_errors := rb_errors b + (if rs_state x \<noteq> ''ONLINE'' \<or> opt_str (rs_error x) \<noteq> [] then 1 else 0),
     rb_samples := rb_samples b + 1\<rparr>"

definition empty_resource_bucket :: resource_bucket where
  "empty_resource_bucket = \<lparr>rb_latency_sum = 0, rb_latency_samples = 0, rb_online = 0, rb_errors = 0, rb_samples = 0\<rparr>"

fun resource_buckets :: "int \<Rightarrow> resource_sample list \<Rightarrow> (int \<times> resource_bucket) list \<Rightarrow> (int \<times> resource_bucket) list" where
  "resource_buckets secs [] bs = bs"
| "resource_buckets secs (x # xs) bs =
     resource_buckets secs xs (upsert (bucket (rs_ts x) secs) empty_resource_bucket (add_resource_sample x) bs)"

record resource_point =
  rq_ts :: int
  rq_latency :: "rat option"
  rq_ratio :: rat
  rq_errors :: nat
  rq_samples :: nat

definition resource_series :: "int \<Rightarrow> resource_sample list \<Rightarrow> resource_point list" where
  "resource_series secs xs = map (\<lambda>(ts, b). \<lparr>rq_ts = ts,
       rq_latency = (if rb_latency_samples b = 0 then None else Some (ratio 2 (rb_latency_sum b) (rb_latency_samples b))),
       rq_ratio = (if rb_samples b = 0 then 0 else ratio 3 (of_nat (rb_online b)) (rb_samples b)),
       rq_errors = rb_errors b, rq_samples = rb_samples b\<rparr>) (sort_key fst (resource_buckets secs xs []))"

record bridge_point =
  bq_uptime :: "rat option"
  bq_connections :: int
  bq_errors :: int

definition add_bridge_sample :: "(int \<times> int) option \<Rightarrow> bridge_sample \<Rightarrow> bridge_point \<Rightarrow> bridge_point" where
  "add_bridge_sample prev x b = \<lparr>bq_uptime = bg_uptime x,
     bq_connections = bq_connections b + (case prev of None \<Rightarrow> 0 | Some (c, e) \<Rightarrow> max 0 (bg_connections x - c)),
     bq_errors = bq_errors b + (case prev of None \<Rightarrow> 0 | Some (c, e) \<Rightarrow> max 0 (bg_errors x - e))\<rparr>"

fun bridge_buckets :: "int \<Rightarrow> (int \<times> int) option \<Rightarrow> bridge_sample list \<Rightarrow> (int \<times> bridge_point) list \<Rightarrow> (int \<times> bridge_point) list" where
  "bridge_buckets secs prev [] bs = bs"
| "bridge_buckets secs prev (x # xs) bs =
     bridge_buckets secs (Some (bg_connections x, bg_errors x)) xs
       (upsert (bucket (bg_ts x) secs) \<lparr>bq_uptime = bg_uptime x, bq_connections = 0, bq_errors = 0\<rparr>
(add_bridge_sample prev x) bs)"

record series =
  sr_since :: int
  sr_until :: int
  sr_bucket :: int
  sr_devices :: "(string \<times> device_point list) list"
  sr_resources :: "(string \<times> resource_point list) list"
  sr_bridge :: "(int \<times> bridge_point) list"

definition query_series :: "string \<Rightarrow> string option \<Rightarrow> string option \<Rightarrow> int \<Rightarrow> metrics_db \<Rightarrow> series res" where
  \<comment> \<open>the window, the Resource and the device to keep, the clock\<close>
  "query_series window resource device now db =
     rbind (window_of window) (\<lambda>(seconds, secs). let since = now - seconds;
       wanted = (\<lambda>x. opt_str device = [] \<or> ds_device_id x = opt_str device \<or> ds_name x = device);
       drows = sort_key (\<lambda>x. (ds_device_id x, ds_ts x)) (filter (\<lambda>x. since \<le> ds_ts x \<and> wanted x) (db_devices db));
       rrows = sort_key (\<lambda>x. (rs_resource x, rs_ts x)) (filter (\<lambda>x. since \<le> rs_ts x
         \<and> (opt_str resource = [] \<or> rs_resource x = opt_str resource)) (db_resources db));
       brows = sort_key bg_ts (filter (\<lambda>x. since \<le> bg_ts x) (db_bridge db)) in
     Inr \<lparr>sr_since = since, sr_until = now, sr_bucket = secs,
       sr_devices = map (\<lambda>i. (i, device_series secs (filter (\<lambda>x. ds_device_id x = i) drows))) (remdups (map ds_device_id drows)),
       sr_resources = map (\<lambda>n. (n, resource_series secs (filter (\<lambda>x. rs_resource x = n) rrows))) (remdups (map rs_resource rrows)),
       sr_bridge = sort_key fst (bridge_buckets secs None brows [])\<rparr>)"

section \<open>Buckets\<close>

text \<open>
  The three loops over samples are one: each keeps the sample before and updates the bucket its
  time falls in. The laws are what each loop does with a sample; what follows from them is that the
  buckets are those of the samples, once each, and that a quantity that each sample adds to its
  bucket adds up over the buckets to what it is over the samples.
\<close>

lemma upsert_keys: "map fst (upsert k d f bs) = (if k \<in> fst ` set bs then map fst bs else map fst bs @ [k])"
proof (induction bs)
  case (Cons kv bs)
  then show ?case by (cases kv) force
qed simp

lemma upsert_sum:
  fixes g :: "'a \<Rightarrow> 'n::ab_group_add"
  assumes "\<And>v. g (f v) = g v + c" and "g d = 0"
  shows "sum_list (map (\<lambda>kv. g (snd kv)) (upsert k d f bs)) = sum_list (map (\<lambda>kv. g (snd kv)) bs) + c"
  by (induction bs) (auto simp: assms algebra_simps)

lemma upsert_all:
  assumes "\<forall>kv\<in>set bs. P (snd kv)" and "P d" and "\<And>v. P v \<Longrightarrow> P (f v)"
  shows "\<forall>kv\<in>set (upsert k d f bs). P (snd kv)"
  using assms(1) by (induction bs) (force simp: assms(2,3) split: if_splits)+

lemma sort_key_sum:
  fixes g :: "'a \<Rightarrow> 'n::ab_group_add"
  shows "sum_list (map g (sort_key h xs)) = sum_list (map g xs)"
  by (metis mset_map mset_sort sum_mset_sum_list)

locale bucketing =
  fixes run :: "int \<Rightarrow> 'p option \<Rightarrow> 'x list \<Rightarrow> (int \<times> 'b) list \<Rightarrow> (int \<times> 'b) list"
    and stamp :: "'x \<Rightarrow> int"
    and seen :: "'x \<Rightarrow> 'p option"
    and init :: "'x \<Rightarrow> 'b"
    and step :: "'p option \<Rightarrow> 'x \<Rightarrow> 'b \<Rightarrow> 'b"
  assumes run_Nil: "run secs prev [] bs = bs"
    and run_Cons: "run secs prev (x # xs) bs = run secs (seen x) xs (upsert (bucket (stamp x) secs) (init x) (step prev x) bs)"
begin

lemma keys: "fst ` set (run secs prev xs bs) = fst ` set bs \<union> (\<lambda>x. bucket (stamp x) secs) ` set xs"
proof (induction xs arbitrary: prev bs)
  case (Cons x xs)
  have "fst ` set (upsert k d f bs) = insert k (fst ` set bs)" for k d f
    using arg_cong [OF upsert_keys [of k d f bs], of set] by (auto split: if_splits)
  then show ?case unfolding run_Cons Cons.IH by auto
qed (simp add: run_Nil)

lemma distinct_keys: "distinct (map fst bs) \<Longrightarrow> distinct (map fst (run secs prev xs bs))"
  by (induction xs arbitrary: prev bs) (auto simp: run_Nil run_Cons upsert_keys)

lemma increasing: "sorted_wrt (<) (map fst (sort_key fst (run secs prev xs [])))"
  using distinct_keys [of "[]" secs prev xs] sorted_sort_key [of fst "run secs prev xs []"]
  by (simp add: strict_sorted_iff distinct_map)

lemma all_buckets:
  assumes "\<And>x. P (init x)" and "\<And>p x v. P v \<Longrightarrow> P (step p x v)" and "\<forall>kv\<in>set bs. P (snd kv)"
  shows "\<forall>kv\<in>set (run secs prev xs bs). P (snd kv)"
  using assms(3)
proof (induction xs arbitrary: prev bs)
  case (Cons x xs)
  show ?case unfolding run_Cons by (rule Cons.IH) (rule upsert_all [OF Cons.prems assms(1) assms(2)])
qed (simp add: run_Nil)

fun total :: "('p option \<Rightarrow> 'x \<Rightarrow> int) \<Rightarrow> 'p option \<Rightarrow> 'x list \<Rightarrow> int" where
  "total c prev [] = 0"
| "total c prev (x # xs) = c prev x + total c (seen x) xs"

lemma conserved:
  assumes "\<And>p x v. g (step p x v) = g v + c p x" and "\<And>x. g (init x) = 0"
  shows "sum_list (map (\<lambda>kv. g (snd kv)) (run secs prev xs bs)) = sum_list (map (\<lambda>kv. g (snd kv)) bs) + total c prev xs"
  by (induction xs arbitrary: prev bs) (simp_all add: run_Nil run_Cons assms upsert_sum [where g = g and c = "c _ _"] algebra_simps)

end

interpretation db: bucketing device_buckets ds_ts "\<lambda>x. Some (ds_rx x, ds_tx x)" empty_device_bucket add_device_sample
  by unfold_locales simp_all

interpretation bb: bucketing bridge_buckets bg_ts "\<lambda>x. Some (bg_connections x, bg_errors x)"
  "\<lambda>x. \<lparr>bq_uptime = bg_uptime x, bq_connections = 0, bq_errors = 0\<rparr>" add_bridge_sample
  by unfold_locales simp_all

interpretation rb: bucketing "\<lambda>secs (prev :: unit option). resource_buckets secs" rs_ts "\<lambda>x. None" "\<lambda>x. empty_resource_bucket"
  "\<lambda>prev. add_resource_sample"
  by unfold_locales simp_all

section \<open>What a series says\<close>

fun grown :: "int list \<Rightarrow> int" where
  \<comment> \<open>how much a counter grew over its readings; a reading below the one before is a restart\<close>
  "grown (a # b # xs) = max 0 (b - a) + grown (b # xs)"
| "grown _ = 0"

lemma device_total_rx: "db.total (\<lambda>prev x. case prev of None \<Rightarrow> 0 | Some (rx, tx) \<Rightarrow> max 0 (ds_rx x - rx)) prev xs
    = grown ((case prev of None \<Rightarrow> [] | Some (rx, tx) \<Rightarrow> [rx]) @ map ds_rx xs)"
proof (induction xs arbitrary: prev)
  case (Cons x xs)
  then show ?case by (cases prev) auto
qed (auto split: option.splits)

lemma device_total_tx: "db.total (\<lambda>prev x. case prev of None \<Rightarrow> 0 | Some (rx, tx) \<Rightarrow> max 0 (ds_tx x - tx)) prev xs
    = grown ((case prev of None \<Rightarrow> [] | Some (rx, tx) \<Rightarrow> [tx]) @ map ds_tx xs)"
proof (induction xs arbitrary: prev)
  case (Cons x xs)
  then show ?case by (cases prev) auto
qed (auto split: option.splits)

lemma device_series_traffic:
  "sum_list (map dq_rx (device_series secs xs)) = grown (map ds_rx xs)"
  "sum_list (map dq_tx (device_series secs xs)) = grown (map ds_tx xs)"
proof -
  have p: "dq_rx \<circ> device_point_of = (\<lambda>kv. dp_rx (snd kv))" "dq_tx \<circ> device_point_of = (\<lambda>kv. dp_tx (snd kv))"
    by (auto simp: device_point_of_def)
  have "sum_list (map (\<lambda>kv. dp_rx (snd kv)) (device_buckets secs None xs [])) = 0 + grown (map ds_rx xs)"
    using device_total_rx [of None xs]
    by (subst db.conserved [where g = dp_rx and c = "\<lambda>prev x. case prev of None \<Rightarrow> 0 | Some (rx, tx) \<Rightarrow> max 0 (ds_rx x - rx)"])
      (simp_all add: add_device_sample_def empty_device_bucket_def)
  moreover have "sum_list (map (\<lambda>kv. dp_tx (snd kv)) (device_buckets secs None xs [])) = 0 + grown (map ds_tx xs)"
    using device_total_tx [of None xs]
    by (subst db.conserved [where g = dp_tx and c = "\<lambda>prev x. case prev of None \<Rightarrow> 0 | Some (rx, tx) \<Rightarrow> max 0 (ds_tx x - tx)"])
      (simp_all add: add_device_sample_def empty_device_bucket_def)
  ultimately show "sum_list (map dq_rx (device_series secs xs)) = grown (map ds_rx xs)"
    "sum_list (map dq_tx (device_series secs xs)) = grown (map ds_tx xs)"
    by (simp_all add: device_series_def p sort_key_sum)
qed

lemma device_series_times:
  "sorted_wrt (<) (map dq_ts (device_series secs xs))"
  "dq_ts ` set (device_series secs xs) = (\<lambda>x. bucket (ds_ts x) secs) ` set xs"
proof -
  have p: "dq_ts \<circ> device_point_of = fst" by (auto simp: device_point_of_def)
  show "sorted_wrt (<) (map dq_ts (device_series secs xs))" using db.increasing by (simp add: device_series_def p)
  show "dq_ts ` set (device_series secs xs) = (\<lambda>x. bucket (ds_ts x) secs) ` set xs"
    using db.keys [of secs None xs "[]"] by (simp add: device_series_def image_image [symmetric] p image_comp)
qed

lemma bridge_series_total:
  "sum_list (map (\<lambda>kv. bq_connections (snd kv)) (sort_key fst (bridge_buckets secs None xs []))) = grown (map bg_connections xs)"
proof -
  have t: "bb.total (\<lambda>prev x. case prev of None \<Rightarrow> 0 | Some (c, e) \<Rightarrow> max 0 (bg_connections x - c)) prev xs
      = grown ((case prev of None \<Rightarrow> [] | Some (c, e) \<Rightarrow> [c]) @ map bg_connections xs)" for prev
  proof (induction xs arbitrary: prev)
    case (Cons x xs)
    then show ?case by (cases prev) auto
  qed (auto split: option.splits)
  show ?thesis using t [of None] unfolding sort_key_sum
    by (subst bb.conserved [where g = bq_connections and c = "\<lambda>prev x. case prev of None \<Rightarrow> 0 | Some (c, e) \<Rightarrow> max 0 (bg_connections x - c)"])
      (simp_all add: add_bridge_sample_def)
qed

lemma resource_series_samples: "sum_list (map (\<lambda>p. int (rq_samples p)) (resource_series secs xs)) = int (length xs)"
proof -
  have t: "rb.total (\<lambda>p x. 1) None xs = int (length xs)" by (induction xs) auto
  have "sum_list (map (\<lambda>kv. int (rb_samples (snd kv))) (resource_buckets secs xs [])) = int (length xs)"
    using rb.conserved [where g = "\<lambda>b. int (rb_samples b)" and c = "\<lambda>p x. 1" and prev = None and bs = "[]" and xs = xs and secs = secs] t
    by (simp add: add_resource_sample_def empty_resource_bucket_def)
  then show ?thesis by (simp add: resource_series_def o_def case_prod_unfold sort_key_sum)
qed

lemma device_point_bounds:
  assumes "p \<in> set (device_series secs xs)"
  shows "0 \<le> dq_rx p \<and> 0 \<le> dq_tx p \<and> 0 \<le> dq_ratio p \<and> dq_ratio p \<le> 1"
proof -
  define P where "P = (\<lambda>b :: device_bucket. 0 \<le> dp_rx b \<and> 0 \<le> dp_tx b \<and> dp_connected b \<le> dp_samples b)"
  have "\<forall>kv\<in>set (device_buckets secs None xs []). P (snd kv)"
    by (rule db.all_buckets [where P = P]) (auto simp: P_def add_device_sample_def empty_device_bucket_def split: option.splits)
  then obtain ts b where b: "p = device_point_of (ts, b)" "P b" using assms by (auto simp: device_series_def)
  have r: "0 \<le> py_round 3 q" "py_round 3 q \<le> 1" if "0 \<le> q" "q \<le> 1" for q
    using round_half_even_mono_int(1) [of 0 "q * 10 ^ 3"] round_half_even_mono_int(2) [of "q * 10 ^ 3" 1000] that
    by (simp_all add: py_round_def)
  show ?thesis using b(2) r by (auto simp: b(1) P_def device_point_of_def ratio_def)
qed

definition windowed :: "int \<Rightarrow> string option \<Rightarrow> metrics_db \<Rightarrow> string \<Rightarrow> device_sample list" where
  \<comment> \<open>the samples of a device that a query may show, as they were inserted\<close>
  "windowed since device db i = filter (\<lambda>x. since \<le> ds_ts x \<and> (opt_str device = [] \<or> ds_device_id x = opt_str device \<or> ds_name x = device)
     \<and> ds_device_id x = i) (db_devices db)"

text \<open>
  C39. A series accounts for all the traffic of its window. For each device a query shows, there is the
  list of its samples in the window, oldest first; the bytes of its points add up to what the
  counters grew over those samples (a reading below the one before counts as a restart and adds
  nothing), whatever the buckets; the points are in the order of time, one for each bucket that has a
  sample, their traffic is never negative and their connected ratio lies between 0 and 1.
\<close>

theorem series_account_for_traffic:
  assumes "query_series w r dev now db = Inr s" and "(i, ps) \<in> set (sr_devices s)"
  shows "\<exists>xs. mset xs = mset (windowed (sr_since s) dev db i) \<and> xs \<noteq> [] \<and> sorted (map ds_ts xs)
    \<and> sum_list (map dq_rx ps) = grown (map ds_rx xs) \<and> sum_list (map dq_tx ps) = grown (map ds_tx xs)
    \<and> sorted_wrt (<) (map dq_ts ps) \<and> dq_ts ` set ps = (\<lambda>x. bucket (ds_ts x) (sr_bucket s)) ` set xs
    \<and> (\<forall>p\<in>set ps. 0 \<le> dq_rx p \<and> 0 \<le> dq_tx p \<and> 0 \<le> dq_ratio p \<and> dq_ratio p \<le> 1)"
proof -
  obtain seconds secs where s: "window_of w = Inr (seconds, secs)" "sr_since s = now - seconds" "sr_bucket s = secs"
      "sr_devices s = (let rows = sort_key (\<lambda>x. (ds_device_id x, ds_ts x)) (filter (\<lambda>x. now - seconds \<le> ds_ts x
          \<and> (opt_str dev = [] \<or> ds_device_id x = opt_str dev \<or> ds_name x = dev)) (db_devices db)) in
        map (\<lambda>i. (i, device_series secs (filter (\<lambda>x. ds_device_id x = i) rows))) (remdups (map ds_device_id rows)))"
    using assms(1) by (cases "window_of w") (auto simp: query_series_def Let_def)
  define rows where "rows = sort_key (\<lambda>x. (ds_device_id x, ds_ts x)) (filter (\<lambda>x. now - seconds \<le> ds_ts x
      \<and> (opt_str dev = [] \<or> ds_device_id x = opt_str dev \<or> ds_name x = dev)) (db_devices db))"
  define xs where "xs = filter (\<lambda>x. ds_device_id x = i) rows"
  have i: "i \<in> ds_device_id ` set rows" "ps = device_series secs xs"
    using assms(2) unfolding s(4) rows_def [symmetric] Let_def xs_def by auto
  have "mset xs = mset (filter (\<lambda>x. ds_device_id x = i) (filter (\<lambda>x. now - seconds \<le> ds_ts x
      \<and> (opt_str dev = [] \<or> ds_device_id x = opt_str dev \<or> ds_name x = dev)) (db_devices db)))"
    by (simp only: xs_def rows_def mset_filter mset_sort)
  then have "mset xs = mset (windowed (sr_since s) dev db i)" by (simp only: windowed_def s(2) filter_filter conj_assoc)
  moreover have "xs \<noteq> []" using i(1) by (auto simp: xs_def filter_empty_conv)
  moreover have "sorted (map ds_ts xs)"
  proof -
    have "sorted_wrt (\<lambda>x y. (ds_device_id x, ds_ts x) \<le> (ds_device_id y, ds_ts y)) rows"
      using sorted_sort_key [of "\<lambda>x. (ds_device_id x, ds_ts x)"] unfolding rows_def sorted_map by simp
    then have "sorted_wrt (\<lambda>x y. (ds_device_id x, ds_ts x) \<le> (ds_device_id y, ds_ts y)) xs" unfolding xs_def by (rule sorted_wrt_filter)
    then show ?thesis unfolding sorted_map by (rule sorted_wrt_mono_rel [rotated]) (auto simp: xs_def)
  qed
  ultimately show ?thesis using device_series_traffic device_series_times device_point_bounds unfolding i(2) s(3) by blast
qed

definition demo_sample :: "string \<Rightarrow> int \<Rightarrow> int \<Rightarrow> device_sample" where
  "demo_sample i t rx = \<lparr>ds_ts = t, ds_device_id = i, ds_name = Some ''phone'', ds_rx = rx, ds_tx = 0, ds_age = None, ds_connected = True\<rparr>"

definition demo_metrics :: metrics_db where
  "demo_metrics = \<lparr>db_devices = [demo_sample ''dev_1'' 900 100, demo_sample ''dev_2'' 910 7, demo_sample ''dev_1'' 965 150, demo_sample ''dev_1'' 970 20],
     db_resources = [], db_bridge = []\<rparr>"

lemma demo_series:
  "map_sum (\<lambda>_. ()) (\<lambda>s. map (\<lambda>(i, ps). (i, map (\<lambda>p. (dq_ts p, dq_rx p)) ps)) (sr_devices s)) (query_series ''1h'' None None 1000 demo_metrics)
     = Inr [(''dev_1'', [(900, 0), (960, 50)]), (''dev_2'', [(900, 0)])]"
  by code_simp

theorem series_account_for_traffic_witness:
  "\<exists>s ps xs. query_series ''1h'' None None 1000 demo_metrics = Inr s \<and> (''dev_1'', ps) \<in> set (sr_devices s)
     \<and> mset xs = mset (windowed (sr_since s) None demo_metrics ''dev_1'') \<and> sum_list (map dq_rx ps) = 50 \<and> grown (map ds_rx xs) = 50"
proof -
  obtain s where s: "query_series ''1h'' None None 1000 demo_metrics = Inr s"
    using demo_series by (cases "query_series ''1h'' None None 1000 demo_metrics") auto
  then obtain ps where ps: "(''dev_1'', ps) \<in> set (sr_devices s)" "map (\<lambda>p. (dq_ts p, dq_rx p)) ps = [(900, 0), (960, 50)]"
    using demo_series by (auto simp: map_eq_Cons_conv)
  have "map dq_rx ps = map snd (map (\<lambda>p. (dq_ts p, dq_rx p)) ps)" by simp
  then have "sum_list (map dq_rx ps) = 50" unfolding ps(2) by simp
  then show ?thesis using series_account_for_traffic [OF s ps(1)] s ps(1) by metis
qed

section \<open>Retention\<close>

type_synonym sampling = "int \<times> device_sample list \<times> resource_sample list \<times> bridge_sample"

fun keep_sample :: "sampling \<Rightarrow> metrics_db \<Rightarrow> metrics_db" where
  \<comment> \<open>the specification: a database that forgets nothing\<close>
  "keep_sample (ts, ds, rs, b) db =
     \<lparr>db_devices = db_devices db @ map (\<lambda>x. x\<lparr>ds_ts := ts\<rparr>) ds,
      db_resources = db_resources db @ map (\<lambda>x. x\<lparr>rs_ts := ts, rs_state := str_or (rs_state x) ''UNKNOWN''\<rparr>) rs,
      db_bridge = db_bridge db @ [b\<lparr>bg_ts := ts\<rparr>]\<rparr>"

fun take_sample :: "sampling \<Rightarrow> metrics_db \<Rightarrow> metrics_db" where
  "take_sample (ts, ds, rs, b) db = persist_sample ts ds rs b db"

definition agree_since :: "int \<Rightarrow> metrics_db \<Rightarrow> metrics_db \<Rightarrow> bool" where
  "agree_since t db db' = (filter (\<lambda>x. t \<le> ds_ts x) (db_devices db) = filter (\<lambda>x. t \<le> ds_ts x) (db_devices db')
     \<and> filter (\<lambda>x. t \<le> rs_ts x) (db_resources db) = filter (\<lambda>x. t \<le> rs_ts x) (db_resources db')
     \<and> filter (\<lambda>x. t \<le> bg_ts x) (db_bridge db) = filter (\<lambda>x. t \<le> bg_ts x) (db_bridge db'))"

lemma filter_since:
  assumes "filter (\<lambda>x. t \<le> k x) xs = filter (\<lambda>x. t \<le> k x) ys" and "t \<le> (u :: int)"
  shows "filter (\<lambda>x. u \<le> k x \<and> P x) xs = filter (\<lambda>x. u \<le> k x \<and> P x) ys"
proof -
  have "filter (\<lambda>x. u \<le> k x \<and> P x) zs = filter (\<lambda>x. u \<le> k x \<and> P x) (filter (\<lambda>x. t \<le> k x) zs)" for zs
    using assms(2) by (auto intro!: filter_cong)
  then show ?thesis using assms(1) by metis
qed

lemma take_sample_agrees:
  assumes "agree_since t db db'" and "fst s - RETENTION_SECONDS \<le> t"
  shows "agree_since t (take_sample s db) (keep_sample s db')"
proof -
  obtain ts ds rs b where s: "s = (ts, ds, rs, b)" by (cases s)
  have "(\<not> x < ts - RETENTION_SECONDS \<and> t \<le> x) = (t \<le> x)" for x using assms(2) by (auto simp: s)
  moreover have "\<not> ts < ts - RETENTION_SECONDS" by (simp add: RETENTION_SECONDS_def)
  ultimately show ?thesis using assms(1) by (simp add: s agree_since_def persist_sample_def Let_def)
qed

lemma query_agrees:
  assumes "agree_since t db db'" and "\<And>x. window_of w = Inr x \<Longrightarrow> t \<le> now - fst x"
  shows "query_series w r d now db = query_series w r d now db'"
proof (cases "window_of w")
  case (Inr x)
  obtain seconds secs where x: "x = (seconds, secs)" by (cases x)
  then have t: "t \<le> now - seconds" using assms(2) [OF Inr] by simp
  have "filter (\<lambda>x. now - seconds \<le> bg_ts x) (db_bridge db) = filter (\<lambda>x. now - seconds \<le> bg_ts x) (db_bridge db')"
    using filter_since [OF _ t, of bg_ts "db_bridge db" "db_bridge db'" "\<lambda>_. True"] assms(1) by (simp add: agree_since_def)
  moreover note filter_since [OF _ t, of ds_ts "db_devices db" "db_devices db'"]
    filter_since [OF _ t, of rs_ts "db_resources db" "db_resources db'"]
  ultimately show ?thesis using assms(1) by (simp add: query_series_def Inr x agree_since_def)
qed (simp add: query_series_def)

lemma window_bounds: "window_of w = Inr x \<Longrightarrow> fst x \<le> 30 * 86400"
  by (auto simp: window_of_def WINDOWS_def split: if_splits option.splits)

lemma samples_agree:
  assumes "\<forall>s\<in>set samples. fst s \<le> now"
  shows "agree_since (now - 30 * 86400) (fold take_sample samples db) (fold keep_sample samples db)"
proof -
  have "agree_since (now - 30 * 86400) (fold take_sample samples db) (fold keep_sample samples db')"
    if "agree_since (now - 30 * 86400) db db'" for db'
    using assms that
  proof (induction samples arbitrary: db db')
    case (Cons s samples)
    have "agree_since (now - 30 * 86400) (take_sample s db) (keep_sample s db')"
      by (rule take_sample_agrees [OF Cons.prems(2)]) (use Cons.prems(1) in \<open>simp add: RETENTION_SECONDS_def\<close>)
    then show ?case using Cons.IH Cons.prems(1) by simp
  qed simp
  then show ?thesis by (simp add: agree_since_def)
qed

text \<open>
  Retention is invisible. However many samples are taken, at whatever times up to now, every query
  of every window gives what it would give on a database that never deletes a row: the 35 days kept
  cover the longest window.
\<close>

theorem retention_covers_windows:
  assumes "\<forall>s\<in>set samples. fst s \<le> now"
  shows "query_series w r d now (fold take_sample samples db) = query_series w r d now (fold keep_sample samples db)"
  by (rule query_agrees [OF samples_agree [OF assms]]) (use window_bounds in fastforce)

definition demo_sampling :: "int \<Rightarrow> sampling" where
  "demo_sampling t = (t, [demo_sample ''dev_1'' 0 t], [], \<lparr>bg_ts = 0, bg_uptime = None, bg_connections = t, bg_errors = 0\<rparr>)"

theorem retention_covers_windows_witness:
  "query_series ''30d'' None None 4000000 (fold take_sample [demo_sampling 10, demo_sampling 3900000, demo_sampling 4000000] demo_metrics)
     = query_series ''30d'' None None 4000000 (fold keep_sample [demo_sampling 10, demo_sampling 3900000, demo_sampling 4000000] demo_metrics)
   \<and> length (db_devices (fold take_sample [demo_sampling 10, demo_sampling 3900000, demo_sampling 4000000] demo_metrics)) = 2
   \<and> length (db_devices (fold keep_sample [demo_sampling 10, demo_sampling 3900000, demo_sampling 4000000] demo_metrics)) = 7"
proof -
  have "length (db_devices (fold take_sample [demo_sampling 10, demo_sampling 3900000, demo_sampling 4000000] demo_metrics)) = 2"
    "length (db_devices (fold keep_sample [demo_sampling 10, demo_sampling 3900000, demo_sampling 4000000] demo_metrics)) = 7"
    by code_simp+
  then show ?thesis using retention_covers_windows [of "[demo_sampling 10, demo_sampling 3900000, demo_sampling 4000000]" 4000000] 
    by (simp add: demo_sampling_def)
qed

lemma old_samples_deleted:
  "\<forall>x\<in>set (db_devices (persist_sample ts ds rs b db)). ts - 35 * 86400 \<le> ds_ts x"
  by (auto simp: persist_sample_def Let_def RETENTION_SECONDS_def)

section \<open>A lost reading counts all the traffic again\<close>

lemma failed_dump_counts_again:
  \<comment> \<open>when \<open>wg\<close> fails once the counters are stored as 0, and the next sample adds the whole counter to the series\<close>
  "parse_wg_dump now [] = [] \<and> ds_rx (device_row now (parse_wg_dump now []) d) = 0
   \<and> grown [1000, 0, 1000] = 1000 \<and> grown [1000, 1000] = 0"
  by (simp add: parse_wg_dump_def device_row_def map_filter_def py_splitlines_def)

end
