(* ===== verification/Dashboard.thy ===== *)
theory Dashboard
  imports Control Doctor Discovery Metrics RelayClient
begin

text \<open>
  The dashboard (\<open>dashboard.py\<close>): who is let in, what each address answers, and what each form does
  to the machine. A page is named, with the data it is made for; its HTML is not modelled. The form
  is the one \<open>parse_qs\<close> gives for the bytes that are read, and the cookie of the session the one
  \<open>SimpleCookie\<close> finds. The dashboard runs as root. Saved pairing bundles are only written by
  \<open>create_device\<close>, which nothing calls: reading one is an input, and deleting one is left out.
\<close>

section \<open>Requests and answers\<close>

type_synonym form = "(string \<times> string list) list"

record http_request =
  hq_target :: string
  hq_auth :: string
  hq_cookie :: "string option"
  hq_query :: form
  hq_length :: "string option"
  hq_form :: "int \<Rightarrow> form"  \<comment> \<open>by the number of bytes read from the body\<close>

record invitation =
  iv_enrollment_id :: string
  iv_device :: string
  iv_url :: string
  iv_token :: string
  iv_expires :: int
  iv_fingerprint :: string
  iv_server_key :: string
  iv_endpoint :: string
  iv_relay :: "(string \<times> string) option"

datatype page =
    LoginPage string
  | DashboardPage string
  | MetricsPage string
  | ServersPage | RelayPage | P2pPage | NatPage | DiscoveryPage
  | DevicePage string | GroupPage string | ResourcePage string
  | SavedPairing string string
  | NewPairing string invitation
  | DiagnosticsPage resource diag_report doctor_report

datatype dash_answer =
    Page int page
  | Plain int string
  | Redirect string "string option"  \<comment> \<open>location and cookie\<close>
  | ApiSeries series
  | ApiEvents audit_db
  | Api string  \<comment> \<open>what the function with the name returns\<close>

record dash_env =
  dz_cli :: cli_env
  dz_token_file :: "string option"
  dz_cookie :: "string \<Rightarrow> string option"  \<comment> \<open>the session cookie in a header, none when it cannot be read\<close>
  dz_saved :: "string \<Rightarrow> string option"
  dz_metrics :: metrics_db
  dz_clock :: int
  dz_bridge_env :: "string option"
  dz_cert :: "string option"  \<comment> \<open>the SHA-256 of the pairing certificate\<close>
  dz_server_pub :: "string option"
  dz_relay :: relay_settings
  dz_web :: web
  dz_diag :: diag_env
  dz_doctor :: doctor_env
  dz_probe :: "resource \<Rightarrow> probe"

section \<open>Who is let in\<close>

definition panel_token :: "dash_env \<Rightarrow> string" where
  "panel_token e = (case dz_token_file e of None \<Rightarrow> [] | Some text \<Rightarrow> py_strip text)"

definition valid_token :: "dash_env \<Rightarrow> string \<Rightarrow> bool res" where
  "valid_token e candidate = (let expected = panel_token e in
     if expected = [] \<or> candidate = [] then Inr False else compare_digest candidate expected)"

definition cookie_token :: "dash_env \<Rightarrow> string option \<Rightarrow> string" where
  "cookie_token e value = (if opt_str value = [] then [] else opt_str (dz_cookie e (opt_str value)))"

definition authenticated :: "dash_env \<Rightarrow> http_request \<Rightarrow> bool res" where
  "authenticated e req =
     rbind (if starts_with ''Bearer '' (hq_auth req) then valid_token e (py_strip (drop 7 (hq_auth req))) else Inr False) (\<lambda>bearer.
     if bearer then Inr True else valid_token e (cookie_token e (hq_cookie req)))"

section \<open>Addresses\<close>

definition params_schemes :: "string list" where
  "params_schemes = [[], ''ftp'', ''hdl'', ''prospero'', ''http'', ''https'', ''shttp'', ''rtsp'', ''rtspu'', ''sip'', ''sips'', ''mms'', ''sftp'', ''tel'']"

definition drop_params :: "string \<Rightarrow> string" where
  \<comment> \<open>\<open>urlparse\<close> takes what follows a semicolon in the last segment off the path\<close>
  "drop_params path = (case rpartition_at (CHR ''/'') path of (a, sep, b) \<Rightarrow>
     (if sep then a @ ''/'' else []) @ takeWhile (\<lambda>c. c \<noteq> CHR '';'') (if sep then b else path))"

definition url_path :: "string \<Rightarrow> string res" where
  \<comment> \<open>\<open>urlparse(target).path\<close>\<close>
  "url_path target = rbind (urlsplit target) (\<lambda>u.
     Inr (if u_scheme u \<in> set params_schemes then drop_params (u_path u) else u_path u))"

definition third_segment :: "string \<Rightarrow> string" where
  \<comment> \<open>\<open>path.split("/", 2)[2]\<close> of a path with two slashes\<close>
  "third_segment path = drop 1 (dropWhile (\<lambda>c. c \<noteq> CHR ''/'') (drop 1 path))"

definition first_of :: "form \<Rightarrow> string \<Rightarrow> string \<Rightarrow> string" where
  \<comment> \<open>\<open>(f.get(k) or [d])[0]\<close>\<close>
  "first_of f k d = (case map_of f k of Some (v # _) \<Rightarrow> v | _ \<Rightarrow> d)"

definition values_of :: "form \<Rightarrow> string \<Rightarrow> string list" where
  \<comment> \<open>\<open>[x for x in f.get(k, []) if x]\<close>\<close>
  "values_of f k = filter (\<lambda>x. x \<noteq> []) (case map_of f k of None \<Rightarrow> [] | Some vs \<Rightarrow> vs)"

definition opt_of :: "string \<Rightarrow> string option" where
  \<comment> \<open>\<open>v or None\<close>\<close>
  "opt_of v = (if v = [] then None else Some v)"

definition read_form :: "http_request \<Rightarrow> form res" where
  "read_form req = (let text = (case hq_length req of None \<Rightarrow> ''0'' | Some t \<Rightarrow> t) in
     if text = [] then Inr (hq_form req 0)
     else (case py_int text of
         None \<Rightarrow> Inl (ValueError ''invalid literal for int()'')
       | Some n \<Rightarrow> Inr (hq_form req (min n 65536))))"

definition api_routes :: "string list" where
  "api_routes = [''/api/status'', ''/api/health'', ''/api/discovery'', ''/api/nat'', ''/api/p2p'', ''/api/relay'', ''/api/servers'', ''/api/catalog'']"

definition page_routes :: "(string \<times> page) list" where
  "page_routes = [(''/'', DashboardPage []), (''/servers'', ServersPage), (''/relay'', RelayPage), (''/p2p'', P2pPage),
     (''/nat'', NatPage), (''/discovery'', DiscoveryPage)]"

definition get_answer :: "dash_env \<Rightarrow> store \<Rightarrow> form \<Rightarrow> string \<Rightarrow> dash_answer" where
  \<comment> \<open>a page or report for somebody who is let in; the form is the one of the query\<close>
  "get_answer e st q path =
     (if path = ''/metrics'' then Page 200 (MetricsPage (first_of q ''window'' ''24h''))
      else if path = ''/api/metrics'' then
        (case query_series (first_of q ''window'' ''24h'') None None (dz_clock e) (dz_metrics e) of
           Inl _ \<Rightarrow> Plain 400 ''invalid_window'' | Inr s \<Rightarrow> ApiSeries s)
      else if path = ''/api/audit'' then ApiEvents (list_events 200 None None None (AUDIT_DB st))
      else if path \<in> set api_routes then Api (drop 5 path)
      else (case map_of page_routes path of
          Some p \<Rightarrow> Page 200 p
        | None \<Rightarrow>
            if starts_with ''/device/'' path then Page 200 (DevicePage (third_segment path))
            else if starts_with ''/group/'' path then Page 200 (GroupPage (third_segment path))
            else if starts_with ''/resource/'' path then Page 200 (ResourcePage (third_segment path))
            else if starts_with ''/pairing/'' path then
              (case dz_saved e (third_segment path) of
                 None \<Rightarrow> Page 404 (DashboardPage ''Pairing scaduto.'')
               | Some payload \<Rightarrow> Page 200 (SavedPairing (third_segment path) payload))
            else Plain 404 ''Not found''))"

definition do_GET_dashboard :: "dash_env \<Rightarrow> store \<Rightarrow> http_request \<Rightarrow> dash_answer res" where
  "do_GET_dashboard e st req = rbind (url_path (hq_target req)) (\<lambda>path.
     if path = ''/healthz'' then Inr (Plain 200 ''ok'')
     else if path = ''/logout'' then Inr (Redirect ''/'' (Some ''ge360_admin=; Path=/; Max-Age=0; HttpOnly; SameSite=Strict''))
     else rbind (authenticated e req) (\<lambda>ok.
       if \<not> ok then Inr (Page 401 (LoginPage [])) else Inr (get_answer e st (hq_query req) path)))"

section \<open>The status report\<close>

record dash_peer =
  dp_endpoint :: string
  dp_allowed :: string
  dp_handshake :: "int option"
  dp_online :: bool
  dp_rx_bytes :: int
  dp_tx_bytes :: int

definition isdigit_text :: "string \<Rightarrow> bool" where
  \<comment> \<open>\<open>str.isdigit\<close>, which is also true of superscript digits\<close>
  "isdigit_text s = (s \<noteq> [] \<and> list_all (\<lambda>c. is_digit c \<or> ord_of c \<in> {178, 179, 185}) s)"

definition counter :: "string \<Rightarrow> int res" where
  "counter s = (if \<not> isdigit_text s then Inr 0
     else (case py_int s of None \<Rightarrow> Inl (ValueError ''invalid literal for int()'') | Some n \<Rightarrow> Inr n))"

definition dash_peer_of :: "int \<Rightarrow> string list \<Rightarrow> (string \<times> dash_peer) res" where
  "dash_peer_of now p = (let hs = (case py_int (p ! 4) of None \<Rightarrow> 0 | Some n \<Rightarrow> n); age = (if hs \<le> 0 then None else Some (max 0 (now - hs))) in
     rbind (counter (p ! 5)) (\<lambda>rx. rbind (counter (p ! 6)) (\<lambda>tx.
     Inr (p ! 0, \<lparr>dp_endpoint = (if p ! 2 = ''(none)'' then [] else p ! 2), dp_allowed = p ! 3, dp_handshake = age,
       dp_online = (case age of None \<Rightarrow> False | Some a \<Rightarrow> a \<le> 180), dp_rx_bytes = rx, dp_tx_bytes = tx\<rparr>))))"

definition dash_peers :: "int \<Rightarrow> string \<Rightarrow> (string \<times> dash_peer) list res" where
  \<comment> \<open>the newest binding of a key comes first\<close>
  "dash_peers now text = map_sum id rev (rmap (dash_peer_of now) (filter (\<lambda>p. 8 \<le> length p)
     (map (split_on (char_of (9::nat))) (drop 1 (filter (\<lambda>l. py_strip l \<noteq> []) (py_splitlines text))))))"

definition human_age :: "int option \<Rightarrow> string" where
  "human_age value = (case value of None \<Rightarrow> ''mai'' | Some v \<Rightarrow>
     if v < 60 then int_str v @ ''s fa'' else if v < 3600 then int_str (v div 60) @ '' min fa''
     else if v < 86400 then int_str (v div 3600) @ '' h fa'' else int_str (v div 86400) @ '' g fa'')"

record status_device =
  sd_device :: device  \<comment> \<open>without its keys and token\<close>
  sd_expired :: bool
  sd_online :: bool
  sd_handshake :: "int option"
  sd_endpoint :: string
  sd_rx :: int
  sd_tx :: int
  sd_groups :: "string list"
  sd_services :: "string list"

record status_resource =
  sv_resource :: resource
  sv_url :: string
  sv_target :: string
  sv_reachable :: bool
  sv_health :: "health option"

record status_report =
  st_wg_port :: int
  st_endpoint :: string
  st_devices :: "status_device list"
  st_groups :: "group list"
  st_resources :: "status_resource list"
  st_online :: nat
  st_healthy :: nat
  st_degraded :: nat

definition status_device_of :: "nat \<Rightarrow> store \<Rightarrow> (string \<times> dash_peer) list \<Rightarrow> device \<Rightarrow> status_device" where
  "status_device_of today st peers d = (let peer = map_of peers (public_key d); expired = device_is_expired today d in
     \<lparr>sd_device = d\<lparr>public_key := [], preshared_key := [], token := []\<rparr>, sd_expired = expired,
      sd_online = ((case peer of None \<Rightarrow> False | Some p \<Rightarrow> dp_online p) \<and> d_enabled d \<and> \<not> expired),
      sd_handshake = Option.bind peer dp_handshake,
      sd_endpoint = (case peer of None \<Rightarrow> [] | Some p \<Rightarrow> dp_endpoint p),
      sd_rx = (case peer of None \<Rightarrow> 0 | Some p \<Rightarrow> dp_rx_bytes p), sd_tx = (case peer of None \<Rightarrow> 0 | Some p \<Rightarrow> dp_tx_bytes p),
      sd_groups = map g_name (filter (\<lambda>g. device_id d \<in> set (device_ids g)) (list_groups st)),
      sd_services = map r_name (effective_resources_for_device today d (list_resources st) (list_groups st))\<rparr>)"

definition status_resource_of :: "health list \<Rightarrow> resource \<Rightarrow> status_resource" where
  "status_resource_of hs r = (let h = map_of (rev (map (\<lambda>h. (h_name h, h)) hs)) (r_name r) in
     \<lparr>sv_resource = r, sv_url = protocol r @ ''://10.88.0.1:'' @ int_str (bridge_port r),
      sv_target = target_host r @ '':'' @ int_str (target_port r),
      sv_reachable = (case h of None \<Rightarrow> False | Some x \<Rightarrow> t_ok (h_tcp x)), sv_health = h\<rparr>)"

definition status_data :: "nat \<Rightarrow> int \<Rightarrow> (string \<times> string) list \<Rightarrow> string \<Rightarrow> health list \<Rightarrow> store \<Rightarrow> status_report res" where
  \<comment> \<open>the day, the clock, the environment, the dump of \<open>wg\<close> (empty when it fails) and the health results\<close>
  "status_data today now env dump hs st =
     rbind (dash_peers now dump) (\<lambda>peers. let devices = map (status_device_of today st peers) (list_devices st) in
     rbind (case py_int (env_get env ''WG_PORT'' ''51820'') of None \<Rightarrow> Inl (ValueError ''invalid literal for int()'') | Some p \<Rightarrow> Inr p) (\<lambda>port.
     Inr \<lparr>st_wg_port = port, st_endpoint = endpoint env, st_devices = devices, st_groups = list_groups st,
          st_resources = map (status_resource_of hs) (list_resources st), st_online = length (filter sd_online devices),
          st_healthy = health_summary hs ''ONLINE'', st_degraded = health_summary hs ''DEGRADED''\<rparr>))"

lemma status_shows_no_secrets:
  "status_data today now env dump hs st = Inr s \<Longrightarrow> x \<in> set (st_devices s) \<Longrightarrow>
     token (sd_device x) = [] \<and> preshared_key (sd_device x) = [] \<and> public_key (sd_device x) = []
     \<and> (sd_online x \<longrightarrow> (\<exists>d\<in>set (list_devices st). device_id d = device_id (sd_device x) \<and> device_is_active today d))"
  by (auto simp: status_data_def status_device_of_def Let_def res_simps device_is_active_def split: option.splits) blast

section \<open>What a form does\<close>

text \<open>An action on the machine returns an answer or raises, and either way leaves a machine.\<close>

type_synonym 'a act = "machine \<Rightarrow> 'a res \<times> machine"

definition and_then :: "'a act \<Rightarrow> ('a \<Rightarrow> 'b act) \<Rightarrow> 'b act" where
  "and_then a f m = (case a m of (Inl err, m') \<Rightarrow> (Inl err, m') | (Inr x, m') \<Rightarrow> f x m')"

definition need :: "'a res \<Rightarrow> 'a act" where
  "need r m = (r, m)"

definition on_pairing :: "(pairing_state \<Rightarrow> 'a res \<times> pairing_state) \<Rightarrow> 'a act" where
  "on_pairing g m = (case g (m_pairing m) of (r, ps) \<Rightarrow> (r, m\<lparr>m_pairing := ps\<rparr>))"

definition on_store :: "(store \<Rightarrow> 'a res \<times> store) \<Rightarrow> 'a act" where
  "on_store g = on_pairing (\<lambda>ps. case g (registry_of ps) of (r, st) \<Rightarrow> (r, ps\<lparr>registry_of := st\<rparr>))"

definition ask :: "(store \<Rightarrow> 'a res) \<Rightarrow> 'a act" where
  "ask g m = (g (registry_of (m_pairing m)), m)"

definition write_config :: "cli_env \<Rightarrow> unit act" where
  "write_config c m = guard_in m (render_wg_config (y_today c) (y_env c) (y_server_key c) (list_devices (registry_of (m_pairing m))))
     (\<lambda>conf. (Inr (), m\<lparr>m_conf := Some conf\<rparr>))"

definition reload_then :: "cli_env \<Rightarrow> 'a \<Rightarrow> 'a act" where
  \<comment> \<open>\<open>reload_runtime()\<close>, then the answer\<close>
  "reload_then c answer m = (Inr answer, reload_runtime c m)"

definition form_int :: "form \<Rightarrow> string \<Rightarrow> string \<Rightarrow> int res" where
  "form_int f k d = (case py_int (first_of f k d) of None \<Rightarrow> Inl (ValueError ''invalid literal for int()'') | Some i \<Rightarrow> Inr i)"

definition form_bool :: "form \<Rightarrow> string \<Rightarrow> bool" where
  "form_bool f k = (first_of f k ''0'' = ''1'')"

definition invitation_payload :: "dash_env \<Rightarrow> enrollment \<Rightarrow> string \<Rightarrow> invitation res" where
  "invitation_payload e r tok = (let env = load_bridge_env (dz_bridge_env e) in
     rbind (public_enrollment_url env) (\<lambda>url.
     rbind (case dz_cert e of None \<Rightarrow> Inl (BridgeError ''Certificato TLS pairing mancante o non valido.'') | Some h \<Rightarrow> Inr h) (\<lambda>cert.
     rbind (case dz_server_pub e of None \<Rightarrow> Inl (BridgeError ''Chiave pubblica server mancante.'') | Some k \<Rightarrow> Inr (py_strip k)) (\<lambda>key.
     Inr \<lparr>iv_enrollment_id = enrollment_id r, iv_device = n_device_name r, iv_url = url, iv_token = tok, iv_expires = n_expires_at r,
          iv_fingerprint = cert, iv_server_key = key, iv_endpoint = env_get env ''PUBLIC_ENDPOINT'' ''CHANGE_ME:51820'',
          iv_relay = relay_public_config (dz_relay e)\<rparr>))))"

definition post_group_create :: "cli_env \<Rightarrow> form \<Rightarrow> dash_answer act" where
  "post_group_create c f = and_then (on_store (create_group (py_strip (first_of f ''name'' [])) (first_of f ''description'' []))) (\<lambda>_.
     reload_then c (Redirect ''/'' None))"

definition post_group_device :: "cli_env \<Rightarrow> form \<Rightarrow> dash_answer act" where
  "post_group_device c f = (let group = first_of f ''group'' [] in
     and_then (on_store (set_group_device (y_iso c) group (first_of f ''device'' []) (form_bool f ''assigned''))) (\<lambda>_.
     reload_then c (Redirect (''/group/'' @ group) None)))"

definition post_group_service :: "cli_env \<Rightarrow> form \<Rightarrow> dash_answer act" where
  "post_group_service c f = (let group = first_of f ''group'' [] in
     and_then (on_store (set_group_resource (y_iso c) group (first_of f ''service'' []) (form_bool f ''allowed''))) (\<lambda>_.
     reload_then c (Redirect (''/group/'' @ group) None)))"

definition post_group_toggle :: "cli_env \<Rightarrow> form \<Rightarrow> dash_answer act" where
  "post_group_toggle c f = (let group = first_of f ''group'' [] in
     and_then (on_store (set_group_enabled (y_iso c) group (form_bool f ''enabled''))) (\<lambda>_.
     reload_then c (Redirect (''/group/'' @ group) None)))"

definition post_group_remove :: "cli_env \<Rightarrow> form \<Rightarrow> dash_answer act" where
  "post_group_remove c f = and_then (on_store (remove_group (y_iso c) (first_of f ''group'' []))) (\<lambda>found.
     and_then (need (ensure found (BridgeError ''Gruppo non trovato.''))) (\<lambda>_. reload_then c (Redirect ''/'' None)))"

definition post_acl :: "cli_env \<Rightarrow> form \<Rightarrow> dash_answer act" where
  "post_acl c f = (let device = first_of f ''device'' [] in
     and_then (on_store (set_device_access_override (y_iso c) (first_of f ''service'' []) device (first_of f ''decision'' ''inherit''))) (\<lambda>_.
     and_then (reload_then c ()) (\<lambda>_.
     and_then (ask (\<lambda>st. Inr (find_device device st))) (\<lambda>d.
     need (Inr (Redirect (case d of None \<Rightarrow> ''/'' | Some x \<Rightarrow> ''/device/'' @ device_id x) None))))))"

definition post_device_add :: "dash_env \<Rightarrow> form \<Rightarrow> dash_answer act" where
  "post_device_add e f = (let c = dz_cli e; name = py_strip (first_of f ''name'' []) in
     and_then (need (parse_tags_csv (first_of f ''tags'' []))) (\<lambda>tg.
     and_then (need (form_int f ''ttl'' ''600'')) (\<lambda>ttl.
     and_then (on_pairing (create_enrollment (y_hmac_key c) (y_now c) (cli_env.y_token c) (y_nonce c)
       \<lparr>q_name = name, q_device_type = first_of f ''device_type'' ''unknown'', q_owner = first_of f ''owner'' [],
        q_expires_at = opt_of (first_of f ''expires_at'' []), q_notes = [], q_tags = tg,
        q_groups = values_of f ''group'', q_ttl = ttl\<rparr>)) (\<lambda>(r, tok).
     and_then (need (invitation_payload e r tok)) (\<lambda>p. need (Inr (Page 200 (NewPairing name p))))))))"

definition post_device_update :: "cli_env \<Rightarrow> form \<Rightarrow> dash_answer act" where
  "post_device_update c f = (let did = first_of f ''device_id'' [] in
     and_then (ask (\<lambda>st. case find_device did st of None \<Rightarrow> Inl (BridgeError ''Dispositivo non trovato.'') | Some d \<Rightarrow> Inr d)) (\<lambda>current.
     let new_name = py_strip (first_of f ''name'' (d_name current)) in
     and_then (if new_name \<noteq> d_name current then and_then (on_store (rename_device (y_iso c) did new_name)) (\<lambda>_. need (Inr ()))
       else need (Inr ())) (\<lambda>_.
     and_then (need (parse_tags_csv (first_of f ''tags'' []))) (\<lambda>tg.
     and_then (on_store (update_device_metadata (y_iso c) did
       \<lparr>p_device_type = Some (first_of f ''device_type'' ''unknown''), p_owner = Some (first_of f ''owner'' []),
        p_expires_at = Some (opt_of (first_of f ''expires_at'' [])), p_notes = Some (first_of f ''notes'' []), p_tags = Some tg\<rparr>)) (\<lambda>_.
     and_then (write_config c) (\<lambda>_. reload_then c (Redirect (''/device/'' @ did) None)))))))"

definition post_device_toggle :: "cli_env \<Rightarrow> form \<Rightarrow> dash_answer act" where
  "post_device_toggle c f = (let did = first_of f ''device_id'' [] in
     and_then (on_store (set_device_enabled (y_iso c) did (form_bool f ''enabled''))) (\<lambda>_.
     and_then (write_config c) (\<lambda>_. reload_then c (Redirect (''/device/'' @ did) None))))"

definition post_diagnostics :: "dash_env \<Rightarrow> form \<Rightarrow> dash_answer act" where
  "post_diagnostics e f = (let name = first_of f ''resource'' [] in
     and_then (ask (\<lambda>st. case find_resource name st of None \<Rightarrow> Inl (BridgeError ''Resource non trovata.'') | Some r \<Rightarrow> Inr (r, st))) (\<lambda>(r, st).
     and_then (need (diagnose_resource (dz_diag e) r (opt_of (first_of f ''api_path'' [])) (opt_of (first_of f ''pdf_path'' []))
       (form_bool f ''traceroute''))) (\<lambda>rp.
     and_then (need (fst (check_resource False 0 0 r (dz_probe e r) (\<lambda>_. None)))) (\<lambda>h.
     need (Inr (Page 200 (DiagnosticsPage r rp
       (connection_doctor (dz_doctor e) st r rp (h_state h) (opt_of (first_of f ''device'' []))))))))))"

definition post_discovery_import :: "dash_env \<Rightarrow> form \<Rightarrow> dash_answer act" where
  "post_discovery_import e f = (let raw = py_strip (first_of f ''bridge_port'' []) in
     and_then (need (form_int f ''target_port'' ''0'')) (\<lambda>tp.
     and_then (need (if raw = [] then Inr None else map_sum id Some (form_int [(''bridge_port'', [raw])] ''bridge_port'' []))) (\<lambda>bp.
     and_then (on_store (import_discovered_backend (dz_web e) (first_of f ''host'' ''127.0.0.1'') tp (first_of f ''scheme'' ''http'') bp
       (NFloat (Fin 1)))) (\<lambda>r.
     reload_then (dz_cli e) (Redirect (''/resource/'' @ r_name r) None)))))"

definition post_resource_add :: "cli_env \<Rightarrow> form \<Rightarrow> dash_answer act" where
  "post_resource_add c f =
     and_then (need (form_int f ''bridge_port'' ''0'')) (\<lambda>bp.
     and_then (need (form_int f ''target_port'' ''0'')) (\<lambda>tp.
     and_then (need (float_text (first_of f ''timeout'' ''2.0''))) (\<lambda>t.
     and_then (on_store (register_resource (py_strip (first_of f ''name'' [])) bp
       \<lparr>a_target_host = first_of f ''target_host'' ''127.0.0.1'', a_target_port = tp, a_allowed = [],
        a_icon = first_of f ''icon'' ''server'', a_description = first_of f ''description'' [],
        a_protocol = first_of f ''protocol'' ''tcp'', a_health_url = first_of f ''health_url'' [], a_timeout = NFloat t,
        a_unit = first_of f ''systemd_unit'' [], a_self_heal = form_bool f ''self_heal''\<rparr>)) (\<lambda>_.
     reload_then c (Redirect ''/'' None)))))"

definition post_resource_update :: "cli_env \<Rightarrow> form \<Rightarrow> dash_answer act" where
  "post_resource_update c f = (let name = first_of f ''name'' [] in
     and_then (need (form_int f ''bridge_port'' ''0'')) (\<lambda>bp.
     and_then (need (form_int f ''target_port'' ''0'')) (\<lambda>tp.
     and_then (need (float_text (first_of f ''timeout'' ''2.0''))) (\<lambda>t.
     and_then (on_store (update_resource name
       \<lparr>p_icon = Some (first_of f ''icon'' ''server''), p_description = Some (first_of f ''description'' []),
        p_protocol = Some (first_of f ''protocol'' ''tcp''), p_bridge_port = Some bp,
        p_target_host = Some (first_of f ''target_host'' ''127.0.0.1''), p_target_port = Some tp,
        p_health_url = Some (first_of f ''health_url'' []), p_timeout = Some (NFloat t), p_enabled = Some (form_bool f ''enabled''),
        p_unit = Some (first_of f ''systemd_unit'' []), p_self_heal = Some (form_bool f ''self_heal'')\<rparr>)) (\<lambda>_.
     reload_then c (Redirect (''/resource/'' @ name) None))))))"

definition post_resource_remove :: "string \<Rightarrow> cli_env \<Rightarrow> form \<Rightarrow> dash_answer act" where
  \<comment> \<open>the first argument is the message when there is none\<close>
  "post_resource_remove msg c f = and_then (on_store (remove_resource (first_of f ''name'' []))) (\<lambda>found.
     and_then (need (ensure found (BridgeError msg))) (\<lambda>_. reload_then c (Redirect ''/'' None)))"

definition post_service_add :: "cli_env \<Rightarrow> form \<Rightarrow> dash_answer act" where
  "post_service_add c f =
     and_then (need (form_int f ''bridge_port'' ''0'')) (\<lambda>bp.
     and_then (need (form_int f ''target_port'' ''0'')) (\<lambda>tp.
     and_then (on_store (register_resource (py_strip (first_of f ''name'' [])) bp
       ((service_args (first_of f ''target_host'' ''127.0.0.1'') tp [])\<lparr>a_allowed := values_of f ''allow''\<rparr>))) (\<lambda>_.
     reload_then c (Redirect ''/'' None))))"

definition post_routes :: "dash_env \<Rightarrow> form \<Rightarrow> (string \<times> dash_answer act) list" where
  "post_routes e f = (let c = dz_cli e in
     [(''/group/create'', post_group_create c f), (''/group/device'', post_group_device c f),
      (''/group/service'', post_group_service c f), (''/group/toggle'', post_group_toggle c f),
      (''/group/remove'', post_group_remove c f), (''/acl'', post_acl c f), (''/device/add'', post_device_add e f),
      (''/device/update'', post_device_update c f), (''/device/toggle'', post_device_toggle c f),
      (''/diagnostics/run'', post_diagnostics e f), (''/discovery/import'', post_discovery_import e f),
      (''/resource/add'', post_resource_add c f), (''/resource/update'', post_resource_update c f),
      (''/resource/remove'', post_resource_remove ''Resource non trovata.'' c f), (''/service/add'', post_service_add c f),
      (''/service/remove'', post_resource_remove ''Servizio non trovato.'' c f)])"

definition catching :: "dash_answer act \<Rightarrow> dash_answer act" where
  \<comment> \<open>\<open>except (BridgeError, ValueError)\<close>\<close>
  "catching a m = (case a m of
       (Inl (BridgeError t), m') \<Rightarrow> (Inr (Page 400 (DashboardPage t)), m')
     | (Inl (ValueError t), m') \<Rightarrow> (Inr (Page 400 (DashboardPage t)), m')
     | (r, m') \<Rightarrow> (r, m'))"

definition post_login :: "dash_env \<Rightarrow> http_request \<Rightarrow> dash_answer act" where
  "post_login e req = need (rbind (read_form req) (\<lambda>f. let tok = first_of f ''token'' [] in
     rbind (valid_token e tok) (\<lambda>ok.
       if \<not> ok then Inr (Page 401 (LoginPage ''Token non valido.''))
       else Inr (Redirect ''/'' (Some (''ge360_admin='' @ tok @ ''; Path=/; HttpOnly; SameSite=Strict''))))))"

definition do_POST_dashboard :: "dash_env \<Rightarrow> http_request \<Rightarrow> dash_answer act" where
  "do_POST_dashboard e req = and_then (need (url_path (hq_target req))) (\<lambda>path.
     if path = ''/login'' then post_login e req
     else and_then (need (authenticated e req)) (\<lambda>ok.
       if \<not> ok then need (Inr (Page 401 (LoginPage [])))
       else and_then (need (read_form req)) (\<lambda>f.
         case map_of (post_routes e f) path of
           None \<Rightarrow> need (Inr (Plain 404 ''Not found'')) | Some act \<Rightarrow> catching act)))"

section \<open>What every action keeps\<close>

named_theorems act_ok
named_theorems act_sync

definition preserves :: "(machine \<Rightarrow> bool) \<Rightarrow> 'a act \<Rightarrow> bool" where
  \<comment> \<open>whether the action succeeds or raises\<close>
  "preserves P a = (\<forall>m. P m \<longrightarrow> P (snd (a m)))"

definition achieves :: "(machine \<Rightarrow> bool) \<Rightarrow> 'a act \<Rightarrow> (machine \<Rightarrow> bool) \<Rightarrow> bool" where
  \<comment> \<open>when it succeeds\<close>
  "achieves P a Q = (\<forall>m x m'. P m \<longrightarrow> a m = (Inr x, m') \<longrightarrow> Q m')"

lemma preserves_and_then [act_ok]: "preserves P a \<Longrightarrow> (\<And>x. preserves P (f x)) \<Longrightarrow> preserves P (and_then a f)"
proof -
  assume a: "preserves P a" and f: "\<And>x. preserves P (f x)"
  have "P (snd (and_then a f m))" if "P m" for m
  proof (cases "a m")
    case (Pair r m')
    then have "P m'" using a that unfolding preserves_def by (metis snd_conv)
    then show ?thesis using f by (cases r) (simp_all add: and_then_def Pair preserves_def)
  qed
  then show ?thesis by (simp add: preserves_def)
qed

lemma preserves_need [act_ok]: "preserves P (need r)"
  by (simp add: preserves_def need_def)

lemma preserves_ask [act_ok]: "preserves P (ask g)"
  by (simp add: preserves_def ask_def)

lemma preserves_reload [act_ok]: "preserves machine_ok (reload_then c x)"
  by (simp add: preserves_def reload_then_def reload_runtime_def machine_ok_def)

lemma preserves_write [act_ok]: "preserves machine_ok (write_config c)"
  by (simp add: preserves_def write_config_def guard_in_def machine_ok_def split: sum.splits)

lemma preserves_on_store:
  assumes "\<And>st. registry_ok st \<Longrightarrow> registry_ok (snd (g st))"
  shows "preserves machine_ok (on_store g)"
proof -
  have "machine_ok (snd (on_store g m))" if m: "machine_ok m" for m
  proof -
    have "registry_ok (snd (g (registry_of (m_pairing m))))" using assms m by (simp add: machine_ok_def)
    moreover have "enrollments_ok ((m_pairing m)\<lparr>registry_of := st\<rparr>)" for st
      using m enrollments_ok_cong [of "(m_pairing m)\<lparr>registry_of := st\<rparr>" "m_pairing m"] by (simp add: machine_ok_def)
    ultimately show ?thesis
      by (cases "g (registry_of (m_pairing m))") (simp add: on_store_def on_pairing_def machine_ok_def)
  qed
  then show ?thesis by (simp add: preserves_def)
qed

lemma import_ok: "registry_ok st \<Longrightarrow> registry_ok (snd (import_discovered_backend w host tp scheme bp t st))"
  using register_resource_ok [OF _ surjective_pairing]
  by (auto simp: import_discovered_backend_def guard_in_def Let_def split: sum.splits option.splits)

lemmas store_act_ok [act_ok] =
  preserves_on_store [OF create_group_ok [OF _ surjective_pairing]]
  preserves_on_store [OF remove_group_ok [OF _ surjective_pairing]]
  preserves_on_store [OF set_group_enabled_ok [OF _ surjective_pairing]]
  preserves_on_store [OF set_group_device_ok [OF _ surjective_pairing]]
  preserves_on_store [OF set_group_resource_ok [OF _ surjective_pairing]]
  preserves_on_store [OF set_override_ok [OF _ surjective_pairing]]
  preserves_on_store [OF rename_device_ok [OF _ surjective_pairing]]
  preserves_on_store [OF update_device_metadata_ok [OF _ surjective_pairing]]
  preserves_on_store [OF set_device_enabled_ok [OF _ surjective_pairing]]
  preserves_on_store [OF register_resource_ok [OF _ surjective_pairing]]
  preserves_on_store [OF update_resource_ok [OF _ surjective_pairing]]
  preserves_on_store [OF remove_resource_ok [OF _ surjective_pairing]]
  preserves_on_store [OF import_ok]

lemma handlers_ok [act_ok]:
  "preserves machine_ok (post_group_create c f)" "preserves machine_ok (post_group_device c f)"
  "preserves machine_ok (post_group_service c f)" "preserves machine_ok (post_group_toggle c f)"
  "preserves machine_ok (post_group_remove c f)" "preserves machine_ok (post_acl c f)"
  "preserves machine_ok (post_device_update c f)" "preserves machine_ok (post_device_toggle c f)"
  "preserves machine_ok (post_diagnostics e f)" "preserves machine_ok (post_discovery_import e f)"
  "preserves machine_ok (post_resource_add c f)" "preserves machine_ok (post_resource_update c f)"
  "preserves machine_ok (post_resource_remove msg c f)" "preserves machine_ok (post_service_add c f)"
  unfolding post_group_create_def post_group_device_def post_group_service_def post_group_toggle_def post_group_remove_def
    post_acl_def post_device_update_def post_device_toggle_def post_diagnostics_def post_discovery_import_def post_resource_add_def
    post_resource_update_def post_resource_remove_def post_service_add_def Let_def
  by (auto intro!: act_ok split: prod.splits)

definition fresh_nonce :: "cli_env \<Rightarrow> machine \<Rightarrow> bool" where
  \<comment> \<open>the random source gives an enrollment id that is not in use\<close>
  "fresh_nonce c m = (''enr_'' @ y_nonce c \<notin> enrollment_id ` set (load_enrollments (m_pairing m)))"

lemma need_then: "and_then (need r) f m = (case r of Inl err \<Rightarrow> (Inl err, m) | Inr x \<Rightarrow> f x m)"
  by (simp add: and_then_def need_def split: sum.splits)

lemma snd_then_read: "snd (and_then a (\<lambda>(r, tok). and_then (need (g r tok)) (\<lambda>p. need (h r tok p))) m) = snd (a m)"
  by (simp add: and_then_def need_def split: prod.splits sum.splits)

lemma device_add_ok:
  assumes "machine_ok m" and "fresh_nonce (dz_cli e) m"
  shows "machine_ok (snd (post_device_add e f m))"
proof -
  have c: "machine_ok (snd (on_pairing (create_enrollment (y_hmac_key (dz_cli e)) (y_now (dz_cli e)) (cli_env.y_token (dz_cli e))
      (y_nonce (dz_cli e)) a) m))" for a
  proof -
    obtain r ps where r: "create_enrollment (y_hmac_key (dz_cli e)) (y_now (dz_cli e)) (cli_env.y_token (dz_cli e))
        (y_nonce (dz_cli e)) a (m_pairing m) = (r, ps)" by fastforce
    then show ?thesis using create_enrollment_ok [OF _ r] assms by (simp add: machine_ok_def fresh_nonce_def on_pairing_def)
  qed
  show ?thesis using assms(1) c by (simp add: post_device_add_def Let_def need_then snd_then_read split: sum.splits)
qed

section \<open>The runtime follows what is saved\<close>

definition conf_ok :: "cli_env \<Rightarrow> machine \<Rightarrow> bool" where
  \<comment> \<open>\<open>wg0.conf\<close> is the one the registry gives\<close>
  "conf_ok c m = (\<exists>conf. m_conf m = Some conf
     \<and> render_wg_config (y_today c) (y_env c) (y_server_key c) (list_devices (registry_of (m_pairing m))) = Inr conf)"

lemma in_sync_conf: "in_sync c m \<longleftrightarrow> m_table m = serve_table (y_today c) (registry_of (m_pairing m)) \<and> conf_ok c m"
  by (simp add: in_sync_def conf_ok_def)

lemma achieves_and_then:
  "achieves P a Q \<Longrightarrow> (\<And>x. achieves Q (f x) R) \<Longrightarrow> achieves P (and_then a f) R"
  unfolding achieves_def and_then_def by (auto split: prod.splits sum.splits)

lemma achieves_weaken: "achieves P' a Q \<Longrightarrow> (\<And>m. P m \<Longrightarrow> P' m) \<Longrightarrow> achieves P a Q"
  by (auto simp: achieves_def)

lemma any_then: "(\<And>x. achieves (\<lambda>_. True) (f x) R) \<Longrightarrow> achieves P (and_then a f) R"
  by (rule achieves_and_then [where Q = "\<lambda>_. True"]) (simp_all add: achieves_def)

lemma reads_then:
  "(\<And>x. achieves P (f x) R) \<Longrightarrow> achieves P (and_then (need r) f) R"
  "(\<And>x. achieves P (f x) R) \<Longrightarrow> achieves P (and_then (ask g) f) R"
  by (simp_all add: achieves_def and_then_def need_def ask_def split: sum.splits)

lemma reads: "achieves P (need r) P"
  by (simp add: achieves_def need_def)

lemma reload_syncs: "achieves (conf_ok c) (reload_then c x) (in_sync c)"
  by (auto simp: achieves_def reload_then_def reload_runtime_def in_sync_def conf_ok_def)

lemma write_then_reload_syncs: "achieves P (and_then (write_config c) (\<lambda>_. reload_then c x)) (in_sync c)"
  by (auto simp: achieves_def and_then_def write_config_def guard_in_def reload_then_def reload_runtime_def in_sync_def split: sum.splits)

lemma store_then:
  assumes "\<And>st x st'. g st = (Inr x, st') \<Longrightarrow> list_devices st' = list_devices st"
    and "\<And>x. achieves (conf_ok c) (f x) R"
  shows "achieves (conf_ok c) (and_then (on_store g) f) R"
proof (rule achieves_and_then [OF _ assms(2)])
  show "achieves (conf_ok c) (on_store g) (conf_ok c)"
    using assms(1) by (fastforce simp: achieves_def on_store_def on_pairing_def conf_ok_def split: prod.splits)
qed

lemma command_devices:
  assumes "apply_command e c \<lparr>registry_of = st, ENROLLMENTS_FILE = None\<rparr> = (Inr (), \<lparr>registry_of = st', ENROLLMENTS_FILE = None\<rparr>)"
    and "\<not> renders c"
  shows "list_devices st' = list_devices st"
  using apply_devices [OF assms] by simp

lemma store_devices:
  "create_group n d st = (Inr x1, st') \<Longrightarrow> list_devices st' = list_devices st"
  "remove_group now n st = (Inr x2, st') \<Longrightarrow> list_devices st' = list_devices st"
  "set_group_enabled now n b st = (Inr x3, st') \<Longrightarrow> list_devices st' = list_devices st"
  "set_group_device now n d b st = (Inr x4, st') \<Longrightarrow> list_devices st' = list_devices st"
  "set_group_resource now n d b st = (Inr x5, st') \<Longrightarrow> list_devices st' = list_devices st"
  "set_device_access_override now n d dec st = (Inr x6, st') \<Longrightarrow> list_devices st' = list_devices st"
  "register_resource n bp a st = (Inr x7, st') \<Longrightarrow> list_devices st' = list_devices st"
  "update_resource n p st = (Inr x8, st') \<Longrightarrow> list_devices st' = list_devices st"
proof -
  let ?e = "demo_cli\<lparr>y_iso := now\<rparr>"
  show "create_group n d st = (Inr x1, st') \<Longrightarrow> list_devices st' = list_devices st"
    by (rule command_devices [of ?e "GroupCreate n d"]) (simp_all add: on_registry_def discard_result_def)
  show "set_group_enabled now n b st = (Inr x3, st') \<Longrightarrow> list_devices st' = list_devices st"
    by (rule command_devices [of ?e "GroupState n b"]) (simp_all add: on_registry_def discard_result_def)
  show "set_group_device now n d b st = (Inr x4, st') \<Longrightarrow> list_devices st' = list_devices st"
    by (rule command_devices [of ?e "GroupDevice n d b"]) (simp_all add: on_registry_def discard_result_def)
  show "set_group_resource now n d b st = (Inr x5, st') \<Longrightarrow> list_devices st' = list_devices st"
    by (rule command_devices [of ?e "GroupService n d b"]) (simp_all add: on_registry_def discard_result_def)
  show "set_device_access_override now n d dec st = (Inr x6, st') \<Longrightarrow> list_devices st' = list_devices st"
    by (rule command_devices [of ?e "ServiceOverride n d dec"]) (simp_all add: on_registry_def discard_result_def)
  show "update_resource n p st = (Inr x8, st') \<Longrightarrow> list_devices st' = list_devices st"
    by (rule command_devices [of ?e "ResourceUpdate n p"]) (simp_all add: on_registry_def discard_result_def)
  show "remove_group now n st = (Inr x2, st') \<Longrightarrow> list_devices st' = list_devices st"
    by (erule remove_group_inv) (auto dest: save_groups_lists(2))
  show "register_resource n bp a st = (Inr x7, st') \<Longrightarrow> list_devices st' = list_devices st"
    by (erule register_resource_inv) (auto simp: save_resources_Inr)
qed

lemma import_devices: "import_discovered_backend w host tp scheme bp t st = (Inr x, st') \<Longrightarrow> list_devices st' = list_devices st"
  by (auto simp: import_discovered_backend_def guard_in_def Let_def split: sum.splits option.splits if_splits dest: store_devices(7))

lemmas store_act_sync [act_sync] =
  store_then [OF store_devices(1)] store_then [OF store_devices(2)] store_then [OF store_devices(3)] store_then [OF store_devices(4)]
  store_then [OF store_devices(5)] store_then [OF store_devices(6)] store_then [OF store_devices(7)] store_then [OF store_devices(8)]
  store_then [OF remove_resource_devices] store_then [OF import_devices] reads_then reload_syncs

lemma handlers_sync:
  "achieves (conf_ok c) (post_group_create c f) (in_sync c)" "achieves (conf_ok c) (post_group_device c f) (in_sync c)"
  "achieves (conf_ok c) (post_group_service c f) (in_sync c)" "achieves (conf_ok c) (post_group_toggle c f) (in_sync c)"
  "achieves (conf_ok c) (post_group_remove c f) (in_sync c)" "achieves (conf_ok (dz_cli e)) (post_discovery_import e f) (in_sync (dz_cli e))"
  "achieves (conf_ok c) (post_resource_add c f) (in_sync c)" "achieves (conf_ok c) (post_resource_update c f) (in_sync c)"
  "achieves (conf_ok c) (post_resource_remove msg c f) (in_sync c)" "achieves (conf_ok c) (post_service_add c f) (in_sync c)"
  unfolding post_group_create_def post_group_device_def post_group_service_def post_group_toggle_def post_group_remove_def
    post_discovery_import_def post_resource_add_def post_resource_update_def post_resource_remove_def post_service_add_def Let_def
  by (intro act_sync; assumption)+

lemma acl_sync: "achieves (conf_ok c) (post_acl c f) (in_sync c)"
  unfolding post_acl_def Let_def
  by (intro store_then [OF store_devices(6)] achieves_and_then [OF reload_syncs] reads_then(2) reads; assumption)

lemma device_forms_sync:
  "achieves P (post_device_update c f) (in_sync c)" "achieves P (post_device_toggle c f) (in_sync c)"
  unfolding post_device_update_def post_device_toggle_def Let_def by (intro any_then write_then_reload_syncs)+

lemma reading_forms_sync:
  "achieves P (post_diagnostics e f) P" "achieves (in_sync c) (post_device_add e f) (in_sync c)"
proof -
  show "achieves P (post_diagnostics e f) P"
    unfolding post_diagnostics_def Let_def by (rule reads_then, clarsimp split: prod.splits, intro allI reads_then reads)
  have "achieves (in_sync c) (on_pairing (create_enrollment k n t y a)) (in_sync c)" for k n t y a
    by (auto simp: achieves_def on_pairing_def in_sync_def split: prod.splits elim!: create_enrollment_inv)
  then show "achieves (in_sync c) (post_device_add e f) (in_sync c)"
    unfolding post_device_add_def Let_def
    by (intro reads_then) (rule achieves_and_then, assumption, clarsimp split: prod.splits, intro allI reads_then reads)
qed

lemma post_routes_sync:
  assumes "(path, act) \<in> set (post_routes e f)"
  shows "achieves (in_sync (dz_cli e)) act (in_sync (dz_cli e))"
proof -
  have w: "in_sync (dz_cli e) m \<Longrightarrow> conf_ok (dz_cli e) m" for m by (simp add: in_sync_conf)
  show ?thesis using assms unfolding post_routes_def Let_def
    by (auto intro: achieves_weaken [OF handlers_sync(1) w] achieves_weaken [OF handlers_sync(2) w] achieves_weaken [OF handlers_sync(3) w]
      achieves_weaken [OF handlers_sync(4) w] achieves_weaken [OF handlers_sync(5) w] achieves_weaken [OF handlers_sync(6) w]
      achieves_weaken [OF handlers_sync(7) w] achieves_weaken [OF handlers_sync(8) w] achieves_weaken [OF handlers_sync(9) w]
      achieves_weaken [OF handlers_sync(10) w] achieves_weaken [OF acl_sync w] device_forms_sync reading_forms_sync)
qed

section \<open>Forms need the token\<close>

definition presents_token :: "dash_env \<Rightarrow> http_request \<Rightarrow> bool" where
  "presents_token e req = (panel_token e \<noteq> []
     \<and> (starts_with ''Bearer '' (hq_auth req) \<and> py_strip (drop 7 (hq_auth req)) = panel_token e
        \<or> cookie_token e (hq_cookie req) = panel_token e))"

lemma valid_token_Inr: "valid_token e t = Inr True \<Longrightarrow> t = panel_token e \<and> t \<noteq> []"
  by (auto simp: valid_token_def Let_def compare_digest_def split: if_splits)

lemma authenticated_presents: "authenticated e req = Inr True \<Longrightarrow> presents_token e req"
  by (auto simp: authenticated_def presents_token_def res_simps split: if_splits dest: valid_token_Inr)

definition login_answer :: "dash_env \<Rightarrow> dash_answer \<Rightarrow> bool" where
  \<comment> \<open>the answers of \<open>/login\<close>: the cookie is only set for somebody who knows the token\<close>
  "login_answer e a = (a = Page 401 (LoginPage []) \<or> a = Page 401 (LoginPage ''Token non valido.'')
     \<or> panel_token e \<noteq> [] \<and> a = Redirect ''/'' (Some (''ge360_admin='' @ panel_token e @ ''; Path=/; HttpOnly; SameSite=Strict'')))"

lemma post_login_cases: "snd (post_login e req m) = m \<and> (fst (post_login e req m) = Inr a \<longrightarrow> login_answer e a)"
  by (auto simp: post_login_def need_def login_answer_def Let_def res_simps split: if_splits dest: valid_token_Inr)

lemma get_dashboard_cases:
  assumes "do_GET_dashboard e st req = Inr a"
  obtains "a = Plain 200 ''ok''" | "a = Redirect ''/'' (Some ''ge360_admin=; Path=/; Max-Age=0; HttpOnly; SameSite=Strict'')"
    | "a = Page 401 (LoginPage [])" | "authenticated e req = Inr True"
  using assms by (auto simp: do_GET_dashboard_def res_simps split: if_splits)

lemma post_dashboard_cases:
  obtains (raised) err where "do_POST_dashboard e req m = (Inl err, m)"
    | (login) "do_POST_dashboard e req m = post_login e req m"
    | (refused) "do_POST_dashboard e req m = (Inr (Page 401 (LoginPage [])), m)"
    | (unknown) "authenticated e req = Inr True" "do_POST_dashboard e req m = (Inr (Plain 404 ''Not found''), m)"
    | (handled) f path act where "authenticated e req = Inr True" "(path, act) \<in> set (post_routes e f)"
        "do_POST_dashboard e req m = catching act m"
proof (cases "url_path (hq_target req)")
  case (Inl err)
  then show ?thesis using raised by (simp add: do_POST_dashboard_def need_then)
next
  case (Inr path)
  note p = Inr
  show ?thesis
  proof (cases "path = ''/login''")
    case True
    then show ?thesis using login p by (simp add: do_POST_dashboard_def need_then)
  next
    case False
    show ?thesis
    proof (cases "authenticated e req")
      case (Inl err)
      then show ?thesis using raised p False by (simp add: do_POST_dashboard_def need_then)
    next
      case (Inr ok)
      note a = Inr
      show ?thesis
      proof (cases "ok \<and> is_ok (read_form req)")
        case True
        then obtain f where f: "read_form req = Inr f" by (auto simp: is_ok_def split: sum.splits)
        show ?thesis
          using handled [of path _ f] unknown p a False True f map_of_SomeD [of "post_routes e f" path]
          by (cases "map_of (post_routes e f) path") (simp_all add: do_POST_dashboard_def need_then, simp add: need_def)
      next
        case no: False
        then show ?thesis using raised refused p a False
          by (cases ok; cases "read_form req") (simp_all add: do_POST_dashboard_def need_then is_ok_def, simp_all add: need_def)
      qed
    qed
  qed
qed

text \<open>
  C10. The dashboard is closed without its token. A request that presents the token of the token file
  neither as a bearer token nor in its cookie changes nothing on the machine, whatever it asks for,
  and gets the login page, the health text, a logout or an exception; the session cookie is only set
  for a form that holds the token. With an empty or missing token file nobody gets in.
\<close>

theorem dashboard_needs_token:
  assumes "\<not> presents_token e req"
  shows "snd (do_POST_dashboard e req m) = m
    \<and> (\<forall>a. fst (do_POST_dashboard e req m) = Inr a \<longrightarrow> login_answer e a)
    \<and> (\<forall>a. do_GET_dashboard e st req = Inr a \<longrightarrow>
        a \<in> {Plain 200 ''ok'', Redirect ''/'' (Some ''ge360_admin=; Path=/; Max-Age=0; HttpOnly; SameSite=Strict''), Page 401 (LoginPage [])})"
proof -
  have na: "authenticated e req \<noteq> Inr True" using assms authenticated_presents by blast
  have "snd (do_POST_dashboard e req m) = m \<and> (fst (do_POST_dashboard e req m) = Inr a \<longrightarrow> login_answer e a)" for a
    by (cases rule: post_dashboard_cases [of e req m]) (use na post_login_cases in \<open>auto simp: login_answer_def\<close>)
  moreover have "a \<in> {Plain 200 ''ok'', Redirect ''/'' (Some ''ge360_admin=; Path=/; Max-Age=0; HttpOnly; SameSite=Strict''), Page 401 (LoginPage [])}"
    if "do_GET_dashboard e st req = Inr a" for a
    using that by (cases rule: get_dashboard_cases) (use na in auto)
  ultimately show ?thesis by blast
qed

definition demo_form :: form where
  "demo_form = [(''device_id'', [''phone'']), (''enabled'', [''0''])]"

definition demo_post :: "string \<Rightarrow> string \<Rightarrow> form \<Rightarrow> http_request" where
  "demo_post target auth f = \<lparr>hq_target = target, hq_auth = auth, hq_cookie = None, hq_query = [], hq_length = Some ''30'', hq_form = (\<lambda>n. f)\<rparr>"

definition demo_dash :: dash_env where
  "demo_dash = \<lparr>dz_cli = demo_cli, dz_token_file = Some ''s3cret'', dz_cookie = (\<lambda>_. None), dz_saved = (\<lambda>_. None), dz_metrics = demo_metrics,
     dz_clock = 1000, dz_bridge_env = None, dz_cert = None, dz_server_pub = None,
     dz_relay = \<lparr>l_enabled = False, l_configured = False, l_url = [], l_fingerprint = []\<rparr>,
     dz_web = demo_web, dz_diag = demo_diag_env, dz_doctor = demo_doctor_env, dz_probe = (\<lambda>r. demo_probe)\<rparr>"

theorem dashboard_needs_token_witness:
  "do_POST_dashboard demo_dash (demo_post ''/device/toggle'' ''Bearer guess'' demo_form) demo_machine
     = (Inr (Page 401 (LoginPage [])), demo_machine)
   \<and> m_table (snd (do_POST_dashboard demo_dash (demo_post ''/device/toggle'' ''Bearer s3cret'' demo_form) demo_machine))
       \<noteq> m_table (snd (do_POST_dashboard demo_dash (demo_post ''/device/toggle'' ''Bearer guess'' demo_form) demo_machine))"
proof -
  let ?r = "demo_post ''/device/toggle'' ''Bearer guess'' demo_form"
  have n: "\<not> presents_token demo_dash ?r" by code_simp
  have 1: "snd (do_POST_dashboard demo_dash ?r demo_machine) = demo_machine"
    using dashboard_needs_token [OF n] by blast
  have 2: "fst (do_POST_dashboard demo_dash ?r demo_machine) = Inr (Page 401 (LoginPage []))" by code_simp
  have 3: "m_table (snd (do_POST_dashboard demo_dash (demo_post ''/device/toggle'' ''Bearer s3cret'' demo_form) demo_machine)) \<noteq> []"
    by code_simp
  have 4: "m_table demo_machine = []" by (simp add: demo_machine_def)
  show ?thesis using 1 2 3 4 by (metis prod.collapse)
qed

section \<open>What the forms promise\<close>

lemma catching_snd [simp]: "snd (catching a m) = snd (a m)"
  by (cases "a m"; cases "fst (a m)"; cases "projl (fst (a m))") (auto simp: catching_def)

lemma catching_Inr: "catching a m = (Inr x, m') \<Longrightarrow> a m = (Inr x, m') \<or> (\<exists>t. x = Page 400 (DashboardPage t))"
  by (cases "a m"; cases "fst (a m)"; cases "projl (fst (a m))") (auto simp: catching_def)

lemma post_routes_ok:
  assumes "(path, act) \<in> set (post_routes e f)" and "machine_ok m" and "fresh_nonce (dz_cli e) m"
  shows "machine_ok (snd (act m))"
proof -
  have h: "machine_ok (snd (a m))" if "preserves machine_ok a" for a :: "dash_answer act"
    using that assms(2) by (simp add: preserves_def)
  show ?thesis using assms(1) h [OF handlers_ok(1)] h [OF handlers_ok(2)] h [OF handlers_ok(3)] h [OF handlers_ok(4)] h [OF handlers_ok(5)]
      h [OF handlers_ok(6)] h [OF handlers_ok(7)] h [OF handlers_ok(8)] h [OF handlers_ok(9)] h [OF handlers_ok(10)] h [OF handlers_ok(11)]
      h [OF handlers_ok(12)] h [OF handlers_ok(13)] h [OF handlers_ok(14)] device_add_ok [OF assms(2,3)]
    unfolding post_routes_def Let_def by auto
qed

text \<open>
  C12. Whatever is sent to the dashboard, by whomever, and whether it succeeds, is refused or raises, the
  registry and the enrollments stay consistent: keys, names, ports and VPN addresses unique, groups
  and overrides naming only what exists.
\<close>

theorem dashboard_keeps_registry_consistent:
  assumes "machine_ok m" and "fresh_nonce (dz_cli e) m"
  shows "machine_ok (snd (do_POST_dashboard e req m))"
proof (cases rule: post_dashboard_cases [of e req m])
  case (handled f path act)
  then show ?thesis using post_routes_ok [OF _ assms] by simp
qed (use assms(1) post_login_cases [of e req m] in simp_all)

theorem dashboard_keeps_registry_consistent_witness:
  "machine_ok (snd (do_POST_dashboard demo_dash (demo_post ''/device/toggle'' ''Bearer s3cret'' demo_form) demo_machine))
   \<and> fst (do_POST_dashboard demo_dash (demo_post ''/device/toggle'' ''Bearer s3cret'' demo_form) demo_machine)
       = Inr (Redirect ''/device/phone'' None)"
proof -
  have r: "registry_ok (registry_of (m_pairing demo_machine))" using demo_store_ok by (simp add: demo_machine_def)
  have "machine_ok demo_machine" unfolding machine_ok_def using r
    by (simp add: enrollments_ok_def load_enrollments_def load_file_def pending_names_def demo_machine_def)
  moreover have "fresh_nonce (dz_cli demo_dash) demo_machine" by code_simp
  moreover have "fst (do_POST_dashboard demo_dash (demo_post ''/device/toggle'' ''Bearer s3cret'' demo_form) demo_machine)
      = Inr (Redirect ''/device/phone'' None)" by code_simp
  ultimately show ?thesis using dashboard_keeps_registry_consistent by blast
qed



section \<open>Where a form stops half way\<close>

lemma half_applied_update:
  \<comment> \<open>the device is renamed before the rest of the form is checked: an error answer, and a configuration that is not rewritten\<close>
  "let q = do_POST_dashboard demo_dash (demo_post ''/device/update'' ''Bearer s3cret''
       [(''device_id'', [''dev_1'']), (''name'', [''tablet'']), (''expires_at'', [''soon''])]) demo_machine in
     fst q = Inr (Page 400 (DashboardPage ''Scadenza non valida: usa YYYY-MM-DD.''))
     \<and> map d_name (list_devices (registry_of (m_pairing (snd q)))) = [''tablet'', ''laptop''] \<and> m_conf (snd q) = m_conf demo_machine"
  by code_simp

lemma unknown_device_toggled:
  \<comment> \<open>a device that does not exist is answered as if it had been changed\<close>
  "fst (do_POST_dashboard demo_dash (demo_post ''/device/toggle'' ''Bearer s3cret'' [(''device_id'', [''nobody''])]) demo_machine)
     = Inr (Redirect ''/device/nobody'' None)"
  by code_simp

lemma missing_certificate_leaves_enrollment:
  \<comment> \<open>the invitation cannot be built, but the enrollment is stored, and its token is lost\<close>
  assumes "dz_cert e = None" and "public_enrollment_url (load_bridge_env (dz_bridge_env e)) = Inr u"
    and "parse_tags_csv (first_of f ''tags'' []) = Inr tg" and "form_int f ''ttl'' ''600'' = Inr ttl"
    and "create_enrollment (y_hmac_key (dz_cli e)) (y_now (dz_cli e)) (cli_env.y_token (dz_cli e)) (y_nonce (dz_cli e))
       \<lparr>q_name = py_strip (first_of f ''name'' []), q_device_type = first_of f ''device_type'' ''unknown'', q_owner = first_of f ''owner'' [],
        q_expires_at = opt_of (first_of f ''expires_at'' []), q_notes = [], q_tags = tg, q_groups = values_of f ''group'', q_ttl = ttl\<rparr>
       (m_pairing m) = (Inr (r, tok), ps)"
  shows "catching (post_device_add e f) m
    = (Inr (Page 400 (DashboardPage ''Certificato TLS pairing mancante o non valido.'')), m\<lparr>m_pairing := ps\<rparr>)"
  using assms by (simp add: catching_def post_device_add_def Let_def need_then and_then_def on_pairing_def need_def invitation_payload_def)

end
