(* ===== verification/Agent.thy ===== *)
theory Agent
  imports Discovery Metrics
begin

text \<open>
  The device agent (\<open>agent.py\<close>): what it reads of its host, the snapshot with its cache, and the
  read-only HTTP interface with its token. The files below \<open>/proc\<close> and \<open>/etc\<close>, the output of
  \<open>ip -j\<close>, the load, the disk and the clocks are inputs. The copy through JSON of a snapshot is the
  snapshot; the TLS socket and the command line are not modelled.
\<close>

section \<open>The host\<close>

definition quote_strip :: "string \<Rightarrow> string" where
  \<comment> \<open>\<open>value.strip().strip(QUOTE).strip(APOSTROPHE)\<close>\<close>
  "quote_strip v = strip_by (\<lambda>c. ord_of c = 39) (strip_by (\<lambda>c. ord_of c = 34) (py_strip v))"

definition parse_os_release :: "string \<Rightarrow> (string \<times> string) list" where
  \<comment> \<open>the newest binding of a key comes first; the text is empty when the file cannot be read\<close>
  "parse_os_release text = rev (map (\<lambda>line. case partition_at (CHR ''='') line of (k, _, v) \<Rightarrow> (k, quote_strip v))
     (filter (\<lambda>line. \<not> (line = [] \<or> starts_with ''#'' line \<or> CHR ''='' \<notin> set line)) (map py_strip (py_splitlines text))))"

definition meminfo_value :: "string list \<Rightarrow> int option" where
  "meminfo_value parts = (case parts of [] \<Rightarrow> None
     | p # ps \<Rightarrow> map_option (\<lambda>v. if ps \<noteq> [] \<and> py_lower (hd ps) = ''kb'' then v * 1024 else v) (py_int p))"

definition meminfo_values :: "string \<Rightarrow> (string \<times> int) list" where
  "meminfo_values text = rev (List.map_filter (\<lambda>raw. if CHR '':'' \<notin> set raw then None
     else (case partition_at (CHR '':'') raw of (k, _, r) \<Rightarrow> map_option (Pair k) (meminfo_value (py_split (py_strip r)))))
     (py_splitlines text))"

record memory =
  me_total :: "int option"
  me_available :: "int option"
  me_used :: "int option"
  me_swap_total :: "int option"
  me_swap_free :: "int option"

definition memory_metrics :: "string \<Rightarrow> memory" where
  "memory_metrics text = (let values = map_of (meminfo_values text); tot = values ''MemTotal''; avail = values ''MemAvailable'' in
     \<lparr>me_total = tot, me_available = avail,
      me_used = (case (tot, avail) of (Some t, Some a) \<Rightarrow> Some (max 0 (t - a)) | _ \<Rightarrow> None),
      me_swap_total = values ''SwapTotal'', me_swap_free = values ''SwapFree''\<rparr>)"

definition interface_counters :: "string \<Rightarrow> (string \<times> int \<times> int) option" where
  \<comment> \<open>one line of \<open>/proc/net/dev\<close>\<close>
  "interface_counters raw = (if CHR '':'' \<notin> set raw then None
     else (case partition_at (CHR '':'') raw of (name, _, data) \<Rightarrow>
       let interface = py_strip name; fields = py_split data in
       if length fields < 16 \<or> interface = ''lo'' then None
       else (case (py_int (fields ! 0), py_int (fields ! 8)) of
           (Some rx, Some tx) \<Rightarrow> Some (interface, max 0 rx, max 0 tx) | _ \<Rightarrow> None)))"

record network =
  ne_rx :: int
  ne_tx :: int
  ne_interfaces :: "(string \<times> int \<times> int) list"

definition network_metrics :: "string \<Rightarrow> network" where
  "network_metrics text = (let rows = List.map_filter interface_counters (drop 2 (py_splitlines text)) in
     \<lparr>ne_rx = sum_list (map (\<lambda>(n, rx, tx). rx) rows), ne_tx = sum_list (map (\<lambda>(n, rx, tx). tx) rows),
      ne_interfaces = sort_key fst rows\<rparr>)"

definition disk_metrics :: "(int \<times> int \<times> int) option \<Rightarrow> int \<times> int \<times> int" where
  "disk_metrics usage = (case usage of None \<Rightarrow> (0, 0, 0) | Some u \<Rightarrow> u)"

definition load_metrics :: "(rat \<times> rat \<times> rat) option \<Rightarrow> (rat \<times> rat \<times> rat) option" where
  "load_metrics avg = map_option (\<lambda>(a, b, c). (py_round 3 a, py_round 3 b, py_round 3 c)) avg"

record address =
  ad_interface :: string
  ad_family :: string
  ad_address :: string
  ad_prefix :: json
  ad_scope :: json

definition address_of :: "(json \<Rightarrow> string) \<Rightarrow> string \<Rightarrow> (string \<times> json) list \<Rightarrow> address option" where
  "address_of show_json ifname info = (let family = text_or show_json (obj_get info ''family'') [];
       local = text_or show_json (obj_get info ''local'') [] in
     if family \<notin> {''inet'', ''inet6''} \<or> local = [] then None
     else (case ip_address local of None \<Rightarrow> None
       | Some ip \<Rightarrow> if is_loopback ip then None
           else Some \<lparr>ad_interface = ifname, ad_family = family, ad_address = local, ad_prefix = obj_get info ''prefixlen'',
             ad_scope = obj_get info ''scope''\<rparr>))"

definition agent_object :: "json \<Rightarrow> (string \<times> json) list res" where
  \<comment> \<open>what \<open>value.get\<close> needs\<close>
  "agent_object j = (case j of JObj kvs \<Rightarrow> Inr kvs | _ \<Rightarrow> Inl AttributeError)"

definition agent_items :: "json \<Rightarrow> json list res" where
  \<comment> \<open>\<open>for x in value or []\<close>\<close>
  "agent_items j = (if \<not> truthy j then Inr [] else (case j of
       JList xs \<Rightarrow> Inr xs
     | JStr s \<Rightarrow> Inr (map (\<lambda>c. JStr [c]) s)
     | JObj kvs \<Rightarrow> Inr (map (\<lambda>kv. JStr (fst kv)) kvs)
     | _ \<Rightarrow> Inl TypeError))"

definition interface_addresses :: "(json \<Rightarrow> string) \<Rightarrow> json \<Rightarrow> address list res" where
  "interface_addresses show_json iface = rbind (agent_object iface) (\<lambda>obj.
     let ifname = text_or show_json (obj_get obj ''ifname'') [] in
     if ifname = ''lo'' then Inr []
     else rbind (agent_items (obj_get obj ''addr_info'')) (\<lambda>infos.
       rbind (rmap agent_object infos) (\<lambda>objs. Inr (List.map_filter (address_of show_json ifname) objs))))"

definition ip_addresses :: "(json \<Rightarrow> string) \<Rightarrow> (string \<Rightarrow> json option) \<Rightarrow> (int \<times> string) option \<Rightarrow> address list res" where
  \<comment> \<open>code and output of \<open>ip -j address show\<close>, none when it cannot run\<close>
  "ip_addresses show_json loads proc = (case proc of None \<Rightarrow> Inr []
     | Some (code, out) \<Rightarrow> if code \<noteq> 0 then Inr []
         else (case loads out of
             Some (JList rows) \<Rightarrow> rbind (rmap (interface_addresses show_json) rows) (\<lambda>lists.
               Inr (sort_key (\<lambda>a. (ad_interface a, ad_family a, ad_address a)) (concat lists)))
           | _ \<Rightarrow> Inr []))"

record host_inputs =
  hi_os_release :: string
  hi_platform :: string
  hi_hostname :: string
  hi_kernel :: string
  hi_machine :: string
  hi_uptime :: "string option"
  hi_meminfo :: string
  hi_netdev :: string
  hi_disk :: "(int \<times> int \<times> int) option"
  hi_load :: "(rat \<times> rat \<times> rat) option"
  hi_cpus :: "int option"
  hi_ip :: "(int \<times> string) option"
  hi_loads :: "string \<Rightarrow> json option"
  hi_show :: "json \<Rightarrow> string"

record host_report =
  hr_hostname :: string
  hr_os :: string
  hr_os_id :: string
  hr_os_version :: string
  hr_kernel :: string
  hr_machine :: string
  hr_uptime :: "pyfloat option"

definition host_status :: "host_inputs \<Rightarrow> host_report" where
  "host_status h = (let os = map_of (parse_os_release (hi_os_release h)) in
     \<lparr>hr_hostname = hi_hostname h, hr_os = str_or (opt_str (os ''PRETTY_NAME'')) (hi_platform h), hr_os_id = opt_str (os ''ID''),
      hr_os_version = opt_str (os ''VERSION_ID''), hr_kernel = hi_kernel h, hr_machine = hi_machine h,
      hr_uptime = system_uptime_seconds (hi_uptime h)\<rparr>)"

record host_figures =
  hf_cpus :: "int option"
  hf_load :: "(rat \<times> rat \<times> rat) option"
  hf_memory :: memory
  hf_disk :: "int \<times> int \<times> int"
  hf_network :: network
  hf_uptime :: "pyfloat option"

definition host_metrics :: "host_inputs \<Rightarrow> host_figures" where
  "host_metrics h = \<lparr>hf_cpus = hi_cpus h, hf_load = load_metrics (hi_load h), hf_memory = memory_metrics (hi_meminfo h),
     hf_disk = disk_metrics (hi_disk h), hf_network = network_metrics (hi_netdev h), hf_uptime = system_uptime_seconds (hi_uptime h)\<rparr>"

section \<open>The snapshot\<close>

record agent_resource =
  ar_name :: string
  ar_display :: string
  ar_version :: string
  ar_icon :: string
  ar_description :: string
  ar_protocol :: string
  ar_host :: string
  ar_port :: int
  ar_health_url :: string

definition resource_from_proposal :: "proposal \<Rightarrow> agent_resource" where
  "resource_from_proposal p = (let m = pp_manifest p in
     \<lparr>ar_name = pp_name p, ar_display = mf_name m, ar_version = mf_version m, ar_icon = mf_icon m, ar_description = mf_description m,
      ar_protocol = pp_protocol p, ar_host = pp_host p, ar_port = pp_port p, ar_health_url = mf_health m\<rparr>)"

definition checked_resource :: "agent_resource \<Rightarrow> resource" where
  \<comment> \<open>what the health engine reads of the dictionary: enabled, with a timeout of two seconds\<close>
  "checked_resource a = \<lparr>r_name = ar_name a, bridge_port = 0, listen_port = 0, target_host = ar_host a, target_port = ar_port a,
     allowed_devices = [], icon = ar_icon a, r_description = ar_description a, protocol = ar_protocol a, health_url = ar_health_url a,
     timeout_seconds = Fin 2, systemd_unit = [], self_heal_enabled = False, denied_devices = [], r_enabled = True\<rparr>"

record agent_env =
  ag_now :: rat  \<comment> \<open>the monotonic clock\<close>
  ag_time :: string
  ag_web :: web
  ag_store :: store
  ag_proc_net :: "string option"
  ag_timeout :: num_arg
  ag_order :: "int list \<Rightarrow> int list"
  ag_checks :: "resource list \<Rightarrow> (resource \<times> health) list"  \<comment> \<open>the finished health checks, in their order\<close>
  ag_host :: host_inputs

definition local_resources :: "agent_env \<Rightarrow> agent_resource list res" where
  "local_resources e = rbind (discover_backends (ag_web e) (ag_store e) (ag_proc_net e) None ''127.0.0.1'' ''http'' (ag_timeout e) (ag_order e))
     (\<lambda>report. Inr (map resource_from_proposal (dr_proposals report)))"

record agent_snapshot =
  sn_host :: host_report
  sn_addresses :: "address list"
  sn_resources :: "(agent_resource \<times> string \<times> rat option) list"  \<comment> \<open>with the health state and the latency\<close>
  sn_error :: "string option"
  sn_health :: "health list"
  sn_metrics :: host_figures
  sn_time :: string

type_synonym agent_cache = "(rat \<times> agent_snapshot) option"

definition SNAPSHOT_CACHE_SECONDS :: rat where "SNAPSHOT_CACHE_SECONDS = 5"

definition fresh_snapshot :: "agent_env \<Rightarrow> agent_snapshot res" where
  "fresh_snapshot e =
     rbind (case local_resources e of Inl (BridgeError t) \<Rightarrow> Inr ([], Some t) | Inl err \<Rightarrow> Inl err | Inr rs \<Rightarrow> Inr (rs, None)) (\<lambda>(rs, err).
     let hs = check_resources (map checked_resource rs) (ag_checks e (map checked_resource rs));
         by_name = map_of (rev (map (\<lambda>h. (h_name h, h)) hs)) in
     rbind (ip_addresses (hi_show (ag_host e)) (hi_loads (ag_host e)) (hi_ip (ag_host e))) (\<lambda>addrs.
     Inr \<lparr>sn_host = host_status (ag_host e), sn_addresses = addrs,
          sn_resources = map (\<lambda>r. (r, case by_name (ar_name r) of None \<Rightarrow> (''OFFLINE'', None) | Some h \<Rightarrow> (h_state h, h_latency h))) rs,
          sn_error = err, sn_health = hs, sn_metrics = host_metrics (ag_host e), sn_time = ag_time e\<rparr>))"

definition build_snapshot :: "bool \<Rightarrow> agent_env \<Rightarrow> agent_cache \<Rightarrow> agent_snapshot res \<times> agent_cache" where
  "build_snapshot use_cache e cache = (case (if use_cache then cache else None) of
       Some (t, s) \<Rightarrow> if ag_now e - t \<le> SNAPSHOT_CACHE_SECONDS then (Inr s, cache)
         else guard_in cache (fresh_snapshot e) (\<lambda>s. (Inr s, Some (ag_now e, s)))
     | None \<Rightarrow> guard_in cache (fresh_snapshot e) (\<lambda>s. (Inr s, Some (ag_now e, s))))"

section \<open>The interface\<close>

definition load_agent_token :: "string option \<Rightarrow> string res" where
  "load_agent_token file = (case file of None \<Rightarrow> Inl (BridgeError ''Token Agent non leggibile'')
     | Some text \<Rightarrow> (let tok = py_strip text in
         if length tok < 32 \<or> list_ex py_isspace tok
         then Inl (BridgeError ''Token Agent non valido: deve contenere almeno 32 caratteri senza spazi.'') else Inr tok))"

definition validate_bind :: "string \<Rightarrow> string res" where
  "validate_bind value = (let bind = py_strip value in
     if bind = ''localhost'' then Inr bind
     else (case ip_address bind of None \<Rightarrow> Inl (BridgeError ''Bind Agent non valido: usa localhost o un indirizzo IP letterale.'')
       | Some _ \<Rightarrow> Inr bind))"

datatype agent_answer =
    AgentHealthz | AgentManifest | AgentNotFound | AgentUnauthorized
  | AgentStatus host_report "address list" nat "string option" string
  | AgentResources "(agent_resource \<times> string \<times> rat option) list" "string option" string
  | AgentHealth "health list" string
  | AgentMetrics host_figures string

definition agent_authorized :: "string \<Rightarrow> string \<Rightarrow> bool res" where
  "agent_authorized tok auth = (if \<not> starts_with ''Bearer '' auth then Inr False
     else (let candidate = py_strip (drop 7 auth) in if candidate = [] then Inr False else compare_digest candidate tok))"

definition agent_body :: "string \<Rightarrow> agent_snapshot \<Rightarrow> agent_answer" where
  "agent_body path s =
     (if path = ''/v1/status'' then AgentStatus (sn_host s) (sn_addresses s) (length (sn_resources s)) (sn_error s) (sn_time s)
      else if path = ''/v1/resources'' then AgentResources (sn_resources s) (sn_error s) (sn_time s)
      else if path = ''/v1/health'' then AgentHealth (sn_health s) (sn_time s)
      else AgentMetrics (sn_metrics s) (sn_time s))"

definition agent_GET :: "string \<Rightarrow> agent_env \<Rightarrow> string \<Rightarrow> string \<Rightarrow> agent_cache \<Rightarrow> agent_answer res \<times> agent_cache" where
  \<comment> \<open>the token of the server, the world at the time of the request, its target and its \<open>Authorization\<close> header\<close>
  "agent_GET tok e target auth cache = (let path = takeWhile (\<lambda>c. c \<noteq> CHR ''?'') target in
     if path = ''/healthz'' then (Inr AgentHealthz, cache)
     else if path = ''/.well-known/ge360-agent'' then (Inr AgentManifest, cache)
     else if path \<notin> {''/v1/status'', ''/v1/resources'', ''/v1/health'', ''/v1/metrics''} then (Inr AgentNotFound, cache)
     else guard_in cache (agent_authorized tok auth) (\<lambda>ok.
       if \<not> ok then (Inr AgentUnauthorized, cache)
       else (case build_snapshot True e cache of
           (Inl err, cache') \<Rightarrow> (Inl err, cache') | (Inr s, cache') \<Rightarrow> (Inr (agent_body path s), cache'))))"

section \<open>What the host figures say\<close>

lemma network_totals:
  "ne_rx (network_metrics text) = sum_list (map (\<lambda>(n, rx, tx). rx) (ne_interfaces (network_metrics text)))
   \<and> ne_tx (network_metrics text) = sum_list (map (\<lambda>(n, rx, tx). tx) (ne_interfaces (network_metrics text)))
   \<and> sorted (map fst (ne_interfaces (network_metrics text)))
   \<and> (\<forall>(n, rx, tx)\<in>set (ne_interfaces (network_metrics text)). n \<noteq> ''lo'' \<and> 0 \<le> rx \<and> 0 \<le> tx)"
proof -
  have "n \<noteq> ''lo'' \<and> 0 \<le> rx \<and> 0 \<le> tx" if "interface_counters raw = Some (n, rx, tx)" for raw n rx tx
    using that by (auto simp: interface_counters_def Let_def split: if_splits prod.splits option.splits)
  then show ?thesis by (auto simp: network_metrics_def Let_def sort_key_sum map_filter_def)
qed

lemma memory_used_bounds: "me_used (memory_metrics text) = Some u \<Longrightarrow> 0 \<le> u \<and>
    (\<forall>t a. me_total (memory_metrics text) = Some t \<longrightarrow> me_available (memory_metrics text) = Some a \<longrightarrow> a \<le> t \<longrightarrow> u + a = t)"
  by (auto simp: memory_metrics_def Let_def split: option.splits)

section \<open>Who gets what, and how old it is\<close>

type_synonym agent_request = "agent_env \<times> string \<times> string"  \<comment> \<open>with its target and its \<open>Authorization\<close> header\<close>

fun serve_agent :: "string \<Rightarrow> agent_request \<Rightarrow> agent_cache \<Rightarrow> agent_cache" where
  "serve_agent tok (e, target, auth) cache = snd (agent_GET tok e target auth cache)"

definition cache_backed :: "agent_env set \<Rightarrow> agent_cache \<Rightarrow> bool" where
  \<comment> \<open>what the cache holds is the snapshot of one of the requests\<close>
  "cache_backed es cache = (\<forall>t s. cache = Some (t, s) \<longrightarrow> (\<exists>e\<in>es. ag_now e = t \<and> fresh_snapshot e = Inr s))"

definition open_answer :: "agent_answer res \<Rightarrow> bool" where
  "open_answer r = (r \<in> {Inr AgentHealthz, Inr AgentManifest, Inr AgentNotFound, Inr AgentUnauthorized, Inl TypeError})"

lemma build_snapshot_backed:
  assumes "cache_backed es cache" and "build_snapshot True e cache = (r, cache')"
  shows "cache_backed (insert e es) cache'
    \<and> (\<forall>s. r = Inr s \<longrightarrow> (\<exists>e'\<in>insert e es. fresh_snapshot e' = Inr s \<and> ag_now e - ag_now e' \<le> 5))"
proof (cases "\<exists>t s. cache = Some (t, s) \<and> ag_now e - t \<le> SNAPSHOT_CACHE_SECONDS")
  case True
  then obtain t s where c: "cache = Some (t, s)" "ag_now e - t \<le> 5" by (auto simp: SNAPSHOT_CACHE_SECONDS_def)
  then have "r = Inr s" "cache' = cache" using assms(2) by (auto simp: build_snapshot_def SNAPSHOT_CACHE_SECONDS_def)
  then show ?thesis using assms(1) c by (auto simp: cache_backed_def)
next
  case False
  then have "build_snapshot True e cache = guard_in cache (fresh_snapshot e) (\<lambda>s. (Inr s, Some (ag_now e, s)))"
    by (auto simp: build_snapshot_def split: option.splits)
  then show ?thesis using assms by (cases "fresh_snapshot e") (auto simp: cache_backed_def)
qed

lemma agent_GET_cases:
  assumes "agent_GET tok e target auth cache = (r, cache')"
  obtains (static) "open_answer r" "cache' = cache"
    | (failed) err where "agent_authorized tok auth = Inr True" "build_snapshot True e cache = (Inl err, cache')" "r = Inl err"
    | (served) s path where "agent_authorized tok auth = Inr True" "build_snapshot True e cache = (Inr s, cache')" "r = Inr (agent_body path s)"
proof -
  have t: "agent_authorized tok auth = Inl err \<Longrightarrow> err = TypeError" for err
    by (auto simp: agent_authorized_def Let_def compare_digest_def split: if_splits)
  show thesis using assms that t
    by (cases "build_snapshot True e cache"; cases "agent_authorized tok auth")
      (auto simp: agent_GET_def open_answer_def Let_def split: if_splits sum.splits)
qed

lemma serve_agent_backed: "cache_backed es cache \<Longrightarrow> cache_backed (insert (fst q) es) (serve_agent tok q cache)"
proof -
  assume b: "cache_backed es cache"
  obtain e target auth where q: "q = (e, target, auth)" by (cases q)
  obtain r cache' where g: "agent_GET tok e target auth cache = (r, cache')" by fastforce
  have "cache_backed (insert e es) cache'"
    using g
  proof (cases rule: agent_GET_cases)
    case static
    then show ?thesis using b by (auto simp: cache_backed_def)
  qed (use build_snapshot_backed [OF b] in blast)+
  then show ?thesis by (simp add: q g)
qed

lemma history_backed: "cache_backed (fst ` set hist) (fold (serve_agent tok) hist None)"
proof -
  have "cache_backed es cache \<Longrightarrow> cache_backed (fst ` set hist \<union> es) (fold (serve_agent tok) hist cache)" for es cache
  proof (induction hist arbitrary: es cache)
    case (Cons q hist)
    have "cache_backed (fst ` set hist \<union> insert (fst q) es) (fold (serve_agent tok) hist (serve_agent tok q cache))"
      by (rule Cons.IH [OF serve_agent_backed [OF Cons.prems]])
    then show ?case by simp
  qed simp
  from this [of "{}" None] show ?thesis by (simp add: cache_backed_def)
qed


definition demo_host :: host_inputs where
  "demo_host = \<lparr>hi_os_release = ''PRETTY_NAME=Debian'', hi_platform = [], hi_hostname = ''pc'', hi_kernel = ''6.1'', hi_machine = ''x86_64'',
     hi_uptime = Some ''12.34 5'', hi_meminfo = ''MemTotal: 100 kB'', hi_netdev = [], hi_disk = None, hi_load = None, hi_cpus = Some 4,
     hi_ip = None, hi_loads = (\<lambda>_. None), hi_show = (\<lambda>_. [])\<rparr>"

definition demo_agent :: "rat \<Rightarrow> string \<Rightarrow> agent_env" where
  "demo_agent now t = \<lparr>ag_now = now, ag_time = t, ag_web = demo_web, ag_store = demo_empty_store, ag_proc_net = None,
     ag_timeout = NFloat (Fin 1), ag_order = (\<lambda>ps. ps), ag_checks = (\<lambda>rs. []), ag_host = demo_host\<rparr>"

definition demo_agent_token :: string where
  "demo_agent_token = ''0123456789abcdef0123456789abcdef''"


text \<open>The agent is only ever bound to a literal address or to \<open>localhost\<close>.\<close>

lemma validate_bind_literal: "validate_bind v = Inr b \<Longrightarrow> b = ''localhost'' \<or> ip_address b \<noteq> None"
  by (auto simp: validate_bind_def Let_def split: if_splits option.splits)

lemma scan_failure_hides_the_host:
  \<comment> \<open>an exception of the scan that is not a \<open>BridgeError\<close> leaves no answer at all, host figures included\<close>
  "local_resources e = Inl err \<Longrightarrow> \<forall>t. err \<noteq> BridgeError t \<Longrightarrow> fresh_snapshot e = Inl err"
  by (cases err) (simp_all add: fresh_snapshot_def)

end
