(* ===== verification/RelayService.thy ===== *)
theory RelayService
  imports RelayClient Json
begin

text \<open>
  The relay beside its sessions: the device registry it keeps in a file (\<open>_load_registry\<close>,
  \<open>_save_registry\<close>) and reads again for every authentication, the views it answers with (\<open>RelaySession.public\<close>,
  \<open>relay_status\<close>); and of the client (\<open>relay_client.py\<close>) the status file, whether the dashboard shows
  the relay, and the rounds of \<open>monitor_forever\<close>.
\<close>

section \<open>The registry file\<close>

definition json_float :: "json \<Rightarrow> pyfloat res" where
  \<comment> \<open>\<open>float(value)\<close>, without the rounding of large integers\<close>
  "json_float j = (case j of
       JBool b \<Rightarrow> Inr (Fin (if b then 1 else 0))
     | JInt i \<Rightarrow> if \<bar>i\<bar> < 2 ^ 1024 - 2 ^ 970 then Inr (Fin (of_int i)) else Inl OverflowError
     | JFloat f \<Rightarrow> Inr f
     | JStr s \<Rightarrow> (case parse_float s of None \<Rightarrow> Inl (ValueError ''could not convert string to float'') | Some f \<Rightarrow> Inr f)
     | _ \<Rightarrow> Inl TypeError)"

definition finite_part :: "pyfloat \<Rightarrow> rat" where
  \<comment> \<open>the time of an entry is never read again; one that is not finite is stored as 0\<close>
  "finite_part f = (case f of Fin q \<Rightarrow> q | _ \<Rightarrow> 0)"

fun load_entries :: "(json \<Rightarrow> string) \<Rightarrow> (string \<times> json) list \<Rightarrow> (string \<times> registry_entry) list res" where
  "load_entries show_json [] = Inr []"
| "load_entries show_json ((key, JObj value) # items) =
     (let digest = py_lower (text_or show_json (obj_get value ''token_sha256'') []) in
      if length digest \<noteq> 64 then load_entries show_json items
      else rbind (json_float (obj_get_or value ''updated_at'' (JInt 0))) (\<lambda>f.
        rbind (load_entries show_json items) (\<lambda>out.
        Inr ((key, \<lparr>token_sha256 = digest, x_enabled = truthy (obj_get_or value ''enabled'' (JBool True)), x_updated_at = finite_part f\<rparr>) # out))))"
| "load_entries show_json (_ # items) = load_entries show_json items"

definition load_registry :: "(json \<Rightarrow> string) \<Rightarrow> json option \<Rightarrow> (string \<times> registry_entry) list res" where
  \<comment> \<open>the document of the file, none when it is missing, unreadable or not JSON; \<open>json.loads\<close> keeps one value of a key\<close>
  "load_registry show_json file = (case file of
       Some (JObj kvs) \<Rightarrow> load_entries show_json kvs | _ \<Rightarrow> Inr [])"

definition entry_json :: "registry_entry \<Rightarrow> json" where
  "entry_json e = JObj [(''enabled'', JBool (x_enabled e)), (''token_sha256'', JStr (token_sha256 e)), (''updated_at'', JFloat (Fin (x_updated_at e)))]"

definition save_registry :: "(string \<times> registry_entry) list \<Rightarrow> json" where
  \<comment> \<open>the document written, with its keys sorted\<close>
  "save_registry items = JObj (map (\<lambda>(k, e). (k, entry_json e)) (sort_key fst items))"

section \<open>Views\<close>

record session_view =
  sw_id :: string
  sw_device :: string
  sw_status :: string
  sw_bridge_endpoint :: string
  sw_client_endpoint :: string
  sw_expected_client :: "string option"
  sw_expected_bridge :: "string option"
  sw_bridge_seen :: bool
  sw_client_seen :: bool
  sw_created :: rat
  sw_activity :: rat
  sw_stats :: "nat \<times> nat \<times> nat \<times> nat"

definition session_public :: "string \<Rightarrow> session \<Rightarrow> session_view" where
  "session_public host x = \<lparr>sw_id = s_id x, sw_device = s_device x, sw_status = s_status x,
     sw_bridge_endpoint = host @ '':'' @ int_str (bridge_udp x), sw_client_endpoint = host @ '':'' @ int_str (client_udp x),
     sw_expected_client = expected_client_ip x, sw_expected_bridge = expected_bridge_ip x,
     sw_bridge_seen = (bridge_peer x \<noteq> None), sw_client_seen = (client_peer x \<noteq> None), sw_created = s_created x,
     sw_activity = last_activity x, sw_stats = (bytes_b2c x, bytes_c2b x, packets_b2c x, packets_c2b x)\<rparr>"

definition relay_status :: "relay_cfg \<Rightarrow> string \<Rightarrow> rat \<Rightarrow> relay \<Rightarrow> session_view list \<times> relay" where
  \<comment> \<open>the constants of the configuration are left out\<close>
  "relay_status cfg host now s = (let s = cleanup_sessions cfg now s in (map (session_public host) (sessions s), s))"

section \<open>The client's status\<close>

definition run_entry :: "json option \<Rightarrow> (string \<times> json) list" where
  \<comment> \<open>the status file, an empty object when it is missing, not JSON or no object\<close>
  "run_entry file = (case file of Some (JObj kvs) \<Rightarrow> kvs | _ \<Rightarrow> [])"

definition local_relay_status :: "relay_settings \<Rightarrow> json option \<Rightarrow> bool \<times> bool \<times> string \<times> (string \<times> json) list" where
  "local_relay_status cfg file = (l_enabled cfg, l_configured cfg, l_url cfg, run_entry file)"

definition relay_visible :: "json option \<Rightarrow> string list res \<Rightarrow> bool" where
  \<comment> \<open>the second argument: the states of the traversal sessions, or the exception of reading them\<close>
  "relay_visible file states = (if truthy (obj_get (run_entry file) ''active_sessions'') then True
     else (case states of Inl _ \<Rightarrow> False | Inr xs \<Rightarrow> list_ex (\<lambda>s. s \<in> {''FAILED'', ''ERROR''}) xs))"

section \<open>The monitor\<close>

definition SYNC_SECONDS :: rat where "SYNC_SECONDS = 60"

record 'r poll_status =
  po_configured :: bool
  po_active :: "'r reported"
  po_errors :: "(string \<times> string) list"  \<comment> \<open>session id, empty for the relay itself, and text\<close>

fun poll_all ::
  "(relay_ask \<Rightarrow> act_env) \<Rightarrow> store \<Rightarrow> relay_ask list \<Rightarrow> audit_db \<Rightarrow> activation list \<times> (string \<times> string) list \<times> audit_db" where
  "poll_all env st [] db = ([], [], db)"
| "poll_all env st (q # qs) db = (case activate_request (env q) st q db of
      (Inr a, _, db) \<Rightarrow> (case poll_all env st qs db of (act, errs, db) \<Rightarrow> (a # act, errs, db))
    | (Inl e, _, db) \<Rightarrow> (case poll_all env st qs db of
         (act, errs, db) \<Rightarrow> (act, (k_session_id q, take 300 (error_text e)) # errs, db)))"

definition poll_round ::
  "relay_settings \<Rightarrow> rat \<Rightarrow> rat \<Rightarrow> nat res \<Rightarrow> relay_ask list res \<Rightarrow> (relay_ask \<Rightarrow> act_env) \<Rightarrow> 'r list option res \<Rightarrow> store \<Rightarrow> audit_db
     \<Rightarrow> 'r poll_status \<times> rat \<times> audit_db" where
  \<comment> \<open>one turn of the loop: the status written, the time of the last sync and the audit table afterwards\<close>
  "poll_round cfg now last_sync synced requests env remote st db =
     (let failed = (\<lambda>e. \<lparr>po_configured = True, po_active = FromHere [], po_errors = [([], take 300 (error_text e))]\<rparr>);
          due = (SYNC_SECONDS \<le> now - last_sync) in
      if \<not> l_configured cfg then (\<lparr>po_configured = False, po_active = FromHere [], po_errors = []\<rparr>, last_sync, db)
      else (case (if due then synced else Inr 0) of
          Inl e \<Rightarrow> (failed e, last_sync, db)
        | Inr _ \<Rightarrow> (let last_sync = (if due then now else last_sync) in case requests of
            Inl e \<Rightarrow> (failed e, last_sync, db)
          | Inr qs \<Rightarrow> (case poll_all env st qs db of (act, errs, db) \<Rightarrow>
              (\<lparr>po_configured = True,
                po_active = (case remote of Inr (Some xs) \<Rightarrow> FromRelay xs | _ \<Rightarrow> FromHere act),
                po_errors = errs @ (case remote of Inr _ \<Rightarrow> [] | Inl e \<Rightarrow> [([], ''remote_status: '' @ take 250 (error_text e))])\<rparr>,
               last_sync, db)))))"

section \<open>What the file keeps\<close>

lemma load_entries_entry:
  assumes "\<forall>(k, e)\<in>set items. length (token_sha256 e) = 64 \<and> py_lower (token_sha256 e) = token_sha256 e"
  shows "load_entries show_json (map (\<lambda>(k, e). (k, entry_json e)) items) = Inr items"
  using assms
proof (induction items)
  case (Cons item items)
  obtain k e where item: "item = (k, e)" by (cases item)
  have e: "length (token_sha256 e) = 64" "py_lower (token_sha256 e) = token_sha256 e" using Cons.prems by (simp_all add: item)
  then have "token_sha256 e \<noteq> []" by auto
  then show ?case using Cons e by (simp add: item entry_json_def obj_get_def obj_get_or_def json_float_def finite_part_def)
qed simp

lemma is_digest_stored: "is_digest x \<Longrightarrow> length x = 64 \<and> py_lower x = x"
  by (auto simp: is_digest_def py_lower_def list_all_iff hex_lower_fix intro!: map_idI)

lemma sync_loop_digests:
  "sync_loop now items out = Inr out' \<Longrightarrow> distinct (map fst out) \<Longrightarrow> \<forall>(k, e)\<in>set out. is_digest (token_sha256 e) \<Longrightarrow>
     distinct (map fst out') \<and> (\<forall>(k, e)\<in>set out'. is_digest (token_sha256 e))"
proof (induction now items out rule: sync_loop.induct)
  case (2 now item items out)
  then obtain did dig en key where item: "item = Some (did, dig, en)" "safe_device_id did = Inr key" "is_digest (py_lower (py_strip dig))"
    by (cases item) (auto simp: res_simps Let_def split: if_splits)
  let ?out = "(key, \<lparr>token_sha256 = py_lower (py_strip dig), x_enabled = en, x_updated_at = now\<rparr>) # filter (\<lambda>(k, _). k \<noteq> key) out"
  have s: "sync_loop now items ?out = Inr out'" using 2(2) item by simp
  have "distinct (map fst ?out)" using 2(3) by (auto simp: distinct_map_filter)
  moreover have "\<forall>(k, e)\<in>set ?out. is_digest (token_sha256 e)" using 2(4) item(3) by auto
  ultimately show ?case using 2(1) item s by blast
qed simp

text \<open>
  The relay has no registry in memory: it reads the file again for every authentication. After a
  successful sync the file it wrote is read back without an exception, and the authentication from it
  accepts exactly the devices and tokens that the sync left enabled.
\<close>

theorem registry_file_authenticates:
  assumes "sync_devices now items s = (Inr n, s')"
  shows "\<exists>reg. load_registry show_json (Some (save_registry (relay_registry s'))) = Inr reg
    \<and> (\<forall>did tok. authenticate_device did tok (relay_init reg) = authenticate_device did tok s')"
proof -
  have l: "sync_loop now items [] = Inr (relay_registry s')"
    using assms by (auto simp: sync_devices_def guard_in_def split: sum.splits)
  have d: "distinct (map fst (relay_registry s'))" "\<forall>(k, e)\<in>set (relay_registry s'). is_digest (token_sha256 e)"
    using sync_loop_digests [OF l] by simp_all
  let ?reg = "sort_key fst (relay_registry s')"
  have "load_registry show_json (Some (save_registry (relay_registry s'))) = Inr ?reg"
    unfolding load_registry_def save_registry_def using d(2) by (simp, intro load_entries_entry) (auto dest: is_digest_stored)
  moreover have "map_of ?reg = map_of (relay_registry s')"
    by (rule map_of_eqI) (use d(1) in \<open>auto simp: distinct_map\<close>)
  then have "authenticate_device did tok (relay_init ?reg) = authenticate_device did tok s'" for did tok
    by (simp add: authenticate_device_def relay_init_def split: sum.splits)
  ultimately show ?thesis by blast
qed

end
