(* ===== verification/Console.thy ===== *)
theory Console
  imports Dashboard RelayService
begin

text \<open>
  The commands of \<open>cli.py\<close> that print (Control has the ones that change the machine), the import of a
  discovered backend, and \<open>main\<close>: what a command line does and the code it exits with. What is
  printed is the value before \<open>json.dumps\<close>. Each command is a process of its own, so the health cache
  is empty when it starts and \<open>--no-cache\<close> makes no difference.
\<close>

section \<open>Commands and what they print\<close>

datatype query =
    ListAll
  | DeviceShow string
  | PairingList
  | ResourceList
  | ResourceDiscover "int list" string string num_arg
  | ResourceImport string int string "int option" num_arg
  | HealthCheck "string option"
  | Diagnose string "string option" "string option" bool
  | ConnectionDoctor string "string option" "string option" bool "string option"  \<comment> \<open>the last is the device\<close>
  | AuditList int "string option" "string option" "string option"
  | MetricsShow string "string option" "string option"
  | Status

record status_item =
  si_name :: string
  si_protocol :: string
  si_target :: string
  si_bridge_port :: int
  si_allowed :: "string list"
  si_denied :: "string list"
  si_health :: "health option"

record status_print =
  pr_config :: bool
  pr_services :: bool
  pr_endpoint :: string
  pr_groups :: nat
  pr_states :: "nat list"  \<comment> \<open>the counts of \<open>HEALTH_STATES\<close> and the total\<close>
  pr_items :: "status_item list"
  pr_wg_port :: int

datatype printed =
    Registries "device list" "group list" "resource list"
  | DeviceShown device "string list" "string list"
  | Enrollments "enrollment list"
  | Resources "resource list"
  | Discovered discovery_report
  | Imported resource
  | HealthReport "nat list" "health list"
  | DiagnosisReport diag_report
  | DoctorReport doctor_report diag_report health
  | Events audit_db
  | Series series
  | StatusReport status_print

record console_env = dash_env +
  cx_proc :: "string option"  \<comment> \<open>the kernel's table of listeners\<close>
  cx_finished :: "int list \<Rightarrow> int list"  \<comment> \<open>the order in which the probes of a scan finish\<close>
  cx_checked :: "resource list \<Rightarrow> resource list"  \<comment> \<open>and the health checks\<close>

definition hide_secrets :: "device \<Rightarrow> device" where
  \<comment> \<open>without \<open>preshared_key\<close> and \<open>token\<close>\<close>
  "hide_secrets d = d\<lparr>preshared_key := [], token := []\<rparr>"

definition cmd_device_show :: "nat \<Rightarrow> string \<Rightarrow> store \<Rightarrow> printed res" where
  "cmd_device_show today i st = (case find_device i st of
       None \<Rightarrow> Inl (BridgeError ''Dispositivo non trovato.'')
     | Some d \<Rightarrow> Inr (DeviceShown (hide_secrets d) (map g_name (filter (\<lambda>g. device_id d \<in> set (device_ids g)) (list_groups st)))
         (map r_name (effective_resources_for_device today d (list_resources st) (list_groups st)))))"

fun error_class :: "py_error \<Rightarrow> string" where
  \<comment> \<open>\<open>exc.__class__.__name__\<close>\<close>
  "error_class (BridgeError _) = ''BridgeError''"
| "error_class (ValueError _) = ''ValueError''"
| "error_class (RuntimeError _) = ''RuntimeError''"
| "error_class (OSError _) = ''OSError''"
| "error_class (DiagnosticError _) = ''DiagnosticError''"
| "error_class (OtherError n) = n"
| "error_class TypeError = ''TypeError''"
| "error_class AttributeError = ''AttributeError''"
| "error_class OverflowError = ''OverflowError''"

definition checked_now :: "console_env \<Rightarrow> resource list \<Rightarrow> health list" where
  \<comment> \<open>\<open>check_resources\<close> in a process whose cache is empty\<close>
  "checked_now e rs = check_resources rs (map (\<lambda>r. (r, result_of r (dz_probe e r)
     (case check_now r (dz_probe e r) of Inl err \<Rightarrow> error_class err | Inr _ \<Rightarrow> []))) (cx_checked e rs))"

definition summary_of :: "health list \<Rightarrow> nat list" where
  "summary_of hs = map (health_summary hs) (HEALTH_STATES @ [''TOTAL''])"

definition resource_or_error :: "string \<Rightarrow> store \<Rightarrow> resource res" where
  "resource_or_error name st = (case find_resource name st of
       None \<Rightarrow> Inl (BridgeError (''Resource non trovata: '' @ name)) | Some r \<Rightarrow> Inr r)"

definition cmd_health_check :: "console_env \<Rightarrow> string option \<Rightarrow> store \<Rightarrow> printed res" where
  "cmd_health_check e name st = (let rs = list_resources st in
     rbind (if opt_str name = [] then Inr rs
       else let rs = filter (\<lambda>r. r_name r = opt_str name) rs in
         if rs = [] then Inl (BridgeError (''Resource non trovata: '' @ opt_str name)) else Inr rs) (\<lambda>rs.
     let results = checked_now e rs in Inr (HealthReport (summary_of results) results)))"

definition cmd_diagnose_resource :: "console_env \<Rightarrow> string \<Rightarrow> string option \<Rightarrow> string option \<Rightarrow> bool \<Rightarrow> store \<Rightarrow> printed res" where
  "cmd_diagnose_resource e name api_path pdf_path no_traceroute st = rbind (resource_or_error name st) (\<lambda>r.
     rbind (diagnose_resource (dz_diag e) r api_path pdf_path (\<not> no_traceroute)) (\<lambda>report. Inr (DiagnosisReport report)))"

definition cmd_connection_doctor ::
  "console_env \<Rightarrow> string \<Rightarrow> string option \<Rightarrow> string option \<Rightarrow> bool \<Rightarrow> string option \<Rightarrow> store \<Rightarrow> printed res" where
  "cmd_connection_doctor e name api_path pdf_path no_traceroute device st = rbind (resource_or_error name st) (\<lambda>r.
     rbind (diagnose_resource (dz_diag e) r api_path pdf_path (\<not> no_traceroute)) (\<lambda>diagnostics.
     rbind (fst (check_resource False 0 0 r (dz_probe e r) (\<lambda>_. None))) (\<lambda>h.
     Inr (DoctorReport (connection_doctor (dz_doctor e) st r diagnostics (h_state h) device) diagnostics h))))"

definition cmd_metrics_show :: "console_env \<Rightarrow> string \<Rightarrow> string option \<Rightarrow> string option \<Rightarrow> printed res" where
  "cmd_metrics_show e window resource device = (case query_series window resource device (dz_clock e) (dz_metrics e) of
       Inl (ValueError m) \<Rightarrow> Inl (BridgeError m) | Inl err \<Rightarrow> Inl err | Inr s \<Rightarrow> Inr (Series s))"

definition status_item_of :: "health list \<Rightarrow> resource \<Rightarrow> status_item" where
  "status_item_of hs r = \<lparr>si_name = r_name r, si_protocol = protocol r, si_target = target_host r @ '':'' @ int_str (target_port r),
     si_bridge_port = bridge_port r, si_allowed = allowed_devices r, si_denied = denied_devices r,
     si_health = map_of (rev (map (\<lambda>h. (h_name h, h)) hs)) (r_name r)\<rparr>"

definition cmd_status :: "console_env \<Rightarrow> machine \<Rightarrow> printed res" where
  "cmd_status e m = (let st = registry_of (m_pairing m); env = y_env (dz_cli e); rs = list_resources st; hs = checked_now e rs in
     case py_int (env_get env ''WG_PORT'' ''51820'') of
       None \<Rightarrow> Inl (ValueError ''invalid literal for int()'')
     | Some port \<Rightarrow> Inr (StatusReport \<lparr>pr_config = (m_conf m \<noteq> None), pr_services = (SERVICES_FILE st \<noteq> None),
         pr_endpoint = endpoint env, pr_groups = length (list_groups st), pr_states = summary_of hs,
         pr_items = map (status_item_of hs) rs, pr_wg_port = port\<rparr>))"

definition cmd_resource_import :: "console_env \<Rightarrow> string \<Rightarrow> int \<Rightarrow> string \<Rightarrow> int option \<Rightarrow> num_arg \<Rightarrow> printed act" where
  "cmd_resource_import e host tp scheme bp timeout =
     and_then (need (ensure (y_root (dz_cli e)) (BridgeError ''Questo comando richiede root (usa sudo).''))) (\<lambda>_.
     and_then (on_store (import_discovered_backend (dz_web e) host tp scheme bp timeout)) (\<lambda>r.
     reload_then (dz_cli e) (Imported r)))"

definition cmd_pairing_list :: "console_env \<Rightarrow> printed act" where
  "cmd_pairing_list e = on_pairing (\<lambda>ps. case list_enrollments (y_now (dz_cli e)) ps of (xs, ps) \<Rightarrow> (Inr (Enrollments xs), ps))"

fun run_query :: "console_env \<Rightarrow> query \<Rightarrow> printed act" where
  "run_query e ListAll = ask (\<lambda>st. Inr (Registries (map hide_secrets (list_devices st)) (list_groups st) (list_resources st)))"
| "run_query e (DeviceShow i) = ask (cmd_device_show (y_today (dz_cli e)) i)"
| "run_query e PairingList = cmd_pairing_list e"
| "run_query e ResourceList = ask (\<lambda>st. Inr (Resources (list_resources st)))"
| "run_query e (ResourceDiscover ports host scheme timeout) = ask (\<lambda>st.
     rbind (discover_backends (dz_web e) st (cx_proc e) (if ports = [] then None else Some ports) host scheme timeout (cx_finished e)) (\<lambda>d.
     Inr (Discovered d)))"
| "run_query e (ResourceImport host tp scheme bp timeout) = cmd_resource_import e host tp scheme bp timeout"
| "run_query e (HealthCheck name) = ask (cmd_health_check e name)"
| "run_query e (Diagnose name a p t) = ask (cmd_diagnose_resource e name a p t)"
| "run_query e (ConnectionDoctor name a p t d) = ask (cmd_connection_doctor e name a p t d)"
| "run_query e (AuditList n ev d r) = ask (\<lambda>st. Inr (Events (list_events n ev d r (AUDIT_DB st))))"
| "run_query e (MetricsShow w r d) = need (cmd_metrics_show e w r d)"
| "run_query e Status = (\<lambda>m. (cmd_status e m, m))"

section \<open>The command line\<close>

datatype ending = Printed printed | Failed string | UsageError | Traceback py_error

definition exit_code :: "ending \<Rightarrow> int" where
  "exit_code f = (case f of Printed _ \<Rightarrow> 0 | Failed _ \<Rightarrow> 2 | UsageError \<Rightarrow> 2 | Traceback _ \<Rightarrow> 1)"

fun allowed_choices :: "query \<Rightarrow> bool" where
  \<comment> \<open>the \<open>choices\<close> of the argument parser\<close>
  "allowed_choices (ResourceDiscover _ host scheme _) = (host \<in> {''127.0.0.1'', ''localhost'', ''::1''} \<and> scheme \<in> {''http'', ''https''})"
| "allowed_choices (ResourceImport host _ scheme _ _) = (host \<in> {''127.0.0.1'', ''localhost'', ''::1''} \<and> scheme \<in> {''http'', ''https''})"
| "allowed_choices (MetricsShow w _ _) = (w \<in> {''1h'', ''24h'', ''7d'', ''30d''})"
| "allowed_choices _ = True"

definition cli_main :: "console_env \<Rightarrow> query \<Rightarrow> machine \<Rightarrow> ending \<times> machine" where
  "cli_main e q m = (if \<not> allowed_choices q then (UsageError, m) else case run_query e q m of
       (Inr p, m) \<Rightarrow> (Printed p, m)
     | (Inl (BridgeError t), m) \<Rightarrow> (Failed (''[GE360 Bridge] ERRORE: '' @ t), m)
     | (Inl err, m) \<Rightarrow> (Traceback err, m))"

section \<open>What is printed does not depend on a secret\<close>

definition without_token_hash :: "enrollment \<Rightarrow> enrollment" where
  "without_token_hash r = r\<lparr>token_hash := []\<rparr>"

definition without_keys :: "device \<Rightarrow> device" where
  "without_keys d = d\<lparr>token := [], preshared_key := []\<rparr>"

definition same_but_secrets :: "machine \<Rightarrow> machine \<Rightarrow> bool" where
  \<comment> \<open>two machines that differ in device tokens, preshared keys, the hashes of pairing tokens and the
     WireGuard configuration, which holds the keys, at most\<close>
  "same_but_secrets m1 m2 = (let s1 = registry_of (m_pairing m1); s2 = registry_of (m_pairing m2) in
     map without_keys (list_devices s1) = map without_keys (list_devices s2) \<and> RESOURCES_FILE s1 = RESOURCES_FILE s2
     \<and> SERVICES_FILE s1 = SERVICES_FILE s2 \<and> GROUPS_FILE s1 = GROUPS_FILE s2 \<and> AUDIT_DB s1 = AUDIT_DB s2
     \<and> map without_token_hash (load_enrollments (m_pairing m1)) = map without_token_hash (load_enrollments (m_pairing m2))
     \<and> (m_conf m1 = None) = (m_conf m2 = None))"

fun only_prints :: "query \<Rightarrow> bool" where
  "only_prints (ResourceImport _ _ _ _ _) = False"
| "only_prints _ = True"

lemma hide_secrets_hides: "hide_secrets = without_keys"
  by (rule ext) (simp add: hide_secrets_def without_keys_def)

lemma hide_secrets_fields [simp]:
  "device_id (hide_secrets d) = device_id d" "d_name (hide_secrets d) = d_name d" "public_key (hide_secrets d) = public_key d"
  "expires_at (hide_secrets d) = expires_at d" "d_enabled (hide_secrets d) = d_enabled d"
  by (simp_all add: hide_secrets_def)

lemma hidden_access [simp]:
  "device_is_active today (hide_secrets d) = device_is_active today d"
  "resource_allows_device today r (hide_secrets d) gs = resource_allows_device today r d gs"
  "effective_resources_for_device today (hide_secrets d) rs gs = effective_resources_for_device today d rs gs"
  "handshake_age env (hide_secrets d) = handshake_age env d"
  by (simp_all add: device_is_active_def device_is_expired_def resource_allows_device_def resource_access_source_def
      groups_for_device_def effective_resources_for_device_def handshake_age_def)

lemma hidden_find:
  assumes "map hide_secrets ds1 = map hide_secrets ds2"
  shows "map_option hide_secrets (find (device_matches i) ds1) = map_option hide_secrets (find (device_matches i) ds2)"
proof -
  have "map_option hide_secrets (find (device_matches i) ds) = find (device_matches i) (map hide_secrets ds)" for ds
    by (induction ds) (simp_all add: device_matches_def)
  then show ?thesis using assms by simp
qed

lemma hidden_same:
  assumes "hide_secrets d1 = hide_secrets d2" and "\<And>d. f (hide_secrets d) = f d"
  shows "f d1 = f d2"
  using assms by metis

lemma hidden_lookup:
  assumes "map hide_secrets (list_devices s1) = map hide_secrets (list_devices s2)" and "\<And>d. f (hide_secrets d) = f d"
  shows "(case find_device i s1 of None \<Rightarrow> z | Some d \<Rightarrow> f d) = (case find_device i s2 of None \<Rightarrow> z | Some d \<Rightarrow> f d)"
proof -
  have "map_option hide_secrets (find_device i s1) = map_option hide_secrets (find_device i s2)"
    unfolding find_device_def by (rule hidden_find [OF assms(1)])
  then have "rel_option (\<lambda>d1 d2. hide_secrets d1 = hide_secrets d2) (find_device i s1) (find_device i s2)"
    by (cases "find_device i s1"; cases "find_device i s2") simp_all
  then show ?thesis
    by (cases rule: option.rel_cases) (auto intro: hidden_same [where f = f, OF _ assms(2)])
qed

lemma same_lists:
  assumes "same_but_secrets m1 m2"
  shows "list_resources (registry_of (m_pairing m1)) = list_resources (registry_of (m_pairing m2))"
    "list_groups (registry_of (m_pairing m1)) = list_groups (registry_of (m_pairing m2))"
    "map hide_secrets (list_devices (registry_of (m_pairing m1))) = map hide_secrets (list_devices (registry_of (m_pairing m2)))"
    "AUDIT_DB (registry_of (m_pairing m1)) = AUDIT_DB (registry_of (m_pairing m2))"
proof -
  note same = assms [unfolded same_but_secrets_def Let_def, folded hide_secrets_hides]
  show "list_resources (registry_of (m_pairing m1)) = list_resources (registry_of (m_pairing m2))"
    unfolding list_resources_def using same by presburger
  show "list_groups (registry_of (m_pairing m1)) = list_groups (registry_of (m_pairing m2))"
    unfolding list_groups_def using same by presburger
  show "map hide_secrets (list_devices (registry_of (m_pairing m1))) = map hide_secrets (list_devices (registry_of (m_pairing m2)))"
    "AUDIT_DB (registry_of (m_pairing m1)) = AUDIT_DB (registry_of (m_pairing m2))" using same by blast+
qed

lemma without_token_hash_steps:
  "expire_one now (without_token_hash r) = without_token_hash (expire_one now r)"
  "stale now (without_token_hash r) = stale now r"
  by (simp_all add: expire_one_def stale_def terminal_at_def without_token_hash_def)

lemma cleanup_hashes:
  "map without_token_hash (cleanup_enrollments xs now) = cleanup_enrollments (map without_token_hash xs) now"
  unfolding cleanup_enrollments_def
  by (induction xs) (simp_all add: without_token_hash_steps)

lemma same_doctor:
  assumes "same_but_secrets m1 m2"
  shows "connection_doctor env (registry_of (m_pairing m1)) r rp h i = connection_doctor env (registry_of (m_pairing m2)) r rp h i"
proof -
  let ?s = "\<lambda>m. registry_of (m_pairing m)"
  have "device_runtime env (?s m1) i r = device_runtime env (?s m2) i r"
    unfolding device_runtime_def Let_def same_lists(2) [OF assms]
    by (rule if_cong [OF refl refl]) (rule hidden_lookup [OF same_lists(3) [OF assms]], simp)
  then show ?thesis by (simp add: connection_doctor_def)
qed

lemma same_scan:
  assumes "same_but_secrets m1 m2"
  shows "discover_backends w (registry_of (m_pairing m1)) file ports host scheme t ord
    = discover_backends w (registry_of (m_pairing m2)) file ports host scheme t ord"
proof -
  have "probe_port w (registry_of (m_pairing m1)) = probe_port w (registry_of (m_pairing m2))"
    by (intro ext) (simp add: probe_port_def make_proposal_def same_lists(1) [OF assms])
  then show ?thesis unfolding discover_backends_def by presburger
qed

lemma same_query:
  assumes "same_but_secrets m1 m2" and "only_prints q"
  shows "fst (run_query e q m1) = fst (run_query e q m2)"
proof (cases q)
  case (DeviceShow i)
  have "cmd_device_show (y_today (dz_cli e)) i (registry_of (m_pairing m1)) = cmd_device_show (y_today (dz_cli e)) i (registry_of (m_pairing m2))"
    unfolding cmd_device_show_def same_lists(1,2) [OF assms(1)]
    by (rule hidden_lookup [OF same_lists(3) [OF assms(1)]]) (simp add: hide_secrets_def [of "hide_secrets _"], simp add: hide_secrets_def)
  then show ?thesis by (simp add: DeviceShow ask_def)
next
  case PairingList
  have "map without_token_hash (load_enrollments (m_pairing m1)) = map without_token_hash (load_enrollments (m_pairing m2))"
    using assms(1) by (simp add: same_but_secrets_def Let_def)
  then show ?thesis using cleanup_hashes
    by (simp add: PairingList cmd_pairing_list_def on_pairing_def list_enrollments_def Let_def without_token_hash_def [symmetric] split_def)
next
  case Status
  show ?thesis using assms(1) same_lists(1,2) [OF assms(1)]
    by (simp add: Status cmd_status_def Let_def same_but_secrets_def split: option.splits)
qed (use assms same_lists [OF assms(1)] in \<open>simp_all add: ask_def need_def same_scan [OF assms(1)] cmd_health_check_def
      cmd_diagnose_resource_def cmd_connection_doctor_def resource_or_error_def find_resource_def same_doctor [OF assms(1)]\<close>)

text \<open>
  C13. No command prints a secret: whatever one prints, and how it fails, is the same on two machines that
  differ in nothing but device tokens, preshared keys, the hashes of pairing tokens and the
  configuration made from them.
\<close>

theorem console_prints_no_secret:
  assumes "same_but_secrets m1 m2" and "only_prints q"
  shows "fst (cli_main e q m1) = fst (cli_main e q m2)"
  using same_query [OF assms, of e] unfolding cli_main_def
  by (auto split: prod.splits sum.splits py_error.splits)

definition demo_console :: console_env where
  "demo_console = dash_env.extend demo_dash \<lparr>cx_proc = None, cx_finished = id, cx_checked = id\<rparr>"

definition rekeyed_machine :: machine where
  \<comment> \<open>the demo machine with another token and preshared key on each device\<close>
  "rekeyed_machine = demo_machine\<lparr>m_pairing := (m_pairing demo_machine)\<lparr>registry_of := demo_store\<lparr>DEVICES_FILE :=
     Some (map (\<lambda>d. raw_of_device (d\<lparr>token := ''other'', preshared_key := ''another''\<rparr>))
       [demo_device ''dev_1'' ''phone'' ''10.88.0.2'', demo_device ''dev_2'' ''laptop'' ''10.88.0.3''])\<rparr>\<rparr>\<rparr>"

theorem console_prints_no_secret_witness:
  "list_devices (registry_of (m_pairing demo_machine)) \<noteq> list_devices (registry_of (m_pairing rekeyed_machine))
   \<and> fst (cli_main demo_console ListAll demo_machine) = fst (cli_main demo_console ListAll rekeyed_machine)"
proof -
  have "same_but_secrets demo_machine rekeyed_machine" by code_simp
  moreover have "list_devices (registry_of (m_pairing demo_machine)) \<noteq> list_devices (registry_of (m_pairing rekeyed_machine))"
    by code_simp
  ultimately show ?thesis using console_prints_no_secret [of demo_machine rekeyed_machine ListAll demo_console] by simp
qed

section \<open>What a command line leaves behind\<close>

lemma cmd_import_sync: "achieves (conf_ok (dz_cli e)) (cmd_resource_import e host tp scheme bp t) (in_sync (dz_cli e))"
  unfolding cmd_resource_import_def by (intro act_sync; assumption)

lemma cmd_import_ok: "preserves machine_ok (cmd_resource_import e host tp scheme bp t)"
  unfolding cmd_resource_import_def by (intro act_ok)

lemma other_queries:
  "only_prints q \<Longrightarrow> q \<noteq> PairingList \<Longrightarrow> snd (run_query e q m) = m"
  by (cases q) (simp_all add: ask_def need_def)

lemma pairing_list_keeps:
  "snd (cmd_pairing_list e m) = m\<lparr>m_pairing := (m_pairing m)\<lparr>ENROLLMENTS_FILE :=
     Some (cleanup_enrollments (load_enrollments (m_pairing m)) (y_now (dz_cli e)))\<rparr>\<rparr>"
  by (simp add: cmd_pairing_list_def on_pairing_def list_enrollments_def Let_def)

theorem console_keeps_machine:
  "machine_ok m \<Longrightarrow> machine_ok (snd (cli_main e q m))"
  "in_sync (dz_cli e) m \<Longrightarrow> cli_main e q m = (Printed p, m') \<Longrightarrow> in_sync (dz_cli e) m'"
proof -
  have main: "snd (cli_main e q m) = m \<or> snd (cli_main e q m) = snd (run_query e q m)"
    by (simp add: cli_main_def split: prod.splits sum.splits py_error.splits)
  have printed: "cli_main e q m = (Printed p, m') \<Longrightarrow> run_query e q m = (Inr p, m')"
    by (simp add: cli_main_def split: prod.splits sum.splits py_error.splits if_splits)
  show "machine_ok (snd (cli_main e q m))" if ok: "machine_ok m"
  proof -
    have "machine_ok (snd (run_query e q m))"
    proof (cases "only_prints q \<and> q \<noteq> PairingList")
      case False
      then show ?thesis
        using ok cmd_import_ok by (cases q) (simp_all add: preserves_def pairing_list_keeps machine_ok_def cleanup_ok)
    qed (use ok other_queries in simp)
    then show ?thesis using main ok by metis
  qed
  show "in_sync (dz_cli e) m'" if sync: "in_sync (dz_cli e) m" and out: "cli_main e q m = (Printed p, m')"
  proof (cases "only_prints q")
    case True
    have "m' = snd (run_query e q m)" using printed [OF out] by simp
    then show ?thesis using sync other_queries [OF True, of e m] pairing_list_keeps [of e m]
      by (cases "q = PairingList") (simp_all add: in_sync_def)
  next
    case False
    then obtain host tp scheme bp t where q: "q = ResourceImport host tp scheme bp t" by (cases q) auto
    have "conf_ok (dz_cli e) m" using sync by (simp add: in_sync_conf)
    then show ?thesis using cmd_import_sync [of e host tp scheme bp t] printed [OF out] unfolding q achieves_def by simp
  qed
qed

end
