(* ===== verification/Administration.thy ===== *)
theory Administration
  imports Update MultiServer SelfHeal Control
begin

text \<open>
  The commands of \<open>cli.py\<close> for backups, updates, registered servers and self-healing: the root check,
  the operation of the component, and what follows it. The state is the one of those components; the
  calls that follow a restore are recorded, and their result, when one raises, is an input. Writing
  the configuration and reloading are modelled in Control.
\<close>

section \<open>Commands\<close>

datatype admin_command =
    SelfHealRun "string option" bool  \<comment> \<open>the second is \<open>--dry-run\<close>\<close>
  | SelfHealStatus
  | ServerList
  | ServerAdd add_args
  | ServerRemove string
  | ServerState string bool
  | BackupCreate bool int
  | BackupList
  | BackupVerify string
  | BackupRestore string bool int
  | UpdateDownload string string
  | UpdateVerify string bool
  | UpdateApply string int
  | UpdateRun string string int
  | UpdateStatus

datatype admin_output =
    Healed "heal_outcome list"
  | HealRows "heal_row list"
  | ServersShown "public_server list"
  | ServerShown public_server
  | ServerRemoved string
  | BackupDone backup_result
  | BackupRows "backup_row list"
  | BackupShown verified
  | RestoreDone restore_result
  | Downloaded downloaded
  | UpdateShown "verified_update \<times> string list"
  | UpdateDone update_result
  | UpdateState "string \<times> update_result option \<times> string list"

datatype follow_up = RenderConfig | ReloadRuntime | RestartUnit string

record admin_state =
  am_servers :: registry_file
  am_update :: update_host
  am_heal :: heal_state
  am_calls :: "follow_up list"

record admin_env =
  ax_root :: bool
  ax_show :: "json \<Rightarrow> string"
  ax_now :: string
  ax_fresh :: string
  ax_clock :: rat
  ax_resources :: "resource list"
  ax_heal :: "string \<Rightarrow> heal_env"
  ax_update :: update_env
  ax_fetch :: "string \<Rightarrow> fetch_result"
  ax_unpack :: "string \<Rightarrow> tar_member list option"
  ax_package :: "string \<Rightarrow> package"  \<comment> \<open>the file at a path\<close>
  ax_render :: "unit res"  \<comment> \<open>whether writing the configuration raises\<close>

section \<open>What each does\<close>

definition on_servers :: "(registry_file \<Rightarrow> 'a res \<times> registry_file) \<Rightarrow> ('a \<Rightarrow> admin_output) \<Rightarrow> admin_state \<Rightarrow> admin_output res \<times> admin_state" where
  "on_servers f out s = (case f (am_servers s) of (r, file) \<Rightarrow> (map_sum id out r, s\<lparr>am_servers := file\<rparr>))"

definition on_update :: "(update_host \<Rightarrow> 'a res \<times> update_host) \<Rightarrow> ('a \<Rightarrow> admin_output) \<Rightarrow> admin_state \<Rightarrow> admin_output res \<times> admin_state" where
  "on_update f out s = (case f (am_update s) of (r, h) \<Rightarrow> (map_sum id out r, s\<lparr>am_update := h\<rparr>))"

definition on_config :: "(backup_host \<Rightarrow> 'a res \<times> backup_host) \<Rightarrow> ('a \<Rightarrow> admin_output) \<Rightarrow> admin_state \<Rightarrow> admin_output res \<times> admin_state" where
  "on_config f = on_update (\<lambda>h. case f (uh_config h) of (r, b) \<Rightarrow> (r, h\<lparr>uh_config := b\<rparr>))"

definition cmd_server_remove :: "admin_env \<Rightarrow> string \<Rightarrow> admin_state \<Rightarrow> admin_output res \<times> admin_state" where
  "cmd_server_remove e i = on_servers (\<lambda>file. found_or ''Server non trovato.'' (remove_server (ax_show e) (ax_now e) i file))
     (\<lambda>_. ServerRemoved i)"

definition restart_after_restore :: "follow_up list" where
  "restart_after_restore = [ReloadRuntime, RestartUnit ''ge360-bridge-dashboard.service'', RestartUnit ''ge360-bridge-enrollment.service'']"

definition cmd_backup_restore :: "admin_env \<Rightarrow> string \<Rightarrow> bool \<Rightarrow> int \<Rightarrow> admin_state \<Rightarrow> admin_output res \<times> admin_state" where
  "cmd_backup_restore e i apply_it keep s =
     (case on_config (restore_backup (ue_backup (ax_update e)) i apply_it (JInt keep) True) RestoreDone s of
        (Inl err, s) \<Rightarrow> (Inl err, s)
      | (Inr out, s) \<Rightarrow>
          if \<not> apply_it then (Inr out, s)
          else (let s = s\<lparr>am_calls := am_calls s @ [RenderConfig]\<rparr> in
            guard_in s (ax_render e) (\<lambda>_. (Inr out, s\<lparr>am_calls := am_calls s @ restart_after_restore\<rparr>))))"

fun needs_root :: "admin_command \<Rightarrow> bool" where
  "needs_root SelfHealStatus = False"
| "needs_root ServerList = False"
| "needs_root _ = True"

fun apply_admin :: "admin_env \<Rightarrow> admin_command \<Rightarrow> admin_state \<Rightarrow> admin_output res \<times> admin_state" where
  "apply_admin e (SelfHealRun name dry) s = (case run_self_heal name (ax_heal e) (ax_clock e) dry (ax_resources e) (am_heal s) of
     (r, h) \<Rightarrow> (map_sum id Healed r, s\<lparr>am_heal := h\<rparr>))"
| "apply_admin e SelfHealStatus s = (Inr (HealRows (self_heal_status (ax_clock e) (heal_state.disk (am_heal s)) (ax_resources e))), s)"
| "apply_admin e ServerList s = (map_sum id (ServersShown \<circ> map public_view) (list_servers (ax_show e) (ax_now e) (am_servers s)), s)"
| "apply_admin e (ServerAdd a) s = on_servers (add_server (ax_show e) (ax_now e) (ax_fresh e) a) ServerShown s"
| "apply_admin e (ServerRemove i) s = cmd_server_remove e i s"
| "apply_admin e (ServerState i b) s = on_servers (set_server_enabled (ax_show e) (ax_now e) i b) ServerShown s"
| "apply_admin e (BackupCreate scheduled keep) s = on_config (create_backup (ue_backup (ax_update e)) scheduled (JInt keep) []) BackupDone s"
| "apply_admin e BackupList s = (map_sum id BackupRows
     (list_backups (be_codec (ue_backup (ax_update e))) (ax_now e) (uh_config (am_update s))), s)"
| "apply_admin e (BackupVerify i) s = (map_sum id BackupShown
     (verify_backup (be_codec (ue_backup (ax_update e))) (ax_now e) i (uh_config (am_update s))), s)"
| "apply_admin e (BackupRestore i apply_it keep) s = cmd_backup_restore e i apply_it keep s"
| "apply_admin e (UpdateDownload url digest) s = (map_sum id Downloaded (download_update (ax_fetch e) url digest), s)"
| "apply_admin e (UpdateVerify path allow_not_newer) s = (map_sum id UpdateShown
     (preflight_update (be_codec (ue_backup (ax_update e))) (ue_tools (ax_update e)) (be_version (ue_backup (ax_update e)))
       (\<not> allow_not_newer) (ax_package e path)), s)"
| "apply_admin e (UpdateApply path keep) s = on_update (apply_update (ax_update e) (JInt keep) (ax_package e path)) UpdateDone s"
| "apply_admin e (UpdateRun url digest keep) s =
     on_update (run_update (ax_fetch e) (ax_unpack e) (ax_update e) url digest (JInt keep)) UpdateDone s"
| "apply_admin e UpdateStatus s = (Inr (UpdateState (update_status (ax_update e) (am_update s))), s)"

definition run_admin :: "admin_env \<Rightarrow> admin_command \<Rightarrow> admin_state \<Rightarrow> admin_output res \<times> admin_state" where
  "run_admin e c s = (if needs_root c \<and> \<not> ax_root e
     then (Inl (BridgeError ''Questo comando richiede root (usa sudo).''), s) else apply_admin e c s)"

section \<open>What an administrator can rely on\<close>

fun only_reads :: "admin_command \<Rightarrow> bool" where
  "only_reads SelfHealStatus = True" | "only_reads ServerList = True" | "only_reads BackupList = True"
| "only_reads (BackupVerify _) = True" | "only_reads (UpdateDownload _ _) = True" | "only_reads (UpdateVerify _ _) = True"
| "only_reads UpdateStatus = True" | "only_reads (BackupRestore _ apply_it _) = (\<not> apply_it)"
| "only_reads _ = False"

fun clean_url :: "admin_command \<Rightarrow> bool" where
  \<comment> \<open>an added server's URL has no white space inside\<close>
  "clean_url (ServerAdd a) = (\<forall>c\<in>set (py_strip (b_url a)). \<not> py_isspace c)"
| "clean_url _ = True"

lemma on_servers_snd [simp]: "snd (on_servers f out s) = s\<lparr>am_servers := snd (f (am_servers s))\<rparr>"
  by (simp add: on_servers_def split: prod.splits)

lemma on_update_snd [simp]: "snd (on_update f out s) = s\<lparr>am_update := snd (f (am_update s))\<rparr>"
  by (simp add: on_update_def split: prod.splits)

lemma restore_plan_reads: "snd (restore_backup env i False keep safety h) = h"
  by (simp add: restore_backup_def guard_in_def Let_def split: sum.splits prod.splits)

lemma on_config_result:
  "f (uh_config (am_update s)) = (r, b) \<Longrightarrow>
     on_config f out s = (map_sum id out r, s\<lparr>am_update := (am_update s)\<lparr>uh_config := b\<rparr>\<rparr>)"
  by (simp add: on_config_def on_update_def)

lemma backup_restore_calls:
  "am_servers (snd (cmd_backup_restore e i apply_it keep s)) = am_servers s"
  "am_calls (snd (cmd_backup_restore e i apply_it keep s)) =
     am_calls s @ (if apply_it \<and> is_ok (fst (restore_backup (ue_backup (ax_update e)) i True (JInt keep) True (uh_config (am_update s))))
       then RenderConfig # (if is_ok (ax_render e) then restart_after_restore else []) else [])"
proof -
  obtain r b where r: "restore_backup (ue_backup (ax_update e)) i apply_it (JInt keep) True (uh_config (am_update s)) = (r, b)"
    by fastforce
  note out = on_config_result [where f = "restore_backup (ue_backup (ax_update e)) i apply_it (JInt keep) True", OF r, of RestoreDone]
  have "am_servers (snd (cmd_backup_restore e i apply_it keep s)) = am_servers s
    \<and> am_calls (snd (cmd_backup_restore e i apply_it keep s)) = am_calls s @ (if apply_it \<and> is_ok r
       then RenderConfig # (if is_ok (ax_render e) then restart_after_restore else []) else [])"
    unfolding cmd_backup_restore_def out
    by (cases r; cases apply_it; cases "ax_render e") (simp_all add: guard_in_def)
  then show "am_servers (snd (cmd_backup_restore e i apply_it keep s)) = am_servers s"
    "am_calls (snd (cmd_backup_restore e i apply_it keep s)) =
     am_calls s @ (if apply_it \<and> is_ok (fst (restore_backup (ue_backup (ax_update e)) i True (JInt keep) True (uh_config (am_update s))))
       then RenderConfig # (if is_ok (ax_render e) then restart_after_restore else []) else [])"
    using r by (cases apply_it; simp)+
qed

text \<open>
  Without root a command that needs it is refused and changes nothing; a command that reads changes
  nothing in any case.
\<close>

theorem admin_refusals:
  "needs_root c \<Longrightarrow> \<not> ax_root e \<Longrightarrow>
     run_admin e c s = (Inl (BridgeError ''Questo comando richiede root (usa sudo).''), s)"
  "only_reads c \<Longrightarrow> snd (run_admin e c s) = s"
proof -
  show "run_admin e c s = (Inl (BridgeError ''Questo comando richiede root (usa sudo).''), s)" if "needs_root c" "\<not> ax_root e"
    using that by (simp add: run_admin_def)
  have "snd (cmd_backup_restore e i False keep s) = s" for i keep
    using restore_plan_reads [of "ue_backup (ax_update e)" i "JInt keep" True "uh_config (am_update s)"]
    by (auto simp: cmd_backup_restore_def on_config_def on_update_def split: prod.splits sum.splits)
  then show "snd (run_admin e c s) = s" if "only_reads c"
    using that by (cases c) (auto simp: run_admin_def)
qed

text \<open>
  Whatever an administrator runs, in whatever order, the file of registered servers keeps its
  invariant, and services are restarted only by a restore that was applied and succeeded.
\<close>

theorem admin_keeps_servers:
  assumes "servers_ok (am_servers s)" and "ax_now e \<noteq> []" and "clean_url c"
  shows "servers_ok (am_servers (snd (run_admin e c s)))"
    and "am_calls (snd (run_admin e c s)) \<noteq> am_calls s \<Longrightarrow> \<exists>i keep. c = BackupRestore i True keep
      \<and> is_ok (fst (restore_backup (ue_backup (ax_update e)) i True (JInt keep) True (uh_config (am_update s))))"
proof -
  note ops = remove_server_ok [OF assms(1)] set_server_enabled_ok [OF assms(1)]
  show "servers_ok (am_servers (snd (run_admin e c s)))"
  proof (cases c)
    case (ServerAdd a)
    then have url: "\<forall>c\<in>set (py_strip (b_url a)). \<not> py_isspace c" using assms(3) by simp
    have "servers_ok (snd (add_server (ax_show e) (ax_now e) (ax_fresh e) a (am_servers s)))"
      by (rule add_server_effect [OF assms(1,2) url surjective_pairing]) (use assms(1) in \<open>auto simp: servers_ok_def\<close>)
    then show ?thesis using assms(1) by (simp add: ServerAdd run_admin_def)
  qed (use assms(1) ops in \<open>simp_all add: run_admin_def cmd_server_remove_def on_config_def backup_restore_calls split: prod.splits\<close>)
  show "\<exists>i keep. c = BackupRestore i True keep
      \<and> is_ok (fst (restore_backup (ue_backup (ax_update e)) i True (JInt keep) True (uh_config (am_update s))))"
    if "am_calls (snd (run_admin e c s)) \<noteq> am_calls s"
    using that by (cases c) (auto simp: run_admin_def cmd_server_remove_def on_config_def backup_restore_calls split: if_splits prod.splits)
qed

end
