(* ===== verification/Spec2Isabelle.thy ===== *)
theory Spec2Isabelle
  imports Health SelfHeal Pairing Relay RelayClient P2P PairingServer Window Launcher Daemon Control Json MultiServer Archive Backup
    UpdatePackage Update NatDiscovery Discovery Diagnostics Doctor Metrics Dashboard Agent
    RelayService Console Administration
begin

text \<open>
  A verification development for GE360 Bridge, a Python program that publishes backends of the local
  machine to devices over WireGuard. It models the program's own logic (\<open>src/ge360_bridge/\<close>) as
  functions and records of HOL, translated from the source function by function, and proves what
  makes each part correct. The text at the head of each theory says what it holds.

  \<^bold>\<open>The parts and how they interact.\<close> The registry (\<open>core.py\<close>) keeps devices, Resources and
  groups in JSON files and decides which device may use which Resource. Pairing adds devices to it;
  the command line edits it, renders the WireGuard configuration from it and restarts the daemon,
  which opens one listener per Resource and asks the registry's decision for every connection. The
  pairing endpoint serves enrollment and NAT traversal over HTTPS; the relay forwards datagrams for
  devices that cannot be reached directly and learns its devices from the registry; health checks,
  self-healing, diagnostics and the connection doctor observe backends; discovery proposes new ones.
  Backup and update save and replace configuration and software. The multi-server catalog merges
  what several bridges and agents publish.

  \<^bold>\<open>Theories and sources.\<close>
  \<^item> \<open>Prelude\<close>, \<open>PyNum\<close>, \<open>PyNet\<close>, \<open>Json\<close>, \<open>Sha256\<close>, \<open>Archive\<close>, \<open>Window\<close>: what the program uses of
    Python (exceptions as the sum type \<open>res\<close>, strings, integers, floats, dates, addresses, URLs, JSON
    values, SHA-256 and HMAC on bytes, retention of archives, sliding windows).
  \<^item> \<open>Validate\<close>, \<open>Registry\<close>, \<open>RegistryOps\<close>, \<open>Acl\<close> for \<open>core.py\<close>: validators, the stored form and its
    normalisation, every operation that changes a file, the access decision and VPN addresses.
  \<^item> \<open>AuditLog\<close> for \<open>audit.py\<close>; \<open>Pairing\<close> for \<open>pairing.py\<close>; \<open>Control\<close> for the commands of \<open>cli.py\<close> that
    change the registry, the WireGuard configuration and the machine they act on; \<open>Console\<close> for its
    commands that print and its exit codes; \<open>Administration\<close> for its commands on backups, updates,
    registered servers and self-healing.
  \<^item> \<open>Daemon\<close>, \<open>Launcher\<close>, \<open>PairingServer\<close>, \<open>P2P\<close>, \<open>Relay\<close>, \<open>RelayClient\<close>, \<open>Health\<close>, \<open>SelfHeal\<close> for
    \<open>daemon.py\<close>, \<open>launcher.py\<close>, \<open>pairing_server.py\<close>, \<open>p2p.py\<close>, \<open>relay_server.py\<close>, \<open>relay_client.py\<close>,
    \<open>health.py\<close> and \<open>self_healing.py\<close>; \<open>RelayService\<close> for the registry file and the views of the
    relay, and the client's status and monitor loop.
  \<^item> \<open>MultiServer\<close> for \<open>multi_server.py\<close> and \<open>multi_server_server.py\<close>; \<open>Backup\<close> for \<open>backup.py\<close>;
    \<open>UpdatePackage\<close> and \<open>Update\<close> for \<open>update_engine.py\<close>.
  \<^item> \<open>NatDiscovery\<close> for \<open>nat_discovery.py\<close>; \<open>Discovery\<close> for \<open>discovery.py\<close>.
  \<^item> \<open>Diagnostics\<close>, \<open>Doctor\<close>, \<open>Metrics\<close> for \<open>diagnostics.py\<close>, \<open>doctor.py\<close> and \<open>metrics.py\<close>.
  \<^item> \<open>Dashboard\<close> for \<open>dashboard.py\<close>: who is let in, the routes, the forms as actions on the machine of
    \<open>Control\<close>, and the status report.
  \<^item> \<open>Agent\<close> for \<open>agent.py\<close>: the host's figures, the snapshot with its cache, and the read-only interface.

  \<^bold>\<open>How state and operations correspond.\<close> A file of the program is a field of a record (\<open>store\<close>,
  \<open>pairing_state\<close>, \<open>backup_host\<close>, \<open>update_host\<close>), an operation returns its result and the new state,
  and an exception is a value \<open>Inl e\<close>, so every early return and every \<open>raise\<close> is a branch. Where the
  code catches only \<open>BridgeError\<close>, other exceptions pass through the model too. What a server keeps in
  memory (relay sessions, caches, attempt windows) is explicit state, and histories of requests are
  lists or step relations (\<open>machine_reachable\<close> in \<open>Control\<close>, \<open>relay_step\<close> in \<open>Relay\<close>) on which invariants
  are proved by rule induction. Clocks, random values, sockets, processes, archives and what third parties answer
  are arguments; a theorem holds for all their values, or names what it assumes of them.

  \<^bold>\<open>What the lemmas show.\<close> Each component theory has three groups: the operations' effect by cases
  (\<open>..._inv\<close>, \<open>..._cases\<close>, \<open>..._effect\<close>: what each returns and changes on every branch), the
  preservation of the component's invariant (\<open>..._ok\<close>), and frame lemmas. The numbered properties rest
  on them: the access decision and that revoking, disabling and removing end access; the registry and
  enrollment invariants over every sequence of commands; that listeners and the WireGuard
  configuration follow the registry; single use of invitations; that sessions, relaying and
  installing need their authentication; rate limits over any history; round trips of invitations,
  configurations, backups, packages and STUN messages; and that failed operations leave things as
  they were. What is printed does not depend on secrets. The locales are the interfaces: \<open>validator\<close> (validating twice is validating once) is
  interpreted on the validators of the registries, the servers, the update paths and the discovery
  manifests; \<open>registry\<close> (what a list of keyed records gives back after it is saved) on devices,
  Resources and groups; \<open>sliding_window\<close> (at most so many events in any window) on traversal
  sessions, pairing requests and restarts; \<open>bucketing\<close> (samples gathered into buckets of time) on the
  three series of the metrics.

  \<^bold>\<open>Bounds and fuel.\<close> No definition needs fuel: loops of the program are structural recursion over
  the lists they traverse, the attribute loop of STUN has a termination measure (the bytes left) and
  the punching loop recurses on the attempts the code allows. Windows, limits, retention and sizes
  are the constants of the code. Text is a list of characters with codes below 256; floats are exact
  rationals with the three special values.

  \<^bold>\<open>Not modelled.\<close> The HTML of the dashboard's pages; a page is named, with the data it is made
  for. Of \<open>cli.py\<close> the argument parser beyond its choices, the QR code, \<open>bundle_for\<close> (only the unused
  \<open>create_device\<close> of the dashboard calls it) and the commands that are one call of a modelled function
  (NAT, P2P, relay, catalog, server status, metrics sample). TLS, sockets and threads, SQLite, file
  modes and gzip are inputs of the models that use them. The Kotlin client, the shell scripts and
  unit files, the script that calls \<open>build_update_package\<close>, and the version constant are left out.
\<close>

end
